(* ===== verification/Prelude.thy ===== *)
theory Prelude
  imports Complex_Main
begin

text \<open>
  Shared vocabulary of the DARK XRAY development.

  \<^item> \<open>err\<close> and \<open>res\<close>: the exceptions the Python code raises, as values of a sum type.
  \<^item> \<open>pyval\<close>: a dynamically typed Python/JSON value, for the code that inspects the type of
    its input (\<open>isinstance\<close>, \<open>type(x) is int\<close>).
  \<^item> tables: an SQLite table is the list of its rows in \<open>rowid\<close> order; \<open>lookup\<close>,
    \<open>update_where\<close>, \<open>delete_where\<close>, \<open>upsert\<close> and \<open>sum_where\<close> are the SQL statements used.
  \<^item> locales: a keyed table, a machine whose steps preserve an invariant, a register
    fenced by a high-water mark, and a log that refuses to apply an event twice.
\<close>

named_theorems tables \<open>equations of the table operations\<close>
named_theorems results \<open>case analysis of operations that may raise\<close>

section \<open>Exceptions and results\<close>

text \<open>
  \<open>PermissionDenied\<close> is a subclass of \<open>PolicyError\<close> in the code (see \<open>is_policy_error\<close>).
  \<open>CoreError\<close> and \<open>HttpError\<close> carry the HTTP status; \<open>IntegrityError\<close> is the exception
  SQLite raises for a violated primary key; \<open>OtherError\<close> is any other Python exception.
\<close>

datatype err =
    PolicyError string
  | PermissionDenied string
  | IntegrityError string
  | CoreError string int
  | HttpError string int
  | OtherError string

type_synonym 'a res = "err + 'a"

fun is_policy_error :: "err \<Rightarrow> bool" where
  "is_policy_error (PolicyError _) = True"
| "is_policy_error (PermissionDenied _) = True"
| "is_policy_error _ = False"

fun err_message :: "err \<Rightarrow> string" where
  "err_message (PolicyError m) = m"
| "err_message (PermissionDenied m) = m"
| "err_message (IntegrityError m) = m"
| "err_message (CoreError m _) = m"
| "err_message (HttpError m _) = m"
| "err_message (OtherError m) = m"

text \<open>Sequencing: an exception skips the rest of the body.\<close>

fun rbind :: "'a res \<Rightarrow> ('a \<Rightarrow> 'b res) \<Rightarrow> 'b res" where
  "rbind (Inl e) f = Inl e"
| "rbind (Inr x) f = f x"

lemma rbind_Inr [results]: "rbind m f = Inr y \<longleftrightarrow> (\<exists>x. m = Inr x \<and> f x = Inr y)"
  by (cases m) auto

lemma rbind_Inl [results]:
  "rbind m f = Inl e \<longleftrightarrow> m = Inl e \<or> (\<exists>x. m = Inr x \<and> f x = Inl e)"
  by (cases m) auto

lemma rbind_cong [fundef_cong]:
  "m = m' \<Longrightarrow> (\<And>x. m' = Inr x \<Longrightarrow> f x = f' x) \<Longrightarrow> rbind m f = rbind m' f'"
  by (cases m') auto

fun ok :: "'a res \<Rightarrow> bool" where
  "ok (Inl _) = False"
| "ok (Inr _) = True"

lemma ok_iff [results]: "ok r \<longleftrightarrow> (\<exists>x. r = Inr x)"
  by (cases r) auto

text \<open>
  A statement that raises when its guard fails, for the code's
  \<open>if not guard: raise exc\<close>.
\<close>

definition ensure :: "bool \<Rightarrow> err \<Rightarrow> unit res" where
  "ensure b e = (if b then Inr () else Inl e)"

lemma ensure_Inr [results, simp]: "ensure b e = Inr u \<longleftrightarrow> b"
  by (simp add: ensure_def)

lemma ensure_Inl [results, simp]: "ensure b e = Inl e' \<longleftrightarrow> \<not> b \<and> e' = e"
  by (auto simp: ensure_def)

lemma rbind_ensure [simp]: "rbind (ensure b e) f = (if b then f () else Inl e)"
  by (simp add: ensure_def)

text \<open>
  \<open>Store.transaction\<close> (dark_policy.py): the body's writes are committed when it returns and
  rolled back when it raises, also for a nested savepoint.
\<close>

definition transaction :: "('s \<Rightarrow> ('s \<times> 'a) res) \<Rightarrow> 's \<Rightarrow> 's \<times> 'a res" where
  "transaction body s =
     (case body s of Inl e \<Rightarrow> (s, Inl e) | Inr (s', x) \<Rightarrow> (s', Inr x))"

lemma transaction_Inr:
  "transaction body s = (s', Inr x) \<longleftrightarrow> body s = Inr (s', x)"
  by (auto simp: transaction_def split: sum.splits)

lemma transaction_Inl:
  "transaction body s = (s', Inl e) \<longleftrightarrow> s' = s \<and> body s = Inl e"
  by (auto simp: transaction_def split: sum.splits)

section \<open>Python values\<close>

datatype pyval =
    PNone
  | PBool bool
  | PInt int
  | PFloat real
  | PStr string
  | PList "pyval list"
  | PDict "(string \<times> pyval) list"

text \<open>\<open>d.get(k)\<close> on a dict value: \<open>None\<close> when the key is absent.\<close>

fun pyget :: "(string \<times> pyval) list \<Rightarrow> string \<Rightarrow> pyval" where
  "pyget d k = (case map_of d k of None \<Rightarrow> PNone | Some v \<Rightarrow> v)"

definition pyget_or :: "(string \<times> pyval) list \<Rightarrow> string \<Rightarrow> pyval \<Rightarrow> pyval" where
  "pyget_or d k v = (case map_of d k of None \<Rightarrow> v | Some w \<Rightarrow> w)"

definition keys_are :: "(string \<times> pyval) list \<Rightarrow> string list \<Rightarrow> bool" where
  "keys_are d ks \<longleftrightarrow> set (map fst d) = set ks"

fun truthy :: "pyval \<Rightarrow> bool" where
  "truthy PNone = False"
| "truthy (PBool b) = b"
| "truthy (PInt i) = (i \<noteq> 0)"
| "truthy (PFloat r) = (r \<noteq> 0)"
| "truthy (PStr s) = (s \<noteq> [])"
| "truthy (PList xs) = (xs \<noteq> [])"
| "truthy (PDict d) = (d \<noteq> [])"

text \<open>\<open>a == b\<close>: Python compares \<open>bool\<close>, \<open>int\<close> and \<open>float\<close> by their numeric value.\<close>

fun numeric :: "pyval \<Rightarrow> real option" where
  "numeric (PBool b) = Some (if b then 1 else 0)"
| "numeric (PInt i) = Some (of_int i)"
| "numeric (PFloat r) = Some r"
| "numeric _ = None"

definition pyeq :: "pyval \<Rightarrow> pyval \<Rightarrow> bool" where
  "pyeq a b = (if numeric a = None \<or> numeric b = None then a = b else numeric a = numeric b)"

text \<open>\<open>str(i)\<close> of an integer.\<close>

fun show_nat :: "nat \<Rightarrow> string" where
  "show_nat n = (if n < 10 then [''0123456789'' ! n]
                 else show_nat (n div 10) @ [''0123456789'' ! (n mod 10)])"

declare show_nat.simps [simp del]

definition show_int :: "int \<Rightarrow> string" where
  "show_int i = (if i < 0 then ''-'' @ show_nat (nat (- i)) else show_nat (nat i))"

definition max_int :: int where
  "max_int = 2 ^ 63 - 1"

lemma max_int_val: "max_int = 9223372036854775807"
  by (simp add: max_int_def)

definition int_of_bool :: "bool \<Rightarrow> int" where
  "int_of_bool b = (if b then 1 else 0)"

section \<open>Tables\<close>

fun lookup :: "('r \<Rightarrow> 'k) \<Rightarrow> 'k \<Rightarrow> 'r list \<Rightarrow> 'r option" where
  "lookup key k [] = None"
| "lookup key k (r # t) = (if key r = k then Some r else lookup key k t)"

definition has_key :: "('r \<Rightarrow> 'k) \<Rightarrow> 'k \<Rightarrow> 'r list \<Rightarrow> bool" where
  "has_key key k t = (lookup key k t \<noteq> None)"

definition update_where :: "('r \<Rightarrow> bool) \<Rightarrow> ('r \<Rightarrow> 'r) \<Rightarrow> 'r list \<Rightarrow> 'r list" where
  "update_where P f t = map (\<lambda>r. if P r then f r else r) t"

definition delete_where :: "('r \<Rightarrow> bool) \<Rightarrow> 'r list \<Rightarrow> 'r list" where
  "delete_where P t = filter (\<lambda>r. \<not> P r) t"

definition modify :: "('r \<Rightarrow> 'k) \<Rightarrow> 'k \<Rightarrow> ('r \<Rightarrow> 'r) \<Rightarrow> 'r list \<Rightarrow> 'r list" where
  "modify key k f t = update_where (\<lambda>r. key r = k) f t"

definition remove_key :: "('r \<Rightarrow> 'k) \<Rightarrow> 'k \<Rightarrow> 'r list \<Rightarrow> 'r list" where
  "remove_key key k t = delete_where (\<lambda>r. key r = k) t"

text \<open>\<open>INSERT\<close> with a primary key: an existing key raises \<open>sqlite3.IntegrityError\<close>.\<close>

definition insert_pk :: "('r \<Rightarrow> 'k) \<Rightarrow> 'r \<Rightarrow> 'r list \<Rightarrow> 'r list res" where
  "insert_pk key r t =
     (if has_key key (key r) t then Inl (IntegrityError ''UNIQUE constraint failed'')
      else Inr (t @ [r]))"

text \<open>\<open>INSERT ... ON CONFLICT(key) DO UPDATE SET ...\<close>.\<close>

definition upsert :: "('r \<Rightarrow> 'k) \<Rightarrow> 'r \<Rightarrow> ('r \<Rightarrow> 'r) \<Rightarrow> 'r list \<Rightarrow> 'r list" where
  "upsert key r f t =
     (if has_key key (key r) t then modify key (key r) f t else t @ [r])"

definition insert_or_ignore :: "('r \<Rightarrow> 'k) \<Rightarrow> 'r \<Rightarrow> 'r list \<Rightarrow> 'r list" where
  "insert_or_ignore key r t = upsert key r (\<lambda>x. x) t"

definition sum_where :: "('r \<Rightarrow> bool) \<Rightarrow> ('r \<Rightarrow> int) \<Rightarrow> 'r list \<Rightarrow> int" where
  "sum_where P f t = sum_list (map f (filter P t))"

definition count_where :: "('r \<Rightarrow> bool) \<Rightarrow> 'r list \<Rightarrow> int" where
  "count_where P t = sum_where P (\<lambda>_. 1) t"

definition pk :: "('r \<Rightarrow> 'k) \<Rightarrow> 'r list \<Rightarrow> bool" where
  "pk key t = distinct (map key t)"

subsection \<open>Equations\<close>

lemma lookup_Some_mem: "lookup key k t = Some r \<Longrightarrow> r \<in> set t \<and> key r = k"
  by (induction t) (auto split: if_splits)

lemma lookup_None_iff: "lookup key k t = None \<longleftrightarrow> (\<forall>r \<in> set t. key r \<noteq> k)"
  by (induction t) auto

lemma lookup_append [tables]:
  "lookup key k (t @ u) = (case lookup key k t of None \<Rightarrow> lookup key k u | Some r \<Rightarrow> Some r)"
  by (induction t) auto

lemma lookup_eq_Some_iff:
  "pk key t \<Longrightarrow> lookup key k t = Some r \<longleftrightarrow> r \<in> set t \<and> key r = k"
  by (induction t) (auto simp: pk_def)

lemma lookup_modify [tables]:
  assumes "\<And>r. key r = k \<Longrightarrow> key (f r) = key r"
  shows "lookup key k' (modify key k f t) =
    (if k' = k then map_option f (lookup key k t) else lookup key k' t)"
  using assms by (induction t) (auto simp: modify_def update_where_def)

lemma lookup_remove_key [tables]:
  "lookup key k' (remove_key key k t) = (if k' = k then None else lookup key k' t)"
  by (induction t) (auto simp: remove_key_def delete_where_def)

lemma lookup_update_where:
  assumes "\<And>r. P r \<Longrightarrow> key (f r) = key r"
  shows "lookup key k (update_where P f t) =
    map_option (\<lambda>r. if P r then f r else r) (lookup key k t)"
  using assms by (induction t) (auto simp: update_where_def)

lemma has_key_append [tables]: "has_key key k (t @ u) = (has_key key k t \<or> has_key key k u)"
  by (auto simp: has_key_def lookup_append split: option.splits)

lemma has_key_singleton [tables]: "has_key key k [r] = (key r = k)"
  by (simp add: has_key_def)

lemma lookup_upsert [tables]:
  assumes "\<And>x. key x = key r \<Longrightarrow> key (f x) = key x"
  shows "lookup key k (upsert key r f t) =
    (if k = key r then (case lookup key k t of None \<Rightarrow> Some r | Some x \<Rightarrow> Some (f x))
     else lookup key k t)"
  using assms
  by (auto simp: upsert_def has_key_def lookup_modify lookup_append split: option.splits)

lemma insert_pk_Inr [results]:
  "insert_pk key r t = Inr t' \<longleftrightarrow> \<not> has_key key (key r) t \<and> t' = t @ [r]"
  by (auto simp: insert_pk_def)

lemma pk_append: "pk key (t @ [r]) \<longleftrightarrow> pk key t \<and> \<not> has_key key (key r) t"
  by (auto simp: pk_def has_key_def lookup_None_iff image_iff)

lemma pk_modify:
  assumes "\<And>r. key r = k \<Longrightarrow> key (f r) = key r"
  shows "pk key (modify key k f t) = pk key t"
proof -
  have "map key (modify key k f t) = map key t"
    using assms by (induction t) (auto simp: modify_def update_where_def)
  then show ?thesis by (simp add: pk_def)
qed

lemma pk_update_where:
  assumes "\<And>r. P r \<Longrightarrow> key (f r) = key r"
  shows "pk key (update_where P f t) = pk key t"
proof -
  have "map key (update_where P f t) = map key t"
    using assms by (induction t) (auto simp: update_where_def)
  then show ?thesis by (simp add: pk_def)
qed

lemma pk_delete_where: "pk key t \<Longrightarrow> pk key (delete_where P t)"
  by (simp add: pk_def delete_where_def distinct_map_filter)

lemma pk_remove_key: "pk key t \<Longrightarrow> pk key (remove_key key k t)"
  by (simp add: remove_key_def pk_delete_where)

lemma pk_upsert:
  assumes "\<And>x. key x = key r \<Longrightarrow> key (f x) = key x"
  shows "pk key (upsert key r f t) = pk key t"
  using assms by (auto simp: upsert_def pk_modify pk_append)

lemma sum_where_Nil [simp]: "sum_where P f [] = 0"
  by (simp add: sum_where_def)

lemma sum_where_Cons [simp]: "sum_where P f (r # t) = (if P r then f r else 0) + sum_where P f t"
  by (simp add: sum_where_def)

lemma sum_where_append [simp]: "sum_where P f (t @ u) = sum_where P f t + sum_where P f u"
  by (simp add: sum_where_def)

lemma count_where_simps [simp]:
  "count_where P [] = 0"
  "count_where P (r # t) = (if P r then 1 else 0) + count_where P t"
  "count_where P (t @ u) = count_where P t + count_where P u"
  by (simp_all add: count_where_def)

lemma sum_where_nonneg: "(\<And>r. r \<in> set t \<Longrightarrow> P r \<Longrightarrow> 0 \<le> f r) \<Longrightarrow> 0 \<le> sum_where P f t"
  by (induction t) auto

lemma count_where_nonneg [simp]: "0 \<le> count_where P t"
  by (simp add: count_where_def sum_where_nonneg)

text \<open>Rewriting one keyed row changes a sum by that row's difference.\<close>

lemma sum_where_modify:
  assumes "pk key t" and "lookup key k t = Some r"
  shows "sum_where P f (modify key k g t) =
    sum_where P f t - (if P r then f r else 0) + (if P (g r) then f (g r) else 0)"
  using assms
proof (induction t)
  case Nil
  then show ?case by simp
next
  case (Cons x t)
  show ?case
  proof (cases "key x = k")
    case True
    with Cons.prems have "modify key k g t = t" and "x = r"
      by (auto simp: pk_def modify_def update_where_def image_iff intro!: map_idI)
    with True show ?thesis by (simp add: modify_def update_where_def)
  next
    case False
    with Cons show ?thesis by (simp add: pk_def modify_def update_where_def)
  qed
qed

lemma sum_where_remove_key:
  assumes "pk key t" and "lookup key k t = Some r"
  shows "sum_where P f (remove_key key k t) = sum_where P f t - (if P r then f r else 0)"
  using assms
proof (induction t)
  case Nil
  then show ?case by simp
next
  case (Cons x t)
  show ?case
  proof (cases "key x = k")
    case True
    with Cons.prems have "remove_key key k t = t" and "x = r"
      by (auto simp: pk_def remove_key_def delete_where_def filter_id_conv image_iff)
    with True show ?thesis by (simp add: remove_key_def delete_where_def)
  next
    case False
    with Cons show ?thesis by (simp add: pk_def remove_key_def delete_where_def)
  qed
qed

lemma set_modify: "r \<in> set (modify key k f t) \<Longrightarrow>
  \<exists>x \<in> set t. r = (if key x = k then f x else x)"
  by (auto simp: modify_def update_where_def)

lemma set_upsert: "r \<in> set (upsert key x f t) \<Longrightarrow>
  r = x \<or> (\<exists>y \<in> set t. r = (if key y = key x then f y else y))"
  by (auto simp: upsert_def has_key_def lookup_None_iff dest!: set_modify split: if_splits)

lemma set_delete_where [simp]: "set (delete_where P t) = {r \<in> set t. \<not> P r}"
  by (auto simp: delete_where_def)

lemma set_remove_key [simp]: "set (remove_key key k t) = {r \<in> set t. key r \<noteq> k}"
  by (simp add: remove_key_def)

section \<open>Interfaces\<close>

subsection \<open>A keyed table\<close>

text \<open>
  What the components rely on when they address a table by its primary key. The
  components' tables are instances of \<open>lookup\<close>, \<open>modify\<close> and \<open>remove_key\<close>.
\<close>

locale keyed_store =
  fixes find :: "'k \<Rightarrow> 't \<Rightarrow> 'r option"
    and change :: "'k \<Rightarrow> ('r \<Rightarrow> 'r) \<Rightarrow> 't \<Rightarrow> 't"
    and drop_key :: "'k \<Rightarrow> 't \<Rightarrow> 't"
    and keeps :: "('r \<Rightarrow> 'r) \<Rightarrow> bool"
  assumes find_change: "keeps f \<Longrightarrow>
      find k' (change k f t) = (if k' = k then map_option f (find k t) else find k' t)"
    and find_drop: "find k' (drop_key k t) = (if k' = k then None else find k' t)"
begin

lemma find_change_same: "keeps f \<Longrightarrow> find k t = Some r \<Longrightarrow> find k (change k f t) = Some (f r)"
  by (simp add: find_change)

lemma find_change_other: "keeps f \<Longrightarrow> k' \<noteq> k \<Longrightarrow> find k' (change k f t) = find k' t"
  by (simp add: find_change)

lemma find_change_twice: "keeps f \<Longrightarrow> keeps g \<Longrightarrow>
  find k' (change k g (change k f t)) =
    (if k' = k then map_option (g \<circ> f) (find k t) else find k' t)"
  by (simp add: find_change option.map_comp)

lemma find_drop_change: "keeps f \<Longrightarrow> find k' (drop_key k (change k f t)) = find k' (drop_key k t)"
  by (simp add: find_change find_drop)

end

interpretation table: keyed_store "lookup key" "modify key" "remove_key key" "\<lambda>f. \<forall>r. key (f r) = key r"
  for key :: "'r \<Rightarrow> 'k"
  by unfold_locales (simp_all add: lookup_modify lookup_remove_key)

subsection \<open>A machine with an invariant\<close>

fun run_steps :: "('op \<Rightarrow> 's \<Rightarrow> 's) \<Rightarrow> 'op list \<Rightarrow> 's \<Rightarrow> 's" where
  "run_steps step [] s = s"
| "run_steps step (x # xs) s = run_steps step xs (step x s)"

lemma run_steps_append: "run_steps step (xs @ ys) s = run_steps step ys (run_steps step xs s)"
  by (induction xs arbitrary: s) auto

locale invariant_machine =
  fixes step :: "'op \<Rightarrow> 's \<Rightarrow> 's"
    and inv :: "'s \<Rightarrow> bool"
  assumes step_inv: "inv s \<Longrightarrow> inv (step x s)"
begin

lemma run_inv: "inv s \<Longrightarrow> inv (run_steps step xs s)"
  by (induction xs arbitrary: s) (auto intro: step_inv)

lemma run_prefix_inv: "inv s \<Longrightarrow> inv (run_steps step (take n xs) s)"
  by (rule run_inv)

end

subsection \<open>A register fenced by a high-water mark\<close>

text \<open>
  Several registers of the system only ever move forward (command revisions, desired-state
  revisions, lease sequence numbers). Once a mark is reached, requests below it are refused.
\<close>

locale fenced_register = invariant_machine step inv
  for step :: "'op \<Rightarrow> 's \<Rightarrow> 's" and inv :: "'s \<Rightarrow> bool" +
  fixes mark :: "'s \<Rightarrow> int"
    and stamp :: "'op \<Rightarrow> int option"
  assumes mark_mono: "inv s \<Longrightarrow> mark s \<le> mark (step x s)"
    and mark_fence: "inv s \<Longrightarrow> stamp x = Some n \<Longrightarrow> n < mark s \<Longrightarrow> step x s = s"
begin

lemma run_mark_mono: "inv s \<Longrightarrow> mark s \<le> mark (run_steps step xs s)"
proof (induction xs arbitrary: s)
  case Nil
  then show ?case by simp
next
  case (Cons x xs)
  have "mark s \<le> mark (step x s)" using Cons.prems by (rule mark_mono)
  also have "\<dots> \<le> mark (run_steps step xs (step x s))"
    using Cons.prems by (intro Cons.IH step_inv)
  finally show ?case by simp
qed

lemma delayed_request_refused:
  assumes "inv s" and "stamp x = Some n" and "n < mark s"
  shows "step x (run_steps step xs s) = run_steps step xs s"
proof (rule mark_fence)
  show "inv (run_steps step xs s)" using assms(1) by (rule run_inv)
  show "stamp x = Some n" by fact
  show "n < mark (run_steps step xs s)" using run_mark_mono [OF assms(1), of xs] assms(3) by simp
qed

end

subsection \<open>A log that applies an event once\<close>

text \<open>
  An idempotency key: after an event with key \<open>k\<close> is recorded, no later request with the
  key changes the state.
\<close>

locale once_log =
  fixes apply_event :: "'ev \<Rightarrow> 's \<Rightarrow> 's"
    and key_of :: "'ev \<Rightarrow> 'k"
    and recorded :: "'k \<Rightarrow> 's \<Rightarrow> bool"
  assumes recorded_stays: "recorded k s \<Longrightarrow> recorded k (apply_event x s)"
    and replay_ignored: "recorded (key_of x) s \<Longrightarrow> apply_event x s = s"
    and effect_recorded: "apply_event x s \<noteq> s \<Longrightarrow> recorded (key_of x) (apply_event x s)"
begin

lemma recorded_run: "recorded k s \<Longrightarrow> recorded k (run_steps apply_event xs s)"
  by (induction xs arbitrary: s) (auto intro: recorded_stays)

lemma replay_after_run:
  "recorded (key_of x) s \<Longrightarrow>
   apply_event x (run_steps apply_event xs s) = run_steps apply_event xs s"
  by (intro replay_ignored recorded_run)

lemma apply_twice: "apply_event x (apply_event x s) = apply_event x s"
proof (cases "apply_event x s = s")
  case True
  then show ?thesis by simp
next
  case False
  then show ?thesis by (intro replay_ignored effect_recorded)
qed

end

end
