(* ===== verification/Actor.thy ===== *)
theory Actor
  imports Prelude
begin

text \<open>
  Identities and permission scopes (backend/dark_policy.py): the actor on whose behalf an
  operation runs, the check every Store operation makes first, and the integer and name
  validation it shares.
\<close>

section \<open>Validation of untyped input\<close>

text \<open>\<open>integer(value, minimum, maximum)\<close>: a Python \<open>bool\<close> is an \<open>int\<close>, and is refused.\<close>

fun integer :: "pyval \<Rightarrow> int \<Rightarrow> int \<Rightarrow> int res" where
  "integer (PInt v) lo hi =
     (if lo \<le> v \<and> v \<le> hi then Inr v else Inl (PolicyError ''Expected an integer in range''))"
| "integer v lo hi = Inl (PolicyError ''Expected an integer in range'')"

lemma integer_Inr [results]: "integer v lo hi = Inr i \<longleftrightarrow> v = PInt i \<and> lo \<le> i \<and> i \<le> hi"
  by (cases "(v, lo, hi)" rule: integer.cases) auto

text \<open>\<open>NAME_RE\<close>: one to 128 characters of the class \<open>A-Za-z0-9_.@+-\<close>.\<close>

definition name_char :: "char \<Rightarrow> bool" where
  "name_char c \<longleftrightarrow>
     c \<in> set ''ABCDEFGHIJKLMNOPQRSTUVWXYZabcdefghijklmnopqrstuvwxyz0123456789_.@+-''"

definition valid_name :: "string \<Rightarrow> bool" where
  "valid_name s \<longleftrightarrow> 1 \<le> length s \<and> length s \<le> 128 \<and> list_all name_char s"

section \<open>Actors\<close>

text \<open>The permission dict is an association list; \<open>get\<close> is \<open>map_of\<close>.\<close>

record actor =
  a_id :: string
  a_role :: string
  a_permissions :: "(string \<times> string) list"

definition scope_of :: "(string \<times> string) list \<Rightarrow> string \<Rightarrow> string" where
  "scope_of perms k = (case map_of perms k of None \<Rightarrow> ''none'' | Some v \<Rightarrow> v)"

definition can :: "actor \<Rightarrow> string \<Rightarrow> string \<Rightarrow> string option \<Rightarrow> bool" where
  "can a resource action ow =
     (if a_role a = ''owner'' then True
      else let scope = scope_of (a_permissions a) (resource @ ''.'' @ action)
           in scope = ''all'' \<or> (scope = ''own'' \<and> ow \<noteq> None \<and> ow = Some (a_id a)))"

definition require :: "actor \<Rightarrow> string \<Rightarrow> string \<Rightarrow> string option \<Rightarrow> unit res" where
  "require a resource action ow =
     (if \<not> can a resource action ow
      then Inl (PermissionDenied ''This actor is not authorized for that resource and owner'')
      else Inr ())"

lemma require_Inr [results]: "require a r x ow = Inr u \<longleftrightarrow> can a r x ow"
  by (simp add: require_def)

lemma rbind_require [simp]:
  "rbind (require a r x ow) f =
    (if can a r x ow then f ()
     else Inl (PermissionDenied ''This actor is not authorized for that resource and owner''))"
  by (simp add: require_def)

lemma can_owner [simp]: "a_role a = ''owner'' \<Longrightarrow> can a r x ow"
  by (simp add: can_def)

text \<open>An actor that is not the owner and holds no \<open>all\<close> scope acts on its own records only.\<close>

lemma can_own_only:
  assumes "a_role a \<noteq> ''owner''" and "scope_of (a_permissions a) (r @ ''.'' @ x) \<noteq> ''all''"
  shows "can a r x (Some o') \<Longrightarrow> o' = a_id a"
  using assms by (auto simp: can_def Let_def)

end
