(* ===== verification/Entitlement.thy ===== *)
theory Entitlement
  imports Actor
begin

text \<open>
  Consumable credit (backend/unlimited_credit.py, the pure part): one unit is one IP-user
  for 30 days. An entitlement is a list of disjoint time segments, each with the number of
  IP-users paid for; \<open>cover_segments\<close> buys the capacity a request lacks, and \<open>plan_change\<close> quotes
  the units a change of a client costs.
\<close>

section \<open>Units\<close>

definition day :: int where "day = 86400"

definition month :: int where "month = 30 * day"

definition max_days :: int where "max_days = 3650"

lemma day_pos [simp]: "0 < day" "0 \<le> day"
  by (simp_all add: day_def)

lemma month_val: "month = 2592000"
  by (simp add: month_def day_def)

definition units_for_days :: "pyval \<Rightarrow> pyval \<Rightarrow> int res" where
  "units_for_days ip_limit duration_days =
     rbind (integer ip_limit 1 1000) (\<lambda>ips.
     rbind (integer duration_days 1 max_days) (\<lambda>days.
     Inr ((ips * days + 29) div 30)))"

section \<open>Entitlements\<close>

type_synonym segment = "int \<times> int \<times> int"

record entitlement =
  e_segments :: "segment list"
  e_seconds :: int
  e_units :: int
  e_pending_seconds :: int
  e_pending_ips :: int
  e_legacy_untimed :: bool
  e_legacy_ips :: int

definition empty_entitlement :: entitlement where
  "empty_entitlement = \<lparr>e_segments = [], e_seconds = 0, e_units = 0, e_pending_seconds = 0,
     e_pending_ips = 0, e_legacy_untimed = False, e_legacy_ips = 0\<rparr>"

section \<open>Buying uncovered capacity\<close>

text \<open>
  The loop of \<open>_cover\<close> over consecutive pairs of sorted interval endpoints. \<open>merged\<close> grows at
  its end, a piece with the same level as its left neighbour extends it.
\<close>

definition clip_segments :: "int \<Rightarrow> segment list \<Rightarrow> segment list" where
  "clip_segments start segments =
     map (\<lambda>(a, b, n). (max start a, b, n)) (filter (\<lambda>(a, b, n). start < b \<and> 0 < n) segments)"

definition cover_points :: "int \<Rightarrow> int \<Rightarrow> segment list \<Rightarrow> int list" where
  "cover_points start stop segments =
     sort (remdups (start # stop # concat (map (\<lambda>(a, b, n). [a, b]) segments)))"

definition level_between :: "segment list \<Rightarrow> int \<Rightarrow> int \<Rightarrow> int" where
  "level_between segments a b =
     foldr max (map (\<lambda>(l, r, n). n) (filter (\<lambda>(l, r, n). l \<le> a \<and> b \<le> r) segments)) 0"

definition merge_piece :: "segment list \<Rightarrow> int \<Rightarrow> int \<Rightarrow> int \<Rightarrow> segment list" where
  "merge_piece merged a b new =
     (if new = 0 then merged
      else if merged \<noteq> [] \<and> fst (snd (last merged)) = a \<and> snd (snd (last merged)) = new
      then butlast merged @ [(fst (last merged), b, new)]
      else merged @ [(a, b, new)])"

fun cover_loop ::
  "segment list \<Rightarrow> int \<Rightarrow> int \<Rightarrow> int \<Rightarrow> int list \<Rightarrow> segment list \<Rightarrow> int \<Rightarrow> segment list \<times> int" where
  "cover_loop segments start stop ips (a # b # points) merged added =
     (if b \<le> a then cover_loop segments start stop ips (b # points) merged added
      else let old = level_between segments a b;
               requested = (if start \<le> a \<and> b \<le> stop then ips else 0);
               new = max old requested
           in cover_loop segments start stop ips (b # points) (merge_piece merged a b new)
                (added + max 0 (requested - old) * (b - a)))"
| "cover_loop segments start stop ips points merged added = (merged, added)"

definition cover_segments :: "segment list \<Rightarrow> int \<Rightarrow> int \<Rightarrow> int \<Rightarrow> (segment list \<times> int) res" where
  "cover_segments segments0 start stop ips =
     (let segments = clip_segments start segments0;
          (merged, added) =
            cover_loop segments start stop ips (cover_points start stop segments) [] 0
      in if 4096 < length merged
         then Inl (PolicyError ''Too many unlimited entitlement changes; contact the Owner'')
         else Inr (merged, added))"

section \<open>Quoting a change\<close>

definition ceil_units :: "int \<Rightarrow> int" where
  "ceil_units seconds = (seconds + month - 1) div month"

text \<open>The common end of \<open>plan_change\<close>: charge the added seconds, cumulatively rounded up.\<close>

definition charge_added :: "int \<Rightarrow> entitlement \<Rightarrow> int \<Rightarrow> (entitlement \<times> int) res" where
  "charge_added old_units out added =
     rbind (integer (PInt (e_seconds out + added)) 0 max_int) (\<lambda>seconds.
     let units = ceil_units seconds
     in Inr (out\<lparr>e_seconds := seconds, e_units := units\<rparr>, max 0 (units - old_units)))"

text \<open>Giving a pending or legacy entitlement its start time, before it is extended.\<close>

definition start_legacy :: "int \<Rightarrow> int \<Rightarrow> entitlement \<Rightarrow> entitlement" where
  "start_legacy now expires_at out =
     (if e_legacy_untimed out
      then out\<lparr>e_segments := [(now, max now expires_at,
                 if e_legacy_ips out = 0 then 1000 else e_legacy_ips out)],
               e_legacy_untimed := False\<rparr>
      else out)"

definition start_pending :: "int \<Rightarrow> entitlement \<Rightarrow> entitlement" where
  "start_pending now out =
     (if e_pending_seconds out \<noteq> 0
      then out\<lparr>e_segments := [(now, now + e_pending_seconds out, e_pending_ips out)],
               e_pending_seconds := 0, e_pending_ips := 0\<rparr>
      else out)"

definition plan_change ::
  "entitlement option \<Rightarrow> pyval \<Rightarrow> pyval \<Rightarrow> pyval \<Rightarrow> int \<Rightarrow> pyval \<Rightarrow> bool
   \<Rightarrow> (entitlement \<times> int) res" where
  "plan_change state quota_bytes ip_limit expires_at now duration_days creation =
     rbind (integer quota_bytes 0 max_int) (\<lambda>quota.
     rbind (integer ip_limit 0 1000) (\<lambda>ips.
     rbind (integer expires_at 0 max_int) (\<lambda>expires.
     let out = (case state of Some e \<Rightarrow> e | None \<Rightarrow> empty_entitlement);
         old_units = e_units out
     in if 0 < quota
        then Inr (out\<lparr>e_segments := [], e_pending_seconds := 0, e_pending_ips := 0,
                      e_legacy_untimed := False\<rparr>, 0)
        else if ips = 0
        then Inl (PolicyError ''Unlimited-traffic service requires a finite IP-user count'')
        else
     rbind (if duration_days = PNone then Inr 0 else integer duration_days 1 max_days) (\<lambda>days.
     if creation \<and> expires = 0
     then (if duration_days = PNone
           then Inl (PolicyError ''Unlimited service requires a finite duration'')
           else let seconds = days * day in
             rbind (units_for_days (PInt ips) (PInt days)) (\<lambda>units.
             Inr (out\<lparr>e_pending_seconds := seconds, e_pending_ips := ips,
                      e_seconds := seconds * ips, e_units := units\<rparr>, units)))
     else if expires = 0
     then (let pending = e_pending_seconds out in
           if pending = 0
           then Inl (PolicyError ''Unlimited time is not supported by user-month credit'')
           else charge_added old_units
                  (out\<lparr>e_pending_ips := max ips (e_pending_ips out)\<rparr>)
                  (max 0 (ips - e_pending_ips out) * pending))
     else if creation \<and> expires \<le> now
     then Inl (PolicyError ''Unlimited service expiration must be in the future'')
     else if max_days * day + day < expires - now
     then Inl (PolicyError ''Unlimited duration exceeds the supported range'')
     else let out1 = start_pending now (start_legacy now expires out) in
       rbind (cover_segments (e_segments out1) now (max now expires) ips) (\<lambda>(segs, added).
       charge_added old_units (out1\<lparr>e_segments := segs\<rparr>) added)))))"

section \<open>What a cover buys\<close>

text \<open>
  The reference reading of a segment list: \<open>capacity S t\<close> is the number of IP-users paid for
  in second \<open>t\<close>. A cover must raise it to the requested number everywhere in the requested
  interval, lower it nowhere, and charge exactly the missing user-seconds.
\<close>

definition capacity :: "segment list \<Rightarrow> int \<Rightarrow> int" where
  "capacity S t = level_between S t (t + 1)"

definition requested_at :: "int \<Rightarrow> int \<Rightarrow> int \<Rightarrow> int \<Rightarrow> int" where
  "requested_at start stop ips t = (if start \<le> t \<and> t < stop then ips else 0)"

definition wf_segments :: "segment list \<Rightarrow> bool" where
  "wf_segments S \<longleftrightarrow> sorted_wrt (\<lambda>(a, b, n) (a', b', n'). b \<le> a') S \<and>
     (\<forall>(a, b, n) \<in> set S. a < b \<and> 0 < n)"

lemma level_between_simps [simp]:
  "level_between [] a b = 0"
  "level_between ((l, r, n) # S) a b =
    (if l \<le> a \<and> b \<le> r then max n (level_between S a b) else level_between S a b)"
  by (simp_all add: level_between_def)

lemma level_between_nonneg [simp]: "0 \<le> level_between S a b"
  by (induction S) auto

lemma level_between_max [simp]: "n \<le> 0 \<Longrightarrow> max n (level_between S a b) = level_between S a b"
  by (rule max_absorb2) (rule order_trans [OF _ level_between_nonneg])

lemma level_between_append [simp]:
  "level_between (S @ T) a b = max (level_between S a b) (level_between T a b)"
  by (induction S) auto

lemma capacity_nonneg [simp]: "0 \<le> capacity S t"
  by (simp add: capacity_def)

lemma capacity_append: "capacity (S @ T) t = max (capacity S t) (capacity T t)"
  by (simp add: capacity_def)

lemma capacity_single: "capacity [(l, r, n)] t = (if l \<le> t \<and> t < r then max n 0 else 0)"
  by (simp add: capacity_def)

lemma capacity_outside: "(\<And>l r n. (l, r, n) \<in> set S \<Longrightarrow> r \<le> t \<or> t < l) \<Longrightarrow> capacity S t = 0"
  by (induction S) (force simp: capacity_def)+

text \<open>No segment starts or ends strictly inside \<open>a..b\<close>, so its level is constant there.\<close>

lemma level_between_constant:
  assumes "\<And>l r n. (l, r, n) \<in> set S \<Longrightarrow> (l \<le> a \<or> b \<le> l) \<and> (r \<le> a \<or> b \<le> r)"
    and "a \<le> t" and "t < b"
  shows "level_between S a b = capacity S t"
  using assms
proof (induction S)
  case Nil
  then show ?case by (simp add: capacity_def)
next
  case (Cons s S)
  obtain l r n where s: "s = (l, r, n)" by (cases s)
  have "(l \<le> a \<or> b \<le> l) \<and> (r \<le> a \<or> b \<le> r)" using Cons.prems(1) [of l r n] s by simp
  then have "(l \<le> a \<and> b \<le> r) = (l \<le> t \<and> t + 1 \<le> r)" using Cons.prems(2,3) by auto
  moreover have "level_between S a b = capacity S t"
    by (rule Cons.IH) (use Cons.prems in auto)
  ultimately show ?case by (simp add: s capacity_def)
qed

definition ends_by :: "segment list \<Rightarrow> int \<Rightarrow> bool" where
  "ends_by S p \<longleftrightarrow> (\<forall>(l, r, n) \<in> set S. l < r \<and> r \<le> p)"

lemma ends_by_append [simp]: "ends_by (S @ T) p \<longleftrightarrow> ends_by S p \<and> ends_by T p"
  by (simp add: ends_by_def ball_Un)

lemma ends_by_single [simp]: "ends_by [(l, r, n)] p \<longleftrightarrow> l < r \<and> r \<le> p"
  by (simp add: ends_by_def)

lemma ends_by_mono: "ends_by S p \<Longrightarrow> p \<le> q \<Longrightarrow> ends_by S q"
  by (fastforce simp: ends_by_def)

lemma ends_by_capacity: "ends_by S p \<Longrightarrow> p \<le> t \<Longrightarrow> capacity S t = 0"
  by (intro capacity_outside) (fastforce simp: ends_by_def)

lemma wf_segments_snoc:
  "ends_by S a \<Longrightarrow> wf_segments (S @ [(a, b, n)]) \<longleftrightarrow> wf_segments S \<and> a < b \<and> 0 < n"
  by (auto simp: wf_segments_def sorted_wrt_append ends_by_def)

lemma merge_piece_cases:
  obtains (extend) ms l where "merged = ms @ [(l, a, new)]" "new \<noteq> 0"
      "merge_piece merged a b new = ms @ [(l, b, new)]"
    | (skip) "new = 0" "merge_piece merged a b new = merged"
    | (append) "new \<noteq> 0" "merge_piece merged a b new = merged @ [(a, b, new)]"
proof (cases "new \<noteq> 0 \<and> merged \<noteq> [] \<and> fst (snd (last merged)) = a \<and> snd (snd (last merged)) = new")
  case True
  then obtain ms l where m: "merged = ms @ [(l, a, new)]"
    by (cases merged rule: rev_cases) auto
  with True show thesis by (intro extend [of ms l]) (auto simp: merge_piece_def)
next
  case False
  then show thesis by (cases "new = 0") (auto simp: merge_piece_def intro: skip append)
qed

lemma merge_piece_capacity:
  assumes "a < b" and "0 \<le> new" and "ends_by merged a"
  shows "capacity (merge_piece merged a b new) t =
    (if a \<le> t \<and> t < b then new else capacity merged t)"
proof (cases merged a b new rule: merge_piece_cases)
  case (extend ms l)
  then have "capacity ms t = 0" if "a \<le> t" using assms(3) that ends_by_capacity [of ms a t] by simp
  with extend assms show ?thesis by (auto simp: capacity_append capacity_single)
next
  case skip
  then show ?thesis using ends_by_capacity [OF assms(3)] by simp
next
  case append
  then show ?thesis using assms ends_by_capacity [OF assms(3)]
    by (auto simp: capacity_append capacity_single)
qed

lemma wf_segments_extend:
  "wf_segments (S @ [(l, a, n)]) \<Longrightarrow> a < b \<Longrightarrow> wf_segments (S @ [(l, b, n)])"
  by (auto simp: wf_segments_def sorted_wrt_append)

lemma merge_piece_wf:
  assumes "wf_segments merged" and "ends_by merged a" and "a < b" and "0 \<le> new"
  shows "wf_segments (merge_piece merged a b new)" and "ends_by (merge_piece merged a b new) b"
proof -
  note facts = ends_by_mono [OF assms(2) less_imp_le [OF assms(3)]] assms
  have "wf_segments (merge_piece merged a b new) \<and> ends_by (merge_piece merged a b new) b"
  proof (cases merged a b new rule: merge_piece_cases)
    case (extend ms l)
    then show ?thesis using facts wf_segments_extend [of ms l a new b] by simp
  next
    case skip
    then show ?thesis using facts by simp
  next
    case append
    then show ?thesis using facts by (simp add: wf_segments_snoc)
  qed
  then show "wf_segments (merge_piece merged a b new)"
    and "ends_by (merge_piece merged a b new) b" by simp_all
qed

lemma sum_ivl_split:
  fixes f :: "int \<Rightarrow> int"
  assumes "a \<le> b" and "b \<le> c"
  shows "sum f {a..<c} = sum f {a..<b} + sum f {b..<c}"
proof -
  have "{a..<c} = {a..<b} \<union> {b..<c}" using assms by auto
  then show ?thesis by (simp add: sum.union_disjoint)
qed

lemma sum_ivl_const:
  fixes f :: "int \<Rightarrow> int"
  assumes "\<And>t. a \<le> t \<Longrightarrow> t < b \<Longrightarrow> f t = c" and "a \<le> b"
  shows "sum f {a..<b} = c * (b - a)"
proof -
  have "sum f {a..<b} = (\<Sum>t\<in>{a..<b}. c)" using assms(1) by (intro sum.cong) auto
  then show ?thesis using assms(2) by simp
qed

text \<open>
  The loop, from any of its points on. \<open>B\<close> collects the places where the capacity or the
  request can change: each of them is passed already or is a point still to come.
\<close>

definition missing_at :: "segment list \<Rightarrow> int \<Rightarrow> int \<Rightarrow> int \<Rightarrow> int \<Rightarrow> int" where
  "missing_at segments start stop ips t =
     max 0 (requested_at start stop ips t - capacity segments t)"

definition breaks :: "segment list \<Rightarrow> int \<Rightarrow> int \<Rightarrow> int set" where
  "breaks segments start stop = {start, stop} \<union> (\<Union>(l, r, n) \<in> set segments. {l, r})"

definition breaks_known :: "segment list \<Rightarrow> int \<Rightarrow> int \<Rightarrow> int \<Rightarrow> int list \<Rightarrow> bool" where
  "breaks_known segments start stop p points \<longleftrightarrow>
     (\<forall>x \<in> breaks segments start stop. x \<le> p \<or> x \<in> set points)"

lemma breaks_mem [simp]:
  "start \<in> breaks segments start stop" "stop \<in> breaks segments start stop"
  "(l, r, n) \<in> set segments \<Longrightarrow> l \<in> breaks segments start stop"
  "(l, r, n) \<in> set segments \<Longrightarrow> r \<in> breaks segments start stop"
  by (force simp: breaks_def)+

lemma breaks_known_between:
  assumes "breaks_known segments start stop a (b # points)" and "sorted_wrt (<) (a # b # points)"
    and "x \<in> breaks segments start stop"
  shows "x \<le> a \<or> b \<le> x"
  using assms by (auto simp: breaks_known_def less_imp_le)

lemma breaks_known_step:
  assumes "breaks_known segments start stop a (b # points)" and "sorted_wrt (<) (a # b # points)"
  shows "breaks_known segments start stop b points"
    and "\<And>l r n. (l, r, n) \<in> set segments \<Longrightarrow> (l \<le> a \<or> b \<le> l) \<and> (r \<le> a \<or> b \<le> r)"
    and "start \<le> a \<or> b \<le> start" and "stop \<le> a \<or> b \<le> stop"
proof -
  show "breaks_known segments start stop b points"
    using assms by (fastforce simp: breaks_known_def)
  note between = breaks_known_between [OF assms]
  show "(l \<le> a \<or> b \<le> l) \<and> (r \<le> a \<or> b \<le> r)" if "(l, r, n) \<in> set segments" for l r n
    using between [OF breaks_mem(3) [OF that]] between [OF breaks_mem(4) [OF that]] by simp
  show "start \<le> a \<or> b \<le> start" and "stop \<le> a \<or> b \<le> stop"
    by (rule between, simp)+
qed

lemma cover_loop_spec:
  assumes "sorted_wrt (<) (p # points)" and "breaks_known segments start stop p points"
    and "wf_segments merged" and "ends_by merged p"
    and "cover_loop segments start stop ips (p # points) merged added = (M, A)"
  shows "wf_segments M \<and>
    (\<forall>t. capacity M t = (if t < p then capacity merged t
       else if t < last (p # points) then max (capacity segments t) (requested_at start stop ips t)
       else 0)) \<and>
    A = added + sum (missing_at segments start stop ips) {p..<last (p # points)}"
  using assms
proof (induction points arbitrary: p merged added)
  case Nil
  then show ?case using ends_by_capacity [OF Nil.prems(4)] by auto
next
  case (Cons b points)
  let ?old = "level_between segments p b"
  let ?req = "if start \<le> p \<and> b \<le> stop then ips else 0"
  let ?m = "merge_piece merged p b (max ?old ?req)"
  have pb: "p < b" and sorted: "sorted_wrt (<) (b # points)" using Cons.prems(1) by auto
  note br = breaks_known_step [OF Cons.prems(2,1)]
  have old: "?old = capacity segments t" and req: "?req = requested_at start stop ips t"
    if "p \<le> t" and "t < b" for t
    using level_between_constant [OF br(2) that] br(3,4) that by (auto simp: requested_at_def)
  have nonneg: "0 \<le> max ?old ?req" by (rule max.coboundedI1) simp
  note m = merge_piece_wf [OF Cons.prems(3,4) pb nonneg]
  note cap = merge_piece_capacity [OF pb nonneg Cons.prems(4)]
  have le: "b \<le> last (b # points)"
    using sorted by (cases points) (auto simp: less_imp_le)
  have "cover_loop segments start stop ips (b # points) ?m
      (added + max 0 (?req - ?old) * (b - p)) = (M, A)"
    using Cons.prems(5) pb by (simp add: Let_def)
  note IH = Cons.IH [OF sorted br(1) m this]
  have "capacity M t = (if t < p then capacity merged t
       else if t < last (b # points) then max (capacity segments t) (requested_at start stop ips t)
       else 0)" for t
  proof (cases "p \<le> t \<and> t < b")
    case True
    have "max ?old ?req = max (capacity segments t) (requested_at start stop ips t)"
      by (rule arg_cong2 [where f = max, OF old req]) (use True in simp_all)
    moreover have "capacity M t = max ?old ?req"
      using IH [THEN conjunct2, THEN conjunct1, THEN spec [of _ t]] cap [of t] True by simp
    ultimately show ?thesis using True le by simp
  next
    case False
    with IH [THEN conjunct2, THEN conjunct1, THEN spec [of _ t]] cap [of t] pb show ?thesis by auto
  qed
  moreover have "sum (missing_at segments start stop ips) {p..<b} = max 0 (?req - ?old) * (b - p)"
  proof (rule sum_ivl_const)
    show "missing_at segments start stop ips t = max 0 (?req - ?old)" if "p \<le> t" "t < b" for t
      unfolding missing_at_def old [OF that, symmetric] req [OF that, symmetric] ..
  qed (use pb in simp)
  then have "A = added + sum (missing_at segments start stop ips) {p..<last (b # points)}"
    unfolding sum_ivl_split [OF less_imp_le [OF pb] le] IH [THEN conjunct2, THEN conjunct2] by simp
  ultimately show ?case using IH by simp
qed

text \<open>The points start at \<open>start\<close>, end after every segment, and contain every break.\<close>

lemma sorted_last: "x \<in> set xs \<Longrightarrow> sorted xs \<Longrightarrow> x \<le> last xs"
  for x :: int
  by (induction xs) (auto simp: last_in_set)

lemma cover_points_props:
  assumes "start \<le> stop" and "\<And>l r n. (l, r, n) \<in> set segments \<Longrightarrow> start \<le> l \<and> start < r"
  shows "\<exists>ps. cover_points start stop segments = start # ps \<and> sorted_wrt (<) (start # ps) \<and>
    breaks_known segments start stop start ps \<and> stop \<le> last (start # ps) \<and>
    (\<forall>(l, r, n) \<in> set segments. r \<le> last (start # ps))"
proof -
  let ?P = "cover_points start stop segments"
  have breaks: "set ?P = breaks segments start stop"
    by (auto simp: cover_points_def breaks_def)
  note set = breaks [unfolded breaks_def]
  have sorted: "sorted ?P" and distinct: "distinct ?P" by (simp_all add: cover_points_def)
  obtain p ps where P: "?P = p # ps" using set by (cases ?P) auto
  have "start \<in> set ?P" using set by simp
  moreover have "start \<le> x" if "x \<in> set ?P" for x
    using that assms unfolding set by fastforce
  ultimately have p: "p = start" using sorted P by (auto simp: antisym)
  have last: "x \<le> last ?P" if "x \<in> set ?P" for x
    using that sorted by (rule sorted_last)
  have "stop \<in> set ?P" by (simp add: set)
  then have stop: "stop \<le> last ?P" by (rule last)
  have "breaks_known segments start stop start ps"
    unfolding breaks_known_def breaks [symmetric] by (auto simp: P p)
  moreover have "sorted_wrt (<) (start # ps)"
    using sorted distinct by (auto simp: P p strict_sorted_iff less_le)
  moreover have "stop \<le> last (start # ps)" using stop by (simp add: P p)
  moreover have "\<forall>(l, r, n) \<in> set segments. r \<le> last (start # ps)"
    using last unfolding set by (fastforce simp: P p)
  ultimately show ?thesis using P p by blast
qed

lemma clip_capacity: "start \<le> t \<Longrightarrow> capacity (clip_segments start S) t = capacity S t"
proof (induction S)
  case Nil
  then show ?case by (simp add: clip_segments_def)
next
  case (Cons s S)
  obtain l r n where s: "s = (l, r, n)" by (cases s)
  show ?case
  proof (cases "start < r \<and> 0 < n")
    case True
    with Cons show ?thesis by (simp add: s clip_segments_def capacity_def)
  next
    case False
    then have "capacity (s # S) t = capacity S t"
      using Cons.prems by (auto simp: s capacity_def)
    with False Cons show ?thesis by (auto simp: s clip_segments_def)
  qed
qed

lemma clip_segments_bounds:
  "(l, r, n) \<in> set (clip_segments start S) \<Longrightarrow> start \<le> l \<and> start < r"
  by (auto simp: clip_segments_def)

lemma cover_segments_spec:
  assumes "start \<le> stop" and "0 \<le> ips" and "cover_segments S start stop ips = Inr (M, A)"
  shows "wf_segments M"
    and "start \<le> t \<Longrightarrow> capacity M t = max (capacity S t) (requested_at start stop ips t)"
    and "A = (\<Sum>t = start..<stop. max 0 (ips - capacity S t))"
proof -
  let ?C = "clip_segments start S"
  obtain ps where ps: "cover_points start stop ?C = start # ps" "sorted_wrt (<) (start # ps)"
      "breaks_known ?C start stop start ps" "stop \<le> last (start # ps)"
      "\<forall>(l, r, n) \<in> set ?C. r \<le> last (start # ps)"
    using cover_points_props [OF assms(1), of ?C] clip_segments_bounds by blast
  have loop: "cover_loop ?C start stop ips (start # ps) [] 0 = (M, A)"
    using assms(3) by (auto simp: cover_segments_def Let_def ps(1) split: prod.splits if_splits)
  have spec: "wf_segments M"
    "\<And>t. capacity M t = (if t < start then capacity [] t
       else if t < last (start # ps) then max (capacity ?C t) (requested_at start stop ips t) else 0)"
    "A = 0 + sum (missing_at ?C start stop ips) {start..<last (start # ps)}"
    using cover_loop_spec [OF ps(2,3) _ _ loop] by (simp_all add: wf_segments_def ends_by_def)
  show "wf_segments M" by (rule spec(1))
  have beyond: "capacity ?C t = 0" if "last (start # ps) \<le> t" for t
    using that ps(5) by (intro capacity_outside) force
  show "capacity M t = max (capacity S t) (requested_at start stop ips t)" if "start \<le> t"
    using that ps(4) beyond [of t] clip_capacity [OF that, of S]
    by (auto simp: spec(2) requested_at_def)
  have "sum (missing_at ?C start stop ips) {stop..<last (start # ps)} = 0"
    by (intro sum.neutral) (auto simp: missing_at_def requested_at_def)
  then have "A = sum (missing_at ?C start stop ips) {start..<stop}"
    unfolding spec(3) sum_ivl_split [OF assms(1) ps(4)] by simp
  also have "\<dots> = (\<Sum>t = start..<stop. max 0 (ips - capacity S t))"
    by (intro sum.cong) (auto simp: missing_at_def requested_at_def clip_capacity)
  finally show "A = (\<Sum>t = start..<stop. max 0 (ips - capacity S t))" .
qed

section \<open>What a change costs\<close>

text \<open>
  Every entitlement the code stores has \<open>units = ceil (seconds / month)\<close>, so the cumulative
  rounding of a chain of changes never charges a started month twice.
\<close>

definition entitlement_ok :: "entitlement \<Rightarrow> bool" where
  "entitlement_ok e \<longleftrightarrow> 0 \<le> e_seconds e \<and> 0 \<le> e_pending_seconds e \<and>
     e_units e = ceil_units (e_seconds e)"

lemma entitlement_ok_empty [simp]: "entitlement_ok empty_entitlement"
  by (simp add: entitlement_ok_def empty_entitlement_def ceil_units_def month_val)

lemma ceil_units_mono: "s \<le> s' \<Longrightarrow> ceil_units s \<le> ceil_units s'"
  by (simp add: ceil_units_def month_val zdiv_mono1)

lemma ceil_units_days: "ceil_units (days * day * ips) = (ips * days + 29) div 30"
proof -
  let ?k = "ips * days + 29"
  have "ceil_units (days * day * ips) = (days * day * ips + month - 1) div (86400 * 30)"
    by (simp add: ceil_units_def month_val)
  also have "days * day * ips + month - 1 = 86399 + ?k * 86400"
    by (simp add: month_val day_def)
  also have "(86399 + ?k * 86400) div (86400 * 30) = ((86399 + ?k * 86400) div 86400) div 30"
    by (rule zdiv_zmult2_eq) simp
  also have "(86399 + ?k * 86400) div 86400 = ?k" by (subst div_mult_self1) simp_all
  finally show ?thesis .
qed

lemma charge_added_ok:
  assumes "charge_added old_units out added = Inr (new, debit)" and "entitlement_ok old"
    and "old_units = e_units old" and "e_seconds out = e_seconds old"
    and "0 \<le> added" and "0 \<le> e_pending_seconds out"
  shows "entitlement_ok new \<and> debit = e_units new - e_units old \<and> 0 \<le> debit"
proof -
  have new: "new = out\<lparr>e_seconds := e_seconds out + added, e_units := ceil_units (e_seconds out + added)\<rparr>"
    and debit: "debit = max 0 (ceil_units (e_seconds out + added) - old_units)"
    using assms(1) by (auto simp: charge_added_def results Let_def split: if_splits)
  have "ceil_units (e_seconds old) \<le> ceil_units (e_seconds old + added)"
    using assms(5) by (intro ceil_units_mono) simp
  then show ?thesis using assms(2-6) by (auto simp: new debit entitlement_ok_def)
qed

lemma start_entitlement_simps [simp]:
  "e_seconds (start_pending now (start_legacy now x e)) = e_seconds e"
  "e_pending_seconds (start_pending now (start_legacy now x e)) = 0"
  by (simp_all add: start_pending_def start_legacy_def)

lemma plan_change_ok:
  assumes "plan_change state quota ips expires now days creation = Inr (new, debit)"
    and "\<And>e. state = Some e \<Longrightarrow> entitlement_ok e" and "creation \<Longrightarrow> state = None"
  shows "entitlement_ok new \<and>
    debit = e_units new - (case state of None \<Rightarrow> 0 | Some e \<Rightarrow> e_units e) \<and> 0 \<le> debit"
proof -
  let ?old = "case state of Some e \<Rightarrow> e | None \<Rightarrow> empty_entitlement"
  have old: "entitlement_ok ?old" using assms(2) by (auto split: option.splits)
  have units: "e_units ?old = (case state of None \<Rightarrow> 0 | Some e \<Rightarrow> e_units e)"
    by (auto simp: empty_entitlement_def split: option.splits)
  obtain q i x where args: "quota = PInt q" "ips = PInt i" "expires = PInt x" "0 \<le> i"
    using assms(1) by (auto simp: plan_change_def results)
  show ?thesis
  proof (cases "0 < q \<or> creation \<and> x = 0")
    case True
    then show ?thesis using assms(1,3) old units
      by (auto simp: plan_change_def results args Let_def entitlement_ok_def units_for_days_def
          ceil_units_days empty_entitlement_def pos_imp_zdiv_nonneg_iff split: if_splits)
  next
    case False
    note quoted = assms(1) [unfolded plan_change_def args, simplified results Let_def]
    show ?thesis
    proof (cases "x = 0")
      case True
      let ?out = "?old\<lparr>e_pending_ips := max i (e_pending_ips ?old)\<rparr>"
      have "charge_added (e_units ?old) ?out (max 0 (i - e_pending_ips ?old) * e_pending_seconds ?old)
          = Inr (new, debit)"
        using quoted False True by (auto simp: results split: if_splits)
      from charge_added_ok [OF this old refl] old units show ?thesis
        by (simp add: entitlement_ok_def)
    next
      case x: False
      let ?out = "start_pending now (start_legacy now x ?old)"
      obtain segs added where cover: "cover_segments (e_segments ?out) now (max now x) i = Inr (segs, added)"
        and charge: "charge_added (e_units ?old) (?out\<lparr>e_segments := segs\<rparr>) added = Inr (new, debit)"
        using quoted False x by (auto simp: results split: if_splits prod.splits)
      have "0 \<le> added"
        using cover_segments_spec(3) [OF _ args(4) cover] by (simp add: sum_nonneg)
      from charge_added_ok [OF charge old refl _ this] units show ?thesis by simp
    qed
  qed
qed

section \<open>Properties\<close>

text \<open>
  A cover that the code accepts leaves a sorted list of disjoint segments, raises the
  paid-for number of IP-users to the requested one at every second of the requested interval,
  lowers it nowhere from the start on, and charges exactly the user-seconds that were missing:
  capacity that is already paid for is never bought twice.
\<close>

theorem cover_buys_exactly_missing:
  assumes "start \<le> stop" and "0 \<le> ips" and "cover_segments S start stop ips = Inr (M, A)"
  shows "wf_segments M \<and>
    (\<forall>t \<ge> start. capacity M t = max (capacity S t) (requested_at start stop ips t)) \<and>
    A = (\<Sum>t = start..<stop. max 0 (ips - capacity S t))"
  using cover_segments_spec [OF assms] by blast

lemma cover_example: "cover_segments [(0, 5, 1), (5, 8, 3)] 2 10 2 = Inr ([(2, 5, 2), (5, 8, 3), (8, 10, 2)], 7)"
  by code_simp

theorem cover_buys_exactly_missing_witness:
  "(7::int) = (\<Sum>t = 2..<10. max 0 (2 - capacity [(0, 5, 1), (5, 8, 3)] t))"
  using cover_buys_exactly_missing [OF _ _ cover_example] by simp

text \<open>
  A quote for a well-formed entitlement yields a well-formed entitlement whose units are the
  cumulative ceiling of the user-seconds bought so far, and its debit is exactly the units the
  new state holds over the old one, never negative: splitting a purchase into small edits costs
  the same as making it at once.
\<close>

theorem plan_change_debit_exact:
  assumes "plan_change (Some old) quota ips expires now days False = Inr (new, debit)"
    and "entitlement_ok old"
  shows "e_units new = ceil_units (e_seconds new) \<and> e_units new = e_units old + debit \<and> 0 \<le> debit"
  using plan_change_ok [OF assms(1)] assms(2) by (auto simp: entitlement_ok_def)

definition month_entitlement :: entitlement where
  "month_entitlement = empty_entitlement\<lparr>e_segments := [(0, 2592000, 1)], e_seconds := 2592000, e_units := 1\<rparr>"

lemma month_upgrade:
  "plan_change (Some month_entitlement) (PInt 0) (PInt 2) (PInt 2592000) 0 PNone False =
   Inr (month_entitlement\<lparr>e_segments := [(0, 2592000, 2)], e_seconds := 5184000, e_units := 2\<rparr>, 1)"
  by code_simp

theorem plan_change_debit_exact_witness:
  "(2::int) = ceil_units 5184000 \<and> 2 = e_units month_entitlement + 1"
  using plan_change_debit_exact [OF month_upgrade]
  by (simp add: month_entitlement_def entitlement_ok_def empty_entitlement_def ceil_units_def month_val)

end
