(* ===== verification/Store.thy ===== *)
theory Store
  imports Entitlement "HOL-Library.Char_ord" "HOL-Library.List_Lexorder"
begin

text \<open>
  The policy and accounting database (backend/dark_policy.py, class \<open>Store\<close>, and the database
  part of backend/unlimited_credit.py). One record per table row, one field per table; each
  public method is an operation on the whole database that either returns the new database or
  raises, leaving the old one (see \<open>transaction\<close>). A method reads the clock several times;
  the model gives it one instant \<open>now\<close>. Columns that hold 0/1 flags are \<open>bool\<close>.
\<close>

section \<open>Tables\<close>

record owner_row =
  ow_id :: string
  ow_quota_bytes :: int
  ow_volume_credit :: int
  ow_unlimited_credit :: int
  ow_unlimited_spent :: int
  ow_max_clients :: int
  ow_manual :: bool
  ow_account_disabled :: bool
  ow_period :: int
  ow_credit :: int

record client_row =
  cl_id :: string
  cl_owner :: string
  cl_limit_ip :: int
  cl_quota_bytes :: int
  cl_used_bytes :: int
  cl_manual :: bool
  cl_expires_at :: int
  cl_global_ip_block :: bool
  cl_global_device_block :: bool

record traffic_row =
  tr_event_id :: string
  tr_owner :: string
  tr_client_id :: string
  tr_period :: int
  tr_up :: int
  tr_down :: int
  tr_observed_at :: real

record credit_row =
  cr_event_id :: string
  cr_owner :: string
  cr_volume_bytes :: int
  cr_unlimited_units :: int
  cr_kind :: string
  cr_reference :: string
  cr_at :: real

record observation_row =
  ob_client_id :: string
  ob_ip :: string
  ob_node :: string
  ob_first_seen :: real
  ob_last_seen :: real
  ob_granted :: bool

record ban_row =
  bn_jail :: string
  bn_ip :: string
  bn_client_id :: string
  bn_node :: string
  bn_expires_at :: real
  bn_state :: string

record event_row =
  ev_kind :: string
  ev_owner :: string
  ev_client_id :: string
  ev_ip :: string
  ev_node :: string
  ev_detail :: string
  ev_at :: real

record admin_row =
  ad_id :: string
  ad_role :: string
  ad_password_hash :: string
  ad_permissions :: "(string \<times> string) list"
  ad_disabled :: bool

record entitlement_row =
  en_client_id :: string
  en_owner :: string
  en_state :: entitlement
  en_revision :: int
  en_updated_at :: real

record store =
  st_owners :: "owner_row list"
  st_clients :: "client_row list"
  st_traffic :: "traffic_row list"
  st_credits :: "credit_row list"
  st_observations :: "observation_row list"
  st_bans :: "ban_row list"
  st_events :: "event_row list"
  st_admins :: "admin_row list"
  st_entitlements :: "entitlement_row list"

definition empty_store :: store where
  "empty_store = \<lparr>st_owners = [], st_clients = [], st_traffic = [], st_credits = [],
     st_observations = [], st_bans = [], st_events = [], st_admins = [], st_entitlements = []\<rparr>"

definition new_owner_row :: "string \<Rightarrow> owner_row" where
  "new_owner_row o' = \<lparr>ow_id = o', ow_quota_bytes = 0, ow_volume_credit = 0,
     ow_unlimited_credit = 0, ow_unlimited_spent = 0, ow_max_clients = 0, ow_manual = False,
     ow_account_disabled = False, ow_period = 0, ow_credit = 0\<rparr>"

definition new_client_row :: "string \<Rightarrow> string \<Rightarrow> int \<Rightarrow> int \<Rightarrow> int \<Rightarrow> client_row" where
  "new_client_row cid o' limit_ip quota expires = \<lparr>cl_id = cid, cl_owner = o',
     cl_limit_ip = limit_ip, cl_quota_bytes = quota, cl_used_bytes = 0, cl_manual = False,
     cl_expires_at = expires, cl_global_ip_block = False, cl_global_device_block = False\<rparr>"

section \<open>Queries\<close>

definition owner_of :: "string \<Rightarrow> store \<Rightarrow> owner_row option" where
  "owner_of o' s = lookup ow_id o' (st_owners s)"

definition client_of :: "string \<Rightarrow> store \<Rightarrow> client_row option" where
  "client_of cid s = lookup cl_id cid (st_clients s)"

definition admin_of :: "string \<Rightarrow> store \<Rightarrow> admin_row option" where
  "admin_of a s = lookup ad_id a (st_admins s)"

definition entitlement_of :: "string \<Rightarrow> store \<Rightarrow> entitlement_row option" where
  "entitlement_of cid s = lookup en_client_id cid (st_entitlements s)"

text \<open>\<open>Store._allocation\<close>: the volume and the number of unlimited clients of an owner.\<close>

definition allocation :: "store \<Rightarrow> string \<Rightarrow> string option \<Rightarrow> int \<times> int" where
  "allocation s o' exclude_client =
     (let mine = (\<lambda>c. cl_owner c = o' \<and> (exclude_client \<noteq> Some (cl_id c)))
      in (sum_where mine (\<lambda>c. if 0 < cl_quota_bytes c then cl_quota_bytes c else 0) (st_clients s),
          sum_where mine (\<lambda>c. if cl_quota_bytes c = 0 then 1 else 0) (st_clients s)))"

definition resource_credit_enforced :: "store \<Rightarrow> string \<Rightarrow> actor option \<Rightarrow> bool" where
  "resource_credit_enforced s o' act =
     ((case admin_of o' s of Some r \<Rightarrow> ad_role r = ''reseller'' | None \<Rightarrow> False) \<or>
      (case act of Some a \<Rightarrow> a_role a = ''reseller'' | None \<Rightarrow> False))"

definition client_count :: "store \<Rightarrow> string \<Rightarrow> int" where
  "client_count s o' = count_where (\<lambda>c. cl_owner c = o') (st_clients s)"

text \<open>\<open>Store._usage\<close>.\<close>

definition usage_of :: "store \<Rightarrow> string \<Rightarrow> int option \<Rightarrow> int" where
  "usage_of s o' period =
     sum_where (\<lambda>t. tr_owner t = o' \<and> (case period of None \<Rightarrow> True | Some p \<Rightarrow> tr_period t = p))
       (\<lambda>t. tr_up t + tr_down t) (st_traffic s)"

section \<open>Owners\<close>

text \<open>
  \<open>Store.register_owner\<close>. \<open>quota_bytes\<close> is the legacy alias of \<open>volume_credit_bytes\<close>; \<open>uid\<close> is
  the random part of the ledger event id.
\<close>

definition resolve_volume_alias :: "pyval \<Rightarrow> pyval \<Rightarrow> pyval res" where
  "resolve_volume_alias volume_credit_bytes quota_bytes =
     (if quota_bytes = PNone then Inr volume_credit_bytes
      else rbind (integer quota_bytes 0 max_int) (\<lambda>_.
        if volume_credit_bytes = PNone then Inr quota_bytes
        else if \<not> pyeq volume_credit_bytes quota_bytes
        then Inl (PolicyError ''Use volume_credit_bytes instead of legacy quota_bytes'')
        else Inr volume_credit_bytes))"

definition keep_or_integer :: "int option \<Rightarrow> pyval \<Rightarrow> int \<Rightarrow> int res" where
  "keep_or_integer previous v hi =
     (if previous \<noteq> None \<and> v = PNone then Inr (the previous)
      else integer (if v = PNone then PInt 0 else v) 0 hi)"

definition write_owner ::
  "actor \<Rightarrow> string \<Rightarrow> int \<Rightarrow> int \<Rightarrow> int \<Rightarrow> bool \<Rightarrow> string \<Rightarrow> real \<Rightarrow> store \<Rightarrow> store res" where
  "write_owner act o' volume unlimited maxc man uid now s =
     (let delta = unlimited - (case owner_of o' s of Some p \<Rightarrow> ow_unlimited_credit p | None \<Rightarrow> 0);
          row = (new_owner_row o')\<lparr>ow_volume_credit := volume, ow_unlimited_credit := unlimited,
                  ow_max_clients := maxc, ow_manual := man\<rparr>;
          s1 = s\<lparr>st_owners := upsert ow_id row
                 (\<lambda>r. r\<lparr>ow_quota_bytes := 0, ow_volume_credit := volume,
                     ow_unlimited_credit := unlimited, ow_max_clients := maxc,
                     ow_manual := man\<rparr>) (st_owners s)\<rparr>
      in if delta = 0 then Inr s1
         else rbind (insert_pk cr_event_id
            \<lparr>cr_event_id = ''unlimited-grant:'' @ uid, cr_owner = o', cr_volume_bytes = 0,
              cr_unlimited_units = delta, cr_kind = ''unlimited_grant_set'',
              cr_reference = a_id act, cr_at = now\<rparr> (st_credits s1)) (\<lambda>credits.
          Inr (s1\<lparr>st_credits := credits\<rparr>)))"

definition owner_request ::
  "actor \<Rightarrow> string \<Rightarrow> pyval \<Rightarrow> pyval \<Rightarrow> pyval \<Rightarrow> pyval \<Rightarrow> pyval \<Rightarrow> store
   \<Rightarrow> (int \<times> int \<times> int \<times> bool) res" where
  "owner_request act o' volume_credit_bytes unlimited_credit max_clients manual quota_bytes s =
     rbind (require act ''owners'' ''edit'' (Some o')) (\<lambda>_.
     rbind (ensure (valid_name o') (PolicyError ''Invalid owner name'')) (\<lambda>_.
     rbind (resolve_volume_alias volume_credit_bytes quota_bytes) (\<lambda>volume_arg.
     rbind (integer max_clients 0 1000000) (\<lambda>maxc.
     rbind (ensure (manual = PNone \<or> (\<exists>b. manual = PBool b))
              (PolicyError ''manual must be boolean'')) (\<lambda>_.
     let previous = owner_of o' s;
         keep_manual = (case (previous, manual) of
             (Some p, PNone) \<Rightarrow> ow_manual p | _ \<Rightarrow> truthy manual)
     in
     rbind (keep_or_integer (map_option ow_volume_credit previous) volume_arg max_int) (\<lambda>volume.
     rbind (keep_or_integer (map_option ow_unlimited_credit previous) unlimited_credit 1000000) (\<lambda>unlimited.
     let enforce = resource_credit_enforced s o' (Some act);
         spent = (case previous of Some p \<Rightarrow> ow_unlimited_spent p | None \<Rightarrow> 0)
     in
     rbind (ensure (\<not> (enforce \<and> volume < fst (allocation s o' None)))
        (PolicyError ''Volume credit cannot be lower than currently allocated client volume'')) (\<lambda>_.
     rbind (ensure (\<not> (enforce \<and> unlimited < spent))
        (PolicyError ''Unlimited credit cannot be lower than already spent user-month units'')) (\<lambda>_.
     rbind (ensure (\<not> (maxc \<noteq> 0 \<and> maxc < client_count s o'))
        (PolicyError ''The requested client quota is below the current number of records'')) (\<lambda>_.
     Inr (volume, unlimited, maxc, keep_manual)))))))))))"

definition register_owner ::
  "actor \<Rightarrow> string \<Rightarrow> pyval \<Rightarrow> pyval \<Rightarrow> pyval \<Rightarrow> pyval \<Rightarrow> pyval \<Rightarrow> string \<Rightarrow> real
   \<Rightarrow> store \<Rightarrow> store res" where
  "register_owner act o' volume_credit_bytes unlimited_credit max_clients manual quota_bytes uid now s =
     rbind (owner_request act o' volume_credit_bytes unlimited_credit max_clients manual quota_bytes s)
       (\<lambda>(volume, unlimited, maxc, man). write_owner act o' volume unlimited maxc man uid now s)"

section \<open>Consumable credit\<close>

text \<open>
  \<open>unlimited_credit.change\<close>: quote the change, refuse it when it costs more than remains,
  and otherwise spend the units, log them and store the new entitlement in one transaction.
  The stored \<open>state_json\<close> is the entitlement itself.
\<close>

record quote =
  q_units :: int
  q_remaining :: "int option"
  q_after :: "int option"
  q_enforced :: bool
  q_affordable :: bool

definition spend_units :: "string \<Rightarrow> int \<Rightarrow> store \<Rightarrow> store res" where
  "spend_units o' debit s =
     (let fits = (\<lambda>r. ow_id r = o' \<and> debit \<le> ow_unlimited_credit r - ow_unlimited_spent r)
      in if count_where fits (st_owners s) \<noteq> 1
         then Inl (PolicyError ''Insufficient representative unlimited credit'')
         else Inr (s\<lparr>st_owners := update_where fits
                (\<lambda>r. r\<lparr>ow_unlimited_spent := ow_unlimited_spent r + debit\<rparr>) (st_owners s)\<rparr>))"

definition commit_credit ::
  "string \<Rightarrow> string \<Rightarrow> bool \<Rightarrow> int \<Rightarrow> entitlement \<Rightarrow> int \<Rightarrow> real \<Rightarrow> store \<Rightarrow> store res" where
  "commit_credit cid o' creation debit new revision now s =
     rbind (if debit = 0 then Inr s
            else rbind (spend_units o' debit s) (\<lambda>s1.
                 rbind (insert_pk cr_event_id
                   \<lparr>cr_event_id = ''unlimited:'' @ cid @ '':'' @ show_int revision, cr_owner = o',
                     cr_volume_bytes = 0, cr_unlimited_units = - debit,
                     cr_kind = (if creation then ''unlimited_create'' else ''unlimited_change''),
                     cr_reference = cid, cr_at = now\<rparr> (st_credits s1)) (\<lambda>credits.
                 Inr (s1\<lparr>st_credits := credits\<rparr>)))) (\<lambda>s2.
     Inr (s2\<lparr>st_entitlements := upsert en_client_id
            \<lparr>en_client_id = cid, en_owner = o', en_state = new, en_revision = revision,
              en_updated_at = now\<rparr>
            (\<lambda>r. r\<lparr>en_state := new, en_revision := revision, en_updated_at := now\<rparr>)
            (st_entitlements s2)\<rparr>))"

definition change_credit ::
  "string \<Rightarrow> string \<Rightarrow> pyval \<Rightarrow> pyval \<Rightarrow> pyval \<Rightarrow> pyval \<Rightarrow> bool \<Rightarrow> bool \<Rightarrow> real
   \<Rightarrow> store \<Rightarrow> (store \<times> quote) res" where
  "change_credit cid o' quota_bytes ip_limit expires_at duration_days creation preview now s =
     (case owner_of o' s of
        None \<Rightarrow> Inl (PolicyError ''Owner is not registered'')
      | Some account \<Rightarrow>
     let remaining = max 0 (ow_unlimited_credit account - ow_unlimited_spent account) in
     if \<not> resource_credit_enforced s o' None
     then Inr (s, \<lparr>q_units = 0, q_remaining = None, q_after = None, q_enforced = False,
                   q_affordable = True\<rparr>)
     else
     let row = (if cid = [] then None else entitlement_of cid s) in
     if row \<noteq> None \<and> en_owner (the row) \<noteq> o'
     then Inl (PolicyError ''Unlimited entitlement owner mismatch'')
     else if creation \<and> row \<noteq> None
     then Inl (PolicyError ''Client identity has a historical entitlement; choose a new identity'')
     else
     rbind (plan_change (map_option en_state row) quota_bytes ip_limit expires_at \<lfloor>now\<rfloor>
              duration_days (creation \<or> row = None)) (\<lambda>(new, debit).
     let quote = \<lparr>q_units = debit, q_remaining = Some remaining, q_after = Some (remaining - debit),
                  q_enforced = True, q_affordable = debit \<le> remaining\<rparr>;
         revision = (case row of Some r \<Rightarrow> en_revision r + 1 | None \<Rightarrow> 1) in
     if preview then Inr (s, quote)
     else if remaining < debit
     then Inl (PolicyError ''Insufficient representative unlimited credit: need units'')
     else if map_option en_state row = Some new then Inr (s, quote)
     else
     rbind (commit_credit cid o' creation debit new revision now s) (\<lambda>s2. Inr (s2, quote))))"

section \<open>Clients\<close>

definition insufficient_volume :: "store \<Rightarrow> string \<Rightarrow> string option \<Rightarrow> int \<Rightarrow> int \<Rightarrow> bool" where
  "insufficient_volume s o' exclude quota credit \<longleftrightarrow>
     0 < quota \<and> credit < fst (allocation s o' exclude) + quota"

definition register_client ::
  "actor \<Rightarrow> string \<Rightarrow> string \<Rightarrow> pyval \<Rightarrow> pyval \<Rightarrow> pyval \<Rightarrow> pyval \<Rightarrow> pyval \<Rightarrow> pyval \<Rightarrow> real
   \<Rightarrow> store \<Rightarrow> store res" where
  "register_client act cid o' limit_ip quota_bytes price order_id expires_at duration_days now s =
     rbind (require act ''clients'' ''create'' (Some o')) (\<lambda>_.
     rbind (ensure (valid_name cid) (PolicyError ''Invalid client ID'')) (\<lambda>_.
     rbind (integer limit_ip 0 1000) (\<lambda>ips.
     rbind (integer quota_bytes 0 max_int) (\<lambda>quota.
     rbind (integer price 0 max_int) (\<lambda>p.
     rbind (integer expires_at 0 max_int) (\<lambda>expires.
     rbind (ensure (p = 0 \<and> order_id = PNone)
              (PolicyError ''Monetary reseller credit is retired'')) (\<lambda>_.
     case owner_of o' s of
       None \<Rightarrow> Inl (PolicyError ''Owner is not registered'')
     | Some r \<Rightarrow>
       if ow_manual r \<or> ow_account_disabled r
       then Inl (PolicyError ''Owner account is disabled'')
       else if ow_max_clients r \<noteq> 0 \<and> ow_max_clients r \<le> client_count s o'
       then Inl (PolicyError ''Owner client quota is full'')
       else if resource_credit_enforced s o' (Some act)
               \<and> insufficient_volume s o' None quota (ow_volume_credit r)
       then Inl (PolicyError ''Insufficient representative volume credit'')
       else
       rbind (change_credit cid o' quota_bytes limit_ip expires_at duration_days True False now s)
         (\<lambda>(s1, _).
       rbind (insert_pk cl_id (new_client_row cid o' ips quota expires) (st_clients s1)) (\<lambda>clients.
       Inr (s1\<lparr>st_clients := clients\<rparr>))))))))))"

text \<open>
  \<open>Store.edit_client\<close>: an argument that is \<open>None\<close> leaves its column. A change of a column that
  is billed is charged with \<open>change_credit\<close> before the row is written.
\<close>

definition optional_integer :: "pyval \<Rightarrow> int \<Rightarrow> int \<Rightarrow> int res" where
  "optional_integer v old hi = (if v = PNone then Inr old else integer v 0 hi)"

definition edit_request ::
  "actor \<Rightarrow> string \<Rightarrow> pyval \<Rightarrow> pyval \<Rightarrow> pyval \<Rightarrow> pyval \<Rightarrow> store
   \<Rightarrow> (client_row \<times> int \<times> int \<times> int \<times> bool) res" where
  "edit_request act cid limit_ip quota_bytes manual expires_at s =
     (case client_of cid s of
        None \<Rightarrow> Inl (PolicyError ''Client does not exist'')
      | Some u \<Rightarrow>
     rbind (require act ''clients'' ''edit'' (Some (cl_owner u))) (\<lambda>_.
     rbind (optional_integer limit_ip (cl_limit_ip u) 1000) (\<lambda>ips.
     rbind (optional_integer quota_bytes (cl_quota_bytes u) max_int) (\<lambda>quota.
     rbind (if quota_bytes \<noteq> PNone \<and> resource_credit_enforced s (cl_owner u) (Some act)
            then (case owner_of (cl_owner u) s of
                    None \<Rightarrow> Inl (PolicyError ''Owner is not registered'')
                  | Some r \<Rightarrow> ensure
                      (\<not> insufficient_volume s (cl_owner u) (Some cid) quota (ow_volume_credit r))
                      (PolicyError ''Insufficient representative volume credit''))
            else Inr ()) (\<lambda>_.
     rbind (optional_integer expires_at (cl_expires_at u) max_int) (\<lambda>expires.
     rbind (ensure (manual = PNone \<or> (\<exists>b. manual = PBool b))
              (PolicyError ''manual must be boolean'')) (\<lambda>_.
     Inr (u, ips, quota, expires, if manual = PNone then cl_manual u else truthy manual))))))))"

definition edit_write ::
  "string \<Rightarrow> client_row \<Rightarrow> int \<Rightarrow> int \<Rightarrow> int \<Rightarrow> bool \<Rightarrow> real \<Rightarrow> store \<Rightarrow> store res" where
  "edit_write cid u ips quota expires man now s =
     rbind (if ips \<noteq> cl_limit_ip u \<or> quota \<noteq> cl_quota_bytes u \<or> expires \<noteq> cl_expires_at u
            then rbind (change_credit cid (cl_owner u) (PInt quota) (PInt ips) (PInt expires) PNone
                          False False now s) (\<lambda>(s1, _). Inr s1)
            else Inr s) (\<lambda>s1.
     Inr (s1\<lparr>st_clients := modify cl_id cid
            (\<lambda>c. c\<lparr>cl_limit_ip := ips, cl_quota_bytes := quota, cl_expires_at := expires,
                   cl_manual := man\<rparr>) (st_clients s1)\<rparr>))"

definition edit_client ::
  "actor \<Rightarrow> string \<Rightarrow> pyval \<Rightarrow> pyval \<Rightarrow> pyval \<Rightarrow> pyval \<Rightarrow> real \<Rightarrow> store \<Rightarrow> store res" where
  "edit_client act cid limit_ip quota_bytes manual expires_at now s =
     rbind (edit_request act cid limit_ip quota_bytes manual expires_at s)
       (\<lambda>(u, ips, quota, expires, man). edit_write cid u ips quota expires man now s)"

text \<open>
  \<open>Store.edit_clients_many\<close>: each row in its own savepoint, so a refused row changes nothing
  and the rest go on; only a \<open>PolicyError\<close> is collected, any other exception aborts the batch.
\<close>

fun edit_one :: "actor \<Rightarrow> string list \<Rightarrow> string \<times> pyval \<Rightarrow> real \<Rightarrow> store \<Rightarrow> store res" where
  "edit_one act seen (cid, requested) now s =
     (case requested of
        PDict d \<Rightarrow>
          if cid \<in> set seen then Inl (PolicyError ''Invalid or duplicate bulk client edit'')
          else if \<not> set (map fst d) \<subseteq> {''limit_ip'', ''quota_bytes'', ''manual'', ''expires_at''}
          then Inl (PolicyError ''Unknown client policy field'')
          else edit_client act cid (pyget d ''limit_ip'') (pyget d ''quota_bytes'')
                 (pyget d ''manual'') (pyget d ''expires_at'') now s
      | _ \<Rightarrow> Inl (PolicyError ''Invalid or duplicate bulk client edit''))"

definition first_seen :: "string list \<Rightarrow> string \<times> pyval \<Rightarrow> string list" where
  "first_seen seen e =
     (case snd e of PDict _ \<Rightarrow> (if fst e \<in> set seen then seen else fst e # seen) | _ \<Rightarrow> seen)"

fun edit_rows ::
  "actor \<Rightarrow> (string \<times> pyval) list \<Rightarrow> string list \<Rightarrow> (string \<times> string) list \<Rightarrow> real \<Rightarrow> store
   \<Rightarrow> (store \<times> (string \<times> string) list) res" where
  "edit_rows act [] seen errors now s = Inr (s, errors)"
| "edit_rows act (e # es) seen errors now s =
     (case edit_one act seen e now s of
        Inr s1 \<Rightarrow> edit_rows act es (first_seen seen e) errors now s1
      | Inl ex \<Rightarrow>
          if is_policy_error ex
          then edit_rows act es (first_seen seen e)
                 (upsert fst (fst e, take 300 (err_message ex))
                    (\<lambda>_. (fst e, take 300 (err_message ex))) errors) now s
          else Inl ex)"

definition edit_clients_many ::
  "actor \<Rightarrow> (string \<times> pyval) list \<Rightarrow> real \<Rightarrow> store \<Rightarrow> (store \<times> (string \<times> string) list) res" where
  "edit_clients_many act edits now s =
     (if 500 < length edits
      then Inl (PolicyError ''Bulk client edit requires at most 500 clients'')
      else edit_rows act edits [] [] now s)"

definition delete_client :: "actor \<Rightarrow> string \<Rightarrow> store \<Rightarrow> store res" where
  "delete_client act cid s =
     (case client_of cid s of
        None \<Rightarrow> Inl (PolicyError ''Client does not exist'')
      | Some u \<Rightarrow>
     rbind (require act ''clients'' ''delete'' (Some (cl_owner u))) (\<lambda>_.
     Inr (s\<lparr>st_clients := remove_key cl_id cid (st_clients s),
            st_observations := delete_where (\<lambda>ob. ob_client_id ob = cid) (st_observations s)\<rparr>)))"

section \<open>Usage\<close>

text \<open>
  \<open>Store.record_usage\<close>; the result is \<open>True\<close> when the event was new. A client whose owner row
  is missing makes the code index \<open>None\<close>, a \<open>TypeError\<close>.
\<close>

definition record_usage ::
  "string \<Rightarrow> string \<Rightarrow> pyval \<Rightarrow> pyval \<Rightarrow> real \<Rightarrow> store \<Rightarrow> (store \<times> bool) res" where
  "record_usage event_id cid up_bytes down_bytes now s =
     (if \<not> (1 \<le> length event_id \<and> length event_id \<le> 256)
      then Inl (PolicyError ''A stable unique event ID is required'')
      else
     rbind (integer up_bytes 0 max_int) (\<lambda>up.
     rbind (integer down_bytes 0 max_int) (\<lambda>down.
     if max_int < up + down then Inl (PolicyError ''Counter overflow'')
     else case lookup tr_event_id event_id (st_traffic s) of
       Some previous \<Rightarrow>
         if (tr_client_id previous, tr_up previous, tr_down previous) \<noteq> (cid, up, down)
         then Inl (PolicyError ''Idempotency key reused for different traffic data'')
         else Inr (s, False)
     | None \<Rightarrow>
     case client_of cid s of
       None \<Rightarrow> Inl (PolicyError ''Client does not exist'')
     | Some u \<Rightarrow>
       if max_int < cl_used_bytes u + up + down
          \<or> max_int < usage_of s (cl_owner u) None + up + down
       then Inl (PolicyError ''Ledger counter overflow'')
       else case owner_of (cl_owner u) s of
         None \<Rightarrow> Inl (OtherError ''TypeError'')
       | Some r \<Rightarrow>
         Inr (s\<lparr>st_traffic := st_traffic s @
                  [\<lparr>tr_event_id = event_id, tr_owner = cl_owner u, tr_client_id = cid,
                    tr_period = ow_period r, tr_up = up, tr_down = down, tr_observed_at = now\<rparr>],
                st_clients := modify cl_id cid
                  (\<lambda>c. c\<lparr>cl_used_bytes := cl_used_bytes c + (up + down)\<rparr>) (st_clients s)\<rparr>,
              True))))"

definition reset_client_usage :: "actor \<Rightarrow> string \<Rightarrow> store \<Rightarrow> store res" where
  "reset_client_usage act cid s =
     (case client_of cid s of
        None \<Rightarrow> Inl (PolicyError ''Client does not exist'')
      | Some u \<Rightarrow>
     rbind (require act ''clients'' ''reset'' (Some (cl_owner u))) (\<lambda>_.
     Inr (s\<lparr>st_clients := modify cl_id cid (\<lambda>c. c\<lparr>cl_used_bytes := 0\<rparr>) (st_clients s)\<rparr>)))"

definition reset_owner_period :: "actor \<Rightarrow> string \<Rightarrow> store \<Rightarrow> store res" where
  "reset_owner_period act o' s =
     rbind (require act ''owners'' ''reset'' (Some o')) (\<lambda>_.
     if owner_of o' s = None then Inl (PolicyError ''Owner does not exist'')
     else Inr (s\<lparr>st_owners := modify ow_id o'
                  (\<lambda>r. r\<lparr>ow_period := ow_period r + 1\<rparr>) (st_owners s)\<rparr>))"

section \<open>Credit adjustments\<close>

definition adjust_resource_credit ::
  "actor \<Rightarrow> string \<Rightarrow> pyval \<Rightarrow> pyval \<Rightarrow> string \<Rightarrow> real \<Rightarrow> store \<Rightarrow> (store \<times> bool) res" where
  "adjust_resource_credit act o' volume_bytes unlimited_units event_id now s =
     rbind (require act ''owners'' ''edit'' (Some o')) (\<lambda>_.
     rbind (integer volume_bytes (- max_int) max_int) (\<lambda>dv.
     rbind (integer unlimited_units (- 1000000) 1000000) (\<lambda>du.
     rbind (ensure (\<not> (dv = 0 \<and> du = 0))
              (PolicyError ''At least one resource credit delta is required'')) (\<lambda>_.
     rbind (ensure (16 \<le> length event_id \<and> length event_id \<le> 256)
              (PolicyError ''Unique event ID required'')) (\<lambda>_.
     case lookup cr_event_id event_id (st_credits s) of
       Some old \<Rightarrow>
         if (cr_owner old, cr_volume_bytes old, cr_unlimited_units old) \<noteq> (o', dv, du)
         then Inl (PolicyError ''Idempotency collision'')
         else Inr (s, False)
     | None \<Rightarrow>
     case owner_of o' s of
       None \<Rightarrow> Inl (PolicyError ''Owner does not exist'')
     | Some r \<Rightarrow>
       let new_volume = ow_volume_credit r + dv;
           new_unlimited = ow_unlimited_credit r + du in
       if \<not> (case admin_of o' s of Some a \<Rightarrow> ad_role a = ''reseller'' | None \<Rightarrow> False)
       then Inl (PolicyError ''Resource credit applies only to representatives'')
       else if new_volume < 0 \<or> max_int < new_volume
       then Inl (PolicyError ''Volume credit adjustment is out of range'')
       else if new_unlimited < 0 \<or> 1000000 < new_unlimited
       then Inl (PolicyError ''Unlimited credit adjustment is out of range'')
       else if new_volume < fst (allocation s o' None)
       then Inl (PolicyError ''Volume credit cannot fall below allocated client volume'')
       else if new_unlimited < ow_unlimited_spent r
       then Inl (PolicyError ''Unlimited credit cannot fall below spent user-month units'')
       else Inr (s\<lparr>st_credits := st_credits s @
                     [\<lparr>cr_event_id = event_id, cr_owner = o', cr_volume_bytes = dv,
                       cr_unlimited_units = du, cr_kind = ''adjust'', cr_reference = [],
                       cr_at = now\<rparr>],
                   st_owners := modify ow_id o'
                     (\<lambda>r. r\<lparr>ow_volume_credit := new_volume, ow_unlimited_credit := new_unlimited,
                            ow_quota_bytes := 0\<rparr>) (st_owners s)\<rparr>, True))))))"

section \<open>Reports\<close>

record owner_report =
  or_row :: owner_row
  or_used_bytes :: int
  or_lifetime_used_bytes :: int
  or_client_count :: int
  or_enforced :: bool
  or_allocated_volume :: int
  or_volume_remaining :: "int option"
  or_allocated_unlimited :: int
  or_unlimited_used :: int
  or_unlimited_remaining :: "int option"

definition owner_stats :: "actor \<Rightarrow> string \<Rightarrow> store \<Rightarrow> owner_report res" where
  "owner_stats act o' s =
     rbind (require act ''owners'' ''read'' (Some o')) (\<lambda>_.
     case owner_of o' s of
       None \<Rightarrow> Inl (PolicyError ''Owner does not exist'')
     | Some r \<Rightarrow>
       let (allocated_volume, allocated_unlimited) = allocation s o' None;
           enforced = resource_credit_enforced s o' (Some act)
       in Inr \<lparr>or_row = r, or_used_bytes = usage_of s o' (Some (ow_period r)),
            or_lifetime_used_bytes = usage_of s o' None, or_client_count = client_count s o',
            or_enforced = enforced, or_allocated_volume = allocated_volume,
            or_volume_remaining =
              (if enforced then Some (max 0 (ow_volume_credit r - allocated_volume)) else None),
            or_allocated_unlimited = allocated_unlimited,
            or_unlimited_used = ow_unlimited_spent r,
            or_unlimited_remaining =
              (if enforced then Some (max 0 (ow_unlimited_credit r - ow_unlimited_spent r))
               else None)\<rparr>)"

definition list_clients :: "actor \<Rightarrow> store \<Rightarrow> client_row list" where
  "list_clients act s =
     filter (\<lambda>r. can act ''clients'' ''read'' (Some (cl_owner r))) (sort_key cl_id (st_clients s))"

text \<open>\<open>Store.client_reasons\<close>: every reason why a client is blocked, in the code's order.\<close>

definition client_reasons :: "string \<Rightarrow> real \<Rightarrow> store \<Rightarrow> string list" where
  "client_reasons cid now s =
     (case client_of cid s of
        None \<Rightarrow> [''missing_client'']
      | Some u \<Rightarrow>
        (if cl_manual u then [''client_manual''] else []) @
        (if cl_global_ip_block u then [''global_ip_quota''] else []) @
        (if cl_global_device_block u then [''global_device_quota''] else []) @
        (if cl_expires_at u \<noteq> 0 \<and> of_int (cl_expires_at u) \<le> now then [''expired''] else []) @
        (if cl_quota_bytes u \<noteq> 0 \<and> cl_quota_bytes u \<le> cl_used_bytes u then [''client_quota''] else []) @
        (case owner_of (cl_owner u) s of
           None \<Rightarrow> [''missing_owner'']
         | Some r \<Rightarrow>
           (if ow_manual r then [''owner_manual''] else []) @
           (if ow_account_disabled r then [''owner_account_disabled''] else [])))"

definition credit :: "actor \<Rightarrow> string \<Rightarrow> int \<Rightarrow> string \<Rightarrow> store \<Rightarrow> (store \<times> bool) res" where
  "credit act o' amount event_id s =
     Inl (PolicyError ''Monetary reseller credit is retired; use volume/unlimited resource credits'')"

definition refund :: "actor \<Rightarrow> string \<Rightarrow> string \<Rightarrow> store \<Rightarrow> (store \<times> bool) res" where
  "refund act order_id event_id s =
     Inl (PolicyError ''Monetary reseller refunds are retired; DARK does not store customer sale prices'')"

end
