(* ===== verification/Admins.thy ===== *)
theory Admins
  imports Store "HOL-Library.Word"
begin

text \<open>
  Passwords, permission ceilings and account creation of the policy API
  (backend/policy_auth.py). The key derivation function \<open>hashlib.scrypt\<close> is a parameter.
\<close>

section \<open>Permissions\<close>

definition allowed_permissions :: "string list" where
  "allowed_permissions = [''clients.read'', ''clients.create'', ''clients.edit'', ''clients.delete'',
     ''clients.reset'', ''owners.read'', ''owners.edit'', ''owners.reset'', ''finance.read'',
     ''ip.read'', ''system.read'']"

definition role_allowed :: "string \<Rightarrow> string list" where
  "role_allowed role =
     (if role = ''reseller'' then [''clients.read'', ''clients.create'', ''clients.edit'',
        ''clients.delete'', ''clients.reset'', ''owners.read'', ''finance.read'', ''ip.read'',
        ''system.read'']
      else if role = ''readonly''
      then [''clients.read'', ''owners.read'', ''finance.read'', ''ip.read'', ''system.read'']
      else [])"

definition known_role :: "string \<Rightarrow> bool" where
  "known_role role \<longleftrightarrow> role \<in> {''reseller'', ''readonly'', ''owner''}"

definition default_permissions :: "string \<Rightarrow> (string \<times> string) list" where
  "default_permissions role =
     (if role = ''reseller'' then
        [(''clients.read'', ''own''), (''clients.create'', ''own''), (''clients.edit'', ''own''),
         (''clients.delete'', ''own''), (''clients.reset'', ''own''), (''owners.read'', ''own''),
         (''finance.read'', ''own''), (''ip.read'', ''own'')]
      else if role = ''readonly'' then
        [(''clients.read'', ''all''), (''owners.read'', ''all''), (''finance.read'', ''all''),
         (''ip.read'', ''all'')]
      else [])"

definition effective_permissions ::
  "string \<Rightarrow> (string \<times> string) list \<Rightarrow> (string \<times> string) list" where
  "effective_permissions role raw =
     (if role = ''owner'' then []
      else filter (\<lambda>(k, v). k \<in> set (role_allowed role) \<and> v \<in> {''own'', ''all''}
                     \<and> \<not> (k = ''system.read'' \<and> v = ''own'')) raw)"

definition permissions_for ::
  "string \<Rightarrow> (string \<times> string) list option \<Rightarrow> (string \<times> string) list res" where
  "permissions_for role overrides =
     (if \<not> known_role role then Inl (PolicyError ''Unknown role'')
      else if role = ''owner'' then Inr []
      else let result = (case overrides of None \<Rightarrow> default_permissions role | Some p \<Rightarrow> p) in
        if \<exists>(k, v) \<in> set result. k \<notin> set allowed_permissions \<or> v \<notin> {''none'', ''own'', ''all''}
        then Inl (PolicyError ''Unrecognized permission or scope'')
        else if \<exists>(k, v) \<in> set result. v \<noteq> ''none'' \<and> k \<notin> set (role_allowed role)
        then Inl (PolicyError ''Permission exceeds the selected role ceiling'')
        else if map_of result ''system.read'' = Some ''own''
        then Inl (PolicyError ''Global permissions use scope all, not own'')
        else Inr result)"

section \<open>Passwords\<close>

type_synonym byte = "8 word"

definition hex_digit :: "nat \<Rightarrow> char" where
  "hex_digit n = ''0123456789abcdef'' ! n"

definition hex :: "byte list \<Rightarrow> string" where
  "hex bs = concat (map (\<lambda>b. [hex_digit (unat b div 16), hex_digit (unat b mod 16)]) bs)"

text \<open>\<open>bytes.fromhex\<close>: pairs of hexadecimal digits; white space between pairs is skipped.\<close>

definition hex_value :: "char \<Rightarrow> nat option" where
  "hex_value c = map_of (zip ''0123456789abcdefABCDEF''
     [0, 1, 2, 3, 4, 5, 6, 7, 8, 9, 10, 11, 12, 13, 14, 15, 10, 11, 12, 13, 14, 15]) c"

definition is_space :: "char \<Rightarrow> bool" where
  "is_space c \<longleftrightarrow> c \<in> {CHR '' '', CHR 0x09, CHR 0x0A, CHR 0x0B, CHR 0x0C, CHR 0x0D}"

fun from_hex :: "string \<Rightarrow> byte list option" where
  "from_hex [] = Some []"
| "from_hex [c] = (if is_space c then Some [] else None)"
| "from_hex (c # d # cs) =
     (if is_space c then from_hex (d # cs)
      else case (hex_value c, hex_value d) of
        (Some h, Some l) \<Rightarrow> map_option (\<lambda>bs. of_nat (16 * h + l) # bs) (from_hex cs)
      | _ \<Rightarrow> None)"

text \<open>\<open>s.split('$')\<close>.\<close>

fun split_dollar :: "string \<Rightarrow> string list" where
  "split_dollar [] = [[]]"
| "split_dollar (c # cs) =
     (if c = CHR ''$'' then [] # split_dollar cs
      else case split_dollar cs of [] \<Rightarrow> [[c]] | p # ps \<Rightarrow> (c # p) # ps)"

definition password_hash ::
  "(string \<Rightarrow> byte list \<Rightarrow> byte list) \<Rightarrow> byte list \<Rightarrow> string \<Rightarrow> string res" where
  "password_hash scrypt salt password =
     (if \<not> (8 \<le> length password \<and> length password \<le> 512)
      then Inl (PolicyError ''Password must be between 8 and 512 characters'')
      else Inr (''scrypt$16384$8$1$'' @ hex salt @ ''$'' @ hex (scrypt password salt)))"

definition verify_password ::
  "(string \<Rightarrow> byte list \<Rightarrow> byte list) \<Rightarrow> string \<Rightarrow> string \<Rightarrow> bool" where
  "verify_password scrypt password encoded =
     (if 512 < length password then False
      else case split_dollar encoded of
        [typ, n, r, p, salt, target] \<Rightarrow>
          if (typ, n, r, p) \<noteq> (''scrypt'', ''16384'', ''8'', ''1'') then False
          else (case (from_hex salt, from_hex target) of
                  (Some sb, Some tb) \<Rightarrow> scrypt password sb = tb
                | _ \<Rightarrow> False)
      | _ \<Rightarrow> False)"

section \<open>Accounts\<close>

definition create_admin ::
  "(string \<Rightarrow> byte list \<Rightarrow> byte list) \<Rightarrow> byte list \<Rightarrow> actor \<Rightarrow> string \<Rightarrow> string \<Rightarrow> string
   \<Rightarrow> (string \<times> string) list option \<Rightarrow> store \<Rightarrow> store res" where
  "create_admin scrypt salt act username password role permissions s =
     (if a_role act \<noteq> ''owner''
      then Inl (PermissionDenied ''Only the owner can create administrators'')
      else if \<not> valid_name username \<or> \<not> known_role role
      then Inl (PolicyError ''Invalid admin identity or role'')
      else rbind (permissions_for role permissions) (\<lambda>perms.
           rbind (password_hash scrypt salt password) (\<lambda>hashed.
           if role = ''reseller'' \<and> owner_of username s = None
           then Inl (PolicyError ''Create the matching reseller owner record before its login'')
           else rbind (insert_pk ad_id
                  \<lparr>ad_id = username, ad_role = role, ad_password_hash = hashed,
                    ad_permissions = perms, ad_disabled = False\<rparr> (st_admins s)) (\<lambda>admins.
                Inr (s\<lparr>st_admins := admins\<rparr>)))))"

definition bootstrap ::
  "(string \<Rightarrow> byte list \<Rightarrow> byte list) \<Rightarrow> byte list \<Rightarrow> string \<Rightarrow> string \<Rightarrow> store \<Rightarrow> store res" where
  "bootstrap scrypt salt username password s =
     rbind (password_hash scrypt salt password) (\<lambda>hashed.
     if \<not> valid_name username then Inl (PolicyError ''Invalid username'')
     else if st_admins s \<noteq> []
     then Inl (PolicyError ''Already initialized; no default account was overwritten'')
     else rbind (insert_pk ad_id
            \<lparr>ad_id = username, ad_role = ''owner'', ad_password_hash = hashed,
              ad_permissions = [], ad_disabled = False\<rparr> (st_admins s)) (\<lambda>admins.
          Inr (s\<lparr>st_admins := admins\<rparr>)))"

section \<open>A password verifies against its own hash\<close>

lemma hex_value_digit: "n < 16 \<Longrightarrow> hex_value (hex_digit n) = Some n"
  and hex_digit_no_space: "n < 16 \<Longrightarrow> \<not> is_space (hex_digit n)"
  and hex_digit_no_dollar: "n < 16 \<Longrightarrow> hex_digit n \<noteq> CHR ''$''"
proof -
  have "\<forall>n \<in> set [0..<16]. hex_value (hex_digit n) = Some n \<and> \<not> is_space (hex_digit n) \<and>
      hex_digit n \<noteq> CHR ''$''"
    by code_simp
  then show "n < 16 \<Longrightarrow> hex_value (hex_digit n) = Some n" and "n < 16 \<Longrightarrow> \<not> is_space (hex_digit n)"
    and "n < 16 \<Longrightarrow> hex_digit n \<noteq> CHR ''$''" by simp_all
qed

lemma unat_byte_less: "unat (b :: byte) < 256"
  using unsigned_less [of b, where ?'a = nat] by simp

lemma from_hex_hex [simp]: "from_hex (hex bs) = Some bs"
proof (induction bs)
  case Nil
  then show ?case by (simp add: hex_def)
next
  case (Cons b bs)
  have d: "unat b div 16 < 16" "unat b mod 16 < 16" using unat_byte_less [of b] by auto
  have "from_hex (hex (b # bs)) =
      map_option (\<lambda>bs'. of_nat (16 * (unat b div 16) + unat b mod 16) # bs') (from_hex (hex bs))"
    using d by (simp add: hex_def hex_value_digit hex_digit_no_space)
  then show ?case using Cons by simp
qed

lemma hex_no_dollar: "CHR ''$'' \<notin> set (hex bs)"
proof -
  have "hex_digit (unat b div 16) \<noteq> CHR ''$''" "hex_digit (unat b mod 16) \<noteq> CHR ''$''" for b :: byte
    using unat_byte_less [of b] by (auto intro!: hex_digit_no_dollar)
  then show ?thesis by (induction bs) (auto simp: hex_def eq_commute)
qed

lemma split_dollar_plain: "CHR ''$'' \<notin> set xs \<Longrightarrow> split_dollar xs = [xs]"
  by (induction xs) auto

lemma split_dollar_append:
  "CHR ''$'' \<notin> set xs \<Longrightarrow> split_dollar (xs @ CHR ''$'' # ys) = xs # split_dollar ys"
  by (induction xs) auto

lemma password_verifies:
  assumes "password_hash scrypt salt password = Inr encoded"
  shows "verify_password scrypt password encoded"
proof -
  have enc: "encoded = ''scrypt$16384$8$1$'' @ hex salt @ ''$'' @ hex (scrypt password salt)"
    and len: "length password \<le> 512"
    using assms by (auto simp: password_hash_def split: if_splits)
  have "split_dollar encoded =
      [''scrypt'', ''16384'', ''8'', ''1'', hex salt, hex (scrypt password salt)]"
    by (simp add: enc split_dollar_append split_dollar_plain hex_no_dollar)
  then show ?thesis using len by (simp add: verify_password_def)
qed

text \<open>
  C5. A password that \<open>password_hash\<close> accepts is accepted by \<open>verify_password\<close> against the
  stored text, whatever the salt and whatever digest the key derivation produced.
\<close>

theorem password_roundtrip:
  assumes "password_hash scrypt salt password = Inr encoded"
  shows "verify_password scrypt password encoded"
  using assms by (rule password_verifies)

theorem password_roundtrip_witness:
  "verify_password (\<lambda>p s. s) ''longpassword'' ''scrypt$16384$8$1$0aff$0aff''"
  by (rule password_roundtrip [of _ "[10, 255]"])
    (simp add: password_hash_def hex_def hex_digit_def)

section \<open>Permission ceilings\<close>

lemma effective_permissions_mem:
  "(k, v) \<in> set (effective_permissions role raw) \<Longrightarrow>
    k \<in> set (role_allowed role) \<and> v \<in> {''own'', ''all''} \<and> (k, v) \<in> set raw"
  by (auto simp: effective_permissions_def split: if_splits)

text \<open>
  C9. Whatever overrides the owner stores for an administrator, a permission that
  \<open>permissions_for\<close> grants is one its role may have, and what a session may finally use is a
  part of the stored permissions inside that ceiling; a read-only administrator can never be
  given a writing permission.
\<close>

theorem permission_ceiling:
  assumes "permissions_for role overrides = Inr perms"
  shows "(\<forall>(k, v) \<in> set perms. v = ''none'' \<or> (k \<in> set (role_allowed role) \<and> v \<in> {''own'', ''all''})) \<and>
    (\<forall>(k, v) \<in> set (effective_permissions role perms).
       k \<in> set (role_allowed role) \<and> (k, v) \<in> set perms \<and> v \<in> {''own'', ''all''})"
  using assms effective_permissions_mem [of _ _ role perms]
  by (auto simp: permissions_for_def Let_def split: if_splits)

theorem permission_ceiling_witness:
  "list_all (\<lambda>(k, v). k \<in> set (role_allowed ''readonly'') \<and> (k, v) \<in> set [(''clients.read'', ''own'')] \<and>
       v \<in> {''own'', ''all''}) (effective_permissions ''readonly'' [(''clients.read'', ''own'')])"
proof -
  have "permissions_for ''readonly'' (Some [(''clients.read'', ''own'')]) = Inr [(''clients.read'', ''own'')]"
    by (simp add: permissions_for_def known_role_def allowed_permissions_def role_allowed_def)
  from permission_ceiling [OF this, THEN conjunct2] show ?thesis
    unfolding list_all_iff .
qed

end
