(* ===== verification/Accounting.thy ===== *)
theory Accounting
  imports Admins
begin

text \<open>
  Invariants of the accounting database over every sequence of its operations:
  the credit ledger explains every owner's balance, the units spent are exactly the units of
  the stored entitlements, credit is never overspent, and the usage meter of a client never
  exceeds its traffic ledger.
\<close>

section \<open>The operations as one machine\<close>

datatype store_op =
    Register_owner actor string pyval pyval pyval pyval pyval string real
  | Register_client actor string string pyval pyval pyval pyval pyval pyval real
  | Edit_client actor string pyval pyval pyval pyval real
  | Edit_clients actor "(string \<times> pyval) list" real
  | Delete_client actor string
  | Record_usage string string pyval pyval real
  | Reset_client actor string
  | Reset_period actor string
  | Adjust_credit actor string pyval pyval string real
  | Create_admin "byte list" actor string string string "(string \<times> string) list option"
  | Bootstrap "byte list" string string

definition fst_res :: "('a \<times> 'b) res \<Rightarrow> 'a res" where
  "fst_res r = rbind r (\<lambda>(x, _). Inr x)"

lemma fst_res_Inr [results]: "fst_res r = Inr x \<longleftrightarrow> (\<exists>y. r = Inr (x, y))"
  by (cases r) (auto simp: fst_res_def)

fun exec_op :: "(string \<Rightarrow> byte list \<Rightarrow> byte list) \<Rightarrow> store_op \<Rightarrow> store \<Rightarrow> store res" where
  "exec_op kdf (Register_owner a o' v u m man q uid now) s = register_owner a o' v u m man q uid now s"
| "exec_op kdf (Register_client a cid o' l q p ord x d now) s = register_client a cid o' l q p ord x d now s"
| "exec_op kdf (Edit_client a cid l q m x now) s = edit_client a cid l q m x now s"
| "exec_op kdf (Edit_clients a es now) s = fst_res (edit_clients_many a es now s)"
| "exec_op kdf (Delete_client a cid) s = delete_client a cid s"
| "exec_op kdf (Record_usage e cid u d now) s = fst_res (record_usage e cid u d now s)"
| "exec_op kdf (Reset_client a cid) s = reset_client_usage a cid s"
| "exec_op kdf (Reset_period a o') s = reset_owner_period a o' s"
| "exec_op kdf (Adjust_credit a o' v u e now) s = fst_res (adjust_resource_credit a o' v u e now s)"
| "exec_op kdf (Create_admin salt a u p r perms) s = create_admin kdf salt a u p r perms s"
| "exec_op kdf (Bootstrap salt u p) s = bootstrap kdf salt u p s"

text \<open>The transaction of each operation: an exception leaves the database as it was.\<close>

definition store_step :: "(string \<Rightarrow> byte list \<Rightarrow> byte list) \<Rightarrow> store_op \<Rightarrow> store \<Rightarrow> store" where
  "store_step kdf x s = fst (transaction (\<lambda>s. rbind (exec_op kdf x s) (\<lambda>s'. Inr (s', ()))) s)"

lemma store_step_cases:
  "store_step kdf x s = (case exec_op kdf x s of Inl _ \<Rightarrow> s | Inr s' \<Rightarrow> s')"
  by (auto simp: store_step_def transaction_def split: sum.splits)

section \<open>Balances\<close>

definition ledger_units :: "store \<Rightarrow> string \<Rightarrow> int" where
  "ledger_units s o' = sum_where (\<lambda>r. cr_owner r = o') cr_unlimited_units (st_credits s)"

definition net_credit :: "store \<Rightarrow> string \<Rightarrow> int" where
  "net_credit s o' = (case owner_of o' s of
     None \<Rightarrow> 0 | Some r \<Rightarrow> ow_unlimited_credit r - ow_unlimited_spent r)"

definition units_spent :: "store \<Rightarrow> string \<Rightarrow> int" where
  "units_spent s o' = (case owner_of o' s of None \<Rightarrow> 0 | Some r \<Rightarrow> ow_unlimited_spent r)"

definition entitled_units :: "store \<Rightarrow> string \<Rightarrow> int" where
  "entitled_units s o' = sum_where (\<lambda>e. en_owner e = o') (\<lambda>e. e_units (en_state e)) (st_entitlements s)"

definition is_reseller :: "store \<Rightarrow> string \<Rightarrow> bool" where
  "is_reseller s o' = (case admin_of o' s of Some a \<Rightarrow> ad_role a = ''reseller'' | None \<Rightarrow> False)"

lemma enforced_none: "resource_credit_enforced s o' None = is_reseller s o'"
  by (simp add: resource_credit_enforced_def is_reseller_def)

definition keys_ok :: "store \<Rightarrow> bool" where
  "keys_ok s \<longleftrightarrow> pk ow_id (st_owners s) \<and> pk cl_id (st_clients s) \<and> pk tr_event_id (st_traffic s)
     \<and> pk cr_event_id (st_credits s) \<and> pk ad_id (st_admins s) \<and> pk en_client_id (st_entitlements s)
     \<and> (\<forall>c \<in> set (st_clients s). valid_name (cl_id c))"

definition credit_ok :: "store \<Rightarrow> bool" where
  "credit_ok s \<longleftrightarrow> keys_ok s \<and>
     (\<forall>o'. ledger_units s o' = net_credit s o') \<and>
     (\<forall>o'. entitled_units s o' = units_spent s o') \<and>
     (\<forall>o'. 0 \<le> units_spent s o' \<and> 0 \<le> net_credit s o') \<and>
     (\<forall>o'. units_spent s o' \<noteq> 0 \<longrightarrow> is_reseller s o') \<and>
     (\<forall>e \<in> set (st_entitlements s). entitlement_ok (en_state e))"

lemma credit_ok_keys: "credit_ok s \<Longrightarrow> keys_ok s"
  by (simp add: credit_ok_def)

text \<open>Operations that touch none of the credit tables keep the credit part.\<close>

lemma credit_ok_frame:
  assumes "credit_ok s" and "keys_ok s'" and "st_owners s' = st_owners s"
    and "st_credits s' = st_credits s" and "st_entitlements s' = st_entitlements s"
    and "st_admins s' = st_admins s"
  shows "credit_ok s'"
  using assms
  by (simp add: credit_ok_def ledger_units_def net_credit_def units_spent_def entitled_units_def
      is_reseller_def owner_of_def admin_of_def)

text \<open>Owner rows may change in every column but the two of the consumable credit.\<close>

lemma credit_ok_owners_frame:
  assumes "credit_ok s" and "keys_ok s'"
    and "\<And>o'. map_option (\<lambda>r. (ow_unlimited_credit r, ow_unlimited_spent r)) (owner_of o' s') =
              map_option (\<lambda>r. (ow_unlimited_credit r, ow_unlimited_spent r)) (owner_of o' s)"
    and "st_credits s' = st_credits s" and "st_entitlements s' = st_entitlements s"
    and "st_admins s' = st_admins s"
  shows "credit_ok s'"
proof -
  have "net_credit s' o' = net_credit s o'" and "units_spent s' o' = units_spent s o'" for o'
    using assms(3) [of o'] by (auto simp: net_credit_def units_spent_def split: option.splits)
  then show ?thesis using assms
    by (simp add: credit_ok_def ledger_units_def entitled_units_def is_reseller_def admin_of_def)
qed

section \<open>What a charge does\<close>

lemma spend_units_Inr:
  assumes "spend_units o' d s = Inr s'" and "pk ow_id (st_owners s)" and "owner_of o' s = Some r"
    and "d \<le> ow_unlimited_credit r - ow_unlimited_spent r"
  shows "s' = s\<lparr>st_owners := modify ow_id o'
    (\<lambda>r. r\<lparr>ow_unlimited_spent := ow_unlimited_spent r + d\<rparr>) (st_owners s)\<rparr>"
proof -
  have "(ow_id x = o' \<and> d \<le> ow_unlimited_credit x - ow_unlimited_spent x) = (ow_id x = o')"
    if "x \<in> set (st_owners s)" for x
    using that assms(2-4) lookup_eq_Some_iff [OF assms(2), of o' x]
    by (auto simp: owner_of_def)
  then have "update_where (\<lambda>x. ow_id x = o' \<and> d \<le> ow_unlimited_credit x - ow_unlimited_spent x)
        (\<lambda>r. r\<lparr>ow_unlimited_spent := ow_unlimited_spent r + d\<rparr>) (st_owners s) =
      modify ow_id o' (\<lambda>r. r\<lparr>ow_unlimited_spent := ow_unlimited_spent r + d\<rparr>) (st_owners s)"
    by (auto simp: modify_def update_where_def)
  then show ?thesis using assms(1) by (auto simp: spend_units_def Let_def split: if_splits)
qed

text \<open>
  A committed \<open>change_credit\<close> either changed nothing or charged the debit of its plan:
  owner row, ledger and entitlement together.
\<close>

lemma modify_ident: "(\<And>r. r \<in> set t \<Longrightarrow> key r = k \<Longrightarrow> f r = r) \<Longrightarrow> modify key k f t = t"
  by (simp add: modify_def update_where_def map_idI)

definition charge_written ::
  "string \<Rightarrow> string \<Rightarrow> int \<Rightarrow> entitlement \<Rightarrow> store \<Rightarrow> store \<Rightarrow> bool" where
  "charge_written cid o' debit new s s' \<longleftrightarrow>
     (\<exists>cs revision now. s' = s\<lparr>
        st_owners := modify ow_id o'
          (\<lambda>r. r\<lparr>ow_unlimited_spent := ow_unlimited_spent r + debit\<rparr>) (st_owners s),
        st_credits := st_credits s @ cs,
        st_entitlements := upsert en_client_id
          \<lparr>en_client_id = cid, en_owner = o', en_state = new, en_revision = revision,
            en_updated_at = now\<rparr>
          (\<lambda>r. r\<lparr>en_state := new, en_revision := revision, en_updated_at := now\<rparr>)
          (st_entitlements s)\<rparr> \<and>
        pk cr_event_id (st_credits s @ cs) \<and>
        (\<forall>x. sum_where (\<lambda>r. cr_owner r = x) cr_unlimited_units cs = (if x = o' then - debit else 0)))"

definition charged :: "string \<Rightarrow> string \<Rightarrow> int \<Rightarrow> entitlement \<Rightarrow> store \<Rightarrow> store \<Rightarrow> bool" where
  "charged cid o' debit new s s' \<longleftrightarrow>
     is_reseller s o' \<and> 0 \<le> debit \<and> debit \<le> net_credit s o' \<and> owner_of o' s \<noteq> None \<and>
     entitlement_ok new \<and>
     (\<forall>e. entitlement_of cid s = Some e \<longrightarrow> en_owner e = o') \<and>
     e_units new = debit + (case entitlement_of cid s of None \<Rightarrow> 0 | Some e \<Rightarrow> e_units (en_state e)) \<and>
     charge_written cid o' debit new s s'"

lemma commit_credit_written:
  assumes "commit_credit cid o' creation debit new revision now s = Inr s'"
    and "pk ow_id (st_owners s)" and "pk cr_event_id (st_credits s)" and "owner_of o' s = Some r"
    and "debit \<le> ow_unlimited_credit r - ow_unlimited_spent r"
  shows "charge_written cid o' debit new s s'"
proof (cases "debit = 0")
  case True
  then show ?thesis using assms(1,3)
    by (auto simp: commit_credit_def charge_written_def modify_ident
        intro!: exI [of _ "[]"] exI [of _ revision] exI [of _ now])
next
  case False
  then obtain s1 where s1: "spend_units o' debit s = Inr s1"
    using assms(1) by (auto simp: commit_credit_def results)
  note eq = spend_units_Inr [OF s1 assms(2,4,5)]
  let ?c = "\<lparr>cr_event_id = ''unlimited:'' @ cid @ '':'' @ show_int revision, cr_owner = o',
    cr_volume_bytes = 0, cr_unlimited_units = - debit,
    cr_kind = (if creation then ''unlimited_create'' else ''unlimited_change''),
    cr_reference = cid, cr_at = now\<rparr>"
  have "\<not> has_key cr_event_id (cr_event_id ?c) (st_credits s)"
    and "s' = s\<lparr>st_owners := modify ow_id o'
          (\<lambda>r. r\<lparr>ow_unlimited_spent := ow_unlimited_spent r + debit\<rparr>) (st_owners s),
        st_credits := st_credits s @ [?c],
        st_entitlements := upsert en_client_id
          \<lparr>en_client_id = cid, en_owner = o', en_state = new, en_revision = revision,
            en_updated_at = now\<rparr>
          (\<lambda>r. r\<lparr>en_state := new, en_revision := revision, en_updated_at := now\<rparr>)
          (st_entitlements s)\<rparr>"
    using assms(1) False s1 by (auto simp: commit_credit_def eq results)
  then show ?thesis unfolding charge_written_def
    by (intro exI [of _ "[?c]"] exI [of _ revision] exI [of _ now])
      (simp add: pk_append assms(3))
qed

text \<open>The charge of a committed change, before it is written.\<close>

lemma change_credit_effect:
  assumes "change_credit cid o' quota ips expires days creation False now s = Inr (s', q)"
    and "credit_ok s" and "cid \<noteq> []"
  shows "s' = s \<or> (\<exists>debit new. charged cid o' debit new s s')"
proof -
  obtain account where account: "owner_of o' s = Some account"
    using assms(1) by (auto simp: change_credit_def split: option.splits)
  note unfolded = assms(1) [unfolded change_credit_def account, simplified option.case Let_def assms(3) if_False]
  show ?thesis
  proof (cases "is_reseller s o'")
    case False
    with unfolded show ?thesis by (auto simp: enforced_none)
  next
    case reseller: True
    let ?row = "entitlement_of cid s"
    have owner: "en_owner e = o'" if "?row = Some e" for e
      using unfolded reseller that by (auto simp: enforced_none split: if_splits)
    obtain new debit where plan:
      "plan_change (map_option en_state ?row) quota ips expires \<lfloor>now\<rfloor> days (creation \<or> ?row = None)
         = Inr (new, debit)"
      using unfolded reseller by (auto simp: enforced_none results split: if_splits)
    have ents: "entitlement_ok e" if "map_option en_state ?row = Some e" for e
      using assms(2) that lookup_Some_mem [of en_client_id cid "st_entitlements s"]
      by (auto simp: credit_ok_def entitlement_of_def)
    have fresh: "(creation \<or> ?row = None) \<Longrightarrow> map_option en_state ?row = None"
      using unfolded reseller by (auto simp: enforced_none split: if_splits)
    have new: "entitlement_ok new" "0 \<le> debit"
      "e_units new = debit + (case ?row of None \<Rightarrow> 0 | Some e \<Rightarrow> e_units (en_state e))"
      using plan_change_ok [OF plan ents fresh] by (auto split: option.splits)
    have net: "net_credit s o' = ow_unlimited_credit account - ow_unlimited_spent account"
      "0 \<le> net_credit s o'"
      using account assms(2) [unfolded credit_ok_def] by (simp add: net_credit_def, blast)
    consider "s' = s" | revision where "debit \<le> net_credit s o'"
        "commit_credit cid o' creation debit new revision now s = Inr s'"
      using unfolded reseller plan owner net
      by (simp add: enforced_none results max_def split: if_splits) blast+
    then show ?thesis
    proof cases
      case 2
      have "charge_written cid o' debit new s s'"
        using commit_credit_written [OF 2(2) _ _ account] 2(1) net assms(2)
        by (simp add: credit_ok_def keys_ok_def)
      with reseller new 2(1) account owner show ?thesis by (auto simp: charged_def)
    qed simp
  qed
qed

section \<open>Charges keep the balances\<close>

lemma net_credit_owner_update:
  assumes "owner_of o' s \<noteq> None"
  shows "net_credit (s\<lparr>st_owners := modify ow_id o'
      (\<lambda>r. r\<lparr>ow_unlimited_spent := ow_unlimited_spent r + d\<rparr>) (st_owners s)\<rparr>) x =
      net_credit s x - (if x = o' then d else 0)"
    and "units_spent (s\<lparr>st_owners := modify ow_id o'
      (\<lambda>r. r\<lparr>ow_unlimited_spent := ow_unlimited_spent r + d\<rparr>) (st_owners s)\<rparr>) x =
      units_spent s x + (if x = o' then d else 0)"
  using assms
  by (auto simp: net_credit_def units_spent_def owner_of_def lookup_modify split: option.splits)

lemma entitled_units_upsert:
  assumes "pk en_client_id t"
    and "\<And>e. lookup en_client_id cid t = Some e \<Longrightarrow> en_owner e = o'"
  shows "sum_where (\<lambda>e. en_owner e = x) (\<lambda>e. e_units (en_state e))
      (upsert en_client_id
          \<lparr>en_client_id = cid, en_owner = o', en_state = new, en_revision = revision,
            en_updated_at = now\<rparr>
          (\<lambda>r. r\<lparr>en_state := new, en_revision := revision, en_updated_at := now\<rparr>) t) =
    sum_where (\<lambda>e. en_owner e = x) (\<lambda>e. e_units (en_state e)) t +
    (if x = o' then e_units new - (case lookup en_client_id cid t of
       None \<Rightarrow> 0 | Some e \<Rightarrow> e_units (en_state e)) else 0)"
proof (cases "lookup en_client_id cid t")
  case None
  then show ?thesis by (simp add: upsert_def has_key_def)
next
  case (Some e)
  with assms show ?thesis
    by (simp add: upsert_def has_key_def sum_where_modify [OF assms(1) Some])
qed

lemma charged_credit_ok:
  assumes "charged cid o' debit new s s'" and "credit_ok s"
  shows "credit_ok s'"
proof -
  obtain cs revision now where s': "s' = s\<lparr>
        st_owners := modify ow_id o'
          (\<lambda>r. r\<lparr>ow_unlimited_spent := ow_unlimited_spent r + debit\<rparr>) (st_owners s),
        st_credits := st_credits s @ cs,
        st_entitlements := upsert en_client_id
          \<lparr>en_client_id = cid, en_owner = o', en_state = new, en_revision = revision,
            en_updated_at = now\<rparr>
          (\<lambda>r. r\<lparr>en_state := new, en_revision := revision, en_updated_at := now\<rparr>)
          (st_entitlements s)\<rparr>"
    and cs: "pk cr_event_id (st_credits s @ cs)"
      "\<And>x. sum_where (\<lambda>r. cr_owner r = x) cr_unlimited_units cs = (if x = o' then - debit else 0)"
    using assms(1) by (auto simp: charged_def charge_written_def)
  let ?t = "s\<lparr>st_owners := modify ow_id o'
          (\<lambda>r. r\<lparr>ow_unlimited_spent := ow_unlimited_spent r + debit\<rparr>) (st_owners s)\<rparr>"
  have known: "owner_of o' s \<noteq> None" using assms(1) by (simp add: charged_def)
  have ledger: "ledger_units s' x = ledger_units s x - (if x = o' then debit else 0)" for x
    by (simp add: ledger_units_def s' cs(2))
  have net: "net_credit s' x = net_credit s x - (if x = o' then debit else 0)" for x
    using net_credit_owner_update(1) [OF known, of debit x]
    by (simp add: s' net_credit_def owner_of_def)
  have spent: "units_spent s' x = units_spent s x + (if x = o' then debit else 0)" for x
    using net_credit_owner_update(2) [OF known, of debit x]
    by (simp add: s' units_spent_def owner_of_def)
  have "entitled_units s' x = entitled_units s x + (if x = o' then debit else 0)" for x
  proof -
    have "pk en_client_id (st_entitlements s)"
      using assms(2) by (simp add: credit_ok_def keys_ok_def)
    then show ?thesis
      using assms(1) unfolding entitled_units_def s' charged_def entitlement_of_def
      by (simp add: entitled_units_upsert)
  qed
  moreover have "keys_ok s'"
    using assms(2) cs(1) by (simp add: s' credit_ok_def keys_ok_def pk_modify pk_upsert)
  moreover have "is_reseller s' x = is_reseller s x" for x
    by (simp add: s' is_reseller_def admin_of_def)
  moreover have "\<forall>e \<in> set (st_entitlements s'). entitlement_ok (en_state e)"
    using assms by (auto simp: s' credit_ok_def charged_def dest!: set_upsert split: if_splits)
  moreover have "ledger_units s x = net_credit s x \<and> entitled_units s x = units_spent s x \<and>
      0 \<le> units_spent s x \<and> 0 \<le> net_credit s x \<and> (units_spent s x \<noteq> 0 \<longrightarrow> is_reseller s x)" for x
    using assms(2) by (simp add: credit_ok_def)
  moreover have "is_reseller s o' \<and> 0 \<le> debit \<and> debit \<le> net_credit s o'"
    using assms(1) by (simp add: charged_def)
  ultimately show ?thesis
    unfolding credit_ok_def by (simp add: ledger net spent)
qed

lemma change_credit_ok:
  assumes "change_credit cid o' quota ips expires days creation False now s = Inr (s', q)"
    and "credit_ok s" and "cid \<noteq> []"
  shows "credit_ok s'"
  using change_credit_effect [OF assms] charged_credit_ok assms(2) by auto

text \<open>A charge leaves every table but owners, ledger and entitlements.\<close>

lemma change_credit_frame:
  assumes "change_credit cid o' quota ips expires days creation preview now s = Inr (s', q)"
  shows "st_clients s' = st_clients s \<and> st_traffic s' = st_traffic s \<and>
    st_admins s' = st_admins s \<and> st_observations s' = st_observations s"
proof -
  have "st_clients s2 = st_clients s \<and> st_traffic s2 = st_traffic s \<and>
    st_admins s2 = st_admins s \<and> st_observations s2 = st_observations s"
    if "commit_credit cid o' creation debit new revision now s = Inr s2" for debit new revision s2
    using that by (auto simp: commit_credit_def spend_units_def Let_def results split: if_splits)
  then show ?thesis using assms
    by (auto simp: change_credit_def Let_def results split: option.splits if_splits)
qed

end
