(* ===== verification/Credit_Safety.thy ===== *)
theory Credit_Safety
  imports Accounting
begin

text \<open>
  Every operation of the accounting database keeps \<open>credit_ok\<close>, the balance invariant of the
  consumable credit, so it holds in every state the panel reaches from an empty database.
\<close>

lemma valid_name_nonempty: "valid_name cid \<Longrightarrow> cid \<noteq> []"
  by (auto simp: valid_name_def)

lemma client_of_name: "credit_ok s \<Longrightarrow> client_of cid s = Some u \<Longrightarrow> cid \<noteq> [] \<and> cl_id u = cid"
  using lookup_Some_mem [of cl_id cid "st_clients s" u]
  by (auto simp: credit_ok_def keys_ok_def client_of_def valid_name_nonempty)

text \<open>Operations on the other tables only need the primary keys again.\<close>

lemma credit_ok_clients:
  assumes "credit_ok s" and "pk cl_id cs" and "\<forall>c \<in> set cs. valid_name (cl_id c)"
  shows "credit_ok (s\<lparr>st_clients := cs\<rparr>)"
  by (rule credit_ok_frame [OF assms(1)])
    (use assms credit_ok_keys [OF assms(1)] in \<open>simp_all add: keys_ok_def\<close>)

lemma clients_keys:
  assumes "credit_ok s"
  shows "pk cl_id (st_clients s)" and "\<forall>c \<in> set (st_clients s). valid_name (cl_id c)"
  using assms by (simp_all add: credit_ok_def keys_ok_def)

lemma credit_ok_modify_client:
  assumes "credit_ok s" and "\<And>c. cl_id (f c) = cl_id c"
  shows "credit_ok (s\<lparr>st_clients := modify cl_id cid f (st_clients s)\<rparr>)"
  using assms clients_keys [OF assms(1)]
  by (intro credit_ok_clients) (auto simp: pk_modify dest!: set_modify)

section \<open>One operation at a time\<close>

lemma register_client_credit_ok:
  assumes "register_client act cid o' l q p ord x d now s = Inr s'" and "credit_ok s"
  shows "credit_ok s'"
proof -
  obtain ips quota expires s1 qt where name: "valid_name cid"
    and charge: "change_credit cid o' q l x d True False now s = Inr (s1, qt)"
    and fresh: "\<not> has_key cl_id cid (st_clients s1)"
    and s': "s' = s1\<lparr>st_clients := st_clients s1 @ [new_client_row cid o' ips quota expires]\<rparr>"
    using assms(1) by (auto simp: register_client_def results new_client_row_def
        split: option.splits if_splits)
  have "credit_ok s1"
    using change_credit_ok [OF charge assms(2)] name by (simp add: valid_name_nonempty)
  with name fresh clients_keys [OF this] show ?thesis
    unfolding s' by (intro credit_ok_clients) (auto simp: pk_append new_client_row_def)
qed

lemma edit_request_client:
  "edit_request act cid l q m x s = Inr (u, ips, quota, expires, man) \<Longrightarrow>
   client_of cid s = Some u \<and> can act ''clients'' ''edit'' (Some (cl_owner u))"
  by (auto simp: edit_request_def results split: option.splits if_splits)

lemma edit_client_credit_ok:
  assumes "edit_client act cid l q m x now s = Inr s'" and "credit_ok s"
  shows "credit_ok s'"
proof -
  obtain u ips quota expires man s1
    where request: "edit_request act cid l q m x s = Inr (u, ips, quota, expires, man)"
    and s1: "s1 = s \<or> (\<exists>qt. change_credit cid (cl_owner u) (PInt quota) (PInt ips) (PInt expires)
                          PNone False False now s = Inr (s1, qt))"
    and s': "s' = s1\<lparr>st_clients := modify cl_id cid
            (\<lambda>c. c\<lparr>cl_limit_ip := ips, cl_quota_bytes := quota, cl_expires_at := expires,
                   cl_manual := man\<rparr>) (st_clients s1)\<rparr>"
    using assms(1) by (auto simp: edit_client_def edit_write_def rbind_Inr split: if_splits) blast+
  have "cid \<noteq> []" using client_of_name [OF assms(2)] edit_request_client [OF request] by blast
  with s1 assms(2) have "credit_ok s1" by (auto intro: change_credit_ok)
  then show ?thesis unfolding s' by (rule credit_ok_modify_client) simp
qed

lemma edit_rows_credit_ok:
  "edit_rows act es seen errors now s = Inr (s', r) \<Longrightarrow> credit_ok s \<Longrightarrow> credit_ok s'"
proof (induction act es seen errors now s rule: edit_rows.induct)
  case (2 act e es seen errors now s)
  have one: "credit_ok s1" if "edit_one act seen e now s = Inr s1" for s1
    using that 2(4) by (cases e)
      (auto split: pyval.splits if_splits intro: edit_client_credit_ok)
  show ?case using 2 one by (auto split: sum.splits if_splits)
qed simp

lemma delete_client_credit_ok:
  assumes "delete_client act cid s = Inr s'" and "credit_ok s"
  shows "credit_ok s'"
proof -
  obtain obs where s': "s' = (s\<lparr>st_clients := remove_key cl_id cid (st_clients s)\<rparr>)\<lparr>st_observations := obs\<rparr>"
    using assms(1) by (auto simp: delete_client_def results split: option.splits if_splits)
  have "credit_ok (s\<lparr>st_clients := remove_key cl_id cid (st_clients s)\<rparr>)"
    using clients_keys [OF assms(2)] assms(2) by (intro credit_ok_clients) (auto simp: pk_remove_key)
  then show ?thesis unfolding s'
    by (rule credit_ok_frame) (use credit_ok_keys [OF \<open>credit_ok (_\<lparr>st_clients := _\<rparr>)\<close>]
        in \<open>simp_all add: keys_ok_def\<close>)
qed

lemma record_usage_effect:
  assumes "record_usage e cid u d now s = Inr (s', b)"
  shows "\<exists>up down. u = PInt up \<and> d = PInt down \<and> 0 \<le> up \<and> 0 \<le> down \<and>
    (\<not> b \<and> s' = s \<and> has_key tr_event_id e (st_traffic s) \<or>
     (\<exists>c r. b \<and> \<not> has_key tr_event_id e (st_traffic s) \<and> client_of cid s = Some c \<and>
       owner_of (cl_owner c) s = Some r \<and> cl_used_bytes c + up + down \<le> max_int \<and>
       s' = s\<lparr>st_traffic := st_traffic s @
                  [\<lparr>tr_event_id = e, tr_owner = cl_owner c, tr_client_id = cid,
                    tr_period = ow_period r, tr_up = up, tr_down = down, tr_observed_at = now\<rparr>],
              st_clients := modify cl_id cid
                  (\<lambda>c. c\<lparr>cl_used_bytes := cl_used_bytes c + (up + down)\<rparr>) (st_clients s)\<rparr>))"
  using assms by (cases "lookup tr_event_id e (st_traffic s)")
    (auto simp: record_usage_def results has_key_def split: option.splits if_splits)

lemma record_usage_credit_ok:
  assumes "record_usage e cid u d now s = Inr (s', b)" and "credit_ok s"
  shows "credit_ok s'"
proof (cases "s' = s")
  case False
  with record_usage_effect [OF assms(1)] obtain up down t where
    s': "s' = s\<lparr>st_traffic := st_traffic s @ [t], st_clients := modify cl_id cid
          (\<lambda>c. c\<lparr>cl_used_bytes := cl_used_bytes c + (up + down)\<rparr>) (st_clients s)\<rparr>"
    and t: "\<not> has_key tr_event_id (tr_event_id t) (st_traffic s)"
    by fastforce
  have 1: "credit_ok (s\<lparr>st_clients := modify cl_id cid
          (\<lambda>c. c\<lparr>cl_used_bytes := cl_used_bytes c + (up + down)\<rparr>) (st_clients s)\<rparr>)"
    using assms(2) by (rule credit_ok_modify_client) simp
  show ?thesis unfolding s' using 1
    by (rule credit_ok_frame) (use credit_ok_keys [OF 1] t in \<open>simp_all add: keys_ok_def pk_append\<close>)
qed (simp add: assms)

lemma reset_client_credit_ok:
  "reset_client_usage act cid s = Inr s' \<Longrightarrow> credit_ok s \<Longrightarrow> credit_ok s'"
  by (auto simp: reset_client_usage_def results split: option.splits if_splits
      intro: credit_ok_modify_client)

lemma reset_period_credit_ok:
  assumes "reset_owner_period act o' s = Inr s'" and "credit_ok s"
  shows "credit_ok s'"
proof -
  have s': "s' = s\<lparr>st_owners := modify ow_id o' (\<lambda>r. r\<lparr>ow_period := ow_period r + 1\<rparr>) (st_owners s)\<rparr>"
    using assms(1) by (auto simp: reset_owner_period_def results split: if_splits)
  show ?thesis
    by (rule credit_ok_owners_frame [OF assms(2)])
      (use credit_ok_keys [OF assms(2)] in
        \<open>auto simp: s' keys_ok_def pk_modify owner_of_def lookup_modify option.map_comp comp_def\<close>)
qed


lemma adjust_credit_effect:
  assumes "adjust_resource_credit act o' v u e now s = Inr (s', b)"
  shows "\<exists>dv du. v = PInt dv \<and> u = PInt du \<and> can act ''owners'' ''edit'' (Some o') \<and>
    (\<not> b \<and> s' = s \<and> has_key cr_event_id e (st_credits s) \<or>
     (\<exists>r. b \<and> \<not> has_key cr_event_id e (st_credits s) \<and> owner_of o' s = Some r \<and> is_reseller s o' \<and>
       0 \<le> ow_volume_credit r + dv \<and> fst (allocation s o' None) \<le> ow_volume_credit r + dv \<and>
       ow_unlimited_spent r \<le> ow_unlimited_credit r + du \<and>
       s' = s\<lparr>st_credits := st_credits s @
                     [\<lparr>cr_event_id = e, cr_owner = o', cr_volume_bytes = dv,
                       cr_unlimited_units = du, cr_kind = ''adjust'', cr_reference = [],
                       cr_at = now\<rparr>],
              st_owners := modify ow_id o'
                     (\<lambda>r'. r'\<lparr>ow_volume_credit := ow_volume_credit r + dv,
                            ow_unlimited_credit := ow_unlimited_credit r + du,
                            ow_quota_bytes := 0\<rparr>) (st_owners s)\<rparr>))"
proof -
  obtain dv du where args: "v = PInt dv" "u = PInt du" "can act ''owners'' ''edit'' (Some o')"
    using assms by (auto simp: adjust_resource_credit_def results split: if_splits)
  have known: "owner_of o' s \<noteq> None" if "lookup cr_event_id e (st_credits s) = None"
    using assms that by (auto simp: adjust_resource_credit_def results split: if_splits option.splits)
  show ?thesis
  proof (cases "lookup cr_event_id e (st_credits s)")
    case None
    with known obtain r where "owner_of o' s = Some r" by blast
    with assms args None show ?thesis
      by (simp add: adjust_resource_credit_def results has_key_def Let_def not_less
          is_reseller_def [symmetric] split: if_splits)
  next
    case (Some old)
    with assms args show ?thesis
      by (simp add: adjust_resource_credit_def results has_key_def split: if_splits)
  qed
qed

text \<open>A grant moves the balance of one owner and the ledger by the same amount.\<close>

lemma granted_credit_ok:
  assumes "credit_ok s" and "keys_ok s'"
    and net: "\<And>x. net_credit s' x = net_credit s x + (if x = o' then d else 0)"
    and spent: "\<And>x. units_spent s' x = units_spent s x"
    and ledger: "\<And>x. ledger_units s' x = ledger_units s x + (if x = o' then d else 0)"
    and "st_entitlements s' = st_entitlements s" and "st_admins s' = st_admins s"
    and "0 \<le> net_credit s' o'"
  shows "credit_ok s'"
proof -
  have "0 \<le> net_credit s' x" for x
    using assms(1,8) net [of x] by (cases "x = o'") (auto simp: credit_ok_def)
  then show ?thesis using assms(1,2,6,7)
    by (simp add: credit_ok_def ledger net spent entitled_units_def is_reseller_def admin_of_def)
qed

lemma adjust_credit_ok:
  assumes "adjust_resource_credit act o' v u e now s = Inr (s', b)" and "credit_ok s"
  shows "credit_ok s'"
proof (cases "s' = s")
  case False
  with adjust_credit_effect [OF assms(1)] obtain dv du r where
    fresh: "\<not> has_key cr_event_id e (st_credits s)" and r: "owner_of o' s = Some r"
    and fits: "ow_unlimited_spent r \<le> ow_unlimited_credit r + du"
    and s': "s' = s\<lparr>st_credits := st_credits s @
                     [\<lparr>cr_event_id = e, cr_owner = o', cr_volume_bytes = dv,
                       cr_unlimited_units = du, cr_kind = ''adjust'', cr_reference = [],
                       cr_at = now\<rparr>],
              st_owners := modify ow_id o'
                     (\<lambda>r'. r'\<lparr>ow_volume_credit := ow_volume_credit r + dv,
                            ow_unlimited_credit := ow_unlimited_credit r + du,
                            ow_quota_bytes := 0\<rparr>) (st_owners s)\<rparr>"
    by blast
  show ?thesis
  proof (rule granted_credit_ok [OF assms(2), of _ o' du])
    show "keys_ok s'" using credit_ok_keys [OF assms(2)] fresh
      by (simp add: s' keys_ok_def pk_append pk_modify)
    show "ledger_units s' x = ledger_units s x + (if x = o' then du else 0)" for x
      by (simp add: s' ledger_units_def)
    show "0 \<le> net_credit s' o'" using r fits
      by (simp add: s' net_credit_def owner_of_def lookup_modify)
  qed (use r in \<open>auto simp: s' net_credit_def units_spent_def owner_of_def lookup_modify
        split: option.splits\<close>)
qed (simp add: assms)

text \<open>An owner registered again keeps what it spent and may not fall below it.\<close>

lemma owner_request_floor:
  assumes "owner_request act o' v u m man q s = Inr (volume, unlimited, maxc, keep)" and "credit_ok s"
  shows "units_spent s o' \<le> unlimited"
proof -
  have spent: "units_spent s o' = (case owner_of o' s of Some p \<Rightarrow> ow_unlimited_spent p | None \<Rightarrow> 0)"
    by (simp add: units_spent_def split: option.splits)
  have key: "keep_or_integer (map_option ow_unlimited_credit (owner_of o' s)) u 1000000 = Inr unlimited"
    and floor: "resource_credit_enforced s o' (Some act) \<longrightarrow> units_spent s o' \<le> unlimited"
    using assms(1) unfolding owner_request_def spent
    by (auto simp: results Let_def not_less simp del: split_paired_Ex split: if_splits)
  have ok: "0 \<le> units_spent s o'" "0 \<le> net_credit s o'" "units_spent s o' \<noteq> 0 \<longrightarrow> is_reseller s o'"
    using assms(2) by (simp_all add: credit_ok_def)
  have "0 \<le> unlimited"
    using key ok(1,2) by (auto simp: keep_or_integer_def results net_credit_def units_spent_def
        split: if_splits option.splits)
  with floor ok show ?thesis
    by (cases "units_spent s o' = 0") (auto simp: resource_credit_enforced_def is_reseller_def)
qed

lemma write_owner_credit_ok:
  assumes "write_owner act o' volume unlimited maxc man uid now s = Inr s'" and "credit_ok s"
    and "units_spent s o' \<le> unlimited"
  shows "credit_ok s'"
proof -
  let ?d = "unlimited - (case owner_of o' s of Some p \<Rightarrow> ow_unlimited_credit p | None \<Rightarrow> 0)"
  let ?row = "(new_owner_row o')\<lparr>ow_volume_credit := volume, ow_unlimited_credit := unlimited,
                  ow_max_clients := maxc, ow_manual := man\<rparr>"
  obtain cs where s': "s' = s\<lparr>st_owners := upsert ow_id ?row
                 (\<lambda>r. r\<lparr>ow_quota_bytes := 0, ow_volume_credit := volume,
                     ow_unlimited_credit := unlimited, ow_max_clients := maxc,
                     ow_manual := man\<rparr>) (st_owners s), st_credits := st_credits s @ cs\<rparr>"
    and cs: "pk cr_event_id (st_credits s @ cs)"
      "\<And>x. sum_where (\<lambda>r. cr_owner r = x) cr_unlimited_units cs = (if x = o' then ?d else 0)"
  proof (cases "?d = 0")
    case True
    with assms(1,2) show ?thesis
      by (intro that [of "[]"]) (auto simp: write_owner_def Let_def credit_ok_def keys_ok_def)
  next
    case False
    with assms(1,2) show ?thesis
      by (intro that [of "[\<lparr>cr_event_id = ''unlimited-grant:'' @ uid, cr_owner = o',
          cr_volume_bytes = 0, cr_unlimited_units = ?d, cr_kind = ''unlimited_grant_set'',
          cr_reference = a_id act, cr_at = now\<rparr>]"])
        (auto simp: write_owner_def Let_def results credit_ok_def keys_ok_def pk_append)
  qed
  have row: "owner_of x s' = (if x = o' then (case owner_of x s of None \<Rightarrow> Some ?row
      | Some r \<Rightarrow> Some (r\<lparr>ow_quota_bytes := 0, ow_volume_credit := volume,
          ow_unlimited_credit := unlimited, ow_max_clients := maxc, ow_manual := man\<rparr>))
      else owner_of x s)" for x
    by (simp add: s' owner_of_def lookup_upsert new_owner_row_def split: option.splits)
  show ?thesis
  proof (rule granted_credit_ok [OF assms(2), of _ o' ?d])
    show "keys_ok s'" using credit_ok_keys [OF assms(2)] cs(1)
      by (simp add: s' keys_ok_def pk_upsert new_owner_row_def)
    show "ledger_units s' x = ledger_units s x + (if x = o' then ?d else 0)" for x
      by (simp add: s' ledger_units_def cs(2))
    show "net_credit s' x = net_credit s x + (if x = o' then ?d else 0)" for x
      by (simp add: net_credit_def row new_owner_row_def split: option.splits)
    show "units_spent s' x = units_spent s x" for x
      by (simp add: units_spent_def row new_owner_row_def split: option.splits)
    show "0 \<le> net_credit s' o'"
      using assms(3) by (simp add: net_credit_def units_spent_def row new_owner_row_def split: option.splits)
  qed (simp_all add: s')
qed

lemma register_owner_credit_ok:
  assumes "register_owner act o' v u m man q uid now s = Inr s'" and "credit_ok s"
  shows "credit_ok s'"
  using assms(1) owner_request_floor [OF _ assms(2)] write_owner_credit_ok [OF _ assms(2)]
  by (auto simp: register_owner_def rbind_Inr)

section \<open>Administrators\<close>

text \<open>A new administrator row is inserted once; no operation here changes a role.\<close>

lemma new_admin_credit_ok:
  assumes "credit_ok s" and "\<not> has_key ad_id (ad_id r) (st_admins s)"
  shows "credit_ok (s\<lparr>st_admins := st_admins s @ [r]\<rparr>)"
proof -
  have "is_reseller (s\<lparr>st_admins := st_admins s @ [r]\<rparr>) x" if "is_reseller s x" for x
    using that by (simp add: is_reseller_def admin_of_def lookup_append split: option.splits)
  then show ?thesis using assms
    by (auto simp: credit_ok_def keys_ok_def pk_append ledger_units_def net_credit_def
        units_spent_def entitled_units_def owner_of_def)
qed

lemma create_admin_credit_ok:
  "create_admin kdf salt act u p r perms s = Inr s' \<Longrightarrow> credit_ok s \<Longrightarrow> credit_ok s'"
  by (auto simp: create_admin_def results split: if_splits intro!: new_admin_credit_ok)

lemma bootstrap_credit_ok:
  "bootstrap kdf salt u p s = Inr s' \<Longrightarrow> credit_ok s \<Longrightarrow> credit_ok s'"
  using new_admin_credit_ok [of s]
  by (auto simp: bootstrap_def results split: if_splits)

section \<open>The machine\<close>

lemmas op_credit_ok = register_owner_credit_ok register_client_credit_ok edit_client_credit_ok
  edit_rows_credit_ok delete_client_credit_ok record_usage_credit_ok reset_client_credit_ok
  reset_period_credit_ok adjust_credit_ok create_admin_credit_ok bootstrap_credit_ok

lemma exec_op_credit_ok:
  assumes "exec_op kdf x s = Inr s'" and "credit_ok s"
  shows "credit_ok s'"
  using assms
  by (cases x) (auto simp: fst_res_Inr edit_clients_many_def split: if_splits intro: op_credit_ok)

interpretation credit_machine: invariant_machine "store_step kdf" credit_ok for kdf
  by unfold_locales (auto simp: store_step_cases split: sum.splits intro: exec_op_credit_ok)

lemma credit_ok_empty: "credit_ok empty_store"
  by (simp add: credit_ok_def keys_ok_def empty_store_def pk_def ledger_units_def net_credit_def
      owner_of_def entitled_units_def units_spent_def)


end
