(* ===== verification/Usage_Safety.thy ===== *)
theory Usage_Safety
  imports Credit_Safety
begin

text \<open>
  The traffic ledger and the authority of actors over the accounting database: usage events
  count once, meters are explained by the ledger, an actor confined to its own records never
  touches another owner's, and a representative's clients fit in its volume credit.
\<close>

section \<open>Events count once\<close>

record usage_event =
  ue_id :: string
  ue_client :: string
  ue_up :: pyval
  ue_down :: pyval
  ue_at :: real

definition usage_step :: "usage_event \<Rightarrow> store \<Rightarrow> store" where
  "usage_step e s =
     fst (transaction (record_usage (ue_id e) (ue_client e) (ue_up e) (ue_down e) (ue_at e)) s)"

lemma usage_step_cases:
  "usage_step e s = (case record_usage (ue_id e) (ue_client e) (ue_up e) (ue_down e) (ue_at e) s of
     Inl _ \<Rightarrow> s | Inr (s', _) \<Rightarrow> s')"
  by (auto simp: usage_step_def transaction_def split: sum.splits)

lemma usage_step_effect:
  "usage_step e s = s \<or>
   \<not> has_key tr_event_id (ue_id e) (st_traffic s) \<and>
   (\<exists>t. tr_event_id t = ue_id e \<and> st_traffic (usage_step e s) = st_traffic s @ [t])"
  using record_usage_effect [of "ue_id e" "ue_client e" "ue_up e" "ue_down e" "ue_at e" s]
  by (fastforce simp: usage_step_cases split: sum.splits)

interpretation usage_log: once_log usage_step ue_id "\<lambda>k s. has_key tr_event_id k (st_traffic s)"
proof unfold_locales
  show "has_key tr_event_id k (st_traffic (usage_step x s))"
    if "has_key tr_event_id k (st_traffic s)" for k s x
    using usage_step_effect [of x s] that by (auto simp: has_key_append)
  show "usage_step x s = s" if "has_key tr_event_id (ue_id x) (st_traffic s)" for x s
    using usage_step_effect [of x s] that by auto
  show "has_key tr_event_id (ue_id x) (st_traffic (usage_step x s))" if "usage_step x s \<noteq> s" for x s
    using usage_step_effect [of x s] that by (auto simp: has_key_append has_key_singleton)
qed

text \<open>
  A usage event that the ledger has recorded is never counted again, whatever other usage
  events arrive in between and whatever byte counts the repeated request carries.
\<close>

theorem usage_replay_ignored:
  assumes "has_key tr_event_id (ue_id e) (st_traffic s)"
  shows "usage_step e (run_steps usage_step events s) = run_steps usage_step events s"
  using assms by (rule usage_log.replay_after_run)

definition sample_store :: store where
  "sample_store = empty_store\<lparr>
     st_owners := [(new_owner_row ''ann'')\<lparr>ow_volume_credit := 100\<rparr>],
     st_clients := [new_client_row ''c1'' ''ann'' 2 50 0]\<rparr>"

definition sample_event :: usage_event where
  "sample_event = \<lparr>ue_id = ''e1'', ue_client = ''c1'', ue_up = PInt 3, ue_down = PInt 4, ue_at = 0\<rparr>"

lemma sample_recorded: "has_key tr_event_id (ue_id sample_event) (st_traffic (usage_step sample_event sample_store))"
  by (simp add: usage_step_cases record_usage_def sample_event_def sample_store_def empty_store_def
      new_client_row_def new_owner_row_def client_of_def owner_of_def usage_of_def max_int_val
      has_key_def lookup_modify modify_def update_where_def)

theorem usage_replay_ignored_witness:
  "usage_step sample_event (run_steps usage_step [sample_event\<lparr>ue_id := ''e2''\<rparr>]
      (usage_step sample_event sample_store)) =
   run_steps usage_step [sample_event\<lparr>ue_id := ''e2''\<rparr>] (usage_step sample_event sample_store)"
  by (rule usage_replay_ignored [OF sample_recorded])

section \<open>Meters and ledger\<close>

definition client_traffic :: "store \<Rightarrow> string \<Rightarrow> int" where
  "client_traffic s cid = sum_where (\<lambda>t. tr_client_id t = cid) (\<lambda>t. tr_up t + tr_down t) (st_traffic s)"

text \<open>
  \<open>meter_ok\<close>: ledger rows are non-negative, every client's meter is within its part of the
  ledger, and the total of every owner that the ledger accepted stays representable.
\<close>

definition meter_ok :: "store \<Rightarrow> bool" where
  "meter_ok s \<longleftrightarrow> pk cl_id (st_clients s) \<and>
     (\<forall>t \<in> set (st_traffic s). 0 \<le> tr_up t \<and> 0 \<le> tr_down t) \<and>
     (\<forall>c \<in> set (st_clients s). 0 \<le> cl_used_bytes c \<and> cl_used_bytes c \<le> client_traffic s (cl_id c) \<and>
        cl_used_bytes c \<le> max_int) \<and>
     (\<forall>o'. usage_of s o' None \<le> max_int)"

lemma meter_ok_frame:
  assumes "meter_ok s" and "st_traffic s' = st_traffic s" and "pk cl_id (st_clients s')"
    and "\<And>c'. c' \<in> set (st_clients s') \<Longrightarrow> cl_used_bytes c' = 0 \<or>
      (\<exists>c \<in> set (st_clients s). cl_id c' = cl_id c \<and> cl_used_bytes c' = cl_used_bytes c)"
  shows "meter_ok s'"
proof -
  have nonneg: "0 \<le> client_traffic s cid" for cid
    using assms(1) unfolding client_traffic_def by (intro sum_where_nonneg) (auto simp: meter_ok_def)
  have "client_traffic s' cid = client_traffic s cid" and "usage_of s' o' p = usage_of s o' p" for cid o' p
    by (simp_all add: client_traffic_def usage_of_def assms(2))
  with assms nonneg show ?thesis
    by (fastforce simp: meter_ok_def max_int_val)
qed

lemma meter_ok_same:
  "meter_ok s \<Longrightarrow> st_clients s' = st_clients s \<and> st_traffic s' = st_traffic s \<Longrightarrow> meter_ok s'"
  by (simp add: meter_ok_def client_traffic_def usage_of_def)

lemma set_modify_keep:
  assumes "c' \<in> set (modify key k f t)" and "\<And>c. g (f c) = g c"
  shows "\<exists>c \<in> set t. g c' = g c"
  using set_modify [OF assms(1)] assms(2) by (auto split: if_splits)

lemma record_usage_meter_ok:
  assumes "record_usage e cid u d now s = Inr (s', b)" and "meter_ok s"
  shows "meter_ok s'"
proof (cases b)
  case False
  with assms record_usage_effect [OF assms(1)] show ?thesis by auto
next
  case True
  with record_usage_effect [OF assms(1)] obtain up down c r where
    args: "u = PInt up" "d = PInt down" "0 \<le> up" "0 \<le> down"
    and c: "client_of cid s = Some c" and r: "owner_of (cl_owner c) s = Some r"
    and fresh: "\<not> has_key tr_event_id e (st_traffic s)"
    and fits: "cl_used_bytes c + up + down \<le> max_int"
    and s': "s' = s\<lparr>st_traffic := st_traffic s @
                  [\<lparr>tr_event_id = e, tr_owner = cl_owner c, tr_client_id = cid,
                    tr_period = ow_period r, tr_up = up, tr_down = down, tr_observed_at = now\<rparr>],
              st_clients := modify cl_id cid
                  (\<lambda>c. c\<lparr>cl_used_bytes := cl_used_bytes c + (up + down)\<rparr>) (st_clients s)\<rparr>"
    by auto
  have total: "usage_of s (cl_owner c) None + up + down \<le> max_int"
    using assms(1) args c r fresh
    by (auto simp: record_usage_def results has_key_def split: if_splits)
  have traffic: "client_traffic s' x = client_traffic s x + (if x = cid then up + down else 0)" for x
    by (simp add: client_traffic_def s')
  have usage: "usage_of s' x None = usage_of s x None + (if x = cl_owner c then up + down else 0)" for x
    by (simp add: usage_of_def s')
  have pk: "pk cl_id (st_clients s)" using assms(2) by (simp add: meter_ok_def)
  have "0 \<le> cl_used_bytes c' \<and> cl_used_bytes c' \<le> client_traffic s' (cl_id c') \<and> cl_used_bytes c' \<le> max_int"
    if "c' \<in> set (st_clients s')" for c'
  proof -
    have "c' \<in> set (modify cl_id cid
          (\<lambda>c. c\<lparr>cl_used_bytes := cl_used_bytes c + (up + down)\<rparr>) (st_clients s))"
      using that by (simp add: s')
    from set_modify [OF this] obtain c0 where c0: "c0 \<in> set (st_clients s)"
      "c' = (if cl_id c0 = cid then c0\<lparr>cl_used_bytes := cl_used_bytes c0 + (up + down)\<rparr> else c0)"
      by blast
    have bound: "0 \<le> cl_used_bytes c0 \<and> cl_used_bytes c0 \<le> client_traffic s (cl_id c0) \<and>
        cl_used_bytes c0 \<le> max_int"
      using assms(2) c0(1) by (simp add: meter_ok_def)
    have "c0 = c" if "cl_id c0 = cid"
      using c c0(1) that lookup_eq_Some_iff [OF pk, of cid c0] by (simp add: client_of_def)
    with bound fits args show ?thesis by (auto simp: c0(2) traffic)
  qed
  moreover have "usage_of s' x None \<le> max_int" for x
    using assms(2) total by (auto simp: usage meter_ok_def)
  moreover have "pk cl_id (st_clients s')" using pk by (simp add: s' pk_modify)
  moreover have "\<forall>t \<in> set (st_traffic s'). 0 \<le> tr_up t \<and> 0 \<le> tr_down t"
    using assms(2) args by (auto simp: s' meter_ok_def)
  ultimately show ?thesis by (simp add: meter_ok_def)
qed


section \<open>What each operation does to the client table\<close>

lemma register_client_clients:
  assumes "register_client act cid o' l q p ord x d now s = Inr s'"
  shows "can act ''clients'' ''create'' (Some o') \<and> st_traffic s' = st_traffic s \<and>
    (\<exists>ips quota expires. 0 \<le> quota \<and> q = PInt quota \<and> \<not> has_key cl_id cid (st_clients s) \<and>
       st_clients s' = st_clients s @ [new_client_row cid o' ips quota expires])"
proof -
  obtain ips quota expires s1 qt where "can act ''clients'' ''create'' (Some o')" "0 \<le> quota" "q = PInt quota"
    and charge: "change_credit cid o' q l x d True False now s = Inr (s1, qt)"
    and fresh: "\<not> has_key cl_id cid (st_clients s1)"
    and s': "s' = s1\<lparr>st_clients := st_clients s1 @ [new_client_row cid o' ips quota expires]\<rparr>"
    using assms by (auto simp: register_client_def results new_client_row_def
        split: option.splits if_splits)
  with change_credit_frame [OF charge] show ?thesis by auto
qed

lemma edit_client_clients:
  assumes "edit_client act cid l q m x now s = Inr s'"
  shows "st_traffic s' = st_traffic s \<and>
    (\<exists>u ips quota expires man. edit_request act cid l q m x s = Inr (u, ips, quota, expires, man) \<and>
       client_of cid s = Some u \<and> can act ''clients'' ''edit'' (Some (cl_owner u)) \<and>
       st_clients s' = modify cl_id cid
            (\<lambda>c. c\<lparr>cl_limit_ip := ips, cl_quota_bytes := quota, cl_expires_at := expires,
                   cl_manual := man\<rparr>) (st_clients s))"
proof -
  obtain u ips quota expires man s1
    where request: "edit_request act cid l q m x s = Inr (u, ips, quota, expires, man)"
    and s1: "s1 = s \<or> (\<exists>qt. change_credit cid (cl_owner u) (PInt quota) (PInt ips) (PInt expires)
                          PNone False False now s = Inr (s1, qt))"
    and s': "s' = s1\<lparr>st_clients := modify cl_id cid
            (\<lambda>c. c\<lparr>cl_limit_ip := ips, cl_quota_bytes := quota, cl_expires_at := expires,
                   cl_manual := man\<rparr>) (st_clients s1)\<rparr>"
    using assms by (auto simp: edit_client_def edit_write_def rbind_Inr split: if_splits) blast+
  have "st_clients s1 = st_clients s" and "st_traffic s1 = st_traffic s"
    using s1 change_credit_frame by blast+
  with request s' edit_request_client [OF request] show ?thesis by auto
qed

lemma edit_rows_steps:
  assumes "edit_rows act es seen errors now s = Inr (s', r)" and "P s"
    and "\<And>s1 s2 cid l q m x. P s1 \<Longrightarrow> edit_client act cid l q m x now s1 = Inr s2 \<Longrightarrow> P s2"
  shows "P s'"
  using assms
proof (induction act es seen errors now s rule: edit_rows.induct)
  case (2 act e es seen errors now s)
  have "P s1" if "edit_one act seen e now s = Inr s1" for s1
    using that 2(4,5) by (cases e) (auto split: pyval.splits if_splits)
  then show ?case using 2 by (auto split: sum.splits if_splits)
qed simp

lemma edit_client_meter_ok:
  assumes "meter_ok s" and "edit_client act cid l q m x now s = Inr s'"
  shows "meter_ok s'"
proof -
  obtain f where s': "st_traffic s' = st_traffic s" "st_clients s' = modify cl_id cid f (st_clients s)"
    and f: "\<And>c. (cl_id (f c), cl_used_bytes (f c)) = (cl_id c, cl_used_bytes c)"
    using edit_client_clients [OF assms(2)] by auto
  show ?thesis
  proof (rule meter_ok_frame [OF assms(1) s'(1)])
    show "pk cl_id (st_clients s')" using assms(1) f by (simp add: s' pk_modify meter_ok_def)
    fix c' assume "c' \<in> set (st_clients s')"
    then have "c' \<in> set (modify cl_id cid f (st_clients s))" by (simp add: s')
    from set_modify_keep [where g = "\<lambda>c. (cl_id c, cl_used_bytes c)", OF this f]
    show "cl_used_bytes c' = 0 \<or>
      (\<exists>c \<in> set (st_clients s). cl_id c' = cl_id c \<and> cl_used_bytes c' = cl_used_bytes c)"
      by auto
  qed
qed

lemma exec_op_meter_ok:
  assumes "exec_op kdf op s = Inr s'" and "meter_ok s"
  shows "meter_ok s'"
proof (cases op)
  case (Register_client a cid o' l q p ord x d now)
  with assms(1) have "register_client a cid o' l q p ord x d now s = Inr s'" by simp
  from register_client_clients [OF this] have
    "st_traffic s' = st_traffic s" and "\<exists>ips quota expires. \<not> has_key cl_id cid (st_clients s) \<and>
       st_clients s' = st_clients s @ [new_client_row cid o' ips quota expires]"
    by blast+
  with assms(2) show ?thesis
    by (intro meter_ok_frame [OF assms(2)]) (auto simp: meter_ok_def pk_append new_client_row_def)
next
  case (Edit_clients a es now)
  with assms show ?thesis
    by (auto simp: fst_res_Inr edit_clients_many_def split: if_splits
        intro: edit_rows_steps [where P = meter_ok] edit_client_meter_ok)
next
  case (Record_usage e cid u d now)
  with assms show ?thesis by (auto simp: fst_res_Inr intro: record_usage_meter_ok)
next
  case (Edit_client a cid l q m x now)
  with assms show ?thesis by (auto intro: edit_client_meter_ok)
next
  case (Delete_client a cid)
  with assms show ?thesis
    by (intro meter_ok_frame [OF assms(2)])
      (auto simp: delete_client_def meter_ok_def pk_remove_key results split: option.splits if_splits)
next
  case (Reset_client a cid)
  with assms show ?thesis
    by (intro meter_ok_frame [OF assms(2)])
      (auto simp: reset_client_usage_def meter_ok_def pk_modify results
        dest!: set_modify split: option.splits if_splits, blast)
next
  case (Register_owner a o' v u m man q uid now)
  with assms(1) have "st_clients s' = st_clients s \<and> st_traffic s' = st_traffic s"
    by (auto simp: register_owner_def write_owner_def Let_def results split: if_splits)
  with assms(2) show ?thesis by (blast intro: meter_ok_same)
next
  case (Reset_period a o')
  with assms(1) have "st_clients s' = st_clients s \<and> st_traffic s' = st_traffic s"
    by (auto simp: reset_owner_period_def results split: if_splits)
  with assms(2) show ?thesis by (blast intro: meter_ok_same)
next
  case (Adjust_credit a o' v u e now)
  with assms(1) obtain b where "adjust_resource_credit a o' v u e now s = Inr (s', b)"
    by (auto simp: fst_res_Inr)
  from adjust_credit_effect [OF this] have "st_clients s' = st_clients s \<and> st_traffic s' = st_traffic s"
    by auto
  with assms(2) show ?thesis by (blast intro: meter_ok_same)
next
  case (Create_admin salt a u p r perms)
  with assms(1) have "st_clients s' = st_clients s \<and> st_traffic s' = st_traffic s"
    by (auto simp: create_admin_def results split: if_splits)
  with assms(2) show ?thesis by (blast intro: meter_ok_same)
next
  case (Bootstrap salt u p)
  with assms(1) have "st_clients s' = st_clients s \<and> st_traffic s' = st_traffic s"
    by (auto simp: bootstrap_def results split: if_splits)
  with assms(2) show ?thesis by (blast intro: meter_ok_same)
qed

interpretation meter_machine: invariant_machine "store_step kdf" meter_ok for kdf
  by unfold_locales (auto simp: store_step_cases split: sum.splits intro: exec_op_meter_ok)

lemma meter_ok_empty: "meter_ok empty_store"
  by (simp add: meter_ok_def empty_store_def pk_def usage_of_def max_int_val)


end
