(* ===== verification/Authority.thy ===== *)
theory Authority
  imports Usage_Safety
begin

text \<open>
  What an actor may reach in the accounting database. An actor that is not the installation
  owner and holds no \<open>all\<close> scope leaves every other owner's rows alone, and the volume that a
  representative hands out to its clients stays within its credit.
\<close>

section \<open>Confinement\<close>

fun op_actor :: "store_op \<Rightarrow> actor option" where
  "op_actor (Register_owner a o' v u m man q uid now) = Some a"
| "op_actor (Register_client a cid o' l q p ord x d now) = Some a"
| "op_actor (Edit_client a cid l q m x now) = Some a"
| "op_actor (Edit_clients a es now) = Some a"
| "op_actor (Delete_client a cid) = Some a"
| "op_actor (Record_usage e cid u d now) = None"
| "op_actor (Reset_client a cid) = Some a"
| "op_actor (Reset_period a o') = Some a"
| "op_actor (Adjust_credit a o' v u e now) = Some a"
| "op_actor (Create_admin salt a u p r perms) = Some a"
| "op_actor (Bootstrap salt u p) = None"

definition confined :: "actor \<Rightarrow> bool" where
  "confined a \<longleftrightarrow> a_role a \<noteq> ''owner'' \<and> list_all (\<lambda>(k, v). v \<noteq> ''all'') (a_permissions a)"

lemma confined_can: "confined a \<Longrightarrow> can a r x (Some o') \<Longrightarrow> o' = a_id a"
  by (rule can_own_only)
    (auto simp: confined_def scope_of_def list_all_iff dest!: map_of_SomeD split: option.splits)

definition others :: "actor \<Rightarrow> store \<Rightarrow> client_row list \<times> owner_row list" where
  "others a s = (filter (\<lambda>c. cl_owner c \<noteq> a_id a) (st_clients s),
                 filter (\<lambda>r. ow_id r \<noteq> a_id a) (st_owners s))"

lemma filter_modify:
  assumes "pk key t" and "lookup key k t = Some r" and "\<not> P r" and "\<not> P (f r)"
  shows "filter P (modify key k f t) = filter P t"
  using assms
proof (induction t)
  case (Cons x t)
  show ?case
  proof (cases "key x = k")
    case True
    with Cons.prems have "modify key k f t = t" and "x = r"
      by (auto simp: pk_def modify_def update_where_def image_iff intro!: map_idI)
    with True Cons.prems show ?thesis by (simp add: modify_def update_where_def)
  next
    case False
    with Cons show ?thesis by (simp add: pk_def modify_def update_where_def)
  qed
qed simp

lemma filter_remove_key:
  assumes "pk key t" and "lookup key k t = Some r" and "\<not> P r"
  shows "filter P (remove_key key k t) = filter P t"
proof -
  have "x = r" if "x \<in> set t" "key x = k" for x
    using that assms(2) lookup_eq_Some_iff [OF assms(1), of k x] by simp
  with assms(3) show ?thesis
    by (auto simp: remove_key_def delete_where_def intro!: filter_cong)
qed

lemma filter_modify_key [simp]:
  assumes "\<And>r. key (f r) = key r"
  shows "filter (\<lambda>r. key r \<noteq> k) (modify key k f t) = filter (\<lambda>r. key r \<noteq> k) t"
  using assms by (induction t) (auto simp: modify_def update_where_def)

lemma filter_upsert_key:
  assumes "\<And>r. key (f r) = key r" and "key r = k"
  shows "filter (\<lambda>r. key r \<noteq> k) (upsert key r f t) = filter (\<lambda>r. key r \<noteq> k) t"
  using assms by (simp add: upsert_def)

lemma filter_update_where:
  assumes "\<And>r. P r \<Longrightarrow> \<not> Q r \<and> \<not> Q (f r)"
  shows "filter Q (update_where P f t) = filter Q t"
  using assms by (induction t) (auto simp: update_where_def)

text \<open>A charge writes the charged owner's row only.\<close>

lemma commit_credit_owners:
  assumes "commit_credit cid o' creation debit new revision now s = Inr s'"
  shows "filter (\<lambda>r. ow_id r \<noteq> o') (st_owners s') = filter (\<lambda>r. ow_id r \<noteq> o') (st_owners s)"
proof -
  have "filter (\<lambda>r. ow_id r \<noteq> o') (st_owners s1) = filter (\<lambda>r. ow_id r \<noteq> o') (st_owners s)"
    if "spend_units o' debit s = Inr s1" for s1
    using that by (auto simp: spend_units_def Let_def intro!: filter_update_where split: if_splits)
  moreover have "st_owners s' = st_owners s \<or>
      (\<exists>s1. spend_units o' debit s = Inr s1 \<and> st_owners s' = st_owners s1)"
    using assms by (cases "debit = 0") (auto simp: commit_credit_def rbind_Inr insert_pk_Inr)
  ultimately show ?thesis by auto
qed

lemma change_credit_owners:
  assumes "change_credit cid o' q i x d creation preview now s = Inr (s', qt)"
  shows "filter (\<lambda>r. ow_id r \<noteq> o') (st_owners s') = filter (\<lambda>r. ow_id r \<noteq> o') (st_owners s)"
  using assms
  by (auto simp: change_credit_def Let_def results dest: commit_credit_owners
      split: option.splits if_splits)

lemma register_client_owners:
  assumes "register_client act cid o' l q p ord x d now s = Inr s'"
  shows "filter (\<lambda>r. ow_id r \<noteq> o') (st_owners s') = filter (\<lambda>r. ow_id r \<noteq> o') (st_owners s)"
  using assms
  by (auto simp: register_client_def results dest!: change_credit_owners split: option.splits if_splits)

lemma edit_client_owners:
  assumes "edit_client act cid l q m x now s = Inr s'" and "client_of cid s = Some u"
  shows "filter (\<lambda>r. ow_id r \<noteq> cl_owner u) (st_owners s') = filter (\<lambda>r. ow_id r \<noteq> cl_owner u) (st_owners s)"
  using assms edit_request_client [of act cid l q m x s]
  by (auto simp: edit_client_def edit_write_def results dest!: change_credit_owners split: if_splits)

lemma edit_client_others:
  assumes "pk cl_id (st_clients s) \<and> others a s = w" and "edit_client a cid l q m x now s = Inr s'"
    and "confined a"
  shows "pk cl_id (st_clients s') \<and> others a s' = w"
proof -
  obtain u f where u: "client_of cid s = Some u" and allowed: "can a ''clients'' ''edit'' (Some (cl_owner u))"
    and s': "st_clients s' = modify cl_id cid f (st_clients s)"
    and f: "\<And>c. cl_id (f c) = cl_id c" "\<And>c. cl_owner (f c) = cl_owner c"
    using edit_client_clients [OF assms(2)] by auto
  have me: "cl_owner u = a_id a" using confined_can [OF assms(3) allowed] .
  have "filter (\<lambda>c. cl_owner c \<noteq> a_id a) (st_clients s') = filter (\<lambda>c. cl_owner c \<noteq> a_id a) (st_clients s)"
    unfolding s' using assms(1) u me f
    by (intro filter_modify [of _ _ _ u]) (auto simp: client_of_def)
  with edit_client_owners [OF assms(2) u] assms(1) me f show ?thesis
    by (auto simp: others_def s' pk_modify)
qed

lemma confined_others:
  assumes "exec_op kdf op s = Inr s'" and "op_actor op = Some a" and "confined a"
    and "pk cl_id (st_clients s)"
  shows "others a s' = others a s"
proof (cases op)
  case (Register_owner a' o' v u m man q uid now)
  with assms(1,2) have reg: "register_owner a o' v u m man q uid now s = Inr s'" by simp
  have "o' = a_id a" using reg confined_can [OF assms(3)]
    by (auto simp: register_owner_def owner_request_def results split: if_splits)
  then show ?thesis using reg
    by (auto simp: register_owner_def write_owner_def Let_def results others_def new_owner_row_def
        filter_upsert_key split: if_splits)
next
  case (Register_client a' cid o' l q p ord x d now)
  with assms(1,2) have reg: "register_client a cid o' l q p ord x d now s = Inr s'" by simp
  from register_client_clients [OF reg] confined_can [OF assms(3)] register_client_owners [OF reg]
  show ?thesis by (auto simp: others_def new_client_row_def)
next
  case (Edit_client a' cid l q m x now)
  with assms(1,2) have "edit_client a cid l q m x now s = Inr s'" by simp
  from edit_client_others [OF _ this assms(3)] assms(4) show ?thesis by blast
next
  case (Edit_clients a' es now)
  with assms(1,2) obtain r where "edit_rows a es [] [] now s = Inr (s', r)"
    by (auto simp: fst_res_Inr edit_clients_many_def split: if_splits)
  from edit_rows_steps [where P = "\<lambda>t. pk cl_id (st_clients t) \<and> others a t = others a s", OF this]
  show ?thesis using assms(4) edit_client_others [OF _ _ assms(3)] by blast
next
  case (Delete_client a' cid)
  with assms show ?thesis using confined_can [OF assms(3)]
    by (auto simp: delete_client_def results others_def client_of_def
        intro!: filter_remove_key split: option.splits if_splits)
next
  case (Reset_client a' cid)
  with assms show ?thesis using confined_can [OF assms(3)]
    by (auto simp: reset_client_usage_def results others_def client_of_def
        intro!: filter_modify split: option.splits if_splits)
next
  case (Reset_period a' o')
  with assms show ?thesis using confined_can [OF assms(3)]
    by (auto simp: reset_owner_period_def results others_def split: if_splits)
next
  case (Adjust_credit a' o' v u e now)
  with assms(1,2) obtain b where adj: "adjust_resource_credit a o' v u e now s = Inr (s', b)"
    by (auto simp: fst_res_Inr)
  from adjust_credit_effect [OF adj] show ?thesis using confined_can [OF assms(3)]
    by (auto simp: others_def)
qed (use assms in \<open>auto simp: create_admin_def confined_def\<close>)

text \<open>
  C3. An actor that is not the installation owner and whose permissions grant no \<open>all\<close> scope
  (a representative) cannot, by any operation, change, add or remove a client or an owner record
  that belongs to anybody else.
\<close>

theorem confined_actor_leaves_others:
  assumes "op_actor op = Some a" and "confined a" and "pk cl_id (st_clients s)"
  shows "others a (store_step kdf op s) = others a s"
  using confined_others [OF _ assms, of kdf]
  by (simp add: store_step_cases split: sum.splits)

definition ann :: actor where
  "ann = \<lparr>a_id = ''ann'', a_role = ''reseller'', a_permissions = default_permissions ''reseller''\<rparr>"

theorem confined_actor_leaves_others_witness:
  "others ann (store_step (\<lambda>_ _. []) (Reset_client ann ''c1'') sample_store) = others ann sample_store"
  by (rule confined_actor_leaves_others)
    (simp_all add: ann_def confined_def default_permissions_def sample_store_def empty_store_def pk_def)

section \<open>Volume handed out by a representative\<close>

abbreviation allocated :: "store \<Rightarrow> string \<Rightarrow> int" where
  "allocated s o' \<equiv> fst (allocation s o' None)"

definition volume_of :: "store \<Rightarrow> string \<Rightarrow> int" where
  "volume_of s o' = (case owner_of o' s of None \<Rightarrow> 0 | Some r \<Rightarrow> ow_volume_credit r)"

definition volume_ok :: "store \<Rightarrow> bool" where
  "volume_ok s \<longleftrightarrow> pk cl_id (st_clients s) \<and>
     list_all (\<lambda>a. ad_role a \<noteq> ''reseller'' \<or> allocated s (ad_id a) \<le> volume_of s (ad_id a))
       (st_admins s) \<and> pk ad_id (st_admins s)"

lemma reseller_enforced: "is_reseller s o' \<Longrightarrow> resource_credit_enforced s o' (Some act)"
  by (simp add: is_reseller_def resource_credit_enforced_def)

lemma volume_okI:
  assumes "volume_ok s" and "pk cl_id (st_clients s')" and "st_admins s' = st_admins s"
    and "\<And>o'. is_reseller s o' \<Longrightarrow> allocated s o' \<le> volume_of s o' \<Longrightarrow> allocated s' o' \<le> volume_of s' o'"
  shows "volume_ok s'"
proof -
  have "allocated s' (ad_id a) \<le> volume_of s' (ad_id a)"
    if "a \<in> set (st_admins s)" and "ad_role a = ''reseller''" for a
  proof -
    have "admin_of (ad_id a) s = Some a"
      using assms(1) that(1) by (simp add: admin_of_def volume_ok_def lookup_eq_Some_iff)
    with that(2) have "is_reseller s (ad_id a)" by (simp add: is_reseller_def)
    moreover have "allocated s (ad_id a) \<le> volume_of s (ad_id a)"
      using assms(1) that by (auto simp: volume_ok_def list_all_iff)
    ultimately show ?thesis by (rule assms(4))
  qed
  with assms(1-3) show ?thesis by (auto simp: volume_ok_def list_all_iff)
qed

lemma allocated_append:
  "allocated (s\<lparr>st_clients := st_clients s @ [c]\<rparr>) o' =
   allocated s o' + (if cl_owner c = o' then max 0 (cl_quota_bytes c) else 0)"
  by (simp add: allocation_def Let_def max_def)

lemma allocated_cong: "st_clients s' = st_clients s \<Longrightarrow> allocated s' o' = allocated s o'"
  by (simp add: allocation_def)

lemma allocated_split:
  assumes "pk cl_id (st_clients s)" and "client_of cid s = Some u"
  shows "allocated s o' = fst (allocation s o' (Some cid)) +
    (if cl_owner u = o' then max 0 (cl_quota_bytes u) else 0)"
proof -
  have "sum_where (\<lambda>c. cl_owner c = o') f t = sum_where (\<lambda>c. cl_owner c = o' \<and> cid \<noteq> cl_id c) f t +
      (if cl_owner u = o' then f u else 0)" if "pk cl_id t" "lookup cl_id cid t = Some u" for f t
  proof -
    have "sum_where (\<lambda>c. cl_owner c = o') f (remove_key cl_id cid t) =
        sum_where (\<lambda>c. cl_owner c = o' \<and> cid \<noteq> cl_id c) f t"
      by (induction t) (auto simp: remove_key_def delete_where_def)
    with sum_where_remove_key [OF that, of "\<lambda>c. cl_owner c = o'" f] show ?thesis by simp
  qed
  with assms show ?thesis by (auto simp: allocation_def Let_def client_of_def max_def)
qed

lemma allocation_excluding_modify:
  "(\<And>c. cl_id (f c) = cl_id c) \<Longrightarrow>
   allocation (s\<lparr>st_clients := modify cl_id cid f (st_clients s)\<rparr>) o' (Some cid) = allocation s o' (Some cid)"
proof -
  assume f: "\<And>c. cl_id (f c) = cl_id c"
  have "sum_where (\<lambda>c. cl_owner c = o' \<and> cid \<noteq> cl_id c) g (modify cl_id cid f t) =
      sum_where (\<lambda>c. cl_owner c = o' \<and> cid \<noteq> cl_id c) g t" for g t
    using f by (induction t) (auto simp: modify_def update_where_def)
  then show ?thesis by (simp add: allocation_def)
qed

text \<open>A charge moves no volume credit.\<close>

lemma change_credit_volume:
  assumes "change_credit cid o' q i x d creation preview now s = Inr (s', qt)"
  shows "volume_of s' y = volume_of s y"
proof -
  have "volume_of s1 y = volume_of s y" if "spend_units o' debit s = Inr s1" for s1 debit
    using that
    by (auto simp: spend_units_def Let_def volume_of_def owner_of_def lookup_update_where
        split: if_splits option.splits)
  then have "volume_of s2 y = volume_of s y"
    if "commit_credit cid o' creation debit new revision now s = Inr s2" for s2 debit new revision
    using that by (cases "debit = 0") (auto simp: commit_credit_def rbind_Inr volume_of_def owner_of_def)
  then show ?thesis using assms
    by (auto simp: change_credit_def Let_def results split: option.splits if_splits)
qed

lemma register_client_volume_ok:
  assumes "register_client act cid o' l q p ord x d now s = Inr s'" and "volume_ok s"
  shows "volume_ok s'"
proof -
  obtain ips quota expires s1 qt r where r: "owner_of o' s = Some r" and "q = PInt quota"
    and room: "resource_credit_enforced s o' (Some act) \<longrightarrow> \<not> insufficient_volume s o' None quota (ow_volume_credit r)"
    and charge: "change_credit cid o' q l x d True False now s = Inr (s1, qt)"
    and fresh: "\<not> has_key cl_id cid (st_clients s1)"
    and s': "s' = s1\<lparr>st_clients := st_clients s1 @ [new_client_row cid o' ips quota expires]\<rparr>"
    using assms(1) by (auto simp: register_client_def results new_client_row_def
        split: option.splits if_splits)
  have frame: "st_clients s1 = st_clients s" "st_admins s1 = st_admins s"
    using change_credit_frame [OF charge] by simp_all
  have volr: "volume_of s o' = ow_volume_credit r" using r by (simp add: volume_of_def)
  have vol: "volume_of s' y = volume_of s y" for y
    using change_credit_volume [OF charge, of y] by (simp add: s' volume_of_def owner_of_def)
  have alloc: "allocated s' y = allocated s y + (if y = o' then max 0 quota else 0)" for y
    unfolding s' allocated_append by (simp add: allocated_cong [OF frame(1)] new_client_row_def)
  show ?thesis
  proof (rule volume_okI [OF assms(2)])
    show "pk cl_id (st_clients s')"
      using assms(2) fresh by (simp add: s' frame pk_append volume_ok_def new_client_row_def)
    fix y assume "is_reseller s y" and "allocated s y \<le> volume_of s y"
    with room volr reseller_enforced [of s y act] show "allocated s' y \<le> volume_of s' y"
      by (auto simp: vol alloc insufficient_volume_def max_def)
  qed (simp add: s' frame)
qed

lemma edit_client_volume_ok:
  assumes "volume_ok s" and "edit_client act cid l q m x now s = Inr s'"
  shows "volume_ok s'"
proof -
  obtain u ips quota expires man s1
    where request: "edit_request act cid l q m x s = Inr (u, ips, quota, expires, man)"
    and s1: "s1 = s \<or> (\<exists>qt. change_credit cid (cl_owner u) (PInt quota) (PInt ips) (PInt expires)
                          PNone False False now s = Inr (s1, qt))"
    and s': "s' = s1\<lparr>st_clients := modify cl_id cid
            (\<lambda>c. c\<lparr>cl_limit_ip := ips, cl_quota_bytes := quota, cl_expires_at := expires,
                   cl_manual := man\<rparr>) (st_clients s1)\<rparr>"
    using assms(2) by (auto simp: edit_client_def edit_write_def rbind_Inr split: if_splits) blast+
  have u: "client_of cid s = Some u" using edit_request_client [OF request] by simp
  have frame: "st_clients s1 = st_clients s" "st_admins s1 = st_admins s"
    using s1 change_credit_frame by blast+
  have vol: "volume_of s' y = volume_of s y" for y
    using s1 change_credit_volume [of cid "cl_owner u" "PInt quota" "PInt ips" "PInt expires" PNone False False now s s1 _ y]
    by (auto simp: s' volume_of_def owner_of_def)
  have pk: "pk cl_id (st_clients s)" using assms(1) by (simp add: volume_ok_def)
  let ?u = "u\<lparr>cl_limit_ip := ips, cl_quota_bytes := quota, cl_expires_at := expires, cl_manual := man\<rparr>"
  have "client_of cid s' = Some ?u"
    using u by (simp add: s' client_of_def lookup_modify frame)
  then have new: "allocated s' y = fst (allocation s' y (Some cid)) +
      (if cl_owner u = y then max 0 quota else 0)" for y
    using allocated_split [of s' cid ?u y] pk by (simp add: s' frame pk_modify)
  have rest: "allocation s' y (Some cid) = allocation s y (Some cid)" for y
    by (simp add: s' allocation_excluding_modify) (simp add: allocation_def frame)
  have room: "quota = cl_quota_bytes u \<or> (resource_credit_enforced s (cl_owner u) (Some act) \<longrightarrow>
      fst (allocation s (cl_owner u) (Some cid)) + quota \<le> volume_of s (cl_owner u) \<or> quota \<le> 0)"
    using request u
    by (auto simp: edit_request_def results optional_integer_def insufficient_volume_def volume_of_def
        split: if_splits option.splits)
  show ?thesis
  proof (rule volume_okI [OF assms(1)])
    show "pk cl_id (st_clients s')" using pk by (simp add: s' frame pk_modify)
    fix y assume "is_reseller s y" and "allocated s y \<le> volume_of s y"
    with room allocated_split [OF pk u, of y] show "allocated s' y \<le> volume_of s' y"
      using reseller_enforced [of s y act] by (auto simp: vol new rest max_def split: if_splits)
  qed (simp add: s' frame)
qed

text \<open>Metering changes no quota.\<close>

lemma usage_volume_ok:
  assumes "volume_ok s"
  shows "volume_ok (s\<lparr>st_clients := modify cl_id cid (\<lambda>c. c\<lparr>cl_used_bytes := f c\<rparr>) (st_clients s)\<rparr>)"
    and "volume_ok (s\<lparr>st_traffic := ts,
      st_clients := modify cl_id cid (\<lambda>c. c\<lparr>cl_used_bytes := f c\<rparr>) (st_clients s)\<rparr>)"
proof -
  have same: "sum_where (\<lambda>c. cl_owner c = y \<and> Q (cl_id c)) (\<lambda>c. g (cl_quota_bytes c))
        (modify cl_id cid (\<lambda>c. c\<lparr>cl_used_bytes := f c\<rparr>) t) =
      sum_where (\<lambda>c. cl_owner c = y \<and> Q (cl_id c)) (\<lambda>c. g (cl_quota_bytes c)) t" for y Q g t
    by (induction t) (auto simp: modify_def update_where_def)
  show "volume_ok (s\<lparr>st_clients := modify cl_id cid (\<lambda>c. c\<lparr>cl_used_bytes := f c\<rparr>) (st_clients s)\<rparr>)"
    "volume_ok (s\<lparr>st_traffic := ts,
      st_clients := modify cl_id cid (\<lambda>c. c\<lparr>cl_used_bytes := f c\<rparr>) (st_clients s)\<rparr>)"
    using assms same [where Q = "\<lambda>_. True" and g = "\<lambda>q. if 0 < q then q else 0"]
    by (auto simp: volume_ok_def pk_modify allocation_def Let_def volume_of_def owner_of_def)
qed

lemma sum_where_delete_where:
  "(\<And>r. 0 \<le> f r) \<Longrightarrow> sum_where P f (delete_where Q t) \<le> sum_where P f t"
  by (induction t) (auto simp: delete_where_def add_increasing)

lemma exec_op_volume_ok:
  assumes "exec_op kdf op s = Inr s'" and "volume_ok s"
    and "\<nexists>salt a u p r perms. op = Create_admin salt a u p r perms"
  shows "volume_ok s'"
proof (cases op)
  case (Register_owner a o' v u m man q uid now)
  with assms(1) obtain volume unlimited maxc keep where
    request: "owner_request a o' v u m man q s = Inr (volume, unlimited, maxc, keep)"
    and written: "write_owner a o' volume unlimited maxc keep uid now s = Inr s'"
    by (auto simp: register_owner_def rbind_Inr)
  have floor: "resource_credit_enforced s o' (Some a) \<longrightarrow> allocated s o' \<le> volume"
    using request by (auto simp: owner_request_def results Let_def not_less split: if_splits)
  have s': "st_clients s' = st_clients s" "st_admins s' = st_admins s"
    and owners: "st_owners s' = upsert ow_id ((new_owner_row o')\<lparr>ow_volume_credit := volume,
          ow_unlimited_credit := unlimited, ow_max_clients := maxc, ow_manual := keep\<rparr>)
        (\<lambda>r. r\<lparr>ow_quota_bytes := 0, ow_volume_credit := volume, ow_unlimited_credit := unlimited,
          ow_max_clients := maxc, ow_manual := keep\<rparr>) (st_owners s)"
    using written by (auto simp: write_owner_def Let_def results split: if_splits)
  have vol: "volume_of s' y = (if y = o' then volume else volume_of s y)" for y
    by (simp add: volume_of_def owner_of_def owners lookup_upsert new_owner_row_def
        split: option.splits)
  show ?thesis
    by (rule volume_okI [OF assms(2)])
      (use assms(2) floor reseller_enforced [of s o' a] in
        \<open>auto simp: s' vol volume_ok_def allocated_cong [OF s'(1)]\<close>)
next
  case (Register_client a cid o' l q p ord x d now)
  with assms show ?thesis by (auto intro: register_client_volume_ok)
next
  case (Edit_client a cid l q m x now)
  with assms show ?thesis by (auto intro: edit_client_volume_ok)
next
  case (Edit_clients a es now)
  with assms show ?thesis
    by (auto simp: fst_res_Inr edit_clients_many_def split: if_splits
        intro: edit_rows_steps [where P = volume_ok] edit_client_volume_ok)
next
  case (Delete_client a cid)
  with assms(1) obtain u obs where u: "client_of cid s = Some u"
    and s': "s' = s\<lparr>st_clients := remove_key cl_id cid (st_clients s), st_observations := obs\<rparr>"
    by (auto simp: delete_client_def results split: option.splits if_splits)
  have le: "allocated s' y \<le> allocated s y" for y
    by (simp add: s' allocation_def remove_key_def Let_def sum_where_delete_where)
  show ?thesis
    by (rule volume_okI [OF assms(2)])
      (use assms(2) le in \<open>auto simp: s' volume_ok_def pk_remove_key volume_of_def owner_of_def
        intro: order.trans\<close>)
next
  case (Record_usage e cid u d now)
  with assms(1) obtain b where "record_usage e cid u d now s = Inr (s', b)" by (auto simp: fst_res_Inr)
  from record_usage_effect [OF this] show ?thesis
    using usage_volume_ok [OF assms(2)] assms(2) by auto
next
  case (Reset_client a cid)
  with assms show ?thesis using usage_volume_ok [OF assms(2)]
    by (auto simp: reset_client_usage_def results split: option.splits if_splits)
next
  case (Reset_period a o')
  with assms(1) have s': "s' = s\<lparr>st_owners := modify ow_id o' (\<lambda>r. r\<lparr>ow_period := ow_period r + 1\<rparr>) (st_owners s)\<rparr>"
    by (auto simp: reset_owner_period_def results split: if_splits)
  show ?thesis
    by (rule volume_okI [OF assms(2)])
      (use assms(2) in \<open>auto simp: s' volume_ok_def volume_of_def owner_of_def lookup_modify
        allocation_def split: option.splits\<close>)
next
  case (Adjust_credit a o' v u e now)
  with assms(1) obtain b where adj: "adjust_resource_credit a o' v u e now s = Inr (s', b)"
    by (auto simp: fst_res_Inr)
  show ?thesis
  proof (cases "s' = s")
    case False
    with adjust_credit_effect [OF adj] have s': "st_clients s' = st_clients s" "st_admins s' = st_admins s"
      and vol: "\<And>y. allocated s y \<le> volume_of s y \<Longrightarrow> allocated s y \<le> volume_of s' y"
      by (auto simp: volume_of_def owner_of_def lookup_modify)
    show ?thesis
      by (rule volume_okI [OF assms(2)])
        (use assms(2) vol in \<open>auto simp: s' volume_ok_def allocated_cong [OF s'(1)]\<close>)
  qed (simp add: assms)
next
  case (Create_admin salt a u p r perms)
  with assms(3) show ?thesis by blast
next
  case (Bootstrap salt u p)
  with assms show ?thesis
    by (auto simp: bootstrap_def results volume_ok_def list_all_iff pk_def split: if_splits)
qed



end
