(* ===== verification/Address.thy ===== *)
theory Address
  imports Actor "HOL-Library.Char_ord" "HOL-Library.List_Lexorder"
begin

text \<open>
  IP literals and port lists (backend/dark_policy.py, \<open>normalize_ip\<close>, \<open>_networks\<close>,
  \<open>normalize_ports\<close>) together with what they use of Python's \<open>ipaddress\<close>: parsing of
  IPv4 and IPv6 literals, canonical text, networks and the fixed address classes. Which
  networks count as private depends on the Python release, so that list is a parameter.
\<close>

section \<open>Text\<close>

fun split_on :: "char \<Rightarrow> string \<Rightarrow> string list" where
  "split_on c [] = [[]]"
| "split_on c (x # xs) =
     (if x = c then [] # split_on c xs
      else case split_on c xs of [] \<Rightarrow> [[x]] | p # ps \<Rightarrow> (x # p) # ps)"

fun join :: "string \<Rightarrow> string list \<Rightarrow> string" where
  "join sep [] = []"
| "join sep [x] = x"
| "join sep (x # y # ys) = x @ sep @ join sep (y # ys)"

definition py_space :: "char \<Rightarrow> bool" where
  "py_space c \<longleftrightarrow> c \<in> {CHR '' '', CHR 0x09, CHR 0x0A, CHR 0x0B, CHR 0x0C, CHR 0x0D, CHR 0x1C,
     CHR 0x1D, CHR 0x1E, CHR 0x1F, CHR 0x85, CHR 0xA0}"

definition strip :: "string \<Rightarrow> string" where
  "strip s = rev (dropWhile py_space (rev (dropWhile py_space s)))"

definition digit_of :: "char \<Rightarrow> int option" where
  "digit_of c = map_of (zip ''0123456789'' [0, 1, 2, 3, 4, 5, 6, 7, 8, 9]) c"

definition hex_digit_of :: "char \<Rightarrow> int option" where
  "hex_digit_of c = map_of (zip ''0123456789abcdefABCDEF''
     [0, 1, 2, 3, 4, 5, 6, 7, 8, 9, 10, 11, 12, 13, 14, 15, 10, 11, 12, 13, 14, 15]) c"

fun number_from :: "int \<Rightarrow> (char \<Rightarrow> int option) \<Rightarrow> int \<Rightarrow> string \<Rightarrow> int option" where
  "number_from b val acc [] = Some acc"
| "number_from b val acc (c # cs) =
     (case val c of None \<Rightarrow> None | Some d \<Rightarrow> number_from b val (b * acc + d) cs)"

fun all_some :: "'a option list \<Rightarrow> 'a list option" where
  "all_some [] = Some []"
| "all_some (None # xs) = None"
| "all_some (Some x # xs) = map_option (\<lambda>ys. x # ys) (all_some xs)"

fun hex_text :: "nat \<Rightarrow> string" where
  "hex_text n = (if n < 16 then [''0123456789abcdef'' ! n]
                 else hex_text (n div 16) @ [''0123456789abcdef'' ! (n mod 16)])"

declare hex_text.simps [simp del]

section \<open>Addresses\<close>

datatype address = V4 int | V6 int

definition parse_octet :: "string \<Rightarrow> int option" where
  "parse_octet t =
     (if t = [] \<or> 3 < length t \<or> (hd t = CHR ''0'' \<and> 1 < length t) then None
      else case number_from 10 digit_of 0 t of
        Some n \<Rightarrow> if n \<le> 255 then Some n else None | None \<Rightarrow> None)"

definition parse_v4 :: "string \<Rightarrow> int option" where
  "parse_v4 t =
     (let parts = split_on CHR ''.'' t in
      if length parts \<noteq> 4 then None
      else map_option (foldl (\<lambda>a b. 256 * a + b) 0) (all_some (map parse_octet parts)))"

definition parse_hextet :: "string \<Rightarrow> int option" where
  "parse_hextet t = (if t = [] \<or> 4 < length t then None else number_from 16 hex_digit_of 0 t)"

text \<open>An IPv4 tail becomes two groups.\<close>

definition embed_v4 :: "string list \<Rightarrow> string list option" where
  "embed_v4 parts =
     (if CHR ''.'' \<in> set (last parts)
      then map_option (\<lambda>n. butlast parts @ [hex_text (nat (n div 65536)), hex_text (nat (n mod 65536))])
             (parse_v4 (last parts))
      else Some parts)"

definition empty_inner :: "string list \<Rightarrow> nat list" where
  "empty_inner parts = filter (\<lambda>i. parts ! i = []) [1..<length parts - 1]"

definition v6_groups :: "string list \<Rightarrow> int list option" where
  "v6_groups parts =
     (case empty_inner parts of
        [] \<Rightarrow> (if length parts \<noteq> 8 then None else all_some (map parse_hextet parts))
      | [i] \<Rightarrow>
          (let front = take i parts; back = drop (i + 1) parts;
               front' = (if hd parts = [] then tl front else front);
               back' = (if last parts = [] then butlast back else back);
               skipped = 8 - (length front' + length back')
           in if (hd parts = [] \<and> front' \<noteq> []) \<or> (last parts = [] \<and> back' \<noteq> [])
                 \<or> 8 \<le> length front' + length back' then None
              else case (all_some (map parse_hextet front'), all_some (map parse_hextet back')) of
                (Some hi, Some lo) \<Rightarrow> Some (hi @ replicate skipped 0 @ lo)
              | _ \<Rightarrow> None)
      | _ \<Rightarrow> None)"

definition parse_v6 :: "string \<Rightarrow> int option" where
  "parse_v6 t =
     (let parts = split_on CHR '':'' t in
      if length parts < 3 then None
      else case embed_v4 parts of
        None \<Rightarrow> None
      | Some ps \<Rightarrow>
          if 9 < length ps then None
          else map_option (foldl (\<lambda>a b. 65536 * a + b) 0) (v6_groups ps))"

definition ip_address :: "string \<Rightarrow> address option" where
  "ip_address t =
     (case parse_v4 t of Some n \<Rightarrow> Some (V4 n) | None \<Rightarrow> map_option V6 (parse_v6 t))"

subsection \<open>Canonical text\<close>

definition show_v4 :: "int \<Rightarrow> string" where
  "show_v4 n = join ''.'' (map (\<lambda>k. show_int (n div k mod 256)) [16777216, 65536, 256, 1])"

definition hextets :: "int \<Rightarrow> string list" where
  "hextets n = map (\<lambda>k. hex_text (nat (n div 2 ^ (16 * k) mod 65536))) [7, 6, 5, 4, 3, 2, 1, 0]"

text \<open>The first longest run of zero groups: its start and length.\<close>

fun best_run :: "nat \<Rightarrow> string list \<Rightarrow> nat \<Rightarrow> nat \<Rightarrow> nat \<times> nat \<Rightarrow> nat \<times> nat" where
  "best_run i [] start len best = best"
| "best_run i (h # hs) start len best =
     (if h = ''0'' then
        (let start' = (if len = 0 then i else start); len' = len + 1
         in best_run (i + 1) hs start' len' (if snd best < len' then (start', len') else best))
      else best_run (i + 1) hs 0 0 best)"

definition compress_hextets :: "string list \<Rightarrow> string list" where
  "compress_hextets hs =
     (case best_run 0 hs 0 0 (0, 0) of (start, len) \<Rightarrow>
        if 1 < len then
          (if start = 0 then [[]] else []) @ take start hs @ [[]] @ drop (start + len) hs @
          (if start + len = length hs then [[]] else [])
        else hs)"

fun show_address :: "address \<Rightarrow> string" where
  "show_address (V4 n) = show_v4 n"
| "show_address (V6 n) = join '':'' (compress_hextets (hextets n))"

fun unmap_v4 :: "address \<Rightarrow> address" where
  "unmap_v4 (V6 n) = (if n div 2 ^ 32 = 65535 then V4 (n mod 2 ^ 32) else V6 n)"
| "unmap_v4 a = a"

definition normalize_ip :: "pyval \<Rightarrow> string res" where
  "normalize_ip raw =
     (case raw of
        PStr s \<Rightarrow>
          if CHR ''%'' \<in> set s
          then Inl (PolicyError ''Address must be a plain IPv4/IPv6 literal without a zone'')
          else
            let text = strip s;
                inner = (if text \<noteq> [] \<and> hd text = CHR ''['' \<and> last text = CHR '']''
                         then take (length text - 2) (tl text) else text)
            in (case ip_address inner of
                  None \<Rightarrow> Inl (PolicyError ''Invalid IP literal'')
                | Some a \<Rightarrow> Inr (show_address (unmap_v4 a)))
      | _ \<Rightarrow> Inl (PolicyError ''Address must be a plain IPv4/IPv6 literal without a zone''))"

section \<open>Networks\<close>

text \<open>A network is the common prefix of its addresses.\<close>

datatype network = Net4 int nat | Net6 int nat

fun in_network :: "address \<Rightarrow> network \<Rightarrow> bool" where
  "in_network (V4 n) (Net4 m p) = (n div 2 ^ (32 - p) = m div 2 ^ (32 - p))"
| "in_network (V6 n) (Net6 m p) = (n div 2 ^ (128 - p) = m div 2 ^ (128 - p))"
| "in_network _ _ = False"

definition parse_prefix :: "nat \<Rightarrow> string \<Rightarrow> nat option" where
  "parse_prefix bits t =
     (if t = [] then None
      else case number_from 10 digit_of 0 t of
        Some n \<Rightarrow> if n \<le> int bits then Some (nat n) else None | None \<Rightarrow> None)"

definition v4_mask :: "string \<Rightarrow> nat option" where
  "v4_mask t =
     (case parse_v4 t of
        None \<Rightarrow> None
      | Some m \<Rightarrow>
          (case find (\<lambda>p. m = 2 ^ 32 - 2 ^ (32 - p)) [0..<33] of
             Some p \<Rightarrow> Some p
           | None \<Rightarrow> find (\<lambda>p. m = 2 ^ (32 - p) - 1) [0..<33]))"

definition ip_network :: "pyval \<Rightarrow> network option" where
  "ip_network v =
     (case v of
        PInt i \<Rightarrow> (if i < 0 then None else if i < 2 ^ 32 then Some (Net4 i 32)
                    else if i < 2 ^ 128 then Some (Net6 i 128) else None)
      | PBool b \<Rightarrow> Some (Net4 (int_of_bool b) 32)
      | PStr s \<Rightarrow>
          (case split_on CHR ''/'' s of
             [a] \<Rightarrow> (case ip_address a of Some (V4 n) \<Rightarrow> Some (Net4 n 32)
                       | Some (V6 n) \<Rightarrow> Some (Net6 n 128) | None \<Rightarrow> None)
           | [a, m] \<Rightarrow>
               (case ip_address a of
                  Some (V4 n) \<Rightarrow> (case parse_prefix 32 m of Some p \<Rightarrow> Some (Net4 n p)
                                  | None \<Rightarrow> map_option (Net4 n) (v4_mask m))
                | Some (V6 n) \<Rightarrow> map_option (Net6 n) (parse_prefix 128 m)
                | None \<Rightarrow> None)
           | _ \<Rightarrow> None)
      | _ \<Rightarrow> None)"

definition networks :: "pyval list \<Rightarrow> network list res" where
  "networks values =
     (case all_some (map ip_network values) of
        None \<Rightarrow> Inl (PolicyError ''Invalid exempt IP/CIDR'')
      | Some ns \<Rightarrow> Inr ns)"

definition is_special :: "address \<Rightarrow> bool" where
  "is_special a = list_ex (in_network a)
     [Net4 0x7F000000 8, Net6 1 128, Net4 0 32, Net6 0 128, Net4 0xE0000000 4, Net6 (0xFF * 2 ^ 120) 8,
      Net4 0xA9FE0000 16, Net6 (0x3FA * 2 ^ 118) 10]"

section \<open>Ports\<close>

fun map_res :: "('a \<Rightarrow> 'b res) \<Rightarrow> 'a list \<Rightarrow> 'b list res" where
  "map_res f [] = Inr []"
| "map_res f (x # xs) = rbind (f x) (\<lambda>y. rbind (map_res f xs) (\<lambda>ys. Inr (y # ys)))"

definition normalize_ports :: "pyval \<Rightarrow> int list res" where
  "normalize_ports values =
     (case values of
        PList vs \<Rightarrow>
          if 512 < length vs
          then Inl (PolicyError ''Ports must be a list of at most 512 explicit integers'')
          else rbind (map_res (\<lambda>v. integer v 1 65535) vs) (\<lambda>ps. Inr (sort (remdups ps)))
      | _ \<Rightarrow> Inl (PolicyError ''Ports must be a list of at most 512 explicit integers''))"

text \<open>\<open>jail_for\<close>; SHA-256 in hexadecimal is a parameter.\<close>

definition jail_for :: "(string \<Rightarrow> string) \<Rightarrow> int list \<Rightarrow> string" where
  "jail_for sha256 ports = ''dark-xray-'' @ take 12 (sha256 (join '','' (map show_int ports)))"

lemma map_res_Inr [results]:
  "map_res f xs = Inr ys \<longleftrightarrow> list_all2 (\<lambda>x y. f x = Inr y) xs ys"
proof (induction xs arbitrary: ys)
  case (Cons x xs)
  then show ?case by (cases ys) (auto simp: results)
qed auto

lemma normalize_ports_range:
  assumes "normalize_ports v = Inr ports"
  shows "sorted ports \<and> distinct ports \<and> (\<forall>p \<in> set ports. 1 \<le> p \<and> p \<le> 65535)"
proof -
  obtain vs ps where ps: "list_all2 (\<lambda>x y. integer x 1 65535 = Inr y) vs ps" and "ports = sort (remdups ps)"
    using assms by (auto simp: normalize_ports_def results split: pyval.splits if_splits)
  moreover have "\<forall>p \<in> set ps. 1 \<le> p \<and> p \<le> 65535"
    using ps by (induction rule: list_all2_induct) (auto simp: results)
  ultimately show ?thesis by simp
qed

section \<open>Canonical IPv4 text\<close>

lemma split_on_plain: "c \<notin> set xs \<Longrightarrow> split_on c xs = [xs]"
  by (induction xs) auto

lemma split_on_append: "c \<notin> set xs \<Longrightarrow> split_on c (xs @ c # ys) = xs # split_on c ys"
  by (induction xs) auto

definition is_digit :: "char \<Rightarrow> bool" where
  "is_digit c \<longleftrightarrow> digit_of c \<noteq> None"

lemma digit_table: "n < 10 \<Longrightarrow> digit_of (''0123456789'' ! n) = Some (int n)"
  and digit_zero: "n < 10 \<Longrightarrow> ''0123456789'' ! n = CHR ''0'' \<Longrightarrow> n = 0"
proof -
  have "\<forall>n \<in> set [0..<10]. digit_of (''0123456789'' ! n) = Some (int n) \<and>
      (''0123456789'' ! n = CHR ''0'' \<longrightarrow> n = 0)"
    by code_simp
  then show "n < 10 \<Longrightarrow> digit_of (''0123456789'' ! n) = Some (int n)"
    "n < 10 \<Longrightarrow> ''0123456789'' ! n = CHR ''0'' \<Longrightarrow> n = 0" by auto
qed

lemma not_digit [simp]:
  "\<not> is_digit CHR ''.''" "\<not> is_digit CHR ''%''" "\<not> is_digit CHR ''[''"
  by (simp_all add: is_digit_def digit_of_def)

lemma digit_not_space: "is_digit c \<Longrightarrow> \<not> py_space c"
  by (auto simp: is_digit_def digit_of_def py_space_def)

lemma number_from_append:
  "number_from b v a (xs @ ys) =
    (case number_from b v a xs of None \<Rightarrow> None | Some a' \<Rightarrow> number_from b v a' ys)"
  by (induction xs arbitrary: a) (auto split: option.splits)

lemma show_nat_props:
  "number_from 10 digit_of 0 (show_nat n) = Some (int n) \<and> list_all is_digit (show_nat n) \<and>
   show_nat n \<noteq> [] \<and> (0 < n \<longrightarrow> hd (show_nat n) \<noteq> CHR ''0'')"
proof (induction n rule: show_nat.induct)
  case (1 n)
  show ?case
  proof (cases "n < 10")
    case True
    then show ?thesis using digit_table [OF True] digit_zero [OF True]
      by (auto simp: show_nat.simps [of n] is_digit_def)
  next
    case False
    have d: "digit_of (''0123456789'' ! (n mod 10)) = Some (int (n mod 10))" by (rule digit_table) simp
    have "10 * int (n div 10) + int (n mod 10) = int n" by presburger
    then show ?thesis using 1 [OF False] False d
      by (simp add: show_nat.simps [of n] number_from_append is_digit_def del: nth_Cons_numeral)
  qed
qed

lemma show_nat_length: "n < 256 \<Longrightarrow> length (show_nat n) \<le> 3"
  by (simp add: show_nat.simps [of n] show_nat.simps [of "n div 10"] show_nat.simps [of "n div 10 div 10"])

lemma octet_table:
  assumes "0 \<le> k" and "k < 256"
  shows "parse_octet (show_int k) = Some k" and "show_int k \<noteq> []" and "list_all is_digit (show_int k)"
proof -
  have k: "show_int k = show_nat (nat k)" "int (nat k) = k" "nat k < 256"
    using assms by (auto simp: show_int_def)
  note props = show_nat_props [of "nat k"]
  show "show_int k \<noteq> []" "list_all is_digit (show_int k)" using props by (simp_all add: k)
  have "\<not> (hd (show_int k) = CHR ''0'' \<and> 1 < length (show_int k))"
    using props by (cases "nat k = 0") (auto simp: k show_nat.simps [of 0])
  then show "parse_octet (show_int k) = Some k"
    using props show_nat_length [OF k(3)] assms k(2)
    by (auto simp: parse_octet_def k(1))
qed

definition octets :: "int \<Rightarrow> string list" where
  "octets n = map (\<lambda>k. show_int (n div k mod 256)) [16777216, 65536, 256, 1]"

lemma octet_digits: "x \<in> set (octets n) \<Longrightarrow> list_all is_digit x"
  using octet_table(3) [of "m mod 256" for m] by (auto simp: octets_def)

lemma join_all: "list_all P sep \<Longrightarrow> \<forall>x \<in> set xs. list_all P x \<Longrightarrow> list_all P (join sep xs)"
  by (induction sep xs rule: join.induct) auto

lemma show_v4_chars: "list_all (\<lambda>c. is_digit c \<or> c = CHR ''.'') (show_v4 n)"
proof -
  have "list_all (\<lambda>c. is_digit c \<or> c = CHR ''.'') x" if "x \<in> set (octets n)" for x
    using octet_digits [OF that] by (auto simp: list_all_iff)
  then show ?thesis unfolding show_v4_def octets_def [symmetric] by (intro join_all) auto
qed

lemma split_show_v4: "split_on CHR ''.'' (show_v4 n) = octets n"
proof -
  have plain: "CHR ''.'' \<notin> set (show_int (m mod 256))" for m
    using octet_table(3) [of "m mod 256"] not_digit(1) by (auto simp: list_all_iff)
  show ?thesis
    by (simp add: show_v4_def octets_def split_on_append split_on_plain plain)
qed

lemma parse_show_v4:
  assumes "0 \<le> n" and "n < 2 ^ 32"
  shows "parse_v4 (show_v4 n) = Some n"
proof -
  have octet: "parse_octet (show_int (m mod 256)) = Some (m mod 256)" for m
    by (rule octet_table(1)) simp_all
  have "n div 16777216 mod 256 = n div 16777216" using assms by simp
  moreover have "n div 65536 = n div 256 div 256" "n div 16777216 = n div 256 div 256 div 256"
    by (simp_all add: zdiv_zmult2_eq [symmetric])
  ultimately have whole: "256 * (256 * (256 * (n div 16777216 mod 256) + n div 65536 mod 256)
      + n div 256 mod 256) + n mod 256 = n"
    by simp
  have "map parse_octet (octets n) = map Some [n div 16777216 mod 256, n div 65536 mod 256,
      n div 256 mod 256, n mod 256]"
    by (simp add: octets_def octet)
  moreover have "length (octets n) = 4" by (simp add: octets_def)
  ultimately have "parse_v4 (show_v4 n) = Some (256 * (256 * (256 * (n div 16777216 mod 256)
      + n div 65536 mod 256) + n div 256 mod 256) + n mod 256)"
    by (simp add: parse_v4_def split_show_v4 Let_def)
  then show ?thesis by (simp only: whole)
qed

lemma dropWhile_none: "\<not> list_ex P s \<Longrightarrow> dropWhile P s = s"
  by (cases s) auto

lemma strip_plain: "\<not> list_ex py_space s \<Longrightarrow> strip s = s"
  by (simp add: strip_def dropWhile_none)

lemma show_v4_canonical:
  assumes "0 \<le> n" and "n < 2 ^ 32"
  shows "ip_address (show_v4 n) = Some (V4 n) \<and> normalize_ip (PStr (show_v4 n)) = Inr (show_v4 n)"
proof -
  have chars: "is_digit c \<or> c = CHR ''.''" if "c \<in> set (show_v4 n)" for c
    using that show_v4_chars [of n] by (simp add: list_all_iff)
  have "\<not> py_space CHR ''.''" by (simp add: py_space_def)
  then have "\<not> list_ex py_space (show_v4 n)"
    using chars digit_not_space by (auto simp: list_ex_iff)
  then have "strip (show_v4 n) = show_v4 n" by (rule strip_plain)
  moreover have "CHR ''%'' \<notin> set (show_v4 n)" using chars not_digit(2) by fastforce
  moreover have "hd (show_v4 n) \<noteq> CHR ''[''" if "show_v4 n \<noteq> []"
    using chars [of "hd (show_v4 n)"] not_digit(3) hd_in_set [OF that] by fastforce
  ultimately show ?thesis
    using parse_show_v4 [OF assms] by (auto simp: normalize_ip_def ip_address_def Let_def)
qed

text \<open>
  C22. The text of every IPv4 address is canonical: parsing it gives the address back, and
  \<open>normalize_ip\<close> returns it unchanged, so a source address has one spelling in leases and bans.
\<close>

theorem v4_text_roundtrip:
  assumes "0 \<le> n" and "n < 2 ^ 32"
  shows "ip_address (show_v4 n) = Some (V4 n) \<and> normalize_ip (PStr (show_v4 n)) = Inr (show_v4 n)"
  using show_v4_canonical [OF assms] .

theorem v4_text_roundtrip_witness: "normalize_ip (PStr (show_v4 3232235777)) = Inr (show_v4 3232235777)"
  by (rule v4_text_roundtrip [THEN conjunct2]) simp_all

end
