(* ===== verification/Guard.thy ===== *)
theory Guard
  imports Accounting Address
begin

text \<open>
  The IP guard (backend/dark_policy.py, \<open>Policy\<close> and \<open>Guard\<close>): the policy file and its
  validation, the per-client leases of distinct source addresses inside a sliding window, and
  the bans that an enforcement adapter executes. The adapter's answer, SHA-256 and the private
  networks of the Python release are parameters.
\<close>

section \<open>The policy\<close>

record client_policy =
  cp_owner :: string
  cp_limit_ip :: int
  cp_ports :: "int list"

record policy =
  po_clients :: "(string \<times> client_policy) list"
  po_enforce :: bool
  po_window :: int
  po_ban :: int
  po_source_mode :: string
  po_verified :: bool
  po_protected :: "int list"
  po_trusted :: "string list"
  po_exempt :: "pyval list"
  po_allow_private :: bool
  po_node :: string

definition client_policy_of :: "int list \<Rightarrow> string \<times> pyval \<Rightarrow> (string \<times> client_policy) res" where
  "client_policy_of protected entry =
     (case entry of (email, row) \<Rightarrow>
     (case row of
        PDict d \<Rightarrow>
          if \<not> valid_name email then Inl (PolicyError ''Invalid client email'')
          else (case pyget_or d ''owner'' (PStr []) of
             PStr ow \<Rightarrow>
               if \<not> valid_name ow then Inl (PolicyError ''Invalid owner'')
               else rbind (normalize_ports (pyget_or d ''ports'' (PList []))) (\<lambda>ports.
                 if ports = [] then Inl (PolicyError ''No data ports configured'')
                 else if set ports \<inter> set protected \<noteq> {}
                 then Inl (PolicyError ''A data port overlaps a protected management port; refusing policy'')
                 else rbind (integer (pyget_or d ''limit_ip'' (PInt 0)) 0 1000) (\<lambda>limit.
                   Inr (email, \<lparr>cp_owner = ow, cp_limit_ip = limit, cp_ports = ports\<rparr>)))
           | _ \<Rightarrow> Inl (PolicyError ''Invalid owner''))
      | _ \<Rightarrow> Inl (PolicyError ''Invalid client email'')))"

text \<open>Iterating a JSON value: lists, strings by character and dicts by key.\<close>

fun py_iter :: "pyval \<Rightarrow> pyval list res" where
  "py_iter (PList xs) = Inr xs"
| "py_iter (PStr s) = Inr (map (\<lambda>c. PStr [c]) s)"
| "py_iter (PDict d) = Inr (map (\<lambda>(k, v). PStr k) d)"
| "py_iter _ = Inl (OtherError ''TypeError'')"

definition flag :: "(string \<times> pyval) list \<Rightarrow> string \<Rightarrow> bool res" where
  "flag raw k =
     (case map_of raw k of
        None \<Rightarrow> Inr False
      | Some (PBool b) \<Rightarrow> Inr b
      | _ \<Rightarrow> Inl (PolicyError (k @ '' must be boolean'')))"

definition protected_of :: "(string \<times> pyval) list \<Rightarrow> int list res" where
  "protected_of raw =
     rbind (normalize_ports (pyget_or raw ''protected_ports'' (PList [PInt 22, PInt 2053, PInt 2096])))
       (\<lambda>ps. if 22 \<notin> set ps
             then Inl (PolicyError ''The protected port set must include 22 plus your actual SSH/panel ports'')
             else Inr ps)"

definition clients_of :: "int list \<Rightarrow> pyval \<Rightarrow> (string \<times> client_policy) list res" where
  "clients_of protected source =
     (case source of
        PDict d \<Rightarrow> if 100000 < length d then Inl (PolicyError ''Invalid client map'')
                   else map_res (client_policy_of protected) d
      | _ \<Rightarrow> Inl (PolicyError ''Invalid client map''))"

definition source_mode_of :: "(string \<times> pyval) list \<Rightarrow> string res" where
  "source_mode_of raw =
     (case pyget_or raw ''source_mode'' (PStr ''opaque'') of
        PStr mode \<Rightarrow> if mode \<notin> {''direct'', ''trusted-proxy'', ''opaque''}
                     then Inl (PolicyError ''Unknown source mode'') else Inr mode
      | PList _ \<Rightarrow> Inl (OtherError ''TypeError'')
      | PDict _ \<Rightarrow> Inl (OtherError ''TypeError'')
      | _ \<Rightarrow> Inl (PolicyError ''Unknown source mode''))"

definition exempt_of :: "(string \<times> pyval) list \<Rightarrow> pyval list res" where
  "exempt_of raw =
     (case pyget_or raw ''exempt_ips'' (PList []) of
        PList exempt \<Rightarrow> rbind (networks exempt) (\<lambda>_. Inr exempt)
      | _ \<Rightarrow> Inl (PolicyError ''Exempt IPs must be a list''))"

definition node_of :: "(string \<times> pyval) list \<Rightarrow> string res" where
  "node_of raw =
     (case pyget_or raw ''node_id'' (PStr ''local'') of
        PStr node \<Rightarrow> if valid_name node then Inr node else Inl (PolicyError ''Invalid node ID'')
      | _ \<Rightarrow> Inl (PolicyError ''Invalid node ID''))"

definition policy_of_raw :: "(string \<times> pyval) list \<Rightarrow> policy res" where
  "policy_of_raw raw =
     rbind (protected_of raw) (\<lambda>protected.
     rbind (clients_of protected (pyget_or raw ''clients'' (PDict []))) (\<lambda>clients.
     rbind (source_mode_of raw) (\<lambda>mode.
     rbind (flag raw ''enforce'') (\<lambda>enforce.
     rbind (flag raw ''original_ip_verified'') (\<lambda>verified.
     rbind (flag raw ''allow_private_sources'') (\<lambda>allow_private.
     rbind (rbind (py_iter (pyget_or raw ''trusted_peers'' (PList []))) (map_res normalize_ip)) (\<lambda>peers.
     rbind (exempt_of raw) (\<lambda>exempt.
     rbind (node_of raw) (\<lambda>node.
     rbind (integer (pyget_or raw ''window_seconds'' (PInt 120)) 10 3600) (\<lambda>window.
     rbind (integer (pyget_or raw ''ban_seconds'' (PInt 1800)) 10 86400) (\<lambda>ban.
     Inr \<lparr>po_clients = clients, po_enforce = enforce, po_window = window,
       po_ban = ban, po_source_mode = mode, po_verified = verified,
       po_protected = protected, po_trusted = peers, po_exempt = exempt,
       po_allow_private = allow_private, po_node = node\<rparr>)))))))))))"

definition policy_from_dict :: "pyval \<Rightarrow> policy res" where
  "policy_from_dict v =
     (case v of
        PDict raw \<Rightarrow>
          if \<not> pyeq (pyget raw ''schema'') (PInt 1) then Inl (PolicyError ''Policy schema must be 1'')
          else policy_of_raw raw
      | _ \<Rightarrow> Inl (PolicyError ''Policy schema must be 1''))"

text \<open>\<open>Policy.exemption\<close> of a canonical address text.\<close>

definition exemption :: "network list \<Rightarrow> policy \<Rightarrow> string \<Rightarrow> string option" where
  "exemption private p ip =
     (case ip_address ip of
        None \<Rightarrow> None
      | Some a \<Rightarrow>
          if ip \<in> set (po_trusted p) then Some ''trusted_peer''
          else if is_special a then Some ''special_address''
          else if \<not> po_allow_private p \<and> list_ex (in_network a) private
          then Some ''private_or_reserved_address''
          else if (case networks (po_exempt p) of Inr ns \<Rightarrow> list_ex (in_network a) ns | Inl _ \<Rightarrow> False)
          then Some ''explicit_exemption''
          else None)"

definition enforcement_safe :: "policy \<Rightarrow> unit res" where
  "enforcement_safe p =
     (if \<not> po_enforce p
      then Inl (PolicyError ''Policy.enforce is false; monitor mode is the default'')
      else if po_source_mode p \<noteq> ''direct'' \<or> \<not> po_verified p
      then Inl (PolicyError ''Enforcement requires verified DIRECT packet-source IP on this host'')
      else Inr ())"

section \<open>Leases\<close>

text \<open>
  The grants of a client inside the window, one per address with its first sighting, in the
  order of the query (\<open>GROUP BY ip ORDER BY first, ip\<close>).
\<close>

definition granted_rows :: "store \<Rightarrow> string \<Rightarrow> real \<Rightarrow> observation_row list" where
  "granted_rows s cid since =
     filter (\<lambda>r. ob_client_id r = cid \<and> ob_granted r \<and> since < ob_last_seen r) (st_observations s)"

definition first_grant :: "observation_row list \<Rightarrow> string \<Rightarrow> real" where
  "first_grant rows ip =
     Min (set (map ob_first_seen (filter (\<lambda>r. ob_ip r = ip) rows)))"

definition leases :: "store \<Rightarrow> string \<Rightarrow> real \<Rightarrow> string list" where
  "leases s cid since =
     (let rows = granted_rows s cid since;
          ips = sort (remdups (map ob_ip rows))
      in sort_key (first_grant rows) ips)"

definition active_ips :: "int \<Rightarrow> string list \<Rightarrow> string list" where
  "active_ips limit ls = (if limit \<noteq> 0 then take (nat limit) ls else ls)"

abbreviation ob_key :: "observation_row \<Rightarrow> string \<times> string \<times> string" where
  "ob_key r \<equiv> (ob_client_id r, ob_ip r, ob_node r)"

abbreviation bn_key :: "ban_row \<Rightarrow> string \<times> string \<times> string" where
  "bn_key b \<equiv> (bn_jail b, bn_ip b, bn_node b)"

definition log_event :: "event_row \<Rightarrow> (event_row \<Rightarrow> bool) \<Rightarrow> store \<Rightarrow> store" where
  "log_event e duplicate s =
     (if list_ex duplicate (st_events s) then s else s\<lparr>st_events := st_events s @ [e]\<rparr>)"

datatype decision =
    Ignored
  | Exempt string
  | Observe_only
  | Banned_before real
  | Allow int int
  | Violation string
  | Enforcement_failed string
  | Banned real string

text \<open>
  The transaction that takes or refuses a lease; the result is the list of active addresses
  before the observation and whether it violates the limit.
\<close>

definition take_lease ::
  "policy \<Rightarrow> string \<Rightarrow> client_policy \<Rightarrow> string \<Rightarrow> real \<Rightarrow> store \<Rightarrow> store \<times> string list \<times> bool" where
  "take_lease p email c ip now s =
     (let since = now - of_int (po_window p);
          active = active_ips (cp_limit_ip c) (leases s email since);
          granted = (cp_limit_ip c = 0 \<or> ip \<in> set active \<or> int (length active) < cp_limit_ip c);
          s1 = s\<lparr>st_observations := upsert ob_key
                  \<lparr>ob_client_id = email, ob_ip = ip, ob_node = po_node p, ob_first_seen = now,
                    ob_last_seen = now, ob_granted = granted\<rparr>
                  (\<lambda>r. r\<lparr>ob_last_seen := now, ob_granted := granted\<rparr>) (st_observations s)\<rparr>;
          s2 = (if granted then s1 else log_event
                  \<lparr>ev_kind = ''violation'', ev_owner = cp_owner c, ev_client_id = email, ev_ip = ip,
                    ev_node = po_node p, ev_detail = ''distinct recent source IP quota exceeded'',
                    ev_at = now\<rparr>
                  (\<lambda>e. ev_client_id e = email \<and> ev_ip e = ip \<and> ev_kind e = ''violation'' \<and> since < ev_at e) s1);
          s3 = s2\<lparr>st_observations := delete_where
                  (\<lambda>r. ob_last_seen r < now - max 86400 (of_int (po_window p * 2))) (st_observations s2)\<rparr>
      in (s3, active, \<not> granted))"

text \<open>
  \<open>Guard.observe\<close>. \<open>executor\<close> is \<open>None\<close> in monitor mode and otherwise the answer of the
  adapter's \<open>ban\<close> call: \<open>None\<close> for success or the message of its exception.
\<close>

definition observe ::
  "network list \<Rightarrow> (string \<Rightarrow> string) \<Rightarrow> policy \<Rightarrow> (string \<Rightarrow> string \<Rightarrow> string option) option
   \<Rightarrow> string \<Rightarrow> pyval \<Rightarrow> real \<Rightarrow> store \<Rightarrow> (store \<times> decision) res" where
  "observe private sha256 p executor email raw_ip now s =
     (if \<not> (0 \<le> now \<and> now < 10 ^ 15) then Inl (PolicyError ''Invalid observation time'')
      else rbind (normalize_ip raw_ip) (\<lambda>ip.
      case map_of (po_clients p) email of
        None \<Rightarrow> Inr (s, Ignored)
      | Some c \<Rightarrow>
      case exemption private p ip of
        Some reason \<Rightarrow> Inr (s, Exempt reason)
      | None \<Rightarrow>
      if po_source_mode p \<noteq> ''direct'' \<or> \<not> po_verified p
      then Inr (log_event
             \<lparr>ev_kind = ''source_ambiguous'', ev_owner = cp_owner c, ev_client_id = email, ev_ip = ip,
               ev_node = po_node p, ev_detail = ''No IP ban: original packet source is not verified'',
               ev_at = now\<rparr>
             (\<lambda>e. ev_client_id e = email \<and> ev_ip e = ip \<and> ev_node e = po_node p
                   \<and> ev_kind e = ''source_ambiguous'' \<and> now - of_int (po_window p) < ev_at e) s,
           Observe_only)
      else
      let jail = jail_for sha256 (cp_ports c) in
      case find (\<lambda>b. bn_jail b = jail \<and> bn_ip b = ip \<and> bn_node b = po_node p
                   \<and> now < bn_expires_at b \<and> bn_state b = ''applied'') (st_bans s) of
        Some b \<Rightarrow> Inr (s, Banned_before (bn_expires_at b))
      | None \<Rightarrow>
      let (s1, active, violation) = take_lease p email c ip now s in
      if \<not> violation
      then Inr (s1, Allow (int (length (remdups (ip # active)))) (cp_limit_ip c))
      else case executor of
        None \<Rightarrow> Inr (s1, Violation jail)
      | Some ban \<Rightarrow>
      (case ban jail ip of
        Some message \<Rightarrow>
          Inr (s1\<lparr>st_events := st_events s1 @
                 [\<lparr>ev_kind = ''enforcement_failed'', ev_owner = cp_owner c, ev_client_id = email,
                   ev_ip = ip, ev_node = po_node p, ev_detail = take 500 message, ev_at = now\<rparr>]\<rparr>,
               Enforcement_failed message)
      | None \<Rightarrow>
          let till = now + of_int (po_ban p) in
          Inr (s1\<lparr>st_bans := upsert bn_key
                 \<lparr>bn_jail = jail, bn_ip = ip, bn_client_id = email, bn_node = po_node p,
                   bn_expires_at = till, bn_state = ''applied''\<rparr>
                 (\<lambda>b. b\<lparr>bn_expires_at := till, bn_state := ''applied'', bn_client_id := email\<rparr>)
                 (st_bans s1)\<rparr>,
               Banned till jail))))"

definition unban ::
  "policy \<Rightarrow> (string \<Rightarrow> string \<Rightarrow> string option) option \<Rightarrow> actor \<Rightarrow> string \<Rightarrow> pyval \<Rightarrow> real
   \<Rightarrow> store \<Rightarrow> store res" where
  "unban p executor act jail raw_ip now s =
     (if a_role act \<noteq> ''owner'' then Inl (PermissionDenied ''Global IP unban is owner-only'')
      else case executor of
        None \<Rightarrow> Inl (PolicyError ''No enforcement adapter is connected; no unban was executed'')
      | Some release \<Rightarrow>
      rbind (normalize_ip raw_ip) (\<lambda>ip.
      case release jail ip of
        Some message \<Rightarrow> Inl (PolicyError message)
      | None \<Rightarrow>
        Inr (s\<lparr>st_bans := update_where
                (\<lambda>b. bn_jail b = jail \<and> bn_ip b = ip \<and> bn_node b = po_node p)
                (\<lambda>b. b\<lparr>bn_state := ''released'', bn_expires_at := now\<rparr>) (st_bans s),
              st_observations := delete_where
                (\<lambda>r. ob_ip r = ip \<and> ob_node r = po_node p \<and> \<not> ob_granted r) (st_observations s)\<rparr>)))"

section \<open>Accepted policies\<close>

lemma client_policy_of_ports:
  assumes "client_policy_of protected e = Inr (email, c)"
  shows "cp_ports c \<noteq> [] \<and> set (cp_ports c) \<inter> set protected = {} \<and>
    (\<forall>q \<in> set (cp_ports c). 1 \<le> q \<and> q \<le> 65535) \<and> 0 \<le> cp_limit_ip c \<and> cp_limit_ip c \<le> 1000"
proof -
  obtain d where "e = (email, PDict d)" and
    ports: "normalize_ports (pyget_or d ''ports'' (PList [])) = Inr (cp_ports c)" and
    rest: "cp_ports c \<noteq> []" "set (cp_ports c) \<inter> set protected = {}" "0 \<le> cp_limit_ip c" "cp_limit_ip c \<le> 1000"
    using assms by (cases e) (auto simp: client_policy_of_def results split: pyval.splits if_splits)
  with normalize_ports_range [OF ports] show ?thesis by blast
qed

lemma policy_from_dict_parts:
  assumes "policy_from_dict v = Inr p"
  shows "\<exists>raw. v = PDict raw \<and> protected_of raw = Inr (po_protected p) \<and>
    clients_of (po_protected p) (pyget_or raw ''clients'' (PDict [])) = Inr (po_clients p) \<and>
    10 \<le> po_window p \<and> 10 \<le> po_ban p"
proof -
  from assms obtain raw where v: "v = PDict raw" and raw: "policy_of_raw raw = Inr p"
    by (cases v) (auto simp: policy_from_dict_def split: if_splits)
  from raw have "protected_of raw = Inr (po_protected p) \<and>
      clients_of (po_protected p) (pyget_or raw ''clients'' (PDict [])) = Inr (po_clients p) \<and>
      10 \<le> po_window p \<and> 10 \<le> po_ban p"
    by (auto simp: policy_of_raw_def rbind_Inr integer_Inr)
  with v show ?thesis by blast
qed

text \<open>
  Whatever JSON the policy file holds, a policy that loads protects port 22, gives every
  client at least one data port, none of which is a protected management port or outside
  1..65535, a limit between 0 and 1000, and a window and ban of at least ten seconds: an
  enforced ban can never name a management port.
\<close>

theorem loaded_policy_spares_management_ports:
  assumes "policy_from_dict v = Inr p"
  shows "22 \<in> set (po_protected p) \<and> 10 \<le> po_window p \<and> 10 \<le> po_ban p \<and>
    (\<forall>(email, c) \<in> set (po_clients p). cp_ports c \<noteq> [] \<and> set (cp_ports c) \<inter> set (po_protected p) = {} \<and>
       (\<forall>q \<in> set (cp_ports c). 1 \<le> q \<and> q \<le> 65535) \<and> 0 \<le> cp_limit_ip c \<and> cp_limit_ip c \<le> 1000)"
proof -
  obtain raw where prot: "protected_of raw = Inr (po_protected p)"
    and clients: "clients_of (po_protected p) (pyget_or raw ''clients'' (PDict [])) = Inr (po_clients p)"
    and times: "10 \<le> po_window p" "10 \<le> po_ban p"
    using policy_from_dict_parts [OF assms] by blast
  obtain d where "list_all2 (\<lambda>e c. client_policy_of (po_protected p) e = Inr c) d (po_clients p)"
    using clients by (auto simp: clients_of_def map_res_Inr split: pyval.splits if_splits)
  then have "\<exists>e. client_policy_of (po_protected p) e = Inr c" if "c \<in> set (po_clients p)" for c
    using that unfolding list_all2_conv_all_nth in_set_conv_nth by metis
  then have "\<forall>(email, c) \<in> set (po_clients p). cp_ports c \<noteq> [] \<and> set (cp_ports c) \<inter> set (po_protected p) = {} \<and>
       (\<forall>q \<in> set (cp_ports c). 1 \<le> q \<and> q \<le> 65535) \<and> 0 \<le> cp_limit_ip c \<and> cp_limit_ip c \<le> 1000"
    using client_policy_of_ports by fast
  with prot times show ?thesis by (auto simp: protected_of_def results split: if_splits)
qed

definition sample_policy_json :: pyval where
  "sample_policy_json = PDict [(''schema'', PInt 1), (''source_mode'', PStr ''direct''),
     (''original_ip_verified'', PBool True), (''enforce'', PBool True),
     (''clients'', PDict [(''a@x'', PDict [(''owner'', PStr ''ann''), (''limit_ip'', PInt 1),
        (''ports'', PList [PInt 443])])])]"

definition sample_policy :: policy where
  "sample_policy = \<lparr>po_clients = [(''a@x'', \<lparr>cp_owner = ''ann'', cp_limit_ip = 1, cp_ports = [443]\<rparr>)],
     po_enforce = True, po_window = 120, po_ban = 1800, po_source_mode = ''direct'', po_verified = True,
     po_protected = [22, 2053, 2096], po_trusted = [], po_exempt = [], po_allow_private = False,
     po_node = ''local''\<rparr>"

lemma sample_policy_loads: "policy_from_dict sample_policy_json = Inr sample_policy"
  by (simp add: policy_from_dict_def policy_of_raw_def source_mode_of_def exempt_of_def node_of_def
      sample_policy_json_def sample_policy_def pyeq_def pyget_or_def
      protected_of_def normalize_ports_def clients_of_def client_policy_of_def valid_name_def
      name_char_def flag_def networks_def)

theorem loaded_policy_spares_management_ports_witness: "22 \<in> set (po_protected sample_policy)"
  by (rule loaded_policy_spares_management_ports [OF sample_policy_loads, THEN conjunct1])

section \<open>Leases stay within the limit\<close>

definition granted_ips :: "store \<Rightarrow> string \<Rightarrow> real \<Rightarrow> string set" where
  "granted_ips s cid since = ob_ip ` {r \<in> set (st_observations s). ob_client_id r = cid \<and> ob_granted r \<and> since < ob_last_seen r}"

lemma leases_props:
  "set (leases s cid since) = granted_ips s cid since" "distinct (leases s cid since)"
  "length (leases s cid since) = card (granted_ips s cid since)"
proof -
  show set: "set (leases s cid since) = granted_ips s cid since"
    by (auto simp: leases_def granted_ips_def granted_rows_def Let_def)
  show dist: "distinct (leases s cid since)" by (simp add: leases_def Let_def)
  show "length (leases s cid since) = card (granted_ips s cid since)"
    using distinct_card [OF dist] by (simp add: set)
qed

lemma finite_granted_ips [simp]: "finite (granted_ips s cid since)"
  by (simp add: granted_ips_def)

lemma take_lease_observations:
  assumes "take_lease p email c ip now s = (s', active, violation)"
  shows "active = active_ips (cp_limit_ip c) (leases s email (now - of_int (po_window p)))"
    and "\<not> violation \<longleftrightarrow> cp_limit_ip c = 0 \<or> ip \<in> set active \<or> int (length active) < cp_limit_ip c"
    and "granted_ips s' email since \<subseteq> granted_ips s email since \<union> (if violation then {} else {ip})"
    and "st_bans s' = st_bans s"
proof -
  let ?row = "\<lparr>ob_client_id = email, ob_ip = ip, ob_node = po_node p, ob_first_seen = now,
      ob_last_seen = now, ob_granted = \<not> violation\<rparr>"
  show "active = active_ips (cp_limit_ip c) (leases s email (now - of_int (po_window p)))"
    and vio: "\<not> violation \<longleftrightarrow> cp_limit_ip c = 0 \<or> ip \<in> set active \<or> int (length active) < cp_limit_ip c"
    and "st_bans s' = st_bans s"
    using assms by (auto simp: take_lease_def Let_def log_event_def)
  have "set (st_observations s') \<subseteq> set (upsert ob_key ?row
      (\<lambda>r. r\<lparr>ob_last_seen := now, ob_granted := \<not> violation\<rparr>) (st_observations s))"
    using assms by (auto simp: take_lease_def Let_def log_event_def split: if_splits)
  note sub = this
  have "r = ?row \<or> (\<exists>x \<in> set (st_observations s). r = (if ob_key x = (email, ip, po_node p)
      then x\<lparr>ob_last_seen := now, ob_granted := \<not> violation\<rparr> else x))"
    if "r \<in> set (st_observations s')" for r
    using set_upsert [OF subsetD [OF sub that]] by simp
  note row = this
  show "granted_ips s' email since \<subseteq> granted_ips s email since \<union> (if violation then {} else {ip})"
  proof
    fix x assume "x \<in> granted_ips s' email since"
    then obtain r where r: "r \<in> set (st_observations s')" "x = ob_ip r" "ob_client_id r = email"
        "ob_granted r" "since < ob_last_seen r"
      by (auto simp: granted_ips_def)
    have old: "ob_ip y \<in> granted_ips s email since"
      if "y \<in> set (st_observations s)" "ob_client_id y = email" "ob_granted y" "since < ob_last_seen y" for y
      using that unfolding granted_ips_def by blast
    from row [OF r(1)] show "x \<in> granted_ips s email since \<union> (if violation then {} else {ip})"
    proof (elim disjE bexE)
      assume "r = ?row"
      with r show ?thesis by simp
    next
      fix y assume y: "y \<in> set (st_observations s)"
        and "r = (if ob_key y = (email, ip, po_node p)
          then y\<lparr>ob_last_seen := now, ob_granted := \<not> violation\<rparr> else y)"
      with r old [OF y] show ?thesis by (cases "ob_key y = (email, ip, po_node p)") auto
    qed
  qed
qed

text \<open>
  C10. An observation never lets a client with a limit hold more distinct source addresses in the
  window than its limit, unless it already held more (its limit was lowered): then the number
  does not grow.
\<close>

theorem lease_limit_kept:
  assumes "take_lease p email c ip now s = (s', active, violation)" and "0 < cp_limit_ip c"
  shows "int (card (granted_ips s' email (now - of_int (po_window p)))) \<le>
    max (cp_limit_ip c) (int (card (granted_ips s email (now - of_int (po_window p)))))"
proof -
  let ?since = "now - of_int (po_window p)"
  let ?old = "granted_ips s email ?since" and ?new = "granted_ips s' email ?since"
  note obs = take_lease_observations [OF assms(1)]
  have sub: "?new \<subseteq> ?old \<union> (if violation then {} else {ip})" by (rule obs(3))
  show ?thesis
  proof (cases "violation \<or> ip \<in> ?old")
    case True
    with sub have "?new \<subseteq> ?old" by (auto split: if_splits)
    then have "card ?new \<le> card ?old" by (rule card_mono [rotated]) simp
    then show ?thesis by simp
  next
    case False
    then have short: "int (length active) < cp_limit_ip c"
      using obs(2) assms(2) leases_props(1) [of s email ?since]
      by (auto simp: obs(1) active_ips_def dest: in_set_takeD split: if_splits)
    then have "length (leases s email ?since) < nat (cp_limit_ip c)"
      using assms(2) by (auto simp: obs(1) active_ips_def)
    then have "card ?old < nat (cp_limit_ip c)" by (simp add: leases_props(3))
    moreover have "card ?new \<le> card (insert ip ?old)"
      using sub False by (intro card_mono) auto
    moreover have "card (insert ip ?old) \<le> Suc (card ?old)" by (simp add: card_insert_if)
    ultimately show ?thesis by linarith
  qed
qed

definition seen_once :: store where
  "seen_once = empty_store\<lparr>st_observations := [\<lparr>ob_client_id = ''a@x'', ob_ip = ''1.1.1.1'',
     ob_node = ''local'', ob_first_seen = 1000, ob_last_seen = 1000, ob_granted = True\<rparr>]\<rparr>"

theorem lease_limit_kept_witness:
  "int (card (granted_ips (fst (take_lease sample_policy ''a@x''
      \<lparr>cp_owner = ''ann'', cp_limit_ip = 1, cp_ports = [443]\<rparr> ''2.2.2.2'' 1010 seen_once)) ''a@x'' (1010 - 120)))
   \<le> max 1 (int (card (granted_ips seen_once ''a@x'' (1010 - 120))))"
proof -
  let ?c = "\<lparr>cp_owner = ''ann'', cp_limit_ip = 1, cp_ports = [443]\<rparr>"
  obtain s' a v where t: "take_lease sample_policy ''a@x'' ?c ''2.2.2.2'' 1010 seen_once = (s', a, v)"
    by (cases "take_lease sample_policy ''a@x'' ?c ''2.2.2.2'' 1010 seen_once")
  have "po_window sample_policy = 120" by (simp add: sample_policy_def)
  with lease_limit_kept [OF t] show ?thesis by (simp add: t)
qed

section \<open>When the guard bans\<close>

text \<open>
  C11. The guard adds or renews a ban only for an address that is not exempt (loopback, a trusted
  peer, a private or an explicitly exempt address is never banned), on a host whose packet
  sources are verified, through a connected adapter that confirmed it, and only when the client
  has a limit and that many other addresses hold its leases.
\<close>

theorem ban_only_verified_violation:
  assumes "observe private sha p executor email raw now s = Inr (s', d)"
    and "st_bans s' \<noteq> st_bans s"
  shows "\<exists>ip c ban. normalize_ip raw = Inr ip \<and> map_of (po_clients p) email = Some c \<and>
    exemption private p ip = None \<and> po_source_mode p = ''direct'' \<and> po_verified p \<and>
    executor = Some ban \<and> ban (jail_for sha (cp_ports c)) ip = None \<and>
    d = Banned (now + of_int (po_ban p)) (jail_for sha (cp_ports c)) \<and> cp_limit_ip c \<noteq> 0 \<and>
    cp_limit_ip c \<le> int (card (granted_ips s email (now - of_int (po_window p)) - {ip}))"
proof -
  obtain ip where ip: "normalize_ip raw = Inr ip"
    using assms(1) by (auto simp: observe_def results split: if_splits)
  obtain c where c: "map_of (po_clients p) email = Some c"
    using assms by (auto simp: observe_def ip split: if_splits option.splits)
  obtain s1 active violation where lease: "take_lease p email c ip now s = (s1, active, violation)"
    by (cases "take_lease p email c ip now s")
  note obs = take_lease_observations [OF lease]
  have free: "exemption private p ip = None" "po_source_mode p = ''direct''" "po_verified p"
    using assms by (auto simp: observe_def ip c log_event_def split: if_splits option.splits)
  have run: "violation \<and> (\<exists>ban. executor = Some ban \<and> ban (jail_for sha (cp_ports c)) ip = None \<and>
      d = Banned (now + of_int (po_ban p)) (jail_for sha (cp_ports c)))"
    using assms obs(4)
    by (auto simp: observe_def ip c free lease Let_def split: if_splits option.splits)
  let ?old = "granted_ips s email (now - of_int (po_window p))"
  have "cp_limit_ip c \<noteq> 0 \<and> ip \<notin> set active \<and> cp_limit_ip c \<le> int (length active)"
    using run obs(2) by auto
  moreover have "set active \<subseteq> ?old" "distinct active"
    using leases_props [of s email "now - of_int (po_window p)"]
    by (auto simp: obs(1) active_ips_def dest: in_set_takeD)
  moreover have "length active \<le> card (?old - {ip})"
    using calculation by (auto simp: distinct_card [symmetric] intro!: card_mono)
  ultimately have "cp_limit_ip c \<noteq> 0" "cp_limit_ip c \<le> int (card (?old - {ip}))" by linarith+
  with ip c free run show ?thesis by blast
qed

lemma sample_violation:
  assumes "ban (jail_for id [443]) ''8.8.4.4'' = None"
  shows "\<exists>s'. observe [] id sample_policy (Some ban) ''a@x'' (PStr ''8.8.4.4'') 1010 seen_once =
      Inr (s', Banned 2810 (jail_for id [443])) \<and> st_bans s' \<noteq> st_bans seen_once"
proof -
  let ?c = "\<lparr>cp_owner = ''ann'', cp_limit_ip = 1, cp_ports = [443]\<rparr>"
  have pol: "po_source_mode sample_policy = ''direct''" "po_verified sample_policy" "po_window sample_policy = 120"
    "po_ban sample_policy = 1800" "map_of (po_clients sample_policy) ''a@x'' = Some ?c"
    by (simp_all add: sample_policy_def)
  have ip: "normalize_ip (PStr ''8.8.4.4'') = Inr ''8.8.4.4''" by code_simp
  have free: "exemption [] sample_policy ''8.8.4.4'' = None" by code_simp
  obtain s1 active violation where lease: "take_lease sample_policy ''a@x'' ?c ''8.8.4.4'' 1010 seen_once = (s1, active, violation)"
    by (cases "take_lease sample_policy ''a@x'' ?c ''8.8.4.4'' 1010 seen_once")
  have "active = [''1.1.1.1'']"
    using lease by (simp add: take_lease_def Let_def active_ips_def leases_def granted_rows_def seen_once_def pol)
  then have bad: "violation" "st_bans s1 = []"
    using lease by (auto simp: take_lease_def Let_def log_event_def seen_once_def empty_store_def)
  have "st_bans seen_once = []" by (simp add: seen_once_def empty_store_def)
  with bad assms show ?thesis
    by (simp add: observe_def ip free pol lease Let_def upsert_def has_key_def)
qed

theorem ban_only_verified_violation_witness:
  "exemption [] sample_policy ''8.8.4.4'' = None \<and> card (granted_ips seen_once ''a@x'' 890 - {''8.8.4.4''}) \<ge> 1"
proof -
  obtain s' where "observe [] id sample_policy (Some (\<lambda>_ _. None)) ''a@x'' (PStr ''8.8.4.4'') 1010 seen_once =
      Inr (s', Banned 2810 (jail_for id [443]))" "st_bans s' \<noteq> st_bans seen_once"
    using sample_violation [of "\<lambda>_ _. None"] by blast
  moreover have "normalize_ip (PStr ''8.8.4.4'') = Inr ''8.8.4.4''" by code_simp
  ultimately show ?thesis
    using ban_only_verified_violation [of "[]" id sample_policy "Some (\<lambda>_ _. None)" "''a@x''" "PStr ''8.8.4.4''" 1010 seen_once]
    by (auto simp: sample_policy_def)
qed

end
