(* ===== verification/Effects.thy ===== *)
theory Effects
  imports Prelude
begin

text \<open>
  Operations on mutable objects. Python keeps the writes made before an exception, so an
  operation maps a state to the new state together with a result that may be an exception.
\<close>

type_synonym ('s, 'a) effect = "'s \<Rightarrow> 's \<times> 'a res"

definition return :: "'a \<Rightarrow> ('s, 'a) effect" where
  "return x s = (s, Inr x)"

definition raise :: "err \<Rightarrow> ('s, 'a) effect" where
  "raise e s = (s, Inl e)"

fun ebind :: "('s, 'a) effect \<Rightarrow> ('a \<Rightarrow> ('s, 'b) effect) \<Rightarrow> ('s, 'b) effect" where
  "ebind m f s = (case m s of (s', Inl e) \<Rightarrow> (s', Inl e) | (s', Inr x) \<Rightarrow> f x s')"

text \<open>\<open>try: m except Exception: h\<close>.\<close>

fun catch :: "('s, 'a) effect \<Rightarrow> (err \<Rightarrow> ('s, 'a) effect) \<Rightarrow> ('s, 'a) effect" where
  "catch m h s = (case m s of (s', Inl e) \<Rightarrow> h e s' | (s', Inr x) \<Rightarrow> (s', Inr x))"

definition alter :: "('s \<Rightarrow> 's) \<Rightarrow> ('s, unit) effect" where
  "alter f s = (f s, Inr ())"

definition require_that :: "('s \<Rightarrow> bool) \<Rightarrow> err \<Rightarrow> ('s, unit) effect" where
  "require_that P e s = (s, if P s then Inr () else Inl e)"

definition when_so :: "bool \<Rightarrow> ('s, unit) effect \<Rightarrow> ('s, unit) effect" where
  "when_so b m s = (if b then m s else (s, Inr ()))"

text \<open>An operation on a part of the state.\<close>

definition on_part :: "('s \<Rightarrow> 't) \<Rightarrow> ('t \<Rightarrow> 's \<Rightarrow> 's) \<Rightarrow> ('t, 'a) effect \<Rightarrow> ('s, 'a) effect" where
  "on_part get put m s = (case m (get s) of (t, r) \<Rightarrow> (put t s, r))"

named_theorems effects \<open>unfolding of operations on mutable objects\<close>

lemmas [effects] = return_def raise_def ebind.simps catch.simps alter_def require_that_def
  when_so_def on_part_def

lemma ebind_return [simp]: "ebind (return x) f = f x"
  by (rule ext) (simp add: return_def)

text \<open>A postcondition of the state whatever the result.\<close>

definition leaves :: "('s \<Rightarrow> bool) \<Rightarrow> ('s, 'a) effect \<Rightarrow> bool" where
  "leaves P m \<longleftrightarrow> (\<forall>s. P s \<longrightarrow> P (fst (m s)))"

lemma leaves_return [intro!]: "leaves P (return x)"
  by (simp add: leaves_def return_def)

lemma leaves_raise [intro!]: "leaves P (raise e)"
  by (simp add: leaves_def raise_def)

lemma leaves_ebind [intro]: "leaves P m \<Longrightarrow> (\<And>x. leaves P (f x)) \<Longrightarrow> leaves P (ebind m f)"
  by (fastforce simp: leaves_def split: prod.splits sum.splits)

lemma leaves_catch [intro]: "leaves P m \<Longrightarrow> (\<And>e. leaves P (h e)) \<Longrightarrow> leaves P (catch m h)"
  by (fastforce simp: leaves_def split: prod.splits sum.splits)

lemma leaves_alter [intro]: "(\<And>s. P s \<Longrightarrow> P (f s)) \<Longrightarrow> leaves P (alter f)"
  by (simp add: leaves_def alter_def)

lemma leaves_require_that [intro!]: "leaves P (require_that Q e)"
  by (simp add: leaves_def require_that_def)

lemma leaves_when_so [intro]: "leaves P m \<Longrightarrow> leaves P (when_so b m)"
  by (simp add: leaves_def when_so_def)

section \<open>Sequencing\<close>

lemma ebind_Inr:
  "ebind m f s = (s2, Inr y) \<longleftrightarrow> (\<exists>s1 x. m s = (s1, Inr x) \<and> f x s1 = (s2, Inr y))"
  by (auto split: prod.splits sum.splits)

lemma ebind_Inl:
  "ebind m f s = (s2, Inl e) \<longleftrightarrow> m s = (s2, Inl e) \<or> (\<exists>s1 x. m s = (s1, Inr x) \<and> f x s1 = (s2, Inl e))"
  by (auto split: prod.splits sum.splits)

lemma bindD: "ebind m f s = (s', Inr y) \<Longrightarrow> \<exists>s1 x. m s = (s1, Inr x) \<and> f x s1 = (s', Inr y)"
  by (simp only: ebind_Inr)

text \<open>A value read from the state, and \<open>raise\<close> of a computation that may fail.\<close>

definition peek :: "('s \<Rightarrow> 'a) \<Rightarrow> ('s, 'a) effect" where
  "peek f s = (s, Inr (f s))"

definition of_res :: "'a res \<Rightarrow> ('s, 'a) effect" where
  "of_res r s = (s, r)"

text \<open>\<open>try: m except C: h\<close> for a class \<open>C\<close> of exceptions.\<close>

fun catch_if :: "(err \<Rightarrow> bool) \<Rightarrow> ('s, 'a) effect \<Rightarrow> (err \<Rightarrow> ('s, 'a) effect) \<Rightarrow> ('s, 'a) effect" where
  "catch_if C m h s =
     (case m s of (s', Inl e) \<Rightarrow> if C e then h e s' else (s', Inl e) | (s', Inr x) \<Rightarrow> (s', Inr x))"

text \<open>A loop over a list, and one that collects the results.\<close>

fun efold :: "('x \<Rightarrow> 'a \<Rightarrow> ('s, 'a) effect) \<Rightarrow> 'x list \<Rightarrow> 'a \<Rightarrow> ('s, 'a) effect" where
  "efold f [] a = return a"
| "efold f (x # xs) a = ebind (f x a) (efold f xs)"

fun emap :: "('x \<Rightarrow> ('s, 'y) effect) \<Rightarrow> 'x list \<Rightarrow> ('s, 'y list) effect" where
  "emap f [] = return []"
| "emap f (x # xs) = ebind (f x) (\<lambda>y. ebind (emap f xs) (\<lambda>ys. return (y # ys)))"

lemma emap_length: "emap f xs s = (s', Inr ys) \<Longrightarrow> length ys = length xs"
  by (induction xs arbitrary: s s' ys) (auto simp: return_def ebind_Inr simp del: ebind.simps)

subsection \<open>What a sequence of operations may change\<close>

text \<open>
  A reflexive and transitive relation between states, such as \<open>this row is the same\<close>, holds
  across a sequence of operations when it holds across each of them, also when one raises.
\<close>

locale effect_frame =
  fixes R :: "'s \<Rightarrow> 's \<Rightarrow> bool"
  assumes R_refl: "R s s" and R_trans: "R s t \<Longrightarrow> R t u \<Longrightarrow> R s u"
begin

lemma bind_frame:
  assumes "R s (fst (m s))" and "\<And>t x. m s = (t, Inr x) \<Longrightarrow> R s t \<Longrightarrow> R t (fst (f x t))"
  shows "R s (fst (ebind m f s))"
proof (cases "m s")
  case (Pair t r)
  then have t: "R s t" using assms(1) by simp
  show ?thesis
  proof (cases r)
    case (Inl e)
    then show ?thesis using Pair t by simp
  next
    case (Inr x)
    then show ?thesis using Pair t R_trans [OF t assms(2)] by simp
  qed
qed

lemma return_frame: "R s (fst (return x s))"
  by (simp add: return_def R_refl)

lemma raise_frame: "R s (fst (raise e s))"
  by (simp add: raise_def R_refl)

lemma read_frame: "R s (fst (peek f s))" "R s (fst (of_res r s))" "R s (fst (require_that P e s))"
  by (simp_all add: peek_def of_res_def require_that_def R_refl)

lemma alter_frame: "R s (f s) \<Longrightarrow> R s (fst (alter f s))"
  by (simp add: alter_def)

lemma when_frame: "(b \<Longrightarrow> R s (fst (m s))) \<Longrightarrow> R s (fst (when_so b m s))"
  by (simp add: when_so_def R_refl)

lemma if_frame: "(b \<Longrightarrow> R s (fst (m s))) \<Longrightarrow> (\<not> b \<Longrightarrow> R s (fst (k s))) \<Longrightarrow> R s (fst ((if b then m else k) s))"
  by simp

lemma catch_frame:
  assumes "R s (fst (m s))" and "\<And>t e. m s = (t, Inl e) \<Longrightarrow> C e \<Longrightarrow> R s t \<Longrightarrow> R t (fst (h e t))"
  shows "R s (fst (catch_if C m h s))"
proof (cases "m s")
  case (Pair t r)
  then have t: "R s t" using assms(1) by simp
  show ?thesis
  proof (cases r)
    case (Inl e)
    then show ?thesis using Pair t R_trans [OF t assms(2)] by simp
  next
    case (Inr x)
    then show ?thesis using Pair t by simp
  qed
qed

lemma transaction_frame: "(\<And>t x. body s = Inr (t, x) \<Longrightarrow> R s t) \<Longrightarrow> R s (fst (transaction body s))"
  by (auto simp: transaction_def R_refl split: sum.splits)

lemma fold_frame:
  assumes "\<And>x a s. x \<in> set xs \<Longrightarrow> R s (fst (f x a s))"
  shows "R s (fst (efold f xs a s))"
  using assms
proof (induction xs arbitrary: a s)
  case Nil
  show ?case by (simp add: return_frame)
next
  case (Cons x xs)
  show ?case
    unfolding efold.simps by (rule bind_frame) (use Cons in \<open>auto\<close>)
qed

lemma map_frame:
  assumes "\<And>x s. x \<in> set xs \<Longrightarrow> R s (fst (f x s))"
  shows "R s (fst (emap f xs s))"
  using assms
proof (induction xs arbitrary: s)
  case Nil
  show ?case by (simp add: return_frame)
next
  case (Cons x xs)
  show ?case
    unfolding emap.simps
    by (rule bind_frame, use Cons in \<open>simp\<close>, rule bind_frame) (use Cons in \<open>auto intro: return_frame\<close>)
qed

end

end
