(* ===== verification/Firewall.thy ===== *)
theory Firewall
  imports Guard Effects "HOL-Library.AList"
begin

text \<open>
  The root-owned firewall broker (backend/guardd.py) and its unprivileged client
  (backend/guard_bridge.py): the configuration root approves, the messages the panel may send,
  and the broker's record of the elements it has added to the kernel's timed sets. \<open>nft\<close> itself
  is a parameter: a record of the answers of its commands on a kernel state. The private
  networks of the Python release are the list \<open>private\<close>.
\<close>

section \<open>The configuration root approves\<close>

record broker_config =
  bc_uid :: int
  bc_ports :: "int list"
  bc_protected :: "int list"
  bc_verified :: bool
  bc_max_ban :: int
  bc_exempt :: "network list"
  bc_updates :: bool

definition broker_keys :: "string list" where
  "broker_keys = [''allowed_uid'', ''allowed_ports'', ''protected_ports'', ''socket_path'',
     ''direct_source_verified'', ''max_ban_seconds'', ''exempt_ips'', ''nft_binary'',
     ''allow_runtime_port_updates'']"

definition bool_field :: "(string \<times> pyval) list \<Rightarrow> string \<Rightarrow> bool res" where
  "bool_field d k =
     (case pyget_or d k (PBool False) of
        PBool b \<Rightarrow> Inr b
      | _ \<Rightarrow> Inl (PolicyError (k @ '' must be boolean'')))"

definition exempt_networks :: "(string \<times> pyval) list \<Rightarrow> network list res" where
  "exempt_networks d =
     (case pyget_or d ''exempt_ips'' (PList []) of
        PList xs \<Rightarrow>
          if 512 < length xs then Inl (PolicyError ''Invalid exemptions'')
          else (case all_some (map ip_network xs) of
                  None \<Rightarrow> Inl (PolicyError ''Invalid exempt CIDR'') | Some ns \<Rightarrow> Inr ns)
      | _ \<Rightarrow> Inl (PolicyError ''Invalid exemptions''))"

definition broker_config_of :: "pyval \<Rightarrow> broker_config res" where
  "broker_config_of v =
     (case v of
        PDict d \<Rightarrow>
          rbind (ensure (set (map fst d) \<subseteq> set broker_keys)
                   (PolicyError ''Unknown guard configuration field'')) (\<lambda>_.
          rbind (integer (pyget d ''allowed_uid'') 1 (2 ^ 31 - 1)) (\<lambda>uid.
          rbind (normalize_ports (pyget_or d ''allowed_ports'' (PList []))) (\<lambda>ports.
          rbind (normalize_ports (pyget_or d ''protected_ports'' (PList [PInt 22, PInt 2087, PInt 10085])))
            (\<lambda>protected.
          rbind (bool_field d ''allow_runtime_port_updates'') (\<lambda>updates.
          rbind (ensure (\<not> (ports = [] \<and> \<not> updates) \<and> 22 \<in> set protected \<and>
                         set ports \<inter> set protected = {})
                   (PolicyError ''Empty data ports or protected-port overlap; include actual SSH, panel and core API ports'')) (\<lambda>_.
          rbind (bool_field d ''direct_source_verified'') (\<lambda>verified.
          rbind (ensure (pyget_or d ''socket_path'' (PStr ''/run/dark-xray-guard/control.sock'')
                           = PStr ''/run/dark-xray-guard/control.sock'')
                   (PolicyError ''Only the fixed production Unix socket is supported'')) (\<lambda>_.
          rbind (ensure (pyget_or d ''nft_binary'' (PStr ''/usr/sbin/nft'')
                           \<in> {PStr ''/usr/sbin/nft'', PStr ''/sbin/nft'', PStr ''/usr/bin/nft''})
                   (PolicyError ''Unexpected nft executable path'')) (\<lambda>_.
          rbind (exempt_networks d) (\<lambda>exempt.
          rbind (integer (pyget_or d ''max_ban_seconds'' (PInt 3600)) 10 86400) (\<lambda>max_ban.
          Inr \<lparr>bc_uid = uid, bc_ports = ports, bc_protected = protected, bc_verified = verified,
            bc_max_ban = max_ban, bc_exempt = exempt, bc_updates = updates\<rparr>)))))))))))
      | _ \<Rightarrow> Inl (PolicyError ''Guard config must be an object''))"

section \<open>The kernel's sets\<close>

type_synonym source = "string \<times> int"

text \<open>
  The commands the broker runs: whether its table is listed and carries the project's comment,
  \<open>get element\<close>, \<open>delete element\<close>, \<open>add element ... timeout\<close>, flushing both sets, and loading
  the table from the script of \<open>rules\<close>, with a preceding \<open>delete table\<close> if the table exists.
  \<open>None\<close> is a non-zero exit status.
\<close>

record 'k nft =
  nf_exists :: "'k \<Rightarrow> bool"
  nf_owned :: "'k \<Rightarrow> bool"
  nf_load :: "'k \<Rightarrow> 'k option"
  nf_get :: "'k \<Rightarrow> real \<Rightarrow> source \<Rightarrow> bool"
  nf_delete :: "'k \<Rightarrow> real \<Rightarrow> source \<Rightarrow> 'k option"
  nf_add :: "'k \<Rightarrow> real \<Rightarrow> string \<Rightarrow> int list \<Rightarrow> int \<Rightarrow> 'k option"
  nf_flush :: "'k \<Rightarrow> 'k option"

record 'k firewall =
  fw_ready :: bool
  fw_leases :: "(source \<times> real) list"
  fw_ports :: "int list"
  fw_kernel :: 'k

definition refused :: err where
  "refused = PolicyError ''nftables refused operation''"

definition new_firewall :: "broker_config \<Rightarrow> 'k \<Rightarrow> 'k firewall" where
  "new_firewall cfg k = \<lparr>fw_ready = False, fw_leases = [], fw_ports = bc_ports cfg, fw_kernel = k\<rparr>"

definition load_table :: "'k nft \<Rightarrow> ('k firewall, unit) effect" where
  "load_table nft fw =
     (if nf_exists nft (fw_kernel fw) \<and> \<not> nf_owned nft (fw_kernel fw)
      then (fw, Inl (PolicyError ''A foreign table has the DARK name; refusing to replace it''))
      else case nf_load nft (fw_kernel fw) of
        None \<Rightarrow> (fw, Inl refused)
      | Some k \<Rightarrow> (fw\<lparr>fw_ready := True, fw_leases := [], fw_kernel := k\<rparr>, Inr ()))"

section \<open>Messages\<close>

definition shared_space :: network where
  "shared_space = Net4 0x64400000 10"

definition globally_routable :: "network list \<Rightarrow> address \<Rightarrow> bool" where
  "globally_routable private a \<longleftrightarrow> \<not> in_network a shared_space \<and> \<not> list_ex (in_network a) private"

definition is_multicast :: "address \<Rightarrow> bool" where
  "is_multicast a = list_ex (in_network a) [Net4 0xE0000000 4, Net6 (0xFF * 2 ^ 120) 8]"

definition bannable :: "network list \<Rightarrow> broker_config \<Rightarrow> string \<Rightarrow> bool" where
  "bannable private cfg ip =
     (case ip_address ip of
        None \<Rightarrow> False
      | Some a \<Rightarrow> globally_routable private a \<and> \<not> is_multicast a \<and> \<not> list_ex (in_network a) (bc_exempt cfg))"

definition broker_ip :: "network list \<Rightarrow> broker_config \<Rightarrow> pyval \<Rightarrow> string res" where
  "broker_ip private cfg raw =
     rbind (normalize_ip raw) (\<lambda>ip.
       if bannable private cfg ip then Inr ip
       else Inl (PolicyError ''Special, private, reserved or exempt source; ban refused''))"

text \<open>Expired entries of the record are dropped before it is counted.\<close>

definition live :: "real \<Rightarrow> (source \<times> real) list \<Rightarrow> (source \<times> real) list" where
  "live now = filter (\<lambda>(k, e). now < e)"

datatype reply =
    Status_reply "int list" nat
  | Cleared
  | Ports_reply "int list"
  | Released nat
  | Accepted

definition broker_status :: "'k nft \<Rightarrow> real \<Rightarrow> ('k firewall, reply) effect" where
  "broker_status nft now fw =
     (if \<not> fw_ready fw then (fw, Inl (PolicyError ''Firewall broker not initialized''))
      else if \<not> nf_exists nft (fw_kernel fw) then (fw, Inl refused)
      else let entries = live now (fw_leases fw)
           in (fw\<lparr>fw_leases := entries\<rparr>, Inr (Status_reply (fw_ports fw) (length entries))))"

text \<open>Delete one element if the kernel still has it, then forget it; the result counts deletions.\<close>

definition release_one :: "'k nft \<Rightarrow> real \<Rightarrow> source \<Rightarrow> ('k firewall, nat) effect" where
  "release_one nft now x fw =
     (if nf_get nft (fw_kernel fw) now x
      then (case nf_delete nft (fw_kernel fw) now x of
              None \<Rightarrow> (fw, Inl refused)
            | Some k \<Rightarrow> (fw\<lparr>fw_kernel := k, fw_leases := AList.delete x (fw_leases fw)\<rparr>, Inr 1))
      else (fw\<lparr>fw_leases := AList.delete x (fw_leases fw)\<rparr>, Inr 0))"

fun release_all :: "'k nft \<Rightarrow> real \<Rightarrow> source list \<Rightarrow> ('k firewall, nat) effect" where
  "release_all nft now [] fw = (fw, Inr 0)"
| "release_all nft now (x # xs) fw =
     (case release_one nft now x fw of
        (fw1, Inl e) \<Rightarrow> (fw1, Inl e)
      | (fw1, Inr n) \<Rightarrow>
          (case release_all nft now xs fw1 of
             (fw2, Inl e) \<Rightarrow> (fw2, Inl e)
           | (fw2, Inr m) \<Rightarrow> (fw2, Inr (n + m))))"

definition broker_clear :: "'k nft \<Rightarrow> ('k firewall, reply) effect" where
  "broker_clear nft fw =
     (case nf_flush nft (fw_kernel fw) of
        None \<Rightarrow> (fw, Inl refused)
      | Some k \<Rightarrow> (fw\<lparr>fw_kernel := k, fw_leases := []\<rparr>, Inr Cleared))"

definition broker_set_ports ::
  "'k nft \<Rightarrow> broker_config \<Rightarrow> pyval \<Rightarrow> real \<Rightarrow> ('k firewall, reply) effect" where
  "broker_set_ports nft cfg raw now fw =
     (if \<not> bc_updates cfg
      then (fw, Inl (PolicyError ''Root has not approved runtime data-port updates''))
      else case normalize_ports raw of
        Inl e \<Rightarrow> (fw, Inl e)
      | Inr ports \<Rightarrow>
        if 1024 < length ports \<or> set ports \<inter> set (bc_protected cfg) \<noteq> {}
        then (fw, Inl (PolicyError ''Runtime data ports overlap protected management ports''))
        else
        let removed = set (fw_ports fw) - set ports;
            gone = filter (\<lambda>(ip, p). p \<in> removed) (map fst (fw_leases fw))
        in (case release_all nft now gone fw of
              (fw1, Inl e) \<Rightarrow> (fw1, Inl e)
            | (fw1, Inr _) \<Rightarrow> (fw1\<lparr>fw_ports := ports\<rparr>, Inr (Ports_reply ports))))"

definition broker_unban :: "'k nft \<Rightarrow> string \<Rightarrow> real \<Rightarrow> ('k firewall, reply) effect" where
  "broker_unban nft ip now fw =
     (case release_all nft now (map (Pair ip) (fw_ports fw)) fw of
        (fw1, Inl e) \<Rightarrow> (fw1, Inl e)
      | (fw1, Inr n) \<Rightarrow>
          (case broker_status nft now fw1 of
             (fw2, Inl e) \<Rightarrow> (fw2, Inl e)
           | (fw2, Inr _) \<Rightarrow> (fw2, Inr (Released n))))"

definition held :: "real \<Rightarrow> (source \<times> real) list \<Rightarrow> source \<Rightarrow> bool" where
  "held now entries x = (case map_of entries x of None \<Rightarrow> False | Some e \<Rightarrow> now < e)"

fun grant_until :: "real \<Rightarrow> string \<Rightarrow> int list \<Rightarrow> (source \<times> real) list \<Rightarrow> (source \<times> real) list" where
  "grant_until till ip [] entries = entries"
| "grant_until till ip (p # ps) entries = grant_until till ip ps (AList.update (ip, p) till entries)"

definition add_ban ::
  "'k nft \<Rightarrow> string \<Rightarrow> int list \<Rightarrow> int \<Rightarrow> real \<Rightarrow> ('k firewall, reply) effect" where
  "add_ban nft ip ports seconds now fw =
     (let remaining = filter (\<lambda>p. \<not> held now (fw_leases fw) (ip, p)) ports
      in if remaining = [] then (fw, Inr Accepted)
         else case nf_add nft (fw_kernel fw) now ip remaining seconds of
           None \<Rightarrow> (fw, Inl refused)
         | Some k \<Rightarrow> (fw\<lparr>fw_kernel := k, fw_leases :=
                           grant_until (now + of_int seconds) ip remaining (fw_leases fw)\<rparr>, Inr Accepted))"

definition broker_ban ::
  "'k nft \<Rightarrow> broker_config \<Rightarrow> string \<Rightarrow> pyval \<Rightarrow> pyval \<Rightarrow> real \<Rightarrow> ('k firewall, reply) effect" where
  "broker_ban nft cfg ip raw_ports raw_seconds now fw =
     (if \<not> bc_verified cfg
      then (fw, Inl (PolicyError ''Root has not approved direct packet-source enforcement''))
      else case normalize_ports raw_ports of
        Inl e \<Rightarrow> (fw, Inl e)
      | Inr ports \<Rightarrow>
        if ports = [] \<or> \<not> set ports \<subseteq> set (fw_ports fw) \<or> set ports \<inter> set (bc_protected cfg) \<noteq> {}
        then (fw, Inl (PolicyError ''Unapproved or management port''))
        else case integer raw_seconds 10 (bc_max_ban cfg) of
          Inl e \<Rightarrow> (fw, Inl e)
        | Inr seconds \<Rightarrow>
          let fw1 = fw\<lparr>fw_leases := live now (fw_leases fw)\<rparr>
          in if 100000 < length (fw_leases fw1) + length ports
             then (fw1, Inl (PolicyError ''Lease capacity reached''))
             else add_ban nft ip ports seconds now fw1)"

definition message_fields :: "string \<Rightarrow> string list option" where
  "message_fields = map_of [(''status'', [''operation'']), (''clear'', [''operation'']),
     (''set_ports'', [''operation'', ''ports'']), (''unban'', [''operation'', ''ip'']),
     (''ban'', [''operation'', ''ip'', ''ports'', ''seconds''])]"

definition dispatch_known ::
  "network list \<Rightarrow> 'k nft \<Rightarrow> broker_config \<Rightarrow> string \<Rightarrow> (string \<times> pyval) list \<Rightarrow> real
   \<Rightarrow> ('k firewall, reply) effect" where
  "dispatch_known private nft cfg op d now fw =
     (if op = ''status'' then broker_status nft now fw
      else if \<not> fw_ready fw then (fw, Inl (PolicyError ''Firewall broker not initialized''))
      else if op = ''clear'' then broker_clear nft fw
      else if op = ''set_ports'' then broker_set_ports nft cfg (pyget_or d ''ports'' (PList [])) now fw
      else case broker_ip private cfg (pyget d ''ip'') of
        Inl e \<Rightarrow> (fw, Inl e)
      | Inr ip \<Rightarrow>
        if op = ''unban'' then broker_unban nft ip now fw
        else broker_ban nft cfg ip (pyget d ''ports'') (pyget d ''seconds'') now fw)"

text \<open>An unhashable \<open>operation\<close> makes the dict lookup raise \<open>TypeError\<close>.\<close>

definition dispatch ::
  "network list \<Rightarrow> 'k nft \<Rightarrow> broker_config \<Rightarrow> pyval \<Rightarrow> int \<Rightarrow> real \<Rightarrow> ('k firewall, reply) effect" where
  "dispatch private nft cfg message uid now fw =
     (if uid \<noteq> bc_uid cfg then (fw, Inl (PolicyError ''Unix peer UID is not authorized''))
      else case message of
        PDict d \<Rightarrow>
          (case pyget d ''operation'' of
             PStr op \<Rightarrow>
               (case message_fields op of
                  Some names \<Rightarrow>
                    if keys_are d names then dispatch_known private nft cfg op d now fw
                    else (fw, Inl (PolicyError ''Unknown operation or fields''))
                | None \<Rightarrow> (fw, Inl (PolicyError ''Unknown operation or fields'')))
           | PList _ \<Rightarrow> (fw, Inl (OtherError ''TypeError''))
           | PDict _ \<Rightarrow> (fw, Inl (OtherError ''TypeError''))
           | _ \<Rightarrow> (fw, Inl (PolicyError ''Unknown operation or fields'')))
      | _ \<Rightarrow> (fw, Inl (PolicyError ''Message must be an object'')))"

section \<open>The kernel blocks what the broker recorded\<close>

text \<open>
  What the broker relies on, as nftables documents it: an element with a timeout is present
  until the timeout, deleting and flushing remove elements, adding absent elements makes them
  present for their timeout and touches no other, and a freshly loaded table is empty.
\<close>

definition nft_documented :: "'k nft \<Rightarrow> bool" where
  "nft_documented nft \<longleftrightarrow>
     (\<forall>k t x k' t' y. nf_delete nft k t x = Some k' \<longrightarrow> t \<le> t' \<longrightarrow>
        nf_get nft k' t' y = (y \<noteq> x \<and> nf_get nft k t' y)) \<and>
     (\<forall>k t ip ps s k' t' y. nf_add nft k t ip ps s = Some k' \<longrightarrow>
        list_all (\<lambda>p. \<not> nf_get nft k t (ip, p)) ps \<longrightarrow> t \<le> t' \<longrightarrow>
        nf_get nft k' t' y = (nf_get nft k t' y \<or> fst y = ip \<and> snd y \<in> set ps \<and> t' < t + of_int s)) \<and>
     (\<forall>k k' t y. nf_flush nft k = Some k' \<longrightarrow> \<not> nf_get nft k' t y) \<and>
     (\<forall>k k' t y. nf_load nft k = Some k' \<longrightarrow> \<not> nf_get nft k' t y)"

lemma nft_documentedD:
  assumes "nft_documented nft"
  shows "nf_delete nft k t x = Some k1 \<Longrightarrow> t \<le> t' \<Longrightarrow> nf_get nft k1 t' y = (y \<noteq> x \<and> nf_get nft k t' y)"
    and "nf_add nft k t ip ps s = Some k2 \<Longrightarrow> list_all (\<lambda>p. \<not> nf_get nft k t (ip, p)) ps \<Longrightarrow> t \<le> t' \<Longrightarrow>
      nf_get nft k2 t' y = (nf_get nft k t' y \<or> fst y = ip \<and> snd y \<in> set ps \<and> t' < t + of_int s)"
    and "nf_flush nft k = Some k3 \<Longrightarrow> \<not> nf_get nft k3 t y"
    and "nf_load nft k = Some k4 \<Longrightarrow> \<not> nf_get nft k4 t y"
proof -
  note laws = assms [unfolded nft_documented_def]
  show "nf_delete nft k t x = Some k1 \<Longrightarrow> t \<le> t' \<Longrightarrow> nf_get nft k1 t' y = (y \<noteq> x \<and> nf_get nft k t' y)"
    by (rule laws [THEN conjunct1, rule_format])
  show "nf_add nft k t ip ps s = Some k2 \<Longrightarrow> list_all (\<lambda>p. \<not> nf_get nft k t (ip, p)) ps \<Longrightarrow> t \<le> t' \<Longrightarrow>
      nf_get nft k2 t' y = (nf_get nft k t' y \<or> fst y = ip \<and> snd y \<in> set ps \<and> t' < t + of_int s)"
    by (rule laws [THEN conjunct2, THEN conjunct1, rule_format])
  show "nf_flush nft k = Some k3 \<Longrightarrow> \<not> nf_get nft k3 t y"
    by (rule laws [THEN conjunct2, THEN conjunct2, THEN conjunct1, rule_format])
  show "nf_load nft k = Some k4 \<Longrightarrow> \<not> nf_get nft k4 t y"
    by (rule laws [THEN conjunct2, THEN conjunct2, THEN conjunct2, rule_format])
qed

definition mirrors :: "'k nft \<Rightarrow> real \<Rightarrow> 'k firewall \<Rightarrow> bool" where
  "mirrors nft c fw \<longleftrightarrow> distinct (map fst (fw_leases fw)) \<and>
     (\<forall>t x. c \<le> t \<longrightarrow> nf_get nft (fw_kernel fw) t x = held t (fw_leases fw) x)"

lemma held_simps:
  "held t [] x = False"
  "held t (AList.delete y l) x = (x \<noteq> y \<and> held t l x)"
  "held t (AList.update y e l) x = (if x = y then t < e else held t l x)"
  by (auto simp: held_def delete_conv' update_conv')

lemma held_later: "held t' l x \<Longrightarrow> t \<le> t' \<Longrightarrow> held t l x"
  by (auto simp: held_def split: option.splits)

lemma held_grant_until:
  "held t (grant_until till ip ps l) x = (if fst x = ip \<and> snd x \<in> set ps then t < till else held t l x)"
  by (induction ps arbitrary: l) (auto simp: held_simps)

lemma distinct_grant_until: "distinct (map fst l) \<Longrightarrow> distinct (map fst (grant_until till ip ps l))"
  by (induction ps arbitrary: l) (auto simp: distinct_update)

lemma keys_grant_until: "fst ` set (grant_until till ip ps l) = fst ` set l \<union> Pair ip ` set ps"
  by (induction ps arbitrary: l) (auto simp: dom_update)

lemma held_live: "distinct (map fst l) \<Longrightarrow> c \<le> t \<Longrightarrow> held t (live c l) x = held t l x"
proof (induction l)
  case (Cons a l)
  obtain k e where a: "a = (k, e)" by (cases a)
  have "map_of l k = None" using Cons.prems a by (simp add: map_of_eq_None_iff)
  then have "\<not> held t l k" by (simp add: held_def)
  with Cons a show ?case by (auto simp: held_def live_def)
qed (simp add: live_def)

lemma live_subset: "set (live c l) \<subseteq> set l" "distinct (map fst l) \<Longrightarrow> distinct (map fst (live c l))"
  by (auto simp: live_def distinct_map_filter)

lemma mirrors_live: "mirrors nft c fw \<Longrightarrow> mirrors nft c (fw\<lparr>fw_leases := live c (fw_leases fw)\<rparr>)"
  by (simp add: mirrors_def live_subset held_live)

lemma mirrors_later: "mirrors nft c fw \<Longrightarrow> c \<le> c' \<Longrightarrow> mirrors nft c' fw"
  by (auto simp: mirrors_def)

text \<open>The ports and sources an element may have.\<close>

definition approved :: "network list \<Rightarrow> broker_config \<Rightarrow> 'k firewall \<Rightarrow> bool" where
  "approved private cfg fw \<longleftrightarrow> set (fw_ports fw) \<inter> set (bc_protected cfg) = {} \<and>
     fst ` set (fw_leases fw) \<subseteq> {(ip, p). bannable private cfg ip \<and> p \<in> set (fw_ports fw)}"

text \<open>Both together, at the instant \<open>c\<close>.\<close>

definition fw_ok :: "network list \<Rightarrow> 'k nft \<Rightarrow> broker_config \<Rightarrow> real \<Rightarrow> 'k firewall \<Rightarrow> bool" where
  "fw_ok private nft cfg c fw \<longleftrightarrow> mirrors nft c fw \<and> approved private cfg fw"

lemma release_one_ok:
  assumes "nft_documented nft" and "release_one nft c x fw = (fw', r)" and "fw_ok private nft cfg c fw"
  shows "fw_ok private nft cfg c fw' \<and> fw_ports fw' = fw_ports fw \<and>
    fst ` set (fw_leases fw') \<subseteq> fst ` set (fw_leases fw) \<and>
    (ok r \<longrightarrow> x \<notin> fst ` set (fw_leases fw'))"
proof -
  have m: "mirrors nft c fw" "approved private cfg fw" using assms(3) by (simp_all add: fw_ok_def)
  have sub: "fst ` set (AList.delete x (fw_leases fw)) = fst ` set (fw_leases fw) - {x}"
    using arg_cong [OF delete_keys, of set x "fw_leases fw"] by simp
  have appr: "approved private cfg (fw\<lparr>fw_leases := AList.delete x (fw_leases fw)\<rparr>)"
    using m(2) by (auto simp: approved_def sub)
  show ?thesis
  proof (cases "nf_get nft (fw_kernel fw) c x")
    case True
    then consider "r = Inl refused" "fw' = fw"
      | k where "nf_delete nft (fw_kernel fw) c x = Some k" "r = Inr 1"
          "fw' = fw\<lparr>fw_kernel := k, fw_leases := AList.delete x (fw_leases fw)\<rparr>"
      using assms(2) by (auto simp: release_one_def split: option.splits)
    then show ?thesis
    proof cases
      case 1
      then show ?thesis using assms(3) by simp
    next
      case (2 k)
      have "mirrors nft c fw'"
        using m(1) nft_documentedD(1) [OF assms(1) 2(1)]
        by (simp add: mirrors_def 2(3) held_simps distinct_delete)
      with 2(3) appr show ?thesis by (simp add: fw_ok_def approved_def sub)
    qed
  next
    case False
    then have fw': "fw' = fw\<lparr>fw_leases := AList.delete x (fw_leases fw)\<rparr>"
      using assms(2) by (simp add: release_one_def)
    have "\<not> held c (fw_leases fw) x" using m(1) False unfolding mirrors_def by blast
    then have "\<not> held t (fw_leases fw) x" if "c \<le> t" for t using held_later that by blast
    then have "mirrors nft c fw'"
      using m(1) by (auto simp: fw' mirrors_def held_simps distinct_delete)
    with fw' appr show ?thesis by (simp add: fw_ok_def sub)
  qed
qed

lemma release_all_ok:
  assumes "nft_documented nft" and "release_all nft c xs fw = (fw', r)" and "fw_ok private nft cfg c fw"
  shows "fw_ok private nft cfg c fw' \<and> fw_ports fw' = fw_ports fw \<and>
    fst ` set (fw_leases fw') \<subseteq> fst ` set (fw_leases fw) \<and>
    (ok r \<longrightarrow> set xs \<inter> fst ` set (fw_leases fw') = {})"
  using assms(2,3)
proof (induction xs arbitrary: fw fw' r)
  case (Cons x xs)
  obtain fw1 r1 where one: "release_one nft c x fw = (fw1, r1)" by fastforce
  note h = release_one_ok [OF assms(1) one Cons.prems(2)]
  show ?case
  proof (cases r1)
    case (Inl e)
    with Cons.prems(1) one h show ?thesis by auto
  next
    case (Inr n)
    obtain fw2 r2 where rest: "release_all nft c xs fw1 = (fw2, r2)" by fastforce
    have "fw' = fw2" "ok r = ok r2"
      using Cons.prems(1) one rest Inr by (auto split: sum.splits)
    moreover from Inr h have "fw_ok private nft cfg c fw1" "fw_ports fw1 = fw_ports fw"
      "fst ` set (fw_leases fw1) \<subseteq> fst ` set (fw_leases fw)" "x \<notin> fst ` set (fw_leases fw1)" by simp_all
    ultimately show ?thesis using Cons.IH [OF rest] by (simp, blast)
  qed
qed auto

lemma broker_status_ok:
  assumes "broker_status nft c fw = (fw', r)" and "fw_ok private nft cfg c fw"
  shows "fw_ok private nft cfg c fw' \<and> fw_ports fw' = fw_ports fw \<and>
    fst ` set (fw_leases fw') \<subseteq> fst ` set (fw_leases fw)"
proof (cases "fw' = fw")
  case False
  then have "fw' = fw\<lparr>fw_leases := live c (fw_leases fw)\<rparr>"
    using assms(1) by (auto simp: broker_status_def Let_def split: if_splits)
  moreover have "fst ` set (live c (fw_leases fw)) \<subseteq> fst ` set (fw_leases fw)"
    by (auto simp: live_def)
  ultimately show ?thesis
    using assms(2) mirrors_live [of nft c fw] by (auto simp: fw_ok_def approved_def)
qed (use assms(2) in simp)

lemma broker_clear_ok:
  assumes "nft_documented nft" and "broker_clear nft fw = (fw', r)" and "fw_ok private nft cfg c fw"
  shows "fw_ok private nft cfg c fw'"
  using assms(2,3) nft_documentedD(3) [OF assms(1)]
  by (auto simp: broker_clear_def fw_ok_def mirrors_def approved_def held_simps split: option.splits)

lemma broker_set_ports_ok:
  assumes "nft_documented nft" and "broker_set_ports nft cfg raw c fw = (fw', r)" and "fw_ok private nft cfg c fw"
  shows "fw_ok private nft cfg c fw'"
proof (cases "fw' = fw")
  case False
  then obtain ports where p: "bc_updates cfg" "normalize_ports raw = Inr ports" "set ports \<inter> set (bc_protected cfg) = {}"
    using assms(2) by (auto simp: broker_set_ports_def split: if_splits sum.splits)
  let ?gone = "filter (\<lambda>(ip, p). p \<in> set (fw_ports fw) - set ports) (map fst (fw_leases fw))"
  obtain fw1 r1 where rel: "release_all nft c ?gone fw = (fw1, r1)" by fastforce
  note h = release_all_ok [OF assms(1) rel assms(3)]
  have fw': "fw' = fw1 \<or> ok r1 \<and> fw' = fw1\<lparr>fw_ports := ports\<rparr>"
    using assms(2) p rel False by (auto simp: broker_set_ports_def Let_def split: if_splits sum.splits)
  show ?thesis
  proof (cases "fw' = fw1")
    case False
    with fw' have new: "ok r1" "fw' = fw1\<lparr>fw_ports := ports\<rparr>" by auto
    have sub: "fst ` set (fw_leases fw1) \<subseteq> {(ip, p). bannable private cfg ip \<and> p \<in> set (fw_ports fw)}"
      using h assms(3) by (fastforce simp: fw_ok_def approved_def)
    have "p \<in> set ports" if "(ip, p) \<in> fst ` set (fw_leases fw1)" for ip p
    proof (rule ccontr)
      assume "p \<notin> set ports"
      with sub that h have "(ip, p) \<in> set ?gone" by auto
      with h new(1) that show False by blast
    qed
    with sub have "approved private cfg fw'" using p(3) by (auto simp: approved_def new(2))
    moreover have "mirrors nft c fw'" using h by (simp add: fw_ok_def mirrors_def new(2))
    ultimately show ?thesis by (simp add: fw_ok_def)
  qed (use h in simp)
qed (use assms(3) in simp)

lemma broker_unban_ok:
  assumes "nft_documented nft" and "broker_unban nft ip c fw = (fw', r)" and "fw_ok private nft cfg c fw"
  shows "fw_ok private nft cfg c fw' \<and> (ok r \<longrightarrow> list_all (\<lambda>p. (ip, p) \<notin> fst ` set (fw_leases fw')) (fw_ports fw'))"
proof -
  obtain fw1 r1 where rel: "release_all nft c (map (Pair ip) (fw_ports fw)) fw = (fw1, r1)" by fastforce
  obtain fw2 r2 where stat: "broker_status nft c fw1 = (fw2, r2)" by fastforce
  note h = release_all_ok [OF assms(1) rel assms(3)]
  note h2 = broker_status_ok [OF stat, of "private" cfg]
  have "fw' = fw1 \<and> \<not> ok r \<or> fw' = fw2 \<and> ok r1"
    using assms(2) rel stat by (auto simp: broker_unban_def split: sum.splits)
  then show ?thesis
  proof (elim disjE conjE)
    assume "fw' = fw1" and "\<not> ok r"
    with h show ?thesis by simp
  next
    assume "fw' = fw2" and "ok r1"
    moreover have "(ip, p) \<notin> fst ` set (fw_leases fw2)" if "p \<in> set (fw_ports fw)" for p
      using h h2 that \<open>ok r1\<close> by (auto simp del: split_paired_All)
    ultimately show ?thesis using h h2 by (simp add: list_all_iff)
  qed
qed

lemma add_ban_ok:
  assumes "nft_documented nft" and "add_ban nft ip ports s c fw = (fw', r)" and "fw_ok private nft cfg c fw"
    and "bannable private cfg ip" and "set ports \<subseteq> set (fw_ports fw)" and "0 < s"
  shows "fw_ok private nft cfg c fw' \<and> (ok r \<longrightarrow> list_all (\<lambda>p. held c (fw_leases fw') (ip, p)) ports)"
proof -
  let ?new = "filter (\<lambda>p. \<not> held c (fw_leases fw) (ip, p)) ports"
  have run: "(if ?new = [] then (fw, Inr Accepted)
       else case nf_add nft (fw_kernel fw) c ip ?new s of
         None \<Rightarrow> (fw, Inl refused)
       | Some k \<Rightarrow> (fw\<lparr>fw_kernel := k, fw_leases := grant_until (c + of_int s) ip ?new (fw_leases fw)\<rparr>,
                   Inr Accepted)) = (fw', r)"
    using assms(2) by (simp only: add_ban_def Let_def)
  show ?thesis
  proof (cases "?new = []")
    case True
    then have "list_all (\<lambda>p. held c (fw_leases fw) (ip, p)) ports"
      by (simp add: filter_empty_conv list_all_iff)
    moreover have "fw' = fw" using run unfolding if_P [OF True] by (rule prod.inject [THEN iffD1, THEN conjunct1, symmetric])
    ultimately show ?thesis using assms(3) by simp
  next
    case False
    note run' = run [unfolded if_not_P [OF False]]
    show ?thesis
    proof (cases "nf_add nft (fw_kernel fw) c ip ?new s")
      case None
      then have "fw' = fw" "\<not> ok r" using run' by (auto simp only: option.case prod.inject ok.simps)
      with assms(3) show ?thesis by simp
    next
      case (Some k)
      have fw': "fw' = fw\<lparr>fw_kernel := k, fw_leases := grant_until (c + of_int s) ip ?new (fw_leases fw)\<rparr>"
        using run' Some by (simp only: option.case prod.inject)
    have m: "mirrors nft c fw" using assms(3) by (simp add: fw_ok_def)
    then have absent: "list_all (\<lambda>p. \<not> nf_get nft (fw_kernel fw) c (ip, p)) ?new"
      by (auto simp: mirrors_def list_all_iff)
    have "nf_get nft k t x = held t (fw_leases fw') x" if "c \<le> t" for t x
    proof -
      have "nf_get nft (fw_kernel fw) t x = held t (fw_leases fw) x"
        using m that unfolding mirrors_def by blast
      moreover have "\<not> held t (fw_leases fw) x" if "fst x = ip" "snd x \<in> set ?new"
        using that \<open>c \<le> t\<close> held_later [of t "fw_leases fw" x c] by (cases x) auto
      ultimately show ?thesis
        using nft_documentedD(2) [OF assms(1) Some absent that, of x] by (auto simp: fw' held_grant_until)
    qed
    then have "mirrors nft c fw'"
      using m by (simp add: mirrors_def fw' distinct_grant_until)
    moreover have "approved private cfg fw'"
      using assms(3-5) by (auto simp: fw_ok_def approved_def fw' keys_grant_until)
    moreover have "held c (fw_leases fw') (ip, p)" if "p \<in> set ports" for p
      using that assms(6) by (auto simp: fw' held_grant_until)
    ultimately show ?thesis by (simp add: fw_ok_def list_all_iff)
    qed
  qed
qed

lemma broker_ban_ok:
  assumes "nft_documented nft" and "broker_ban nft cfg ip raw raws c fw = (fw', r)" and "fw_ok private nft cfg c fw"
    and "bannable private cfg ip"
  shows "fw_ok private nft cfg c fw' \<and>
    (ok r \<longrightarrow> (\<exists>ports. normalize_ports raw = Inr ports \<and> list_all (\<lambda>p. held c (fw_leases fw') (ip, p)) ports))"
proof (cases "fw' = fw \<and> \<not> ok r")
  case False
  then obtain ports s where p: "normalize_ports raw = Inr ports" "set ports \<subseteq> set (fw_ports fw)" "10 \<le> s"
    and run: "(let fw1 = fw\<lparr>fw_leases := live c (fw_leases fw)\<rparr>
          in if 100000 < length (fw_leases fw1) + length ports
             then (fw1, Inl (PolicyError ''Lease capacity reached''))
             else add_ban nft ip ports s c fw1) = (fw', r)"
    using assms(2) by (auto simp: broker_ban_def results split: if_splits sum.splits)
  let ?fw = "fw\<lparr>fw_leases := live c (fw_leases fw)\<rparr>"
  have start: "fw_ok private nft cfg c ?fw"
    using assms(3) mirrors_live [of nft c fw] by (auto simp: fw_ok_def approved_def live_def)
  show ?thesis
  proof (cases "100000 < length (fw_leases ?fw) + length ports")
    case True
    with run start show ?thesis by auto
  next
    case False
    with run have add: "add_ban nft ip ports s c ?fw = (fw', r)" by (simp add: Let_def)
    have "set ports \<subseteq> set (fw_ports ?fw)" "0 < s" using p by simp_all
    from add_ban_ok [OF assms(1) add start assms(4) this] p(1) show ?thesis by blast
  qed
qed (use assms(3) in simp)

lemma dispatch_known_ok:
  assumes "nft_documented nft" and "dispatch_known private nft cfg op d c fw = (fw', r)" and "fw_ok private nft cfg c fw"
  shows "fw_ok private nft cfg c fw'"
proof (cases "fw' = fw")
  case False
  with assms(2) consider "broker_status nft c fw = (fw', r)" | "broker_clear nft fw = (fw', r)"
    | raw where "broker_set_ports nft cfg raw c fw = (fw', r)"
    | ip where "broker_unban nft ip c fw = (fw', r)"
    | ip ports s where "broker_ip private cfg (pyget d ''ip'') = Inr ip" "broker_ban nft cfg ip ports s c fw = (fw', r)"
    by (auto simp: dispatch_known_def split: if_splits sum.splits)
  then show ?thesis
  proof cases
    case 1
    with broker_status_ok assms(3) show ?thesis by blast
  next
    case 2
    with broker_clear_ok assms(1,3) show ?thesis by blast
  next
    case (3 raw)
    with broker_set_ports_ok assms(1,3) show ?thesis by blast
  next
    case (4 ip)
    with broker_unban_ok assms(1,3) show ?thesis by blast
  next
    case (5 ip ports s)
    have "bannable private cfg ip" using 5(1) by (auto simp: broker_ip_def results split: if_splits)
    with broker_ban_ok 5(2) assms(1,3) show ?thesis by blast
  qed
qed (use assms(3) in simp)

lemma dispatch_ok:
  assumes "nft_documented nft" and "dispatch private nft cfg m uid c fw = (fw', r)" and "fw_ok private nft cfg c fw"
  shows "fw_ok private nft cfg c fw'"
proof -
  have "fw' = fw \<or> (\<exists>op d. dispatch_known private nft cfg op d c fw = (fw', r))"
    using assms(2) by (auto simp: dispatch_def split: if_splits pyval.splits option.splits)
  then show ?thesis using dispatch_known_ok [OF assms(1)] assms(3) by blast
qed

section \<open>The broker as a machine\<close>

text \<open>A request is a message, the peer's user and the time it arrives; the clock does not run backwards.\<close>

record 'k broker_run =
  br_clock :: real
  br_fw :: "'k firewall"

definition broker_step ::
  "network list \<Rightarrow> 'k nft \<Rightarrow> broker_config \<Rightarrow> pyval \<times> int \<times> real \<Rightarrow> 'k broker_run \<Rightarrow> 'k broker_run" where
  "broker_step private nft cfg x b =
     (case x of (message, uid, t) \<Rightarrow>
      let now = max (br_clock b) t
      in \<lparr>br_clock = now, br_fw = fst (dispatch private nft cfg message uid now (br_fw b))\<rparr>)"

definition broker_inv :: "network list \<Rightarrow> 'k nft \<Rightarrow> broker_config \<Rightarrow> 'k broker_run \<Rightarrow> bool" where
  "broker_inv private nft cfg b \<longleftrightarrow> nft_documented nft \<and> fw_ok private nft cfg (br_clock b) (br_fw b)"

lemma broker_step_inv: "broker_inv private nft cfg b \<Longrightarrow> broker_inv private nft cfg (broker_step private nft cfg x b)"
proof -
  assume inv: "broker_inv private nft cfg b"
  obtain m uid t where x: "x = (m, uid, t)" by (cases x)
  let ?now = "max (br_clock b) t"
  obtain fw r where d: "dispatch private nft cfg m uid ?now (br_fw b) = (fw, r)" by fastforce
  have "fw_ok private nft cfg ?now (br_fw b)"
    using inv mirrors_later [of nft "br_clock b" "br_fw b" ?now] by (simp add: broker_inv_def fw_ok_def)
  with dispatch_ok [OF _ d] inv show ?thesis by (simp add: broker_inv_def broker_step_def x d Let_def)
qed

interpretation broker_machine: invariant_machine "broker_step private nft cfg" "broker_inv private nft cfg"
  for "private" nft cfg
  by unfold_locales (rule broker_step_inv)

text \<open>A broker that root has configured and that has loaded its table.\<close>

definition booted :: "'k nft \<Rightarrow> broker_config \<Rightarrow> 'k \<Rightarrow> real \<Rightarrow> 'k broker_run" where
  "booted nft cfg k t = \<lparr>br_clock = t, br_fw = fst (load_table nft (new_firewall cfg k))\<rparr>"

lemma broker_config_disjoint:
  assumes "broker_config_of v = Inr cfg"
  shows "22 \<in> set (bc_protected cfg) \<and> set (bc_ports cfg) \<inter> set (bc_protected cfg) = {}"
  using assms by (auto simp: broker_config_of_def results split: pyval.splits if_splits)

lemma booted_inv:
  assumes "nft_documented nft" and "broker_config_of v = Inr cfg" and "ok (snd (load_table nft (new_firewall cfg k)))"
  shows "broker_inv private nft cfg (booted nft cfg k t)"
  using assms broker_config_disjoint [OF assms(2)] nft_documentedD(4) [OF assms(1)]
  by (auto simp: broker_inv_def booted_def load_table_def new_firewall_def fw_ok_def mirrors_def
      approved_def held_simps split: if_splits option.splits)

text \<open>
  C12. Whatever messages arrive from whichever users, the kernel's sets never hold an element for
  a protected management port (port 22 among them), for a source that is not a public unicast
  address or that root exempted, or for a port outside the approved set.
\<close>

theorem firewall_spares_management:
  assumes "nft_documented nft" and "broker_config_of v = Inr cfg" and "ok (snd (load_table nft (new_firewall cfg k)))"
    and "b = run_steps (broker_step private nft cfg) messages (booted nft cfg k t)"
    and "br_clock b \<le> now" and "nf_get nft (fw_kernel (br_fw b)) now (ip, port)"
  shows "port \<notin> set (bc_protected cfg) \<and> port \<noteq> 22 \<and> port \<in> set (fw_ports (br_fw b)) \<and> bannable private cfg ip"
proof -
  have "broker_inv private nft cfg b"
    unfolding assms(4) by (rule broker_machine.run_inv [OF booted_inv [OF assms(1-3)]])
  then have ok: "mirrors nft (br_clock b) (br_fw b)" "approved private cfg (br_fw b)"
    by (simp_all add: broker_inv_def fw_ok_def)
  with assms(5,6) have "held now (fw_leases (br_fw b)) (ip, port)" unfolding mirrors_def by blast
  then have "(ip, port) \<in> fst ` set (fw_leases (br_fw b))"
    by (force simp: held_def dest: map_of_SomeD split: option.splits)
  with ok(2) broker_config_disjoint [OF assms(2)] show ?thesis by (auto simp: approved_def)
qed


section \<open>The unprivileged client\<close>

text \<open>
  \<open>BrokerExecutor\<close>: the port groups it may act on are the limited clients' (a dict by jail name,
  where a later entry replaces an earlier one), and every refusal of the broker reaches the panel
  as a \<open>PolicyError\<close>.
\<close>

definition executor_jails :: "(string \<Rightarrow> string) \<Rightarrow> policy \<Rightarrow> string \<Rightarrow> int list option" where
  "executor_jails sha p jail =
     map_of (rev (map (\<lambda>(e, c). (jail_for sha (cp_ports c), cp_ports c))
                    (filter (\<lambda>(e, c). cp_limit_ip c \<noteq> 0) (po_clients p)))) jail"

definition requested_ports :: "policy \<Rightarrow> int set" where
  "requested_ports p = \<Union> (set ` cp_ports ` {c \<in> snd ` set (po_clients p). cp_limit_ip c \<noteq> 0})"

definition executor_check :: "policy \<Rightarrow> broker_config \<Rightarrow> 'k firewall \<Rightarrow> unit res" where
  "executor_check p cfg fw =
     (if \<not> bc_verified cfg
      then Inl (PolicyError ''Root-owned guard configuration has not verified direct packet sources'')
      else if \<not> requested_ports p \<subseteq> set (fw_ports fw)
      then Inl (PolicyError ''Root approval is missing for data ports'')
      else if bc_max_ban cfg < po_ban p
      then Inl (PolicyError ''Ban duration exceeds the root-owned guard maximum'')
      else Inr ())"

definition client_request ::
  "network list \<Rightarrow> 'k nft \<Rightarrow> broker_config \<Rightarrow> pyval \<Rightarrow> int \<Rightarrow> real \<Rightarrow> ('k firewall, reply) effect" where
  "client_request private nft cfg message uid now fw =
     (case dispatch private nft cfg message uid now fw of
        (fw', Inl e) \<Rightarrow> (fw', Inl (PolicyError (take 400 (take 500 (err_message e)))))
      | (fw', Inr x) \<Rightarrow> (fw', Inr x))"

definition executor_ban ::
  "network list \<Rightarrow> 'k nft \<Rightarrow> broker_config \<Rightarrow> (string \<Rightarrow> string) \<Rightarrow> policy \<Rightarrow> int \<Rightarrow> real
   \<Rightarrow> string \<Rightarrow> string \<Rightarrow> ('k firewall, reply) effect" where
  "executor_ban private nft cfg sha p uid now jail ip fw =
     (case executor_jails sha p jail of
        None \<Rightarrow> (fw, Inl (PolicyError ''Unmanaged data-port group''))
      | Some ports \<Rightarrow>
        if po_ban p \<le> 0 then (fw, Inl (PolicyError ''Invalid ban duration''))
        else case normalize_ip (PStr ip) of
          Inl e \<Rightarrow> (fw, Inl e)
        | Inr ip' \<Rightarrow>
          client_request private nft cfg
            (PDict [(''operation'', PStr ''ban''), (''ip'', PStr ip'), (''ports'', PList (map PInt ports)),
                    (''seconds'', PInt (po_ban p))]) uid now fw)"

definition executor_unban ::
  "network list \<Rightarrow> 'k nft \<Rightarrow> broker_config \<Rightarrow> (string \<Rightarrow> string) \<Rightarrow> policy \<Rightarrow> int \<Rightarrow> real
   \<Rightarrow> string \<Rightarrow> string \<Rightarrow> ('k firewall, reply) effect" where
  "executor_unban private nft cfg sha p uid now jail ip fw =
     (case executor_jails sha p jail of
        None \<Rightarrow> (fw, Inl (PolicyError ''Unmanaged data-port group''))
      | Some _ \<Rightarrow>
        case normalize_ip (PStr ip) of
          Inl e \<Rightarrow> (fw, Inl e)
        | Inr ip' \<Rightarrow>
          client_request private nft cfg (PDict [(''operation'', PStr ''unban''), (''ip'', PStr ip')]) uid now fw)"

text \<open>
  \<open>Guard.observe\<close> with the broker as its executor. The guard calls \<open>ban\<close> in two of its outcomes.
\<close>

definition enforced_observe ::
  "network list \<Rightarrow> 'k nft \<Rightarrow> broker_config \<Rightarrow> (string \<Rightarrow> string) \<Rightarrow> policy \<Rightarrow> int
   \<Rightarrow> string \<Rightarrow> pyval \<Rightarrow> real \<Rightarrow> store \<Rightarrow> ('k firewall, store \<times> decision) effect" where
  "enforced_observe private nft cfg sha p uid email raw now s fw =
     (let call = (\<lambda>jail ip. executor_ban private nft cfg sha p uid now jail ip fw);
          answer = (\<lambda>jail ip. case snd (call jail ip) of Inr _ \<Rightarrow> None | Inl e \<Rightarrow> Some (err_message e))
      in case observe private sha p (Some answer) email raw now s of
           Inl e \<Rightarrow> (fw, Inl e)
         | Inr (s', d) \<Rightarrow>
           (case (d, normalize_ip raw, map_of (po_clients p) email) of
              (Banned till jail, Inr ip, _) \<Rightarrow> (fst (call jail ip), Inr (s', d))
            | (Enforcement_failed m, Inr ip, Some c) \<Rightarrow>
                (fst (call (jail_for sha (cp_ports c)) ip), Inr (s', d))
            | _ \<Rightarrow> (fw, Inr (s', d))))"

lemma observe_banned:
  assumes "observe private sha p executor email raw now s = Inr (s', Banned till jail)"
    and "normalize_ip raw = Inr ip"
  shows "\<exists>c ban. map_of (po_clients p) email = Some c \<and> jail = jail_for sha (cp_ports c) \<and>
    executor = Some ban \<and> ban jail ip = None"
proof -
  obtain c where c: "map_of (po_clients p) email = Some c"
    using assms by (auto simp: observe_def split: if_splits option.splits)
  obtain s1 active violation where lease: "take_lease p email c ip now s = (s1, active, violation)"
    by (cases "take_lease p email c ip now s")
  show ?thesis
    using assms by (auto simp: observe_def c lease Let_def split: if_splits option.splits)
qed

lemma executor_jails_group:
  assumes "executor_jails sha p jail = Some ports"
  shows "\<exists>e c. (e, c) \<in> set (po_clients p) \<and> cp_ports c = ports \<and> jail_for sha ports = jail"
  using map_of_SomeD [OF assms [unfolded executor_jails_def]] by auto

lemma normalized_ports: "normalize_ports (PList (map PInt ps)) = Inr qs \<Longrightarrow> set qs = set ps"
proof -
  have "map_res (\<lambda>v. integer v lo hi) (map PInt ps) = Inr rs \<Longrightarrow> rs = ps" for lo hi rs
    by (induction ps arbitrary: rs) (auto simp: rbind_Inr split: if_splits)
  note same = this [of 1 65535]
  assume "normalize_ports (PList (map PInt ps)) = Inr qs"
  then obtain rs where "map_res (\<lambda>v. integer v 1 65535) (map PInt ps) = Inr rs" "qs = sort (remdups rs)"
    by (auto simp: normalize_ports_def rbind_Inr split: if_splits)
  with same [OF this(1)] show "set qs = set ps" by simp
qed

lemma executor_ban_blocks:
  assumes "nft_documented nft" and "fw_ok private nft cfg c fw"
    and "executor_ban private nft cfg sha p uid c jail ip fw = (fw', Inr x)"
    and "executor_jails sha p jail = Some ports" and "normalize_ip (PStr ip) = Inr ip"
  shows "list_all (\<lambda>q. nf_get nft (fw_kernel fw') c (ip, q)) ports"
proof -
  let ?d = "[(''operation'', PStr ''ban''), (''ip'', PStr ip), (''ports'', PList (map PInt ports)),
             (''seconds'', PInt (po_ban p))]"
  have "dispatch private nft cfg (PDict ?d) uid c fw = (fw', Inr x)"
    using assms(3-5) by (auto simp: executor_ban_def client_request_def split: if_splits prod.splits sum.splits)
  then have known: "dispatch_known private nft cfg ''ban'' ?d c fw = (fw', Inr x)"
    by (auto simp: dispatch_def message_fields_def split: if_splits)
  then have ban: "bannable private cfg ip" "broker_ban nft cfg ip (PList (map PInt ports)) (PInt (po_ban p)) c fw = (fw', Inr x)"
    by (auto simp: dispatch_known_def broker_ip_def assms(5) split: if_splits)
  obtain qs where qs: "normalize_ports (PList (map PInt ports)) = Inr qs" "fw_ok private nft cfg c fw'"
    "list_all (\<lambda>p. held c (fw_leases fw') (ip, p)) qs"
    using broker_ban_ok [OF assms(1) ban(2) assms(2) ban(1)] by auto
  have "nf_get nft (fw_kernel fw') c y = held c (fw_leases fw') y" for y
    using qs(2) unfolding fw_ok_def mirrors_def by blast
  with qs(3) normalized_ports [OF qs(1)] show ?thesis by (simp add: list_all_iff)
qed

lemma enforced_observe_banned:
  assumes "enforced_observe private nft cfg sha p uid email raw now s fw = (fw', Inr (s', Banned till jail))"
    and "normalize_ip raw = Inr ip"
  shows "observe private sha p (Some (\<lambda>jail ip. case snd (executor_ban private nft cfg sha p uid now jail ip fw)
        of Inr _ \<Rightarrow> None | Inl e \<Rightarrow> Some (err_message e))) email raw now s = Inr (s', Banned till jail)"
    and "fw' = fst (executor_ban private nft cfg sha p uid now jail ip fw)"
proof -
  let ?o = "observe private sha p (Some (\<lambda>jail ip. case snd (executor_ban private nft cfg sha p uid now jail ip fw)
        of Inr _ \<Rightarrow> None | Inl e \<Rightarrow> Some (err_message e))) email raw now s"
  note run = assms(1) [unfolded enforced_observe_def Let_def assms(2)]
  obtain s1 d where o1: "?o = Inr (s1, d)"
    using run by (cases ?o) auto
  have "s1 = s' \<and> d = Banned till jail"
    using run unfolding o1 by (cases d) (auto split: option.splits)
  then show "?o = Inr (s', Banned till jail)"
    and "fw' = fst (executor_ban private nft cfg sha p uid now jail ip fw)"
    using run o1 by auto
qed

text \<open>
  When the guard reports that it banned an IPv4 source of a client, the kernel from that
  moment drops the source on every data port of the client; a ban the guard reports is in force.
  The policy's port groups must have distinct jail names (a truncated SHA-256).
\<close>

theorem reported_ban_is_in_force:
  assumes "nft_documented nft" and "fw_ok private nft cfg now fw"
    and "enforced_observe private nft cfg sha p uid email raw now s fw = (fw', Inr (s', Banned till jail))"
    and "normalize_ip raw = Inr (show_v4 n)" and "0 \<le> n" and "n < 2 ^ 32"
    and "map_of (po_clients p) email = Some c"
    and "inj_on (jail_for sha) (cp_ports ` snd ` set (po_clients p))"
  shows "list_all (\<lambda>q. nf_get nft (fw_kernel fw') now (show_v4 n, q)) (cp_ports c)"
proof -
  let ?call = "\<lambda>jail ip. executor_ban private nft cfg sha p uid now jail ip fw"
  let ?answer = "\<lambda>jail ip. case snd (?call jail ip) of Inr _ \<Rightarrow> None | Inl e \<Rightarrow> Some (err_message e)"
  have obs: "observe private sha p (Some ?answer) email raw now s = Inr (s', Banned till jail)"
    and fw': "fw' = fst (?call jail (show_v4 n))"
    by (rule enforced_observe_banned [OF assms(3,4)])+
  have jail: "jail = jail_for sha (cp_ports c)" "?answer jail (show_v4 n) = None"
    using observe_banned [OF obs assms(4)] assms(7) by auto
  obtain x where run: "?call jail (show_v4 n) = (fw', Inr x)"
    using jail(2) fw' by (cases "?call jail (show_v4 n)") (auto split: sum.splits)
  obtain ports where ports: "executor_jails sha p jail = Some ports"
    using run by (auto simp: executor_ban_def split: option.splits)
  obtain e c' where "(e, c') \<in> set (po_clients p)" "cp_ports c' = ports" "jail_for sha ports = jail"
    using executor_jails_group [OF ports] by blast
  moreover have "(email, c) \<in> set (po_clients p)" using assms(7) by (rule map_of_SomeD)
  ultimately have "ports \<in> cp_ports ` snd ` set (po_clients p)" "cp_ports c \<in> cp_ports ` snd ` set (po_clients p)"
    and "jail_for sha ports = jail_for sha (cp_ports c)"
    using jail(1) by (metis image_eqI snd_conv)+
  with inj_onD [OF assms(8)] have same: "ports = cp_ports c" by blast
  have "normalize_ip (PStr (show_v4 n)) = Inr (show_v4 n)"
    using show_v4_canonical [OF assms(5,6)] by (rule conjunct2)
  from executor_ban_blocks [OF assms(1,2) run ports this] show ?thesis unfolding same .
qed

section \<open>Concrete instances\<close>

text \<open>A kernel with one timed set, as nftables documents it.\<close>

definition sample_nft :: "(source \<times> real) list option nft" where
  "sample_nft =
     \<lparr>nf_exists = (\<lambda>k. k \<noteq> None), nf_owned = (\<lambda>k. True), nf_load = (\<lambda>k. Some (Some [])),
      nf_get = (\<lambda>k t x. case k of None \<Rightarrow> False | Some l \<Rightarrow> held t l x),
      nf_delete = (\<lambda>k t x. map_option (\<lambda>l. Some (AList.delete x l)) k),
      nf_add = (\<lambda>k t ip ps s. map_option (\<lambda>l. Some (grant_until (t + of_int s) ip ps l)) k),
      nf_flush = (\<lambda>k. map_option (\<lambda>l. Some []) k)\<rparr>"

lemma sample_nft_documented: "nft_documented sample_nft"
proof -
  have fresh: "\<not> held t' l y" if "\<not> held t l y" "t \<le> t'" for t t' l y
    using that held_later by blast
  show ?thesis
    unfolding nft_documented_def
  proof (intro conjI allI impI)
    fix k t x k' t' y
    assume "nf_delete sample_nft k t x = Some k'"
    then show "nf_get sample_nft k' t' y = (y \<noteq> x \<and> nf_get sample_nft k t' y)"
      by (auto simp: sample_nft_def held_simps)
  next
    fix k t ip ps s k' t' y
    assume add: "nf_add sample_nft k t ip ps s = Some k'"
      and absent: "list_all (\<lambda>p. \<not> nf_get sample_nft k t (ip, p)) ps" and "t \<le> t'"
    obtain l where l: "k = Some l" "k' = Some (grant_until (t + of_int s) ip ps l)"
      using add by (auto simp: sample_nft_def)
    have "\<not> held t' l (ip, p)" if "p \<in> set ps" for p
      using absent that fresh [OF _ \<open>t \<le> t'\<close>] by (auto simp: sample_nft_def l(1) list_all_iff)
    then show "nf_get sample_nft k' t' y =
        (nf_get sample_nft k t' y \<or> fst y = ip \<and> snd y \<in> set ps \<and> t' < t + of_int s)"
      by (cases y) (auto simp: sample_nft_def l held_grant_until)
  qed (auto simp: sample_nft_def held_simps)
qed

definition sample_broker :: broker_config where
  "sample_broker = \<lparr>bc_uid = 1000, bc_ports = [443], bc_protected = [22, 2087, 10085], bc_verified = True,
     bc_max_ban = 3600, bc_exempt = [], bc_updates = False\<rparr>"

lemma sample_broker_loads:
  "broker_config_of (PDict [(''allowed_uid'', PInt 1000), (''allowed_ports'', PList [PInt 443]),
     (''direct_source_verified'', PBool True)]) = Inr sample_broker"
  by (simp add: broker_config_of_def broker_keys_def normalize_ports_def bool_field_def exempt_networks_def
      pyget_or_def sample_broker_def)

lemma sample_boot: "ok (snd (load_table sample_nft (new_firewall sample_broker None)))"
  by (simp add: load_table_def sample_nft_def new_firewall_def)

definition sample_ban :: pyval where
  "sample_ban = PDict [(''operation'', PStr ''ban''), (''ip'', PStr ''8.8.4.4''), (''ports'', PList [PInt 443]),
     (''seconds'', PInt 600)]"

lemma sample_run:
  "br_fw (run_steps (broker_step [] sample_nft sample_broker) [(sample_ban, 1000, 10)]
     (booted sample_nft sample_broker None 0)) =
   \<lparr>fw_ready = True, fw_leases = [((''8.8.4.4'', 443), 610)], fw_ports = [443],
     fw_kernel = Some [((''8.8.4.4'', 443), 610)]\<rparr>"
proof -
  have "normalize_ip (PStr ''8.8.4.4'') = Inr ''8.8.4.4''" "bannable [] sample_broker ''8.8.4.4''" by code_simp+
  then have ip: "broker_ip [] sample_broker (PStr ''8.8.4.4'') = Inr ''8.8.4.4''" by (simp add: broker_ip_def)
  have ports: "normalize_ports (PList [PInt 443]) = Inr [443]" by (simp add: normalize_ports_def)
  show ?thesis
    by (simp add: broker_step_def booted_def load_table_def new_firewall_def dispatch_def sample_ban_def
        message_fields_def keys_are_def dispatch_known_def ip ports broker_ban_def add_ban_def live_def held_def
        Let_def) (simp add: sample_nft_def sample_broker_def broker_ban_def ports add_ban_def live_def held_def insert_commute)
qed

theorem firewall_spares_management_witness:
  "443 \<notin> set (bc_protected sample_broker)"
proof -
  let ?b = "run_steps (broker_step [] sample_nft sample_broker) [(sample_ban, 1000, 10)]
     (booted sample_nft sample_broker None 0)"
  have "br_clock ?b \<le> 20" by (simp add: broker_step_def booted_def Let_def)
  moreover have "nf_get sample_nft (fw_kernel (br_fw ?b)) 20 (''8.8.4.4'', 443)"
    unfolding sample_run by (simp add: sample_nft_def held_def)
  ultimately show ?thesis
    using firewall_spares_management [OF sample_nft_documented sample_broker_loads sample_boot refl] by blast
qed


theorem reported_ban_is_in_force_witness:
  "nf_get sample_nft (fw_kernel (fst (enforced_observe [] sample_nft sample_broker id sample_policy 1000
     ''a@x'' (PStr ''8.8.4.4'') 1010 seen_once (br_fw (booted sample_nft sample_broker None 1010))))) 1010
     (''8.8.4.4'', 443)"
proof -
  let ?fw = "br_fw (booted sample_nft sample_broker None 1010)"
  let ?c = "\<lparr>cp_owner = ''ann'', cp_limit_ip = 1, cp_ports = [443]\<rparr>"
  have fw: "fw_ok [] sample_nft sample_broker 1010 ?fw"
    using booted_inv [OF sample_nft_documented sample_broker_loads sample_boot, of "[]" 1010]
    by (simp add: broker_inv_def booted_def)
  have ip: "normalize_ip (PStr ''8.8.4.4'') = Inr ''8.8.4.4''" "bannable [] sample_broker ''8.8.4.4''"
    "show_v4 134743044 = ''8.8.4.4''" by code_simp+
  have ports: "normalize_ports (PList [PInt 443]) = Inr [443]" by (simp add: normalize_ports_def)
  have pol: "executor_jails id sample_policy (jail_for id [443]) = Some [443]" "po_ban sample_policy = 1800"
    "map_of (po_clients sample_policy) ''a@x'' = Some ?c" "snd ` set (po_clients sample_policy) = {?c}"
    by (simp_all add: executor_jails_def sample_policy_def)
  have "ok (snd (executor_ban [] sample_nft sample_broker id sample_policy 1000 1010 (jail_for id [443]) ''8.8.4.4'' ?fw))"
    by (simp add: executor_ban_def pol ip client_request_def booted_def load_table_def new_firewall_def dispatch_def
        message_fields_def keys_are_def dispatch_known_def broker_ip_def broker_ban_def add_ban_def live_def held_def
        Let_def ports) (simp add: sample_nft_def sample_broker_def insert_commute)
  then have answer: "(case snd (executor_ban [] sample_nft sample_broker id sample_policy 1000 1010 (jail_for id [443])
      ''8.8.4.4'' ?fw) of Inr _ \<Rightarrow> None | Inl e \<Rightarrow> Some (err_message e)) = None"
    by (auto simp: results)
  obtain s' where obs: "observe [] id sample_policy (Some (\<lambda>jail ip. case snd (executor_ban [] sample_nft sample_broker
      id sample_policy 1000 1010 jail ip ?fw) of Inr _ \<Rightarrow> None | Inl e \<Rightarrow> Some (err_message e))) ''a@x''
      (PStr ''8.8.4.4'') 1010 seen_once = Inr (s', Banned 2810 (jail_for id [443]))"
    using sample_violation [of "\<lambda>jail ip. case snd (executor_ban [] sample_nft sample_broker id sample_policy 1000
      1010 jail ip ?fw) of Inr _ \<Rightarrow> None | Inl e \<Rightarrow> Some (err_message e)", OF answer] by blast
  obtain fw' where run: "enforced_observe [] sample_nft sample_broker id sample_policy 1000 ''a@x'' (PStr ''8.8.4.4'')
      1010 seen_once ?fw = (fw', Inr (s', Banned 2810 (jail_for id [443])))"
    by (simp add: enforced_observe_def Let_def obs ip)
  have "normalize_ip (PStr ''8.8.4.4'') = Inr (show_v4 134743044)" by (simp only: ip)
  from reported_ban_is_in_force [OF sample_nft_documented fw run this _ _ pol(3)] pol(4) ip(3) run
  show ?thesis by simp
qed

end
