(* ===== verification/Engine.thy ===== *)
theory Engine
  imports Effects "HOL-Library.Sublist"
begin

text \<open>
  The owner of the Xray child process (backend/core.py, \<open>CoreEngine\<close>): accumulating the traffic
  counters of a process that restarts, applying a configuration with rollback, the core commands
  and the maintenance flush. What the operating system and Xray answer during one operation is
  the record \<open>env\<close>; the configuration built from the database is part of it, and SHA-256 is a
  parameter. Only the state that decides control flow is kept (no version string or CPU sample).
\<close>

section \<open>State\<close>

record core_client =
  cc_email :: string
  cc_body :: pyval
  cc_inbounds :: "int list"
  cc_up :: int
  cc_down :: int

record engine =
  eg_writes :: bool
  eg_child :: "string option"
  eg_alive :: bool
  eg_active :: "string option"
  eg_previous :: "string option"
  eg_applied_hash :: string
  eg_wants :: bool
  eg_samples :: "(string \<times> int \<times> int) list"
  eg_last_stats :: real
  eg_stats_error :: string
  eg_last_error :: string
  eg_last_start :: real
  eg_last_apply :: real
  eg_recoveries :: int
  eg_clients :: "core_client list"

text \<open>
  The answers of the environment during one operation: the built configuration, Xray's verdict
  on it, the statistics query, whether the API port is free, the outcome of the first and of a
  rollback spawn, whether a signalled child really ends, the start guard and the clocks.
\<close>

record env =
  env_config :: "string res"
  env_verdict :: "err option"
  env_stats :: "(string \<times> int) list res"
  env_port_free :: bool
  env_spawn :: bool
  env_respawn :: bool
  env_stops :: bool
  env_guard :: bool
  env_now :: real
  env_mono :: real

definition running :: "engine \<Rightarrow> bool" where
  "running e \<longleftrightarrow> eg_child e \<noteq> None \<and> eg_alive e"

definition check_writes :: "(engine, unit) effect" where
  "check_writes = require_that eg_writes (CoreError ''Local writes disabled'' 409)"

section \<open>Traffic counters\<close>

text \<open>The name of a statistic: \<open>user>>>EMAIL>>>traffic>>>uplink\<close> or \<open>downlink\<close>.\<close>

definition drop_prefix :: "string \<Rightarrow> string \<Rightarrow> string option" where
  "drop_prefix p s = (if prefix p s then Some (drop (length p) s) else None)"

definition drop_suffix :: "string \<Rightarrow> string \<Rightarrow> string option" where
  "drop_suffix p s = (if suffix p s then Some (take (length s - length p) s) else None)"

definition parse_stat :: "string \<Rightarrow> (string \<times> bool) option" where
  "parse_stat name =
     (case drop_prefix ''user>>>'' name of
        None \<Rightarrow> None
      | Some rest \<Rightarrow>
          (case drop_suffix ''>>>traffic>>>uplink'' rest of
             Some email \<Rightarrow> if email \<noteq> [] \<and> CHR 0x0A \<notin> set email then Some (email, True) else None
           | None \<Rightarrow>
             (case drop_suffix ''>>>traffic>>>downlink'' rest of
                Some email \<Rightarrow> if email \<noteq> [] \<and> CHR 0x0A \<notin> set email then Some (email, False) else None
              | None \<Rightarrow> None)))"

definition set_sample :: "string \<Rightarrow> bool \<Rightarrow> int \<Rightarrow> (string \<times> int \<times> int) list \<Rightarrow> (string \<times> int \<times> int) list" where
  "set_sample email up n samples =
     upsert fst (email, if up then (n, 0) else (0, n))
       (\<lambda>(e, u, d). if up then (e, n, d) else (e, u, n)) samples"

fun read_samples :: "(string \<times> int) list \<Rightarrow> (string \<times> int \<times> int) list \<Rightarrow> (string \<times> int \<times> int) list res" where
  "read_samples [] samples = Inr samples"
| "read_samples ((name, n) # rest) samples =
     (case parse_stat name of
        None \<Rightarrow> read_samples rest samples
      | Some (email, up) \<Rightarrow>
          if n < 0 \<or> max_int < n then Inl (CoreError ''Invalid core statistic'' 422)
          else read_samples rest (set_sample email up n samples))"

definition old_sample :: "(string \<times> int \<times> int) list \<Rightarrow> string \<Rightarrow> int \<times> int" where
  "old_sample samples email = (case map_of samples email of None \<Rightarrow> (0, 0) | Some p \<Rightarrow> p)"

text \<open>A reading below its predecessor means that the counter restarted from zero.\<close>

definition delta :: "int \<Rightarrow> int \<Rightarrow> int" where
  "delta old new = (if old \<le> new then new - old else new)"

definition count_sample ::
  "(string \<times> int \<times> int) list \<Rightarrow> string \<times> int \<times> int \<Rightarrow> core_client list \<Rightarrow> core_client list" where
  "count_sample old sample clients =
     (case sample of (email, up, down) \<Rightarrow>
      case old_sample old email of (old_up, old_down) \<Rightarrow>
      modify cc_email email
        (\<lambda>c. c\<lparr>cc_up := cc_up c + delta old_up up, cc_down := cc_down c + delta old_down down\<rparr>) clients)"

definition remember_samples ::
  "(string \<times> int \<times> int) list \<Rightarrow> (string \<times> int \<times> int) list \<Rightarrow> (string \<times> int \<times> int) list" where
  "remember_samples old new = fold (\<lambda>x. upsert fst x (\<lambda>_. x)) new old"

definition collect_stats :: "bool \<Rightarrow> bool \<Rightarrow> env \<Rightarrow> (engine, unit) effect" where
  "collect_stats force strict v e =
     (if \<not> running e then (e, Inr ())
      else if \<not> force \<and> env_mono v - eg_last_stats e < 1 then (e, Inr ())
      else case rbind (env_stats v) (\<lambda>entries. read_samples entries []) of
        Inr samples \<Rightarrow>
          (e\<lparr>eg_clients := fold (count_sample (eg_samples e)) samples (eg_clients e),
             eg_samples := remember_samples (eg_samples e) samples,
             eg_last_stats := env_mono v, eg_stats_error := []\<rparr>, Inr ())
      | Inl ex \<Rightarrow>
          (e\<lparr>eg_stats_error := take 500 (err_message ex)\<rparr>,
           if strict
           then Inl (CoreError (''Cannot safely snapshot traffic before stopping/resetting: '' @
                       take 500 (err_message ex)) 503)
           else Inr ()))"

section \<open>The child process\<close>

definition stop_child :: "env \<Rightarrow> (engine, unit) effect" where
  "stop_child v e =
     (if running e \<and> \<not> env_stops v then (e, Inl (OtherError ''TimeoutExpired''))
      else (e\<lparr>eg_child := None, eg_alive := False\<rparr>, Inr ()))"

text \<open>
  \<open>_spawn\<close> starts a child with the active file; \<open>ready\<close> says whether its API came up. A child
  that exits or is not ready in time is not running when the exception is raised.
\<close>

definition spawn :: "bool \<Rightarrow> env \<Rightarrow> (engine, unit) effect" where
  "spawn ready v e =
     (if \<not> env_guard v
      then (e, Inl (CoreError ''Node is waiting for a valid Hub accounting lease'' 503))
      else
        let e1 = e\<lparr>eg_samples := [], eg_last_stats := 0, eg_child := eg_active e,
                   eg_alive := ready, eg_last_start := env_now v\<rparr>
        in if ready then (e1, Inr ())
           else (e1\<lparr>eg_child := None\<rparr>, Inl (CoreError ''Xray API did not become ready'' 503)))"

definition validate :: "env \<Rightarrow> (engine, unit) effect" where
  "validate v e =
     (case env_config v of
        Inl ex \<Rightarrow> (e, Inl ex)
      | Inr _ \<Rightarrow> (e, case env_verdict v of None \<Rightarrow> Inr () | Some ex \<Rightarrow> Inl ex))"

text \<open>The failure branch of \<open>apply\<close>: restore the previous configuration and process.\<close>

definition roll_back :: "env \<Rightarrow> string option \<Rightarrow> string \<Rightarrow> bool \<Rightarrow> err \<Rightarrow> (engine, unit) effect" where
  "roll_back v old old_hash was ex =
     ebind (stop_child v) (\<lambda>_ e.
     let e1 = (case old of None \<Rightarrow> e | Some t \<Rightarrow> e\<lparr>eg_active := Some t\<rparr>);
         e2 = (if old \<noteq> None \<and> was then fst (spawn (env_respawn v) v e1) else e1);
         message = err_message ex @
           (if old = None then ''; no previous running generation''
            else if \<not> was then ''; no previous running generation''
            else if running e2 then ''; previous process configuration restored''
            else ''; previous configuration written, restart failed'');
         e3 = e2\<lparr>eg_applied_hash := (if running e2 then old_hash else []), eg_last_error := message\<rparr>
     in (e3, Inl (CoreError message 503)))"

definition apply_config :: "(string \<Rightarrow> string) \<Rightarrow> bool \<Rightarrow> bool \<Rightarrow> env \<Rightarrow> (engine, unit) effect" where
  "apply_config sha start force v =
     ebind check_writes (\<lambda>_ e.
     case env_config v of
       Inl ex \<Rightarrow> (e, Inl ex)
     | Inr cfg \<Rightarrow>
       if \<not> force \<and> running e \<and> sha cfg = eg_applied_hash e then (e, Inr ())
       else
       let old = eg_active e; old_hash = eg_applied_hash e; was = running e in
       ebind (validate v) (\<lambda>_.
       ebind (collect_stats True was v) (\<lambda>_.
       ebind (if was then stop_child v
              else require_that (\<lambda>_. env_port_free v)
                     (CoreError ''Core API port already occupied by another process'' 409)) (\<lambda>_.
       ebind (alter (\<lambda>e. e\<lparr>eg_previous := (if old = None then eg_previous e else old),
                           eg_active := Some cfg\<rparr>)) (\<lambda>_.
       ebind (catch (\<lambda>e. if start \<or> was \<or> eg_wants e then spawn (env_spawn v) v e else (e, Inr ()))
                (roll_back v old old_hash was)) (\<lambda>_.
       alter (\<lambda>e. e\<lparr>eg_applied_hash := (if running e then sha cfg else []),
                    eg_last_apply := env_now v, eg_last_error := [], eg_wants := running e\<rparr>)))))) e)"

definition stop_core :: "env \<Rightarrow> (engine, unit) effect" where
  "stop_core v e =
     ebind (collect_stats True (running e) v) (\<lambda>_.
     ebind (alter (\<lambda>e. e\<lparr>eg_wants := False\<rparr>)) (\<lambda>_.
     ebind (stop_child v) (\<lambda>_.
     alter (\<lambda>e. e\<lparr>eg_applied_hash := []\<rparr>)))) e"

definition core_command :: "(string \<Rightarrow> string) \<Rightarrow> string \<Rightarrow> env \<Rightarrow> (engine, unit) effect" where
  "core_command sha action v =
     ebind check_writes (\<lambda>_.
     if action = ''validate'' then validate v
     else if action = ''restart'' then apply_config sha True True v
     else if action = ''start'' \<or> action = ''apply'' then apply_config sha True False v
     else if action = ''stop'' then
       stop_core v
     else raise (CoreError ''Unknown core action'' 404))"

definition flush :: "(string \<Rightarrow> string) \<Rightarrow> env \<Rightarrow> engine \<Rightarrow> engine" where
  "flush sha v e =
     (if \<not> eg_wants e then e
      else
        let crashed = (eg_child e \<noteq> None \<and> \<not> running e) in
        if \<not> running e \<and> env_now v - eg_last_start e < 5 then e
        else case apply_config sha True False v e of
          (e', Inr _) \<Rightarrow> (if crashed \<and> running e' then e'\<lparr>eg_recoveries := eg_recoveries e' + 1\<rparr> else e')
        | (e', Inl ex) \<Rightarrow> e'\<lparr>eg_last_error := take 1500 (err_message ex)\<rparr>)"

definition reset_counters :: "string \<Rightarrow> env \<Rightarrow> (engine, (int \<times> int) option) effect" where
  "reset_counters email v =
     ebind check_writes (\<lambda>_ e.
     ebind (collect_stats True (running e) v) (\<lambda>_ e.
     (e\<lparr>eg_clients := modify cc_email email (\<lambda>c. c\<lparr>cc_up := 0, cc_down := 0\<rparr>) (eg_clients e)\<rparr>,
      Inr (map_option (\<lambda>c. (cc_up c, cc_down c)) (lookup cc_email email (eg_clients e))))) e)"

section \<open>Counting is exact\<close>

lemma lookup_map_of: "map_of xs k = map_option snd (lookup fst k xs)"
  by (induction xs) auto

lemma old_sample_lookup: "old_sample xs k = (case lookup fst k xs of None \<Rightarrow> (0, 0) | Some p \<Rightarrow> snd p)"
  by (simp add: old_sample_def lookup_map_of split: option.splits)

lemma lookup_remember:
  "pk fst new \<Longrightarrow> lookup fst k (remember_samples old new) =
    (case lookup fst k new of None \<Rightarrow> lookup fst k old | Some x \<Rightarrow> Some x)"
proof (induction new arbitrary: old)
  case Nil
  then show ?case by (simp add: remember_samples_def)
next
  case (Cons x new)
  have "lookup fst k (upsert fst x (\<lambda>_. x) old) = (if k = fst x then Some x else lookup fst k old)"
    by (simp add: lookup_upsert split: option.splits)
  moreover have "lookup fst (fst x) new = None"
    using Cons.prems by (auto simp: pk_def lookup_None_iff image_iff)
  ultimately show ?case using Cons by (auto simp: remember_samples_def pk_def split: option.splits)
qed

lemma pk_set_sample: "pk fst (set_sample email up n samples) = pk fst samples"
  by (auto simp: set_sample_def intro!: pk_upsert split: prod.splits)

lemma read_samples_pk:
  "read_samples entries samples = Inr out \<Longrightarrow> pk fst samples \<Longrightarrow> pk fst out"
  by (induction entries samples rule: read_samples.induct)
    (auto simp: pk_set_sample split: option.splits if_splits)

definition sample_nonneg :: "(string \<times> int \<times> int) list \<Rightarrow> bool" where
  "sample_nonneg xs \<longleftrightarrow> (\<forall>(e, u, d) \<in> set xs. 0 \<le> u \<and> 0 \<le> d)"

lemma set_sample_nonneg: "sample_nonneg xs \<Longrightarrow> 0 \<le> n \<Longrightarrow> sample_nonneg (set_sample email up n xs)"
  unfolding sample_nonneg_def set_sample_def
  by (auto dest!: set_upsert split: if_splits prod.splits)

lemma read_samples_nonneg:
  "read_samples entries samples = Inr out \<Longrightarrow> sample_nonneg samples \<Longrightarrow> sample_nonneg out"
  by (induction entries samples rule: read_samples.induct)
    (auto simp: set_sample_nonneg split: option.splits if_splits)

text \<open>The counters of one client after a whole sample.\<close>

definition counted :: "(string \<times> int \<times> int) list \<Rightarrow> (string \<times> int \<times> int) list \<Rightarrow> core_client \<Rightarrow> core_client" where
  "counted old new c =
     (case lookup fst (cc_email c) new of None \<Rightarrow> c
      | Some (_, up, down) \<Rightarrow> c\<lparr>cc_up := cc_up c + delta (fst (old_sample old (cc_email c))) up,
          cc_down := cc_down c + delta (snd (old_sample old (cc_email c))) down\<rparr>)"

lemma fold_count:
  "pk fst new \<Longrightarrow> fold (count_sample old) new clients = map (counted old new) clients"
proof (induction new arbitrary: clients)
  case Nil
  then show ?case by (simp add: counted_def)
next
  case (Cons x new)
  obtain email up down where x: "x = (email, up, down)" by (cases x)
  have fresh: "lookup fst email new = None"
    using Cons.prems by (auto simp: pk_def x lookup_None_iff image_iff)
  have "fold (count_sample old) (x # new) clients = map (counted old new) (count_sample old x clients)"
    using Cons by (simp add: pk_def)
  also have "\<dots> = map (counted old (x # new)) clients"
    using fresh by (auto simp: x count_sample_def modify_def update_where_def counted_def split: prod.splits)
  finally show ?case .
qed

lemma collect_stats_running:
  assumes "running e" and "rbind (env_stats v) (\<lambda>entries. read_samples entries []) = Inr samples"
  shows "collect_stats True strict v e =
    (e\<lparr>eg_clients := map (counted (eg_samples e) samples) (eg_clients e),
       eg_samples := remember_samples (eg_samples e) samples,
       eg_last_stats := env_mono v, eg_stats_error := []\<rparr>, Inr ())"
proof -
  have "pk fst samples" using assms(2) by (auto simp: results pk_def intro: read_samples_pk [unfolded pk_def])
  then show ?thesis using assms by (simp add: collect_stats_def fold_count)
qed

text \<open>
  A successful strict query of a running core counts each client's reading exactly once:
  querying again at the same reading adds nothing, so a retry never inflates usage.
\<close>

theorem repeated_sample_counts_once:
  assumes "collect_stats True True v e = (e1, Inr ())" and "running e"
  shows "eg_clients (fst (collect_stats True True v e1)) = eg_clients e1"
proof -
  obtain samples where query: "rbind (env_stats v) (\<lambda>entries. read_samples entries []) = Inr samples"
    using assms by (auto simp: collect_stats_def split: sum.splits)
  have pk: "pk fst samples"
    using query by (auto simp: results pk_def intro: read_samples_pk [unfolded pk_def])
  have e1: "eg_samples e1 = remember_samples (eg_samples e) samples" "running e1"
    using assms(1) collect_stats_running [OF assms(2) query, of True] assms(2)
    by (auto simp: running_def)
  have "counted (eg_samples e1) samples c = c" for c
    by (cases "lookup fst (cc_email c) samples")
      (auto simp: counted_def e1(1) old_sample_lookup lookup_remember [OF pk] delta_def split: prod.splits)
  then have "map (counted (eg_samples e1) samples) (eg_clients e1) = eg_clients e1"
    by (intro map_idI) simp
  then show ?thesis
    using collect_stats_running [OF e1(2) query, of True] by simp
qed

text \<open>
  A run of queries against one process: \<open>uplinks\<close> are the readings of one client.
\<close>

fun reads :: "string \<Rightarrow> env list \<Rightarrow> int list \<Rightarrow> bool" where
  "reads email [] [] = True"
| "reads email (v # vs) (u # us) =
     ((case rbind (env_stats v) (\<lambda>entries. read_samples entries []) of
        Inr samples \<Rightarrow> (case lookup fst email samples of Some (_, u', _) \<Rightarrow> u' = u | None \<Rightarrow> False)
      | Inl _ \<Rightarrow> False) \<and> reads email vs us)"
| "reads email _ _ = False"

definition collect_all :: "env list \<Rightarrow> engine \<Rightarrow> engine" where
  "collect_all vs e = fold (\<lambda>v e. fst (collect_stats True True v e)) vs e"

definition up_of :: "string \<Rightarrow> engine \<Rightarrow> int" where
  "up_of email e = (case lookup cc_email email (eg_clients e) of None \<Rightarrow> 0 | Some c \<Rightarrow> cc_up c)"

lemma lookup_map_keyed:
  "(\<And>c. key (f c) = key c) \<Longrightarrow> lookup key k (map f t) = map_option f (lookup key k t)"
  by (induction t) auto

lemma lifetime_total:
  assumes "reads email vs us" and "running e" and "lookup cc_email email (eg_clients e) \<noteq> None"
    and "sorted (fst (old_sample (eg_samples e) email) # us)"
  shows "up_of email (collect_all vs e) =
    up_of email e + last (fst (old_sample (eg_samples e) email) # us) - fst (old_sample (eg_samples e) email)"
  using assms
proof (induction email vs us arbitrary: e rule: reads.induct)
  case (1 email)
  then show ?case by (simp add: collect_all_def)
next
  case (2 email v vs u us)
  obtain samples d where query: "rbind (env_stats v) (\<lambda>entries. read_samples entries []) = Inr samples"
    and read: "lookup fst email samples = Some (email, u, d)"
    using 2(2) lookup_Some_mem [of fst email] by (fastforce split: sum.splits option.splits prod.splits)
  let ?e = "fst (collect_stats True True v e)"
  note step = collect_stats_running [OF 2(3) query, of True]
  have pk: "pk fst samples"
    using query by (auto simp: results pk_def intro: read_samples_pk [unfolded pk_def])
  have base: "fst (old_sample (eg_samples ?e) email) = u"
    using read by (simp add: step old_sample_lookup lookup_remember [OF pk])
  have up: "up_of email ?e = up_of email e + (u - fst (old_sample (eg_samples e) email))"
    and known: "lookup cc_email email (eg_clients ?e) \<noteq> None"
    using read 2(4,5) lookup_Some_mem [of cc_email email "eg_clients e"]
    by (auto simp: step up_of_def lookup_map_keyed counted_def delta_def split: option.splits prod.splits)
  have "up_of email (collect_all vs ?e) = up_of email ?e + last (u # us) - u"
    using 2(1) [OF _ _ known] 2(2,3,5) by (simp add: base) (simp add: step running_def)
  then show ?case by (simp add: collect_all_def up)
qed simp_all

text \<open>
  Over one lifetime of the Xray process, however often its cumulative counters are read, a
  client is charged exactly the difference between the last and the first reading: nothing is
  lost between queries and nothing is charged twice.
\<close>

theorem process_lifetime_metered_exactly:
  assumes "reads email vs us" and "running e" and "lookup cc_email email (eg_clients e) \<noteq> None"
    and "sorted (fst (old_sample (eg_samples e) email) # us)"
  shows "up_of email (collect_all vs e) =
    up_of email e + last (fst (old_sample (eg_samples e) email) # us) - fst (old_sample (eg_samples e) email)"
  using assms by (rule lifetime_total)

definition sample_engine :: engine where
  "sample_engine = \<lparr>eg_writes = True, eg_child = Some ''cfg'', eg_alive = True, eg_active = Some ''cfg'',
     eg_previous = None, eg_applied_hash = ''cfg'', eg_wants = True, eg_samples = [], eg_last_stats = 0,
     eg_stats_error = [], eg_last_error = [], eg_last_start = 0, eg_last_apply = 0, eg_recoveries = 0,
     eg_clients = [\<lparr>cc_email = ''a'', cc_body = PDict [], cc_inbounds = [1], cc_up = 10, cc_down = 20\<rparr>]\<rparr>"

definition sample_env :: env where
  "sample_env = \<lparr>env_config = Inr ''new'', env_verdict = None,
     env_stats = Inr [(''user>>>a>>>traffic>>>uplink'', 5), (''user>>>a>>>traffic>>>downlink'', 7)],
     env_port_free = True, env_spawn = False, env_respawn = True, env_stops = True, env_guard = True,
     env_now = 100, env_mono = 100\<rparr>"

lemma sample_collect:
  "collect_stats True True sample_env sample_engine =
   (sample_engine\<lparr>eg_clients := [\<lparr>cc_email = ''a'', cc_body = PDict [], cc_inbounds = [1], cc_up = 15, cc_down = 27\<rparr>],
      eg_samples := [(''a'', 5, 7)], eg_last_stats := 100\<rparr>, Inr ())"
  by (simp add: collect_stats_def sample_engine_def sample_env_def running_def parse_stat_def drop_prefix_def
      drop_suffix_def suffix_def set_sample_def upsert_def has_key_def max_int_val modify_def update_where_def
      count_sample_def old_sample_def delta_def remember_samples_def)


theorem repeated_sample_counts_once_witness:
  "eg_clients (fst (collect_stats True True sample_env (sample_engine
      \<lparr>eg_clients := [\<lparr>cc_email = ''a'', cc_body = PDict [], cc_inbounds = [1], cc_up = 15, cc_down = 27\<rparr>],
       eg_samples := [(''a'', 5, 7)], eg_last_stats := 100\<rparr>))) =
   [\<lparr>cc_email = ''a'', cc_body = PDict [], cc_inbounds = [1], cc_up = 15, cc_down = 27\<rparr>]"
  using repeated_sample_counts_once [OF sample_collect] by (simp add: running_def sample_engine_def)

lemma sample_reads: "reads ''a'' [sample_env, sample_env\<lparr>env_stats := Inr [(''user>>>a>>>traffic>>>uplink'', 9)]\<rparr>] [5, 9]"
  by (simp add: sample_env_def parse_stat_def drop_prefix_def
      drop_suffix_def suffix_def set_sample_def upsert_def has_key_def max_int_val modify_def update_where_def)

theorem process_lifetime_metered_exactly_witness:
  "up_of ''a'' (collect_all [sample_env, sample_env\<lparr>env_stats := Inr [(''user>>>a>>>traffic>>>uplink'', 9)]\<rparr>]
     sample_engine) = 19"
  using process_lifetime_metered_exactly [OF sample_reads, of sample_engine]
  by (simp add: sample_engine_def running_def old_sample_def up_of_def)

section \<open>The running generation\<close>

text \<open>A running child was started with the active file, whose hash is the applied one.\<close>

definition engine_ok :: "(string \<Rightarrow> string) \<Rightarrow> engine \<Rightarrow> bool" where
  "engine_ok sha e \<longleftrightarrow> (running e \<longrightarrow> eg_child e = eg_active e \<and> eg_active e \<noteq> None \<and>
     eg_applied_hash e = sha (the (eg_active e)))"

lemma collect_stats_frame:
  "running (fst (collect_stats force strict v e)) = running e"
  "eg_child (fst (collect_stats force strict v e)) = eg_child e"
  "eg_active (fst (collect_stats force strict v e)) = eg_active e"
  "eg_applied_hash (fst (collect_stats force strict v e)) = eg_applied_hash e"
  "eg_wants (fst (collect_stats force strict v e)) = eg_wants e"
  "eg_writes (fst (collect_stats force strict v e)) = eg_writes e"
  by (simp_all add: collect_stats_def running_def split: sum.splits)

lemma stop_child_result:
  "stop_child v e = (e', r) \<Longrightarrow>
    (r = Inr () \<longrightarrow> \<not> running e') \<and> (ok r \<or> e' = e) \<and> eg_active e' = eg_active e \<and>
    eg_wants e' = eg_wants e \<and> eg_applied_hash e' = eg_applied_hash e \<and> (\<not> running e \<longrightarrow> r = Inr ())"
  by (auto simp: stop_child_def running_def split: if_splits)

lemma spawn_result:
  "spawn ready v e = (e', r) \<Longrightarrow>
    (r = Inr () \<longrightarrow> eg_child e' = eg_active e \<and> eg_alive e') \<and>
    (\<not> ok r \<longrightarrow> \<not> running e' \<or> (\<not> env_guard v \<and> e' = e)) \<and> eg_active e' = eg_active e"
  by (auto simp: spawn_def running_def Let_def split: if_splits)

text \<open>The part of \<open>apply\<close> after the old child is gone and the new file is written.\<close>

definition start_generation ::
  "(string \<Rightarrow> string) \<Rightarrow> bool \<Rightarrow> env \<Rightarrow> string \<Rightarrow> string option \<Rightarrow> string \<Rightarrow> bool \<Rightarrow> (engine, unit) effect" where
  "start_generation sha start v cfg old old_hash was =
     ebind (alter (\<lambda>e. e\<lparr>eg_previous := (if old = None then eg_previous e else old),
                           eg_active := Some cfg\<rparr>)) (\<lambda>_.
     ebind (catch (\<lambda>e. if start \<or> was \<or> eg_wants e then spawn (env_spawn v) v e else (e, Inr ()))
                (roll_back v old old_hash was)) (\<lambda>_.
     alter (\<lambda>e. e\<lparr>eg_applied_hash := (if running e then sha cfg else []),
                    eg_last_apply := env_now v, eg_last_error := [], eg_wants := running e\<rparr>)))"

lemma spawn_cases:
  "spawn ready v e = (if env_guard v \<and> ready
     then (e\<lparr>eg_samples := [], eg_last_stats := 0, eg_child := eg_active e, eg_alive := True,
             eg_last_start := env_now v\<rparr>, Inr ())
     else if env_guard v
     then (e\<lparr>eg_samples := [], eg_last_stats := 0, eg_child := None, eg_alive := False,
             eg_last_start := env_now v\<rparr>, Inl (CoreError ''Xray API did not become ready'' 503))
     else (e, Inl (CoreError ''Node is waiting for a valid Hub accounting lease'' 503)))"
  by (simp add: spawn_def Let_def)

lemma start_generation_result:
  assumes "start_generation sha start v cfg old old_hash was e = (e', r)" and "\<not> running e"
    and "was \<Longrightarrow> old \<noteq> None \<and> old_hash = sha (the old)"
  shows "engine_ok sha e'"
    and "r = Inr () \<Longrightarrow> eg_active e' = Some cfg \<and> (start \<longrightarrow> running e')"
    and "\<not> ok r \<Longrightarrow> was \<Longrightarrow> env_guard v \<Longrightarrow> env_respawn v \<Longrightarrow>
      running e' \<and> eg_active e' = old \<and> eg_child e' = old \<and> eg_applied_hash e' = old_hash"
  using assms
  by (auto simp: start_generation_def effects spawn_cases roll_back_def stop_child_def running_def
      engine_ok_def Let_def split: if_splits option.splits)

definition prepare :: "env \<Rightarrow> (engine, unit) effect" where
  "prepare v e =
     ebind (validate v) (\<lambda>_.
     ebind (collect_stats True (running e) v) (\<lambda>_.
     if running e then stop_child v
     else require_that (\<lambda>_. env_port_free v)
            (CoreError ''Core API port already occupied by another process'' 409))) e"

lemma ebind_assoc: "ebind (ebind m f) g = ebind m (\<lambda>x. ebind (f x) g)"
  by (rule ext) (simp split: prod.splits sum.splits)

lemma apply_config_unfold:
  "apply_config sha start force v =
     ebind check_writes (\<lambda>_ e.
     case env_config v of
       Inl ex \<Rightarrow> (e, Inl ex)
     | Inr cfg \<Rightarrow>
       if \<not> force \<and> running e \<and> sha cfg = eg_applied_hash e then (e, Inr ())
       else ebind (prepare v)
         (\<lambda>_. start_generation sha start v cfg (eg_active e) (eg_applied_hash e) (running e)) e)"
proof -
  have "ebind (prepare v) g e = ebind (validate v) (\<lambda>_.
      ebind (collect_stats True (running e) v) (\<lambda>_.
      ebind (if running e then stop_child v
             else require_that (\<lambda>_. env_port_free v)
                    (CoreError ''Core API port already occupied by another process'' 409)) g)) e"
    for e and g :: "unit \<Rightarrow> (engine, unit) effect"
  proof -
    have "ebind (prepare v) g e = ebind (ebind (validate v) (\<lambda>_.
      ebind (collect_stats True (running e) v) (\<lambda>_.
      if running e then stop_child v
      else require_that (\<lambda>_. env_port_free v)
             (CoreError ''Core API port already occupied by another process'' 409)))) g e"
      by (simp add: prepare_def)
    then show ?thesis by (simp only: ebind_assoc)
  qed
  then show ?thesis by (simp only: apply_config_def start_generation_def Let_def)
qed

definition same_process :: "engine \<Rightarrow> engine \<Rightarrow> bool" where
  "same_process e e' \<longleftrightarrow> eg_child e' = eg_child e \<and> eg_alive e' = eg_alive e \<and>
     eg_active e' = eg_active e \<and> eg_applied_hash e' = eg_applied_hash e \<and> eg_wants e' = eg_wants e"

lemma same_process_refl [simp]: "same_process e e" by (simp add: same_process_def)

lemma same_process_running: "same_process e e' \<Longrightarrow> running e' = running e"
  by (simp add: same_process_def running_def)

lemma same_process_ok: "same_process e e' \<Longrightarrow> engine_ok sha e \<Longrightarrow> engine_ok sha e'"
  by (simp add: same_process_def running_def engine_ok_def)

lemma collect_stats_same: "same_process e (fst (collect_stats force strict v e))"
  by (simp add: same_process_def collect_stats_def split: sum.splits)

lemma prepare_result:
  assumes "prepare v e = (e1, r)"
  shows "(\<not> ok r \<longrightarrow> same_process e e1) \<and> (r = Inr () \<longrightarrow> \<not> running e1)"
proof -
  obtain e2 r2 where c: "collect_stats True (running e) v e = (e2, r2)"
    by (cases "collect_stats True (running e) v e")
  have same: "same_process e e2" using collect_stats_same [of e True "running e" v] by (simp add: c)
  note run = same_process_running [OF same]
  have "(case validate v e of (_, Inl ex) \<Rightarrow> (e, Inl ex) | (_, Inr _) \<Rightarrow>
      (case r2 of Inl ex \<Rightarrow> (e2, Inl ex) | Inr _ \<Rightarrow>
        if running e then stop_child v e2
        else require_that (\<lambda>_. env_port_free v)
            (CoreError ''Core API port already occupied by another process'' 409) e2)) = (e1, r)"
    using assms by (auto simp: prepare_def c validate_def split: sum.splits option.splits prod.splits)
  moreover have "\<not> ok r' \<longrightarrow> same_process e e'" "r' = Inr () \<longrightarrow> \<not> running e'"
    if "stop_child v e2 = (e', r')" for e' r'
    using stop_child_result [OF that] same by auto
  ultimately show ?thesis using same run
    by (auto simp: require_that_def split: prod.splits sum.splits if_splits)
qed

text \<open>How far \<open>apply\<close> got: it stopped before touching the generation, or it started a new one.\<close>

lemma apply_config_cases:
  assumes "apply_config sha start force v e = (e', r)"
  shows "(\<not> ok r \<and> same_process e e') \<or>
    (r = Inr () \<and> e' = e \<and> running e \<and> (\<exists>cfg. env_config v = Inr cfg \<and> sha cfg = eg_applied_hash e)) \<or>
    (\<exists>cfg e1. env_config v = Inr cfg \<and> \<not> running e1 \<and>
      start_generation sha start v cfg (eg_active e) (eg_applied_hash e) (running e) e1 = (e', r))"
proof (cases "eg_writes e \<and> ok (env_config v)")
  case False
  with assms show ?thesis
    by (cases "eg_writes e"; cases "env_config v")
      (auto simp: apply_config_unfold check_writes_def require_that_def)
next
  case True
  then obtain cfg where cfg: "env_config v = Inr cfg" by (cases "env_config v") auto
  obtain e1 r1 where p: "prepare v e = (e1, r1)" by (cases "prepare v e")
  note prep = prepare_result [OF p]
  show ?thesis
    using assms True prep
    by (cases r1) (auto simp: apply_config_unfold check_writes_def require_that_def cfg p split: if_splits)
qed

lemma apply_config_ok:
  assumes "engine_ok sha e"
  shows "engine_ok sha (fst (apply_config sha start force v e))"
proof -
  obtain e' r where run: "apply_config sha start force v e = (e', r)"
    by (cases "apply_config sha start force v e")
  have "running e \<Longrightarrow> eg_active e \<noteq> None \<and> eg_applied_hash e = sha (the (eg_active e))"
    using assms by (simp add: engine_ok_def)
  with apply_config_cases [OF run] assms show ?thesis
    by (auto simp: run intro: same_process_ok start_generation_result(1))
qed

text \<open>
  C10. However an \<open>apply\<close> fails (rejected configuration, statistics that cannot be saved, a child
  that will not stop or start), a core that was running before it is running afterwards with the
  same configuration and hash, provided the previous configuration can start again.
\<close>

theorem failed_apply_keeps_generation:
  assumes "apply_config sha start force v e = (e', Inl ex)" and "engine_ok sha e" and "running e"
    and "env_guard v" and "env_respawn v"
  shows "running e' \<and> eg_active e' = eg_active e \<and> eg_child e' = eg_child e \<and>
    eg_applied_hash e' = eg_applied_hash e"
proof -
  have old: "eg_active e \<noteq> None \<and> eg_applied_hash e = sha (the (eg_active e))" "eg_child e = eg_active e"
    using assms(2,3) by (simp_all add: engine_ok_def)
  from apply_config_cases [OF assms(1)] show ?thesis
  proof (elim disjE)
    assume "\<not> ok (Inl ex :: unit res) \<and> same_process e e'"
    then show ?thesis using assms(3) same_process_running [of e e'] by (simp add: same_process_def)
  next
    assume "\<exists>cfg e1. env_config v = Inr cfg \<and> \<not> running e1 \<and>
      start_generation sha start v cfg (eg_active e) (eg_applied_hash e) (running e) e1 = (e', Inl ex)"
    then obtain cfg e1 where g: "\<not> running e1"
      "start_generation sha start v cfg (eg_active e) (eg_applied_hash e) (running e) e1 = (e', Inl ex)"
      by blast
    from start_generation_result(3) [OF g(2,1)] old assms show ?thesis by simp
  qed simp
qed

datatype engine_op =
    Op_command string env
  | Op_flush env
  | Op_collect bool bool env
  | Op_reset string env
  | Op_crash

definition engine_step :: "(string \<Rightarrow> string) \<Rightarrow> engine_op \<Rightarrow> engine \<Rightarrow> engine" where
  "engine_step sha x e =
     (case x of
        Op_command a v \<Rightarrow> fst (core_command sha a v e)
      | Op_flush v \<Rightarrow> flush sha v e
      | Op_collect force strict v \<Rightarrow> fst (collect_stats force strict v e)
      | Op_reset email v \<Rightarrow> fst (reset_counters email v e)
      | Op_crash \<Rightarrow> e\<lparr>eg_alive := False\<rparr>)"

lemma stop_child_ok: "engine_ok sha e \<Longrightarrow> engine_ok sha (fst (stop_child v e))"
  by (auto simp: stop_child_def engine_ok_def running_def)

lemma collect_stats_ok: "engine_ok sha e \<Longrightarrow> engine_ok sha (fst (collect_stats force strict v e))"
  by (rule same_process_ok [OF collect_stats_same])

lemma stop_core_result:
  assumes "stop_core v e = (e', r)"
  shows "(r = Inr () \<longrightarrow> \<not> running e' \<and> \<not> eg_wants e') \<and>
    (\<not> ok r \<longrightarrow> running e' = running e \<and> eg_child e' = eg_child e \<and> eg_active e' = eg_active e \<and>
       eg_applied_hash e' = eg_applied_hash e)"
proof -
  obtain e1 r1 where c: "collect_stats True (running e) v e = (e1, r1)"
    by (cases "collect_stats True (running e) v e")
  have same: "same_process e e1" using collect_stats_same [of e True "running e" v] by (simp add: c)
  have "(case r1 of Inl ex \<Rightarrow> (e1, Inl ex) | Inr _ \<Rightarrow>
      (case stop_child v (e1\<lparr>eg_wants := False\<rparr>) of (e2, Inl ex) \<Rightarrow> (e2, Inl ex)
       | (e2, Inr _) \<Rightarrow> (e2\<lparr>eg_applied_hash := []\<rparr>, Inr ()))) = (e', r)"
    using assms by (simp add: stop_core_def c alter_def)
  then show ?thesis
    using same
    by (cases r1) (auto simp: effects stop_child_def same_process_def running_def split: if_splits)
qed

lemma stop_command_ok: "engine_ok sha e \<Longrightarrow> engine_ok sha (fst (stop_core v e))"
  using stop_core_result [of v e]
  by (cases "stop_core v e"; cases "snd (stop_core v e)") (auto simp: engine_ok_def)

lemma core_command_ok:
  assumes "engine_ok sha e"
  shows "engine_ok sha (fst (core_command sha a v e))"
proof (cases "eg_writes e")
  case True
  then show ?thesis
    using assms apply_config_ok [OF assms] stop_command_ok [OF assms, of v]
    by (simp add: core_command_def check_writes_def require_that_def validate_def raise_def
        split: sum.splits)
qed (use assms in \<open>simp add: core_command_def check_writes_def require_that_def\<close>)

lemma flush_ok: "engine_ok sha e \<Longrightarrow> engine_ok sha (flush sha v e)"
  using apply_config_ok [of sha e True False v]
  by (auto simp: flush_def Let_def engine_ok_def running_def split: prod.splits sum.splits)

lemma reset_counters_ok:
  assumes "engine_ok sha e"
  shows "engine_ok sha (fst (reset_counters email v e))"
  using collect_stats_ok [OF assms, of True "running e" v] assms
  by (auto simp: reset_counters_def check_writes_def require_that_def engine_ok_def running_def
      split: prod.splits sum.splits)

interpretation engine_machine: invariant_machine "engine_step sha" "engine_ok sha" for sha
proof
  fix e x assume ok: "engine_ok sha e"
  show "engine_ok sha (engine_step sha x e)"
    using ok core_command_ok flush_ok collect_stats_ok reset_counters_ok
    by (cases x) (simp_all add: engine_step_def, simp add: engine_ok_def running_def)
qed


definition rejecting_env :: env where
  "rejecting_env = sample_env\<lparr>env_verdict := Some (CoreError ''rejected'' 422)\<rparr>"

theorem failed_apply_keeps_generation_witness:
  "running (fst (apply_config id True False rejecting_env sample_engine)) \<and>
   eg_active (fst (apply_config id True False rejecting_env sample_engine)) = Some ''cfg''"
proof -
  have ok: "engine_ok id sample_engine" "running sample_engine" "env_guard rejecting_env" "env_respawn rejecting_env"
    by (simp_all add: engine_ok_def sample_engine_def sample_env_def rejecting_env_def running_def)
  have run: "apply_config id True False rejecting_env sample_engine =
      (sample_engine, Inl (CoreError ''rejected'' 422))"
    by (simp add: apply_config_def check_writes_def effects validate_def rejecting_env_def sample_env_def
        sample_engine_def Let_def)
  have "eg_active sample_engine = Some ''cfg''" by (simp add: sample_engine_def)
  with failed_apply_keeps_generation [OF run ok] show ?thesis by (simp add: run)
qed


end
