(* ===== verification/Lease.thy ===== *)
theory Lease
  imports Engine Address
begin

text \<open>
  The accounting lease of a node Agent (backend/node_runtime.py, \<open>HubLease\<close>,
  \<open>SystemdWatchdog\<close>, \<open>LeaseGuard\<close> and \<open>NodeRuntime.pause_expired_lease\<close>): challenges and
  their acknowledgement by the Hub, the deadline they grant, the keepalives that bound the
  process by that deadline, and the guard that fences Xray. The suspend-aware clock is an
  argument of every operation that reads it; random tokens are arguments too.
\<close>

section \<open>Leases\<close>

definition lease_seconds :: real where "lease_seconds = 60"

definition challenge_seconds :: real where "challenge_seconds = 30"

definition early_fence :: real where "early_fence = 10"

record ack =
  ak_challenge :: string
  ak_revision :: int
  ak_hash :: string
  ak_control :: int

record lease =
  ls_required :: bool
  ls_pending :: "(string \<times> real \<times> int) list"
  ls_deadline :: real
  ls_last_issued :: real
  ls_sequence :: int
  ls_last_sequence :: int
  ls_accepted :: "ack option"
  ls_last_grant_at :: real
  ls_trip_recorded :: bool
  ls_trips :: int
  ls_last_trip :: real
  ls_last_error :: string

definition new_lease :: "bool \<Rightarrow> lease" where
  "new_lease required = \<lparr>ls_required = required, ls_pending = [], ls_deadline = 0,
     ls_last_issued = - 1, ls_sequence = 0, ls_last_sequence = 0, ls_accepted = None,
     ls_last_grant_at = 0, ls_trip_recorded = False, ls_trips = 0, ls_last_trip = 0,
     ls_last_error = []\<rparr>"

text \<open>
  Reopening the durable row after an Agent restart: the requirement is a latch and the trip
  statistics survive, the authority does not.
\<close>

definition reopen_lease :: "bool \<Rightarrow> lease \<Rightarrow> lease" where
  "reopen_lease required l = (new_lease (ls_required l \<or> required))
     \<lparr>ls_trips := ls_trips l, ls_last_trip := ls_last_trip l, ls_last_error := ls_last_error l\<rparr>"

definition lease_allowed :: "real \<Rightarrow> lease \<Rightarrow> bool" where
  "lease_allowed t l \<longleftrightarrow> \<not> ls_required l \<or> t < ls_deadline l"

record lease_report =
  lr_required :: bool
  lr_valid :: bool
  lr_state :: string
  lr_remaining :: real
  lr_trips :: int

definition lease_status :: "real \<Rightarrow> lease \<Rightarrow> lease_report" where
  "lease_status t l =
     (let remaining = max 0 (ls_deadline l - t)
      in \<lparr>lr_required = ls_required l, lr_valid = lease_allowed t l,
          lr_state = (if \<not> ls_required l then ''legacy'' else if 0 < remaining then ''active''
                      else if ls_deadline l \<noteq> 0 then ''expired'' else ''awaiting_hub''),
          lr_remaining = remaining, lr_trips = ls_trips l\<rparr>)"

text \<open>A new challenge drops the expired ones and keeps at most 63 older ones.\<close>

definition issue_challenge :: "string \<Rightarrow> real \<Rightarrow> lease \<Rightarrow> lease" where
  "issue_challenge token now l =
     (let live = filter (\<lambda>(k, issued, n). now - issued \<le> challenge_seconds) (ls_pending l);
          kept = drop (length live - 63) live;
          n = ls_sequence l + 1
      in l\<lparr>ls_sequence := n, ls_pending := upsert fst (token, now, n) (\<lambda>_. (token, now, n)) kept\<rparr>)"

definition lower_hex :: "nat \<Rightarrow> string \<Rightarrow> bool" where
  "lower_hex n s \<longleftrightarrow> length s = n \<and> list_all (\<lambda>c. c \<in> set ''0123456789abcdef'') s"

definition parse_ack :: "pyval \<Rightarrow> ack res" where
  "parse_ack body =
     (case body of
        PDict d \<Rightarrow>
          if \<not> keys_are d [''challenge'', ''revision'', ''hash'', ''controlRevision'']
          then Inl (PolicyError ''Invalid accounting lease acknowledgement'')
          else (case (pyget d ''challenge'', pyget d ''revision'', pyget d ''controlRevision'', pyget d ''hash'') of
             (PStr token, PInt revision, PInt control, PStr hash) \<Rightarrow>
               if lower_hex 64 token \<and> 1 \<le> revision
               then Inr \<lparr>ak_challenge = token, ak_revision = revision, ak_hash = hash, ak_control = control\<rparr>
               else Inl (PolicyError ''Invalid accounting lease identity'')
           | _ \<Rightarrow> Inl (PolicyError ''Invalid accounting lease identity''))
      | _ \<Rightarrow> Inl (PolicyError ''Invalid accounting lease acknowledgement''))"

text \<open>
  \<open>HubLease.renew\<close>; the applied revision, hash and error of the node and its command revision
  are arguments. The result says whether the acknowledgement was a duplicate.
\<close>

definition renew ::
  "pyval \<Rightarrow> int \<Rightarrow> string \<Rightarrow> string \<Rightarrow> int \<Rightarrow> real \<Rightarrow> real \<Rightarrow> (lease, bool) effect" where
  "renew body applied_revision applied_hash last_error control_revision now wall l =
     (case parse_ack body of
        Inl e \<Rightarrow> (l, Inl e)
      | Inr a \<Rightarrow>
        if ak_revision a \<noteq> applied_revision \<or> ak_hash a \<noteq> applied_hash \<or> last_error \<noteq> []
           \<or> ak_control a \<noteq> control_revision
        then (l, Inl (PolicyError ''Accounting lease configuration or control revision changed''))
        else if ls_accepted l \<noteq> None \<and> ak_challenge (the (ls_accepted l)) = ak_challenge a
        then (l, if ls_accepted l = Some a then Inr True
                 else Inl (PolicyError ''Conflicting duplicate accounting acknowledgement''))
        else (case map_of (ls_pending l) (ak_challenge a) of
           None \<Rightarrow> (l, Inl (PolicyError ''Accounting lease challenge is expired, stale or unknown''))
         | Some (issued, n) \<Rightarrow>
           if n \<le> ls_last_sequence l \<or> challenge_seconds < now - issued \<or> now < issued
           then (l, Inl (PolicyError ''Accounting lease challenge is expired, stale or unknown''))
           else (l\<lparr>ls_required := True, ls_deadline := issued + lease_seconds, ls_last_issued := issued,
                   ls_last_sequence := n, ls_last_grant_at := wall, ls_accepted := Some a,
                   ls_trip_recorded := False,
                   ls_pending := filter (\<lambda>(k, i, m). n < m) (ls_pending l)\<rparr>, Inr False)))"

definition record_trip :: "string \<Rightarrow> real \<Rightarrow> lease \<Rightarrow> lease" where
  "record_trip error wall l =
     (if ls_trip_recorded l then l
      else l\<lparr>ls_trips := ls_trips l + 1, ls_last_trip := wall, ls_last_error := take 500 error,
             ls_trip_recorded := True\<rparr>)"

section \<open>The watchdog\<close>

record watchdog =
  wd_enabled :: bool
  wd_seconds :: real

datatype signal = Keepalive int | Trigger

definition timer :: "real \<Rightarrow> int" where
  "timer seconds = max 1 \<lfloor>seconds * 1000000\<rfloor>"

text \<open>\<open>notify(lease=l)\<close> and \<open>notify()\<close>: the keepalive sent, if any.\<close>

definition notify_lease :: "watchdog \<Rightarrow> lease \<Rightarrow> real \<Rightarrow> signal option" where
  "notify_lease w l t =
     (if \<not> wd_enabled w then None
      else if ls_required l
      then (let remaining = ls_deadline l - t in
            if remaining \<le> early_fence then None
            else Some (Keepalive (timer (min (wd_seconds w) (remaining - 1)))))
      else Some (Keepalive (timer (wd_seconds w))))"

definition notify_plain :: "watchdog \<Rightarrow> signal option" where
  "notify_plain w = (if wd_enabled w then Some (Keepalive (timer (wd_seconds w))) else None)"

definition trigger :: "watchdog \<Rightarrow> signal option" where
  "trigger w = (if wd_enabled w then Some Trigger else None)"

section \<open>Fencing Xray\<close>

type_synonym node = "lease \<times> engine"

definition pause_expired_lease :: "real \<Rightarrow> env \<Rightarrow> real \<Rightarrow> real \<Rightarrow> (node, unit) effect" where
  "pause_expired_lease early v now wall n =
     (case n of (l, e) \<Rightarrow>
      if \<not> ls_required l then (n, Inr ())
      else
      let remaining = ls_deadline l - now in
      if 0 < remaining \<and> (early \<le> 0 \<or> early < remaining) then (n, Inr ())
      else
      let e1 = e\<lparr>eg_wants := False\<rparr> in
      if \<not> running e1 then ((l, e1), Inr ())
      else
      let error = (if 0 < remaining
                   then ''Proactive lease safety Stop before expiration; awaiting Hub renewal'' else []);
          (e2, r) = collect_stats True True v e1;
          message = (case r of Inr _ \<Rightarrow> error
            | Inl ex \<Rightarrow> (if error \<noteq> [] then error @ ''; '' else []) @
                ''Final lease-expiry traffic snapshot failed: '' @ err_message ex)
      in (case stop_child v e2 of
            (e3, Inl ex) \<Rightarrow> ((l, e3), Inl ex)
          | (e3, Inr _) \<Rightarrow> ((record_trip message wall l, e3\<lparr>eg_applied_hash := []\<rparr>), Inr ())))"

text \<open>
  One \<open>LeaseGuard.tick\<close>. \<open>tk0\<close> is the reading before the engine lock, when the node was
  \<open>n0\<close>; \<open>n1\<close> is the node when the lock is taken, since a renewal may arrive in between; \<open>tk1\<close>,
  \<open>tk2\<close> and \<open>tk3\<close> are the readings under the lock. \<open>sends\<close> says whether the notification socket
  works. The result is the node, the signals sent and the \<open>last_error\<close> text (without the name of
  an exception's class).
\<close>

record tick =
  tk0 :: real
  tk1 :: real
  tk2 :: real
  tk3 :: real
  tk_wall :: real
  tk_lock :: bool
  tk_sends :: bool

definition near_expiry :: "real \<Rightarrow> node \<Rightarrow> bool" where
  "near_expiry t n \<longleftrightarrow> ls_required (fst n) \<and> lease_allowed t (fst n) \<and> running (snd n) \<and>
     ls_deadline (fst n) - t \<le> early_fence"

text \<open>Sending over a socket that does not work raises, and nothing is sent.\<close>

definition deliver :: "tick \<Rightarrow> signal option \<Rightarrow> signal list res" where
  "deliver k s =
     (case s of None \<Rightarrow> Inr []
      | Some x \<Rightarrow> if tk_sends k then Inr [x] else Inl (OtherError ''OSError''))"

definition sent :: "tick \<Rightarrow> signal option \<Rightarrow> signal list" where
  "sent k s = (case deliver k s of Inr xs \<Rightarrow> xs | Inl _ \<Rightarrow> [])"

definition tick_locked ::
  "watchdog \<Rightarrow> env \<Rightarrow> tick \<Rightarrow> bool \<Rightarrow> bool \<Rightarrow> node \<Rightarrow> node \<times> signal list \<times> string" where
  "tick_locked w v k near fed n1 =
     (let expired = (\<lambda>t n. ls_required (fst n) \<and> \<not> lease_allowed t (fst n));
          (n2, r) = (if expired (tk1 k) n1 then pause_expired_lease 0 v (tk2 k) (tk_wall k) n1
                     else if near \<and> lease_allowed (tk1 k) (fst n1) \<and> running (snd n1)
                     then pause_expired_lease early_fence v (tk2 k) (tk_wall k) n1
                     else (n1, Inr ()));
          failed = (\<lambda>ex. (n2, (if expired (tk3 k) n2 \<and> running (snd n2) then sent k (trigger w) else []),
                          err_message ex))
      in case r of
           Inl ex \<Rightarrow> failed ex
         | Inr _ \<Rightarrow>
           if expired (tk3 k) n2 \<and> running (snd n2)
           then (case deliver k (trigger w) of
                   Inl ex \<Rightarrow> failed ex
                 | Inr xs \<Rightarrow> (n2, xs, ''lease_expired_core_still_running''))
           else (case deliver k (if \<not> running (snd n2) then notify_plain w
                                 else if \<not> fed then notify_lease w (fst n2) (tk3 k) else None) of
                   Inl ex \<Rightarrow> failed ex
                 | Inr xs \<Rightarrow> (n2, xs, [])))"

definition guard_tick ::
  "watchdog \<Rightarrow> env \<Rightarrow> tick \<Rightarrow> node \<Rightarrow> node \<Rightarrow> node \<times> signal list \<times> string" where
  "guard_tick w v k n0 n1 =
     (let near = near_expiry (tk0 k) n0;
          first = (if lease_allowed (tk0 k) (fst n0) \<and> \<not> near
                   then deliver k (notify_lease w (fst n0) (tk0 k)) else Inr [])
      in case first of
           Inl ex \<Rightarrow> (n1, [], err_message ex)
         | Inr xs \<Rightarrow>
           if \<not> tk_lock k
           then (if ls_required (fst n1) \<and> \<not> lease_allowed (tk1 k) (fst n1)
                 then (if running (snd n1)
                       then (n1, xs @ sent k (trigger w), ''lease_expired_engine_busy_core_running'')
                       else (n1, xs @ sent k (notify_plain w), ''lease_expired_engine_busy_core_stopped''))
                 else (n1, xs, ''engine_busy_with_valid_lease''))
           else (case tick_locked w v k near (xs \<noteq> []) n1 of
                   (n2, ys, message) \<Rightarrow> (n2, xs @ ys, message)))"

definition poll_delay :: "real \<Rightarrow> node \<Rightarrow> real" where
  "poll_delay t n =
     (if \<not> ls_required (fst n) \<or> \<not> running (snd n) then 1
      else min 1 (max (1 / 50) ((ls_deadline (fst n) - t - 1) / 4)))"

section \<open>Grants consume challenges\<close>

datatype lease_op =
    Challenge string
  | Renew pyval int string string int real
  | Trip string real

text \<open>The clock never runs backwards: an operation happens at the latest instant seen so far.\<close>

record lease_run =
  lx_clock :: real
  lx_lease :: lease
  lx_grants :: int

definition lease_step :: "lease_op \<times> real \<Rightarrow> lease_run \<Rightarrow> lease_run" where
  "lease_step op x =
     (let now = max (lx_clock x) (snd op) in
      case fst op of
        Challenge token \<Rightarrow> x\<lparr>lx_clock := now, lx_lease := issue_challenge token now (lx_lease x)\<rparr>
      | Renew body revision hash err ctl wall \<Rightarrow>
          (case renew body revision hash err ctl now wall (lx_lease x) of
             (l, r) \<Rightarrow> x\<lparr>lx_clock := now, lx_lease := l,
                         lx_grants := lx_grants x + (if r = Inr False then 1 else 0)\<rparr>)
      | Trip e wall \<Rightarrow> x\<lparr>lx_clock := now, lx_lease := record_trip e wall (lx_lease x)\<rparr>)"

definition pending_ok :: "int \<Rightarrow> int \<Rightarrow> real \<Rightarrow> real \<Rightarrow> (string \<times> real \<times> int) list \<Rightarrow> bool" where
  "pending_ok granted newest issued clock ps \<longleftrightarrow>
     (\<forall>k i n. (k, i, n) \<in> set ps \<longrightarrow> granted < n \<and> n \<le> newest \<and> issued \<le> i \<and> i \<le> clock) \<and>
     (\<forall>k i n k' i' n'. (k, i, n) \<in> set ps \<longrightarrow> (k', i', n') \<in> set ps \<longrightarrow> n < n' \<longrightarrow> i \<le> i')"

definition lease_ok :: "lease_run \<Rightarrow> bool" where
  "lease_ok x \<longleftrightarrow>
     (let l = lx_lease x in
      0 \<le> lx_clock x \<and> 0 \<le> lx_grants x \<and> lx_grants x \<le> ls_last_sequence l \<and>
      ls_last_sequence l \<le> ls_sequence l \<and>
      pending_ok (ls_last_sequence l) (ls_sequence l) (ls_last_issued l) (lx_clock x) (ls_pending l) \<and>
      (ls_deadline l = 0 \<and> ls_last_issued l = - 1 \<or>
       ls_deadline l = ls_last_issued l + lease_seconds \<and> ls_last_issued l \<le> lx_clock x))"

lemma pending_okD:
  assumes "pending_ok g m s c ps" and "(k, i, n) \<in> set ps"
  shows "g < n \<and> n \<le> m \<and> s \<le> i \<and> i \<le> c"
    and "(k', i', n') \<in> set ps \<Longrightarrow> n < n' \<Longrightarrow> i \<le> i'"
  using assms unfolding pending_ok_def by blast+

lemma pending_ok_later: "pending_ok g m s c ps \<Longrightarrow> c \<le> c' \<Longrightarrow> pending_ok g m s c' ps"
  unfolding pending_ok_def by (blast intro: order.trans)

lemma pending_ok_granted:
  assumes "pending_ok g m s c ps" and "(k, i, n) \<in> set ps"
  shows "pending_ok n m i c (filter (\<lambda>(k, i, m). n < m) ps)"
  unfolding pending_ok_def
  using pending_okD(1) [OF assms(1)] pending_okD(2) [OF assms(1)] assms(2)
  by (simp, blast)

lemma pending_ok_issue:
  assumes "pending_ok g m s c ps" and "\<And>p. p \<in> set qs \<Longrightarrow> p = (token, c', m + 1) \<or> p \<in> set ps"
    and "c \<le> c'" and "g \<le> m" and "s \<le> c'"
  shows "pending_ok g (m + 1) s c' qs"
proof -
  have "g < n \<and> n \<le> m + 1 \<and> s \<le> i \<and> i \<le> c'" if "(k, i, n) \<in> set qs" for k i n
    using assms(2) [OF that] pending_okD(1) [OF assms(1), of k i n] assms(3-5) by auto
  moreover have "i \<le> i'" if "(k, i, n) \<in> set qs" "(k', i', n') \<in> set qs" "n < n'" for k i n k' i' n'
    using assms(2) [OF that(1)] assms(2) [OF that(2)] that(3) assms(3)
      pending_okD(1) [OF assms(1), of k i n] pending_okD(1) [OF assms(1), of k' i' n']
      pending_okD(2) [OF assms(1), of k i n k' i' n'] by auto
  ultimately show ?thesis unfolding pending_ok_def by blast
qed

lemma map_of_pendingD: "map_of xs k = Some (i, n) \<Longrightarrow> (k, i, n) \<in> set xs"
  by (rule map_of_SomeD)

lemma renew_granted:
  assumes "renew body revision hash err ctl now wall l = (l', r)"
  shows "(r \<noteq> Inr False \<and> l' = l) \<or>
    (\<exists>a issued n. r = Inr False \<and> parse_ack body = Inr a \<and> ak_revision a = revision \<and> ak_hash a = hash \<and>
       err = [] \<and> ak_control a = ctl \<and>
       (ak_challenge a, issued, n) \<in> set (ls_pending l) \<and> ls_last_sequence l < n \<and>
       now - issued \<le> challenge_seconds \<and> issued \<le> now \<and>
       l' = l\<lparr>ls_required := True, ls_deadline := issued + lease_seconds, ls_last_issued := issued,
                   ls_last_sequence := n, ls_last_grant_at := wall, ls_accepted := Some a,
                   ls_trip_recorded := False,
                   ls_pending := filter (\<lambda>(k, i, m). n < m) (ls_pending l)\<rparr>)"
  using assms
  by (auto simp: renew_def not_le not_less split: sum.splits if_splits option.splits prod.splits dest: map_of_SomeD)

lemma issue_challenge_pending:
  "p \<in> set (ls_pending (issue_challenge token now l)) \<Longrightarrow>
    p = (token, now, ls_sequence l + 1) \<or> p \<in> set (ls_pending l)"
  by (auto simp: issue_challenge_def Let_def dest!: set_upsert in_set_dropD split: if_splits)

lemma lease_step_ok:
  assumes "lease_ok x"
  shows "lease_ok (lease_step op x)"
proof -
  obtain o' seen where op: "op = (o', seen)" by (cases op)
  let ?now = "max (lx_clock x) seen" and ?l = "lx_lease x"
  have inv: "0 \<le> lx_clock x" "0 \<le> lx_grants x" "lx_grants x \<le> ls_last_sequence ?l"
      "ls_last_sequence ?l \<le> ls_sequence ?l"
    and pend: "pending_ok (ls_last_sequence ?l) (ls_sequence ?l) (ls_last_issued ?l) (lx_clock x) (ls_pending ?l)"
    and deadline: "ls_deadline ?l = 0 \<and> ls_last_issued ?l = - 1 \<or>
       ls_deadline ?l = ls_last_issued ?l + lease_seconds \<and> ls_last_issued ?l \<le> lx_clock x"
    using assms by (simp_all add: lease_ok_def Let_def)
  have later: "pending_ok (ls_last_sequence ?l) (ls_sequence ?l) (ls_last_issued ?l) ?now (ls_pending ?l)"
    using pend by (rule pending_ok_later) simp
  show ?thesis
  proof (cases o')
    case (Challenge token)
    let ?l' = "issue_challenge token ?now ?l"
    have same: "ls_last_sequence ?l' = ls_last_sequence ?l" "ls_deadline ?l' = ls_deadline ?l"
        "ls_last_issued ?l' = ls_last_issued ?l" "ls_sequence ?l' = ls_sequence ?l + 1"
      by (simp_all add: issue_challenge_def Let_def)
    have "pending_ok (ls_last_sequence ?l) (ls_sequence ?l + 1) (ls_last_issued ?l) ?now (ls_pending ?l')"
      by (rule pending_ok_issue [OF pend issue_challenge_pending]) (use inv deadline in auto)
    then show ?thesis
      using inv deadline by (auto simp: lease_ok_def lease_step_def op Challenge Let_def same)
  next
    case (Renew body revision hash err ctl wall)
    obtain l' r where renew: "renew body revision hash err ctl ?now wall ?l = (l', r)"
      by (cases "renew body revision hash err ctl ?now wall ?l")
    have step: "lease_step op x = x\<lparr>lx_clock := ?now, lx_lease := l',
        lx_grants := lx_grants x + (if r = Inr False then 1 else 0)\<rparr>"
      by (simp add: lease_step_def op Renew renew Let_def)
    from renew_granted [OF renew] show ?thesis
    proof (elim disjE exE conjE)
      assume "r \<noteq> Inr False" "l' = ?l"
      then show ?thesis using inv later deadline by (auto simp: step lease_ok_def Let_def)
    next
      fix a issued n
      assume g: "r = Inr False" "(ak_challenge a, issued, n) \<in> set (ls_pending ?l)"
          "ls_last_sequence ?l < n" "issued \<le> ?now"
        and l': "l' = ?l\<lparr>ls_required := True, ls_deadline := issued + lease_seconds, ls_last_issued := issued,
                   ls_last_sequence := n, ls_last_grant_at := wall, ls_accepted := Some a,
                   ls_trip_recorded := False,
                   ls_pending := filter (\<lambda>(k, i, m). n < m) (ls_pending ?l)\<rparr>"
      show ?thesis
        using g inv pending_okD(1) [OF later g(2)] pending_ok_granted [OF later g(2)]
        by (auto simp: step lease_ok_def Let_def l')
    qed
  next
    case (Trip e wall)
    show ?thesis using inv later deadline
      by (auto simp: lease_ok_def lease_step_def op Trip Let_def record_trip_def)
  qed
qed

interpretation lease_machine: invariant_machine lease_step lease_ok
  by unfold_locales (rule lease_step_ok)

definition fresh_lease_run :: "bool \<Rightarrow> lease_run" where
  "fresh_lease_run required = \<lparr>lx_clock = 0, lx_lease = new_lease required, lx_grants = 0\<rparr>"

lemma lease_ok_fresh: "lease_ok (fresh_lease_run required)"
  by (simp add: lease_ok_def fresh_lease_run_def new_lease_def pending_ok_def)


section \<open>The operating system's deadline\<close>

text \<open>
  The process deadline that a keepalive programs while a lease is required ends at least one
  second before the lease does: a frozen Agent is killed before its authority runs out.
\<close>

theorem keepalive_inside_lease:
  assumes "notify_lease w l t = Some (Keepalive usec)" and "ls_required l"
  shows "t + of_int usec / 1000000 \<le> ls_deadline l - 1"
proof -
  define r where "r = ls_deadline l - t - 1"
  let ?s = "min (wd_seconds w) r * 1000000"
  have usec: "usec = max 1 \<lfloor>?s\<rfloor>" and "9 < r"
    using assms(1,2) by (auto simp: notify_lease_def Let_def early_fence_def timer_def r_def split: if_splits)
  have "of_int \<lfloor>?s\<rfloor> \<le> ?s" by (rule of_int_floor_le)
  also have "?s \<le> r * 1000000" by (intro mult_right_mono) simp_all
  finally have "of_int \<lfloor>?s\<rfloor> \<le> r * 1000000" .
  moreover have "1 \<le> r * 1000000" using \<open>9 < r\<close> by simp
  ultimately have "of_int usec \<le> r * 1000000" by (simp only: usec of_int_max of_int_1 max.bounded_iff)
  then have "of_int usec / 1000000 \<le> r" by simp
  then show ?thesis by (simp add: r_def)
qed

theorem keepalive_inside_lease_witness:
  "(5::real) + of_int 30000000 / 1000000 \<le> 60 - 1"
proof -
  have "notify_lease \<lparr>wd_enabled = True, wd_seconds = 30\<rparr> (new_lease True\<lparr>ls_deadline := 60\<rparr>) 5 =
      Some (Keepalive 30000000)"
    by (simp add: notify_lease_def new_lease_def early_fence_def timer_def min_def)
  from keepalive_inside_lease [OF this] show ?thesis by (simp add: new_lease_def)
qed

section \<open>The guard fences an expired lease\<close>

lemma tick_locked_fences:
  assumes "tick_locked w v k near fed n1 = (n2, xs, m)" and "wd_enabled w" and "tk_sends k"
    and "ls_required (fst n2)" and "\<not> lease_allowed (tk3 k) (fst n2)" and "running (snd n2)"
  shows "Trigger \<in> set xs"
  using assms
  by (auto simp: tick_locked_def Let_def trigger_def deliver_def sent_def
      split: prod.splits sum.splits if_splits)

text \<open>
  When a guard tick ends with a required lease that has run out while Xray still runs (its
  stop failed, or the engine is busy), the tick has told the operating system to kill the unit:
  customer traffic without a lease is stopped by the tick or by systemd.
\<close>

theorem guard_fences_expired_lease:
  assumes "guard_tick w v k n0 n1 = (n2, signals, message)" and "wd_enabled w" and "tk_sends k"
    and "ls_required (fst n2)" and "\<not> lease_allowed (if tk_lock k then tk3 k else tk1 k) (fst n2)"
    and "running (snd n2)"
  shows "Trigger \<in> set signals"
proof -
  have "\<exists>xs. deliver k g = Inr xs" for g
    using assms(3) by (cases g) (auto simp: deliver_def)
  then have "\<exists>xs. (if lease_allowed (tk0 k) (fst n0) \<and> \<not> near_expiry (tk0 k) n0
      then deliver k (notify_lease w (fst n0) (tk0 k)) else Inr []) = Inr xs"
    by simp
  then obtain xs where first: "(if lease_allowed (tk0 k) (fst n0) \<and> \<not> near_expiry (tk0 k) n0
      then deliver k (notify_lease w (fst n0) (tk0 k)) else Inr []) = Inr xs"
    by blast
  show ?thesis
  proof (cases "tk_lock k")
    case True
    obtain n ys m where locked: "tick_locked w v k (near_expiry (tk0 k) n0) (xs \<noteq> []) n1 = (n, ys, m)"
      by (cases "tick_locked w v k (near_expiry (tk0 k) n0) (xs \<noteq> []) n1")
    have n: "n = n2" "signals = xs @ ys"
      using assms(1) True first locked by (simp_all add: guard_tick_def Let_def)
    have "Trigger \<in> set ys"
      by (rule tick_locked_fences [OF locked assms(2,3)]) (use assms(4-6) True n in simp_all)
    then show ?thesis by (simp add: n)
  next
    case False
    with assms first show ?thesis
      by (auto simp: guard_tick_def Let_def sent_def deliver_def trigger_def split: if_splits)
  qed
qed

text \<open>
  While the Hub keeps the lease more than ten seconds ahead of the clock, a guard tick never
  touches the customer process, the lease or the kill switch.
\<close>

theorem guard_spares_healthy_lease:
  assumes "guard_tick w v k n0 n1 = (n2, signals, message)"
    and "list_all (\<lambda>t. t + 10 < ls_deadline (fst n0) \<and> t + 10 < ls_deadline (fst n1)) [tk0 k, tk1 k, tk2 k, tk3 k]"
  shows "n2 = n1 \<and> Trigger \<notin> set signals"
proof -
  have valid: "lease_allowed t (fst n1)" if "t \<in> {tk1 k, tk3 k}" for t
    using that assms(2) by (auto simp: lease_allowed_def)
  have far: "\<not> near_expiry (tk0 k) n0" and "lease_allowed (tk0 k) (fst n0)"
    using assms(2) by (auto simp: near_expiry_def early_fence_def lease_allowed_def)
  have quiet: "Trigger \<notin> set xs" if "deliver k (notify_lease w l t) = Inr xs" for xs l t
    using that by (auto simp: deliver_def notify_lease_def Let_def split: if_splits)
  have quiet': "Trigger \<notin> set xs" if "deliver k (notify_plain w) = Inr xs" for xs
    using that by (auto simp: deliver_def notify_plain_def split: if_splits)
  have locked: "n2' = n1 \<and> Trigger \<notin> set ys" if "tick_locked w v k False fed n1 = (n2', ys, m)" for n2' ys m fed
    using that valid quiet [of "fst n1" "tk3 k"] quiet'
    by (auto simp: tick_locked_def Let_def deliver_def split: sum.splits if_splits option.splits)
  show ?thesis
  proof (cases "deliver k (notify_lease w (fst n0) (tk0 k))")
    case (Inl ex)
    with assms(1) far \<open>lease_allowed (tk0 k) (fst n0)\<close> show ?thesis by (simp add: guard_tick_def Let_def)
  next
    case (Inr xs)
    obtain n ys m where t: "tick_locked w v k False (xs \<noteq> []) n1 = (n, ys, m)"
      by (cases "tick_locked w v k False (xs \<noteq> []) n1")
    have "Trigger \<notin> set xs" using quiet [OF Inr] .
    with locked [OF t] show ?thesis
      using assms(1) far \<open>lease_allowed (tk0 k) (fst n0)\<close> valid
      by (auto simp: guard_tick_def Let_def Inr t split: if_splits)
  qed
qed

definition sample_node :: "real \<Rightarrow> node" where
  "sample_node d = (new_lease True\<lparr>ls_deadline := d\<rparr>, sample_engine)"

definition sample_tick :: "bool \<Rightarrow> tick" where
  "sample_tick lock = \<lparr>tk0 = 50, tk1 = 50, tk2 = 50, tk3 = 50, tk_wall = 0, tk_lock = lock, tk_sends = True\<rparr>"

theorem guard_fences_expired_lease_witness:
  "Trigger \<in> set (fst (snd (guard_tick \<lparr>wd_enabled = True, wd_seconds = 60\<rparr> sample_env (sample_tick False)
     (sample_node 40) (sample_node 40))))"
proof -
  let ?w = "\<lparr>wd_enabled = True, wd_seconds = 60\<rparr>"
  obtain n2 xs m where run: "guard_tick ?w sample_env (sample_tick False) (sample_node 40) (sample_node 40) = (n2, xs, m)"
    by (cases "guard_tick ?w sample_env (sample_tick False) (sample_node 40) (sample_node 40)")
  have "n2 = sample_node 40"
    using run by (auto simp: guard_tick_def sample_tick_def sample_node_def lease_allowed_def new_lease_def
        near_expiry_def Let_def sample_engine_def running_def)
  then show ?thesis
    using guard_fences_expired_lease [OF run]
    by (simp add: run) (simp add: sample_node_def sample_tick_def new_lease_def lease_allowed_def
        sample_engine_def running_def)
qed

theorem guard_spares_healthy_lease_witness:
  "fst (guard_tick \<lparr>wd_enabled = True, wd_seconds = 60\<rparr> sample_env (sample_tick True)
     (sample_node 100) (sample_node 100)) = sample_node 100"
proof -
  let ?w = "\<lparr>wd_enabled = True, wd_seconds = 60\<rparr>"
  obtain n2 xs m where run: "guard_tick ?w sample_env (sample_tick True) (sample_node 100) (sample_node 100) = (n2, xs, m)"
    by (cases "guard_tick ?w sample_env (sample_tick True) (sample_node 100) (sample_node 100)")
  show ?thesis
    using guard_spares_healthy_lease [OF run] by (simp add: run) (simp add: sample_node_def sample_tick_def new_lease_def)
qed

end
