(* ===== verification/Agent_Control.thy ===== *)
theory Agent_Control
  imports Lease
begin

text \<open>
  Ordered control of a node Agent (backend/node_runtime.py, \<open>control_status\<close> to
  \<open>reconcile_control\<close>, and backend/node_recovery_protocol.py): the durable run intent, the
  receipt of the newest Hub command and the conditional Stop of a recovery. The lease clock
  \<open>t\<close> and the wall clock inside \<open>env\<close> are arguments; one engine lock is held per operation.
\<close>

section \<open>State\<close>

datatype phase = Pending | Applied | Failed

record receipt =
  rc_revision :: int
  rc_identity :: string
  rc_action :: string
  rc_phase :: phase
  rc_error :: string

record applied_state =
  as_revision :: int
  as_hash :: string
  as_error :: string

record agent =
  ag_scope :: string
  ag_installation :: string
  ag_autostart :: bool
  ag_engine :: engine
  ag_lease :: lease
  ag_control :: "(bool \<times> bool) option"
  ag_receipt :: "receipt option"
  ag_applied :: "applied_state option"

definition lease_open :: "real \<Rightarrow> agent \<Rightarrow> bool" where
  "lease_open t a \<longleftrightarrow> lease_allowed t (ag_lease a) \<and> \<not> ls_trip_recorded (ag_lease a)"

record control_report =
  ct_desired :: bool
  ct_manual_stop :: bool
  ct_effective :: bool
  ct_persisted :: bool

definition control_status :: "real \<Rightarrow> agent \<Rightarrow> control_report" where
  "control_status t a =
     (let desired = (case ag_control a of Some (d, _) \<Rightarrow> d | None \<Rightarrow> ag_autostart a);
          paused = (case ag_control a of Some (_, p) \<Rightarrow> p | None \<Rightarrow> False)
      in \<lparr>ct_desired = desired, ct_manual_stop = paused,
          ct_effective = desired \<and> \<not> paused \<and> lease_open t a, ct_persisted = (ag_control a \<noteq> None)\<rparr>)"

definition write_control :: "bool \<Rightarrow> bool \<Rightarrow> agent \<Rightarrow> agent" where
  "write_control desired paused a = a\<lparr>ag_control := Some (desired, paused)\<rparr>"

definition set_wants :: "bool \<Rightarrow> agent \<Rightarrow> agent" where
  "set_wants b a = a\<lparr>ag_engine := (ag_engine a)\<lparr>eg_wants := b\<rparr>\<rparr>"

text \<open>The engine asks \<open>start_guard\<close> before every spawn.\<close>

definition guarded :: "real \<Rightarrow> agent \<Rightarrow> env \<Rightarrow> env" where
  "guarded t a v = v\<lparr>env_guard := lease_open t a\<rparr>"

definition on_engine :: "(engine, 'x) effect \<Rightarrow> (agent, 'x) effect" where
  "on_engine = on_part ag_engine (\<lambda>e a. a\<lparr>ag_engine := e\<rparr>)"

definition core_state :: "agent \<Rightarrow> string" where
  "core_state a = (if running (ag_engine a) then ''running'' else ''stopped'')"

section \<open>Commands\<close>

definition start_core :: "(string \<Rightarrow> string) \<Rightarrow> string \<Rightarrow> real \<Rightarrow> env \<Rightarrow> (agent, unit) effect" where
  "start_core sha action t v a =
     (let previous = control_status t a in
      if \<not> lease_open t a
      then (a, Inl (CoreError ''Waiting for Hub accounting lease before Start/Restart'' 503))
      else catch (on_engine (core_command sha action (guarded t a v)))
             (\<lambda>ex a'. (set_wants (ct_effective previous)
                        (write_control (ct_desired previous) (ct_manual_stop previous) a'), Inl ex))
             (write_control True False a))"

definition command_locked :: "(string \<Rightarrow> string) \<Rightarrow> string \<Rightarrow> real \<Rightarrow> env \<Rightarrow> (agent, unit) effect" where
  "command_locked sha action t v a =
     (if action = ''validate'' then on_engine (core_command sha action (guarded t a v)) a
      else if action \<notin> {''start'', ''restart'', ''stop''}
      then (a, Inl (PolicyError ''Unsupported Node core action''))
      else if \<not> eg_writes (ag_engine a) then (a, Inl (CoreError ''Local writes disabled'' 409))
      else if action = ''stop''
      then on_engine (core_command sha ''stop'' (guarded t a v))
             (set_wants False (write_control (ct_desired (control_status t a)) True a))
      else start_core sha action t v a)"

record ordered =
  od_revision :: int
  od_identity :: string
  od_action :: string

definition parse_ordered :: "string \<Rightarrow> pyval \<Rightarrow> ordered res" where
  "parse_ordered scope body =
     (case body of
        PDict d \<Rightarrow>
          if \<not> keys_are d [''nodeId'', ''revision'', ''commandId'', ''action'']
          then Inl (PolicyError ''Invalid ordered Node command envelope'')
          else if pyget d ''nodeId'' \<noteq> PStr scope
          then Inl (PolicyError ''Command targets a different Node'')
          else (case pyget d ''revision'' of
             PInt revision \<Rightarrow>
               if \<not> (0 < revision \<and> revision < 2 ^ 63) then Inl (PolicyError ''Invalid command revision'')
               else (case pyget d ''commandId'' of
                  PStr identity \<Rightarrow>
                    if \<not> lower_hex 32 identity then Inl (PolicyError ''Invalid command identity'')
                    else (case pyget d ''action'' of
                       PStr action \<Rightarrow>
                         if action \<notin> {''start'', ''stop'', ''restart''}
                         then Inl (PolicyError ''Unsupported ordered Node action'')
                         else Inr \<lparr>od_revision = revision, od_identity = identity, od_action = action\<rparr>
                     | _ \<Rightarrow> Inl (PolicyError ''Unsupported ordered Node action''))
                | _ \<Rightarrow> Inl (PolicyError ''Invalid command identity''))
           | _ \<Rightarrow> Inl (PolicyError ''Invalid command revision''))
      | _ \<Rightarrow> Inl (PolicyError ''Invalid ordered Node command envelope''))"

record command_ack =
  ca_revision :: int
  ca_identity :: string
  ca_action :: string
  ca_applied :: bool
  ca_duplicate :: bool

definition expected_state :: "string \<Rightarrow> string" where
  "expected_state action = (if action = ''stop'' then ''stopped'' else ''running'')"

definition command_ack :: "receipt \<Rightarrow> bool \<Rightarrow> agent \<Rightarrow> command_ack" where
  "command_ack r duplicate a =
     \<lparr>ca_revision = rc_revision r, ca_identity = rc_identity r, ca_action = rc_action r,
      ca_applied = (rc_phase r = Applied \<and> core_state a = expected_state (rc_action r)),
      ca_duplicate = duplicate\<rparr>"

text \<open>The decision on a command against the newest receipt: refuse, repeat the answer, or run it.\<close>

datatype verdict = Refuse err | Repeat receipt | Run

definition fence :: "receipt option \<Rightarrow> ordered \<Rightarrow> verdict" where
  "fence previous o' =
     (case previous of
        None \<Rightarrow> Run
      | Some p \<Rightarrow>
          if od_revision o' < rc_revision p
          then Refuse (CoreError ''Refusing stale Node command revision'' 409)
          else if od_revision o' = rc_revision p
          then (if od_identity o' \<noteq> rc_identity p \<or> od_action o' \<noteq> rc_action p
                then Refuse (CoreError ''Command revision belongs to a different identity/action'' 409)
                else if rc_phase p = Applied then Repeat p else Run)
          else if od_identity o' = rc_identity p
          then Refuse (CoreError ''Command identity already belongs to a different revision'' 409)
          else Run)"

definition mark_receipt :: "ordered \<Rightarrow> phase \<Rightarrow> string \<Rightarrow> agent \<Rightarrow> agent" where
  "mark_receipt o' ph message a =
     a\<lparr>ag_receipt := Some \<lparr>rc_revision = od_revision o', rc_identity = od_identity o',
        rc_action = od_action o', rc_phase = ph, rc_error = message\<rparr>\<rparr>"

definition run_ordered :: "(string \<Rightarrow> string) \<Rightarrow> ordered \<Rightarrow> real \<Rightarrow> env \<Rightarrow> (agent, unit) effect" where
  "run_ordered sha o' t v a =
     (case (case command_locked sha (od_action o') t v a of
              (a', Inl ex) \<Rightarrow> (a', Inl ex)
            | (a', Inr _) \<Rightarrow> (a', if core_state a' \<noteq> expected_state (od_action o')
                  then Inl (CoreError ''Xray did not reach the commanded state'' 503) else Inr ())) of
        (a', Inr _) \<Rightarrow> (mark_receipt o' Applied [] a', Inr ())
      | (a', Inl ex) \<Rightarrow> (mark_receipt o' Failed (take 500 (err_message ex)) a', Inl ex))"

definition ordered_command ::
  "(string \<Rightarrow> string) \<Rightarrow> pyval \<Rightarrow> real \<Rightarrow> env \<Rightarrow> (agent, command_ack) effect" where
  "ordered_command sha body t v a =
     (case parse_ordered (ag_scope a) body of
        Inl ex \<Rightarrow> (a, Inl ex)
      | Inr o' \<Rightarrow>
        if \<not> eg_writes (ag_engine a) then (a, Inl (CoreError ''Local writes disabled'' 409))
        else (case fence (ag_receipt a) o' of
           Refuse ex \<Rightarrow> (a, Inl ex)
         | Repeat p \<Rightarrow> (a, Inr (command_ack p True a))
         | Run \<Rightarrow>
             (case run_ordered sha o' t v (mark_receipt o' Pending [] a) of
                (a', Inl ex) \<Rightarrow> (a', Inl ex)
              | (a', Inr _) \<Rightarrow> (a', Inr (command_ack (the (ag_receipt a')) False a')))))"

definition unordered_command :: "(string \<Rightarrow> string) \<Rightarrow> string \<Rightarrow> real \<Rightarrow> env \<Rightarrow> (agent, unit) effect" where
  "unordered_command sha action t v a =
     (if action \<noteq> ''validate'' \<and> ag_receipt a \<noteq> None
      then (a, Inl (CoreError ''Ordered Node control is active; use /node/api/v1/control'' 409))
      else command_locked sha action t v a)"

section \<open>Reconciliation\<close>

definition pause_lease :: "real \<Rightarrow> env \<Rightarrow> real \<Rightarrow> real \<Rightarrow> (agent, unit) effect" where
  "pause_lease early v now wall =
     on_part (\<lambda>a. (ag_lease a, ag_engine a)) (\<lambda>(l, e) a. a\<lparr>ag_lease := l, ag_engine := e\<rparr>)
       (pause_expired_lease early v now wall)"

definition reconcile_control :: "(string \<Rightarrow> string) \<Rightarrow> real \<Rightarrow> env \<Rightarrow> (agent, bool) effect" where
  "reconcile_control sha t v a =
     (let wanted = ct_effective (control_status t a);
          a1 = set_wants wanted a
      in ebind (if ls_required (ag_lease a) \<and> \<not> lease_allowed t (ag_lease a)
                then pause_lease 0 v t (env_now v)
                else if \<not> wanted \<and> running (ag_engine a1)
                then on_engine (core_command sha ''stop'' (guarded t a v))
                else return ())
           (\<lambda>_. return wanted) a1)"

section \<open>Recovery\<close>

record checkpoint =
  ck_command_revision :: int
  ck_command_id :: string
  ck_action :: string
  ck_config_revision :: int
  ck_config_hash :: string

definition checkpoint_valid :: "checkpoint \<Rightarrow> bool" where
  "checkpoint_valid c \<longleftrightarrow>
     0 \<le> ck_command_revision c \<and> ck_command_revision c \<le> max_int \<and>
     0 \<le> ck_config_revision c \<and> ck_config_revision c \<le> max_int \<and>
     (if ck_command_revision c = 0 then ck_command_id c = [] \<and> ck_action c = []
      else lower_hex 32 (ck_command_id c) \<and> ck_action c \<in> {''start'', ''stop'', ''restart''}) \<and>
     (if ck_config_revision c = 0 then ck_config_hash c = [] else lower_hex 64 (ck_config_hash c))"

definition validate_checkpoint :: "pyval \<Rightarrow> checkpoint res" where
  "validate_checkpoint v =
     (let bad = Inl (PolicyError ''invalid_recovery_checkpoint'') in
      case v of
        PDict d \<Rightarrow>
          if \<not> keys_are d [''command'', ''configuration''] then bad
          else (case (pyget d ''command'', pyget d ''configuration'') of
            (PDict c, PDict g) \<Rightarrow>
              if keys_are c [''revision'', ''commandId'', ''action''] \<and> keys_are g [''revision'', ''hash'']
              then (case (pyget c ''revision'', pyget c ''commandId'', pyget c ''action'',
                          pyget g ''revision'', pyget g ''hash'') of
                (PInt n, PStr i, PStr x, PInt m, PStr h) \<Rightarrow>
                  let k = \<lparr>ck_command_revision = n, ck_command_id = i, ck_action = x,
                           ck_config_revision = m, ck_config_hash = h\<rparr>
                  in if checkpoint_valid k then Inr k else bad
              | _ \<Rightarrow> bad)
              else bad
          | _ \<Rightarrow> bad)
      | _ \<Rightarrow> bad)"

definition checkpoint_of :: "agent \<Rightarrow> checkpoint res" where
  "checkpoint_of a =
     (let k = \<lparr>ck_command_revision = (case ag_receipt a of None \<Rightarrow> 0 | Some r \<Rightarrow> rc_revision r),
               ck_command_id = (case ag_receipt a of None \<Rightarrow> [] | Some r \<Rightarrow> rc_identity r),
               ck_action = (case ag_receipt a of None \<Rightarrow> [] | Some r \<Rightarrow> rc_action r),
               ck_config_revision = (case ag_applied a of None \<Rightarrow> 0 | Some s \<Rightarrow> as_revision s),
               ck_config_hash = (case ag_applied a of None \<Rightarrow> [] | Some s \<Rightarrow> as_hash s)\<rparr>
      in if checkpoint_valid k then Inr k else Inl (PolicyError ''invalid_recovery_checkpoint''))"

record recovery_request =
  rq_revision :: int
  rq_identity :: string
  rq_expected :: pyval

definition parse_recovery :: "string \<Rightarrow> string \<Rightarrow> pyval \<Rightarrow> recovery_request res" where
  "parse_recovery scope installation body =
     (let bad = Inl (HttpError ''invalid_recovery_stop'' 422) in
      case body of
        PDict d \<Rightarrow>
          if \<not> keys_are d [''nodeId'', ''installationId'', ''revision'', ''commandId'', ''expected'']
             \<or> pyget d ''nodeId'' \<noteq> PStr scope \<or> pyget d ''installationId'' \<noteq> PStr installation
          then bad
          else (case (pyget d ''revision'', pyget d ''commandId'') of
            (PInt n, PStr i) \<Rightarrow>
              if 0 < n \<and> n \<le> max_int \<and> lower_hex 32 i
              then Inr \<lparr>rq_revision = n, rq_identity = i, rq_expected = pyget d ''expected''\<rparr> else bad
          | _ \<Rightarrow> bad)
      | _ \<Rightarrow> bad)"

definition same_command :: "checkpoint \<Rightarrow> checkpoint \<Rightarrow> bool" where
  "same_command c k \<longleftrightarrow> ck_command_revision c = ck_command_revision k \<and>
     ck_command_id c = ck_command_id k \<and> ck_action c = ck_action k"

definition same_configuration :: "checkpoint \<Rightarrow> checkpoint \<Rightarrow> bool" where
  "same_configuration c k \<longleftrightarrow> ck_config_revision c = ck_config_revision k \<and>
     ck_config_hash c = ck_config_hash k"

text \<open>How the endpoint turns exceptions into responses.\<close>

definition recovery_error :: "err \<Rightarrow> err" where
  "recovery_error ex =
     (case ex of
        CoreError _ status \<Rightarrow> HttpError ''recovery_stop_not_confirmed'' status
      | PolicyError _ \<Rightarrow> HttpError ''invalid_recovery_stop'' 422
      | PermissionDenied _ \<Rightarrow> HttpError ''invalid_recovery_stop'' 422
      | _ \<Rightarrow> ex)"

definition stop_body :: "string \<Rightarrow> recovery_request \<Rightarrow> pyval" where
  "stop_body scope rq = PDict [(''nodeId'', PStr scope), (''revision'', PInt (rq_revision rq)),
     (''commandId'', PStr (rq_identity rq)), (''action'', PStr ''stop'')]"

definition recovery_stop ::
  "(string \<Rightarrow> string) \<Rightarrow> pyval \<Rightarrow> real \<Rightarrow> env \<Rightarrow> (agent, command_ack) effect" where
  "recovery_stop sha body t v a =
     (case parse_recovery (ag_scope a) (ag_installation a) body of
        Inl ex \<Rightarrow> (a, Inl ex)
      | Inr rq \<Rightarrow>
        (case rbind (validate_checkpoint (rq_expected rq)) (\<lambda>expected.
              rbind (ensure (ck_command_revision expected < rq_revision rq)
                       (PolicyError ''recovery_revision_must_advance'')) (\<lambda>_.
              rbind (checkpoint_of a) (\<lambda>current. Inr (expected, current)))) of
           Inl ex \<Rightarrow> (a, Inl (recovery_error ex))
         | Inr (expected, current) \<Rightarrow>
           let exact = (ck_command_revision current = rq_revision rq \<and>
                        ck_command_id current = rq_identity rq \<and> ck_action current = ''stop'')
           in if \<not> same_configuration current expected \<or> (\<not> exact \<and> \<not> same_command current expected)
              then (a, Inl (HttpError ''recovery_checkpoint_changed'' 409))
              else (case ordered_command sha
                      (stop_body (ag_scope a) rq) t v a of
                      (a', Inl ex) \<Rightarrow> (a', Inl (recovery_error ex))
                    | (a', Inr x) \<Rightarrow> (a', Inr x))))"

section \<open>The Agent as a machine\<close>

datatype agent_op =
    Ordered pyval real env
  | Unordered string real env
  | Recovery_stop pyval real env
  | Reconcile real env
  | Pause real env real real
  | Flush real env
  | Crash

definition agent_step :: "(string \<Rightarrow> string) \<Rightarrow> agent_op \<Rightarrow> agent \<Rightarrow> agent" where
  "agent_step sha x a =
     (case x of
        Ordered body t v \<Rightarrow> fst (ordered_command sha body t v a)
      | Unordered action t v \<Rightarrow> fst (unordered_command sha action t v a)
      | Recovery_stop body t v \<Rightarrow> fst (recovery_stop sha body t v a)
      | Reconcile t v \<Rightarrow> fst (reconcile_control sha t v a)
      | Pause early v t wall \<Rightarrow> fst (pause_lease early v t wall a)
      | Flush t v \<Rightarrow> a\<lparr>ag_engine := flush sha (guarded t a v) (ag_engine a)\<rparr>
      | Crash \<Rightarrow> a\<lparr>ag_engine := (ag_engine a)\<lparr>eg_alive := False\<rparr>\<rparr>)"

lemma on_engine_result:
  "on_engine m a = (a', r) \<Longrightarrow> \<exists>e. m (ag_engine a) = (e, r) \<and> a' = a\<lparr>ag_engine := e\<rparr>"
  by (auto simp: on_engine_def on_part_def split: prod.splits)

lemma pause_lease_result:
  "pause_lease early v t wall a = (a', r) \<Longrightarrow>
    \<exists>l e. pause_expired_lease early v t wall (ag_lease a, ag_engine a) = ((l, e), r) \<and>
      a' = a\<lparr>ag_lease := l, ag_engine := e\<rparr>"
  by (auto simp: pause_lease_def on_part_def split: prod.splits)

text \<open>Nothing but an ordered command writes the receipt.\<close>

lemma start_core_receipt: "start_core sha action t v a = (a', r) \<Longrightarrow> ag_receipt a' = ag_receipt a"
  by (auto simp: start_core_def Let_def set_wants_def write_control_def dest!: on_engine_result
      split: if_splits prod.splits sum.splits)

lemma command_locked_receipt:
  "command_locked sha action t v a = (a', r) \<Longrightarrow> ag_receipt a' = ag_receipt a"
  by (auto simp: command_locked_def set_wants_def write_control_def
      dest!: on_engine_result start_core_receipt split: if_splits)

lemma run_ordered_receipt:
  "run_ordered sha o' t v a = (a', r) \<Longrightarrow>
    \<exists>ph m. ag_receipt a' = Some \<lparr>rc_revision = od_revision o', rc_identity = od_identity o',
        rc_action = od_action o', rc_phase = ph, rc_error = m\<rparr> \<and> (r = Inr () \<longrightarrow> ph = Applied)"
  by (auto simp: run_ordered_def mark_receipt_def split: prod.splits sum.splits if_splits)

definition mark :: "agent \<Rightarrow> int" where
  "mark a = (case ag_receipt a of None \<Rightarrow> 0 | Some r \<Rightarrow> rc_revision r)"

fun body_revision :: "pyval \<Rightarrow> int option" where
  "body_revision (PDict d) = (case pyget d ''revision'' of PInt n \<Rightarrow> Some n | _ \<Rightarrow> None)"
| "body_revision _ = None"

lemma parse_ordered_revision:
  assumes "parse_ordered scope body = Inr o'"
  shows "body_revision body = Some (od_revision o') \<and> 0 < od_revision o'"
  using assms by (auto simp: parse_ordered_def split: pyval.splits if_splits)

lemma fence_run_mark: "fence (ag_receipt a) o' = Run \<Longrightarrow> 0 < od_revision o' \<Longrightarrow> mark a \<le> od_revision o'"
  by (auto simp: fence_def mark_def split: option.splits if_splits)

lemma ordered_command_cases:
  assumes "ordered_command sha body t v a = (a', r)"
  shows "a' = a \<or> (\<exists>o' a1 r1. parse_ordered (ag_scope a) body = Inr o' \<and> fence (ag_receipt a) o' = Run \<and>
    run_ordered sha o' t v (mark_receipt o' Pending [] a) = (a1, r1) \<and> a' = a1)"
  using assms
  by (auto simp: ordered_command_def split: sum.splits if_splits verdict.splits prod.splits)

lemma ordered_command_mark:
  assumes "ordered_command sha body t v a = (a', r)"
  shows "mark a \<le> mark a'" and "body_revision body = Some n \<Longrightarrow> n < mark a \<Longrightarrow> a' = a"
proof -
  have *: "a' = a \<or> (\<exists>n. body_revision body = Some n \<and> mark a \<le> n \<and> mark a' = n)"
    using ordered_command_cases [OF assms]
  proof (elim disjE exE conjE)
    fix o' a1 r1
    assume p: "parse_ordered (ag_scope a) body = Inr o'" "fence (ag_receipt a) o' = Run"
      and run: "run_ordered sha o' t v (mark_receipt o' Pending [] a) = (a1, r1)" "a' = a1"
    have "mark a' = od_revision o'" using run_ordered_receipt [OF run(1)] run(2) by (auto simp: mark_def)
    then show ?thesis using parse_ordered_revision [OF p(1)] fence_run_mark [OF p(2)] by auto
  qed simp
  show "mark a \<le> mark a'" using * by auto
  show "body_revision body = Some n \<Longrightarrow> n < mark a \<Longrightarrow> a' = a" using * by auto
qed

lemma recovery_stop_cases:
  assumes "recovery_stop sha body t v a = (a', r)"
  shows "a' = a \<or> (\<exists>rq r1. parse_recovery (ag_scope a) (ag_installation a) body = Inr rq \<and>
    ordered_command sha (stop_body (ag_scope a) rq) t v a = (a', r1))"
proof (cases "parse_recovery (ag_scope a) (ag_installation a) body")
  case (Inl ex)
  with assms show ?thesis by (simp add: recovery_stop_def)
next
  case (Inr rq)
  obtain a1 r1 where run: "ordered_command sha (stop_body (ag_scope a) rq) t v a = (a1, r1)"
    by fastforce
  have "a' = a \<or> a' = a1"
    using assms by (auto simp: recovery_stop_def Inr run Let_def split: sum.splits if_splits)
  with Inr run show ?thesis by blast
qed

lemma parse_recovery_revision:
  "parse_recovery scope installation body = Inr rq \<Longrightarrow> body_revision body = Some (rq_revision rq)"
  by (auto simp: parse_recovery_def Let_def split: pyval.splits if_splits)

lemma recovery_stop_mark:
  assumes "recovery_stop sha body t v a = (a', r)"
  shows "mark a \<le> mark a'" and "body_revision body = Some n \<Longrightarrow> n < mark a \<Longrightarrow> a' = a"
proof -
  have "a' = a \<or> mark a \<le> mark a' \<and> (body_revision body = Some n \<longrightarrow> n < mark a \<longrightarrow> a' = a)" for n
    using recovery_stop_cases [OF assms]
  proof (elim disjE exE conjE)
    fix rq r1
    assume p: "parse_recovery (ag_scope a) (ag_installation a) body = Inr rq"
      and run: "ordered_command sha (stop_body (ag_scope a) rq) t v a = (a', r1)"
    have "body_revision (stop_body (ag_scope a) rq) = body_revision body"
      by (simp add: parse_recovery_revision [OF p] stop_body_def)
    with ordered_command_mark [OF run] show ?thesis by simp
  qed simp
  then show "mark a \<le> mark a'" "body_revision body = Some n \<Longrightarrow> n < mark a \<Longrightarrow> a' = a" by auto
qed

lemma other_receipt:
  "unordered_command sha action t v a = (a1, r1) \<Longrightarrow> ag_receipt a1 = ag_receipt a"
  "reconcile_control sha t v a = (a2, r2) \<Longrightarrow> ag_receipt a2 = ag_receipt a"
  "pause_lease early v t wall a = (a3, r3) \<Longrightarrow> ag_receipt a3 = ag_receipt a"
proof -
  show "unordered_command sha action t v a = (a1, r1) \<Longrightarrow> ag_receipt a1 = ag_receipt a"
    by (auto simp: unordered_command_def dest: command_locked_receipt split: if_splits)
  show "reconcile_control sha t v a = (a2, r2) \<Longrightarrow> ag_receipt a2 = ag_receipt a"
    by (auto simp: reconcile_control_def Let_def return_def set_wants_def
        dest!: pause_lease_result on_engine_result split: if_splits prod.splits sum.splits)
  show "pause_lease early v t wall a = (a3, r3) \<Longrightarrow> ag_receipt a3 = ag_receipt a"
    by (auto dest!: pause_lease_result)
qed

fun stamp :: "agent_op \<Rightarrow> int option" where
  "stamp (Ordered body t v) = body_revision body"
| "stamp (Recovery_stop body t v) = body_revision body"
| "stamp _ = None"

lemma agent_step_mark:
  "mark a \<le> mark (agent_step sha x a)" "stamp x = Some n \<Longrightarrow> n < mark a \<Longrightarrow> agent_step sha x a = a"
proof -
  have *: "mark a \<le> mark (agent_step sha x a) \<and>
      (\<forall>n. stamp x = Some n \<longrightarrow> n < mark a \<longrightarrow> agent_step sha x a = a)"
  proof (cases x)
    case (Ordered body t v)
    then show ?thesis using ordered_command_mark [of sha body t v a]
      by (cases "ordered_command sha body t v a") (simp add: agent_step_def)
  next
    case (Recovery_stop body t v)
    then show ?thesis using recovery_stop_mark [of sha body t v a]
      by (cases "recovery_stop sha body t v a") (simp add: agent_step_def)
  next
    case (Unordered action t v)
    then show ?thesis using other_receipt(1) [of sha action t v a]
      by (cases "unordered_command sha action t v a") (simp add: agent_step_def mark_def)
  next
    case (Reconcile t v)
    then show ?thesis using other_receipt(2) [of sha t v a]
      by (cases "reconcile_control sha t v a") (simp add: agent_step_def mark_def)
  next
    case (Pause early v t wall)
    then show ?thesis using other_receipt(3) [of early v t wall a]
      by (cases "pause_lease early v t wall a") (simp add: agent_step_def mark_def)
  qed (simp_all add: agent_step_def mark_def)
  then show "mark a \<le> mark (agent_step sha x a)"
    "stamp x = Some n \<Longrightarrow> n < mark a \<Longrightarrow> agent_step sha x a = a" by auto
qed

interpretation command_fence: fenced_register "agent_step sha" "\<lambda>_. True" mark stamp for sha
  by unfold_locales (simp_all add: agent_step_mark)

text \<open>
  C7. Once an Agent has accepted a command revision, a delayed or replayed command (or recovery
  Stop) with a lower revision changes nothing, whatever else the Agent has done in between and
  whether or not the newer command succeeded.
\<close>

theorem delayed_command_changes_nothing:
  assumes "stamp x = Some n" and "n < mark a"
  shows "agent_step sha x (run_steps (agent_step sha) ops a) = run_steps (agent_step sha) ops a"
  using command_fence.delayed_request_refused [OF TrueI assms] .

text \<open>
  C23. A command whose receipt says \<open>applied\<close> is a read when the Hub sends it again: the answer
  is marked as a duplicate and neither the process nor the stored intent is touched. The same
  revision with another identity or action is refused and changes nothing.
\<close>

theorem applied_command_repeats:
  assumes "ag_receipt a = Some p" and "rc_phase p = Applied" and "eg_writes (ag_engine a)"
    and "parse_ordered (ag_scope a) body = Inr o'" and "od_revision o' = rc_revision p"
  shows "ordered_command sha body t v a =
    (if od_identity o' = rc_identity p \<and> od_action o' = rc_action p
     then (a, Inr (command_ack p True a))
     else (a, Inl (CoreError ''Command revision belongs to a different identity/action'' 409)))"
  using assms by (auto simp: ordered_command_def fence_def)

section \<open>A manual Stop is durable\<close>

fun body_action :: "pyval \<Rightarrow> pyval" where
  "body_action (PDict d) = pyget d ''action''"
| "body_action _ = PNone"

fun starts :: "agent_op \<Rightarrow> bool" where
  "starts (Ordered body t v) = (body_action body \<in> {PStr ''start'', PStr ''restart''})"
| "starts (Unordered action t v) = (action \<in> {''start'', ''restart''})"
| "starts _ = False"

definition engine_stopped :: "engine \<Rightarrow> bool" where
  "engine_stopped e \<longleftrightarrow> \<not> eg_wants e \<and> \<not> running e"

definition manually_stopped :: "agent \<Rightarrow> bool" where
  "manually_stopped a \<longleftrightarrow> (\<exists>d. ag_control a = Some (d, True)) \<and> engine_stopped (ag_engine a)"

lemma stop_command_stopped:
  "core_command sha ''stop'' v e = (e', r) \<Longrightarrow> engine_stopped e \<Longrightarrow> engine_stopped e'"
  by (auto simp: core_command_def check_writes_def require_that_def stop_core_def collect_stats_def
      stop_child_def alter_def engine_stopped_def running_def split: if_splits)

lemma validate_command_stopped:
  "core_command sha ''validate'' v e = (e', r) \<Longrightarrow> e' = e"
  by (auto simp: core_command_def check_writes_def require_that_def validate_def
      split: if_splits sum.splits)

lemma pause_stopped:
  "pause_expired_lease early v t wall (l, e) = ((l', e'), r) \<Longrightarrow> engine_stopped e \<Longrightarrow> engine_stopped e'"
  by (auto simp: pause_expired_lease_def engine_stopped_def running_def Let_def split: if_splits)

lemma command_locked_stopped:
  assumes "command_locked sha action t v a = (a', r)" and "manually_stopped a"
    and "action \<notin> {''start'', ''restart''}"
  shows "manually_stopped a'"
proof (cases "action = ''stop''")
  case True
  show ?thesis
  proof (cases "eg_writes (ag_engine a)")
    case True
    obtain e where e: "core_command sha ''stop'' (guarded t a v) ((ag_engine a)\<lparr>eg_wants := False\<rparr>) = (e, r)"
      and a': "a' = (set_wants False (write_control (ct_desired (control_status t a)) True a))\<lparr>ag_engine := e\<rparr>"
      using assms(1) True \<open>action = ''stop''\<close>
      by (auto simp: command_locked_def set_wants_def write_control_def dest!: on_engine_result)
    have "engine_stopped ((ag_engine a)\<lparr>eg_wants := False\<rparr>)"
      using assms(2) by (simp add: manually_stopped_def engine_stopped_def running_def)
    from stop_command_stopped [OF e this] show ?thesis
      by (simp add: a' manually_stopped_def write_control_def set_wants_def)
  next
    case False
    with assms True show ?thesis by (simp add: command_locked_def)
  qed
next
  case False
  with assms show ?thesis
    by (auto simp: command_locked_def dest!: on_engine_result validate_command_stopped split: if_splits)
qed

lemma run_ordered_stopped:
  assumes "run_ordered sha o' t v a = (a', r)" and "manually_stopped a" and "od_action o' = ''stop''"
  shows "manually_stopped a'"
proof -
  obtain a1 r1 where c: "command_locked sha ''stop'' t v a = (a1, r1)"
    by (cases "command_locked sha ''stop'' t v a")
  have "manually_stopped a1" by (rule command_locked_stopped [OF c assms(2)]) simp
  then show ?thesis
    using assms(1,3) c
    by (auto simp: run_ordered_def mark_receipt_def manually_stopped_def split: sum.splits if_splits)
qed

lemma parse_ordered_action:
  assumes "parse_ordered scope body = Inr o'"
  shows "body_action body = PStr (od_action o') \<and> od_action o' \<in> {''start'', ''stop'', ''restart''}"
  using assms by (auto simp: parse_ordered_def split: pyval.splits if_splits)

lemma ordered_command_stopped:
  assumes "ordered_command sha body t v a = (a', r)" and "manually_stopped a"
    and "body_action body \<notin> {PStr ''start'', PStr ''restart''}"
  shows "manually_stopped a'"
  using ordered_command_cases [OF assms(1)]
proof (elim disjE exE conjE)
  fix o' a1 r1
  assume "parse_ordered (ag_scope a) body = Inr o'"
    and run: "run_ordered sha o' t v (mark_receipt o' Pending [] a) = (a1, r1)" "a' = a1"
  with parse_ordered_action assms(3) have "od_action o' = ''stop''" by fastforce
  moreover have "manually_stopped (mark_receipt o' Pending [] a)"
    using assms(2) by (simp add: mark_receipt_def manually_stopped_def)
  ultimately show ?thesis using run_ordered_stopped [OF run(1)] run(2) by simp
qed (simp add: assms(2))

lemma reconcile_stopped:
  assumes "reconcile_control sha t v a = (a', r)" and "manually_stopped a"
  shows "manually_stopped a'"
proof -
  have idle: "\<not> ct_effective (control_status t a)" "\<not> running (ag_engine a)" "\<not> eg_wants (ag_engine a)"
    using assms(2) by (auto simp: control_status_def manually_stopped_def engine_stopped_def Let_def)
  then have "set_wants False a = a" by (simp add: set_wants_def)
  with assms idle show ?thesis
    by (auto simp: reconcile_control_def Let_def return_def manually_stopped_def
        dest!: pause_lease_result dest: pause_stopped split: if_splits prod.splits sum.splits)
qed

lemma agent_step_stopped:
  assumes "manually_stopped a" and "\<not> starts x"
  shows "manually_stopped (agent_step sha x a)"
proof (cases x)
  case (Ordered body t v)
  then show ?thesis using assms ordered_command_stopped [of sha body t v a]
    by (cases "ordered_command sha body t v a") (simp add: agent_step_def)
next
  case (Unordered action t v)
  obtain a' r where u: "unordered_command sha action t v a = (a', r)"
    by (cases "unordered_command sha action t v a")
  have "manually_stopped a'"
    using u assms Unordered command_locked_stopped [of sha action t v a]
    by (auto simp: unordered_command_def split: if_splits)
  then show ?thesis using Unordered u by (simp add: agent_step_def)
next
  case (Recovery_stop body t v)
  obtain a' r where u: "recovery_stop sha body t v a = (a', r)" by (cases "recovery_stop sha body t v a")
  have "manually_stopped a'"
    using recovery_stop_cases [OF u]
  proof (elim disjE exE conjE)
    fix rq r1
    assume "ordered_command sha (stop_body (ag_scope a) rq) t v a = (a', r1)"
    from ordered_command_stopped [OF this assms(1)] show ?thesis by (simp add: stop_body_def)
  qed (simp add: assms(1))
  then show ?thesis using Recovery_stop u by (simp add: agent_step_def)
next
  case (Reconcile t v)
  then show ?thesis using assms reconcile_stopped [of sha t v a]
    by (cases "reconcile_control sha t v a") (simp add: agent_step_def)
next
  case (Pause early v t wall)
  obtain a' r where u: "pause_lease early v t wall a = (a', r)" by (cases "pause_lease early v t wall a")
  have "manually_stopped a'"
    using pause_lease_result [OF u] assms(1) pause_stopped by (auto simp: manually_stopped_def)
  then show ?thesis using Pause u by (simp add: agent_step_def)
next
  case (Flush t v)
  then show ?thesis using assms(1)
    by (simp add: agent_step_def flush_def manually_stopped_def engine_stopped_def)
next
  case Crash
  then show ?thesis using assms(1)
    by (auto simp: agent_step_def manually_stopped_def engine_stopped_def running_def)
qed


section \<open>Recovery stops only what was observed\<close>

text \<open>
  A recovery Stop that is not a retry of itself runs only if the node's command and
  configuration are exactly those of the checkpoint it names; otherwise the node answers 409 and
  nothing changes, so no command accepted after the checkpoint is undone.
\<close>

theorem recovery_stop_is_conditional:
  assumes "parse_recovery (ag_scope a) (ag_installation a) body = Inr rq"
    and "validate_checkpoint (rq_expected rq) = Inr expected" and "checkpoint_of a = Inr current"
    and "ck_command_revision expected < rq_revision rq"
    and "\<not> (ck_command_revision current = rq_revision rq \<and> ck_command_id current = rq_identity rq \<and>
            ck_action current = ''stop'')"
    and "current \<noteq> expected"
  shows "recovery_stop sha body t v a = (a, Inl (HttpError ''recovery_checkpoint_changed'' 409))"
proof -
  have "same_configuration current expected \<and> same_command current expected \<longleftrightarrow> current = expected"
    by (auto simp: same_configuration_def same_command_def)
  with assms show ?thesis
    by (auto simp: recovery_stop_def Let_def)
qed

section \<open>Concrete instances\<close>

definition sample_receipt :: receipt where
  "sample_receipt = \<lparr>rc_revision = 5, rc_identity = replicate 32 CHR ''a'', rc_action = ''stop'',
     rc_phase = Applied, rc_error = []\<rparr>"

definition sample_agent :: agent where
  "sample_agent = \<lparr>ag_scope = ''n1'', ag_installation = ''i1'', ag_autostart = True,
     ag_engine = sample_engine\<lparr>eg_alive := False, eg_wants := False\<rparr>, ag_lease = new_lease False,
     ag_control = Some (True, True), ag_receipt = Some sample_receipt, ag_applied = None\<rparr>"

definition sample_body :: "int \<Rightarrow> string \<Rightarrow> pyval" where
  "sample_body n action = PDict [(''nodeId'', PStr ''n1''), (''revision'', PInt n),
     (''commandId'', PStr (replicate 32 CHR ''a'')), (''action'', PStr action)]"

theorem delayed_command_changes_nothing_witness:
  "agent_step id (Ordered (sample_body 4 ''start'') 0 sample_env)
     (run_steps (agent_step id) [Crash] sample_agent) = run_steps (agent_step id) [Crash] sample_agent"
  by (rule delayed_command_changes_nothing [where n = 4])
    (simp_all add: sample_body_def mark_def sample_agent_def sample_receipt_def)

theorem applied_command_repeats_witness:
  "ordered_command id (sample_body 5 ''stop'') 0 sample_env sample_agent =
     (sample_agent, Inr (command_ack sample_receipt True sample_agent))"
proof -
  let ?i = "replicate 32 CHR ''a''"
  have p: "parse_ordered (ag_scope sample_agent) (sample_body 5 ''stop'') =
      Inr \<lparr>od_revision = 5, od_identity = ?i, od_action = ''stop''\<rparr>"
    by code_simp
  have "ag_receipt sample_agent = Some sample_receipt" "rc_phase sample_receipt = Applied"
    "eg_writes (ag_engine sample_agent)"
    by (simp_all add: sample_agent_def sample_receipt_def sample_engine_def)
  from applied_command_repeats [OF this p] show ?thesis by (simp add: sample_receipt_def)
qed


definition sample_recovery :: pyval where
  "sample_recovery = PDict [(''nodeId'', PStr ''n1''), (''installationId'', PStr ''i1''), (''revision'', PInt 7),
     (''commandId'', PStr (replicate 32 CHR ''b'')),
     (''expected'', PDict [(''command'', PDict [(''revision'', PInt 4), (''commandId'', PStr (replicate 32 CHR ''c'')),
         (''action'', PStr ''start'')]),
       (''configuration'', PDict [(''revision'', PInt 0), (''hash'', PStr [])])])]"

theorem recovery_stop_is_conditional_witness:
  "recovery_stop id sample_recovery 0 sample_env sample_agent =
     (sample_agent, Inl (HttpError ''recovery_checkpoint_changed'' 409))"
proof (rule recovery_stop_is_conditional)
  show "parse_recovery (ag_scope sample_agent) (ag_installation sample_agent) sample_recovery =
      Inr \<lparr>rq_revision = 7, rq_identity = replicate 32 CHR ''b'',
           rq_expected = pyget (case sample_recovery of PDict d \<Rightarrow> d) ''expected''\<rparr>"
    by code_simp
  show "validate_checkpoint (rq_expected \<lparr>rq_revision = 7, rq_identity = replicate 32 CHR ''b'',
           rq_expected = pyget (case sample_recovery of PDict d \<Rightarrow> d) ''expected''\<rparr>) =
      Inr \<lparr>ck_command_revision = 4, ck_command_id = replicate 32 CHR ''c'', ck_action = ''start'',
           ck_config_revision = 0, ck_config_hash = []\<rparr>"
    by code_simp
  show "checkpoint_of sample_agent = Inr \<lparr>ck_command_revision = 5, ck_command_id = replicate 32 CHR ''a'',
      ck_action = ''stop'', ck_config_revision = 0, ck_config_hash = []\<rparr>"
    by (simp add: checkpoint_of_def sample_agent_def sample_receipt_def checkpoint_valid_def max_int_val)
      code_simp
qed simp_all

end
