(* ===== verification/Values.thy ===== *)
theory Values
  imports Address "HOL-Library.AList"
begin

text \<open>
  Python operations on dynamically typed values that several components use: \<open>int(x)\<close>,
  \<open>str(x)\<close> of a text or a missing value, equality of nested containers, assignment to a dict
  key, and the base64 decoder of the standard library (with \<open>validate=True\<close>).
\<close>

section \<open>Conversions\<close>

type_synonym dict = "(string \<times> pyval) list"

definition bad :: "string \<Rightarrow> 'a res" where
  "bad m = Inl (PolicyError m)"

lemma bad_eq [simp]:
  "bad m \<noteq> Inr x" "Inr x \<noteq> bad m" "bad m = Inl e \<longleftrightarrow> e = PolicyError m" "Inl e = bad m \<longleftrightarrow> e = PolicyError m"
  by (auto simp: bad_def)

text \<open>\<open>int(text)\<close>: surrounding white space, a sign, and digits with single underscores between.\<close>

definition digit_groups :: "string \<Rightarrow> int option" where
  "digit_groups t =
     (let gs = split_on CHR ''_'' t
      in if list_all (\<lambda>g. g \<noteq> []) gs then number_from 10 digit_of 0 (concat gs) else None)"

definition int_of_text :: "string \<Rightarrow> int option" where
  "int_of_text s =
     (case strip s of
        [] \<Rightarrow> None
      | c # t \<Rightarrow> if c = CHR ''-'' then map_option uminus (digit_groups t)
                 else if c = CHR ''+'' then digit_groups t else digit_groups (c # t))"

fun py_int :: "pyval \<Rightarrow> int res" where
  "py_int (PInt i) = Inr i"
| "py_int (PBool b) = Inr (int_of_bool b)"
| "py_int (PFloat r) = Inr (if 0 \<le> r then \<lfloor>r\<rfloor> else \<lceil>r\<rceil>)"
| "py_int (PStr s) = (case int_of_text s of Some i \<Rightarrow> Inr i | None \<Rightarrow> Inl (OtherError ''ValueError''))"
| "py_int _ = Inl (OtherError ''TypeError'')"

text \<open>\<open>x or y\<close>.\<close>

definition py_or :: "pyval \<Rightarrow> pyval \<Rightarrow> pyval" where
  "py_or x y = (if truthy x then x else y)"

text \<open>\<open>d.get(k, v)\<close> of a value that is expected to be a dict.\<close>

definition py_field :: "pyval \<Rightarrow> string \<Rightarrow> pyval \<Rightarrow> pyval res" where
  "py_field d k v = (case d of PDict xs \<Rightarrow> Inr (pyget_or xs k v) | _ \<Rightarrow> Inl (OtherError ''AttributeError''))"

text \<open>\<open>d[k] = v\<close> keeps the position of an existing key.\<close>

definition py_set :: "string \<Rightarrow> pyval \<Rightarrow> (string \<times> pyval) list \<Rightarrow> (string \<times> pyval) list" where
  "py_set k v d = AList.update k v d"

definition py_del :: "string \<Rightarrow> (string \<times> pyval) list \<Rightarrow> (string \<times> pyval) list" where
  "py_del k d = AList.delete k d"

lemma pyget_py_set: "pyget (py_set k v d) k' = (if k' = k then v else pyget d k')"
  by (simp add: py_set_def update_conv')

section \<open>Equality of containers\<close>

text \<open>Dicts compare by key, whatever their order; numbers compare by value.\<close>

function py_same :: "pyval \<Rightarrow> pyval \<Rightarrow> bool" where
  "py_same (PList xs) (PList ys) = (length xs = length ys \<and> (\<forall>p \<in> set (zip xs ys). py_same (fst p) (snd p)))"
| "py_same (PDict d) (PDict e) = (length d = length e \<and>
     (\<forall>p \<in> set d. case map_of e (fst p) of None \<Rightarrow> False | Some w \<Rightarrow> py_same (snd p) w))"
| "py_same (PList xs) PNone = False" | "py_same (PList xs) (PBool b) = False"
| "py_same (PList xs) (PInt i) = False" | "py_same (PList xs) (PFloat r) = False"
| "py_same (PList xs) (PStr s) = False" | "py_same (PList xs) (PDict d) = False"
| "py_same (PDict d) PNone = False" | "py_same (PDict d) (PBool b) = False"
| "py_same (PDict d) (PInt i) = False" | "py_same (PDict d) (PFloat r) = False"
| "py_same (PDict d) (PStr s) = False" | "py_same (PDict d) (PList xs) = False"
| "py_same PNone v = pyeq PNone v" | "py_same (PBool b) v = pyeq (PBool b) v"
| "py_same (PInt i) v = pyeq (PInt i) v" | "py_same (PFloat r) v = pyeq (PFloat r) v"
| "py_same (PStr s) v = pyeq (PStr s) v"
  by pat_completeness auto
termination
proof (relation "measure (\<lambda>(v, w). size v)")
  fix xs ys :: "pyval list" and p
  assume "p \<in> set (zip xs ys)"
  then have "fst p \<in> set xs" by (metis set_zip_leftD prod.collapse)
  then have "size (fst p) < size_list size xs + 1" using size_list_estimation' [of "fst p" xs _ size] by fastforce
  then show "((fst p, snd p), PList xs, PList ys) \<in> measure (\<lambda>(v, w). size v)" by (simp add: case_prod_beta)
next
  fix d e :: "(string \<times> pyval) list" and p w
  assume "p \<in> set d"
  then have "size_prod (\<lambda>_. 0) size p < Suc (size_list (size_prod (\<lambda>_. 0) size) d)"
    using size_list_estimation' [of p d _ "size_prod (\<lambda>_. 0) size"] by fastforce
  then show "((snd p, w), PDict d, PDict e) \<in> measure (\<lambda>(v, w). size v)" by (cases p) simp
qed simp

section \<open>Base64\<close>

definition base64_alphabet :: string where
  "base64_alphabet = ''ABCDEFGHIJKLMNOPQRSTUVWXYZabcdefghijklmnopqrstuvwxyz0123456789+/''"

definition base64_digit :: "char \<Rightarrow> nat option" where
  "base64_digit c = map_of (zip base64_alphabet [0..<64]) c"

definition base64_triple :: "nat \<Rightarrow> nat \<Rightarrow> nat \<Rightarrow> nat \<Rightarrow> string" where
  "base64_triple a b c d = map char_of [a * 4 + b div 16, b mod 16 * 16 + c div 4, c mod 4 * 64 + d]"

definition base64_quad :: "char \<Rightarrow> char \<Rightarrow> char \<Rightarrow> char \<Rightarrow> string option" where
  "base64_quad a b c d =
     (case (base64_digit a, base64_digit b, base64_digit c, base64_digit d) of
        (Some i, Some j, Some k, Some l) \<Rightarrow> Some (base64_triple i j k l)
      | (Some i, Some j, Some k, None) \<Rightarrow> if d = CHR ''='' then Some (take 2 (base64_triple i j k 0)) else None
      | (Some i, Some j, None, None) \<Rightarrow>
          if c = CHR ''='' \<and> d = CHR ''='' then Some (take 1 (base64_triple i j 0 0)) else None
      | _ \<Rightarrow> None)"

text \<open>Padding ends the text.\<close>

fun b64decode :: "string \<Rightarrow> string option" where
  "b64decode [] = Some []"
| "b64decode (a # b # c # d # t) =
     (case base64_quad a b c d of
        None \<Rightarrow> None
      | Some xs \<Rightarrow> if d = CHR ''='' then (if t = [] then Some xs else None)
                   else map_option ((@) xs) (b64decode t))"
| "b64decode _ = None"

lemma b64decode_example: "b64decode ''aGVsbG8='' = Some ''hello''"
  by code_simp

end
