(* ===== verification/Agent_State.thy ===== *)
theory Agent_State
  imports Agent_Control Values
begin

text \<open>
  The desired state of a node Agent (backend/node_runtime.py, \<open>_validate_envelope\<close> to
  \<open>remember_reset\<close>, and the endpoints of backend/node_agent.py that use it): an envelope with a
  revision and a hash replaces the Agent's inbounds, clients and sections as a whole, or fails and
  leaves the previous generation in place. \<open>json.dumps\<close> with sorted keys, SHA-256, the staging
  engine's own validation of inbounds, clients and sections, and the firewall broker's answers
  are parameters.
\<close>

section \<open>The envelope\<close>

definition state_sections :: "string list" where
  "state_sections = [''outbounds'', ''routing'', ''dns'', ''policy'', ''observatory'', ''ipguard'']"

definition assignment_shape :: "pyval \<Rightarrow> unit res" where
  "assignment_shape item =
     (case item of
        PDict d \<Rightarrow>
          if \<not> keys_are d [''sourceInboundId'', ''inbound'', ''clients''] then bad ''Invalid node assignment''
          else (case pyget d ''clients'' of
                  PList cs \<Rightarrow> ensure (int (length cs) \<le> 100000) (PolicyError ''Invalid node assignment clients'')
                | _ \<Rightarrow> bad ''Invalid node assignment clients'')
      | _ \<Rightarrow> bad ''Invalid node assignment'')"

text \<open>A managed TLS file: its identity, and its bytes if their hash and size are as announced.\<close>

definition managed_file :: "(string \<Rightarrow> string) \<Rightarrow> string list \<Rightarrow> pyval \<Rightarrow> (string \<times> string) res" where
  "managed_file sha ids item =
     (case item of
        PDict d \<Rightarrow>
          if \<not> keys_are d [''id'', ''kind'', ''sha256'', ''data''] then bad ''Invalid managed Node file''
          else (case (pyget d ''id'', pyget d ''kind'', pyget d ''sha256'', pyget d ''data'') of
            (PStr i, kind, digest, content) \<Rightarrow>
              if \<not> lower_hex 64 i \<or> i \<in> set ids then bad ''Invalid or duplicate managed Node file ID''
              else if kind \<notin> {PStr ''certificate'', PStr ''private-key''}
              then bad ''Invalid managed Node TLS metadata''
              else (case (digest, content) of
                (PStr h, PStr t) \<Rightarrow>
                  if length h \<noteq> 64 then bad ''Invalid managed Node TLS metadata''
                  else if 1400000 < int (length t) then bad ''Managed Node TLS content exceeds the file limit''
                  else (case b64decode t of
                    None \<Rightarrow> bad ''Managed Node TLS content is not valid base64''
                  | Some raw \<Rightarrow>
                      if raw = [] \<or> 1048576 < int (length raw) \<or> sha raw \<noteq> h
                      then bad ''Managed Node TLS hash/size validation failed'' else Inr (i, raw))
              | _ \<Rightarrow> bad ''Invalid managed Node TLS metadata'')
          | _ \<Rightarrow> bad ''Invalid or duplicate managed Node file ID'')
      | _ \<Rightarrow> bad ''Invalid managed Node file'')"

fun managed_files :: "(string \<Rightarrow> string) \<Rightarrow> (string \<times> string) list \<Rightarrow> pyval list \<Rightarrow> (string \<times> string) list res" where
  "managed_files sha done [] =
     (if 4194304 < sum_list (map (int \<circ> length \<circ> snd) done)
      then bad ''Managed Node TLS payload exceeds 4 MiB'' else Inr done)"
| "managed_files sha done (x # xs) =
     rbind (managed_file sha (map fst done) x) (\<lambda>f. managed_files sha (done @ [f]) xs)"

record desired =
  ds_revision :: int
  ds_hash :: string
  ds_payload :: dict
  ds_assignments :: "pyval list"
  ds_files :: "(string \<times> string) list"
  ds_running :: bool

definition list_field :: "pyval \<Rightarrow> int \<Rightarrow> string \<Rightarrow> pyval list res" where
  "list_field v n message =
     (case v of PList xs \<Rightarrow> (if int (length xs) \<le> n then Inr xs else bad message) | _ \<Rightarrow> bad message)"

definition payload_shape :: "(string \<Rightarrow> string) \<Rightarrow> dict \<Rightarrow> (pyval list \<times> (string \<times> string) list \<times> bool) res" where
  "payload_shape sha d =
     rbind (ensure (pyeq (pyget d ''schema'') (PInt 1) \<and> (case pyget d ''nodeId'' of PStr s \<Rightarrow> True | _ \<Rightarrow> False))
              (PolicyError ''Unsupported desired-state schema'')) (\<lambda>_.
     rbind (ensure (case pyget d ''sections'' of PDict s \<Rightarrow> keys_are s state_sections | _ \<Rightarrow> False)
              (PolicyError ''Desired-state sections are incomplete'')) (\<lambda>_.
     rbind (list_field (pyget d ''assignments'') 256 ''Invalid desired-state assignments'') (\<lambda>assignments.
     rbind (map_res assignment_shape assignments) (\<lambda>_.
     rbind (ensure (case pyget d ''security'' of
                      PDict s \<Rightarrow> (case pyget_or s ''clients'' (PList []) of PList _ \<Rightarrow> True | _ \<Rightarrow> False)
                    | _ \<Rightarrow> False) (PolicyError ''Invalid desired-state security policy'')) (\<lambda>_.
     rbind (list_field (pyget_or d ''files'' (PList [])) 512 ''Invalid managed Node file set'') (\<lambda>items.
     rbind (managed_files sha [] items) (\<lambda>files.
     (case pyget_or d ''desiredRunning'' (PBool True) of
        PBool b \<Rightarrow> Inr (assignments, files, b)
      | _ \<Rightarrow> bad ''Invalid desiredRunning''))))))))"

text \<open>\<open>canon\<close> is the canonical JSON text of the payload, in bytes; \<open>ValueError\<close> for a NaN.\<close>

definition validate_envelope ::
  "(pyval \<Rightarrow> string res) \<Rightarrow> (string \<Rightarrow> string) \<Rightarrow> pyval \<Rightarrow> desired res" where
  "validate_envelope canon sha v =
     (case v of
        PDict e \<Rightarrow>
          rbind (ensure (keys_are e [''revision'', ''hash'', ''payload'']) (PolicyError ''Invalid desired-state envelope'')) (\<lambda>_.
          case pyget e ''revision'' of
            PInt revision \<Rightarrow>
              if revision < 1 then bad ''Desired-state revision must be positive''
              else (case pyget e ''hash'' of
                PStr digest \<Rightarrow>
                  if length digest \<noteq> 64 then bad ''Invalid desired-state hash''
                  else (case pyget e ''payload'' of
                    PDict d \<Rightarrow>
                      rbind (canon (PDict d)) (\<lambda>raw.
                      rbind (ensure (int (length raw) \<le> 8388608) (PolicyError ''Desired state payload exceeds 8 MiB'')) (\<lambda>_.
                      rbind (ensure (sha raw = digest) (PolicyError ''Desired-state hash mismatch'')) (\<lambda>_.
                      rbind (payload_shape sha d) (\<lambda>(assignments, files, run).
                      Inr \<lparr>ds_revision = revision, ds_hash = digest, ds_payload = d,
                        ds_assignments = assignments, ds_files = files, ds_running = run\<rparr>))))
                  | _ \<Rightarrow> bad ''Desired state payload must be an object'')
              | _ \<Rightarrow> bad ''Invalid desired-state hash'')
          | _ \<Rightarrow> bad ''Desired-state revision must be positive'')
      | _ \<Rightarrow> bad ''Invalid desired-state envelope'')"

section \<open>Policies, references and clients of a desired state\<close>

record node_policy =
  np_limit_ip :: int
  np_limit_hwid :: int
  np_ip_blocked :: bool
  np_device_blocked :: bool

definition no_policy :: node_policy where
  "no_policy = \<lparr>np_limit_ip = 0, np_limit_hwid = 0, np_ip_blocked = False, np_device_blocked = False\<rparr>"

definition block_flag :: "dict \<Rightarrow> string \<Rightarrow> bool res" where
  "block_flag d k =
     (case map_of d k of
        None \<Rightarrow> Inr False
      | Some (PBool b) \<Rightarrow> Inr b
      | _ \<Rightarrow> bad ''Invalid global node block state'')"

definition limit_field :: "dict \<Rightarrow> string \<Rightarrow> int res" where
  "limit_field d k =
     (case pyget_or d k (PInt 0) of
        PInt n \<Rightarrow> if 0 \<le> n \<and> n \<le> 1000 then Inr n else bad ''Invalid node IP/HWID limit''
      | _ \<Rightarrow> bad ''Invalid node IP/HWID limit'')"

definition client_email :: "pyval \<Rightarrow> string \<Rightarrow> string res" where
  "client_email v message =
     (case v of PStr s \<Rightarrow> (if s = [] \<or> 128 < length s then bad message else Inr s) | _ \<Rightarrow> bad message)"

definition policy_row :: "(string \<times> node_policy) list \<Rightarrow> pyval \<Rightarrow> (string \<times> node_policy) res" where
  "policy_row seen item =
     (case item of
        PDict d \<Rightarrow>
          rbind (client_email (pyget d ''sourceEmail'') ''Invalid or duplicate node client policy'') (\<lambda>email.
          rbind (ensure (email \<notin> set (map fst seen)) (PolicyError ''Invalid or duplicate node client policy'')) (\<lambda>_.
          rbind (limit_field d ''limitIp'') (\<lambda>ip.
          rbind (limit_field d ''limitHwid'') (\<lambda>hwid.
          rbind (block_flag d ''globalIpBlocked'') (\<lambda>bi.
          rbind (block_flag d ''globalDeviceBlocked'') (\<lambda>bd.
          Inr (email, \<lparr>np_limit_ip = ip, np_limit_hwid = hwid, np_ip_blocked = bi, np_device_blocked = bd\<rparr>)))))))
      | _ \<Rightarrow> bad ''Invalid node client policy'')"

fun policy_rows :: "(string \<times> node_policy) list \<Rightarrow> pyval list \<Rightarrow> (string \<times> node_policy) list res" where
  "policy_rows seen [] = Inr seen"
| "policy_rows seen (x # xs) = rbind (policy_row seen x) (\<lambda>p. policy_rows (seen @ [p]) xs)"

definition policy_map :: "dict \<Rightarrow> (string \<times> node_policy) list res" where
  "policy_map payload =
     (case pyget_or payload ''security'' (PDict []) of
        PDict s \<Rightarrow> (case pyget_or s ''clients'' (PList []) of
                      PList xs \<Rightarrow> policy_rows [] xs | _ \<Rightarrow> Inl (OtherError ''TypeError''))
      | _ \<Rightarrow> Inl (OtherError ''AttributeError''))"

definition policy_for :: "(string \<times> node_policy) list \<Rightarrow> string \<Rightarrow> node_policy" where
  "policy_for ps email = (case map_of ps email of None \<Rightarrow> no_policy | Some p \<Rightarrow> p)"

definition mirror_email :: "(string \<Rightarrow> string) \<Rightarrow> string \<Rightarrow> string \<Rightarrow> string" where
  "mirror_email sha scope source = ''nm_'' @ take 24 (sha (scope @ [char_of (0::nat)] @ source))"

text \<open>\<open>_rewrite_managed_refs\<close>: references to managed files become paths of the node.\<close>

definition managed_ref :: "string \<Rightarrow> string" where
  "managed_ref i = ''managed://'' @ i"

definition rewrite_key :: "(string \<times> string) list \<Rightarrow> string \<Rightarrow> dict \<Rightarrow> dict res" where
  "rewrite_key mapping k d =
     (case pyget d k of
        PStr s \<Rightarrow>
          if take 10 s \<noteq> ''managed://'' then Inr d
          else (case map_of mapping s of
                  None \<Rightarrow> bad ''Inbound references unknown managed Node TLS file''
                | Some path \<Rightarrow> Inr (py_set k (PStr path) d))
      | _ \<Rightarrow> Inr d)"

definition rewrite_cert :: "(string \<times> string) list \<Rightarrow> pyval \<Rightarrow> pyval res" where
  "rewrite_cert mapping c =
     (case c of
        PDict d \<Rightarrow> rbind (rewrite_key mapping ''certificateFile'' d) (\<lambda>d1.
                   rbind (rewrite_key mapping ''keyFile'' d1) (\<lambda>d2. Inr (PDict d2)))
      | _ \<Rightarrow> Inr c)"

definition rewrite_refs :: "(string \<times> string) list \<Rightarrow> dict \<Rightarrow> dict res" where
  "rewrite_refs mapping inbound =
     (case pyget_or inbound ''streamSettings'' (PDict []) of
        PDict st \<Rightarrow>
          (case pyget_or st ''tlsSettings'' (PDict []) of
             PDict tls \<Rightarrow>
               (case pyget_or tls ''certificates'' (PList []) of
                  PList [] \<Rightarrow> Inr inbound
                | PList certs \<Rightarrow>
                    rbind (map_res (rewrite_cert mapping) certs) (\<lambda>certs'.
                    Inr (py_set ''streamSettings'' (PDict (py_set ''tlsSettings''
                           (PDict (py_set ''certificates'' (PList certs') tls)) st)) inbound))
                | _ \<Rightarrow> Inr inbound)
           | _ \<Rightarrow> Inr inbound)
      | _ \<Rightarrow> Inr inbound)"

section \<open>Staging\<close>

type_synonym mirrored = "string \<times> string \<times> dict"

record assigned =
  an_source :: int
  an_tag :: string
  an_inbound :: dict
  an_clients :: "mirrored list"

text \<open>
  The staging engine: what its \<open>save_inbound\<close> (after the inbounds already staged), \<open>create\<close>,
  \<open>save_section\<close> and \<open>build_config\<close> say, and the verdict of \<open>xray -test\<close> on the result. The
  configuration's hash is that of the installed paths.
\<close>

record stage =
  sg_inbound :: "(int \<times> dict) list \<Rightarrow> dict \<Rightarrow> err option"
  sg_client :: "(string \<times> dict) list \<Rightarrow> dict \<Rightarrow> int list \<Rightarrow> err option"
  sg_section :: "string \<Rightarrow> pyval \<Rightarrow> err option"
  sg_config :: "assigned list \<Rightarrow> pyval \<Rightarrow> string res"
  sg_verdict :: "err option"

definition no_error :: "err option \<Rightarrow> unit res" where
  "no_error r = (case r of None \<Rightarrow> Inr () | Some e \<Rightarrow> Inl e)"

definition mirror_client ::
  "(string \<Rightarrow> string) \<Rightarrow> string \<Rightarrow> (string \<times> node_policy) list \<Rightarrow> pyval \<Rightarrow> mirrored res" where
  "mirror_client sha scope policies entry =
     (case entry of
        PDict d \<Rightarrow>
          if \<not> keys_are d [''sourceEmail'', ''client''] then bad ''Invalid node client entry''
          else rbind (client_email (pyget d ''sourceEmail'') ''Invalid node source client'') (\<lambda>email.
          (case pyget d ''client'' of
             PDict raw \<Rightarrow>
               let mirror = mirror_email sha scope email;
                   p = policy_for policies email;
                   raw1 = py_set ''limitHwid'' (PInt (np_limit_hwid p)) (py_set ''email'' (PStr mirror) raw);
                   raw2 = (if np_ip_blocked p \<or> np_device_blocked p
                           then py_set ''enable'' (PBool False) raw1 else raw1)
               in Inr (email, mirror, raw2)
           | _ \<Rightarrow> bad ''Invalid node client payload''))
      | _ \<Rightarrow> bad ''Invalid node client entry'')"

definition source_tag :: "dict \<Rightarrow> string" where
  "source_tag d = (case pyget d ''tag'' of PStr s \<Rightarrow> s
     | PInt i \<Rightarrow> if i = 0 then [] else show_int i | _ \<Rightarrow> [])"

definition stage_assignment ::
  "(string \<Rightarrow> string) \<Rightarrow> string \<Rightarrow> stage \<Rightarrow> (string \<times> string) list \<Rightarrow> (string \<times> node_policy) list
   \<Rightarrow> assigned list \<Rightarrow> pyval \<Rightarrow> assigned res" where
  "stage_assignment sha scope sg tls policies done item =
     (case item of
        PDict d \<Rightarrow>
          (case pyget d ''sourceInboundId'' of
             PInt n \<Rightarrow>
               if n < 1 \<or> n \<in> set (map an_source done) then bad ''Invalid/duplicate source inbound''
               else (case pyget d ''inbound'' of
                 PDict raw \<Rightarrow>
                   let inbound = py_del ''applied'' (py_del ''id'' raw) in
                   rbind (rewrite_refs tls inbound) (\<lambda>candidate.
                   rbind (no_error (sg_inbound sg (map (\<lambda>a. (an_source a, an_inbound a)) done) candidate)) (\<lambda>_.
                   rbind (case pyget d ''clients'' of PList cs \<Rightarrow> map_res (mirror_client sha scope policies) cs
                            | _ \<Rightarrow> Inl (OtherError ''TypeError'')) (\<lambda>clients.
                   Inr \<lparr>an_source = n, an_tag = source_tag inbound, an_inbound = inbound, an_clients = clients\<rparr>)))
               | _ \<Rightarrow> bad ''Invalid node inbound payload'')
           | _ \<Rightarrow> bad ''Invalid/duplicate source inbound'')
      | _ \<Rightarrow> bad ''Invalid node assignment'')"

fun stage_assignments ::
  "(string \<Rightarrow> string) \<Rightarrow> string \<Rightarrow> stage \<Rightarrow> (string \<times> string) list \<Rightarrow> (string \<times> node_policy) list
   \<Rightarrow> assigned list \<Rightarrow> pyval list \<Rightarrow> assigned list res" where
  "stage_assignments sha scope sg tls policies done [] = Inr done"
| "stage_assignments sha scope sg tls policies done (x # xs) =
     rbind (stage_assignment sha scope sg tls policies done x)
       (\<lambda>a. stage_assignments sha scope sg tls policies (done @ [a]) xs)"

text \<open>One row per customer, with all the inbounds it is assigned to.\<close>

record merged =
  mg_source :: string
  mg_mirror :: string
  mg_raw :: dict
  mg_ids :: "int list"

definition merge_client :: "int \<Rightarrow> mirrored \<Rightarrow> merged list \<Rightarrow> merged list" where
  "merge_client n c rows =
     (case c of (email, mirror, raw) \<Rightarrow>
        upsert mg_source \<lparr>mg_source = email, mg_mirror = mirror, mg_raw = raw, mg_ids = [n]\<rparr>
          (\<lambda>m. m\<lparr>mg_ids := mg_ids m @ [n]\<rparr>) rows)"

definition merge_all :: "assigned list \<Rightarrow> merged list" where
  "merge_all xs = fold (\<lambda>a rows. fold (merge_client (an_source a)) (an_clients a) rows) xs []"

definition conflict_free :: "assigned list \<Rightarrow> bool" where
  "conflict_free xs \<longleftrightarrow>
     list_all (\<lambda>a. list_all (\<lambda>(email, mirror, raw).
        case lookup mg_source email (merge_all xs) of
          None \<Rightarrow> False | Some m \<Rightarrow> py_same (PDict (mg_raw m)) (PDict raw)) (an_clients a)) xs"

definition inbound_ids :: "merged \<Rightarrow> int list" where
  "inbound_ids m = sort (remdups (mg_ids m))"

fun stage_clients :: "stage \<Rightarrow> (string \<times> dict) list \<Rightarrow> merged list \<Rightarrow> unit res" where
  "stage_clients sg seen [] = Inr ()"
| "stage_clients sg seen (m # ms) =
     rbind (no_error (sg_client sg seen (mg_raw m) (inbound_ids m)))
       (\<lambda>_. stage_clients sg (seen @ [(mg_mirror m, mg_raw m)]) ms)"

definition section_body :: "dict \<Rightarrow> string \<Rightarrow> pyval" where
  "section_body payload name = (case pyget payload ''sections'' of PDict s \<Rightarrow> pyget s name | _ \<Rightarrow> PNone)"

record model =
  md_assigned :: "assigned list"
  md_policies :: "(string \<times> node_policy) list"
  md_hash :: string

text \<open>\<open>_validated_model\<close>. \<open>reuse\<close> is the hash of the running process, if one runs.\<close>

definition validated_model ::
  "(string \<Rightarrow> string) \<Rightarrow> string \<Rightarrow> stage \<Rightarrow> string option \<Rightarrow> desired \<Rightarrow> model res" where
  "validated_model sha scope sg reuse ds =
     rbind (policy_map (ds_payload ds)) (\<lambda>policies.
     rbind (stage_assignments sha scope sg (map (\<lambda>(i, raw). (managed_ref i, i)) (ds_files ds)) policies []
              (ds_assignments ds)) (\<lambda>xs.
     rbind (ensure (conflict_free xs) (PolicyError ''Conflicting node client payload'')) (\<lambda>_.
     rbind (stage_clients sg [] (merge_all xs)) (\<lambda>_.
     rbind (map_res (\<lambda>n. no_error (sg_section sg n (section_body (ds_payload ds) n))) state_sections) (\<lambda>_.
     rbind (sg_config sg xs (pyget (ds_payload ds) ''sections'')) (\<lambda>h.
     rbind (if reuse = Some h then Inr () else no_error (sg_verdict sg)) (\<lambda>_.
     Inr \<lparr>md_assigned = xs, md_policies = policies, md_hash = h\<rparr>)))))))"

section \<open>The Agent's tables\<close>

record hub_client =
  hc_id :: string
  hc_owner :: string
  hc_limit_ip :: int
  hc_ip_block :: bool
  hc_device_block :: bool

record reset_row =
  rr_id :: string
  rr_source :: string
  rr_up :: int
  rr_down :: int
  rr_at :: real

text \<open>
  The rows of the Agent besides its control state: inbounds and clients (the clients' counters are
  in the engine), sections, mirrored identities, observations and devices by client, the ledger of
  traffic resets, the TLS files and the ports the firewall broker allows.
\<close>

record site =
  si_agent :: agent
  si_inbounds :: "(int \<times> dict) list"
  si_sections :: "(string \<times> pyval) list"
  si_clients :: "hub_client list"
  si_links :: "(int \<times> string) list"
  si_mirrors :: "(string \<times> string) list"
  si_observed :: "string list"
  si_devices :: "string list"
  si_resets :: "reset_row list"
  si_tls :: "(string \<times> string) list"
  si_ports :: "int list"

definition site_clients :: "site \<Rightarrow> core_client list" where
  "site_clients s = eg_clients (ag_engine (si_agent s))"

definition set_clients :: "core_client list \<Rightarrow> site \<Rightarrow> site" where
  "set_clients cs s =
     s\<lparr>si_agent := (si_agent s)\<lparr>ag_engine := (ag_engine (si_agent s))\<lparr>eg_clients := cs\<rparr>\<rparr>\<rparr>"

definition set_applied :: "applied_state option \<Rightarrow> site \<Rightarrow> site" where
  "set_applied x s = s\<lparr>si_agent := (si_agent s)\<lparr>ag_applied := x\<rparr>\<rparr>"

record snapshot =
  sn_clients :: "core_client list"
  sn_inbounds :: "(int \<times> dict) list"
  sn_sections :: "(string \<times> pyval) list"
  sn_hub :: "hub_client list"
  sn_links :: "(int \<times> string) list"
  sn_mirrors :: "(string \<times> string) list"
  sn_observed :: "string list"
  sn_devices :: "string list"
  sn_resets :: "reset_row list"
  sn_applied :: "applied_state option"
  sn_control :: "(bool \<times> bool) option"

definition take_snapshot :: "site \<Rightarrow> snapshot" where
  "take_snapshot s =
     \<lparr>sn_clients = site_clients s, sn_inbounds = si_inbounds s, sn_sections = si_sections s,
      sn_hub = si_clients s, sn_links = si_links s, sn_mirrors = si_mirrors s,
      sn_observed = si_observed s, sn_devices = si_devices s, sn_resets = si_resets s,
      sn_applied = ag_applied (si_agent s), sn_control = ag_control (si_agent s)\<rparr>"

definition restore_snapshot :: "snapshot \<Rightarrow> site \<Rightarrow> site" where
  "restore_snapshot n s =
     (let a = si_agent s in
      s\<lparr>si_agent := a\<lparr>ag_engine := (ag_engine a)\<lparr>eg_clients := sn_clients n\<rparr>,
                      ag_applied := sn_applied n, ag_control := sn_control n\<rparr>,
        si_inbounds := sn_inbounds n, si_sections := sn_sections n, si_clients := sn_hub n,
        si_links := sn_links n, si_mirrors := sn_mirrors n, si_observed := sn_observed n,
        si_devices := sn_devices n, si_resets := sn_resets n\<rparr>)"

section \<open>The firewall broker's ports\<close>

text \<open>What the broker answers while the ports are synchronised.\<close>

record broker =
  bk_up :: bool
  bk_verified :: bool
  bk_updates :: bool
  bk_refuses :: "int list \<Rightarrow> bool"

definition broker_down :: err where
  "broker_down = PolicyError ''IP enforcement broker unavailable''"

definition broker_ports :: "broker \<Rightarrow> int list \<Rightarrow> (site, unit) effect" where
  "broker_ports b ports s =
     (if \<not> bk_up b then (s, Inl broker_down)
      else if \<not> bk_updates b then (s, Inl (PolicyError ''Root has not approved runtime data-port updates''))
      else if bk_refuses b ports then (s, Inl (PolicyError ''Runtime data ports overlap protected management ports''))
      else (s\<lparr>si_ports := ports\<rparr>, Inr ()))"

definition assignment_port :: "pyval \<Rightarrow> int list res" where
  "assignment_port assignment =
     (case pyget_or (case assignment of PDict d \<Rightarrow> d | _ \<Rightarrow> []) ''inbound'' (PDict []) of
        PDict inbound \<Rightarrow>
          if \<not> truthy (pyget_or inbound ''enable'' (PBool True)) then Inr []
          else rbind (py_int (py_or (pyget inbound ''port'') (PInt 0)))
                 (\<lambda>p. Inr (if 0 < p then [p] else []))
      | _ \<Rightarrow> Inl (OtherError ''AttributeError''))"

definition desired_ports :: "pyval list \<Rightarrow> int list res" where
  "desired_ports assignments =
     rbind (map_res assignment_port assignments) (\<lambda>ps. Inr (sort (remdups (concat ps))))"

definition enforcing :: "pyval \<Rightarrow> bool res" where
  "enforcing guard_section = rbind (py_field guard_section ''mode'' (PStr ''observe'')) (\<lambda>m. Inr (m = PStr ''enforce''))"

text \<open>The result is the previous port list, if the broker answered.\<close>

definition sync_guard_ports ::
  "broker \<Rightarrow> pyval \<Rightarrow> pyval list \<Rightarrow> (site, int list option) effect" where
  "sync_guard_ports b guard_section assignments s =
     (case rbind (enforcing guard_section) (\<lambda>enforce. rbind (desired_ports assignments) (\<lambda>ports. Inr (enforce, ports))) of
        Inl e \<Rightarrow> (s, Inl e)
      | Inr (enforce, ports) \<Rightarrow>
        if \<not> bk_up b then (s, if enforce then Inl broker_down else Inr None)
        else if enforce \<and> \<not> bk_verified b
        then (s, Inl (PolicyError ''Node Guard has not verified direct packet sources''))
        else if bk_updates b
        then (if set ports = set (si_ports s) then (s, Inr (Some (si_ports s)))
              else (case broker_ports b ports s of
                      (s', Inl e) \<Rightarrow> (s', Inl e) | (s', Inr _) \<Rightarrow> (s', Inr (Some (si_ports s)))))
        else if enforce \<and> \<not> set ports \<subseteq> set (si_ports s)
        then (s, Inl (PolicyError ''Node Guard root approval is missing for desired Xray ports''))
        else (s, Inr (Some (si_ports s))))"

definition reconcile_guard :: "broker \<Rightarrow> (site, unit) effect" where
  "reconcile_guard b s =
     (if (case ag_applied (si_agent s) of None \<Rightarrow> 0 | Some x \<Rightarrow> as_revision x) < 1 then (s, Inr ())
      else
      let rows = filter (\<lambda>(i, body). i \<in> set (map fst (si_links s))) (si_inbounds s);
          guard_section = (case map_of (si_sections s) ''ipguard'' of None \<Rightarrow> PDict [] | Some v \<Rightarrow> v)
      in (case sync_guard_ports b guard_section (map (\<lambda>(i, body). PDict [(''inbound'', PDict body)]) rows) s of
            (s', Inl e) \<Rightarrow> (s', Inl e) | (s', Inr _) \<Rightarrow> (s', Inr ())))"

section \<open>Replacing the generation\<close>

text \<open>
  \<open>_materialize_managed\<close> in the Agent's private directory: an existing file must have the same
  bytes, and files of earlier generations stay.
\<close>

fun materialize :: "(string \<times> string) list \<Rightarrow> (string \<times> string) list \<Rightarrow> (string \<times> string) list \<times> unit res" where
  "materialize [] tls = (tls, Inr ())"
| "materialize ((i, raw) # fs) tls =
     (case map_of tls i of
        Some old \<Rightarrow> if old \<noteq> raw then (tls, bad ''Existing managed Node TLS file is unsafe'') else materialize fs tls
      | None \<Rightarrow> materialize fs (tls @ [(i, raw)]))"

definition materialize_files :: "(string \<times> string) list \<Rightarrow> (site, unit) effect" where
  "materialize_files fs = on_part si_tls (\<lambda>t s. s\<lparr>si_tls := t\<rparr>) (materialize fs)"

fun insert_rows :: "('r \<Rightarrow> 'k) \<Rightarrow> 'r list \<Rightarrow> 'r list \<Rightarrow> 'r list res" where
  "insert_rows key [] t = Inr t"
| "insert_rows key (r # rs) t = rbind (insert_pk key r t) (insert_rows key rs)"

definition counters_of :: "core_client list \<Rightarrow> string \<Rightarrow> int \<times> int" where
  "counters_of cs email =
     (case lookup cc_email email cs of None \<Rightarrow> (0, 0) | Some c \<Rightarrow> (cc_up c, cc_down c))"

definition client_of_merged :: "core_client list \<Rightarrow> merged \<Rightarrow> core_client" where
  "client_of_merged old m =
     \<lparr>cc_email = mg_mirror m, cc_body = PDict (mg_raw m), cc_inbounds = inbound_ids m,
      cc_up = fst (counters_of old (mg_mirror m)), cc_down = snd (counters_of old (mg_mirror m))\<rparr>"

definition hub_client_of_merged :: "(string \<times> node_policy) list \<Rightarrow> merged \<Rightarrow> hub_client" where
  "hub_client_of_merged policies m =
     (let p = policy_for policies (mg_source m)
      in \<lparr>hc_id = mg_mirror m, hc_owner = ''_hub'', hc_limit_ip = np_limit_ip p,
          hc_ip_block = np_ip_blocked p, hc_device_block = np_device_blocked p\<rparr>)"

definition tls_paths :: "string \<Rightarrow> (string \<times> string) list \<Rightarrow> (string \<times> string) list" where
  "tls_paths dir fs = map (\<lambda>(i, raw). (managed_ref i, dir @ ''/'' @ i @ ''.pem'')) fs"

definition rewrite_inbound :: "(string \<times> string) list \<Rightarrow> assigned \<Rightarrow> (int \<times> dict) res" where
  "rewrite_inbound paths a = rbind (rewrite_refs paths (an_inbound a)) (\<lambda>d. Inr (an_source a, d))"

text \<open>The transaction that replaces every managed row; the counters of kept clients are carried over.\<close>

definition swap_rows :: "string \<Rightarrow> desired \<Rightarrow> model \<Rightarrow> site \<Rightarrow> (site \<times> unit) res" where
  "swap_rows dir ds md s =
     (let ms = merge_all (md_assigned md);
          old = site_clients s;
          kept = map mg_mirror ms;
          stale = filter (\<lambda>m. m \<notin> set kept) (map snd (si_mirrors s))
      in rbind (map_res (rewrite_inbound (tls_paths dir (ds_files ds))) (md_assigned md)) (\<lambda>bodies.
         rbind (insert_rows fst bodies []) (\<lambda>inbounds.
         rbind (insert_rows cc_email (map (client_of_merged old) ms) []) (\<lambda>clients.
         rbind (insert_rows fst (map (\<lambda>m. (mg_source m, mg_mirror m)) ms) []) (\<lambda>mirrors.
         rbind (insert_rows hc_id (map (hub_client_of_merged (md_policies md)) ms)
                  (delete_where (\<lambda>h. hc_owner h = ''_hub'') (si_clients s))) (\<lambda>hub.
         Inr (set_clients clients
               (s\<lparr>si_inbounds := inbounds,
                  si_sections := fold (\<lambda>n. AList.update n (section_body (ds_payload ds) n)) state_sections (si_sections s),
                  si_clients := hub,
                  si_links := map (\<lambda>a. (an_source a, an_tag a)) (md_assigned md),
                  si_mirrors := mirrors,
                  si_observed := filter (\<lambda>m. m \<notin> set stale) (si_observed s),
                  si_devices := filter (\<lambda>m. m \<notin> set stale) (si_devices s)\<rparr>), ())))))))"

text \<open>The environment of one \<open>apply\<close>: the lease clock, and Xray's answers before, after and on rollback.\<close>

record apply_env =
  ae_clock :: real
  ae_flush :: env
  ae_start :: env
  ae_back :: env
  ae_stage :: stage
  ae_broker :: broker
  ae_broker_back :: broker
  ae_root :: string

record attempt =
  at_site :: site
  at_snapshot :: "snapshot option"
  at_ports :: "int list option"

definition on_site :: "(site, 'x) effect \<Rightarrow> (attempt, 'x) effect" where
  "on_site = on_part at_site (\<lambda>s x. x\<lparr>at_site := s\<rparr>)"

definition on_core :: "(engine, 'x) effect \<Rightarrow> (site, 'x) effect" where
  "on_core = on_part (\<lambda>s. ag_engine (si_agent s)) (\<lambda>e s. s\<lparr>si_agent := (si_agent s)\<lparr>ag_engine := e\<rparr>\<rparr>)"

definition core_action :: "(string \<Rightarrow> string) \<Rightarrow> string \<Rightarrow> real \<Rightarrow> env \<Rightarrow> (site, unit) effect" where
  "core_action sha action t v s = on_core (core_command sha action (guarded t (si_agent s) v)) s"

definition keeps_running :: "bool \<Rightarrow> model \<Rightarrow> site \<Rightarrow> bool" where
  "keeps_running effective md s \<longleftrightarrow>
     (let e = ag_engine (si_agent s) in
      effective \<and> running e \<and> md_hash md = eg_applied_hash e \<and>
      set (map cc_email (eg_clients e)) = set (map mg_mirror (merge_all (md_assigned md))))"

definition flush_old :: "(string \<Rightarrow> string) \<Rightarrow> bool \<Rightarrow> real \<Rightarrow> env \<Rightarrow> (site, unit) effect" where
  "flush_old sha keep t v s =
     (if keep then on_core (collect_stats True True v) s else core_action sha ''stop'' t v s)"

definition save_snapshot :: "(attempt, unit) effect" where
  "save_snapshot = alter (\<lambda>x. x\<lparr>at_snapshot := Some (take_snapshot (at_site x))\<rparr>)"

definition open_ports :: "broker \<Rightarrow> desired \<Rightarrow> (attempt, unit) effect" where
  "open_ports b ds x =
     (case sync_guard_ports b (section_body (ds_payload ds) ''ipguard'') (ds_assignments ds) (at_site x) of
        (s, Inl e) \<Rightarrow> (x\<lparr>at_site := s\<rparr>, Inl e)
      | (s, Inr old) \<Rightarrow> (x\<lparr>at_site := s, at_ports := old\<rparr>, Inr ()))"

definition bring_up :: "(string \<Rightarrow> string) \<Rightarrow> bool \<Rightarrow> real \<Rightarrow> env \<Rightarrow> (site, unit) effect" where
  "bring_up sha effective t v s =
     (if effective then core_action sha ''start'' t v s else on_core (validate (guarded t (si_agent s) v)) s)"

definition commit_state :: "bool \<Rightarrow> bool \<Rightarrow> desired \<Rightarrow> (site, unit) effect" where
  "commit_state desired_run manual ds =
     alter (\<lambda>s. set_applied (Some \<lparr>as_revision = ds_revision ds, as_hash = ds_hash ds, as_error = []\<rparr>)
                  (s\<lparr>si_agent := write_control desired_run manual (si_agent s)\<rparr>))"

definition install :: "(string \<Rightarrow> string) \<Rightarrow> apply_env \<Rightarrow> desired \<Rightarrow> model \<Rightarrow> bool \<Rightarrow> (attempt, unit) effect" where
  "install sha ae ds md desired_run x =
     (let control = control_status (ae_clock ae) (si_agent (at_site x));
          effective = (desired_run \<and> \<not> ct_manual_stop control \<and>
                       lease_allowed (ae_clock ae) (ag_lease (si_agent (at_site x))));
          keep = keeps_running effective md (at_site x)
      in ebind (on_site (flush_old sha keep (ae_clock ae) (ae_flush ae))) (\<lambda>_.
         ebind save_snapshot (\<lambda>_.
         ebind (open_ports (ae_broker ae) ds) (\<lambda>_.
         ebind (on_site (materialize_files (ds_files ds))) (\<lambda>_.
         ebind (on_site (transaction (swap_rows (ae_root ae) ds md))) (\<lambda>_.
         ebind (on_site (bring_up sha effective (ae_clock ae) (ae_start ae))) (\<lambda>_.
         on_site (commit_state desired_run (ct_manual_stop control) ds))))))) x)"

fun err_class :: "err \<Rightarrow> string" where
  "err_class (PolicyError _) = ''PolicyError''"
| "err_class (PermissionDenied _) = ''PermissionDenied''"
| "err_class (IntegrityError _) = ''IntegrityError''"
| "err_class (CoreError _ _) = ''CoreError''"
| "err_class (HttpError _ _) = ''HTTPException''"
| "err_class (OtherError m) = m"

definition undo_ports :: "broker \<Rightarrow> int list option \<Rightarrow> site \<Rightarrow> site \<times> string list" where
  "undo_ports b old s =
     (case old of
        None \<Rightarrow> (s, [])
      | Some ports \<Rightarrow> (case broker_ports b ports s of
           (s', Inl e) \<Rightarrow> (s', [''guard:'' @ err_class e]) | (s', Inr _) \<Rightarrow> (s', [])))"

definition undo_core :: "(string \<Rightarrow> string) \<Rightarrow> bool \<Rightarrow> bool \<Rightarrow> real \<Rightarrow> env \<Rightarrow> site \<Rightarrow> site \<times> string list" where
  "undo_core sha was wanted t v s =
     (case core_action sha (if was then ''start'' else ''stop'') t v s of
        (s', Inl e) \<Rightarrow> (s', [''core:'' @ err_class e])
      | (s', Inr _) \<Rightarrow> (s'\<lparr>si_agent := set_wants wanted (si_agent s')\<rparr>, []))"

definition note_failure :: "int \<Rightarrow> string \<Rightarrow> string \<Rightarrow> site \<Rightarrow> site" where
  "note_failure revision digest detail s =
     set_applied (Some (case ag_applied (si_agent s) of
        None \<Rightarrow> \<lparr>as_revision = revision, as_hash = digest, as_error = detail\<rparr>
      | Some x \<Rightarrow> x\<lparr>as_error := detail\<rparr>)) s"

text \<open>The handler: every step of the rollback is tried, whatever the others do.\<close>

definition roll_back_state ::
  "(string \<Rightarrow> string) \<Rightarrow> apply_env \<Rightarrow> bool \<Rightarrow> bool \<Rightarrow> int \<Rightarrow> string \<Rightarrow> err \<Rightarrow> (attempt, unit) effect" where
  "roll_back_state sha ae was wanted revision digest ex x =
     (let s0 = (case at_snapshot x of None \<Rightarrow> at_site x | Some n \<Rightarrow> restore_snapshot n (at_site x));
          (s1, errs1) = undo_ports (ae_broker_back ae) (at_ports x) s0;
          (s2, errs2) = undo_core sha was wanted (ae_clock ae) (ae_back ae) s1;
          errs = errs1 @ errs2;
          detail = take 400 (err_message ex) @
            (if errs = [] then [] else ''; rollback failed: '' @ join '','' errs)
      in (x\<lparr>at_site := note_failure revision digest detail s2\<rparr>,
          Inl (if errs = [] then ex else CoreError detail 503)))"

definition applied_revision :: "site \<Rightarrow> int" where
  "applied_revision s = (case ag_applied (si_agent s) of None \<Rightarrow> 0 | Some x \<Rightarrow> as_revision x)"

definition applied_hash_of :: "site \<Rightarrow> string" where
  "applied_hash_of s = (case ag_applied (si_agent s) of None \<Rightarrow> [] | Some x \<Rightarrow> as_hash x)"

definition applied_error :: "site \<Rightarrow> string" where
  "applied_error s = (case ag_applied (si_agent s) of None \<Rightarrow> [] | Some x \<Rightarrow> as_error x)"

definition on_agent :: "(agent, 'x) effect \<Rightarrow> (site, 'x) effect" where
  "on_agent = on_part si_agent (\<lambda>a s. s\<lparr>si_agent := a\<rparr>)"

definition repeat_apply :: "(string \<Rightarrow> string) \<Rightarrow> apply_env \<Rightarrow> (site, bool) effect" where
  "repeat_apply sha ae =
     ebind (on_agent (reconcile_control sha (ae_clock ae) (ae_flush ae))) (\<lambda>_.
     ebind (reconcile_guard (ae_broker ae)) (\<lambda>_. return False))"

text \<open>\<open>_apply_locked\<close>; the result says whether the generation changed.\<close>

definition replace_state :: "(string \<Rightarrow> string) \<Rightarrow> apply_env \<Rightarrow> desired \<Rightarrow> (site, bool) effect" where
  "replace_state sha ae ds s =
     (let a = si_agent s; e = ag_engine a in
      case validated_model sha (ag_scope a) (ae_stage ae)
             (if running e then Some (eg_applied_hash e) else None) ds of
        Inl ex \<Rightarrow> (s, Inl ex)
      | Inr md \<Rightarrow>
        let desired_run = (if ag_receipt a \<noteq> None then ct_desired (control_status (ae_clock ae) a) else ds_running ds)
        in (case catch (install sha ae ds md desired_run)
                   (roll_back_state sha ae (running e) (eg_wants e) (applied_revision s) (applied_hash_of s))
                   \<lparr>at_site = s, at_snapshot = None, at_ports = None\<rparr> of
              (x, Inl ex) \<Rightarrow> (at_site x, Inl ex)
            | (x, Inr _) \<Rightarrow> (at_site x, Inr True)))"

definition apply_state ::
  "(pyval \<Rightarrow> string res) \<Rightarrow> (string \<Rightarrow> string) \<Rightarrow> apply_env \<Rightarrow> pyval \<Rightarrow> (site, bool) effect" where
  "apply_state canon sha ae envelope s =
     (case validate_envelope canon sha envelope of
        Inl ex \<Rightarrow> (s, Inl ex)
      | Inr ds \<Rightarrow>
        if pyget (ds_payload ds) ''nodeId'' \<noteq> PStr (ag_scope (si_agent s))
        then (s, bad ''Desired state targets a different Node'')
        else if ds_revision ds < applied_revision s then (s, bad ''Refusing stale desired-state revision'')
        else if ds_revision ds = applied_revision s \<and> ds_hash ds \<noteq> applied_hash_of s
        then (s, bad ''Revision already belongs to a different desired state'')
        else if ds_revision ds = applied_revision s \<and> applied_error s = [] then repeat_apply sha ae s
        else replace_state sha ae ds s)"

end
