(* ===== verification/Agent_Safety.thy ===== *)
theory Agent_Safety
  imports Agent_State
begin

text \<open>
  Replacing a node's configuration is all or nothing: a failed desired state leaves the previous
  generation, counters are never lost, stale envelopes are refused and no configuration starts a
  core that was stopped by hand.
\<close>

section \<open>Meters only grow\<close>

text \<open>The same customers, whose counters may have grown.\<close>

definition grown_client :: "core_client \<Rightarrow> core_client \<Rightarrow> bool" where
  "grown_client c d \<longleftrightarrow> cc_email d = cc_email c \<and> cc_body d = cc_body c \<and> cc_inbounds d = cc_inbounds c \<and>
     cc_up c \<le> cc_up d \<and> cc_down c \<le> cc_down d"

definition grown :: "core_client list \<Rightarrow> core_client list \<Rightarrow> bool" where
  "grown cs ds \<longleftrightarrow> list_all2 grown_client cs ds"

lemma grown_refl [simp]: "grown cs cs"
  by (simp add: grown_def grown_client_def list_all2_refl)

lemma grown_trans: "grown a b \<Longrightarrow> grown b c \<Longrightarrow> grown a c"
  unfolding grown_def by (rule list_all2_trans [of grown_client grown_client]) (auto simp: grown_client_def)

lemma grown_map: "(\<And>c. grown_client c (f c)) \<Longrightarrow> grown cs (map f cs)"
  by (simp add: grown_def list.rel_map list_all2_refl)

lemma grown_lookup:
  "grown cs ds \<Longrightarrow> (case lookup cc_email k cs of None \<Rightarrow> lookup cc_email k ds = None
     | Some c \<Rightarrow> \<exists>d. lookup cc_email k ds = Some d \<and> grown_client c d)"
  unfolding grown_def
  by (induction rule: list_all2_induct) (auto simp: grown_client_def split: option.splits)

lemma delta_nonneg: "0 \<le> new \<Longrightarrow> 0 \<le> delta old new"
  by (simp add: delta_def)

lemma counted_grows: "sample_nonneg new \<Longrightarrow> grown_client c (counted old new c)"
  by (auto simp: counted_def grown_client_def sample_nonneg_def intro!: delta_nonneg
      dest!: lookup_Some_mem split: option.splits prod.splits)

abbreviation meters_from :: "core_client list \<Rightarrow> engine \<Rightarrow> bool" where
  "meters_from cs \<equiv> \<lambda>e. grown cs (eg_clients e)"

lemma leaves_collect_stats: "leaves (meters_from cs) (collect_stats force strict v)"
proof -
  have "grown cs (fold (count_sample old) samples ds)"
    if q: "rbind (env_stats v) (\<lambda>entries. read_samples entries []) = Inr samples" and g: "grown cs ds"
    for samples old ds
  proof -
    obtain entries where r: "read_samples entries [] = Inr samples"
      using q by (auto simp: results)
    have "pk fst samples" "sample_nonneg samples"
      using read_samples_pk [OF r] read_samples_nonneg [OF r] by (simp_all add: pk_def sample_nonneg_def)
    then show ?thesis
      by (simp add: fold_count) (rule grown_trans [OF g], rule grown_map, rule counted_grows)
  qed
  then show ?thesis by (auto simp: leaves_def collect_stats_def split: sum.splits)
qed

lemma leaves_engine_parts:
  "leaves (meters_from cs) check_writes" "leaves (meters_from cs) (stop_child v)"
  "leaves (meters_from cs) (spawn b v)" "leaves (meters_from cs) (validate v)"
  by (auto simp: leaves_def check_writes_def require_that_def stop_child_def spawn_def validate_def Let_def
      split: sum.splits if_splits)

lemma leaves_roll_back: "leaves (meters_from cs) (roll_back v old h was ex)"
proof -
  have "meters_from cs (fst (spawn b v e))" if "meters_from cs e" for b e
    using leaves_engine_parts(3) that by (auto simp: leaves_def)
  then have "leaves (meters_from cs) (\<lambda>e.
     let e1 = (case old of None \<Rightarrow> e | Some t \<Rightarrow> e\<lparr>eg_active := Some t\<rparr>);
         e2 = (if old \<noteq> None \<and> was then fst (spawn (env_respawn v) v e1) else e1);
         message = err_message ex @
           (if old = None then ''; no previous running generation''
            else if \<not> was then ''; no previous running generation''
            else if running e2 then ''; previous process configuration restored''
            else ''; previous configuration written, restart failed'');
         e3 = e2\<lparr>eg_applied_hash := (if running e2 then h else []), eg_last_error := message\<rparr>
     in (e3, Inl (CoreError message 503) :: unit res))"
    by (auto simp: leaves_def Let_def split: option.splits)
  then show ?thesis unfolding roll_back_def by (intro leaves_ebind leaves_engine_parts)
qed

lemma leaves_if: "leaves P m \<Longrightarrow> leaves P n \<Longrightarrow> leaves P (\<lambda>s. if b then m s else n s)"
  by (simp add: leaves_def)

lemma leaves_result: "leaves P (\<lambda>s. (s, r))"
  by (simp add: leaves_def)

lemma leaves_state: "(\<And>s. leaves P (f s)) \<Longrightarrow> leaves P (\<lambda>s. f s s)"
  by (simp add: leaves_def)

lemma leaves_spawn_if: "leaves (meters_from cs) (\<lambda>e. if a \<or> b \<or> eg_wants e then spawn r v e else (e, Inr ()))"
  using leaves_engine_parts(3) by (auto simp: leaves_def)

lemma leaves_apply_config: "leaves (meters_from cs) (apply_config sha start force v)"
proof -
  define body :: "engine \<Rightarrow> (engine, unit) effect" where "body e = (\<lambda>s. case env_config v of Inl ex \<Rightarrow> (s, Inl ex)
     | Inr cfg \<Rightarrow> if \<not> force \<and> running e \<and> sha cfg = eg_applied_hash e then (s, Inr ()) else
       let old = eg_active e; old_hash = eg_applied_hash e; was = running e in
       ebind (validate v) (\<lambda>_.
       ebind (collect_stats True was v) (\<lambda>_.
       ebind (if was then stop_child v
              else require_that (\<lambda>_. env_port_free v)
                     (CoreError ''Core API port already occupied by another process'' 409)) (\<lambda>_.
       ebind (alter (\<lambda>e. e\<lparr>eg_previous := (if old = None then eg_previous e else old),
                           eg_active := Some cfg\<rparr>)) (\<lambda>_.
       ebind (catch (\<lambda>e. if start \<or> was \<or> eg_wants e then spawn (env_spawn v) v e else (e, Inr ()))
                (roll_back v old old_hash was)) (\<lambda>_.
       alter (\<lambda>e. e\<lparr>eg_applied_hash := (if running e then sha cfg else []),
                    eg_last_apply := env_now v, eg_last_error := [], eg_wants := running e\<rparr>)))))) s)" for e
  have grow: "leaves (meters_from cs) (alter f)" if "\<And>e. eg_clients (f e) = eg_clients e" for f
    using that by (simp add: leaves_def alter_def)
  have "leaves (meters_from cs) (body e)" for e
  proof (cases "env_config v")
    case (Inr cfg)
    have "leaves (meters_from cs) (if running e then stop_child v
              else require_that (\<lambda>_. env_port_free v)
                     (CoreError ''Core API port already occupied by another process'' 409))"
      using leaves_engine_parts(2) by (simp add: leaves_require_that)
    then show ?thesis
      unfolding body_def Inr sum.case Let_def
      by (intro leaves_if leaves_result leaves_ebind leaves_engine_parts leaves_collect_stats leaves_catch
          leaves_roll_back leaves_spawn_if grow) simp_all
  qed (simp add: body_def leaves_result)
  then have "leaves (meters_from cs) (\<lambda>s. body s s)" by (simp add: leaves_def)
  moreover have "apply_config sha start force v = ebind check_writes (\<lambda>_ s. body s s)"
    by (simp add: apply_config_def body_def)
  ultimately show ?thesis by (simp only:) (intro leaves_ebind leaves_engine_parts)
qed

lemma leaves_core_command: "leaves (meters_from cs) (core_command sha action v)"
proof -
  have stop: "leaves (meters_from cs) (stop_core v)"
  proof -
    have "leaves (meters_from cs) (ebind (collect_stats True (running e) v) (\<lambda>_.
        ebind (alter (\<lambda>e. e\<lparr>eg_wants := False\<rparr>)) (\<lambda>_.
        ebind (stop_child v) (\<lambda>_. alter (\<lambda>e. e\<lparr>eg_applied_hash := []\<rparr>)))))" for e
      by (intro leaves_ebind leaves_collect_stats leaves_engine_parts) (simp_all add: leaves_def alter_def)
    then show ?thesis by (simp only: leaves_def stop_core_def) blast
  qed
  show ?thesis
    unfolding core_command_def
    by (intro leaves_ebind leaves_engine_parts)
      (simp_all add: stop leaves_engine_parts leaves_apply_config leaves_raise)
qed

lemma core_command_grows: "core_command sha action v e = (e', r) \<Longrightarrow> grown (eg_clients e) (eg_clients e')"
  using leaves_core_command [of "eg_clients e" sha action v] by (auto simp: leaves_def dest: spec [of _ e])

lemma collect_stats_grows: "collect_stats force strict v e = (e', r) \<Longrightarrow> grown (eg_clients e) (eg_clients e')"
  using leaves_collect_stats [of "eg_clients e" force strict v] by (auto simp: leaves_def dest: spec [of _ e])

section \<open>The generation of a site\<close>

text \<open>What a failed configuration must leave as it was; the counters may have grown meanwhile.\<close>

definition same_generation :: "site \<Rightarrow> site \<Rightarrow> bool" where
  "same_generation s s' \<longleftrightarrow>
     si_inbounds s' = si_inbounds s \<and> si_sections s' = si_sections s \<and> si_clients s' = si_clients s \<and>
     si_links s' = si_links s \<and> si_mirrors s' = si_mirrors s \<and> si_observed s' = si_observed s \<and>
     si_devices s' = si_devices s \<and> si_resets s' = si_resets s \<and>
     ag_control (si_agent s') = ag_control (si_agent s) \<and>
     applied_revision s' = applied_revision s \<and> applied_hash_of s' = applied_hash_of s \<and>
     grown (site_clients s) (site_clients s')"

lemma same_generation_refl [simp]: "same_generation s s"
  by (simp add: same_generation_def)

lemma same_generation_trans: "same_generation a b \<Longrightarrow> same_generation b c \<Longrightarrow> same_generation a c"
  by (auto simp: same_generation_def intro: grown_trans)

lemma on_core_result:
  "on_core m s = (s', r) \<Longrightarrow> \<exists>e. m (ag_engine (si_agent s)) = (e, r) \<and>
     s' = s\<lparr>si_agent := (si_agent s)\<lparr>ag_engine := e\<rparr>\<rparr>"
  by (auto simp: on_core_def on_part_def split: prod.splits)

lemma on_core_same:
  assumes "on_core m s = (s', r)" and "\<And>e e' r. m e = (e', r) \<Longrightarrow> grown (eg_clients e) (eg_clients e')"
  shows "same_generation s s'"
  using on_core_result [OF assms(1)] assms(2)
  by (auto simp: same_generation_def site_clients_def applied_revision_def applied_hash_of_def)

lemma core_action_same: "core_action sha action t v s = (s', r) \<Longrightarrow> same_generation s s'"
  unfolding core_action_def by (erule on_core_same) (rule core_command_grows)

lemma flush_old_same: "flush_old sha keep t v s = (s', r) \<Longrightarrow> same_generation s s'"
  by (auto simp: flush_old_def intro: core_action_same on_core_same collect_stats_grows split: if_splits)

lemma set_wants_same: "same_generation s (s\<lparr>si_agent := set_wants b (si_agent s)\<rparr>)"
  by (simp add: same_generation_def set_wants_def site_clients_def applied_revision_def applied_hash_of_def)

lemma ports_same: "same_generation s (s\<lparr>si_ports := ps\<rparr>)"
  by (simp add: same_generation_def site_clients_def applied_revision_def applied_hash_of_def)

lemma broker_ports_result: "broker_ports b ports s = (s', r) \<Longrightarrow> s' = s\<lparr>si_ports := si_ports s'\<rparr>"
  by (auto simp: broker_ports_def split: if_splits)

lemma sync_guard_ports_result: "sync_guard_ports b g xs s = (s', r) \<Longrightarrow> s' = s\<lparr>si_ports := si_ports s'\<rparr>"
proof -
  assume run: "sync_guard_ports b g xs s = (s', r)"
  then have "s' = s \<or> (\<exists>ports r1. broker_ports b ports s = (s', r1))"
    by (auto simp: sync_guard_ports_def split: sum.splits if_splits prod.splits)
  with broker_ports_result show ?thesis by auto
qed

lemma broker_ports_same: "broker_ports b ports s = (s', r) \<Longrightarrow> same_generation s s'"
  using broker_ports_result ports_same by metis

lemma sync_guard_ports_same: "sync_guard_ports b g xs s = (s', r) \<Longrightarrow> same_generation s s'"
  using sync_guard_ports_result ports_same by metis

lemma reconcile_guard_same: "reconcile_guard b s = (s', r) \<Longrightarrow> same_generation s s'"
proof -
  assume run: "reconcile_guard b s = (s', r)"
  then have "s' = s \<or> (\<exists>g xs r1. sync_guard_ports b g xs s = (s', r1))"
    by (auto simp: reconcile_guard_def Let_def split: sum.splits if_splits prod.splits)
  then show ?thesis using sync_guard_ports_same by auto
qed

lemma restore_same: "same_generation s s1 \<Longrightarrow> same_generation s (restore_snapshot (take_snapshot s1) y)"
  by (simp add: same_generation_def restore_snapshot_def take_snapshot_def Let_def site_clients_def
      applied_revision_def applied_hash_of_def)

lemma note_failure_same:
  assumes "same_generation s s1"
  shows "same_generation s (note_failure (applied_revision s) (applied_hash_of s) detail s1)"
proof -
  have "note_failure (applied_revision s) (applied_hash_of s) detail s1 =
      set_applied (ag_applied (si_agent (note_failure (applied_revision s) (applied_hash_of s) detail s1))) s1"
    by (simp add: note_failure_def set_applied_def)
  then show ?thesis
    using assms by (auto simp: same_generation_def note_failure_def set_applied_def site_clients_def
        applied_revision_def applied_hash_of_def split: option.splits)
qed

lemma roll_back_state_same:
  assumes "roll_back_state sha ae was wanted (applied_revision s) (applied_hash_of s) ex x = (x', r)"
    and "case at_snapshot x of None \<Rightarrow> same_generation s (at_site x)
         | Some n \<Rightarrow> same_generation s (restore_snapshot n (at_site x))"
  shows "same_generation s (at_site x') \<and> \<not> ok r"
proof -
  let ?s0 = "case at_snapshot x of None \<Rightarrow> at_site x | Some n \<Rightarrow> restore_snapshot n (at_site x)"
  have s0: "same_generation s ?s0" using assms(2) by (simp split: option.splits)
  obtain s1 errs1 where p: "undo_ports (ae_broker_back ae) (at_ports x) ?s0 = (s1, errs1)" by fastforce
  obtain s2 errs2 where c: "undo_core sha was wanted (ae_clock ae) (ae_back ae) s1 = (s2, errs2)" by fastforce
  have "s1 = ?s0 \<or> (\<exists>ports r1. broker_ports (ae_broker_back ae) ports ?s0 = (s1, r1))"
    using p by (auto simp: undo_ports_def split: option.splits prod.splits sum.splits)
  with broker_ports_same have "same_generation ?s0 s1" by auto
  moreover have "same_generation s1 s2"
    using c by (auto simp: undo_core_def split: prod.splits sum.splits
        intro: core_action_same same_generation_trans [OF core_action_same set_wants_same])
  ultimately have "same_generation s s2" using s0 same_generation_trans by blast
  from note_failure_same [OF this] show ?thesis
    using assms(1) p c by (auto simp: roll_back_state_def Let_def)
qed

section \<open>A failed configuration leaves the previous generation\<close>

lemma on_site_result:
  "on_site m x = (x', r) \<Longrightarrow> \<exists>s. m (at_site x) = (s, r) \<and> x' = x\<lparr>at_site := s\<rparr>"
  by (auto simp: on_site_def on_part_def split: prod.splits)

lemma leaves_snapshot:
  "leaves (\<lambda>x. at_snapshot x = Some n) (on_site m)"
  "leaves (\<lambda>x. at_snapshot x = Some n) (open_ports b ds)"
  by (auto simp: leaves_def on_site_def on_part_def open_ports_def split: prod.splits sum.splits)

lemma install_failure:
  assumes "install sha ae ds md run \<lparr>at_site = s, at_snapshot = None, at_ports = None\<rparr> = (x, Inl ex)"
  shows "case at_snapshot x of None \<Rightarrow> same_generation s (at_site x)
         | Some n \<Rightarrow> same_generation s (restore_snapshot n (at_site x))"
proof -
  let ?x0 = "\<lparr>at_site = s, at_snapshot = None, at_ports = None\<rparr> :: attempt"
  let ?rest = "\<lambda>effective manual.
      ebind (open_ports (ae_broker ae) ds) (\<lambda>_.
      ebind (on_site (materialize_files (ds_files ds))) (\<lambda>_.
      ebind (on_site (transaction (swap_rows (ae_root ae) ds md))) (\<lambda>_.
      ebind (on_site (bring_up sha effective (ae_clock ae) (ae_start ae))) (\<lambda>_.
      on_site (commit_state run manual ds)))))"
  obtain keep effective manual where
    step: "ebind (on_site (flush_old sha keep (ae_clock ae) (ae_flush ae)))
      (\<lambda>_. ebind save_snapshot (\<lambda>_. ?rest effective manual)) ?x0 = (x, Inl ex)"
    using assms unfolding install_def Let_def by blast
  show ?thesis
    using step [unfolded ebind_Inl [of "on_site (flush_old sha keep (ae_clock ae) (ae_flush ae))"]]
  proof (elim disjE exE conjE)
    assume "on_site (flush_old sha keep (ae_clock ae) (ae_flush ae)) ?x0 = (x, Inl ex)"
    from on_site_result [OF this] show ?thesis by (auto intro: flush_old_same)
  next
    fix x1 u
    assume flush: "on_site (flush_old sha keep (ae_clock ae) (ae_flush ae)) ?x0 = (x1, Inr u)"
      and rest: "ebind save_snapshot (\<lambda>_. ?rest effective manual) x1 = (x, Inl ex)"
    let ?n = "take_snapshot (at_site x1)"
    have s1: "same_generation s (at_site x1)"
      using on_site_result [OF flush] by (auto intro: flush_old_same)
    have "leaves (\<lambda>x. at_snapshot x = Some ?n) (?rest effective manual)"
      by (intro leaves_ebind leaves_snapshot)
    then have "at_snapshot (fst (?rest effective manual (x1\<lparr>at_snapshot := Some ?n\<rparr>))) = Some ?n"
      by (simp add: leaves_def del: ebind.simps)
    moreover have "?rest effective manual (x1\<lparr>at_snapshot := Some ?n\<rparr>) = (x, Inl ex)"
      using rest by (simp add: save_snapshot_def alter_def del: ebind.simps) (simp only: ebind.simps prod.case sum.case alter_def)
    ultimately have "at_snapshot x = Some ?n" by simp
    with restore_same [OF s1] show ?thesis by simp
  qed
qed

lemma pause_grows:
  assumes "pause_expired_lease early v now wall (l, e) = ((l', e'), r)"
  shows "grown (eg_clients e) (eg_clients e')"
proof -
  obtain e2 r2 where c: "collect_stats True True v (e\<lparr>eg_wants := False\<rparr>) = (e2, r2)" by fastforce
  have "eg_clients e' = eg_clients e \<or> eg_clients e' = eg_clients e2"
    using assms c
    by (auto simp: pause_expired_lease_def Let_def stop_child_def split: if_splits sum.splits)
  with collect_stats_grows [OF c] show ?thesis by auto
qed

lemma reconcile_control_same: "on_agent (reconcile_control sha t v) s = (s', r) \<Longrightarrow> same_generation s s'"
proof -
  assume run: "on_agent (reconcile_control sha t v) s = (s', r)"
  obtain a where a: "reconcile_control sha t v (si_agent s) = (a, r)" and s': "s' = s\<lparr>si_agent := a\<rparr>"
    using run by (auto simp: on_agent_def on_part_def split: prod.splits)
  have "ag_control a = ag_control (si_agent s) \<and> ag_applied a = ag_applied (si_agent s) \<and>
      grown (eg_clients (ag_engine (si_agent s))) (eg_clients (ag_engine a))"
    using a by (auto simp: reconcile_control_def Let_def return_def set_wants_def
        dest!: pause_lease_result on_engine_result pause_grows core_command_grows
        split: if_splits prod.splits sum.splits)
  then show ?thesis
    by (simp add: s' same_generation_def site_clients_def applied_revision_def applied_hash_of_def)
qed

lemma repeat_apply_same: "repeat_apply sha ae s = (s', r) \<Longrightarrow> same_generation s s'"
proof -
  assume run: "repeat_apply sha ae s = (s', r)"
  obtain s1 r1 where c: "on_agent (reconcile_control sha (ae_clock ae) (ae_flush ae)) s = (s1, r1)" by fastforce
  obtain s2 r2 where g: "reconcile_guard (ae_broker ae) s1 = (s2, r2)" by fastforce
  have "s' = s1 \<or> s' = s2"
    using run c g by (auto simp: repeat_apply_def return_def split: sum.splits)
  with reconcile_control_same [OF c] reconcile_guard_same [OF g] same_generation_trans show ?thesis by blast
qed

text \<open>What \<open>replace_state\<close> does: nothing, a complete installation, or a rollback.\<close>

lemma replace_state_cases:
  assumes "replace_state sha ae ds s = (s', r)"
  shows "(s' = s \<and> \<not> ok r) \<or>
    (\<exists>md run x. install sha ae ds md run \<lparr>at_site = s, at_snapshot = None, at_ports = None\<rparr> = (x, Inr ()) \<and>
       s' = at_site x \<and> r = Inr True) \<or>
    (\<exists>md run x x' ex r'. install sha ae ds md run \<lparr>at_site = s, at_snapshot = None, at_ports = None\<rparr> = (x, Inl ex) \<and>
       roll_back_state sha ae (running (ag_engine (si_agent s))) (eg_wants (ag_engine (si_agent s)))
         (applied_revision s) (applied_hash_of s) ex x = (x', r') \<and> s' = at_site x' \<and> (ok r = ok r'))"
proof -
  let ?e = "ag_engine (si_agent s)"
  let ?md = "validated_model sha (ag_scope (si_agent s)) (ae_stage ae)
             (if running ?e then Some (eg_applied_hash ?e) else None) ds"
  let ?run = "if ag_receipt (si_agent s) \<noteq> None then ct_desired (control_status (ae_clock ae) (si_agent s)) else ds_running ds"
  show ?thesis
  proof (cases ?md)
    case (Inl ex)
    then show ?thesis using assms by (auto simp: replace_state_def Let_def)
  next
    case (Inr md)
    let ?x0 = "\<lparr>at_site = s, at_snapshot = None, at_ports = None\<rparr> :: attempt"
    obtain x q where i: "install sha ae ds md ?run ?x0 = (x, q)" by fastforce
    show ?thesis
    proof (cases q)
      case (Inr u)
      then have "s' = at_site x \<and> r = Inr True"
        using assms i \<open>?md = Inr md\<close> by (simp add: replace_state_def Let_def)
      with i Inr show ?thesis by auto
    next
      case (Inl ex)
      obtain x' r' where b: "roll_back_state sha ae (running ?e) (eg_wants ?e) (applied_revision s) (applied_hash_of s) ex x = (x', r')"
        by fastforce
      have "s' = at_site x' \<and> ok r = ok r'"
        using assms i Inl b \<open>?md = Inr md\<close> by (auto simp: replace_state_def Let_def split: sum.splits)
      with i Inl b show ?thesis by blast
    qed
  qed
qed

lemma apply_state_cases:
  assumes "apply_state canon sha ae envelope s = (s', r)"
  shows "(s' = s \<and> \<not> ok r) \<or> repeat_apply sha ae s = (s', r) \<or>
    (\<exists>ds. validate_envelope canon sha envelope = Inr ds \<and> applied_revision s \<le> ds_revision ds \<and>
       replace_state sha ae ds s = (s', r))"
  using assms by (auto simp: apply_state_def bad_def split: sum.splits if_splits)


section \<open>A successful configuration\<close>

lemma install_success:
  assumes "install sha ae ds md run \<lparr>at_site = s, at_snapshot = None, at_ports = None\<rparr> = (x, Inr ())"
  shows "\<exists>keep effective s1 s2 s3 s4.
    flush_old sha keep (ae_clock ae) (ae_flush ae) s = (s1, Inr ()) \<and>
    s2 = s1\<lparr>si_ports := si_ports s2, si_tls := si_tls s2\<rparr> \<and>
    swap_rows (ae_root ae) ds md s2 = Inr (s3, ()) \<and>
    bring_up sha effective (ae_clock ae) (ae_start ae) s3 = (s4, Inr ()) \<and>
    commit_state run (ct_manual_stop (control_status (ae_clock ae) (si_agent s))) ds s4 = (at_site x, Inr ()) \<and>
    effective = (run \<and> \<not> ct_manual_stop (control_status (ae_clock ae) (si_agent s)) \<and>
       lease_allowed (ae_clock ae) (ag_lease (si_agent s))) \<and> keep = keeps_running effective md s"
proof -
  let ?effective = "run \<and> \<not> ct_manual_stop (control_status (ae_clock ae) (si_agent s)) \<and>
       lease_allowed (ae_clock ae) (ag_lease (si_agent s))"
  let ?keep = "keeps_running ?effective md s"
  note run = assms [unfolded install_def Let_def attempt.simps ebind_Inr]
  obtain x1 x2 x3 x4 x5 x6 where
    1: "on_site (flush_old sha ?keep (ae_clock ae) (ae_flush ae)) \<lparr>at_site = s, at_snapshot = None, at_ports = None\<rparr> = (x1, Inr ())"
    and 2: "save_snapshot x1 = (x2, Inr ())" and 3: "open_ports (ae_broker ae) ds x2 = (x3, Inr ())"
    and 4: "on_site (materialize_files (ds_files ds)) x3 = (x4, Inr ())"
    and 5: "on_site (transaction (swap_rows (ae_root ae) ds md)) x4 = (x5, Inr ())"
    and 6: "on_site (bring_up sha ?effective (ae_clock ae) (ae_start ae)) x5 = (x6, Inr ())"
    and 7: "on_site (commit_state run (ct_manual_stop (control_status (ae_clock ae) (si_agent s))) ds) x6 = (x, Inr ())"
    using run by auto
  have f: "flush_old sha ?keep (ae_clock ae) (ae_flush ae) s = (at_site x1, Inr ())"
    using on_site_result [OF 1] by auto
  have x2: "at_site x2 = at_site x1" using 2 by (auto simp: save_snapshot_def alter_def)
  obtain old where "sync_guard_ports (ae_broker ae) (section_body (ds_payload ds) ''ipguard'') (ds_assignments ds) (at_site x2) =
      (at_site x3, Inr old)"
    using 3 by (auto simp: open_ports_def split: prod.splits sum.splits)
  from sync_guard_ports_result [OF this] have x3: "at_site x3 = (at_site x1)\<lparr>si_ports := si_ports (at_site x3)\<rparr>"
    by (simp only: x2)
  have x4: "at_site x4 = (at_site x3)\<lparr>si_tls := si_tls (at_site x4)\<rparr>"
    using on_site_result [OF 4] by (auto simp: materialize_files_def on_part_def split: prod.splits)
  have "at_site x4 = (at_site x1)\<lparr>si_ports := si_ports (at_site x4), si_tls := si_tls (at_site x4)\<rparr>"
    by (subst x4, subst x3) (simp add: x4 [THEN arg_cong, of si_ports])
  moreover have "swap_rows (ae_root ae) ds md (at_site x4) = Inr (at_site x5, ())"
    using on_site_result [OF 5] by (auto simp: transaction_Inr)
  moreover have "bring_up sha ?effective (ae_clock ae) (ae_start ae) (at_site x5) = (at_site x6, Inr ())"
    using on_site_result [OF 6] by auto
  moreover have "commit_state run (ct_manual_stop (control_status (ae_clock ae) (si_agent s))) ds (at_site x6) = (at_site x, Inr ())"
    using on_site_result [OF 7] by auto
  ultimately show ?thesis using f by blast
qed

lemma commit_state_result:
  "commit_state run manual ds s = (s', r) \<Longrightarrow>
    s' = set_applied (Some \<lparr>as_revision = ds_revision ds, as_hash = ds_hash ds, as_error = []\<rparr>)
      (s\<lparr>si_agent := write_control run manual (si_agent s)\<rparr>)"
  by (simp add: commit_state_def alter_def)

lemma insert_rows_result:
  "insert_rows key rs t = Inr u \<Longrightarrow> u = t @ rs \<and> (pk key t \<longrightarrow> pk key u)"
  by (induction rs arbitrary: t) (fastforce simp: results pk_append)+

lemma swap_rows_clients:
  assumes "swap_rows dir ds md s = Inr (s', ())"
  shows "site_clients s' = map (client_of_merged (site_clients s)) (merge_all (md_assigned md)) \<and>
    pk cc_email (site_clients s') \<and> ag_control (si_agent s') = ag_control (si_agent s) \<and>
    ag_applied (si_agent s') = ag_applied (si_agent s) \<and>
    engine_stopped (ag_engine (si_agent s')) = engine_stopped (ag_engine (si_agent s))"
proof -
  obtain clients s0 where c: "insert_rows cc_email (map (client_of_merged (site_clients s)) (merge_all (md_assigned md))) [] = Inr clients"
    and s': "s' = set_clients clients s0" and s0: "si_agent s0 = si_agent s"
    using assms by (auto simp: swap_rows_def Let_def results)
  show ?thesis
    using insert_rows_result [OF c]
    by (auto simp: s' s0 set_clients_def site_clients_def pk_def engine_stopped_def running_def)
qed

lemma lookup_in_map: "lookup key k (map f xs) = Some d \<Longrightarrow> \<exists>x \<in> set xs. d = f x \<and> key d = k"
  by (induction xs) (auto split: if_splits)

lemma bring_up_same: "bring_up sha effective t v s = (s', r) \<Longrightarrow> same_generation s s'"
  by (auto simp: bring_up_def validate_def intro: core_action_same on_core_same split: if_splits sum.splits)

text \<open>
  A configuration never loses metered traffic: whether it succeeds or fails, the counters of
  every client that is there before and after are at least what they were, the old process's last
  counters included.
\<close>

theorem configuration_keeps_meters:
  assumes "apply_state canon sha ae envelope s = (s', r)"
    and "lookup cc_email k (site_clients s) = Some c" and "lookup cc_email k (site_clients s') = Some d"
  shows "cc_up c \<le> cc_up d \<and> cc_down c \<le> cc_down d"
proof -
  have up: "cc_up c \<le> cc_up d \<and> cc_down c \<le> cc_down d"
    if "same_generation x y" "lookup cc_email k (site_clients x) = Some c" "lookup cc_email k (site_clients y) = Some d"
    for x y c d
    using that grown_lookup [of "site_clients x" "site_clients y" k]
    by (auto simp: same_generation_def grown_client_def)
  have there: "\<exists>d. lookup cc_email k (site_clients y) = Some d"
    if "same_generation x y" "lookup cc_email k (site_clients x) = Some c" for x y c
    using that grown_lookup [of "site_clients x" "site_clients y" k] by (auto simp: same_generation_def)
  have "same_generation s s' \<or> (\<exists>ds md run x. s' = at_site x \<and>
      install sha ae ds md run \<lparr>at_site = s, at_snapshot = None, at_ports = None\<rparr> = (x, Inr ()))"
  proof (cases r)
    case (Inl ex)
    have "same_generation s s'"
      using apply_state_cases [OF assms(1)]
    proof (elim disjE exE conjE)
      fix ds assume "replace_state sha ae ds s = (s', r)"
      from replace_state_cases [OF this] Inl show ?thesis
        using roll_back_state_same install_failure by fastforce
    qed (simp_all add: repeat_apply_same)
    then show ?thesis ..
  next
    case (Inr b)
    show ?thesis
      using apply_state_cases [OF assms(1)]
    proof (elim disjE exE conjE)
      fix ds assume "replace_state sha ae ds s = (s', r)"
      from replace_state_cases [OF this] show ?thesis
        using Inr roll_back_state_same install_failure by fastforce
    qed (simp_all add: repeat_apply_same Inr)
  qed
  then show ?thesis
  proof (elim disjE exE conjE)
    assume "same_generation s s'"
    with up assms(2,3) show ?thesis by blast
  next
    fix ds md run x
    assume s': "s' = at_site x"
      and i: "install sha ae ds md run \<lparr>at_site = s, at_snapshot = None, at_ports = None\<rparr> = (x, Inr ())"
    obtain keep effective s1 s2 s3 s4 where flush: "flush_old sha keep (ae_clock ae) (ae_flush ae) s = (s1, Inr ())"
      and s2: "s2 = s1\<lparr>si_ports := si_ports s2, si_tls := si_tls s2\<rparr>"
      and swap: "swap_rows (ae_root ae) ds md s2 = Inr (s3, ())"
      and start: "bring_up sha effective (ae_clock ae) (ae_start ae) s3 = (s4, Inr ())"
      and commit: "commit_state run (ct_manual_stop (control_status (ae_clock ae) (si_agent s))) ds s4 = (at_site x, Inr ())"
      using install_success [OF i] by blast
    obtain c1 where c1: "lookup cc_email k (site_clients s1) = Some c1"
      using there [OF flush_old_same [OF flush] assms(2)] by blast
    have old: "site_clients s2 = site_clients s1" by (subst s2) (simp add: site_clients_def)
    have "site_clients s' = site_clients s4"
      unfolding s' commit_state_result [OF commit] by (simp add: set_applied_def write_control_def site_clients_def)
    with assms(3) have d: "lookup cc_email k (site_clients s4) = Some d" by simp
    obtain d3 where d3: "lookup cc_email k (site_clients s3) = Some d3"
      using d grown_lookup [of "site_clients s3" "site_clients s4" k] bring_up_same [OF start]
      by (cases "lookup cc_email k (site_clients s3)") (auto simp: same_generation_def)
    obtain m where "d3 = client_of_merged (site_clients s2) m" "mg_mirror m = k"
      using lookup_in_map [of cc_email k "client_of_merged (site_clients s2)" "merge_all (md_assigned md)" d3] d3
        swap_rows_clients [OF swap] by (auto simp: client_of_merged_def)
    then have "cc_up d3 = cc_up c1 \<and> cc_down d3 = cc_down c1"
      by (simp add: client_of_merged_def counters_of_def old c1)
    with up [OF flush_old_same [OF flush] assms(2) c1] up [OF bring_up_same [OF start] d3 d] show ?thesis by linarith
  qed
qed

section \<open>Stale configurations\<close>

lemma install_revision:
  assumes "install sha ae ds md run \<lparr>at_site = s, at_snapshot = None, at_ports = None\<rparr> = (x, Inr ())"
  shows "applied_revision (at_site x) = ds_revision ds \<and> applied_hash_of (at_site x) = ds_hash ds \<and>
    applied_error (at_site x) = []"
proof -
  obtain s4 manual where "commit_state run manual ds s4 = (at_site x, Inr ())"
    using install_success [OF assms] by blast
  from commit_state_result [OF this] show ?thesis
    by (simp add: set_applied_def applied_revision_def applied_hash_of_def applied_error_def)
qed

definition envelope_revision :: "pyval \<Rightarrow> int option" where
  "envelope_revision v =
     (case v of PDict e \<Rightarrow> (case pyget e ''revision'' of PInt n \<Rightarrow> Some n | _ \<Rightarrow> None) | _ \<Rightarrow> None)"

lemma validated_revision:
  "validate_envelope canon sha v = Inr ds \<Longrightarrow> envelope_revision v = Some (ds_revision ds)"
  by (auto simp: validate_envelope_def envelope_revision_def bad_def results
      split: pyval.splits if_splits prod.splits)

definition configure :: "(pyval \<Rightarrow> string res) \<Rightarrow> (string \<Rightarrow> string) \<Rightarrow> apply_env \<times> pyval \<Rightarrow> site \<Rightarrow> site" where
  "configure canon sha x s = fst (apply_state canon sha (fst x) (snd x) s)"

lemma configure_revision:
  "applied_revision s \<le> applied_revision (configure canon sha x s)"
  "envelope_revision (snd x) = Some n \<Longrightarrow> n < applied_revision s \<Longrightarrow> configure canon sha x s = s"
proof -
  obtain s' r where run: "apply_state canon sha (fst x) (snd x) s = (s', r)" by fastforce
  show "applied_revision s \<le> applied_revision (configure canon sha x s)"
    using apply_state_cases [OF run]
  proof (elim disjE exE conjE)
    fix ds
    assume le: "applied_revision s \<le> ds_revision ds" and "replace_state sha (fst x) ds s = (s', r)"
    from replace_state_cases [OF this(2)] show ?thesis
    proof (elim disjE exE conjE)
      fix md run y y' ex r'
      assume i: "install sha (fst x) ds md run \<lparr>at_site = s, at_snapshot = None, at_ports = None\<rparr> = (y, Inl ex)"
        and b: "roll_back_state sha (fst x) (running (ag_engine (si_agent s))) (eg_wants (ag_engine (si_agent s)))
           (applied_revision s) (applied_hash_of s) ex y = (y', r')" and "s' = at_site y'"
      with roll_back_state_same [OF b install_failure [OF i]] run show ?thesis
        by (simp add: configure_def same_generation_def)
    qed (auto simp: configure_def run le dest: install_revision)
  next
    assume "repeat_apply sha (fst x) s = (s', r)"
    from repeat_apply_same [OF this] show ?thesis by (simp add: configure_def run same_generation_def)
  qed (simp add: configure_def run)
  show "envelope_revision (snd x) = Some n \<Longrightarrow> n < applied_revision s \<Longrightarrow> configure canon sha x s = s"
    using validated_revision [of canon sha "snd x"]
    by (auto simp: configure_def apply_state_def split: sum.splits)
qed

interpretation desired_fence: fenced_register "configure canon sha" "\<lambda>_. True" applied_revision
    "\<lambda>x. envelope_revision (snd x)" for canon sha
  by unfold_locales (simp_all add: configure_revision)

text \<open>
  Once an Agent has acknowledged a desired-state revision, an envelope with a lower one changes
  nothing, whatever configurations it has accepted, refused or rolled back since.
\<close>

theorem stale_configuration_refused:
  assumes "envelope_revision envelope = Some n" and "n < applied_revision s"
  shows "configure canon sha (ae, envelope) (run_steps (configure canon sha) xs s) =
    run_steps (configure canon sha) xs s"
  using desired_fence.delayed_request_refused [OF TrueI, of "(ae, envelope)" n s canon sha xs] assms by simp

section \<open>A manual stop survives every configuration\<close>

abbreviation idle :: "site \<Rightarrow> bool" where
  "idle s \<equiv> engine_stopped (ag_engine (si_agent s))"

lemma core_action_idle:
  assumes "core_action sha ''stop'' t v s = (s', r)" and "idle s"
  shows "idle s'"
  using on_core_result [OF assms(1) [unfolded core_action_def]] assms(2) stop_command_stopped by fastforce

lemma flush_old_idle: "flush_old sha False t v s = (s', r) \<Longrightarrow> idle s \<Longrightarrow> idle s'"
  by (simp add: flush_old_def core_action_idle)

lemma bring_up_idle: "bring_up sha False t v s = (s', r) \<Longrightarrow> idle s \<Longrightarrow> idle s'"
  by (auto simp: bring_up_def validate_def dest!: on_core_result split: sum.splits)

lemma leaves_on_site:
  assumes "\<And>s s' r. m s = (s', r) \<Longrightarrow> P s \<Longrightarrow> P s'"
  shows "leaves (\<lambda>x. P (at_site x)) (on_site m)"
proof -
  have "P (at_site (fst (on_site m x)))" if "P (at_site x)" for x
    using on_site_result [of m x "fst (on_site m x)" "snd (on_site m x)"] assms that by auto
  then show ?thesis by (simp add: leaves_def)
qed

lemma install_idle:
  assumes "ag_control (si_agent s) = Some (d, True)" and "idle s"
  shows "idle (at_site (fst (install sha ae ds md run \<lparr>at_site = s, at_snapshot = None, at_ports = None\<rparr>)))"
proof -
  let ?I = "\<lambda>x. idle (at_site x)"
  have manual: "ct_manual_stop (control_status (ae_clock ae) (si_agent s))"
    using assms(1) by (simp add: control_status_def Let_def)
  have swap: "idle s'" if "transaction (swap_rows (ae_root ae) ds md) s1 = (s', r)" "idle s1" for s1 s' r
  proof (cases r)
    case (Inr u)
    with that show ?thesis using swap_rows_clients [of "ae_root ae" ds md s1 s'] by (simp add: transaction_Inr)
  qed (use that in \<open>simp add: transaction_Inl\<close>)
  have ports: "leaves ?I (open_ports (ae_broker ae) ds)"
  proof -
    have "idle (at_site (fst (open_ports (ae_broker ae) ds x)))" if "idle (at_site x)" for x
    proof -
      obtain s1 r1 where g: "sync_guard_ports (ae_broker ae) (section_body (ds_payload ds) ''ipguard'') (ds_assignments ds)
          (at_site x) = (s1, r1)" by fastforce
      have "si_agent s1 = si_agent (at_site x)" by (subst sync_guard_ports_result [OF g]) simp
      with that g show ?thesis by (simp add: open_ports_def split: sum.splits)
    qed
    then show ?thesis by (simp add: leaves_def)
  qed
  have "leaves ?I (ebind (on_site (flush_old sha False (ae_clock ae) (ae_flush ae))) (\<lambda>_.
         ebind save_snapshot (\<lambda>_.
         ebind (open_ports (ae_broker ae) ds) (\<lambda>_.
         ebind (on_site (materialize_files (ds_files ds))) (\<lambda>_.
         ebind (on_site (transaction (swap_rows (ae_root ae) ds md))) (\<lambda>_.
         ebind (on_site (bring_up sha False (ae_clock ae) (ae_start ae))) (\<lambda>_.
         on_site (commit_state run True ds))))))))"
  proof (intro leaves_ebind leaves_on_site [where P = "\<lambda>s. idle s"] ports)
    show "leaves ?I save_snapshot" by (simp add: leaves_def save_snapshot_def alter_def)
    show "idle s'" if "materialize_files (ds_files ds) s1 = (s', r)" "idle s1" for s1 s' r
      using that by (auto simp: materialize_files_def on_part_def split: prod.splits)
    show "idle s'" if "commit_state run True ds s1 = (s', r)" "idle s1" for s1 s' r
      using that(2) unfolding commit_state_result [OF that(1)] by (simp add: set_applied_def write_control_def)
  qed (fact flush_old_idle bring_up_idle swap)+
  then show ?thesis
    using assms(2) manual by (simp add: install_def Let_def leaves_def keeps_running_def del: ebind.simps)
qed

lemma roll_back_state_idle:
  assumes "roll_back_state sha ae False False n h ex x = (x', r)" and "idle (at_site x)"
  shows "idle (at_site x')"
proof -
  let ?s0 = "case at_snapshot x of None \<Rightarrow> at_site x | Some n \<Rightarrow> restore_snapshot n (at_site x)"
  have s0: "idle ?s0"
    using assms(2) by (auto simp: restore_snapshot_def Let_def engine_stopped_def running_def split: option.splits)
  obtain s1 errs1 where p: "undo_ports (ae_broker_back ae) (at_ports x) ?s0 = (s1, errs1)" by fastforce
  obtain s2 errs2 where c: "undo_core sha False False (ae_clock ae) (ae_back ae) s1 = (s2, errs2)" by fastforce
  have "s1 = ?s0 \<or> (\<exists>ports r1. broker_ports (ae_broker_back ae) ports ?s0 = (s1, r1))"
    using p by (auto simp: undo_ports_def split: option.splits prod.splits sum.splits)
  then have "si_agent s1 = si_agent ?s0"
  proof (elim disjE exE)
    fix ports r1
    assume "broker_ports (ae_broker_back ae) ports ?s0 = (s1, r1)"
    then show ?thesis by (subst broker_ports_result) simp_all
  qed simp
  with s0 have "idle s1" by simp
  obtain s3 r3 where a: "core_action sha ''stop'' (ae_clock ae) (ae_back ae) s1 = (s3, r3)" by fastforce
  have "idle s3" by (rule core_action_idle [OF a \<open>idle s1\<close>])
  then have "idle s2"
    using c a by (auto simp: undo_core_def set_wants_def engine_stopped_def running_def split: sum.splits)
  then show ?thesis
    using assms(1) p c by (auto simp: roll_back_state_def Let_def note_failure_def set_applied_def)
qed

lemma apply_state_manual:
  assumes "apply_state canon sha ae envelope s = (s', r)" and "manually_stopped (si_agent s)"
  shows "manually_stopped (si_agent s')"
proof -
  obtain d where stop: "ag_control (si_agent s) = Some (d, True)" "idle s"
    using assms(2) by (auto simp: manually_stopped_def)
  have off: "\<not> running (ag_engine (si_agent s))" "\<not> eg_wants (ag_engine (si_agent s))"
    using stop(2) by (simp_all add: engine_stopped_def)
  show ?thesis
    using apply_state_cases [OF assms(1)]
  proof (elim disjE exE conjE)
    fix ds
    assume "replace_state sha ae ds s = (s', r)"
    from replace_state_cases [OF this] show ?thesis
    proof (elim disjE exE conjE)
      fix md run x
      assume i: "install sha ae ds md run \<lparr>at_site = s, at_snapshot = None, at_ports = None\<rparr> = (x, Inr ())"
        and "s' = at_site x"
      obtain s4 where c: "commit_state run (ct_manual_stop (control_status (ae_clock ae) (si_agent s))) ds s4 = (at_site x, Inr ())"
        using install_success [OF i] by blast
      have "ct_manual_stop (control_status (ae_clock ae) (si_agent s))"
        using stop(1) by (simp add: control_status_def Let_def)
      then have "ag_control (si_agent (at_site x)) = Some (run, True)"
        unfolding commit_state_result [OF c] by (simp add: set_applied_def write_control_def)
      with install_idle [OF stop, of sha ae ds md run] i \<open>s' = at_site x\<close> show ?thesis
        by (simp add: manually_stopped_def)
    next
      fix md run x x' ex r'
      assume i: "install sha ae ds md run \<lparr>at_site = s, at_snapshot = None, at_ports = None\<rparr> = (x, Inl ex)"
        and b: "roll_back_state sha ae (running (ag_engine (si_agent s))) (eg_wants (ag_engine (si_agent s)))
         (applied_revision s) (applied_hash_of s) ex x = (x', r')" and "s' = at_site x'"
      have "same_generation s s'" using roll_back_state_same [OF b install_failure [OF i]] \<open>s' = at_site x'\<close> by simp
      moreover have "idle s'"
        using roll_back_state_idle [of sha ae "applied_revision s" "applied_hash_of s" ex x x' r']
          install_idle [OF stop, of sha ae ds md run] i b off \<open>s' = at_site x'\<close> by simp
      ultimately show ?thesis using stop(1) by (simp add: manually_stopped_def same_generation_def)
    qed (simp add: assms(2))
  next
    assume rep: "repeat_apply sha ae s = (s', r)"
    obtain s1 r1 where c: "on_agent (reconcile_control sha (ae_clock ae) (ae_flush ae)) s = (s1, r1)" by fastforce
    have "manually_stopped (si_agent s1)"
      using c reconcile_stopped [OF _ assms(2)] by (auto simp: on_agent_def on_part_def split: prod.splits)
    obtain s2 r2 where g: "reconcile_guard (ae_broker ae) s1 = (s2, r2)" by fastforce
    have "s2 = s1 \<or> (\<exists>g xs r3. sync_guard_ports (ae_broker ae) g xs s1 = (s2, r3))"
      using g by (auto simp: reconcile_guard_def Let_def split: sum.splits if_splits prod.splits)
    then have "si_agent s2 = si_agent s1"
      by (elim disjE exE) (simp, subst sync_guard_ports_result, assumption, simp)
    moreover have "s' = s1 \<or> s' = s2"
      using rep c g by (auto simp: repeat_apply_def return_def split: sum.splits)
    ultimately show ?thesis using \<open>manually_stopped (si_agent s1)\<close> by auto
  qed (simp add: assms(2))
qed

text \<open>
  C24. No sequence of configurations from the Hub starts a core that an operator stopped by hand,
  whatever its payload's \<open>desiredRunning\<close> says and however the attempts fail.
\<close>

theorem manual_stop_survives_configuration:
  assumes "manually_stopped (si_agent s)"
  shows "\<not> running (ag_engine (si_agent (run_steps (configure canon sha) xs s)))"
proof -
  have "manually_stopped (si_agent (configure canon sha x s))" if "manually_stopped (si_agent s)" for x s
    using apply_state_manual [OF _ that, of canon sha "fst x" "snd x"]
    by (cases "apply_state canon sha (fst x) (snd x) s") (simp add: configure_def)
  then have "manually_stopped (si_agent (run_steps (configure canon sha) xs s))"
    using assms by (induction xs arbitrary: s) auto
  then show ?thesis by (simp add: manually_stopped_def engine_stopped_def)
qed

section \<open>Concrete instances\<close>

text \<open>An Agent running on its first configuration, and a second one whose Xray rejects it.\<close>

definition sample_site :: site where
  "sample_site = \<lparr>si_agent = sample_agent\<lparr>ag_control := None, ag_receipt := None, ag_engine := sample_engine,
       ag_applied := Some \<lparr>as_revision = 3, as_hash = replicate 64 CHR ''0'', as_error = []\<rparr>\<rparr>,
     si_inbounds = [(1, [(''port'', PInt 443)])], si_sections = [], si_clients = [], si_links = [(1, [])],
     si_mirrors = [(''u'', ''a'')], si_observed = [''a''], si_devices = [], si_resets = [], si_tls = [], si_ports = []\<rparr>"

definition sample_payload :: pyval where
  "sample_payload = PDict [(''schema'', PInt 1), (''nodeId'', PStr ''n1''),
     (''sections'', PDict (map (\<lambda>n. (n, PDict [])) state_sections)), (''assignments'', PList []),
     (''security'', PDict [])]"

definition sample_envelope :: "int \<Rightarrow> pyval" where
  "sample_envelope n = PDict [(''revision'', PInt n), (''hash'', PStr (replicate 64 CHR ''1'')),
     (''payload'', sample_payload)]"

definition sample_stage :: stage where
  "sample_stage = \<lparr>sg_inbound = (\<lambda>_ _. None), sg_client = (\<lambda>_ _ _. None), sg_section = (\<lambda>_ _. None),
     sg_config = (\<lambda>_ _. Inr ''h''), sg_verdict = None\<rparr>"

definition sample_apply :: "env \<Rightarrow> apply_env" where
  "sample_apply v = \<lparr>ae_clock = 0, ae_flush = sample_env, ae_start = v, ae_back = sample_env, ae_stage = sample_stage,
     ae_broker = \<lparr>bk_up = False, bk_verified = False, bk_updates = False, bk_refuses = (\<lambda>_. False)\<rparr>,
     ae_broker_back = \<lparr>bk_up = False, bk_verified = False, bk_updates = False, bk_refuses = (\<lambda>_. False)\<rparr>,
     ae_root = ''/tls''\<rparr>"

definition flat :: "string \<Rightarrow> string" where
  "flat t = replicate 64 CHR ''1''"

lemma sample_envelope_valid:
  "validate_envelope (\<lambda>_. Inr []) flat (sample_envelope 4) =
     Inr \<lparr>ds_revision = 4, ds_hash = replicate 64 CHR ''1'', ds_payload = (case sample_payload of PDict d \<Rightarrow> d),
        ds_assignments = [], ds_files = [], ds_running = True\<rparr>"
  by code_simp

lemma sample_rejected: "\<not> ok (snd (apply_state (\<lambda>_. Inr []) flat (sample_apply rejecting_env) (sample_envelope 4) sample_site))"
  by code_simp

abbreviation sample_failure :: "site \<times> bool res" where
  "sample_failure \<equiv> apply_state (\<lambda>_. Inr []) flat (sample_apply rejecting_env) (sample_envelope 4) sample_site"

lemma sample_failure: "\<exists>s' ex. sample_failure = (s', Inl ex)"
  using sample_rejected by (cases "sample_failure"; cases "snd sample_failure") (simp_all del: split_paired_Ex)


theorem configuration_keeps_meters_witness:
  "10 \<le> cc_up (the (lookup cc_email ''a'' (site_clients (fst sample_failure))))"
proof -
  obtain s' r where run: "sample_failure = (s', r)" by fastforce
  have "lookup cc_email ''a'' (site_clients (fst sample_failure)) \<noteq> None" by code_simp
  then obtain d where d: "lookup cc_email ''a'' (site_clients s') = Some d" by (auto simp: run)
  have "lookup cc_email ''a'' (site_clients sample_site) =
      Some \<lparr>cc_email = ''a'', cc_body = PDict [], cc_inbounds = [1], cc_up = 10, cc_down = 20\<rparr>"
    by (simp add: site_clients_def sample_site_def sample_engine_def)
  from configuration_keeps_meters [OF run this d] d show ?thesis by (simp add: run)
qed

theorem stale_configuration_refused_witness:
  "configure (\<lambda>_. Inr []) flat (sample_apply sample_env, sample_envelope 2)
     (run_steps (configure (\<lambda>_. Inr []) flat) [(sample_apply rejecting_env, sample_envelope 4)] sample_site) =
   run_steps (configure (\<lambda>_. Inr []) flat) [(sample_apply rejecting_env, sample_envelope 4)] sample_site"
  by (rule stale_configuration_refused [where n = 2])
    (simp_all add: envelope_revision_def sample_envelope_def applied_revision_def sample_site_def)

theorem manual_stop_survives_configuration_witness:
  "\<not> running (ag_engine (si_agent (run_steps (configure (\<lambda>_. Inr []) flat)
     [(sample_apply sample_env, sample_envelope 4)] (sample_site\<lparr>si_agent := sample_agent\<rparr>))))"
  by (rule manual_stop_survives_configuration)
    (auto simp: manually_stopped_def sample_agent_def engine_stopped_def running_def)

end
