(* ===== verification/Agent_Api.thy ===== *)
theory Agent_Api
  imports Agent_Safety
begin

text \<open>
  The Agent's authenticated endpoints that change its state (backend/node_agent.py): traffic
  resets with their ledger (\<open>reset_result\<close> and \<open>remember_reset\<close> of backend/node_runtime.py), the
  acknowledgement of an accounting lease, the conditional activation, clearing of observations and
  the maintenance tick. Python's \<open>str\<close> of an arbitrary JSON value is the parameter \<open>show\<close>.
\<close>

section \<open>Traffic resets\<close>

record capture =
  tc_source :: string
  tc_up :: int
  tc_down :: int
  tc_at :: real
  tc_cached :: bool

definition text_of :: "(pyval \<Rightarrow> string) \<Rightarrow> pyval \<Rightarrow> string" where
  "text_of show v = (if \<not> truthy v then [] else case v of PStr s \<Rightarrow> s | _ \<Rightarrow> show v)"

definition cached_capture :: "reset_row \<Rightarrow> capture" where
  "cached_capture r = \<lparr>tc_source = rr_source r, tc_up = rr_up r, tc_down = rr_down r, tc_at = rr_at r, tc_cached = True\<rparr>"

definition reset_result :: "string \<Rightarrow> string \<Rightarrow> site \<Rightarrow> capture option res" where
  "reset_result reset_id source s =
     (if \<not> (8 \<le> length reset_id \<and> length reset_id \<le> 128) \<or> source = []
      then bad ''Invalid node traffic reset identity''
      else case lookup rr_id reset_id (si_resets s) of
        None \<Rightarrow> Inr None
      | Some r \<Rightarrow> if rr_source r \<noteq> source then bad ''Reset ID belongs to a different client''
                  else Inr (Some (cached_capture r)))"

text \<open>The ledger keeps the newest rows.\<close>

definition ledger_limit :: nat where
  "ledger_limit = 5000"

definition prune_resets :: "reset_row list \<Rightarrow> reset_row list" where
  "prune_resets rows =
     (let old = drop ledger_limit (sort_key (\<lambda>r. - rr_at r) rows)
      in filter (\<lambda>r. rr_id r \<notin> rr_id ` set old) rows)"

definition remember_reset :: "string \<Rightarrow> string \<Rightarrow> int \<Rightarrow> int \<Rightarrow> real \<Rightarrow> (site, capture) effect" where
  "remember_reset reset_id source up down now s =
     (if up < 0 \<or> down < 0 then (s, bad ''Invalid reset counters'')
      else case lookup rr_id reset_id (si_resets s) of
        Some r \<Rightarrow> (s, if rr_source r \<noteq> source then bad ''Reset ID belongs to a different client''
                      else Inr (cached_capture r))
      | None \<Rightarrow>
          (s\<lparr>si_resets := prune_resets (si_resets s @
               [\<lparr>rr_id = reset_id, rr_source = source, rr_up = up, rr_down = down, rr_at = now\<rparr>])\<rparr>,
           Inr \<lparr>tc_source = source, tc_up = up, tc_down = down, tc_at = now, tc_cached = False\<rparr>))"

definition mirror_for_source :: "string \<Rightarrow> site \<Rightarrow> string option" where
  "mirror_for_source source s = map_of (si_mirrors s) source"

definition source_for_mirror :: "string \<Rightarrow> site \<Rightarrow> string option" where
  "source_for_mirror mirror s = map_of (map (\<lambda>(a, b). (b, a)) (si_mirrors s)) mirror"

definition valid_counters :: "int \<times> int \<Rightarrow> bool" where
  "valid_counters p \<longleftrightarrow> 0 \<le> fst p \<and> fst p \<le> max_int \<and> 0 \<le> snd p \<and> snd p \<le> max_int"

definition conflict :: "err \<Rightarrow> err" where
  "conflict ex = (if is_policy_error ex then HttpError (err_message ex) 409 else ex)"

definition fresh_reset :: "string \<Rightarrow> string \<Rightarrow> string \<Rightarrow> env \<Rightarrow> real \<Rightarrow> (site, capture) effect" where
  "fresh_reset reset_id source mirror v now =
     ebind (on_core (reset_counters mirror v)) (\<lambda>result s.
       case result of
         None \<Rightarrow> (s, Inl (HttpError ''Mirrored traffic state is missing'' 404))
       | Some p \<Rightarrow>
           if \<not> valid_counters p then (s, Inl (CoreError ''Invalid core counters'' 422))
           else catch (remember_reset reset_id source (fst p) (snd p) now) (\<lambda>ex. raise (conflict ex)) s)"

definition traffic_reset :: "(pyval \<Rightarrow> string) \<Rightarrow> dict \<Rightarrow> env \<Rightarrow> real \<Rightarrow> (site, capture) effect" where
  "traffic_reset show body v now s =
     (let source = text_of show (pyget body ''sourceEmail''); reset_id = text_of show (pyget body ''resetId'')
      in if source = [] \<or> \<not> (8 \<le> length reset_id \<and> length reset_id \<le> 128)
         then (s, Inl (HttpError ''Invalid traffic reset request'' 400))
         else case reset_result reset_id source s of
           Inl ex \<Rightarrow> (s, Inl (conflict ex))
         | Inr (Some c) \<Rightarrow> (s, Inr c)
         | Inr None \<Rightarrow>
             (case mirror_for_source source s of
                None \<Rightarrow> (s, Inl (HttpError ''Mirrored client is not present'' 404))
              | Some mirror \<Rightarrow> fresh_reset reset_id source mirror v now s))"

section \<open>Reading traffic and clearing observations\<close>

definition traffic_items :: "site \<Rightarrow> (string \<times> int \<times> int) list" where
  "traffic_items s =
     concat (map (\<lambda>c. case source_for_mirror (cc_email c) s of
        None \<Rightarrow> [] | Some source \<Rightarrow> [(source, cc_up c, cc_down c)]) (site_clients s))"

text \<open>\<open>token\<close> is the random challenge; the answer carries the items and the challenge.\<close>

definition traffic_snapshot ::
  "string \<Rightarrow> real \<Rightarrow> env \<Rightarrow> (site, (string \<times> int \<times> int) list \<times> string) effect" where
  "traffic_snapshot token t v s =
     (case on_core (collect_stats True True v) s of
        (s1, Inl ex) \<Rightarrow> (s1, Inl (HttpError (err_message ex) 503))
      | (s1, Inr _) \<Rightarrow>
          if eg_stats_error (ag_engine (si_agent s1)) \<noteq> []
          then (s1, Inl (HttpError ''Node traffic checkpoint is unhealthy'' 503))
          else if \<not> list_all (\<lambda>c. valid_counters (cc_up c, cc_down c))
                      (filter (\<lambda>c. source_for_mirror (cc_email c) s1 \<noteq> None) (site_clients s1))
          then (s1, Inl (CoreError ''Invalid core counters'' 422))
          else (s1\<lparr>si_agent := (si_agent s1)\<lparr>ag_lease := issue_challenge token t (ag_lease (si_agent s1))\<rparr>\<rparr>,
                Inr (traffic_items s1, token)))"

definition security_clear :: "(pyval \<Rightarrow> string) \<Rightarrow> dict \<Rightarrow> (site, nat \<times> nat) effect" where
  "security_clear show body s =
     (let source = text_of show (pyget body ''sourceEmail''); kind = text_of show (pyget body ''kind'')
      in if kind \<notin> {''ips'', ''devices'', ''all''} then (s, Inl (HttpError ''Invalid security clear kind'' 400))
         else case mirror_for_source source s of
           None \<Rightarrow> (s, Inl (HttpError ''Mirrored client is not present'' 404))
         | Some mirror \<Rightarrow>
             let ips = kind \<in> {''ips'', ''all''}; devices = kind \<in> {''devices'', ''all''}
             in (s\<lparr>si_observed := (if ips then removeAll mirror (si_observed s) else si_observed s),
                   si_devices := (if devices then removeAll mirror (si_devices s) else si_devices s)\<rparr>,
                 Inr (if ips then count_list (si_observed s) mirror else 0,
                      if devices then count_list (si_devices s) mirror else 0)))"

section \<open>Leases, activation and maintenance\<close>

definition command_revision :: "agent \<Rightarrow> int" where
  "command_revision a = (case ag_receipt a of None \<Rightarrow> 0 | Some r \<Rightarrow> rc_revision r)"

definition lease_conflict :: "err \<Rightarrow> err" where
  "lease_conflict ex = (case ex of CoreError m _ \<Rightarrow> HttpError m 409 | _ \<Rightarrow> conflict ex)"

definition renew_site :: "dict \<Rightarrow> real \<Rightarrow> real \<Rightarrow> (site, bool) effect" where
  "renew_site body t wall s =
     on_part (\<lambda>s. ag_lease (si_agent s)) (\<lambda>l s. s\<lparr>si_agent := (si_agent s)\<lparr>ag_lease := l\<rparr>\<rparr>)
       (renew (PDict body) (applied_revision s) (applied_hash_of s) (applied_error s)
          (command_revision (si_agent s)) t wall) s"

text \<open>A grant starts the core if it should run and does not run the current configuration.\<close>

definition start_if_due :: "(string \<Rightarrow> string) \<Rightarrow> real \<Rightarrow> env \<Rightarrow> (site, unit) effect" where
  "start_if_due sha t v s =
     (let e = ag_engine (si_agent s) in
      if \<not> ct_effective (control_status t (si_agent s)) then (s, Inr ())
      else if \<not> running e then core_action sha ''start'' t v s
      else case env_config v of
        Inl ex \<Rightarrow> (s, Inl ex)
      | Inr cfg \<Rightarrow> if sha cfg \<noteq> eg_applied_hash e then core_action sha ''start'' t v s else (s, Inr ()))"

definition accounting_lease ::
  "(string \<Rightarrow> string) \<Rightarrow> dict \<Rightarrow> real \<Rightarrow> real \<Rightarrow> env \<Rightarrow> (site, bool) effect" where
  "accounting_lease sha body t wall v =
     catch (ebind (require_that (\<lambda>s. eg_stats_error (ag_engine (si_agent s)) = [])
                     (PolicyError ''Node traffic checkpoint is unhealthy'')) (\<lambda>_.
            ebind (renew_site body t wall) (\<lambda>duplicate.
            ebind (on_agent (reconcile_control sha t v)) (\<lambda>_.
            ebind (start_if_due sha t v) (\<lambda>_. return duplicate)))))
       (\<lambda>ex. raise (lease_conflict ex))"

record activation =
  av_order :: pyval
  av_revision :: int
  av_hash :: string
  av_validated :: string

definition parse_activation :: "string \<Rightarrow> dict \<Rightarrow> activation res" where
  "parse_activation node d =
     (let no = Inl (HttpError ''Invalid conditional activation envelope'' 422) in
      if \<not> keys_are d [''nodeId'', ''revision'', ''commandId'', ''action'', ''desiredRevision'', ''desiredHash'', ''validatedHash'']
         \<or> pyget d ''action'' \<noteq> PStr ''start'' \<or> pyget d ''nodeId'' \<noteq> PStr node
      then no
      else (case (pyget d ''revision'', pyget d ''commandId'', pyget d ''desiredRevision'',
                  pyget d ''desiredHash'', pyget d ''validatedHash'') of
        (PInt n, PStr i, PInt m, PStr h, PStr k) \<Rightarrow>
          if 0 < n \<and> n < 2 ^ 63 \<and> lower_hex 32 i \<and> 0 < m \<and> m < 2 ^ 63 \<and> lower_hex 64 h \<and> lower_hex 64 k
          then Inr \<lparr>av_order = PDict [(''nodeId'', PStr node), (''revision'', PInt n), (''commandId'', PStr i),
                      (''action'', PStr ''start'')],
                    av_revision = m, av_hash = h, av_validated = k\<rparr>
          else no
      | _ \<Rightarrow> no))"

definition api_error :: "err \<Rightarrow> err" where
  "api_error ex = (case ex of CoreError m status \<Rightarrow> HttpError m status
     | _ \<Rightarrow> if is_policy_error ex then HttpError (err_message ex) 422 else ex)"

definition validated_hash :: "(string \<Rightarrow> string) \<Rightarrow> env \<Rightarrow> (site, string) effect" where
  "validated_hash sha v =
     ebind (on_core (validate v)) (\<lambda>_ s. (s, rbind (env_config v) (\<lambda>cfg. Inr (sha cfg))))"

definition conditional_activation ::
  "(string \<Rightarrow> string) \<Rightarrow> dict \<Rightarrow> real \<Rightarrow> env \<Rightarrow> (site, command_ack) effect" where
  "conditional_activation sha body t v s =
     (case parse_activation (ag_scope (si_agent s)) body of
        Inl ex \<Rightarrow> (s, Inl ex)
      | Inr x \<Rightarrow>
        if applied_revision s \<noteq> av_revision x \<or> applied_hash_of s \<noteq> av_hash x \<or> applied_error s \<noteq> []
        then (s, Inl (HttpError ''Activation configuration changed; review again'' 409))
        else catch (ebind (on_core check_writes) (\<lambda>_.
                    ebind (validated_hash sha v) (\<lambda>h.
                    if h \<noteq> av_validated x
                    then raise (HttpError ''Activation runtime configuration changed; review again'' 409)
                    else on_agent (ordered_command sha (av_order x) t v))))
               (\<lambda>ex. raise (api_error ex)) s)"

definition apply_endpoint ::
  "(pyval \<Rightarrow> string res) \<Rightarrow> (string \<Rightarrow> string) \<Rightarrow> apply_env \<Rightarrow> pyval \<Rightarrow> (site, bool) effect" where
  "apply_endpoint canon sha ae body =
     catch (apply_state canon sha ae body)
       (\<lambda>ex. raise (case ex of CoreError m _ \<Rightarrow> HttpError m 422
          | OtherError m \<Rightarrow> if m = ''ValueError'' then HttpError m 422 else ex
          | _ \<Rightarrow> if is_policy_error ex then HttpError (err_message ex) 422 else ex))"

definition ordered_endpoint :: "(string \<Rightarrow> string) \<Rightarrow> pyval \<Rightarrow> real \<Rightarrow> env \<Rightarrow> (site, command_ack) effect" where
  "ordered_endpoint sha body t v =
     catch (on_agent (ordered_command sha body t v)) (\<lambda>ex. raise (api_error ex))"

definition core_endpoint :: "(string \<Rightarrow> string) \<Rightarrow> string \<Rightarrow> real \<Rightarrow> env \<Rightarrow> (site, unit) effect" where
  "core_endpoint sha action t v s =
     (if action \<notin> {''validate'', ''restart'', ''start'', ''stop''} then (s, Inl (HttpError ''Unknown node core action'' 404))
      else catch (on_agent (unordered_command sha action t v))
             (\<lambda>ex. raise (case ex of CoreError m status \<Rightarrow> HttpError m status | _ \<Rightarrow> ex)) s)"

text \<open>\<open>EngineLoop.tick\<close>: the statistics and the crash recovery run even if a reconciliation raises.\<close>

definition maintenance_tick ::
  "(string \<Rightarrow> string) \<Rightarrow> broker \<Rightarrow> real \<Rightarrow> env \<Rightarrow> site \<Rightarrow> site \<times> string" where
  "maintenance_tick sha b t v s =
     (let (s1, r1) = ebind (on_agent (reconcile_control sha t v)) (\<lambda>_. reconcile_guard b) s;
          s2 = fst (on_core (collect_stats False False v) s1);
          a2 = si_agent s2;
          s3 = s2\<lparr>si_agent := a2\<lparr>ag_engine := flush sha (guarded t a2 v) (ag_engine a2)\<rparr>\<rparr>;
          stats = eg_stats_error (ag_engine (si_agent s3))
      in (s3, if stats \<noteq> [] then ''CoreError: '' @ take 400 stats
              else case r1 of Inr _ \<Rightarrow> [] | Inl ex \<Rightarrow> err_class ex @ '': '' @ take 400 (err_message ex)))"

section \<open>A reset applies once\<close>

lemma prune_small: "length rows \<le> ledger_limit \<Longrightarrow> prune_resets rows = rows"
  by (simp add: prune_resets_def)

lemma reset_counters_result:
  assumes "reset_counters k v e = (e', Inr (Some p))"
  shows "\<exists>e1 c. collect_stats True (running e) v e = (e1, Inr ()) \<and> lookup cc_email k (eg_clients e1) = Some c \<and>
    p = (cc_up c, cc_down c) \<and> lookup cc_email k (eg_clients e') = Some (c\<lparr>cc_up := 0, cc_down := 0\<rparr>)"
  using assms
  by (auto simp: reset_counters_def check_writes_def require_that_def table.find_change_same
      split: if_splits prod.splits sum.splits)

lemma fresh_reset_result:
  assumes "fresh_reset reset_id source mirror v now s = (s1, Inr c)" and "lookup rr_id reset_id (si_resets s) = None"
    and "length (si_resets s) < ledger_limit"
  shows "\<exists>row. si_resets s1 = si_resets s @ [row] \<and> rr_id row = reset_id \<and> rr_source row = source \<and>
    cached_capture row = c\<lparr>tc_cached := True\<rparr> \<and> counters_of (site_clients s1) mirror = (0, 0) \<and>
    fst (counters_of (site_clients s) mirror) \<le> tc_up c \<and> snd (counters_of (site_clients s) mirror) \<le> tc_down c"
proof -
  obtain s0 result where reset0: "on_core (reset_counters mirror v) s = (s0, Inr result)"
    and tail0: "(case result of
         None \<Rightarrow> (s0, Inl (HttpError ''Mirrored traffic state is missing'' 404))
       | Some p \<Rightarrow>
           if \<not> valid_counters p then (s0, Inl (CoreError ''Invalid core counters'' 422))
           else catch (remember_reset reset_id source (fst p) (snd p) now) (\<lambda>ex. raise (conflict ex)) s0) = (s1, Inr c)"
    using assms(1) unfolding fresh_reset_def ebind_Inr by blast
  then obtain p where p: "result = Some p" by (cases result) auto
  have reset: "on_core (reset_counters mirror v) s = (s0, Inr (Some p))" using reset0 p by simp
  have rest: "remember_reset reset_id source (fst p) (snd p) now s0 = (s1, Inr c)"
    using tail0 by (cases "remember_reset reset_id source (fst p) (snd p) now s0"; cases "snd (remember_reset reset_id source (fst p) (snd p) now s0)")
      (simp_all add: p raise_def split: if_splits)
  obtain e' where e': "reset_counters mirror v (ag_engine (si_agent s)) = (e', Inr (Some p))"
    and s0: "s0 = s\<lparr>si_agent := (si_agent s)\<lparr>ag_engine := e'\<rparr>\<rparr>"
    using on_core_result [OF reset] by auto
  obtain e1 d where d: "collect_stats True (running (ag_engine (si_agent s))) v (ag_engine (si_agent s)) = (e1, Inr ())"
    "lookup cc_email mirror (eg_clients e1) = Some d" "p = (cc_up d, cc_down d)"
    "lookup cc_email mirror (eg_clients e') = Some (d\<lparr>cc_up := 0, cc_down := 0\<rparr>)"
    using reset_counters_result [OF e'] by blast
  have grow: "grown (site_clients s) (eg_clients e1)"
    using collect_stats_grows [OF d(1)] by (simp add: site_clients_def)
  obtain c0 where c0: "lookup cc_email mirror (site_clients s) = Some c0" "grown_client c0 d"
    using grown_lookup [OF grow, of mirror] d(2) by (auto split: option.splits)
  have none: "lookup rr_id reset_id (si_resets s0) = None" "length (si_resets s0) < ledger_limit"
    using assms(2,3) by (simp_all add: s0)
  let ?row = "\<lparr>rr_id = reset_id, rr_source = source, rr_up = fst p, rr_down = snd p, rr_at = now\<rparr>"
  have s1: "s1 = s0\<lparr>si_resets := si_resets s0 @ [?row]\<rparr>"
    "c = \<lparr>tc_source = source, tc_up = fst p, tc_down = snd p, tc_at = now, tc_cached = False\<rparr>"
    using rest none by (auto simp: remember_reset_def prune_small bad_def split: if_splits)
  show ?thesis
    using c0 d
    by (intro exI [of _ ?row]) (simp add: s1 s0 cached_capture_def counters_of_def site_clients_def grown_client_def)
qed

text \<open>
  A traffic reset the Hub repeats because it lost the answer is applied once: the first capture
  takes at least everything metered for the customer and leaves the meter at zero; a repeated
  request with its identity returns the same capture and changes nothing. (The ledger holds 5000
  resets; older identities are forgotten.)
\<close>

theorem reset_applies_once:
  assumes "traffic_reset show body v now s = (s1, Inr c)" and "\<not> tc_cached c"
    and "length (si_resets s) < ledger_limit"
  shows "traffic_reset show body v' now' s1 = (s1, Inr (c\<lparr>tc_cached := True\<rparr>)) \<and>
    (case mirror_for_source (text_of show (pyget body ''sourceEmail'')) s of None \<Rightarrow> False
     | Some mirror \<Rightarrow> counters_of (site_clients s1) mirror = (0, 0) \<and>
         fst (counters_of (site_clients s) mirror) \<le> tc_up c \<and> snd (counters_of (site_clients s) mirror) \<le> tc_down c)"
proof -
  let ?source = "text_of show (pyget body ''sourceEmail'')" and ?id = "text_of show (pyget body ''resetId'')"
  have ids: "?source \<noteq> []" "8 \<le> length ?id" "length ?id \<le> 128"
    using assms(1) by (auto simp: traffic_reset_def Let_def split: if_splits)
  have none: "lookup rr_id ?id (si_resets s) = None"
    using assms(1,2) ids
    by (auto simp: traffic_reset_def reset_result_def cached_capture_def bad_def Let_def split: option.splits if_splits)
  then obtain mirror where m: "mirror_for_source ?source s = Some mirror"
    and run: "fresh_reset ?id ?source mirror v now s = (s1, Inr c)"
    using assms(1) ids by (auto simp: traffic_reset_def reset_result_def Let_def split: option.splits)
  obtain row where row: "si_resets s1 = si_resets s @ [row]" "rr_id row = ?id" "rr_source row = ?source"
    "cached_capture row = c\<lparr>tc_cached := True\<rparr>" "counters_of (site_clients s1) mirror = (0, 0)"
    "fst (counters_of (site_clients s) mirror) \<le> tc_up c" "snd (counters_of (site_clients s) mirror) \<le> tc_down c"
    using fresh_reset_result [OF run none assms(3)] by blast
  have "reset_result ?id ?source s1 = Inr (Some (c\<lparr>tc_cached := True\<rparr>))"
    using ids none row(2-4) by (simp add: reset_result_def row(1) lookup_append)
  with ids m row(5-7) show ?thesis by (simp add: traffic_reset_def Let_def)
qed

definition sample_reset :: dict where
  "sample_reset = [(''sourceEmail'', PStr ''u''), (''resetId'', PStr ''reset-01'')]"

lemma sample_reset_counters:
  "reset_counters ''a'' sample_env sample_engine =
     (sample_engine\<lparr>eg_clients := [\<lparr>cc_email = ''a'', cc_body = PDict [], cc_inbounds = [1], cc_up = 0, cc_down = 0\<rparr>],
        eg_samples := [(''a'', 5, 7)], eg_last_stats := 100\<rparr>, Inr (Some (15, 27)))"
proof -
  have "running sample_engine" by (simp add: running_def sample_engine_def)
  then show ?thesis
    by (simp add: reset_counters_def check_writes_def require_that_def sample_collect modify_def update_where_def)
       (simp add: sample_engine_def)
qed

lemma sample_reset_run:
  "snd (traffic_reset (\<lambda>_. []) sample_reset sample_env 50 sample_site) =
     Inr \<lparr>tc_source = ''u'', tc_up = 15, tc_down = 27, tc_at = 50, tc_cached = False\<rparr>"
proof -
  have e: "ag_engine (si_agent sample_site) = sample_engine" "si_resets sample_site = []"
    by (simp_all add: sample_site_def)
  have m: "mirror_for_source ''u'' sample_site = Some ''a''" by (simp add: mirror_for_source_def sample_site_def)
  have f: "snd (fresh_reset ''reset-01'' ''u'' ''a'' sample_env 50 sample_site) =
      Inr \<lparr>tc_source = ''u'', tc_up = 15, tc_down = 27, tc_at = 50, tc_cached = False\<rparr>"
    by (simp add: fresh_reset_def on_core_def on_part_def e sample_reset_counters valid_counters_def max_int_val
        remember_reset_def bad_def)
  show ?thesis
    by (simp add: traffic_reset_def sample_reset_def text_of_def reset_result_def e m f)
qed

theorem reset_applies_once_witness:
  "counters_of (site_clients (fst (traffic_reset (\<lambda>_. []) sample_reset sample_env 50 sample_site))) ''a'' = (0, 0)"
proof -
  obtain s1 r where run: "traffic_reset (\<lambda>_. []) sample_reset sample_env 50 sample_site = (s1, r)" by fastforce
  then have r: "r = Inr \<lparr>tc_source = ''u'', tc_up = 15, tc_down = 27, tc_at = 50, tc_cached = False\<rparr>"
    using sample_reset_run by simp
  have "length (si_resets sample_site) < ledger_limit" by (simp add: sample_site_def ledger_limit_def)
  from reset_applies_once [OF run [unfolded r] _ this] show ?thesis
    by (simp add: run) (simp add: mirror_for_source_def text_of_def sample_reset_def sample_site_def)
qed

end
