(* ===== verification/Hub_Tables.thy ===== *)
theory Hub_Tables
  imports Guard Lease Values "HOL-Library.List_Lexorder" "HOL-Library.Char_ord"
begin

text \<open>
  The tables the Hub keeps about its remote nodes (backend/nodes.py, backend/node_installations.py,
  backend/node_commands.py) and the rows of \<open>managed_clients\<close> (backend/manager.py) that the fleet
  reads, beside the accounting store. A column that holds JSON is the parsed value, \<open>None\<close> for a
  text that does not parse. The columns that only ever hold a display time are left out.
\<close>

section \<open>Rows\<close>

record node_row =
  rn_id :: string
  rn_name :: string
  rn_origin :: string
  rn_token :: string
  rn_enabled :: bool
  rn_last_seen :: real
  rn_latency :: int
  rn_error :: string
  rn_health :: "pyval option"
  rn_failures :: int
  rn_recoveries :: int
  rn_offline_at :: real
  rn_recovered_at :: real
  rn_address :: string
  rn_priority :: int
  rn_failover :: bool
  rn_maintenance :: bool
  rn_maintenance_since :: real
  rn_note :: string

record control_row =
  nc_node :: string
  nc_revision :: int
  nc_command :: string
  nc_action :: string
  nc_applied :: int
  nc_error :: string
  nc_applied_at :: real

record desired_row =
  nd_node :: string
  nd_revision :: int
  nd_hash :: string
  nd_body :: "pyval option"
  nd_updated :: real
  nd_applied :: int
  nd_applied_hash :: string
  nd_applied_at :: real
  nd_error :: string

record link_row =
  li_node :: string
  li_inbound :: int
  li_remote :: int
  li_sync :: real
  li_error :: string

record usage_row =
  nu_node :: string
  nu_client :: string
  nu_raw_up :: int
  nu_raw_down :: int
  nu_up :: int
  nu_down :: int
  nu_seq :: int
  nu_initialized :: bool
  nu_last_seen :: real

record ip_row =
  ni_node :: string
  ni_client :: string
  ni_ip :: string
  ni_first :: real
  ni_last :: real
  ni_verified :: bool

record device_row =
  dv_node :: string
  dv_client :: string
  dv_digest :: string
  dv_os :: string
  dv_model :: string
  dv_first :: real
  dv_last :: real

record security_row =
  ns_node :: string
  ns_verified :: bool
  ns_last_sync :: real
  ns_error :: string

record alert_row =
  al_node :: string
  al_code :: string
  al_severity :: string
  al_first :: real
  al_last :: real
  al_value :: "real option"
  al_threshold :: "real option"
  al_active :: bool

record metric_row =
  mt_node :: string
  mt_at :: real
  mt_cpu :: "real option"
  mt_memory :: "real option"
  mt_disk :: "real option"
  mt_load :: "real option"
  mt_rx :: "real option"
  mt_tx :: "real option"
  mt_connections :: "int option"
  mt_latency :: int
  mt_score :: "int option"
  mt_capacity :: "real option"
  mt_running :: bool
  mt_clients :: "int option"

record managed_row =
  mc_email :: string
  mc_state :: string
  mc_op :: string
  mc_error :: string
  mc_inbounds :: "pyval option"
  mc_desired :: "pyval option"
  mc_last_up :: int
  mc_last_down :: int
  mc_op_id :: string
  mc_token :: string
  mc_initialized :: bool
  mc_seq :: int
  mc_expected :: "bool option"
  mc_external :: bool
  mc_retry :: real
  mc_attempts :: int
  mc_updated :: real

text \<open>
  An installation of a node: the row that is not retired owns the node. \<open>retirement_json\<close> keeps
  the endpoint, the counters and the run intent of the retired installation.
\<close>

record retirement =
  rt_origin :: string
  rt_usage :: "usage_row list"
  rt_control :: "control_row option"
  rt_desired :: int

record binding =
  bd_id :: string
  bd_node :: string
  bd_generation :: int
  bd_agent :: string
  bd_installation :: string
  bd_retired :: real
  bd_retirement :: "retirement option"

text \<open>
  \<open>hb_recovering\<close> are the bindings with a pending recovery, \<open>hb_holds\<close> those whose replacement deployment holds the activation,
  \<open>hb_reserved\<close> the reserved endpoints of unresolved replacements with their attempts,
  \<open>hb_core_devices\<close> the devices (client, digest) seen on the Hub's own server, \<open>hb_window\<close> the
  observation window and \<open>hb_remote_only\<close> the inbounds that are not deployed locally.
\<close>

record hub =
  hb_store :: store
  hb_nodes :: "node_row list"
  hb_bindings :: "binding list"
  hb_controls :: "control_row list"
  hb_desired :: "desired_row list"
  hb_links :: "link_row list"
  hb_usage :: "usage_row list"
  hb_ips :: "ip_row list"
  hb_devices :: "device_row list"
  hb_security :: "security_row list"
  hb_alerts :: "alert_row list"
  hb_metrics :: "metric_row list"
  hb_managed :: "managed_row list"
  hb_recovering :: "string list"
  hb_holds :: "string list"
  hb_reserved :: "(string \<times> string) list"
  hb_core_devices :: "(string \<times> string) list"
  hb_window :: real
  hb_remote_only :: "int list"

definition empty_hub :: hub where
  "empty_hub = \<lparr>hb_store = empty_store, hb_nodes = [], hb_bindings = [], hb_controls = [], hb_desired = [],
     hb_links = [], hb_usage = [], hb_ips = [], hb_devices = [], hb_security = [], hb_alerts = [], hb_metrics = [],
     hb_managed = [], hb_recovering = [], hb_holds = [], hb_reserved = [], hb_core_devices = [], hb_window = 120, hb_remote_only = []\<rparr>"

abbreviation node_of_id :: "string \<Rightarrow> hub \<Rightarrow> node_row option" where
  "node_of_id n h \<equiv> lookup rn_id n (hb_nodes h)"

abbreviation control_of :: "string \<Rightarrow> hub \<Rightarrow> control_row option" where
  "control_of n h \<equiv> lookup nc_node n (hb_controls h)"

abbreviation desired_of :: "string \<Rightarrow> hub \<Rightarrow> desired_row option" where
  "desired_of n h \<equiv> lookup nd_node n (hb_desired h)"

definition usage_key :: "usage_row \<Rightarrow> string \<times> string" where
  "usage_key u = (nu_node u, nu_client u)"

definition link_key :: "link_row \<Rightarrow> string \<times> int" where
  "link_key l = (li_node l, li_inbound l)"

section \<open>Clients assigned to a node\<close>

text \<open>\<open>{int(x) for x in ids}\<close>; \<open>None\<close> stands for any exception of the conversion.\<close>

fun ints_of :: "pyval option \<Rightarrow> int list option" where
  "ints_of None = None"
| "ints_of (Some v) =
     (case rbind (py_iter v) (map_res py_int) of Inl e \<Rightarrow> None | Inr xs \<Rightarrow> Some xs)"

definition assigned_inbounds :: "string \<Rightarrow> hub \<Rightarrow> int list" where
  "assigned_inbounds n h = map li_inbound (filter (\<lambda>l. li_node l = n) (hb_links h))"

definition allowed_clients :: "string \<Rightarrow> hub \<Rightarrow> string list" where
  "allowed_clients n h =
     map mc_email (filter (\<lambda>m. mc_state m \<noteq> ''deleted'' \<and>
        (case ints_of (mc_inbounds m) of None \<Rightarrow> False
         | Some xs \<Rightarrow> \<exists>i \<in> set xs. i \<in> set (assigned_inbounds n h))) (hb_managed h))"

text \<open>\<open>_client_inbounds\<close>: the positive inbounds of a client that is not deleted.\<close>

definition client_inbounds :: "string \<Rightarrow> hub \<Rightarrow> int list res" where
  "client_inbounds c h =
     (case lookup mc_email c (filter (\<lambda>m. mc_state m \<noteq> ''deleted'') (hb_managed h)) of
        None \<Rightarrow> Inr []
      | Some m \<Rightarrow>
          (case ints_of (mc_inbounds m) of
             None \<Rightarrow> bad ''Invalid persisted client inbound assignment''
           | Some xs \<Rightarrow> Inr (sort (remdups (filter (\<lambda>i. 0 < i) xs)))))"

text \<open>\<open>_assigned_node_ids\<close>: the enabled nodes that run one of the client's inbounds.\<close>

definition assigned_nodes :: "string \<Rightarrow> hub \<Rightarrow> string list res" where
  "assigned_nodes c h =
     rbind (client_inbounds c h) (\<lambda>ids.
     Inr (sort (filter (\<lambda>n. \<exists>l \<in> set (hb_links h). li_node l = n \<and> 0 < li_remote l \<and> li_inbound l \<in> set ids)
            (map rn_id (filter rn_enabled (hb_nodes h))))))"

text \<open>Rows of a hub with a single node, for examples.\<close>

definition sample_node_row :: node_row where
  "sample_node_row = \<lparr>rn_id = ''n1'', rn_name = ''Node'', rn_origin = ''https://n1'', rn_token = ''tok'', rn_enabled = True,
     rn_last_seen = 0, rn_latency = 0, rn_error = [], rn_health = Some (PDict []), rn_failures = 0, rn_recoveries = 0,
     rn_offline_at = 0, rn_recovered_at = 0, rn_address = ''n1'', rn_priority = 100, rn_failover = True,
     rn_maintenance = False, rn_maintenance_since = 0, rn_note = []\<rparr>"

definition sample_binding :: binding where
  "sample_binding = \<lparr>bd_id = ''b1'', bd_node = ''n1'', bd_generation = 1, bd_agent = ''n1'',
     bd_installation = ''i1'', bd_retired = 0, bd_retirement = None\<rparr>"

definition sample_hub :: hub where
  "sample_hub = empty_hub\<lparr>hb_nodes := [sample_node_row], hb_bindings := [sample_binding]\<rparr>"

end
