(* ===== verification/Hub_Bindings.thy ===== *)
theory Hub_Bindings
  imports Hub_Tables
begin

text \<open>
  Installations behind a stable node identity (backend/node_installations.py): one row per
  installation a node has had, of which exactly one is not retired. An operation pins the
  installation it starts with; every transaction of the operation first checks that this is still
  the current one, so that no answer of a retired installation is published. Random identities
  (\<open>uuid4\<close>) and the wall clock are arguments.
\<close>

section \<open>The pinned installation\<close>

text \<open>\<open>capture\<close>: the node's row and its active installation.\<close>

record pin =
  pn_node :: node_row
  pn_binding :: binding

definition retired_error :: err where
  "retired_error = PolicyError ''Retired or changed Node installation; discard this response and retry''"

definition unregistered_error :: err where
  "unregistered_error = PolicyError ''Node installation is no longer registered''"

definition endpoint_error :: err where
  "endpoint_error = PolicyError ''Node installation endpoint changed; discard this response''"

definition obsolete_error :: err where
  "obsolete_error = PolicyError ''Replacement was prepared for an obsolete installation''"

definition is_stale :: "err \<Rightarrow> bool" where
  "is_stale ex \<longleftrightarrow> ex \<in> {retired_error, unregistered_error, endpoint_error, obsolete_error}"

definition active_binding :: "string \<Rightarrow> hub \<Rightarrow> binding option" where
  "active_binding n h = lookup bd_node n (filter (\<lambda>b. bd_retired b = 0) (hb_bindings h))"

definition capture_pin :: "string \<Rightarrow> hub \<Rightarrow> pin res" where
  "capture_pin n h =
     (case (node_of_id n h, active_binding n h) of
        (Some r, Some b) \<Rightarrow> Inr \<lparr>pn_node = r, pn_binding = b\<rparr>
      | _ \<Rightarrow> Inl unregistered_error)"

definition assert_current :: "pin \<Rightarrow> hub \<Rightarrow> unit res" where
  "assert_current p h =
     (case active_binding (rn_id (pn_node p)) h of
        None \<Rightarrow> Inl retired_error
      | Some b \<Rightarrow>
          if bd_id b \<noteq> bd_id (pn_binding p) \<or> bd_installation b \<noteq> bd_installation (pn_binding p)
          then Inl retired_error
          else (case node_of_id (rn_id (pn_node p)) h of
                  None \<Rightarrow> Inl endpoint_error
                | Some r \<Rightarrow> ensure (rn_origin r = rn_origin (pn_node p)) endpoint_error))"

text \<open>The state of an operation: the database, and the pin of its context.\<close>

record session =
  ss_hub :: hub
  ss_pin :: pin

definition on_hub :: "(hub, 'a) effect \<Rightarrow> (session, 'a) effect" where
  "on_hub = on_part ss_hub (\<lambda>h s. s\<lparr>ss_hub := h\<rparr>)"

definition still_current :: "(session, unit) effect" where
  "still_current s = (s, assert_current (ss_pin s) (ss_hub s))"

text \<open>\<open>operation\<close> at the outermost level and nested in an operation of the same node.\<close>

definition operation :: "string \<Rightarrow> (session, 'a) effect \<Rightarrow> (hub, 'a) effect" where
  "operation n body h =
     (case capture_pin n h of
        Inl ex \<Rightarrow> (h, Inl ex)
      | Inr p \<Rightarrow>
          (case ebind body (\<lambda>x. ebind still_current (\<lambda>_. return x)) \<lparr>ss_hub = h, ss_pin = p\<rparr> of
             (s, r) \<Rightarrow> (ss_hub s, r)))"

definition nested :: "(session, 'a) effect \<Rightarrow> (session, 'a) effect" where
  "nested body = ebind still_current (\<lambda>_. body)"

text \<open>\<open>transaction\<close>: the fence and the body commit together.\<close>

definition node_transaction :: "(hub \<Rightarrow> (hub \<times> 'a) res) \<Rightarrow> (session, 'a) effect" where
  "node_transaction body s =
     on_hub (transaction (\<lambda>h. rbind (assert_current (ss_pin s) h) (\<lambda>_. body h))) s"

section \<open>Identities\<close>

definition descriptor :: "pyval \<Rightarrow> (string \<times> string) res" where
  "descriptor health =
     (let no = bad ''Agent lacks a valid installation identity v1'' in
      case health of
        PDict d \<Rightarrow>
          (case (pyget d ''capabilities'', pyget d ''node_id'', pyget d ''installation_id'') of
             (PDict c, PStr agent, PStr installation) \<Rightarrow>
               if pyget d ''service'' = PStr ''DARK XRAY NODE'' \<and> pyget d ''agent_only'' = PBool True
                  \<and> pyget c ''installation_identity'' = PInt 1 \<and> valid_name agent \<and> lower_hex 32 installation
               then Inr (agent, installation) else no
           | _ \<Rightarrow> no)
      | _ \<Rightarrow> no)"

definition offers_identity :: "pyval \<Rightarrow> bool" where
  "offers_identity health =
     (case health of
        PDict d \<Rightarrow> (case pyget d ''capabilities'' of
                      PDict c \<Rightarrow> ''installation_identity'' \<in> set (map fst c) | _ \<Rightarrow> False)
      | _ \<Rightarrow> False)"

definition set_installation :: "string \<Rightarrow> binding \<Rightarrow> hub \<Rightarrow> (hub \<times> unit) res" where
  "set_installation i b h =
     (if \<exists>x \<in> set (hb_bindings h). bd_installation x = i \<and> bd_id x \<noteq> bd_id b
      then bad ''Installation already belongs to a registered or retired Node''
      else Inr (h\<lparr>hb_bindings := modify bd_id (bd_id b) (\<lambda>x. x\<lparr>bd_installation := i\<rparr>) (hb_bindings h)\<rparr>, ()))"

text \<open>The first authenticated identity is pinned; a changed one is never adopted.\<close>

definition observe_identity :: "pyval \<Rightarrow> (session, unit) effect" where
  "observe_identity health s =
     (let b = pn_binding (ss_pin s) in
      if bd_installation b = [] \<and> \<not> offers_identity health then (s, Inr ())
      else case descriptor health of
        Inl ex \<Rightarrow> (s, Inl ex)
      | Inr (agent, i) \<Rightarrow>
          if agent \<noteq> bd_agent b
          then (s, bad ''Agent identity mismatch; explicit Node replacement required'')
          else if bd_installation b \<noteq> [] \<and> i \<noteq> bd_installation b
          then (s, bad ''Node installation changed; explicit Node replacement required'')
          else if bd_installation b \<noteq> [] then (s, Inr ())
          else ebind (node_transaction (set_installation i b)) (\<lambda>_.
               alter (\<lambda>s. s\<lparr>ss_pin := (ss_pin s)\<lparr>pn_binding := b\<lparr>bd_installation := i\<rparr>\<rparr>\<rparr>)) s)"

definition validate_fresh :: "bool \<Rightarrow> pyval \<Rightarrow> (string \<times> string) res" where
  "validate_fresh allow_running health =
     rbind (descriptor health) (\<lambda>(agent, i).
       let no = bad ''Replacement must be a fresh, stopped, unassigned Node installation'' in
       case health of
         PDict d \<Rightarrow>
           (case (pyget_or d ''capabilities'' (PDict []), pyget d ''control_receipt'', pyget d ''core'', pyget d ''desired_state'') of
              (PDict c, PDict receipt, PDict core, PDict desired) \<Rightarrow>
                if pyget d ''writes_enabled'' = PBool True \<and> pyget c ''ordered_control'' = PInt 1
                   \<and> pyget receipt ''persisted'' = PBool False
                   \<and> pyget core ''state'' \<in> (if allow_running then {PStr ''running'', PStr ''stopped''} else {PStr ''stopped''})
                   \<and> pyget desired ''appliedRevision'' = PInt 0
                   \<and> pyget d ''inbounds'' = PInt 0 \<and> pyget d ''managed_clients'' = PInt 0
                then Inr (agent, i) else no
            | _ \<Rightarrow> no)
       | _ \<Rightarrow> no)"

section \<open>Replacing an installation\<close>

definition next_generation :: "string \<Rightarrow> hub \<Rightarrow> int" where
  "next_generation n h =
     fold max (map bd_generation (filter (\<lambda>b. bd_node b = n) (hb_bindings h))) 0 + 1"

text \<open>\<open>ensure\<close>: a registered node gets its first installation.\<close>

definition first_binding :: "string \<Rightarrow> string \<Rightarrow> hub \<Rightarrow> binding" where
  "first_binding fresh n h =
     \<lparr>bd_id = fresh, bd_node = n, bd_generation = next_generation n h, bd_agent = n,
      bd_installation = [], bd_retired = 0, bd_retirement = None\<rparr>"

definition ensure_binding :: "string \<Rightarrow> string \<Rightarrow> hub \<Rightarrow> hub res" where
  "ensure_binding fresh n h =
     (if active_binding n h \<noteq> None then Inr h
      else rbind (insert_pk bd_id (first_binding fresh n h) (hb_bindings h)) (\<lambda>bs. Inr (h\<lparr>hb_bindings := bs\<rparr>)))"

text \<open>What the caller verified about the target, and the fresh identities and clock of the call.\<close>

record replacement =
  rp_expected :: string
  rp_agent :: string
  rp_installation :: string
  rp_origin :: string
  rp_credential :: string
  rp_address :: string
  rp_attempt :: "string option"
  rp_binding :: string
  rp_command :: string
  rp_now :: real

text \<open>\<open>retarget\<close> is the desired payload for the new Agent, stopped, with its hash.\<close>

definition stop_desired ::
  "(pyval option \<Rightarrow> (pyval \<times> string) res) \<Rightarrow> string \<Rightarrow> real \<Rightarrow> hub \<Rightarrow> hub res" where
  "stop_desired retarget n now h =
     (case desired_of n h of
        None \<Rightarrow> Inr h
      | Some d \<Rightarrow>
          rbind (retarget (nd_body d)) (\<lambda>(body, digest).
          rbind (ensure (nd_revision d + 1 < 2 ^ 63) (PolicyError ''Node desired state sequence exhausted'')) (\<lambda>_.
          Inr (h\<lparr>hb_desired := modify nd_node n (\<lambda>x. x\<lparr>nd_revision := nd_revision d + 1, nd_hash := digest,
                  nd_body := Some body, nd_updated := now, nd_applied := 0, nd_applied_hash := [],
                  nd_applied_at := 0, nd_error := []\<rparr>) (hb_desired h)\<rparr>))))"

definition fresh_usage :: "string \<Rightarrow> string list \<Rightarrow> usage_row list \<Rightarrow> usage_row list" where
  "fresh_usage n clients us =
     fold (\<lambda>c. insert_or_ignore usage_key
             \<lparr>nu_node = n, nu_client = c, nu_raw_up = 0, nu_raw_down = 0, nu_up = 0, nu_down = 0,
              nu_seq = 0, nu_initialized = True, nu_last_seen = 0\<rparr>) clients
       (update_where (\<lambda>u. nu_node u = n)
          (\<lambda>u. u\<lparr>nu_raw_up := 0, nu_raw_down := 0, nu_initialized := True, nu_last_seen := 0\<rparr>) us)"

definition replace_locked ::
  "(pyval option \<Rightarrow> (pyval \<times> string) res) \<Rightarrow> string \<Rightarrow> replacement \<Rightarrow> hub \<Rightarrow> (hub \<times> binding) res" where
  "replace_locked retarget n rp h =
     (if (case map_of (hb_reserved h) (rp_origin rp) of None \<Rightarrow> False | Some a \<Rightarrow> rp_attempt rp \<noteq> Some a)
      then bad ''Replacement target belongs to an unresolved preparation''
      else
      rbind (capture_pin n h) (\<lambda>p.
      let old = pn_binding p in
      if bd_id old \<noteq> rp_expected rp
      then Inl obsolete_error
      else if rp_installation rp \<in> set (map bd_installation (hb_bindings h))
      then bad ''Cannot reuse a registered or retired installation''
      else if 2 ^ 63 \<le> bd_generation old + 1 then bad ''Node installation generation exhausted''
      else
      let retired = \<lparr>rt_origin = rn_origin (pn_node p), rt_usage = filter (\<lambda>u. nu_node u = n) (hb_usage h),
                     rt_control = control_of n h,
                     rt_desired = (case desired_of n h of None \<Rightarrow> 0 | Some d \<Rightarrow> nd_revision d)\<rparr>;
          new = \<lparr>bd_id = rp_binding rp, bd_node = n, bd_generation = bd_generation old + 1,
                 bd_agent = rp_agent rp, bd_installation = rp_installation rp, bd_retired = 0,
                 bd_retirement = None\<rparr>
      in
      rbind (insert_pk bd_id new
               (modify bd_id (bd_id old) (\<lambda>b. b\<lparr>bd_retired := rp_now rp, bd_retirement := Some retired\<rparr>)
                  (hb_bindings h))) (\<lambda>bs.
      rbind (stop_desired retarget n (rp_now rp)
        (h\<lparr>hb_bindings := bs,
           hb_nodes := modify rn_id n (\<lambda>r. r\<lparr>rn_origin := rp_origin rp, rn_token := rp_credential rp,
             rn_address := rp_address rp, rn_enabled := False, rn_last_seen := 0, rn_latency := 0,
             rn_health := Some (PDict []), rn_error := []\<rparr>) (hb_nodes h),
           hb_usage := fresh_usage n (allowed_clients n h) (hb_usage h),
           hb_ips := delete_where (\<lambda>x. ni_node x = n) (hb_ips h),
           hb_devices := delete_where (\<lambda>x. dv_node x = n) (hb_devices h),
           hb_security := delete_where (\<lambda>x. ns_node x = n) (hb_security h),
           hb_links := update_where (\<lambda>l. li_node l = n)
             (\<lambda>l. l\<lparr>li_remote := 0, li_sync := 0, li_error := []\<rparr>) (hb_links h),
           hb_controls := delete_where (\<lambda>c. nc_node c = n) (hb_controls h) @
             [\<lparr>nc_node = n, nc_revision = 1, nc_command = rp_command rp, nc_action = ''stop'',
               nc_applied = 0, nc_error = [], nc_applied_at = 0\<rparr>]\<rparr>)) (\<lambda>h'.
      Inr (h', new)))))"

definition valid_token :: "string \<Rightarrow> bool" where
  "valid_token token \<longleftrightarrow> take 4 token = ''dkn_'' \<and> 40 \<le> length token \<and> length token \<le> 256"

text \<open>
  \<open>place\<close> is the outcome of \<open>validate_origin\<close> and \<open>validate_data_address\<close> on the target;
  \<open>encrypt\<close> is the Hub's cipher.
\<close>

definition replace_verified ::
  "(string \<Rightarrow> string) \<Rightarrow> (pyval option \<Rightarrow> (pyval \<times> string) res) \<Rightarrow> string \<Rightarrow> string \<Rightarrow> pyval
   \<Rightarrow> (string \<times> string) res \<Rightarrow> string \<Rightarrow> string \<Rightarrow> string \<Rightarrow> real \<Rightarrow> (hub, binding) effect" where
  "replace_verified encrypt retarget n expected health place token fresh command now h =
     (case rbind (validate_fresh False health) (\<lambda>(agent, i).
           rbind place (\<lambda>(origin, address).
           rbind (ensure (valid_token token \<and> list_all (\<lambda>c. (of_char c :: nat) < 128) token)
                    (PolicyError ''Invalid replacement Node credential'')) (\<lambda>_.
           Inr \<lparr>rp_expected = expected, rp_agent = agent, rp_installation = i, rp_origin = origin,
                rp_credential = encrypt token, rp_address = address, rp_attempt = None,
                rp_binding = fresh, rp_command = command, rp_now = now\<rparr>))) of
        Inl ex \<Rightarrow> (h, Inl ex)
      | Inr rp \<Rightarrow> transaction (replace_locked retarget n rp) h)"

definition installation_history :: "string \<Rightarrow> hub \<Rightarrow> binding list" where
  "installation_history n h = sort_key bd_generation (filter (\<lambda>b. bd_node b = n) (hb_bindings h))"

end
