(* ===== verification/Hub_Registry.thy ===== *)
theory Hub_Registry
  imports Hub_Bindings
begin

text \<open>
  The register of nodes (backend/nodes.py, \<open>put\<close> to \<open>delete\<close>) and the installations it implies:
  a new row gets its first installation from a trigger, a deleted row gives its installation up,
  and a row with history is never deleted. The theory then shows what every sequence of these
  operations, replacements and observations keeps.
\<close>

section \<open>Operations\<close>

text \<open>A node form: \<open>place\<close> is the outcome of \<open>validate_origin\<close> and \<open>validate_data_address\<close>.\<close>

record node_form =
  nf_name :: pyval
  nf_place :: "(string \<times> string) res"
  nf_token :: pyval
  nf_enabled :: pyval
  nf_inbounds :: pyval
  nf_priority :: pyval
  nf_failover :: pyval

definition form_inbounds :: "pyval \<Rightarrow> int list res" where
  "form_inbounds v =
     (case v of
        PNone \<Rightarrow> Inr []
      | PList xs \<Rightarrow>
          if 256 < int (length xs) then bad ''Invalid node inbound assignment''
          else map_res (\<lambda>x. case x of PInt i \<Rightarrow> (if 1 \<le> i then Inr i else bad ''Invalid node inbound assignment'')
                          | _ \<Rightarrow> bad ''Invalid node inbound assignment'') xs
      | _ \<Rightarrow> bad ''Invalid node inbound assignment'')"

record node_entry =
  ne_name :: string
  ne_origin :: string
  ne_address :: string
  ne_token :: string
  ne_enabled :: bool
  ne_inbounds :: "int list"
  ne_priority :: int
  ne_failover :: bool

definition parse_form :: "string \<Rightarrow> node_form \<Rightarrow> node_entry res" where
  "parse_form n f =
     rbind (case nf_name f of
              PStr s \<Rightarrow> if valid_name n \<and> 1 \<le> length s \<and> length s \<le> 128 then Inr s else bad ''Invalid node identity''
            | _ \<Rightarrow> bad ''Invalid node identity'') (\<lambda>name.
     rbind (nf_place f) (\<lambda>(origin, address).
     rbind (case nf_token f of PStr t \<Rightarrow> if valid_token t then Inr t else bad ''Invalid DARK node token''
            | _ \<Rightarrow> bad ''Invalid DARK node token'') (\<lambda>token.
     rbind (case nf_enabled f of PBool b \<Rightarrow> Inr b | _ \<Rightarrow> bad ''enabled must be boolean'') (\<lambda>enabled.
     rbind (case nf_failover f of PBool b \<Rightarrow> Inr b | _ \<Rightarrow> bad ''failover_enabled must be boolean'') (\<lambda>failover.
     rbind (case nf_priority f of
              PInt i \<Rightarrow> if 1 \<le> i \<and> i \<le> 1000 then Inr i else bad ''Invalid node failover priority''
            | _ \<Rightarrow> bad ''Invalid node failover priority'') (\<lambda>priority.
     rbind (form_inbounds (nf_inbounds f)) (\<lambda>inbounds.
     Inr \<lparr>ne_name = name, ne_origin = origin, ne_address = address, ne_token = token, ne_enabled = enabled,
          ne_inbounds = sort (remdups inbounds), ne_priority = priority, ne_failover = failover\<rparr>)))))))"

text \<open>
  \<open>assert_recovery_allows\<close> and \<open>assert_deployment_allows\<close>: an installation under recovery and a
  held replacement are neither enabled nor started.
\<close>

definition recovery_allows :: "string \<Rightarrow> string \<Rightarrow> hub \<Rightarrow> unit res" where
  "recovery_allows n action h =
     ensure (action \<notin> {''enable'', ''start'', ''restart''} \<or>
             (case active_binding n h of None \<Rightarrow> True | Some b \<Rightarrow> bd_id b \<notin> set (hb_recovering h)))
       (PolicyError ''Node recovery is pending; verify Stop before enable/Start'')"

definition deployment_allows :: "string \<Rightarrow> string \<Rightarrow> hub \<Rightarrow> unit res" where
  "deployment_allows n action h =
     rbind (recovery_allows n action h) (\<lambda>_. ensure (action \<notin> {''enable'', ''start'', ''restart''} \<or>
             (case active_binding n h of None \<Rightarrow> True | Some b \<Rightarrow> bd_id b \<notin> set (hb_holds h)))
       (PolicyError ''Replacement activation is held; complete explicit cutover before enable/Start''))"

definition new_node :: "string \<Rightarrow> string \<Rightarrow> node_entry \<Rightarrow> node_row" where
  "new_node n credential e =
     \<lparr>rn_id = n, rn_name = ne_name e, rn_origin = ne_origin e, rn_token = credential, rn_enabled = ne_enabled e,
      rn_last_seen = 0, rn_latency = 0, rn_error = [], rn_health = Some (PDict []), rn_failures = 0,
      rn_recoveries = 0, rn_offline_at = 0, rn_recovered_at = 0, rn_address = ne_address e,
      rn_priority = ne_priority e, rn_failover = ne_failover e, rn_maintenance = False,
      rn_maintenance_since = 0, rn_note = []\<rparr>"

definition edit_node :: "string \<Rightarrow> node_entry \<Rightarrow> bool \<Rightarrow> node_row \<Rightarrow> node_row" where
  "edit_node credential e reset_probe r =
     r\<lparr>rn_name := ne_name e, rn_origin := ne_origin e, rn_token := credential, rn_enabled := ne_enabled e,
       rn_address := ne_address e, rn_priority := ne_priority e, rn_failover := ne_failover e,
       rn_last_seen := (if reset_probe then 0 else rn_last_seen r),
       rn_latency := (if reset_probe then 0 else rn_latency r),
       rn_error := (if reset_probe then [] else rn_error r),
       rn_health := (if reset_probe then Some (PDict []) else rn_health r)\<rparr>"

definition write_links :: "string \<Rightarrow> int list \<Rightarrow> link_row list \<Rightarrow> link_row list" where
  "write_links n ids ls =
     delete_where (\<lambda>l. li_node l = n \<and> li_inbound l \<notin> set ids)
       (fold (\<lambda>i. insert_or_ignore link_key
                \<lparr>li_node = n, li_inbound = i, li_remote = 0, li_sync = 0, li_error = []\<rparr>) ids ls)"

text \<open>\<open>origin TEXT NOT NULL UNIQUE\<close>.\<close>

definition origin_free :: "string \<Rightarrow> string \<Rightarrow> hub \<Rightarrow> bool" where
  "origin_free n origin h = list_all (\<lambda>r. rn_id r = n \<or> rn_origin r \<noteq> origin) (hb_nodes h)"

text \<open>
  The transaction of \<open>put\<close>. \<open>fresh\<close> is the random identity of a first installation,
  \<open>same_token\<close> says whether the stored credential decrypts to the new token.
\<close>

definition write_node :: "(string \<Rightarrow> string) \<Rightarrow> bool \<Rightarrow> string \<Rightarrow> string \<Rightarrow> node_entry \<Rightarrow> hub \<Rightarrow> (hub \<times> unit) res" where
  "write_node encrypt same_token fresh n e h =
     rbind (if ne_enabled e then deployment_allows n ''enable'' h else Inr ()) (\<lambda>_.
     if ne_origin e \<in> set (map fst (hb_reserved h))
     then bad ''Node endpoint is reserved by a replacement preparation''
     else if \<not> origin_free n (ne_origin e) h then Inl (IntegrityError ''UNIQUE constraint failed'')
     else
     let old = node_of_id n h;
         reset_probe = (case old of None \<Rightarrow> True | Some r \<Rightarrow>
            rn_origin r \<noteq> ne_origin e \<or> \<not> same_token \<or> rn_enabled r \<noteq> ne_enabled e)
     in
     rbind (ensure_binding fresh n
       (h\<lparr>hb_nodes := upsert rn_id (new_node n (encrypt (ne_token e)) e)
            (edit_node (encrypt (ne_token e)) e reset_probe) (hb_nodes h)\<rparr>)) (\<lambda>h1.
     let moved = (case old of None \<Rightarrow> False | Some r \<Rightarrow> rn_origin r \<noteq> ne_origin e);
         pinned = (case active_binding n h1 of None \<Rightarrow> False | Some b \<Rightarrow> bd_installation b \<noteq> [])
     in Inr (h1\<lparr>hb_usage := (if moved \<and> \<not> pinned
                  then update_where (\<lambda>u. nu_node u = n)
                         (\<lambda>u. u\<lparr>nu_raw_up := 0, nu_raw_down := 0, nu_initialized := False\<rparr>) (hb_usage h1)
                  else hb_usage h1),
                hb_links := write_links n (ne_inbounds e) (hb_links h1)\<rparr>, ())))"

definition put_node :: "(string \<Rightarrow> string) \<Rightarrow> bool \<Rightarrow> string \<Rightarrow> string \<Rightarrow> node_form \<Rightarrow> (hub, unit) effect" where
  "put_node encrypt same_token fresh n f h =
     (case parse_form n f of
        Inl ex \<Rightarrow> (h, Inl ex)
      | Inr e \<Rightarrow> transaction (write_node encrypt same_token fresh n e) h)"

text \<open>The checks of \<open>get\<close>.\<close>

definition known_node :: "string \<Rightarrow> hub \<Rightarrow> unit res" where
  "known_node n h =
     rbind (ensure (valid_name n) (PolicyError ''Invalid node ID'')) (\<lambda>_.
     rbind (ensure (node_of_id n h \<noteq> None) (PolicyError ''Node not found'')) (\<lambda>_.
     rbind (capture_pin n h) (\<lambda>_. Inr ())))"

definition set_inbound_assignment :: "string \<Rightarrow> pyval \<Rightarrow> pyval \<Rightarrow> hub \<Rightarrow> (hub \<times> unit) res" where
  "set_inbound_assignment n inbound assigned h =
     (case (inbound, assigned) of
        (PInt i, PBool b) \<Rightarrow>
          if i < 1 then bad ''Invalid inbound deployment assignment''
          else rbind (known_node n h) (\<lambda>_.
               Inr (h\<lparr>hb_links := (if b then insert_or_ignore link_key
                 \<lparr>li_node = n, li_inbound = i, li_remote = 0, li_sync = 0, li_error = []\<rparr> (hb_links h)
                 else delete_where (\<lambda>l. li_node l = n \<and> li_inbound l = i) (hb_links h))\<rparr>, ()))
      | _ \<Rightarrow> bad ''Invalid inbound deployment assignment'')"

definition switch_node :: "bool \<Rightarrow> node_row \<Rightarrow> node_row" where
  "switch_node b r = r\<lparr>rn_enabled := b, rn_last_seen := 0, rn_latency := 0, rn_error := [], rn_health := Some (PDict [])\<rparr>"

definition set_enabled :: "string \<Rightarrow> pyval \<Rightarrow> hub \<Rightarrow> (hub \<times> unit) res" where
  "set_enabled n enabled h =
     (case enabled of
        PBool b \<Rightarrow>
          rbind (if b then deployment_allows n ''enable'' h else Inr ()) (\<lambda>_.
          if node_of_id n h = None then bad ''Node not found''
          else Inr (h\<lparr>hb_nodes := modify rn_id n (switch_node b) (hb_nodes h)\<rparr>, ()))
      | _ \<Rightarrow> bad ''enabled must be boolean'')"

text \<open>Maintenance that is renewed keeps its first date.\<close>

definition maintain_node :: "bool \<Rightarrow> string \<Rightarrow> real \<Rightarrow> node_row \<Rightarrow> node_row" where
  "maintain_node b text now r =
     r\<lparr>rn_maintenance := b,
       rn_maintenance_since := (if rn_maintenance r \<and> b then rn_maintenance_since r else if b then now else 0),
       rn_note := (if b then strip text else [])\<rparr>"

definition set_maintenance :: "string \<Rightarrow> pyval \<Rightarrow> pyval \<Rightarrow> real \<Rightarrow> hub \<Rightarrow> (hub \<times> unit) res" where
  "set_maintenance n enabled note now h =
     (case enabled of
        PBool b \<Rightarrow>
          (case note of
             PStr t \<Rightarrow>
               if 300 < length t then bad ''Invalid maintenance note''
               else rbind (capture_pin n h) (\<lambda>_.
                    Inr (h\<lparr>hb_nodes := modify rn_id n (maintain_node b t now) (hb_nodes h)\<rparr>, ()))
           | _ \<Rightarrow> bad ''Invalid maintenance note'')
      | _ \<Rightarrow> bad ''maintenance enabled must be boolean'')"

definition delete_node :: "string \<Rightarrow> hub \<Rightarrow> (hub \<times> unit) res" where
  "delete_node n h =
     (if (\<exists>b \<in> set (hb_bindings h). bd_node b = n \<and> 0 < bd_retired b)
         \<or> (\<exists>u \<in> set (hb_usage h). nu_node u = n \<and> (0 < nu_up u \<or> 0 < nu_down u \<or> 0 < nu_seq u))
      then bad ''Node has retained installation/usage history; disable it instead of deleting it''
      else if node_of_id n h = None then bad ''Node not found''
      else Inr (h\<lparr>hb_bindings := delete_where (\<lambda>b. bd_node b = n) (hb_bindings h),
                  hb_links := delete_where (\<lambda>l. li_node l = n) (hb_links h),
                  hb_usage := delete_where (\<lambda>u. nu_node u = n) (hb_usage h),
                  hb_ips := delete_where (\<lambda>x. ni_node x = n) (hb_ips h),
                  hb_devices := delete_where (\<lambda>x. dv_node x = n) (hb_devices h),
                  hb_security := delete_where (\<lambda>x. ns_node x = n) (hb_security h),
                  hb_desired := delete_where (\<lambda>d. nd_node d = n) (hb_desired h),
                  hb_controls := delete_where (\<lambda>c. nc_node c = n) (hb_controls h),
                  hb_metrics := delete_where (\<lambda>m. mt_node m = n) (hb_metrics h),
                  hb_alerts := delete_where (\<lambda>a. al_node a = n) (hb_alerts h),
                  hb_nodes := remove_key rn_id n (hb_nodes h)\<rparr>, ()))"

section \<open>One installation at a time\<close>

text \<open>Two different installations: their identities differ, and one of a node follows the other.\<close>

definition apart :: "binding \<Rightarrow> binding \<Rightarrow> bool" where
  "apart b c \<longleftrightarrow>
     (bd_installation b \<noteq> [] \<longrightarrow> bd_installation b \<noteq> bd_installation c) \<and>
     (bd_node b = bd_node c \<longrightarrow> bd_generation b \<noteq> bd_generation c) \<and>
     (bd_node b = bd_node c \<and> bd_retired b = 0 \<longrightarrow> bd_generation c < bd_generation b)"

definition bindings_ok :: "binding list \<Rightarrow> bool" where
  "bindings_ok bs \<longleftrightarrow>
     pk bd_id bs \<and> (\<forall>b \<in> set bs. \<forall>c \<in> set bs. bd_id b \<noteq> bd_id c \<longrightarrow> apart b c)"

definition registry_ok :: "hub \<Rightarrow> bool" where
  "registry_ok h \<longleftrightarrow>
     bindings_ok (hb_bindings h) \<and> (\<forall>n \<in> rn_id ` set (hb_nodes h). active_binding n h \<noteq> None)"

datatype registry_op =
    Put "string \<Rightarrow> string" bool string string node_form
  | Assign string pyval pyval
  | Enable string pyval
  | Maintain string pyval pyval real
  | Delete string
  | Observe string pyval
  | Replace "string \<Rightarrow> string" "pyval option \<Rightarrow> (pyval \<times> string) res" string string pyval
      "(string \<times> string) res" string string string real

fun registry_step :: "registry_op \<Rightarrow> hub \<Rightarrow> hub" where
  "registry_step (Put encrypt same fresh n f) h = fst (put_node encrypt same fresh n f h)"
| "registry_step (Assign n i b) h = fst (transaction (set_inbound_assignment n i b) h)"
| "registry_step (Enable n b) h = fst (transaction (set_enabled n b) h)"
| "registry_step (Maintain n b note now) h = fst (transaction (set_maintenance n b note now) h)"
| "registry_step (Delete n) h = fst (transaction (delete_node n) h)"
| "registry_step (Observe n health) h = fst (operation n (observe_identity health) h)"
| "registry_step (Replace encrypt retarget n expected health place token fresh command now) h =
     fst (replace_verified encrypt retarget n expected health place token fresh command now h)"

text \<open>The wall clock is past its epoch: a retirement time is positive.\<close>

fun after_epoch :: "registry_op \<Rightarrow> bool" where
  "after_epoch (Replace encrypt retarget n expected health place token fresh command now) = (0 < now)"
| "after_epoch _ = True"

lemma fst_transaction: "fst (transaction body h) = (case body h of Inl e \<Rightarrow> h | Inr (h', x) \<Rightarrow> h')"
  by (auto simp: transaction_def split: sum.splits)

lemma active_binding_cong: "hb_bindings h' = hb_bindings h \<Longrightarrow> active_binding n h' = active_binding n h"
  by (simp add: active_binding_def)

lemma active_bindingD:
  "active_binding n h = Some b \<Longrightarrow> b \<in> set (hb_bindings h) \<and> bd_retired b = 0 \<and> bd_node b = n"
  by (auto simp: active_binding_def dest: lookup_Some_mem)

lemma active_binding_None:
  "active_binding n h = None \<longleftrightarrow> (\<forall>b \<in> set (hb_bindings h). bd_node b = n \<longrightarrow> bd_retired b \<noteq> 0)"
  by (auto simp: active_binding_def lookup_None_iff)

lemma next_generation_above:
  assumes "b \<in> set (hb_bindings h)" and "bd_node b = n"
  shows "bd_generation b < next_generation n h"
proof -
  have le: "m \<le> fold max xs m" for m :: int and xs
    by (induction xs arbitrary: m) (auto intro: order_trans [OF max.cobounded2])
  have "x \<le> fold max xs m" if "x \<in> set xs" for x m :: int and xs
    using that
  proof (induction xs arbitrary: m)
    case (Cons y ys)
    then show ?case using le [of "max y m" ys] by (cases "x = y") auto
  qed simp
  then have "bd_generation b \<le> fold max (map bd_generation (filter (\<lambda>b. bd_node b = n) (hb_bindings h))) 0"
    using assms by simp
  then show ?thesis by (simp add: next_generation_def)
qed

lemma same_binding:
  "bindings_ok bs \<Longrightarrow> b \<in> set bs \<Longrightarrow> c \<in> set bs \<Longrightarrow> bd_id b = bd_id c \<Longrightarrow> b = c"
  by (auto simp: bindings_ok_def pk_def distinct_map inj_on_def)

lemma bindings_ok_append:
  assumes "bindings_ok bs" and "\<not> has_key bd_id (bd_id x) bs" and "\<And>b. b \<in> set bs \<Longrightarrow> apart b x \<and> apart x b"
  shows "bindings_ok (bs @ [x])"
  using assms by (auto simp: bindings_ok_def pk_append)

lemma bindings_ok_modify:
  assumes "bindings_ok bs" and "\<And>b. bd_id (f b) = bd_id b"
    and "\<And>b c. b \<in> set bs \<Longrightarrow> c \<in> set bs \<Longrightarrow> bd_id b = k \<Longrightarrow> bd_id c \<noteq> k \<Longrightarrow> apart b c \<Longrightarrow> apart c b \<Longrightarrow>
      apart (f b) c \<and> apart c (f b)"
  shows "bindings_ok (modify bd_id k f bs)"
proof -
  have "pk bd_id (modify bd_id k f bs)" using assms(1,2) by (simp add: bindings_ok_def pk_modify)
  moreover have "apart (if bd_id b = k then f b else b) (if bd_id c = k then f c else c)"
    if "b \<in> set bs" "c \<in> set bs" "bd_id b \<noteq> bd_id c" for b c
  proof -
    have "apart b c" "apart c b" using assms(1) that by (auto simp: bindings_ok_def)
    then show ?thesis using assms(3) [OF that(1,2)] assms(3) [OF that(2,1)] that(3) by (cases "bd_id b = k") auto
  qed
  ultimately have "pk bd_id (modify bd_id k f bs)"
    and pair: "\<And>b c. b \<in> set bs \<Longrightarrow> c \<in> set bs \<Longrightarrow> bd_id b \<noteq> bd_id c \<Longrightarrow>
      apart (if bd_id b = k then f b else b) (if bd_id c = k then f c else c)" by auto
  moreover have "apart x y" if xy: "x \<in> set (modify bd_id k f bs)" "y \<in> set (modify bd_id k f bs)" "bd_id x \<noteq> bd_id y" for x y
  proof -
    obtain b where b: "b \<in> set bs" "x = (if bd_id b = k then f b else b)" using set_modify [OF xy(1)] by blast
    obtain c where c: "c \<in> set bs" "y = (if bd_id c = k then f c else c)" using set_modify [OF xy(2)] by blast
    have "bd_id b \<noteq> bd_id c" using xy(3) b(2) c(2) assms(2) by (auto split: if_splits)
    from pair [OF b(1) c(1) this] show ?thesis using b(2) c(2) by simp
  qed
  ultimately show ?thesis by (simp add: bindings_ok_def)
qed

lemma bindings_ok_first:
  assumes "bindings_ok (hb_bindings h)" and "active_binding n h = None"
    and "\<not> has_key bd_id fresh (hb_bindings h)"
  shows "bindings_ok (hb_bindings h @ [first_binding fresh n h])"
proof (rule bindings_ok_append [OF assms(1)])
  show "apart b (first_binding fresh n h) \<and> apart (first_binding fresh n h) b" if "b \<in> set (hb_bindings h)" for b
    using next_generation_above [OF that, of n] assms(2) that
    by (auto simp: apart_def first_binding_def active_binding_None)
qed (use assms in \<open>simp add: first_binding_def\<close>)

lemma bindings_ok_delete:
  "bindings_ok bs \<Longrightarrow> bindings_ok (delete_where P bs)"
  by (auto simp: bindings_ok_def pk_delete_where)

lemma bindings_ok_installation:
  assumes "bindings_ok bs" and "\<forall>x \<in> set bs. bd_installation x = i \<longrightarrow> bd_id x = k"
  shows "bindings_ok (modify bd_id k (\<lambda>x. x\<lparr>bd_installation := i\<rparr>) bs)"
  by (rule bindings_ok_modify [OF assms(1)]) (use assms(2) in \<open>auto simp: apart_def\<close>)

lemma bindings_ok_replace:
  assumes "bindings_ok bs" and "old \<in> set bs" and "bd_retired old = 0"
    and "\<not> has_key bd_id (bd_id new) bs" and "bd_installation new \<notin> set (map bd_installation bs)"
    and "bd_node new = bd_node old" and "bd_generation new = bd_generation old + 1" and "t \<noteq> 0"
  shows "bindings_ok (modify bd_id (bd_id old) (\<lambda>b. b\<lparr>bd_retired := t, bd_retirement := r\<rparr>) bs @ [new])"
proof (rule bindings_ok_append)
  let ?f = "\<lambda>b. b\<lparr>bd_retired := t, bd_retirement := r\<rparr>"
  show "bindings_ok (modify bd_id (bd_id old) ?f bs)"
    by (rule bindings_ok_modify [OF assms(1)]) (use assms(8) in \<open>auto simp: apart_def\<close>)
  show "\<not> has_key bd_id (bd_id new) (modify bd_id (bd_id old) ?f bs)"
    using assms(4) by (auto simp: has_key_def lookup_modify)
  fix b
  assume "b \<in> set (modify bd_id (bd_id old) ?f bs)"
  then obtain x where x: "x \<in> set bs" "b = (if bd_id x = bd_id old then ?f x else x)" by (auto dest: set_modify)
  have "apart old x" if "bd_id x \<noteq> bd_id old" using assms(1,2) x(1) that by (simp add: bindings_ok_def)
  moreover have "x = old" if "bd_id x = bd_id old" using same_binding [OF assms(1) x(1) assms(2) that] .
  moreover have "bd_installation x \<noteq> bd_installation new" using assms(5) x(1) by (auto simp: image_iff)
  moreover have "apart x old" if "bd_id x \<noteq> bd_id old" using assms(1,2) x(1) that by (simp add: bindings_ok_def)
  ultimately show "apart b new \<and> apart new b"
    using x(2) assms(3,6-8) by (cases "bd_id x = bd_id old") (auto simp: apart_def)
qed

text \<open>Operations that keep the installations and add no node row.\<close>

lemma registry_ok_keep:
  assumes "registry_ok h" and "hb_bindings h' = hb_bindings h"
    and "rn_id ` set (hb_nodes h') = rn_id ` set (hb_nodes h)"
  shows "registry_ok h'"
  using assms(1) unfolding registry_ok_def assms(2,3) active_binding_cong [OF assms(2)] .

lemma ids_modify: "(\<And>r. rn_id (f r) = rn_id r) \<Longrightarrow> rn_id ` set (modify rn_id n f rs) = rn_id ` set rs"
  by (induction rs) (auto simp: modify_def update_where_def)

lemma registry_ok_modify:
  assumes "registry_ok h" and "\<forall>r. rn_id (f r) = rn_id r"
  shows "registry_ok (h\<lparr>hb_nodes := modify rn_id n f (hb_nodes h)\<rparr>)"
  by (rule registry_ok_keep [OF assms(1)]) (use assms(2) in \<open>simp_all add: ids_modify\<close>)

lemma row_ids [simp]: "rn_id (switch_node b r) = rn_id r" "rn_id (maintain_node b t now r) = rn_id r"
  by (simp_all add: switch_node_def maintain_node_def)

lemma set_enabled_shape:
  "set_enabled n b h = Inr (h', u) \<Longrightarrow> \<exists>x. h' = h\<lparr>hb_nodes := modify rn_id n (switch_node x) (hb_nodes h)\<rparr>"
  by (cases b) (auto simp: set_enabled_def rbind_Inr split: if_splits)

lemma set_maintenance_shape:
  "set_maintenance n b note now h = Inr (h', u) \<Longrightarrow>
    \<exists>x t. h' = h\<lparr>hb_nodes := modify rn_id n (maintain_node x t now) (hb_nodes h)\<rparr>"
  by (cases b; cases "note") (auto simp: set_maintenance_def rbind_Inr split: if_splits)

lemma ids_upsert: "(\<And>r. rn_id (f r) = rn_id r) \<Longrightarrow> rn_id ` set (upsert rn_id x f rs) \<subseteq> insert (rn_id x) (rn_id ` set rs)"
  by (auto simp: upsert_def ids_modify)

lemma put_node_ok:
  assumes "registry_ok h"
  shows "registry_ok (fst (put_node encrypt same fresh n f h))"
proof -
  have "registry_ok h'" if run: "write_node encrypt same fresh n e h = Inr (h', u)" for e h'
  proof -
    let ?h = "h\<lparr>hb_nodes := upsert rn_id (new_node n (encrypt (ne_token e)) e)
        (edit_node (encrypt (ne_token e)) e (case node_of_id n h of None \<Rightarrow> True | Some r \<Rightarrow>
            rn_origin r \<noteq> ne_origin e \<or> \<not> same \<or> rn_enabled r \<noteq> ne_enabled e)) (hb_nodes h)\<rparr>"
    obtain h1 where h1: "ensure_binding fresh n ?h = Inr h1"
      and h': "hb_bindings h' = hb_bindings h1" "hb_nodes h' = hb_nodes h1"
      using run by (auto simp: write_node_def Let_def rbind_Inr split: if_splits)
    have ids: "rn_id ` set (hb_nodes ?h) \<subseteq> insert n (rn_id ` set (hb_nodes h))"
      using ids_upsert [of "edit_node c e b" "new_node n c e" "hb_nodes h" for c b]
      by (auto simp: edit_node_def new_node_def)
    have nodes: "hb_nodes h1 = hb_nodes ?h"
      using h1 by (auto simp: ensure_binding_def rbind_Inr split: if_splits)
    have "bindings_ok (hb_bindings h1) \<and> active_binding n h1 \<noteq> None \<and>
        (\<forall>m. active_binding m h \<noteq> None \<longrightarrow> active_binding m h1 \<noteq> None)"
    proof (cases "active_binding n ?h = None")
      case True
      then obtain b where b: "b = first_binding fresh n ?h" "hb_bindings h1 = hb_bindings ?h @ [b]"
        "\<not> has_key bd_id fresh (hb_bindings ?h)"
        using h1 by (auto simp: ensure_binding_def rbind_Inr insert_pk_Inr first_binding_def)
      have "bindings_ok (hb_bindings ?h)" using assms by (simp add: registry_ok_def)
      from bindings_ok_first [OF this True b(3)] b(1,2)
      show ?thesis by (auto simp: active_binding_None first_binding_def)
    next
      case False
      then have "h1 = ?h" using h1 by (simp add: ensure_binding_def)
      with False assms show ?thesis by (simp add: registry_ok_def active_binding_def)
    qed
    then have new: "bindings_ok (hb_bindings h1)" "active_binding n h1 \<noteq> None"
      and old: "\<And>m. active_binding m h \<noteq> None \<Longrightarrow> active_binding m h1 \<noteq> None" by blast+
    have "active_binding m h1 \<noteq> None" if m: "m \<in> rn_id ` set (hb_nodes h')" for m
    proof -
      have "m \<in> insert n (rn_id ` set (hb_nodes h))" using m ids nodes h'(2) by auto
      then show ?thesis using new(2) old assms unfolding registry_ok_def by blast
    qed
    then show ?thesis
      using new(1) unfolding registry_ok_def h'(1) active_binding_cong [OF h'(1)] by blast
  qed
  then show ?thesis using assms
    by (auto simp: put_node_def fst_transaction split: sum.splits)
qed

lemma delete_node_ok:
  assumes "registry_ok h" and "delete_node n h = Inr (h', u)"
  shows "registry_ok h'"
proof -
  have b: "hb_bindings h' = delete_where (\<lambda>b. bd_node b = n) (hb_bindings h)"
    and r: "hb_nodes h' = remove_key rn_id n (hb_nodes h)"
    using assms(2) by (auto simp: delete_node_def split: if_splits)
  have "active_binding m h' = active_binding m h" if "m \<noteq> n" for m
  proof -
    have "lookup bd_node m (filter (\<lambda>b. bd_retired b = 0) (delete_where (\<lambda>b. bd_node b = n) xs)) =
      lookup bd_node m (filter (\<lambda>b. bd_retired b = 0) xs)" for xs
      using that by (induction xs) (auto simp: delete_where_def)
    then show ?thesis by (simp add: active_binding_def b)
  qed
  then show ?thesis using assms(1) by (auto simp: registry_ok_def b r bindings_ok_delete)
qed

lemma observe_identity_hub:
  "fst (operation n (observe_identity health) h) = h \<or>
   (\<exists>p i. capture_pin n h = Inr p \<and> set_installation i (pn_binding p) h = Inr (fst (operation n (observe_identity health) h), ()))"
proof (cases "capture_pin n h")
  case (Inr p)
  let ?s = "\<lparr>ss_hub = h, ss_pin = p\<rparr>"
  have main: "ss_hub (fst (observe_identity health ?s)) = h \<or>
      (\<exists>i. set_installation i (pn_binding p) h = Inr (ss_hub (fst (observe_identity health ?s)), ()))"
    by (auto simp: observe_identity_def Let_def node_transaction_def on_hub_def on_part_def transaction_def alter_def
        rbind_Inr split: sum.splits prod.splits)
  have keep: "ss_hub (fst (ebind m (\<lambda>x. ebind still_current (\<lambda>_. return x)) s)) = ss_hub (fst (m s))" for m s
    by (simp add: still_current_def return_def split: prod.splits sum.splits)
  have "fst (operation n (observe_identity health) h) = ss_hub (fst (observe_identity health ?s))"
    by (simp only: operation_def Inr sum.case case_prod_unfold fst_conv keep)
  with main Inr show ?thesis by auto
qed (simp add: operation_def)

lemma set_installation_Inr:
  "set_installation i b h = Inr (h', u) \<longleftrightarrow>
     (\<forall>x \<in> set (hb_bindings h). bd_installation x = i \<longrightarrow> bd_id x = bd_id b) \<and>
     h' = h\<lparr>hb_bindings := modify bd_id (bd_id b) (\<lambda>x. x\<lparr>bd_installation := i\<rparr>) (hb_bindings h)\<rparr>"
  by (auto simp: set_installation_def)

lemma observe_ok:
  assumes "registry_ok h"
  shows "registry_ok (fst (operation n (observe_identity health) h))"
  using observe_identity_hub [of n health h]
proof (elim disjE exE conjE)
  fix p i
  let ?h = "fst (operation n (observe_identity health) h)"
  assume "set_installation i (pn_binding p) h = Inr (?h, ())"
  from this [unfolded set_installation_Inr]
  have free: "\<forall>x \<in> set (hb_bindings h). bd_installation x = i \<longrightarrow> bd_id x = bd_id (pn_binding p)"
    and h: "?h = h\<lparr>hb_bindings := modify bd_id (bd_id (pn_binding p)) (\<lambda>x. x\<lparr>bd_installation := i\<rparr>) (hb_bindings h)\<rparr>"
    by blast+
  have b: "hb_bindings ?h = modify bd_id (bd_id (pn_binding p)) (\<lambda>x. x\<lparr>bd_installation := i\<rparr>) (hb_bindings h)"
    and r: "hb_nodes ?h = hb_nodes h"
    by (subst h, simp)+
  have "active_binding m ?h \<noteq> None" if some: "active_binding m h \<noteq> None" for m
  proof -
    obtain c where c: "c \<in> set (hb_bindings h)" "bd_node c = m" "bd_retired c = 0"
      using some by (auto simp: active_binding_None simp del: not_None_eq)
    let ?c = "if bd_id c = bd_id (pn_binding p) then c\<lparr>bd_installation := i\<rparr> else c"
    have "?c \<in> set (hb_bindings ?h)" unfolding b using c(1) by (simp add: modify_def update_where_def)
    moreover have "bd_node ?c = m" "bd_retired ?c = 0" using c by simp_all
    ultimately show ?thesis unfolding active_binding_None by blast
  qed
  then show ?thesis
    using assms bindings_ok_installation [OF _ free] by (auto simp: registry_ok_def b r)
qed (use assms in simp)

lemma replace_locked_shape:
  assumes "replace_locked retarget n rp h = Inr (h', new)"
  obtains p retired where "capture_pin n h = Inr p" and "bd_id (pn_binding p) = rp_expected rp"
    and "rp_installation rp \<notin> set (map bd_installation (hb_bindings h))"
    and "\<not> has_key bd_id (bd_id new) (modify bd_id (bd_id (pn_binding p))
        (\<lambda>b. b\<lparr>bd_retired := rp_now rp, bd_retirement := Some retired\<rparr>) (hb_bindings h))"
    and "hb_bindings h' = modify bd_id (bd_id (pn_binding p))
        (\<lambda>b. b\<lparr>bd_retired := rp_now rp, bd_retirement := Some retired\<rparr>) (hb_bindings h) @ [new]"
    and "bd_node new = n" and "bd_generation new = bd_generation (pn_binding p) + 1"
    and "bd_installation new = rp_installation rp" and "bd_retired new = 0" and "bd_id new = rp_binding rp"
    and "rn_id ` set (hb_nodes h') = rn_id ` set (hb_nodes h)"
proof -
  have stop: "hb_bindings y = hb_bindings x \<and> hb_nodes y = hb_nodes x" if "stop_desired retarget n t x = Inr y" for t x y
    using that by (auto simp: stop_desired_def rbind_Inr split: option.splits if_splits)
  obtain p where p: "capture_pin n h = Inr p" "bd_id (pn_binding p) = rp_expected rp"
    "rp_installation rp \<notin> set (map bd_installation (hb_bindings h))"
    using assms by (auto simp: replace_locked_def Let_def rbind_Inr split: if_splits)
  from assms obtain retired bs x where ins: "insert_pk bd_id new (modify bd_id (bd_id (pn_binding p))
        (\<lambda>b. b\<lparr>bd_retired := rp_now rp, bd_retirement := Some retired\<rparr>) (hb_bindings h)) = Inr bs"
    and run: "stop_desired retarget n (rp_now rp) x = Inr h'"
    and x: "hb_bindings x = bs" "rn_id ` set (hb_nodes x) = rn_id ` set (hb_nodes h)"
    and new: "bd_node new = n" "bd_generation new = bd_generation (pn_binding p) + 1"
      "bd_installation new = rp_installation rp" "bd_retired new = 0" "bd_id new = rp_binding rp"
    by (auto simp: replace_locked_def Let_def rbind_Inr ids_modify p(1) split: if_splits)
  show thesis
  proof (rule that [OF p, of retired])
    show "\<not> has_key bd_id (bd_id new) (modify bd_id (bd_id (pn_binding p))
        (\<lambda>b. b\<lparr>bd_retired := rp_now rp, bd_retirement := Some retired\<rparr>) (hb_bindings h))"
      using ins by (simp add: insert_pk_Inr)
    show "hb_bindings h' = modify bd_id (bd_id (pn_binding p))
        (\<lambda>b. b\<lparr>bd_retired := rp_now rp, bd_retirement := Some retired\<rparr>) (hb_bindings h) @ [new]"
      using ins stop [OF run] x(1) by (simp add: insert_pk_Inr)
    show "rn_id ` set (hb_nodes h') = rn_id ` set (hb_nodes h)" using stop [OF run] x(2) by simp
  qed (fact new)+
qed

lemma replace_locked_ok:
  assumes "registry_ok h" and "replace_locked retarget n rp h = Inr (h', new)" and "rp_now rp \<noteq> 0"
  shows "registry_ok h'"
proof -
  obtain p retired where p: "capture_pin n h = Inr p"
    and fresh: "rp_installation rp \<notin> set (map bd_installation (hb_bindings h))"
    and key: "\<not> has_key bd_id (bd_id new) (modify bd_id (bd_id (pn_binding p))
        (\<lambda>b. b\<lparr>bd_retired := rp_now rp, bd_retirement := Some retired\<rparr>) (hb_bindings h))"
    and b: "hb_bindings h' = modify bd_id (bd_id (pn_binding p))
        (\<lambda>b. b\<lparr>bd_retired := rp_now rp, bd_retirement := Some retired\<rparr>) (hb_bindings h) @ [new]"
    and new: "bd_node new = n" "bd_generation new = bd_generation (pn_binding p) + 1"
      "bd_installation new = rp_installation rp" "bd_retired new = 0"
    and r: "rn_id ` set (hb_nodes h') = rn_id ` set (hb_nodes h)"
    using replace_locked_shape [OF assms(2)] by metis
  let ?f = "\<lambda>b. b\<lparr>bd_retired := rp_now rp, bd_retirement := Some retired\<rparr>"
  have old: "pn_binding p \<in> set (hb_bindings h)" "bd_retired (pn_binding p) = 0" "bd_node (pn_binding p) = n"
    using p active_bindingD [of n h "pn_binding p"] by (auto simp: capture_pin_def split: option.splits)
  have ok: "bindings_ok (hb_bindings h)" using assms(1) by (simp add: registry_ok_def)
  have nokey: "\<not> has_key bd_id (bd_id new) (hb_bindings h)"
    using key by (auto simp: has_key_def lookup_modify split: if_splits)
  have "active_binding m h' \<noteq> None" if some: "active_binding m h \<noteq> None" for m
  proof (cases "m = n")
    case True
    then show ?thesis using new by (auto simp: active_binding_None b simp del: not_None_eq)
  next
    case False
    obtain c where c: "c \<in> set (hb_bindings h)" "bd_node c = m" "bd_retired c = 0"
      using some by (auto simp: active_binding_None simp del: not_None_eq)
    have "bd_id c \<noteq> bd_id (pn_binding p)" using same_binding [OF ok c(1) old(1)] c(2) old(3) False by auto
    then have "c \<in> set (hb_bindings h')" using c(1) by (force simp: b modify_def update_where_def)
    with c(2,3) show ?thesis by (auto simp: active_binding_None simp del: not_None_eq)
  qed
  moreover have "bindings_ok (hb_bindings h')"
    unfolding b by (rule bindings_ok_replace [OF ok old(1,2) nokey]) (use new fresh old(3) assms(3) in auto)
  ultimately show ?thesis using assms(1) unfolding registry_ok_def r by blast
qed

lemma registry_step_ok:
  assumes "registry_ok h" and "after_epoch op"
  shows "registry_ok (registry_step op h)"
proof (cases op)
  case (Put encrypt same fresh n f)
  then show ?thesis using put_node_ok [OF assms(1)] by simp
next
  case (Assign n i b)
  have "registry_ok h'" if "set_inbound_assignment n i b h = Inr (h', u)" for h' u
    by (rule registry_ok_keep [OF assms(1)]) (use that in \<open>auto simp: set_inbound_assignment_def rbind_Inr split: pyval.splits if_splits\<close>)
  with Assign assms(1) show ?thesis by (auto simp: fst_transaction split: sum.splits)
next
  case (Enable n b)
  have "registry_ok h'" if "set_enabled n b h = Inr (h', u)" for h' u
    using set_enabled_shape [OF that] registry_ok_modify [OF assms(1)] by auto
  with Enable assms(1) show ?thesis by (auto simp: fst_transaction split: sum.splits)
next
  case (Maintain n b memo now)
  have "registry_ok h'" if "set_maintenance n b memo now h = Inr (h', u)" for h' u
    using set_maintenance_shape [OF that] registry_ok_modify [OF assms(1)] by auto
  with Maintain assms(1) show ?thesis by (auto simp: fst_transaction split: sum.splits)
next
  case (Delete n)
  then show ?thesis using assms(1) delete_node_ok [OF assms(1)] by (auto simp: fst_transaction split: sum.splits)
next
  case (Observe n health)
  then show ?thesis using observe_ok [OF assms(1)] by simp
next
  case (Replace encrypt retarget n expected health place token fresh command now)
  then have "now \<noteq> 0" using assms(2) by simp
  then show ?thesis using assms(1) replace_locked_ok [OF assms(1)] Replace
    by (auto simp: replace_verified_def fst_transaction rbind_Inr split: sum.splits prod.splits)
qed

interpretation registry: invariant_machine "\<lambda>op h. if after_epoch op then registry_step op h else h" registry_ok
  by unfold_locales (simp add: registry_step_ok)

lemma run_after_epoch:
  "list_all after_epoch ops \<Longrightarrow>
    run_steps (\<lambda>op h. if after_epoch op then registry_step op h else h) ops h = run_steps registry_step ops h"
  by (induction ops arbitrary: h) auto

lemma registry_run_ok: "list_all after_epoch ops \<Longrightarrow> registry_ok h \<Longrightarrow> registry_ok (run_steps registry_step ops h)"
  using registry.run_inv [of h ops] by (simp add: run_after_epoch)

lemma registry_empty: "registry_ok empty_hub"
  by (simp add: registry_ok_def bindings_ok_def pk_def empty_hub_def)

lemma singleton_list:
  assumes "distinct xs" and "x \<in> set xs" and "\<And>y. y \<in> set xs \<Longrightarrow> y = x"
  shows "xs = [x]"
proof -
  have "set xs = {x}" using assms(2,3) by blast
  moreover from this have "length xs = 1" using distinct_card [OF assms(1)] by simp
  ultimately show ?thesis by (cases xs) auto
qed

lemma single_active:
  assumes "bindings_ok bs" and "b \<in> set bs" and "bd_retired b = 0"
  shows "filter (\<lambda>x. bd_node x = bd_node b \<and> bd_retired x = 0) bs = [b]"
proof -
  let ?fs = "filter (\<lambda>x. bd_node x = bd_node b \<and> bd_retired x = 0) bs"
  have "x = b" if "x \<in> set ?fs" for x
  proof (rule ccontr)
    assume "x \<noteq> b"
    then have "bd_id x \<noteq> bd_id b" using same_binding [OF assms(1)] that assms(2) by auto
    then have "apart x b" "apart b x" using assms(1,2) that by (auto simp: bindings_ok_def)
    then show False using that assms(3) by (auto simp: apart_def)
  qed
  moreover have "distinct ?fs" using assms(1) by (simp add: bindings_ok_def pk_def distinct_map)
  moreover have "b \<in> set ?fs" using assms(2,3) by simp
  ultimately show ?thesis by (intro singleton_list)
qed

lemma distinct_installations:
  "bindings_ok bs \<Longrightarrow> distinct (filter (\<lambda>i. i \<noteq> []) (map bd_installation bs))"
proof (induction bs)
  case (Cons b bs)
  have "bindings_ok bs" using Cons.prems by (auto simp: bindings_ok_def pk_def)
  moreover have "bd_installation b \<noteq> bd_installation c" if "c \<in> set bs" "bd_installation b \<noteq> []" for c
  proof -
    have "bd_id b \<noteq> bd_id c" using Cons.prems that(1) by (auto simp: bindings_ok_def pk_def image_iff)
    then show ?thesis using Cons.prems that by (auto simp: bindings_ok_def apart_def)
  qed
  ultimately show ?case using Cons.IH by (auto simp: image_iff)
qed simp


definition sample_health :: pyval where
  "sample_health = PDict [(''service'', PStr ''DARK XRAY NODE''), (''agent_only'', PBool True),
     (''capabilities'', PDict [(''installation_identity'', PInt 1), (''ordered_control'', PInt 1)]),
     (''node_id'', PStr ''agent2''), (''installation_id'', PStr (replicate 32 CHR ''a'')),
     (''writes_enabled'', PBool True), (''control_receipt'', PDict [(''persisted'', PBool False)]),
     (''core'', PDict [(''state'', PStr ''stopped'')]), (''desired_state'', PDict [(''appliedRevision'', PInt 0)]),
     (''inbounds'', PInt 0), (''managed_clients'', PInt 0)]"

definition sample_token :: string where
  "sample_token = ''dkn_'' @ replicate 40 CHR ''x''"

definition sample_form :: node_form where
  "sample_form = \<lparr>nf_name = PStr ''Node'', nf_place = Inr (''https://n1'', ''n1''), nf_token = PStr sample_token,
     nf_enabled = PBool True, nf_inbounds = PList [PInt 3], nf_priority = PInt 100, nf_failover = PBool True\<rparr>"

abbreviation sample_replace :: "string \<Rightarrow> registry_op" where
  "sample_replace expected \<equiv> Replace id (\<lambda>v. Inr (PDict [], [])) ''n1'' expected sample_health
     (Inr (''https://n2'', ''n2'')) sample_token ''b2'' ''c2'' 5"


section \<open>A retired installation publishes nothing\<close>

definition retired_id :: "string \<Rightarrow> hub \<Rightarrow> bool" where
  "retired_id k h \<longleftrightarrow> list_ex (\<lambda>b. bd_id b = k \<and> 0 < bd_retired b) (hb_bindings h)"

lemma retired_idI: "b \<in> set (hb_bindings h) \<Longrightarrow> bd_id b = k \<Longrightarrow> 0 < bd_retired b \<Longrightarrow> retired_id k h"
  by (auto simp: retired_id_def list_ex_iff)

lemma put_node_bindings: "set (hb_bindings h) \<subseteq> set (hb_bindings (fst (put_node encrypt same fresh n f h)))"
proof -
  have "set (hb_bindings h) \<subseteq> set (hb_bindings h')" if run: "write_node encrypt same fresh n e h = Inr (h', u)" for e h'
  proof -
    obtain x h1 where "ensure_binding fresh n x = Inr h1" "hb_bindings x = hb_bindings h" "hb_bindings h' = hb_bindings h1"
      using run by (auto simp: write_node_def Let_def rbind_Inr split: if_splits)
    then show ?thesis by (auto simp: ensure_binding_def rbind_Inr insert_pk_Inr split: if_splits)
  qed
  then show ?thesis by (auto simp: put_node_def fst_transaction split: sum.splits)
qed

lemma retired_id_step:
  assumes "registry_ok h" and "after_epoch op" and "retired_id k h"
  shows "retired_id k (registry_step op h)"
proof -
  obtain b where b: "b \<in> set (hb_bindings h)" "bd_id b = k" "0 < bd_retired b"
    using assms(3) by (auto simp: retired_id_def list_ex_iff)
  have same: ?thesis if "hb_bindings (registry_step op h) = hb_bindings h"
    using retired_idI [of b] b that by simp
  show ?thesis
  proof (cases op)
    case (Put encrypt same fresh n f)
    then show ?thesis using put_node_bindings [of h encrypt same fresh n f] b by (auto intro: retired_idI)
  next
    case (Assign n i x)
    then show ?thesis
      by (intro same) (auto simp: fst_transaction set_inbound_assignment_def rbind_Inr split: sum.splits pyval.splits if_splits)
  next
    case (Enable n x)
    then show ?thesis by (intro same) (auto simp: fst_transaction dest: set_enabled_shape split: sum.splits)
  next
    case (Maintain n x memo now)
    then show ?thesis by (intro same) (auto simp: fst_transaction dest: set_maintenance_shape split: sum.splits)
  next
    case (Delete n)
    have "b \<in> set (hb_bindings h')" if "delete_node n h = Inr (h', u)" for h' u
      using that b by (auto simp: delete_node_def split: if_splits)
    then show ?thesis using Delete b same by (auto simp: fst_transaction intro: retired_idI split: sum.splits)
  next
    case (Observe n health)
    show ?thesis using observe_identity_hub [of n health h]
    proof (elim disjE exE conjE)
      assume "fst (operation n (observe_identity health) h) = h"
      then show ?thesis using Observe same by simp
    next
      fix p i
      let ?h = "fst (operation n (observe_identity health) h)"
      assume "set_installation i (pn_binding p) h = Inr (?h, ())"
      then have "hb_bindings ?h = modify bd_id (bd_id (pn_binding p)) (\<lambda>x. x\<lparr>bd_installation := i\<rparr>) (hb_bindings h)"
        by (auto simp: set_installation_Inr)
      then have "(if bd_id b = bd_id (pn_binding p) then b\<lparr>bd_installation := i\<rparr> else b) \<in> set (hb_bindings ?h)"
        using b(1) by (simp add: modify_def update_where_def)
      then show ?thesis using Observe b by (auto intro: retired_idI split: if_splits)
    qed
  next
    case (Replace encrypt retarget n expected health place token fresh command now)
    have "retired_id k h'" if run: "replace_locked retarget n rp h = Inr (h', new)" "rp_now rp = now" for rp h' new
    proof -
      obtain p retired where p: "capture_pin n h = Inr p" and
        bs: "hb_bindings h' = modify bd_id (bd_id (pn_binding p))
          (\<lambda>b. b\<lparr>bd_retired := rp_now rp, bd_retirement := Some retired\<rparr>) (hb_bindings h) @ [new]"
        using replace_locked_shape [OF run(1)] by metis
      let ?b = "if bd_id b = bd_id (pn_binding p) then b\<lparr>bd_retired := rp_now rp, bd_retirement := Some retired\<rparr> else b"
      have "?b \<in> set (hb_bindings h')" unfolding bs using b(1) by (simp add: modify_def update_where_def)
      moreover have "bd_id ?b = k" "0 < bd_retired ?b" using b run(2) assms(2) Replace by simp_all
      ultimately show ?thesis by (rule retired_idI)
    qed
    then show ?thesis using assms(3) Replace
      by (auto simp: replace_verified_def fst_transaction rbind_Inr split: sum.splits prod.splits)
  qed
qed

lemma retired_id_run:
  "list_all after_epoch ops \<Longrightarrow> registry_ok h \<Longrightarrow> retired_id k h \<Longrightarrow>
    registry_ok (run_steps registry_step ops h) \<and> retired_id k (run_steps registry_step ops h)"
  by (induction ops arbitrary: h) (auto simp: registry_step_ok retired_id_step)

lemma retired_refused:
  assumes "registry_ok h" and "retired_id (bd_id (pn_binding p)) h"
  shows "node_transaction body \<lparr>ss_hub = h, ss_pin = p\<rparr> = (\<lparr>ss_hub = h, ss_pin = p\<rparr>, Inl retired_error)"
proof -
  obtain b where b: "b \<in> set (hb_bindings h)" "bd_id b = bd_id (pn_binding p)" "0 < bd_retired b"
    using assms(2) by (auto simp: retired_id_def list_ex_iff)
  have "bd_id c \<noteq> bd_id (pn_binding p)" if "active_binding m h = Some c" for m c
    using active_bindingD [OF that] same_binding [OF _ _ b(1), of c] assms(1) b(2,3) by (auto simp: registry_ok_def)
  then have "assert_current p h = Inl retired_error"
    by (auto simp: assert_current_def split: option.splits)
  then show ?thesis by (simp add: node_transaction_def on_hub_def on_part_def transaction_def)
qed


definition sample_start :: hub where
  "sample_start = run_steps registry_step [Put id False ''b1'' ''n1'' sample_form] empty_hub"

definition sample_pin :: pin where
  "sample_pin = (case capture_pin ''n1'' sample_start of Inr p \<Rightarrow> p | Inl _ \<Rightarrow>
     \<lparr>pn_node = sample_node_row, pn_binding = sample_binding\<rparr>)"

definition sample_after :: hub where
  "sample_after = registry_step (sample_replace ''b1'') sample_start"


end
