(* ===== verification/Hub_Commands.thy ===== *)
theory Hub_Commands
  imports Hub_Registry
begin

text \<open>
  The Hub's durable run intent (backend/node_commands.py): per node one command with a revision and
  an identity. A new intent replaces the pending one; a repeated pending intent keeps its identity;
  an error is attached, and an acknowledgement recorded, only while the command is still the current one.
\<close>

section \<open>The register\<close>

record command_status =
  cs_revision :: int
  cs_command :: string
  cs_action :: string
  cs_running :: bool
  cs_pending :: bool
  cs_persisted :: bool
  cs_error :: string
  cs_applied :: int

definition command_status :: "string \<Rightarrow> hub \<Rightarrow> command_status" where
  "command_status n h =
     (case control_of n h of
        None \<Rightarrow> \<lparr>cs_revision = 0, cs_command = [], cs_action = [], cs_running = True, cs_pending = False,
                cs_persisted = False, cs_error = [], cs_applied = 0\<rparr>
      | Some c \<Rightarrow> \<lparr>cs_revision = nc_revision c, cs_command = nc_command c, cs_action = nc_action c,
                cs_running = (nc_action c \<noteq> ''stop''), cs_pending = (nc_revision c \<noteq> nc_applied c),
                cs_persisted = True, cs_error = nc_error c, cs_applied = nc_applied c\<rparr>)"

text \<open>\<open>fresh\<close> is the new random command identity.\<close>

definition write_command :: "string \<Rightarrow> string \<Rightarrow> string \<Rightarrow> hub \<Rightarrow> (hub \<times> unit) res" where
  "write_command n action fresh h =
     rbind (deployment_allows n action h) (\<lambda>_.
     rbind (ensure (node_of_id n h \<noteq> None) (PolicyError ''Node no longer exists'')) (\<lambda>_.
     let old = control_of n h in
     if (case old of None \<Rightarrow> False | Some c \<Rightarrow> nc_action c = action \<and> nc_revision c \<noteq> nc_applied c)
     then Inr (h, ())
     else
     let revision = (case old of None \<Rightarrow> 1 | Some c \<Rightarrow> nc_revision c + 1) in
     if 2 ^ 63 \<le> revision then bad ''Node command sequence exhausted''
     else Inr (h\<lparr>hb_controls := upsert nc_node
                   \<lparr>nc_node = n, nc_revision = revision, nc_command = fresh, nc_action = action,
                    nc_applied = 0, nc_error = [], nc_applied_at = 0\<rparr>
                   (\<lambda>c. c\<lparr>nc_revision := revision, nc_command := fresh, nc_action := action, nc_error := []\<rparr>)
                   (hb_controls h)\<rparr>, ())))"

definition record_command :: "string \<Rightarrow> string \<Rightarrow> string \<Rightarrow> (session, command_status) effect" where
  "record_command n action fresh =
     ebind (require_that (\<lambda>_. action \<in> {''start'', ''stop'', ''restart''})
              (PolicyError ''Unsupported durable Node action'')) (\<lambda>_.
     ebind (\<lambda>s. (s, known_node n (ss_hub s))) (\<lambda>_.
     ebind (node_transaction (write_command n action fresh)) (\<lambda>_ s.
     (s, Inr (command_status n (ss_hub s))))))"

record delivery =
  dl_queued :: bool
  dl_executed :: bool
  dl_state :: string
  dl_control :: command_status

definition same_pending :: "string \<Rightarrow> command_status \<Rightarrow> control_row \<Rightarrow> bool" where
  "same_pending n cmd c \<longleftrightarrow>
     nc_node c = n \<and> nc_revision c = cs_revision cmd \<and> nc_command c = cs_command cmd \<and> nc_applied c \<noteq> nc_revision c"

definition defer_command :: "string \<Rightarrow> command_status \<Rightarrow> string \<Rightarrow> string \<Rightarrow> (session, delivery) effect" where
  "defer_command n cmd message reason =
     ebind (node_transaction (\<lambda>h. Inr (h\<lparr>hb_controls := update_where (same_pending n cmd)
              (\<lambda>c. c\<lparr>nc_error := take 500 message\<rparr>) (hb_controls h)\<rparr>,
              list_ex (same_pending n cmd) (hb_controls h)))) (\<lambda>hit s.
     let now = command_status n (ss_hub s)
     in (s, Inr \<lparr>dl_queued = cs_pending now, dl_executed = False,
                 dl_state = (if hit then reason else ''superseded''), dl_control = now\<rparr>))"

definition config_running :: "string \<Rightarrow> bool \<Rightarrow> hub \<Rightarrow> bool" where
  "config_running n otherwise h = (if cs_persisted (command_status n h) then False else otherwise)"

section \<open>Recording the acknowledgement\<close>

definition same_command_row :: "string \<Rightarrow> command_status \<Rightarrow> control_row \<Rightarrow> bool" where
  "same_command_row n cmd c \<longleftrightarrow> nc_node c = n \<and> nc_revision c = cs_revision cmd \<and> nc_command c = cs_command cmd"

text \<open>The health snapshot takes over what the answer says of the core.\<close>

definition core_health :: "pyval \<Rightarrow> pyval \<Rightarrow> pyval option \<Rightarrow> pyval option" where
  "core_health core run health =
     Some (PDict (py_set ''run_control'' run (py_set ''core'' core
       (case health of Some (PDict d) \<Rightarrow> d | _ \<Rightarrow> []))))"

definition mark_delivered :: "string \<Rightarrow> command_status \<Rightarrow> pyval \<Rightarrow> pyval \<Rightarrow> real \<Rightarrow> hub \<Rightarrow> (hub \<times> bool) res" where
  "mark_delivered n cmd core run now h =
     (if list_ex (same_command_row n cmd) (hb_controls h)
      then Inr (h\<lparr>hb_controls := update_where (same_command_row n cmd)
                    (\<lambda>c. c\<lparr>nc_applied := cs_revision cmd, nc_applied_at := now, nc_error := []\<rparr>) (hb_controls h),
                  hb_nodes := modify rn_id n (\<lambda>r. r\<lparr>rn_health := core_health core run (rn_health r)\<rparr>) (hb_nodes h)\<rparr>,
                True)
      else Inr (h, False))"

end
