(* ===== verification/Hub_Health.thy ===== *)
theory Hub_Health
  imports Hub_Commands
begin

text \<open>
  What the Hub concludes about a node (backend/nodes.py): the outcome of requests with its
  three-failure hysteresis, the deployment state of each assignment and whether it may carry
  traffic, the health score with its alerts, and the stored samples. Floats are reals;
  \<open>float(text)\<close> and \<open>round(x, 1)\<close> are the parameters \<open>num\<close> and \<open>round1\<close>.
\<close>

section \<open>Transport\<close>

definition transient_errors :: "string list" where
  "transient_errors =
     [''Node hostname does not resolve'',
      ''Node connection failed: Timeout'',
      ''Node connection failed: TimeoutError'',
      ''Node connection failed: ConnectionRefusedError'',
      ''Node connection failed: ConnectionResetError'',
      ''Node connection failed: ConnectionAbortedError'',
      ''Node connection failed: RemoteDisconnected'',
      ''Node connection failed: BrokenPipeError'',
      ''Node connection failed: IncompleteRead'',
      ''Node connection failed: OSError'']"

definition transient_error :: "string \<Rightarrow> bool" where
  "transient_error e \<longleftrightarrow> e \<in> set transient_errors"

definition transport_stable :: "string \<Rightarrow> int \<Rightarrow> bool" where
  "transport_stable e failures \<longleftrightarrow> e = [] \<or> transient_error e \<and> failures < 3"

definition row_stable :: "node_row \<Rightarrow> bool" where
  "row_stable r = transport_stable (rn_error r) (rn_failures r)"

section \<open>Alerts\<close>

record alert =
  at_severity :: string
  at_code :: string
  at_value :: "real option"
  at_threshold :: "real option"

definition plain_alert :: "string \<Rightarrow> string \<Rightarrow> alert" where
  "plain_alert severity code = \<lparr>at_severity = severity, at_code = code, at_value = None, at_threshold = None\<rparr>"

definition alert_key :: "alert_row \<Rightarrow> string \<times> string" where
  "alert_key a = (al_node a, al_code a)"

definition raise_alert :: "string \<Rightarrow> real \<Rightarrow> alert \<Rightarrow> alert_row list \<Rightarrow> alert_row list" where
  "raise_alert n now a rows =
     (let code = take 96 (at_code a); severity = take 16 (at_severity a) in
      if code = [] then rows
      else upsert alert_key
             \<lparr>al_node = n, al_code = code, al_severity = severity, al_first = now, al_last = now,
              al_value = at_value a, al_threshold = at_threshold a, al_active = True\<rparr>
             (\<lambda>x. x\<lparr>al_severity := severity, al_first := (if al_active x then al_first x else now),
                    al_last := now, al_value := at_value a, al_threshold := at_threshold a, al_active := True\<rparr>)
             rows)"

definition sync_active_alerts :: "string \<Rightarrow> alert list \<Rightarrow> real \<Rightarrow> hub \<Rightarrow> hub" where
  "sync_active_alerts n alerts now h =
     (let codes = filter (\<lambda>c. c \<noteq> []) (map (\<lambda>a. take 96 (at_code a)) alerts)
      in h\<lparr>hb_alerts := update_where (\<lambda>x. al_node x = n \<and> al_active x \<and> al_code x \<notin> set codes)
             (\<lambda>x. x\<lparr>al_active := False\<rparr>) (fold (raise_alert n now) alerts (hb_alerts h))\<rparr>)"

section \<open>The outcome of a request\<close>

definition ok_row :: "int \<Rightarrow> real \<Rightarrow> node_row \<Rightarrow> node_row" where
  "ok_row latency now r =
     (let recovered = (rn_error r \<noteq> [] \<and> \<not> row_stable r)
      in r\<lparr>rn_last_seen := now, rn_latency := max 1 latency, rn_error := [], rn_failures := 0,
           rn_recoveries := rn_recoveries r + int_of_bool recovered,
           rn_recovered_at := (if recovered then now else rn_recovered_at r)\<rparr>)"

definition request_ok :: "string \<Rightarrow> int \<Rightarrow> real \<Rightarrow> hub \<Rightarrow> (hub \<times> unit) res" where
  "request_ok n latency now h = Inr (h\<lparr>hb_nodes := modify rn_id n (ok_row latency now) (hb_nodes h)\<rparr>, ())"

text \<open>A timeout never replaces an identity or TLS failure: only a validated success does.\<close>

definition kept_error :: "string \<Rightarrow> string \<Rightarrow> string" where
  "kept_error old new =
     (if old \<noteq> [] \<and> \<not> transient_error old \<and> transient_error (take 300 new) then old else take 300 new)"

definition failed_row :: "string \<Rightarrow> real \<Rightarrow> node_row \<Rightarrow> node_row" where
  "failed_row e now r =
     (let e' = kept_error (rn_error r) e;
          blocked = (\<not> transport_stable e' (rn_failures r + 1))
      in r\<lparr>rn_error := e', rn_failures := rn_failures r + 1,
           rn_offline_at := (if blocked \<and> row_stable r then now else rn_offline_at r)\<rparr>)"

definition request_failed :: "string \<Rightarrow> string \<Rightarrow> real \<Rightarrow> hub \<Rightarrow> (hub \<times> unit) res" where
  "request_failed n e now h =
     (let h1 = h\<lparr>hb_nodes := modify rn_id n (failed_row e now) (hb_nodes h)\<rparr>;
          blocked = (case node_of_id n h1 of None \<Rightarrow> \<not> transport_stable (take 300 e) 1 | Some r \<Rightarrow> \<not> row_stable r)
      in Inr (if blocked
              then sync_active_alerts n [plain_alert ''critical'' ''telemetry_offline'', plain_alert ''critical'' ''node_error''] now h1
              else h1, ()))"

section \<open>Requests\<close>

text \<open>
  One HTTPS request of an operation: \<open>lk_between\<close> is what the other threads do to the database
  while it is in flight, \<open>lk_answer\<close> the outcome of the transport with the answer and its
  latency, \<open>lk_token\<close> the decryption of the credential and \<open>lk_now\<close> the wall clock.
\<close>

record link =
  lk_between :: "hub \<Rightarrow> hub"
  lk_answer :: "pyval \<Rightarrow> (pyval \<times> int) res"
  lk_token :: "string \<Rightarrow> string option"
  lk_now :: real

definition request :: "string \<Rightarrow> link \<Rightarrow> pyval \<Rightarrow> (session, pyval \<times> int) effect" where
  "request n lk body =
     nested (\<lambda>s.
       let node = pn_node (ss_pin s) in
       case lk_token lk (rn_token node) of
         None \<Rightarrow> (s, bad ''Node credential cannot be decrypted'')
       | Some token \<Rightarrow>
           if \<not> rn_enabled node then (s, bad ''Node is disabled'')
           else
           let s1 = s\<lparr>ss_hub := lk_between lk (ss_hub s)\<rparr> in
           case lk_answer lk body of
             Inl ex \<Rightarrow>
               if is_policy_error ex
               then ebind (node_transaction (request_failed n (err_message ex) (lk_now lk))) (\<lambda>_. raise ex) s1
               else (s1, Inl ex)
           | Inr (doc, ms) \<Rightarrow>
               ebind (node_transaction (request_ok n ms (lk_now lk))) (\<lambda>_. return (doc, ms)) s1)"

section \<open>Assignments\<close>

text \<open>The annotated node of \<open>list\<close>, as far as its conclusions depend on it.\<close>

record node_view =
  nv_row :: node_row
  nv_control :: command_status
  nv_desired_pending :: bool
  nv_desired_error :: string
  nv_health :: pyval

definition desired_pending :: "desired_row option \<Rightarrow> bool" where
  "desired_pending d =
     (case d of None \<Rightarrow> False
      | Some x \<Rightarrow> nd_revision x \<noteq> 0 \<and> (nd_revision x \<noteq> nd_applied x \<or> nd_hash x \<noteq> nd_applied_hash x))"

definition view_node :: "node_row \<Rightarrow> hub \<Rightarrow> node_view" where
  "view_node r h =
     \<lparr>nv_row = r, nv_control = command_status (rn_id r) h,
      nv_desired_pending = desired_pending (desired_of (rn_id r) h),
      nv_desired_error = (case desired_of (rn_id r) h of None \<Rightarrow> [] | Some d \<Rightarrow> nd_error d),
      nv_health = (case rn_health r of None \<Rightarrow> PDict [] | Some v \<Rightarrow> v)\<rparr>"

text \<open>\<open>_runtime_block_reason\<close>; the empty text means that nothing blocks.\<close>

definition runtime_block :: "node_view \<Rightarrow> string" where
  "runtime_block v =
     (if cs_pending (nv_control v) then ''control_pending''
      else if cs_persisted (nv_control v) \<and> \<not> cs_running (nv_control v) then ''control_stopped''
      else if nv_desired_error v \<noteq> [] then ''desired_state_error''
      else if nv_desired_pending v then ''desired_state_pending''
      else case py_or (nv_health v) (PDict []) of
        PDict health \<Rightarrow>
          (case py_or (pyget health ''core'') (PDict []) of
             PDict core \<Rightarrow>
               if truthy (pyget core ''state'') \<and> pyget core ''state'' \<noteq> PStr ''running'' then ''core_stopped''
               else if pyget core ''dirty'' = PBool True then ''runtime_dirty''
               else if truthy (pyget core ''last_error'') then ''core_error''
               else if pyget health ''agent_only'' = PBool True \<and> pyget core ''state'' \<noteq> PStr ''running''
               then ''core_unverified'' else []
           | _ \<Rightarrow> ''invalid_health'')
      | _ \<Rightarrow> ''invalid_health'')"

record assignment_view =
  av_inbound :: int
  av_remote :: int
  av_state :: string
  av_deployed :: bool
  av_ready :: bool
  av_reason :: string

definition node_online :: "real \<Rightarrow> node_row \<Rightarrow> bool" where
  "node_online now r \<longleftrightarrow> rn_enabled r \<and> rn_last_seen r \<noteq> 0 \<and> now - rn_last_seen r < 180 \<and> row_stable r"

definition assignment_state :: "real \<Rightarrow> node_view \<Rightarrow> link_row \<Rightarrow> assignment_view" where
  "assignment_state now v l =
     (let r = nv_row v; remote = li_remote l; e = li_error l; block = runtime_block v;
          state = (if e \<noteq> [] then ''sync_error'' else if block \<noteq> [] then block
                   else if remote \<noteq> 0 then ''deployed'' else ''pending'');
          reason = (if \<not> rn_enabled r then ''node_disabled''
                    else if rn_maintenance r then ''node_maintenance''
                    else if e \<noteq> [] then ''sync_error''
                    else if remote = 0 then ''not_deployed''
                    else if block \<noteq> [] then block
                    else if \<not> rn_failover r then ''failover_disabled''
                    else if rn_address r = [] then ''data_address_missing''
                    else if \<not> node_online now r then ''node_offline''
                    else ''ready'')
      in \<lparr>av_inbound = li_inbound l, av_remote = remote, av_state = state,
          av_deployed = (remote \<noteq> 0 \<and> e = [] \<and> block = []), av_ready = (reason = ''ready''), av_reason = reason\<rparr>)"

definition node_assignments :: "real \<Rightarrow> string \<Rightarrow> hub \<Rightarrow> assignment_view list" where
  "node_assignments now n h =
     (case node_of_id n h of None \<Rightarrow> []
      | Some r \<Rightarrow> map (assignment_state now (view_node r h))
                   (sort_key li_inbound (filter (\<lambda>l. li_node l = n) (hb_links h))))"

text \<open>\<open>failover_targets\<close>: nodes by priority, latency, name and identity.\<close>

record failover_target =
  ft_node :: string
  ft_address :: string
  ft_inbounds :: "int list"

definition ranked_nodes :: "node_row list \<Rightarrow> node_row list" where
  "ranked_nodes rs =
     sort_key rn_priority (sort_key (\<lambda>r. if rn_latency r = 0 then 10 ^ 9 else rn_latency r)
       (sort_key rn_name (sort_key rn_id rs)))"

definition failover_targets :: "real \<Rightarrow> string \<Rightarrow> hub \<Rightarrow> failover_target list res" where
  "failover_targets now c h =
     rbind (client_inbounds c h) (\<lambda>ids.
     let ready = (\<lambda>n. map av_inbound (filter (\<lambda>a. av_inbound a \<in> set ids \<and> av_ready a) (node_assignments now n h)))
     in Inr (map (\<lambda>r. \<lparr>ft_node = rn_id r, ft_address = rn_address r, ft_inbounds = ready (rn_id r)\<rparr>)
               (filter (\<lambda>r. ready (rn_id r) \<noteq> []) (ranked_nodes (hb_nodes h)))))"

section \<open>The health score\<close>

fun number :: "(string \<Rightarrow> real option) \<Rightarrow> pyval \<Rightarrow> real option" where
  "number num (PInt i) = Some (of_int i)"
| "number num (PFloat r) = Some r"
| "number num (PBool b) = Some (if b then 1 else 0)"
| "number num (PStr s) = num s"
| "number num _ = None"

definition percent :: "(string \<Rightarrow> real option) \<Rightarrow> pyval \<Rightarrow> real option" where
  "percent num v = map_option (\<lambda>x. max 0 (min 100 x)) (number num v)"

definition section_of :: "string \<Rightarrow> dict \<Rightarrow> dict" where
  "section_of k d = (case pyget d k of PDict s \<Rightarrow> s | _ \<Rightarrow> [])"

record readings =
  rd_cpu :: "real option"
  rd_memory :: "real option"
  rd_disk :: "real option"
  rd_load :: "real option"

definition read_system :: "(string \<Rightarrow> real option) \<Rightarrow> dict \<Rightarrow> readings" where
  "read_system num system =
     (let load1 = (case pyget system ''loads'' of PList (x # xs) \<Rightarrow> number num x | _ \<Rightarrow> None);
          logical = number num (pyget (section_of ''cpu_info'' system) ''logical'')
      in \<lparr>rd_cpu = percent num (pyget system ''cpu''),
          rd_memory = percent num (pyget_or (section_of ''memory'' system) ''percent'' (pyget system ''memory_percent'')),
          rd_disk = percent num (pyget_or (section_of ''disk'' system) ''percent'' (pyget system ''disk_percent'')),
          rd_load = (case (load1, logical) of
             (Some a, Some b) \<Rightarrow> if 0 < b then Some (max 0 (100 * a / b)) else None | _ \<Rightarrow> None)\<rparr>)"

definition weighted :: "readings \<Rightarrow> (real \<times> real) list" where
  "weighted rd = concat (map (\<lambda>(v, w). case v of None \<Rightarrow> [] | Some x \<Rightarrow> [(x, w)])
     [(rd_cpu rd, 0.4), (rd_memory rd, 0.35), (map_option (min 100) (rd_load rd), 0.25)])"

definition capacity_percent :: "(real \<Rightarrow> real) \<Rightarrow> readings \<Rightarrow> real option" where
  "capacity_percent round1 rd =
     (let xs = weighted rd in
      if xs = [] then None
      else Some (round1 (sum_list (map (\<lambda>(x, w). x * w) xs) / sum_list (map snd xs))))"

definition level_alert ::
  "(real \<Rightarrow> real) \<Rightarrow> real option \<Rightarrow> real \<Rightarrow> real \<Rightarrow> string \<Rightarrow> string \<Rightarrow> alert list" where
  "level_alert round1 v warn critical wcode ccode =
     (case v of None \<Rightarrow> []
      | Some x \<Rightarrow>
          if critical \<le> x then [\<lparr>at_severity = ''critical'', at_code = ccode, at_value = Some (round1 x), at_threshold = Some critical\<rparr>]
          else if warn \<le> x then [\<lparr>at_severity = ''warning'', at_code = wcode, at_value = Some (round1 x), at_threshold = Some warn\<rparr>]
          else [])"

record summary =
  sm_score :: "int option"
  sm_state :: string
  sm_capacity :: "real option"
  sm_capacity_state :: string
  sm_alerts :: "alert list"

definition health_alerts ::
  "(string \<Rightarrow> real option) \<Rightarrow> (real \<Rightarrow> real) \<Rightarrow> dict \<Rightarrow> readings \<Rightarrow> bool \<Rightarrow> alert list" where
  "health_alerts num round1 health rd node_error =
     (let core = section_of ''core'' health; lease = section_of ''hub_lease'' health;
          maintenance = section_of ''maintenance'' health;
          state = pyget core ''state'';
          age = number num (pyget maintenance ''checkpoint_age_seconds'')
      in level_alert round1 (rd_cpu rd) 80 95 ''cpu_high'' ''cpu_critical'' @
         level_alert round1 (rd_memory rd) 85 95 ''memory_high'' ''memory_critical'' @
         level_alert round1 (rd_disk rd) 85 95 ''disk_high'' ''disk_critical'' @
         level_alert round1 (rd_load rd) 100 150 ''load_high'' ''load_critical'' @
         (if truthy state \<and> state \<noteq> PStr ''running'' then [plain_alert ''critical'' ''xray_not_running''] else []) @
         (if truthy (pyget core ''last_error'') then [plain_alert ''critical'' ''xray_error''] else []) @
         (if pyget lease ''required'' = PBool True \<and> pyget lease ''valid'' \<noteq> PBool True
          then [plain_alert ''critical'' ''hub_lease_invalid''] else []) @
         (if truthy (pyget maintenance ''statistics_error'')
          then [plain_alert ''critical'' ''accounting_checkpoint_error''] else []) @
         (case age of None \<Rightarrow> []
          | Some x \<Rightarrow> if 15 < x then [\<lparr>at_severity = ''warning'', at_code = ''accounting_checkpoint_stale'',
               at_value = Some (round1 x), at_threshold = Some 15\<rparr>] else []) @
         (if node_error then [plain_alert ''critical'' ''node_error''] else []))"

definition penalty :: "alert list \<Rightarrow> int" where
  "penalty alerts = sum_list (map (\<lambda>a. if at_severity a = ''critical'' then 28 else 10) alerts)"

text \<open>
  \<open>_operations_health\<close>: \<open>telemetry\<close> is \<open>fresh\<close>, \<open>stale\<close> or \<open>offline\<close> with the age of the
  sample, \<open>e\<close> and \<open>failures\<close> the transport error and its count.
\<close>

definition operations_health ::
  "(string \<Rightarrow> real option) \<Rightarrow> (real \<Rightarrow> real) \<Rightarrow> bool \<Rightarrow> string \<Rightarrow> real option \<Rightarrow> pyval \<Rightarrow> string \<Rightarrow> int \<Rightarrow> summary" where
  "operations_health num round1 enabled telemetry age health e failures =
     (if \<not> enabled
      then \<lparr>sm_score = None, sm_state = ''disabled'', sm_capacity = None, sm_capacity_state = ''unknown'', sm_alerts = []\<rparr>
      else if telemetry = ''offline''
      then \<lparr>sm_score = Some 0, sm_state = ''critical'', sm_capacity = None, sm_capacity_state = ''unknown'',
            sm_alerts = [plain_alert ''critical'' ''telemetry_offline'']\<rparr>
      else if telemetry \<noteq> ''fresh''
      then \<lparr>sm_score = Some 55, sm_state = ''warning'', sm_capacity = None, sm_capacity_state = ''unknown'',
            sm_alerts = [\<lparr>at_severity = ''warning'', at_code = ''telemetry_stale'',
                          at_value = map_option round1 age, at_threshold = None\<rparr>]\<rparr>
      else
      let d = (case health of PDict d \<Rightarrow> d | _ \<Rightarrow> []);
          rd = read_system num (section_of ''system'' d);
          capacity = capacity_percent round1 rd;
          alerts = health_alerts num round1 d rd (e \<noteq> [] \<and> \<not> transport_stable e failures)
      in \<lparr>sm_score = Some (max 0 (100 - min 100 (penalty alerts))),
          sm_state = (if \<exists>a \<in> set alerts. at_severity a = ''critical'' then ''critical''
                      else if alerts \<noteq> [] then ''warning'' else ''healthy''),
          sm_capacity = capacity,
          sm_capacity_state = (case capacity of None \<Rightarrow> ''unknown''
             | Some x \<Rightarrow> if 90 \<le> x then ''overloaded'' else if 70 \<le> x then ''busy'' else ''healthy''),
          sm_alerts = alerts\<rparr>)"

text \<open>\<open>_annotate_alert_times\<close>: when an alert began and was last observed.\<close>

definition annotate_alert :: "node_row \<Rightarrow> real option \<Rightarrow> real \<Rightarrow> alert_row list \<Rightarrow> alert \<Rightarrow> real \<times> real" where
  "annotate_alert r sample_at now rows a =
     (let seen = (if rn_last_seen r = 0 then now else rn_last_seen r) in
      case lookup alert_key (rn_id r, at_code a) (filter al_active rows) of
        Some x \<Rightarrow> (al_first x, al_last x)
      | None \<Rightarrow>
          if at_code a = ''telemetry_stale''
          then ((case sample_at of Some t \<Rightarrow> if t = 0 then seen else t | None \<Rightarrow> seen) + 45, now)
          else if at_code a \<in> {''telemetry_offline'', ''node_error''}
          then (if rn_offline_at r \<noteq> 0 then rn_offline_at r else seen, now)
          else (seen, seen))"

text \<open>\<open>_record_metric\<close>: at most one sample per interval, for 26 hours.\<close>

definition record_metric ::
  "(string \<Rightarrow> real option) \<Rightarrow> (real \<Rightarrow> real) \<Rightarrow> string \<Rightarrow> dict \<Rightarrow> int \<Rightarrow> real \<Rightarrow> real \<Rightarrow> hub \<Rightarrow> (hub \<times> bool) res" where
  "record_metric num round1 n health latency now min_interval h =
     (let system = section_of ''system'' health; network = section_of ''network'' system;
          connections = section_of ''connections'' system; core = section_of ''core'' health;
          ops = operations_health num round1 True ''fresh'' (Some 0) (PDict health) [] 0;
          row = \<lparr>mt_node = n, mt_at = now, mt_cpu = number num (pyget system ''cpu''),
                 mt_memory = number num (pyget_or (section_of ''memory'' system) ''percent'' (pyget system ''memory_percent'')),
                 mt_disk = number num (pyget_or (section_of ''disk'' system) ''percent'' (pyget system ''disk_percent'')),
                 mt_load = (case pyget system ''loads'' of PList (x # xs) \<Rightarrow> number num x | _ \<Rightarrow> None),
                 mt_rx = number num (pyget network ''down_bps''), mt_tx = number num (pyget network ''up_bps''),
                 mt_connections = (case pyget connections ''open'' of PInt i \<Rightarrow> Some i | _ \<Rightarrow> None),
                 mt_latency = latency, mt_score = sm_score ops, mt_capacity = sm_capacity ops,
                 mt_running = (pyget core ''state'' = PStr ''running''),
                 mt_clients = (case pyget health ''managed_clients'' of PInt i \<Rightarrow> Some i | _ \<Rightarrow> None)\<rparr>
      in if \<exists>m \<in> set (hb_metrics h). mt_node m = n \<and> mt_at m \<noteq> 0 \<and> now - mt_at m < min_interval
         then Inr (h, False)
         else Inr (sync_active_alerts n (sm_alerts ops) now
                (h\<lparr>hb_metrics := delete_where (\<lambda>m. mt_at m < now - 93600)
                     (delete_where (\<lambda>m. mt_node m = n \<and> mt_at m = now) (hb_metrics h) @ [row])\<rparr>), True))"

section \<open>Hysteresis and fences\<close>

datatype outcome = Answered int | Broke string

fun outcome_row :: "outcome \<times> real \<Rightarrow> node_row \<Rightarrow> node_row" where
  "outcome_row (Answered ms, t) r = ok_row ms t r"
| "outcome_row (Broke e, t) r = failed_row e t r"

fun is_failure :: "outcome \<times> real \<Rightarrow> bool" where
  "is_failure (Broke e, t) \<longleftrightarrow> e \<noteq> []"
| "is_failure _ = False"

fun is_timeout :: "outcome \<times> real \<Rightarrow> bool" where
  "is_timeout (Broke e, t) \<longleftrightarrow> transient_error e"
| "is_timeout _ = False"

lemma transient_short: "transient_error e \<Longrightarrow> take 300 e = e \<and> e \<noteq> []"
  by (auto simp: transient_error_def transient_errors_def)

lemma runtime_block_not_ready: "runtime_block v \<noteq> ''ready''"
  by (simp add: runtime_block_def split: pyval.split)

lemma unstable_not_ready: "\<not> row_stable (nv_row v) \<Longrightarrow> \<not> av_ready (assignment_state now v l)"
  by (simp add: assignment_state_def node_online_def Let_def runtime_block_not_ready)

definition fatal :: "node_row \<Rightarrow> bool" where
  "fatal r \<longleftrightarrow> rn_error r \<noteq> [] \<and> \<not> transient_error (rn_error r)"

lemma fatal_unstable: "fatal r \<Longrightarrow> \<not> row_stable r"
  by (simp add: fatal_def row_stable_def transport_stable_def)

lemma failure_keeps_fatal: "fatal r \<Longrightarrow> is_failure x \<Longrightarrow> fatal (outcome_row x r)"
  by (cases x; cases "fst x") (auto simp: fatal_def failed_row_def kept_error_def Let_def)

lemma failures_keep_fatal: "fatal r \<Longrightarrow> list_all is_failure xs \<Longrightarrow> fatal (run_steps outcome_row xs r)"
  by (induction xs arbitrary: r) (auto simp: failure_keeps_fatal)

lemma failed_fatal: "take 300 e \<noteq> [] \<Longrightarrow> \<not> transient_error (take 300 e) \<Longrightarrow> fatal (failed_row e t r)"
  by (auto simp: fatal_def failed_row_def kept_error_def Let_def)

lemma timeouts_count:
  assumes "list_all is_timeout xs" and "rn_error r = [] \<or> transient_error (rn_error r)"
  shows "rn_failures (run_steps outcome_row xs r) = rn_failures r + int (length xs) \<and>
    (xs \<noteq> [] \<longrightarrow> transient_error (rn_error (run_steps outcome_row xs r)))"
  using assms
proof (induction xs arbitrary: r)
  case (Cons x xs)
  obtain e t where x: "x = (Broke e, t)" and e: "transient_error e" using Cons.prems(1) by (cases x; cases "fst x") auto
  have r: "rn_error (outcome_row x r) = e" "rn_failures (outcome_row x r) = rn_failures r + 1"
    using e Cons.prems(2) transient_short [OF e] by (auto simp: x failed_row_def kept_error_def Let_def)
  then show ?case using Cons.IH [of "outcome_row x r"] Cons.prems(1) e by (cases "xs = []") auto
qed simp

text \<open>
  Three consecutive timeouts take a healthy node out of routing and fewer never do; an identity,
  authentication or TLS failure takes it out at once and only a validated answer brings it back: no
  sequence of further failures, timeouts included, makes any of its assignments ready.
\<close>

theorem routing_hysteresis:
  assumes "list_all is_timeout xs" and "rn_error r = []" and "rn_failures r = 0"
    and "take 300 e \<noteq> []" and "\<not> transient_error (take 300 e)" and "list_all is_failure ys"
  shows "row_stable (run_steps outcome_row xs r) = (length xs < 3) \<and>
    \<not> av_ready (assignment_state now (view_node (run_steps outcome_row ys (failed_row e t q)) h) l)"
proof
  show "row_stable (run_steps outcome_row xs r) = (length xs < 3)"
  proof (cases "xs = []")
    case False
    then show ?thesis
      using timeouts_count [OF assms(1), of r] assms(2,3) transient_short
      by (auto simp: row_stable_def transport_stable_def)
  qed (simp add: row_stable_def transport_stable_def assms)
  show "\<not> av_ready (assignment_state now (view_node (run_steps outcome_row ys (failed_row e t q)) h) l)"
    by (intro unstable_not_ready fatal_unstable)
       (simp add: view_node_def, rule failures_keep_fatal [OF failed_fatal [OF assms(4,5)] assms(6)])
qed

definition identity_mismatch :: string where
  "identity_mismatch = ''Node response installation identity mismatch''"

abbreviation sample_timeout :: "outcome \<times> real" where
  "sample_timeout \<equiv> (Broke ''Node connection failed: TimeoutError'', 9)"

theorem routing_hysteresis_witness:
  "row_stable (run_steps outcome_row [sample_timeout, sample_timeout] sample_node_row) \<and>
   \<not> av_ready (assignment_state 10 (view_node (run_steps outcome_row [sample_timeout]
        (failed_row identity_mismatch 8 sample_node_row)) sample_hub)
      \<lparr>li_node = ''n1'', li_inbound = 1, li_remote = 1, li_sync = 0, li_error = []\<rparr>)"
  using routing_hysteresis [of "[sample_timeout, sample_timeout]" sample_node_row identity_mismatch "[sample_timeout]"
      10 8 sample_node_row sample_hub "\<lparr>li_node = ''n1'', li_inbound = 1, li_remote = 1, li_sync = 0, li_error = []\<rparr>"]
  by (simp add: sample_node_row_def transient_error_def transient_errors_def identity_mismatch_def)

end
