(* ===== verification/Hub_Delivery.thy ===== *)
theory Hub_Delivery
  imports Hub_Health
begin

text \<open>
  Delivery of a node's run command (\<open>deliver\<close> of backend/node_commands.py, \<open>deliver_pending_control\<close>,
  \<open>remote_core\<close> and \<open>probe\<close> of backend/nodes.py). The database may change while a request is in
  flight (\<open>lk_between\<close>); the answer counts only for the command that is then still current.
\<close>

section \<open>Probing\<close>

record probe_env =
  pe_link :: link
  pe_num :: "string \<Rightarrow> real option"
  pe_round :: "real \<Rightarrow> real"

definition foreign_endpoint :: string where
  "foreign_endpoint = ''Remote endpoint is not a DARK node agent''"

definition probed_row :: "real \<Rightarrow> int \<Rightarrow> pyval \<Rightarrow> node_row \<Rightarrow> node_row" where
  "probed_row now ms health r = r\<lparr>rn_last_seen := now, rn_latency := ms, rn_error := [], rn_health := Some health\<rparr>"

definition probe :: "string \<Rightarrow> probe_env \<Rightarrow> (session, dict) effect" where
  "probe n pe =
     ebind (request n (pe_link pe) PNone) (\<lambda>(doc, ms).
     (case doc of
        PDict d \<Rightarrow>
          if pyget d ''service'' \<noteq> PStr ''DARK XRAY NODE''
          then ebind (node_transaction (request_failed n foreign_endpoint (lk_now (pe_link pe)))) (\<lambda>_.
               raise (PolicyError foreign_endpoint))
          else ebind (observe_identity doc) (\<lambda>_.
               ebind (node_transaction (\<lambda>h. Inr (h\<lparr>hb_nodes := modify rn_id n
                 (probed_row (lk_now (pe_link pe)) ms doc) (hb_nodes h)\<rparr>, ()))) (\<lambda>_.
               ebind (on_hub (transaction (record_metric (pe_num pe) (pe_round pe) n d ms (lk_now (pe_link pe)) 15))) (\<lambda>_.
               return d)))
      | _ \<Rightarrow> ebind (node_transaction (request_failed n foreign_endpoint (lk_now (pe_link pe)))) (\<lambda>_.
               raise (PolicyError foreign_endpoint))))"

section \<open>Delivering\<close>

text \<open>\<open>except (PolicyError, OSError, ValueError)\<close>.\<close>

definition is_handled :: "err \<Rightarrow> bool" where
  "is_handled ex \<longleftrightarrow> is_policy_error ex \<or> ex \<in> {OtherError ''OSError'', OtherError ''ValueError''}"

definition acknowledges :: "string \<Rightarrow> command_status \<Rightarrow> pyval \<Rightarrow> bool" where
  "acknowledges agent cmd doc =
     (case doc of
        PDict d \<Rightarrow>
          pyget d ''service'' = PStr ''DARK XRAY NODE'' \<and> pyget d ''node_id'' = PStr agent
          \<and> pyget d ''revision'' = PInt (cs_revision cmd) \<and> pyget d ''commandId'' = PStr (cs_command cmd)
          \<and> pyget d ''action'' = PStr (cs_action cmd) \<and> pyget d ''applied'' = PBool True
          \<and> (case pyget d ''engine'' of
               PDict e \<Rightarrow> pyget e ''state'' = PStr (if cs_action cmd = ''stop'' then ''stopped'' else ''running'')
             | _ \<Rightarrow> False)
      | _ \<Rightarrow> False)"

definition command_body :: "string \<Rightarrow> command_status \<Rightarrow> pyval" where
  "command_body agent cmd =
     PDict [(''nodeId'', PStr agent), (''revision'', PInt (cs_revision cmd)),
            (''commandId'', PStr (cs_command cmd)), (''action'', PStr (cs_action cmd))]"

definition post_command :: "string \<Rightarrow> link \<Rightarrow> command_status \<Rightarrow> (session, dict) effect" where
  "post_command n lk cmd s =
     (let agent = bd_agent (pn_binding (ss_pin s)) in
      ebind (request n lk (command_body agent cmd)) (\<lambda>(doc, ms) s.
        (s, if acknowledges agent cmd doc
            then (case doc of PDict d \<Rightarrow> Inr d | _ \<Rightarrow> Inr [])
            else bad ''Node did not acknowledge the exact run command and resulting state'')) s)"

definition settle_command :: "string \<Rightarrow> link \<Rightarrow> command_status \<Rightarrow> dict \<Rightarrow> (session, delivery) effect" where
  "settle_command n lk cmd d =
     ebind (node_transaction (mark_delivered n cmd (pyget d ''engine'') (pyget_or d ''run_control'' (PDict [])) (lk_now lk)))
       (\<lambda>hit s. let now = command_status n (ss_hub s);
                     accepted = (hit \<and> cs_command now = cs_command cmd \<and> \<not> cs_pending now)
                 in (s, Inr \<lparr>dl_queued = cs_pending now, dl_executed = accepted,
                             dl_state = (if accepted then ''executed'' else ''superseded''), dl_control = now\<rparr>))"

definition idle_delivery :: "command_status \<Rightarrow> string \<Rightarrow> delivery" where
  "idle_delivery cmd state = \<lparr>dl_queued = cs_pending cmd, dl_executed = False, dl_state = state, dl_control = cmd\<rparr>"

definition deliver_command :: "string \<Rightarrow> string option \<Rightarrow> link \<Rightarrow> (session, delivery) effect" where
  "deliver_command n expected lk =
     nested (\<lambda>s.
       let cmd = command_status n (ss_hub s) in
       if (case expected of None \<Rightarrow> False | Some k \<Rightarrow> cs_command cmd \<noteq> k) then (s, Inr (idle_delivery cmd ''superseded''))
       else if \<not> cs_persisted cmd then (s, Inr (idle_delivery cmd ''idle''))
       else if \<not> cs_pending cmd then (s, Inr (idle_delivery cmd ''acknowledged''))
       else (case post_command n lk cmd s of
               (s1, Inl ex) \<Rightarrow> if is_handled ex then defer_command n cmd (err_message ex) ''pending'' s1 else (s1, Inl ex)
             | (s1, Inr d) \<Rightarrow> settle_command n lk cmd d s1))"

text \<open>The reason to defer a pending command before it is sent, if there is one.\<close>

definition hold_reason :: "string \<Rightarrow> string \<Rightarrow> command_status \<Rightarrow> dict \<Rightarrow> hub \<Rightarrow> (string \<times> string) option" where
  "hold_reason n agent cmd health h =
     (let ordered = (case pyget health ''capabilities'' of PDict c \<Rightarrow> pyget c ''ordered_control'' | _ \<Rightarrow> PNone);
          only = (pyget health ''agent_only'' = PBool True)
      in if only \<and> pyget health ''node_id'' \<noteq> PStr agent
         then Some (''Agent identity mismatch; verify Node enrolment'', ''identity_mismatch'')
         else if \<not> only \<or> ordered \<noteq> PInt 1
         then Some (''Agent lacks ordered control v1; update the Node Agent. No legacy command was sent'', ''unsupported_agent'')
         else if cs_action cmd \<noteq> ''stop'' \<and>
                 (case desired_of n h of None \<Rightarrow> False
                  | Some d \<Rightarrow> nd_revision d \<noteq> nd_applied d \<or> nd_hash d \<noteq> nd_applied_hash d \<or> nd_error d \<noteq> [])
         then Some (''Waiting for desired configuration acknowledgement before resume'', ''configuration_pending'')
         else None)"

definition deliver_pending :: "string \<Rightarrow> probe_env \<Rightarrow> link \<Rightarrow> (session, delivery) effect" where
  "deliver_pending n pe lk =
     nested (\<lambda>s.
       let cmd = command_status n (ss_hub s) in
       if \<not> cs_pending cmd then deliver_command n None lk s
       else case known_node n (ss_hub s) of
         Inl ex \<Rightarrow> if is_handled ex then defer_command n cmd (err_message ex) ''pending'' s else (s, Inl ex)
       | Inr _ \<Rightarrow>
           if (case node_of_id n (ss_hub s) of None \<Rightarrow> True | Some r \<Rightarrow> \<not> rn_enabled r)
           then defer_command n cmd ''Node is disabled; enable it to deliver the pending command'' ''disabled'' s
           else (case probe n pe s of
                   (s1, Inl ex) \<Rightarrow> if is_handled ex then defer_command n cmd (err_message ex) ''pending'' s1 else (s1, Inl ex)
                 | (s1, Inr health) \<Rightarrow>
                     (case hold_reason n (bd_agent (pn_binding (ss_pin s1))) cmd health (ss_hub s1) of
                        Some (message, reason) \<Rightarrow> defer_command n cmd message reason s1
                      | None \<Rightarrow> deliver_command n (Some (cs_command cmd)) lk s1)))"

text \<open>
  \<open>_remote_core_operation\<close>: a validation is an unordered request and leaves the register alone;
  every other action is recorded first and then delivered.
\<close>

datatype core_result = Delivered delivery | Validated int pyval

definition invalid_core :: string where
  "invalid_core = ''Invalid remote core response''"

definition validate_remote :: "string \<Rightarrow> link \<Rightarrow> (session, core_result) effect" where
  "validate_remote n lk =
     ebind (request n lk (PDict [])) (\<lambda>(doc, ms).
     if (case doc of PDict d \<Rightarrow> (case pyget d ''engine'' of PDict e \<Rightarrow> True | _ \<Rightarrow> False) | _ \<Rightarrow> False)
     then return (Validated ms doc)
     else ebind (node_transaction (request_failed n invalid_core (lk_now lk))) (\<lambda>_. raise (PolicyError invalid_core)))"

definition remote_core_operation :: "string \<Rightarrow> string \<Rightarrow> string \<Rightarrow> probe_env \<Rightarrow> link \<Rightarrow> (session, core_result) effect" where
  "remote_core_operation n action fresh pe lk =
     ebind (require_that (\<lambda>_. action \<in> {''validate'', ''restart'', ''start'', ''stop''})
              (PolicyError ''Unsupported remote core action'')) (\<lambda>_.
     if action = ''validate'' then validate_remote n lk
     else ebind (record_command n action fresh) (\<lambda>_.
          ebind (deliver_pending n pe lk) (\<lambda>d. return (Delivered d))))"

text \<open>\<open>remote_core\<close>: an installation replaced in between leaves the command queued, not failed.\<close>

definition remote_core :: "string \<Rightarrow> string \<Rightarrow> string \<Rightarrow> probe_env \<Rightarrow> link \<Rightarrow> (hub, core_result) effect" where
  "remote_core n action fresh pe lk h =
     (case known_node n h of
        Inl ex \<Rightarrow> (h, Inl ex)
      | Inr _ \<Rightarrow>
          (case operation n (remote_core_operation n action fresh pe lk) h of
             (h1, Inl ex) \<Rightarrow>
               if is_stale ex
               then (h1, Inr (Delivered (idle_delivery (command_status n h1) ''superseded'')))
               else (h1, Inl ex)
           | (h1, Inr x) \<Rightarrow> (h1, Inr x)))"

end
