(* ===== verification/Fleet.thy ===== *)
theory Fleet
  imports Agent_Control Hub_Delivery
begin

text \<open>
  The Hub and one Agent joined by a network that delays, repeats, reorders and loses messages. A
  step is one transaction of the Hub, one request served by the Agent, or any local activity of
  either side. The theory shows that the Hub's register never claims more than the Agent's durable
  receipt: an acknowledged intent is the Agent's, and an acknowledged Stop is in force.
\<close>

section \<open>The joint state\<close>

text \<open>
  \<open>fl_sent\<close> are the commands ever put on the wire, \<open>fl_answers\<close> the answers with the command they
  answer; nothing is ever removed, so that a message may arrive any number of times, at any time.
\<close>

record fleet =
  fl_hub :: hub
  fl_agent :: agent
  fl_sent :: "command_status list"
  fl_answers :: "(command_status \<times> dict) list"

text \<open>\<open>_command_ack\<close> as the document on the wire, as far as the Hub reads it.\<close>

definition ack_document :: "command_ack \<Rightarrow> agent \<Rightarrow> dict" where
  "ack_document ack a =
     [(''service'', PStr ''DARK XRAY NODE''), (''node_id'', PStr (ag_scope a)), (''revision'', PInt (ca_revision ack)),
      (''commandId'', PStr (ca_identity ack)), (''action'', PStr (ca_action ack)),
      (''applied'', PBool (ca_applied ack)), (''duplicate'', PBool (ca_duplicate ack)),
      (''engine'', PDict [(''state'', PStr (core_state a))]), (''run_control'', PDict [])]"

fun local_op :: "agent_op \<Rightarrow> bool" where
  "local_op (Ordered body t v) = False"
| "local_op (Recovery_stop body t v) = False"
| "local_op _ = True"

text \<open>
  The steps on node \<open>n\<close>: the Hub records an intent, sends the pending command, attaches an error,
  settles an acknowledgement, or does anything else that leaves the node's register alone; the
  Agent serves a command it receives, or acts locally (reconciliation, lease fences, flushes,
  crashes, unordered requests).
\<close>

inductive fleet_step :: "(string \<Rightarrow> string) \<Rightarrow> string \<Rightarrow> fleet \<Rightarrow> fleet \<Rightarrow> bool" for sha n where
  Record: "operation n (record_command n action fresh) (fl_hub f) = (h, r) \<Longrightarrow>
    fleet_step sha n f (f\<lparr>fl_hub := h\<rparr>)"
| Send: "cmd = command_status n (fl_hub f) \<Longrightarrow> cs_pending cmd \<Longrightarrow>
    fleet_step sha n f (f\<lparr>fl_sent := cmd # fl_sent f\<rparr>)"
| Serve: "cmd \<in> set (fl_sent f) \<Longrightarrow>
    ordered_command sha (command_body (ag_scope (fl_agent f)) cmd) t v (fl_agent f) = (a, Inr ack) \<Longrightarrow>
    fleet_step sha n f (f\<lparr>fl_agent := a, fl_answers := (cmd, ack_document ack a) # fl_answers f\<rparr>)"
| Refuse: "cmd \<in> set (fl_sent f) \<Longrightarrow>
    ordered_command sha (command_body (ag_scope (fl_agent f)) cmd) t v (fl_agent f) = (a, Inl ex) \<Longrightarrow>
    fleet_step sha n f (f\<lparr>fl_agent := a\<rparr>)"
| Settle: "(cmd, d) \<in> set (fl_answers f) \<Longrightarrow> acknowledges agent cmd (PDict d) \<Longrightarrow>
    settle_command n lk cmd d \<lparr>ss_hub = fl_hub f, ss_pin = p\<rparr> = (s, r) \<Longrightarrow>
    fleet_step sha n f (f\<lparr>fl_hub := ss_hub s\<rparr>)"
| Defer: "defer_command n cmd message reason \<lparr>ss_hub = fl_hub f, ss_pin = p\<rparr> = (s, r) \<Longrightarrow>
    fleet_step sha n f (f\<lparr>fl_hub := ss_hub s\<rparr>)"
| Other: "control_of n h = control_of n (fl_hub f) \<Longrightarrow> fleet_step sha n f (f\<lparr>fl_hub := h\<rparr>)"
| Local: "local_op x \<Longrightarrow> fleet_step sha n f (f\<lparr>fl_agent := agent_step sha x (fl_agent f)\<rparr>)"

definition fresh_fleet :: "string \<Rightarrow> fleet \<Rightarrow> bool" where
  "fresh_fleet n f \<longleftrightarrow> control_of n (fl_hub f) = None \<and> ag_receipt (fl_agent f) = None \<and>
     fl_sent f = [] \<and> fl_answers f = []"

inductive fleet_reach :: "(string \<Rightarrow> string) \<Rightarrow> string \<Rightarrow> fleet \<Rightarrow> bool" for sha n where
  start: "fresh_fleet n f \<Longrightarrow> fleet_reach sha n f"
| step: "fleet_reach sha n f \<Longrightarrow> fleet_step sha n f g \<Longrightarrow> fleet_reach sha n g"

section \<open>The register\<close>

lemma node_transaction_result:
  "node_transaction body s = (s', r) \<Longrightarrow>
    s' = s \<or> (\<exists>h' x. body (ss_hub s) = Inr (h', x) \<and> s' = s\<lparr>ss_hub := h'\<rparr> \<and> r = Inr x)"
  by (auto simp: node_transaction_def on_hub_def on_part_def transaction_def rbind_Inr
      split: sum.splits prod.splits)

lemma operation_result:
  assumes "operation n body h = (h', r)"
  shows "h' = h \<or> (\<exists>p s x. capture_pin n h = Inr p \<and> body \<lparr>ss_hub = h, ss_pin = p\<rparr> = (s, x) \<and> h' = ss_hub s)"
proof (cases "capture_pin n h")
  case (Inr p)
  obtain s x where b: "body \<lparr>ss_hub = h, ss_pin = p\<rparr> = (s, x)" by fastforce
  then have "h' = ss_hub s"
    using assms by (auto simp: operation_def Inr still_current_def return_def split: sum.splits prod.splits)
  with b Inr show ?thesis by blast
qed (use assms in \<open>simp add: operation_def\<close>)

text \<open>What recording an intent does to the node's row.\<close>

definition next_row :: "control_row option \<Rightarrow> control_row \<Rightarrow> bool" where
  "next_row old c \<longleftrightarrow>
     (case old of None \<Rightarrow> nc_revision c = 1 \<and> nc_applied c = 0
      | Some x \<Rightarrow> nc_revision c = nc_revision x + 1 \<and> nc_applied c = nc_applied x)"

lemma write_command_row:
  assumes "write_command n action fresh h = Inr (h', u)"
  shows "control_of n h' = control_of n h \<or> (\<exists>c. control_of n h' = Some c \<and> next_row (control_of n h) c)"
  using assms
  by (auto simp: write_command_def Let_def rbind_Inr lookup_upsert next_row_def split: if_splits option.splits)

lemma record_command_row:
  assumes "operation n (record_command n action fresh) h = (h', r)"
  shows "control_of n h' = control_of n h \<or> (\<exists>c. control_of n h' = Some c \<and> next_row (control_of n h) c)"
proof -
  have "ss_hub s = h \<or> (\<exists>u. write_command n action fresh h = Inr (ss_hub s, u))"
    if "record_command n action fresh \<lparr>ss_hub = h, ss_pin = p\<rparr> = (s, x)" for p s x
    using that
    by (auto simp: record_command_def require_that_def dest!: node_transaction_result
        split: sum.splits prod.splits if_splits)
  then show ?thesis using operation_result [OF assms] write_command_row by metis
qed

lemma defer_command_row:
  assumes "defer_command n cmd message reason s = (s', r)"
  shows "control_of n (ss_hub s') = map_option (\<lambda>c. if same_pending n cmd c then c\<lparr>nc_error := take 500 message\<rparr> else c) (control_of n (ss_hub s))
    \<or> control_of n (ss_hub s') = control_of n (ss_hub s)"
  using assms
  by (auto simp: defer_command_def Let_def lookup_update_where dest!: node_transaction_result split: sum.splits prod.splits)

lemma settle_command_row:
  assumes "settle_command n lk cmd d s = (s', r)"
  shows "control_of n (ss_hub s') = map_option (\<lambda>c. if same_command_row n cmd c
        then c\<lparr>nc_applied := cs_revision cmd, nc_applied_at := lk_now lk, nc_error := []\<rparr> else c) (control_of n (ss_hub s))
    \<or> control_of n (ss_hub s') = control_of n (ss_hub s)"
  using assms
  by (auto simp: settle_command_def mark_delivered_def Let_def lookup_update_where dest!: node_transaction_result
      split: sum.splits prod.splits if_splits)

section \<open>The Hub never runs ahead of the Agent\<close>

text \<open>A command of the past of register \<open>R\<close>: at the register's revision it is the register's command.\<close>

definition past :: "control_row option \<Rightarrow> int \<Rightarrow> string \<Rightarrow> string \<Rightarrow> bool" where
  "past R revision identity action \<longleftrightarrow>
     (case R of None \<Rightarrow> False
      | Some c \<Rightarrow> revision \<le> nc_revision c \<and>
          (revision = nc_revision c \<longrightarrow> identity = nc_command c \<and> action = nc_action c))"

definition register_ok :: "control_row option \<Rightarrow> bool" where
  "register_ok R \<longleftrightarrow> (case R of None \<Rightarrow> True | Some c \<Rightarrow> 1 \<le> nc_revision c \<and> nc_applied c \<le> nc_revision c)"

text \<open>The receipt confirms a command: it is that command, applied, or a later one.\<close>

definition confirms :: "receipt option \<Rightarrow> int \<Rightarrow> string \<Rightarrow> string \<Rightarrow> bool" where
  "confirms p revision identity action \<longleftrightarrow>
     (case p of None \<Rightarrow> False
      | Some r \<Rightarrow> revision \<le> rc_revision r \<and>
          (revision = rc_revision r \<longrightarrow> rc_identity r = identity \<and> rc_action r = action \<and> rc_phase r = Applied))"

definition stop_in_force :: "agent \<Rightarrow> bool" where
  "stop_in_force a \<longleftrightarrow>
     (case ag_receipt a of None \<Rightarrow> True
      | Some r \<Rightarrow> rc_action r = ''stop'' \<and> rc_phase r = Applied \<longrightarrow> manually_stopped a)"

definition fleet_inv :: "string \<Rightarrow> fleet \<Rightarrow> bool" where
  "fleet_inv n f \<longleftrightarrow>
     (let R = control_of n (fl_hub f); p = ag_receipt (fl_agent f) in
      register_ok R \<and> stop_in_force (fl_agent f) \<and>
      (\<forall>c \<in> set (fl_sent f). past R (cs_revision c) (cs_command c) (cs_action c)) \<and>
      (\<forall>r. p = Some r \<longrightarrow> past R (rc_revision r) (rc_identity r) (rc_action r)) \<and>
      (\<forall>(c, d) \<in> set (fl_answers f). \<forall>agent. acknowledges agent c (PDict d) \<longrightarrow>
         confirms p (cs_revision c) (cs_command c) (cs_action c)) \<and>
      (\<forall>c. R = Some c \<and> nc_applied c = nc_revision c \<longrightarrow> confirms p (nc_revision c) (nc_command c) (nc_action c)))"

lemma past_next: "next_row R c \<Longrightarrow> past R i k x \<Longrightarrow> past (Some c) i k x"
  by (auto simp: next_row_def past_def split: option.splits)

lemma register_next: "next_row R c \<Longrightarrow> register_ok R \<Longrightarrow> register_ok (Some c) \<and> nc_applied c \<noteq> nc_revision c"
  by (auto simp: next_row_def register_ok_def split: option.splits)

text \<open>A change of the register that keeps the past keeps the invariant.\<close>

lemma fleet_inv_hub:
  assumes "fleet_inv n f" and "register_ok (control_of n h)"
    and "\<And>i k x. past (control_of n (fl_hub f)) i k x \<Longrightarrow> past (control_of n h) i k x"
    and "\<And>c. control_of n h = Some c \<Longrightarrow> nc_applied c = nc_revision c \<Longrightarrow>
      confirms (ag_receipt (fl_agent f)) (nc_revision c) (nc_command c) (nc_action c)"
  shows "fleet_inv n (f\<lparr>fl_hub := h\<rparr>)"
  using assms by (auto simp: fleet_inv_def Let_def)

lemma fleet_inv_same:
  "fleet_inv n f \<Longrightarrow> control_of n h = control_of n (fl_hub f) \<Longrightarrow> fleet_inv n (f\<lparr>fl_hub := h\<rparr>)"
  by (simp add: fleet_inv_def Let_def)

lemma record_inv:
  assumes "fleet_inv n f" and "operation n (record_command n action fresh) (fl_hub f) = (h, r)"
  shows "fleet_inv n (f\<lparr>fl_hub := h\<rparr>)"
  using record_command_row [OF assms(2)]
proof (elim disjE exE conjE)
  fix c
  assume c: "control_of n h = Some c" "next_row (control_of n (fl_hub f)) c"
  have "register_ok (control_of n (fl_hub f))" using assms(1) by (simp add: fleet_inv_def Let_def)
  from register_next [OF c(2) this] past_next [OF c(2)] show ?thesis
    by (intro fleet_inv_hub [OF assms(1)]) (auto simp: c(1))
qed (rule fleet_inv_same [OF assms(1)])

lemma defer_inv:
  assumes "fleet_inv n f" and "defer_command n cmd message reason \<lparr>ss_hub = fl_hub f, ss_pin = p\<rparr> = (s, r)"
  shows "fleet_inv n (f\<lparr>fl_hub := ss_hub s\<rparr>)"
  using defer_command_row [OF assms(2)]
proof (elim disjE)
  assume eq: "control_of n (ss_hub s) = map_option (\<lambda>c. if same_pending n cmd c then c\<lparr>nc_error := take 500 message\<rparr> else c)
      (control_of n (ss_hub \<lparr>ss_hub = fl_hub f, ss_pin = p\<rparr>))"
  show ?thesis
    using assms(1) unfolding fleet_inv_def Let_def
    by (cases "control_of n (fl_hub f)") (auto simp: eq register_ok_def past_def)
qed (use fleet_inv_same [OF assms(1)] in simp)

lemma settle_inv:
  assumes "fleet_inv n f" and "(cmd, d) \<in> set (fl_answers f)" and "acknowledges agent cmd (PDict d)"
    and "settle_command n lk cmd d \<lparr>ss_hub = fl_hub f, ss_pin = p\<rparr> = (s, r)"
  shows "fleet_inv n (f\<lparr>fl_hub := ss_hub s\<rparr>)"
  using settle_command_row [OF assms(4)]
proof (elim disjE)
  let ?R = "control_of n (fl_hub f)"
  assume eq: "control_of n (ss_hub s) = map_option (\<lambda>c. if same_command_row n cmd c
        then c\<lparr>nc_applied := cs_revision cmd, nc_applied_at := lk_now lk, nc_error := []\<rparr> else c)
      (control_of n (ss_hub \<lparr>ss_hub = fl_hub f, ss_pin = p\<rparr>))"
  have conf: "confirms (ag_receipt (fl_agent f)) (cs_revision cmd) (cs_command cmd) (cs_action cmd)"
    and rec: "\<And>q. ag_receipt (fl_agent f) = Some q \<Longrightarrow> past ?R (rc_revision q) (rc_identity q) (rc_action q)"
    using assms(1-3) by (auto simp: fleet_inv_def Let_def)
  show ?thesis
  proof (rule fleet_inv_hub [OF assms(1)])
    show "register_ok (control_of n (ss_hub s))"
      using assms(1) by (auto simp: eq fleet_inv_def Let_def register_ok_def same_command_row_def split: option.splits)
    show "past (control_of n (ss_hub s)) i k x" if "past ?R i k x" for i k x
      using that by (auto simp: eq past_def split: option.splits)
    fix c
    assume c: "control_of n (ss_hub s) = Some c" "nc_applied c = nc_revision c"
    obtain c0 where c0: "?R = Some c0" "c = (if same_command_row n cmd c0
        then c0\<lparr>nc_applied := cs_revision cmd, nc_applied_at := lk_now lk, nc_error := []\<rparr> else c0)"
      using c(1) by (auto simp: eq)
    show "confirms (ag_receipt (fl_agent f)) (nc_revision c) (nc_command c) (nc_action c)"
    proof (cases "same_command_row n cmd c0")
      case True
      then have same: "nc_revision c = cs_revision cmd" "nc_command c = cs_command cmd" "nc_action c = nc_action c0"
        "nc_revision c0 = cs_revision cmd"
        using c0(2) by (simp_all add: same_command_row_def)
      obtain q where q: "ag_receipt (fl_agent f) = Some q" using conf by (auto simp: confirms_def split: option.splits)
      have "rc_revision q = cs_revision cmd" "rc_action q = nc_action c0"
        using conf rec [OF q] q c0(1) same by (auto simp: confirms_def past_def)
      then show ?thesis using conf q same by (auto simp: confirms_def)
    next
      case False
      then show ?thesis using assms(1) c0 c(2) by (auto simp: fleet_inv_def Let_def)
    qed
  qed
qed (use fleet_inv_same [OF assms(1)] in simp)

section \<open>The Agent's side\<close>

lemma stop_success_stopped:
  "core_command sha ''stop'' v e = (e', Inr u) \<Longrightarrow> engine_stopped e'"
  by (auto simp: core_command_def check_writes_def require_that_def stop_core_def collect_stats_def
      stop_child_def alter_def engine_stopped_def running_def split: if_splits sum.splits prod.splits)

lemma run_ordered_stop_in_force:
  assumes "run_ordered sha o' t v a = (a', r)"
  shows "stop_in_force a'"
proof -
  obtain a1 r1 where c: "command_locked sha (od_action o') t v a = (a1, r1)" by fastforce
  have "manually_stopped a1" if "r1 = Inr ()" "od_action o' = ''stop''"
    using c that
    by (auto simp: command_locked_def manually_stopped_def set_wants_def write_control_def
        dest!: on_engine_result stop_success_stopped split: if_splits)
  then show ?thesis
    using assms c
    by (auto simp: run_ordered_def mark_receipt_def stop_in_force_def manually_stopped_def
        split: sum.splits if_splits)
qed

lemma parse_command_body:
  "parse_ordered scope (command_body scope cmd) = Inr o' \<Longrightarrow>
    od_revision o' = cs_revision cmd \<and> od_identity o' = cs_command cmd \<and> od_action o' = cs_action cmd"
  by (auto simp: parse_ordered_def command_body_def split: if_splits)

lemma acknowledged_fields:
  "acknowledges agent cmd (PDict (ack_document ack a)) \<Longrightarrow>
    ca_revision ack = cs_revision cmd \<and> ca_identity ack = cs_command cmd \<and> ca_action ack = cs_action cmd \<and> ca_applied ack"
  by (simp add: acknowledges_def ack_document_def)

lemma run_confirms:
  assumes "fence p o' = Run" and "confirms p i k x"
    and "p' = Some \<lparr>rc_revision = od_revision o', rc_identity = od_identity o', rc_action = od_action o',
        rc_phase = ph, rc_error = m\<rparr>"
  shows "confirms p' i k x"
  using assms by (auto simp: fence_def confirms_def split: option.splits if_splits)

text \<open>One served command: what becomes of the receipt and what its answer proves.\<close>

lemma serve_receipt:
  assumes "ordered_command sha (command_body (ag_scope a) cmd) t v a = (a', r)"
    and "past R (cs_revision cmd) (cs_command cmd) (cs_action cmd)" and "stop_in_force a"
    and "\<forall>q. ag_receipt a = Some q \<longrightarrow> past R (rc_revision q) (rc_identity q) (rc_action q)"
  shows "(\<forall>q. ag_receipt a' = Some q \<longrightarrow> past R (rc_revision q) (rc_identity q) (rc_action q)) \<and> stop_in_force a' \<and>
    (\<forall>i k x. confirms (ag_receipt a) i k x \<longrightarrow> confirms (ag_receipt a') i k x) \<and>
    (\<forall>ack agent. r = Inr ack \<longrightarrow> acknowledges agent cmd (PDict (ack_document ack a')) \<longrightarrow>
       confirms (ag_receipt a') (cs_revision cmd) (cs_command cmd) (cs_action cmd))"
proof (cases "parse_ordered (ag_scope a) (command_body (ag_scope a) cmd)")
  case (Inl ex)
  then show ?thesis using assms by (auto simp: ordered_command_def)
next
  case (Inr o')
  note fields = parse_command_body [OF Inr]
  show ?thesis
  proof (cases "eg_writes (ag_engine a)")
    case False
    then show ?thesis using assms Inr by (auto simp: ordered_command_def)
  next
    case True
    show ?thesis
    proof (cases "fence (ag_receipt a) o'")
      case (Refuse ex)
      then show ?thesis using assms Inr True by (auto simp: ordered_command_def)
    next
      case (Repeat p)
      then have "ag_receipt a = Some p" by (auto simp: fence_def split: option.splits if_splits)
      moreover have "a' = a" "r = Inr (command_ack p True a)"
        using assms(1) Inr True Repeat by (auto simp: ordered_command_def)
      ultimately show ?thesis using assms(3,4)
        by (auto simp: confirms_def command_ack_def dest!: acknowledged_fields)
    next
      case Run
      obtain a1 r1 where run: "run_ordered sha o' t v (mark_receipt o' Pending [] a) = (a1, r1)" by fastforce
      have a': "a' = a1" and r: "\<And>ack. r = Inr ack \<Longrightarrow> r1 = Inr () \<and> ack = command_ack (the (ag_receipt a1)) False a1"
        using assms(1) Inr True Run run by (auto simp: ordered_command_def split: sum.splits)
      obtain ph m where rec: "ag_receipt a1 = Some \<lparr>rc_revision = od_revision o', rc_identity = od_identity o',
          rc_action = od_action o', rc_phase = ph, rc_error = m\<rparr>" and ph: "r1 = Inr () \<longrightarrow> ph = Applied"
        using run_ordered_receipt [OF run] by blast
      have "confirms (ag_receipt a') i k x" if "confirms (ag_receipt a) i k x" for i k x
        using run_confirms [OF Run that rec] a' by simp
      moreover have "confirms (ag_receipt a') (cs_revision cmd) (cs_command cmd) (cs_action cmd)" if "r = Inr ack" for ack
        using r [OF that] ph rec fields by (simp add: confirms_def a')
      moreover have "stop_in_force a'" using run_ordered_stop_in_force [OF run] by (simp add: a')
      ultimately show ?thesis using assms(2) rec fields by (simp add: a')
    qed
  qed
qed

lemma local_step:
  assumes "local_op x"
  shows "(ag_receipt a = None \<longrightarrow> ag_receipt (agent_step sha x a) = None) \<and>
    (stop_in_force a \<longrightarrow> stop_in_force (agent_step sha x a)) \<and> ag_receipt (agent_step sha x a) = ag_receipt a"
proof -
  have rec: "ag_receipt (agent_step sha x a) = ag_receipt a"
    using assms other_receipt
    by (cases x) (auto simp: agent_step_def split: prod.splits, (metis fst_conv old.prod.exhaust)+)
  have "agent_step sha x a = a \<or> \<not> starts x" if "ag_receipt a \<noteq> None"
    using assms that by (cases x) (auto simp: agent_step_def unordered_command_def)
  then have "stop_in_force (agent_step sha x a)" if "stop_in_force a"
    using that rec agent_step_stopped [of a x sha] by (auto simp: stop_in_force_def split: option.splits)
  with rec show ?thesis by simp
qed

lemma fleet_step_inv: "fleet_step sha n f g \<Longrightarrow> fleet_inv n f \<Longrightarrow> fleet_inv n g"
proof (induction rule: fleet_step.induct)
  case (Send cmd f)
  then show ?case
    by (auto simp: fleet_inv_def Let_def past_def command_status_def split: option.splits)
next
  case (Serve cmd f t v a ack)
  have "past (control_of n (fl_hub f)) (cs_revision cmd) (cs_command cmd) (cs_action cmd)"
    "stop_in_force (fl_agent f)"
    "\<forall>q. ag_receipt (fl_agent f) = Some q \<longrightarrow> past (control_of n (fl_hub f)) (rc_revision q) (rc_identity q) (rc_action q)"
    using Serve.prems Serve.hyps(1) by (auto simp: fleet_inv_def Let_def)
  from serve_receipt [OF Serve.hyps(2) this] show ?case
    using Serve.prems unfolding fleet_inv_def Let_def by auto
next
  case (Refuse cmd f t v a ex)
  have "past (control_of n (fl_hub f)) (cs_revision cmd) (cs_command cmd) (cs_action cmd)"
    "stop_in_force (fl_agent f)"
    "\<forall>q. ag_receipt (fl_agent f) = Some q \<longrightarrow> past (control_of n (fl_hub f)) (rc_revision q) (rc_identity q) (rc_action q)"
    using Refuse.prems Refuse.hyps(1) by (auto simp: fleet_inv_def Let_def)
  from serve_receipt [OF Refuse.hyps(2) this] show ?case
    using Refuse.prems unfolding fleet_inv_def Let_def by auto
next
  case (Local x f)
  then show ?case using local_step [OF Local.hyps, of "fl_agent f" sha] by (simp add: fleet_inv_def Let_def)
qed (blast intro: record_inv defer_inv settle_inv fleet_inv_same)+

lemma fleet_reach_inv: "fleet_reach sha n f \<Longrightarrow> fleet_inv n f"
proof (induction rule: fleet_reach.induct)
  case (start f)
  then show ?case by (simp add: fresh_fleet_def fleet_inv_def Let_def register_ok_def stop_in_force_def)
qed (rule fleet_step_inv)

text \<open>
  C17. Over a network that delays, repeats, reorders and loses messages: when the Hub shows a node's
  run intent as acknowledged, the Agent's durable receipt is exactly that intent, applied, and an
  acknowledged Stop is in force, whatever crashes, flushes, reconciliations and lease fences have
  happened on the node.
\<close>

theorem acknowledged_intent_in_force:
  assumes "fleet_reach sha n f" and "control_of n (fl_hub f) = Some c" and "nc_applied c = nc_revision c"
  shows "(case ag_receipt (fl_agent f) of None \<Rightarrow> False
      | Some r \<Rightarrow> rc_revision r = nc_revision c \<and> rc_identity r = nc_command c \<and> rc_action r = nc_action c \<and> rc_phase r = Applied)
    \<and> (nc_action c \<noteq> ''stop'' \<or> \<not> running (ag_engine (fl_agent f)))"
proof -
  note inv = fleet_reach_inv [OF assms(1), unfolded fleet_inv_def Let_def]
  have conf: "confirms (ag_receipt (fl_agent f)) (nc_revision c) (nc_command c) (nc_action c)"
    using inv assms(2,3) by blast
  then obtain r where r: "ag_receipt (fl_agent f) = Some r" by (auto simp: confirms_def split: option.splits)
  have "past (Some c) (rc_revision r) (rc_identity r) (rc_action r)" using inv r assms(2) by auto
  with conf r have "rc_revision r = nc_revision c" "rc_identity r = nc_command c" "rc_action r = nc_action c" "rc_phase r = Applied"
    by (auto simp: confirms_def past_def)
  moreover have "stop_in_force (fl_agent f)" using inv by blast
  ultimately show ?thesis
    by (auto simp: r stop_in_force_def manually_stopped_def engine_stopped_def)
qed

subsection \<open>A concrete run\<close>

abbreviation sample_identity :: string where
  "sample_identity \<equiv> replicate 32 CHR ''a''"

definition sample_link :: link where
  "sample_link = \<lparr>lk_between = id, lk_answer = (\<lambda>body. bad ''unused''), lk_token = Some, lk_now = 7\<rparr>"

definition fleet0 :: fleet where
  "fleet0 = \<lparr>fl_hub = sample_hub, fl_agent = sample_agent\<lparr>ag_receipt := None\<rparr>, fl_sent = [], fl_answers = []\<rparr>"

definition fleet1 :: fleet where
  "fleet1 = fleet0\<lparr>fl_hub := fst (operation ''n1'' (record_command ''n1'' ''stop'' sample_identity) (fl_hub fleet0))\<rparr>"

definition sample_command :: command_status where
  "sample_command = command_status ''n1'' (fl_hub fleet1)"

definition fleet2 :: fleet where
  "fleet2 = fleet1\<lparr>fl_sent := sample_command # fl_sent fleet1\<rparr>"

definition sample_served :: "agent \<times> command_ack res" where
  "sample_served = ordered_command id (command_body (ag_scope (fl_agent fleet2)) sample_command) 0 sample_env (fl_agent fleet2)"

definition sample_answer :: dict where
  "sample_answer = (case snd sample_served of Inr ack \<Rightarrow> ack_document ack (fst sample_served) | Inl _ \<Rightarrow> [])"

definition fleet3 :: fleet where
  "fleet3 = fleet2\<lparr>fl_agent := fst sample_served, fl_answers := (sample_command, sample_answer) # fl_answers fleet2\<rparr>"

definition fleet4 :: fleet where
  "fleet4 = fleet3\<lparr>fl_hub := ss_hub (fst (settle_command ''n1'' sample_link sample_command sample_answer
     \<lparr>ss_hub = fl_hub fleet3, ss_pin = \<lparr>pn_node = sample_node_row, pn_binding = sample_binding\<rparr>\<rparr>))\<rparr>"

lemma fleet4_reached: "fleet_reach id ''n1'' fleet4"
proof -
  have r0: "fleet_reach id ''n1'' fleet0"
    by (rule fleet_reach.start) (simp add: fresh_fleet_def fleet0_def sample_hub_def empty_hub_def)
  have "fleet_step id ''n1'' fleet0 fleet1"
    unfolding fleet1_def by (rule fleet_step.Record [OF prod.collapse [symmetric]])
  with r0 have r1: "fleet_reach id ''n1'' fleet1" by (rule fleet_reach.step)
  have "fleet_step id ''n1'' fleet1 fleet2"
    unfolding fleet2_def by (rule fleet_step.Send [OF sample_command_def]) code_simp
  with r1 have r2: "fleet_reach id ''n1'' fleet2" by (rule fleet_reach.step)
  have "ok (snd sample_served)" by code_simp
  then obtain ack where ack: "snd sample_served = Inr ack" by (auto simp: ok_iff)
  have "ordered_command id (command_body (ag_scope (fl_agent fleet2)) sample_command) 0 sample_env (fl_agent fleet2) =
      (fst sample_served, Inr ack)"
    using ack by (metis prod.collapse sample_served_def)
  from fleet_step.Serve [OF _ this] have "fleet_step id ''n1'' fleet2 fleet3"
    by (simp add: fleet3_def sample_answer_def ack fleet2_def)
  with r2 have r3: "fleet_reach id ''n1'' fleet3" by (rule fleet_reach.step)
  have a: "acknowledges ''n1'' sample_command (PDict sample_answer)" by code_simp
  have m: "(sample_command, sample_answer) \<in> set (fl_answers fleet3)" by (simp add: fleet3_def)
  have "fleet_step id ''n1'' fleet3 fleet4"
    unfolding fleet4_def by (rule fleet_step.Settle [OF m a prod.collapse [symmetric]])
  with r3 show ?thesis by (rule fleet_reach.step)
qed

theorem acknowledged_intent_in_force_witness: "\<not> running (ag_engine (fl_agent fleet4))"
proof -
  have "(case control_of ''n1'' (fl_hub fleet4) of None \<Rightarrow> False
      | Some c \<Rightarrow> nc_applied c = nc_revision c \<and> nc_action c = ''stop'')" by code_simp
  then obtain c where c: "control_of ''n1'' (fl_hub fleet4) = Some c" "nc_applied c = nc_revision c" "nc_action c = ''stop''"
    by (auto split: option.splits)
  show ?thesis using acknowledged_intent_in_force [OF fleet4_reached c(1,2)] c(3) by simp
qed

end
