(* ===== verification/Hub_Usage.thy ===== *)
theory Hub_Usage
  imports Hub_Delivery
begin

text \<open>
  Central metering of the traffic that clients use on remote nodes (backend/nodes.py,
  \<open>_usage_event_id\<close> to \<open>sync_traffic\<close> and \<open>reset_client_traffic\<close>). The Hub keeps the last counters
  it read per node and client and charges the growth to the traffic ledger; a counter that fell
  has restarted from zero. SHA-256 is the parameter \<open>sha\<close>.
\<close>

section \<open>One reading\<close>

definition usage_event_id :: "(string \<Rightarrow> string) \<Rightarrow> string \<Rightarrow> string \<Rightarrow> int \<Rightarrow> string" where
  "usage_event_id sha n c seq = ''node:'' @ take 24 (sha (n @ CHR 0x00 # c)) @ '':'' @ show_int seq"

definition remote_usage :: "string \<Rightarrow> hub \<Rightarrow> int" where
  "remote_usage c h = sum_where (\<lambda>u. nu_client u = c) (\<lambda>u. nu_up u + nu_down u) (hb_usage h)"

text \<open>\<open>_recompute_client_usage\<close>: the policy meter is the local counters plus all remote ones.\<close>

definition recompute_usage :: "string \<Rightarrow> hub \<Rightarrow> hub res" where
  "recompute_usage c h =
     (case lookup mc_email c (hb_managed h) of
        None \<Rightarrow> Inr h
      | Some m \<Rightarrow>
          let total = mc_last_up m + mc_last_down m + remote_usage c h in
          if max_int < remote_usage c h then Inl (OtherError ''OperationalError'')
          else if total < 0 \<or> max_int < total then bad ''Global client traffic counter overflow''
          else Inr (h\<lparr>hb_store := (hb_store h)\<lparr>st_clients :=
                 modify cl_id c (\<lambda>x. x\<lparr>cl_used_bytes := total\<rparr>) (st_clients (hb_store h))\<rparr>\<rparr>))"

definition growth :: "int \<Rightarrow> int \<Rightarrow> int" where
  "growth raw new = (if raw \<le> new then new - raw else new)"

text \<open>The report of a snapshot.\<close>

record tally =
  ta_seen :: "string list"
  ta_ignored :: int
  ta_baselined :: int
  ta_up :: int
  ta_down :: int
  ta_resets :: int
  ta_seeded :: int
  ta_changed :: "string list"

definition no_tally :: tally where
  "no_tally = \<lparr>ta_seen = [], ta_ignored = 0, ta_baselined = 0, ta_up = 0, ta_down = 0, ta_resets = 0,
     ta_seeded = 0, ta_changed = []\<rparr>"

definition read_item :: "string list \<Rightarrow> string list \<Rightarrow> pyval \<Rightarrow> (string \<times> int \<times> int) option res" where
  "read_item allowed seen item =
     (case item of
        PDict d \<Rightarrow>
          if \<not> set (map fst d) \<subseteq> {''sourceEmail'', ''up'', ''down''} then bad ''Invalid node traffic item''
          else (case pyget d ''sourceEmail'' of
                  PStr email \<Rightarrow>
                    if email \<notin> set allowed then Inr None
                    else if email \<in> set seen then bad ''Duplicate node traffic client''
                    else (case (pyget d ''up'', pyget d ''down'') of
                            (PInt up, PInt down) \<Rightarrow>
                              if up < 0 \<or> down < 0 \<or> max_int < up \<or> max_int < down \<or> max_int < up + down
                              then bad ''Invalid node traffic counter'' else Inr (Some (email, up, down))
                          | _ \<Rightarrow> bad ''Invalid node traffic counter'')
                | _ \<Rightarrow> bad ''Invalid node traffic client'')
      | _ \<Rightarrow> bad ''Invalid node traffic item'')"

definition charge_growth ::
  "(string \<Rightarrow> string) \<Rightarrow> string \<Rightarrow> string \<Rightarrow> int \<Rightarrow> int \<Rightarrow> int \<Rightarrow> real \<Rightarrow> hub \<Rightarrow> hub res" where
  "charge_growth sha n c up down seq now h =
     (if max_int < up + down then bad ''Node traffic delta overflow''
      else case client_of c (hb_store h) of
        None \<Rightarrow> bad ''Node traffic client is not managed''
      | Some u \<Rightarrow>
          (case owner_of (cl_owner u) (hb_store h) of
             None \<Rightarrow> bad ''Node traffic owner is missing''
           | Some r \<Rightarrow>
               rbind (insert_pk tr_event_id
                 \<lparr>tr_event_id = usage_event_id sha n c seq, tr_owner = cl_owner u, tr_client_id = c,
                  tr_period = ow_period r, tr_up = up, tr_down = down, tr_observed_at = now\<rparr>
                 (st_traffic (hb_store h))) (\<lambda>t.
               Inr (h\<lparr>hb_store := (hb_store h)\<lparr>st_traffic := t\<rparr>\<rparr>))))"

definition first_usage :: "string \<Rightarrow> string \<Rightarrow> int \<Rightarrow> int \<Rightarrow> real \<Rightarrow> usage_row" where
  "first_usage n c up down now =
     \<lparr>nu_node = n, nu_client = c, nu_raw_up = up, nu_raw_down = down, nu_up = 0, nu_down = 0, nu_seq = 0,
      nu_initialized = True, nu_last_seen = now\<rparr>"

definition baseline :: "int \<Rightarrow> int \<Rightarrow> real \<Rightarrow> usage_row \<Rightarrow> usage_row" where
  "baseline up down now u = u\<lparr>nu_raw_up := up, nu_raw_down := down, nu_initialized := True, nu_last_seen := now\<rparr>"

definition advance :: "int \<Rightarrow> int \<Rightarrow> int \<Rightarrow> real \<Rightarrow> usage_row \<Rightarrow> usage_row" where
  "advance up down seq now u =
     u\<lparr>nu_raw_up := up, nu_raw_down := down, nu_up := nu_up u + growth (nu_raw_up u) up,
       nu_down := nu_down u + growth (nu_raw_down u) down, nu_seq := seq, nu_initialized := True,
       nu_last_seen := now\<rparr>"

text \<open>A first reading is the baseline; a later one is charged by its growth.\<close>

definition meter_item ::
  "(string \<Rightarrow> string) \<Rightarrow> string \<Rightarrow> real \<Rightarrow> string \<times> int \<times> int \<Rightarrow> hub \<Rightarrow> tally \<Rightarrow> (hub \<times> tally) res" where
  "meter_item sha n now item h ta =
     (case item of (c, up, down) \<Rightarrow>
      let ta' = ta\<lparr>ta_seen := c # ta_seen ta, ta_changed := ta_changed ta @ [c]\<rparr> in
      case lookup usage_key (n, c) (hb_usage h) of
        None \<Rightarrow>
          rbind (recompute_usage c (h\<lparr>hb_usage := hb_usage h @ [first_usage n c up down now]\<rparr>)) (\<lambda>h'.
          Inr (h', ta'\<lparr>ta_baselined := ta_baselined ta + 1\<rparr>))
      | Some u \<Rightarrow>
          if \<not> nu_initialized u
          then rbind (recompute_usage c (h\<lparr>hb_usage := modify usage_key (n, c) (baseline up down now) (hb_usage h)\<rparr>)) (\<lambda>h'.
               Inr (h', ta'\<lparr>ta_baselined := ta_baselined ta + 1\<rparr>))
          else
          let du = growth (nu_raw_up u) up; dd = growth (nu_raw_down u) down;
              moved = (du \<noteq> 0 \<or> dd \<noteq> 0); seq = (if moved then nu_seq u + 1 else nu_seq u)
          in
          rbind (if moved then charge_growth sha n c du dd seq now h else Inr h) (\<lambda>h1.
          if max_int < nu_up u + du + (nu_down u + dd) then bad ''Node current traffic overflow''
          else rbind (recompute_usage c
                 (h1\<lparr>hb_usage := modify usage_key (n, c) (advance up down seq now) (hb_usage h1)\<rparr>)) (\<lambda>h2.
               Inr (h2, ta'\<lparr>ta_up := ta_up ta + du, ta_down := ta_down ta + dd,
                            ta_resets := ta_resets ta + int_of_bool (up < nu_raw_up u \<or> down < nu_raw_down u)\<rparr>))))"

section \<open>Snapshots\<close>

fun meter_items ::
  "(string \<Rightarrow> string) \<Rightarrow> string \<Rightarrow> real \<Rightarrow> string list \<Rightarrow> pyval list \<Rightarrow> hub \<Rightarrow> tally \<Rightarrow> (hub \<times> tally) res" where
  "meter_items sha n now allowed [] h ta = Inr (h, ta)"
| "meter_items sha n now allowed (x # xs) h ta =
     rbind (read_item allowed (ta_seen ta) x) (\<lambda>item.
     case item of
       None \<Rightarrow> meter_items sha n now allowed xs h (ta\<lparr>ta_ignored := ta_ignored ta + 1\<rparr>)
     | Some i \<Rightarrow> rbind (meter_item sha n now i h ta) (\<lambda>(h', ta'). meter_items sha n now allowed xs h' ta'))"

text \<open>A complete snapshot proves that an allowed client without a counter has used nothing.\<close>

definition seed_absent :: "string \<Rightarrow> real \<Rightarrow> string list \<Rightarrow> hub \<Rightarrow> tally \<Rightarrow> hub \<times> tally" where
  "seed_absent n now allowed h ta =
     (let absent = filter (\<lambda>c. c \<notin> set (ta_seen ta)) (remdups allowed);
          fresh = filter (\<lambda>c. \<not> has_key usage_key (n, c) (hb_usage h)) absent
      in (h\<lparr>hb_usage := fold (\<lambda>c. insert_or_ignore usage_key (first_usage n c 0 0 now)) absent (hb_usage h)\<rparr>,
          ta\<lparr>ta_seeded := int (length fresh)\<rparr>))"

definition write_snapshot ::
  "(string \<Rightarrow> string) \<Rightarrow> string \<Rightarrow> real \<Rightarrow> bool \<Rightarrow> string list \<Rightarrow> pyval list \<Rightarrow> hub \<Rightarrow> (hub \<times> tally) res" where
  "write_snapshot sha n now whole allowed items h =
     rbind (meter_items sha n now allowed items h no_tally) (\<lambda>(h', ta).
     Inr (if whole then seed_absent n now allowed h' ta else (h', ta)))"

definition apply_snapshot ::
  "(string \<Rightarrow> string) \<Rightarrow> string \<Rightarrow> pyval \<Rightarrow> real \<Rightarrow> bool \<Rightarrow> (session, tally) effect" where
  "apply_snapshot sha n items now whole s =
     (case items of
        PList xs \<Rightarrow>
          if 100000 < int (length xs) then (s, bad ''Invalid node traffic snapshot'')
          else node_transaction (write_snapshot sha n now whole (allowed_clients n (ss_hub s)) xs) s
      | _ \<Rightarrow> (s, bad ''Invalid node traffic snapshot''))"

text \<open>The Agent's challenge for an accounting lease comes with a complete snapshot.\<close>

definition sync_traffic :: "(string \<Rightarrow> string) \<Rightarrow> string \<Rightarrow> link \<Rightarrow> (session, tally \<times> pyval) effect" where
  "sync_traffic sha n lk =
     nested (ebind (request n lk PNone) (\<lambda>(doc, ms).
       case doc of
         PDict d \<Rightarrow>
           (case pyget d ''items'' of
              PList xs \<Rightarrow>
                ebind (apply_snapshot sha n (PList xs) (lk_now lk)
                         (case pyget d ''accountingLease'' of PStr t \<Rightarrow> True | _ \<Rightarrow> False)) (\<lambda>ta.
                return (ta, pyget d ''accountingLease''))
            | _ \<Rightarrow> ebind (node_transaction (request_failed n ''Invalid node traffic response'' (lk_now lk))) (\<lambda>_.
                   raise (PolicyError ''Invalid node traffic response'')))
       | _ \<Rightarrow> ebind (node_transaction (request_failed n ''Invalid node traffic response'' (lk_now lk))) (\<lambda>_.
              raise (PolicyError ''Invalid node traffic response''))))"

section \<open>Resetting a client on every node\<close>

text \<open>The nodes, disabled ones included, that run an inbound of the client.\<close>

definition reset_nodes :: "string \<Rightarrow> hub \<Rightarrow> string list res" where
  "reset_nodes c h =
     (case lookup mc_email c (filter (\<lambda>m. mc_state m \<noteq> ''deleted'') (hb_managed h)) of
        None \<Rightarrow> Inr []
      | Some m \<Rightarrow>
          (case ints_of (mc_inbounds m) of
             None \<Rightarrow> Inl (OtherError ''ValueError'')
           | Some ids \<Rightarrow>
               Inr (sort (remdups (map li_node
                 (filter (\<lambda>l. 0 < li_remote l \<and> li_inbound l \<in> set ids) (hb_links h)))))))"

definition clear_usage :: "real \<Rightarrow> usage_row \<Rightarrow> usage_row" where
  "clear_usage now u = u\<lparr>nu_raw_up := 0, nu_raw_down := 0, nu_up := 0, nu_down := 0, nu_initialized := True, nu_last_seen := now\<rparr>"

definition write_reset :: "string \<Rightarrow> string \<Rightarrow> real \<Rightarrow> hub \<Rightarrow> (hub \<times> unit) res" where
  "write_reset n c now h =
     rbind (recompute_usage c (h\<lparr>hb_usage := modify usage_key (n, c) (clear_usage now) (hb_usage h)\<rparr>)) (\<lambda>h'. Inr (h', ()))"

text \<open>The final counters that the Agent captured are charged, then the node starts from zero.\<close>

definition settle_reset ::
  "(string \<Rightarrow> string) \<Rightarrow> string \<Rightarrow> string \<Rightarrow> int \<Rightarrow> int \<Rightarrow> real \<Rightarrow> (session, tally) effect" where
  "settle_reset sha n c up down now =
     ebind (apply_snapshot sha n (PList [PDict [(''sourceEmail'', PStr c), (''up'', PInt up), (''down'', PInt down)]]) now False) (\<lambda>ta.
     ebind (node_transaction (write_reset n c now)) (\<lambda>_. return ta))"

definition reset_node :: "(string \<Rightarrow> string) \<Rightarrow> string \<Rightarrow> string \<Rightarrow> link \<Rightarrow> string \<Rightarrow> (session, tally) effect" where
  "reset_node sha c reset_id lk n =
     ebind (request n lk (PDict [(''sourceEmail'', PStr c), (''resetId'', PStr reset_id)])) (\<lambda>(doc, ms).
       case doc of
         PDict d \<Rightarrow>
           (case (pyget d ''up'', pyget d ''down'') of
              (PInt up, PInt down) \<Rightarrow>
                if pyget d ''sourceEmail'' \<noteq> PStr c then raise (PolicyError ''Invalid node traffic reset response'')
                else settle_reset sha n c up down (lk_now lk)
            | _ \<Rightarrow> raise (PolicyError ''Invalid node traffic reset response''))
       | _ \<Rightarrow> raise (PolicyError ''Invalid node traffic reset response''))"

fun reset_each ::
  "(string \<Rightarrow> string) \<Rightarrow> string \<Rightarrow> string \<Rightarrow> (string \<Rightarrow> link) \<Rightarrow> string list \<Rightarrow> (hub, (string \<times> tally) list) effect" where
  "reset_each sha c reset_id lk [] = return []"
| "reset_each sha c reset_id lk (n # ns) =
     ebind (operation n (reset_node sha c reset_id (lk n) n)) (\<lambda>ta.
     ebind (reset_each sha c reset_id lk ns) (\<lambda>rest. return ((n, ta) # rest)))"

definition reset_client_traffic ::
  "(string \<Rightarrow> string) \<Rightarrow> string \<Rightarrow> pyval \<Rightarrow> (string \<Rightarrow> link) \<Rightarrow> (hub, (string \<times> tally) list) effect" where
  "reset_client_traffic sha c reset_id lk h =
     (case reset_id of
        PStr r \<Rightarrow>
          if \<not> (8 \<le> length r \<and> length r \<le> 128) then (h, bad ''Invalid remote reset ID'')
          else (case reset_nodes c h of Inl ex \<Rightarrow> (h, Inl ex) | Inr ns \<Rightarrow> reset_each sha c r lk ns h)
      | _ \<Rightarrow> (h, bad ''Invalid remote reset ID''))"


section \<open>What a reading changes\<close>

definition ledger_bytes :: "string \<Rightarrow> hub \<Rightarrow> int" where
  "ledger_bytes c h = sum_where (\<lambda>t. tr_client_id t = c) (\<lambda>t. tr_up t + tr_down t) (st_traffic (hb_store h))"

definition metered :: "string \<Rightarrow> hub \<Rightarrow> bool" where
  "metered c h \<longleftrightarrow>
     (case (lookup mc_email c (hb_managed h), client_of c (hb_store h)) of
        (Some m, Some x) \<Rightarrow> cl_used_bytes x = mc_last_up m + mc_last_down m + remote_usage c h
      | _ \<Rightarrow> True)"

abbreviation node_usage_of :: "string \<Rightarrow> string \<Rightarrow> hub \<Rightarrow> usage_row option" where
  "node_usage_of n c h \<equiv> lookup usage_key (n, c) (hb_usage h)"

lemma recompute_effect:
  "recompute_usage c h = Inr h' \<Longrightarrow>
    hb_usage h' = hb_usage h \<and> ledger_bytes x h' = ledger_bytes x h \<and> metered c h'"
  by (auto simp: recompute_usage_def metered_def client_of_def remote_usage_def ledger_bytes_def Let_def lookup_modify
      split: option.splits if_splits)

lemma charge_effect:
  "charge_growth sha n c du dd seq now h = Inr h' \<Longrightarrow>
    hb_usage h' = hb_usage h \<and> ledger_bytes x h' = ledger_bytes x h + (if x = c then du + dd else 0)"
  by (auto simp: charge_growth_def ledger_bytes_def rbind_Inr insert_pk_Inr split: option.splits if_splits)

lemma usage_key_updates [simp]:
  "usage_key (first_usage n c i j t) = (n, c)" "usage_key (baseline i j t u) = usage_key u"
  "usage_key (advance i j k t u) = usage_key u" "usage_key (clear_usage t u) = usage_key u"
  by (simp_all add: usage_key_def first_usage_def baseline_def advance_def clear_usage_def)

text \<open>A reading of client \<open>c\<close> on a counted row.\<close>

lemma meter_item_counted:
  assumes "meter_item sha n now (c, up, down) h ta = Inr (h', ta')"
    and "node_usage_of n c h = Some u" and "nu_initialized u"
  shows "\<exists>seq. node_usage_of n c h' = Some (advance up down seq now u) \<and> metered c h' \<and>
    ledger_bytes c h' = ledger_bytes c h + growth (nu_raw_up u) up + growth (nu_raw_down u) down"
proof -
  let ?du = "growth (nu_raw_up u) up" and ?dd = "growth (nu_raw_down u) down"
  define seq where "seq = (if ?du \<noteq> 0 \<or> ?dd \<noteq> 0 then nu_seq u + 1 else nu_seq u)"
  obtain h1 where h1: "(if ?du \<noteq> 0 \<or> ?dd \<noteq> 0 then charge_growth sha n c ?du ?dd seq now h else Inr h) = Inr h1"
    and h': "recompute_usage c (h1\<lparr>hb_usage := modify usage_key (n, c) (advance up down seq now) (hb_usage h1)\<rparr>) = Inr h'"
    using assms unfolding meter_item_def seq_def
    by (auto simp: Let_def rbind_Inr split: if_splits)
  have "hb_usage h1 = hb_usage h" "ledger_bytes c h1 = ledger_bytes c h + ?du + ?dd"
    using h1 charge_effect [of sha n c ?du ?dd seq now h h1 c] by (auto split: if_splits)
  with recompute_effect [OF h', of c] assms(2) show ?thesis
    by (auto simp: lookup_modify ledger_bytes_def)
qed

lemma meter_item_other:
  assumes "meter_item sha n now (x, up, down) h ta = Inr (h', ta')" and "x \<noteq> c"
  shows "node_usage_of n c h' = node_usage_of n c h \<and> ledger_bytes c h' = ledger_bytes c h"
proof (cases "node_usage_of n x h")
  case None
  then obtain h1 where "recompute_usage x (h\<lparr>hb_usage := hb_usage h @ [first_usage n x up down now]\<rparr>) = Inr h'"
    using assms by (auto simp: meter_item_def Let_def rbind_Inr)
  from recompute_effect [OF this, of c] assms(2) show ?thesis
    by (auto simp: lookup_append ledger_bytes_def split: option.splits)
next
  case (Some u)
  show ?thesis
  proof (cases "nu_initialized u")
    case False
    then have "recompute_usage x (h\<lparr>hb_usage := modify usage_key (n, x) (baseline up down now) (hb_usage h)\<rparr>) = Inr h'"
      using assms Some by (auto simp: meter_item_def Let_def rbind_Inr)
    from recompute_effect [OF this, of c] assms(2) show ?thesis
      by (auto simp: lookup_modify ledger_bytes_def)
  next
    case True
    let ?du = "growth (nu_raw_up u) up" and ?dd = "growth (nu_raw_down u) down"
    define seq where "seq = (if ?du \<noteq> 0 \<or> ?dd \<noteq> 0 then nu_seq u + 1 else nu_seq u)"
    obtain h1 where h1: "(if ?du \<noteq> 0 \<or> ?dd \<noteq> 0 then charge_growth sha n x ?du ?dd seq now h else Inr h) = Inr h1"
      and h': "recompute_usage x (h1\<lparr>hb_usage := modify usage_key (n, x) (advance up down seq now) (hb_usage h1)\<rparr>) = Inr h'"
      using assms(1) Some True unfolding meter_item_def seq_def
      by (auto simp: Let_def rbind_Inr split: if_splits)
    have "hb_usage h1 = hb_usage h" "ledger_bytes c h1 = ledger_bytes c h"
      using h1 charge_effect [of sha n x ?du ?dd seq now h h1 c] assms(2) by (auto split: if_splits)
    with recompute_effect [OF h', of c] assms(2) show ?thesis
      by (auto simp: lookup_modify ledger_bytes_def)
  qed
qed

section \<open>What a sequence of snapshots charges\<close>

text \<open>The counters of client \<open>c\<close> in a snapshot, in order.\<close>

definition reading :: "string \<Rightarrow> pyval \<Rightarrow> (int \<times> int) list" where
  "reading c item =
     (case item of
        PDict d \<Rightarrow>
          (case (pyget d ''sourceEmail'', pyget d ''up'', pyget d ''down'') of
             (PStr e, PInt i, PInt j) \<Rightarrow> if e = c then [(i, j)] else []
           | _ \<Rightarrow> [])
      | _ \<Rightarrow> [])"

definition readings_of :: "string \<Rightarrow> pyval list \<Rightarrow> (int \<times> int) list" where
  "readings_of c xs = concat (map (reading c) xs)"

lemma read_item_reading:
  assumes "read_item allowed seen x = Inr r" and "c \<in> set allowed"
  shows "reading c x = (case r of None \<Rightarrow> [] | Some (e, i, j) \<Rightarrow> if e = c then [(i, j)] else [])"
  using assms by (auto simp: read_item_def reading_def split: pyval.splits if_splits)

fun follow :: "int \<Rightarrow> int \<times> int \<Rightarrow> int \<times> int" where
  "follow new (raw, acc) = (new, acc + growth raw new)"

definition followed :: "(int \<times> int) list \<Rightarrow> usage_row \<Rightarrow> usage_row \<Rightarrow> bool" where
  "followed rs u u' \<longleftrightarrow> nu_initialized u' \<and>
     (nu_raw_up u', nu_up u') = fold follow (map fst rs) (nu_raw_up u, nu_up u) \<and>
     (nu_raw_down u', nu_down u') = fold follow (map snd rs) (nu_raw_down u, nu_down u)"

lemma followed_refl: "nu_initialized u \<Longrightarrow> followed [] u u"
  by (simp add: followed_def)

lemma followed_trans: "followed rs u u' \<Longrightarrow> followed ss u' u'' \<Longrightarrow> followed (rs @ ss) u u''"
  by (simp add: followed_def)

lemma followed_advance: "followed [(i, j)] u (advance i j seq now u)"
  by (simp add: followed_def advance_def)

text \<open>\<open>tracks rs h h'\<close>: the row followed the readings, and the ledger grew by what the row counted.\<close>

definition tracks :: "string \<Rightarrow> string \<Rightarrow> (int \<times> int) list \<Rightarrow> hub \<Rightarrow> hub \<Rightarrow> bool" where
  "tracks n c rs h h' \<longleftrightarrow>
     (\<forall>u. node_usage_of n c h = Some u \<longrightarrow> nu_initialized u \<longrightarrow>
        (\<exists>u'. node_usage_of n c h' = Some u' \<and> followed rs u u' \<and>
           ledger_bytes c h' - ledger_bytes c h = nu_up u' + nu_down u' - (nu_up u + nu_down u)))"

lemma tracksI:
  assumes "node_usage_of n c h' = node_usage_of n c h" and "ledger_bytes c h' = ledger_bytes c h"
  shows "tracks n c [] h h'"
  unfolding tracks_def by (simp add: assms followed_refl)

lemma tracks_trans: "tracks n c rs h h1 \<Longrightarrow> tracks n c ss h1 h2 \<Longrightarrow> tracks n c (rs @ ss) h h2"
  unfolding tracks_def
proof (intro allI impI)
  fix u
  assume a: "\<forall>u. node_usage_of n c h = Some u \<longrightarrow> nu_initialized u \<longrightarrow>
      (\<exists>u'. node_usage_of n c h1 = Some u' \<and> followed rs u u' \<and>
        ledger_bytes c h1 - ledger_bytes c h = nu_up u' + nu_down u' - (nu_up u + nu_down u))"
    and b: "\<forall>u. node_usage_of n c h1 = Some u \<longrightarrow> nu_initialized u \<longrightarrow>
      (\<exists>u'. node_usage_of n c h2 = Some u' \<and> followed ss u u' \<and>
        ledger_bytes c h2 - ledger_bytes c h1 = nu_up u' + nu_down u' - (nu_up u + nu_down u))"
    and u: "node_usage_of n c h = Some u" "nu_initialized u"
  obtain v where v: "node_usage_of n c h1 = Some v" "followed rs u v"
      "ledger_bytes c h1 - ledger_bytes c h = nu_up v + nu_down v - (nu_up u + nu_down u)"
    using a u by blast
  obtain w where w: "node_usage_of n c h2 = Some w" "followed ss v w"
      "ledger_bytes c h2 - ledger_bytes c h1 = nu_up w + nu_down w - (nu_up v + nu_down v)"
    using b v(1,2) unfolding followed_def by blast
  show "\<exists>u'. node_usage_of n c h2 = Some u' \<and> followed (rs @ ss) u u' \<and>
      ledger_bytes c h2 - ledger_bytes c h = nu_up u' + nu_down u' - (nu_up u + nu_down u)"
    using w(1) followed_trans [OF v(2) w(2)] v(3) w(3) by fastforce
qed

lemma meter_item_tracks:
  assumes "meter_item sha n now (e, i, j) h ta = Inr (h', ta')"
  shows "tracks n c (if e = c then [(i, j)] else []) h h'"
proof (cases "e = c")
  case True
  show ?thesis
    unfolding tracks_def
  proof (intro allI impI)
    fix u
    assume "node_usage_of n c h = Some u" "nu_initialized u"
    then obtain seq where "node_usage_of n c h' = Some (advance i j seq now u)"
      "ledger_bytes c h' = ledger_bytes c h + growth (nu_raw_up u) i + growth (nu_raw_down u) j"
      using meter_item_counted assms True by blast
    then show "\<exists>u'. node_usage_of n c h' = Some u' \<and> followed (if e = c then [(i, j)] else []) u u' \<and>
        ledger_bytes c h' - ledger_bytes c h = nu_up u' + nu_down u' - (nu_up u + nu_down u)"
      using True followed_advance by (fastforce simp: advance_def)
  qed
next
  case False
  then show ?thesis using meter_item_other [OF assms] by (simp add: tracksI)
qed

lemma meter_items_tracks:
  assumes "meter_items sha n now allowed xs h ta = Inr (h', ta')" and "c \<in> set allowed"
  shows "tracks n c (readings_of c xs) h h'"
  using assms(1)
proof (induction xs arbitrary: h ta)
  case Nil
  then show ?case by (simp add: readings_of_def tracksI)
next
  case (Cons x xs)
  from Cons.prems obtain r where r: "read_item allowed (ta_seen ta) x = Inr r" by (auto simp: rbind_Inr)
  note read = read_item_reading [OF r assms(2)]
  show ?case
  proof (cases r)
    case None
    with Cons.prems r Cons.IH read show ?thesis by (auto simp: readings_of_def)
  next
    case (Some p)
    obtain e i j where p: "p = (e, i, j)" by (cases p)
    from Cons.prems r Some p obtain h1 ta1 where
      step: "meter_item sha n now (e, i, j) h ta = Inr (h1, ta1)"
      and rest: "meter_items sha n now allowed xs h1 ta1 = Inr (h', ta')"
      by (auto simp: rbind_Inr)
    from tracks_trans [OF meter_item_tracks [OF step] Cons.IH [OF rest]] read Some p
    show ?thesis by (simp add: readings_of_def)
  qed
qed

lemma lookup_insert_or_ignore: "lookup key k t = Some u \<Longrightarrow> lookup key k (insert_or_ignore key r t) = Some u"
  by (auto simp: insert_or_ignore_def lookup_upsert)

lemma seed_keeps: "node_usage_of n c h = Some u \<Longrightarrow>
  node_usage_of n c (fst (seed_absent m now allowed h ta)) = Some u"
proof -
  have "lookup usage_key (n, c) (fold (\<lambda>x. insert_or_ignore usage_key (first_usage m x 0 0 now)) cs us) = Some u"
    if "lookup usage_key (n, c) us = Some u" for cs us
    using that by (induction cs arbitrary: us) (simp_all add: lookup_insert_or_ignore)
  then show "node_usage_of n c h = Some u \<Longrightarrow> ?thesis" by (simp add: seed_absent_def Let_def)
qed

lemma write_snapshot_tracks:
  assumes "write_snapshot sha n now whole allowed xs h = Inr (h', ta)" and "c \<in> set allowed"
  shows "tracks n c (readings_of c xs) h h'"
proof -
  obtain h1 ta1 where m: "meter_items sha n now allowed xs h no_tally = Inr (h1, ta1)"
    and p: "(h', ta) = (if whole then seed_absent n now allowed h1 ta1 else (h1, ta1))"
    using assms(1) by (auto simp: write_snapshot_def rbind_Inr)
  from p have h': "h' = (if whole then fst (seed_absent n now allowed h1 ta1) else h1)"
    by (metis fst_conv)
  have "ledger_bytes c h' = ledger_bytes c h1" by (simp add: h' ledger_bytes_def seed_absent_def Let_def)
  moreover have "node_usage_of n c h1 = Some u \<Longrightarrow> node_usage_of n c h' = Some u" for u
    by (simp add: h' seed_keeps)
  ultimately show ?thesis
    using meter_items_tracks [OF m assms(2)] unfolding tracks_def by metis
qed

text \<open>Snapshots of the node, each with its time, its clients and whether it is complete.\<close>

record traffic_snap =
  sn_now :: real
  sn_whole :: bool
  sn_allowed :: "string list"
  sn_items :: "pyval list"

fun snapshots :: "(string \<Rightarrow> string) \<Rightarrow> string \<Rightarrow> traffic_snap list \<Rightarrow> hub \<Rightarrow> hub res" where
  "snapshots sha n [] h = Inr h"
| "snapshots sha n (s # ss) h =
     rbind (write_snapshot sha n (sn_now s) (sn_whole s) (sn_allowed s) (sn_items s) h) (\<lambda>(h', ta). snapshots sha n ss h')"

lemma snapshots_track:
  assumes "snapshots sha n ss h = Inr h'" and "\<forall>s \<in> set ss. c \<in> set (sn_allowed s)"
  shows "tracks n c (concat (map (\<lambda>s. readings_of c (sn_items s)) ss)) h h'"
  using assms
proof (induction ss arbitrary: h)
  case Nil
  then show ?case by (simp add: tracksI)
next
  case (Cons s ss)
  then obtain h1 ta where w: "write_snapshot sha n (sn_now s) (sn_whole s) (sn_allowed s) (sn_items s) h = Inr (h1, ta)"
    and rest: "snapshots sha n ss h1 = Inr h'"
    by (auto simp: rbind_Inr)
  from Cons.prems(2) have "c \<in> set (sn_allowed s)" "\<forall>s \<in> set ss. c \<in> set (sn_allowed s)" by simp_all
  then show ?case using tracks_trans [OF write_snapshot_tracks [OF w] Cons.IH [OF rest]] by simp
qed

section \<open>The counters of the Agent\<close>

text \<open>
  The reference: the lives of a counter between two restarts of the Agent. Within a life the
  counter never falls; the first life continues the counter \<open>raw\<close> that the Hub last read; a later
  life starts from zero and its first reading is below the last one of the life before.
\<close>

fun restarts :: "int \<Rightarrow> int list list \<Rightarrow> bool" where
  "restarts prev [] = True"
| "restarts prev (l # ls) =
     (l \<noteq> [] \<and> sorted (0 # l) \<and> (hd l < prev \<or> prev = 0) \<and> restarts (last l) ls)"

fun lives :: "int \<Rightarrow> int list list \<Rightarrow> bool" where
  "lives raw [] = True"
| "lives raw (l # ls) = (l \<noteq> [] \<and> sorted (raw # l) \<and> restarts (last l) ls)"

text \<open>The bytes that really passed since \<open>raw\<close>: the last value of every life.\<close>

definition passed :: "int \<Rightarrow> int list list \<Rightarrow> int" where
  "passed raw ls = (if ls = [] then 0 else sum_list (map last ls) - raw)"

lemma follow_sorted:
  "sorted (raw # l) \<Longrightarrow> fold follow l (raw, acc) = (last (raw # l), acc + last (raw # l) - raw)"
proof (induction l arbitrary: raw acc)
  case (Cons x l)
  then have "raw \<le> x" "sorted (x # l)" by auto
  with Cons.IH [of x "acc + (x - raw)"] show ?case by (simp add: growth_def)
qed simp

lemma follow_life:
  assumes "l \<noteq> []" and "sorted (0 # l)" and "hd l < prev \<or> prev = 0"
  shows "fold follow l (prev, acc) = (last l, acc + last l)"
proof -
  obtain x k where l: "l = x # k" using assms(1) by (cases l) auto
  have "growth prev x = x" using assms by (auto simp: l growth_def)
  then show ?thesis using follow_sorted [of x k "acc + x"] assms(2) by (simp add: l)
qed

lemma follow_restarts:
  "restarts prev ls \<Longrightarrow> snd (fold follow (concat ls) (prev, acc)) = acc + sum_list (map last ls)"
  by (induction ls arbitrary: prev acc) (simp_all add: follow_life)

lemma follow_lives:
  assumes "lives raw ls"
  shows "snd (fold follow (concat ls) (raw, acc)) = acc + passed raw ls"
proof (cases ls)
  case (Cons l ks)
  with assms have "fold follow l (raw, acc) = (last l, acc + last l - raw)" "restarts (last l) ks"
    using follow_sorted [of raw l acc] by auto
  then show ?thesis using follow_restarts by (simp add: Cons passed_def)
qed (simp add: passed_def)


definition sample_managed :: managed_row where
  "sample_managed = \<lparr>mc_email = ''c'', mc_state = ''applied'', mc_op = ''none'', mc_error = [],
     mc_inbounds = Some (PList [PInt 1]), mc_desired = Some (PDict []), mc_last_up = 0, mc_last_down = 0,
     mc_op_id = [], mc_token = ''t'', mc_initialized = True, mc_seq = 0, mc_expected = Some True, mc_external = False,
     mc_retry = 0, mc_attempts = 0, mc_updated = 0\<rparr>"

definition metered_hub :: hub where
  "metered_hub = sample_hub\<lparr>
     hb_store := empty_store\<lparr>st_owners := [new_owner_row ''o''], st_clients := [new_client_row ''c'' ''o'' 0 0 0]\<rparr>,
     hb_usage := [(first_usage ''n1'' ''c'' 3 1 0)\<lparr>nu_up := 3, nu_down := 1\<rparr>],
     hb_links := [\<lparr>li_node = ''n1'', li_inbound = 1, li_remote = 7, li_sync = 0, li_error = []\<rparr>],
     hb_managed := [sample_managed]\<rparr>"

definition traffic_item :: "int \<Rightarrow> int \<Rightarrow> pyval" where
  "traffic_item i j = PDict [(''sourceEmail'', PStr ''c''), (''up'', PInt i), (''down'', PInt j)]"

abbreviation traffic_at :: "real \<Rightarrow> int \<Rightarrow> int \<Rightarrow> traffic_snap" where
  "traffic_at t i j \<equiv> \<lparr>sn_now = t, sn_whole = True, sn_allowed = [''c''], sn_items = [traffic_item i j]\<rparr>"

definition metered_after :: hub where
  "metered_after =
     (case snapshots (\<lambda>t. t) ''n1'' [traffic_at 1 8 1, traffic_at 2 5 0, traffic_at 3 6 2] metered_hub of
        Inr h \<Rightarrow> h | Inl e \<Rightarrow> empty_hub)"


section \<open>A repeated reset\<close>

lemma session_transaction:
  "node_transaction body s = (s', Inr x) \<Longrightarrow> body (ss_hub s) = Inr (ss_hub s', x)"
  by (auto simp: node_transaction_def on_hub_def on_part_def transaction_def rbind_Inr split: sum.splits)

lemma settle_resetD:
  assumes "settle_reset sha n c i j now s = (s', Inr ta)"
  shows "\<exists>h1. write_snapshot sha n now False (allowed_clients n (ss_hub s))
      [PDict [(''sourceEmail'', PStr c), (''up'', PInt i), (''down'', PInt j)]] (ss_hub s) = Inr (h1, ta) \<and>
    write_reset n c now h1 = Inr (ss_hub s', ())"
proof -
  obtain s1 where a: "node_transaction (write_snapshot sha n now False (allowed_clients n (ss_hub s))
        [PDict [(''sourceEmail'', PStr c), (''up'', PInt i), (''down'', PInt j)]]) s = (s1, Inr ta)"
    and b: "node_transaction (write_reset n c now) s1 = (s', Inr ())"
    using assms by (auto simp: settle_reset_def apply_snapshot_def return_def split: prod.splits sum.splits)
  show ?thesis using session_transaction [OF a] session_transaction [OF b] by blast
qed

lemma write_reset_effect:
  assumes "write_reset n c now h = Inr (h', ())"
  shows "node_usage_of n c h' = map_option (clear_usage now) (node_usage_of n c h) \<and> ledger_bytes c h' = ledger_bytes c h \<and> metered c h'"
proof -
  have "recompute_usage c (h\<lparr>hb_usage := modify usage_key (n, c) (clear_usage now) (hb_usage h)\<rparr>) = Inr h'"
    using assms by (auto simp: write_reset_def rbind_Inr)
  from recompute_effect [OF this, of c] show ?thesis by (simp add: lookup_modify ledger_bytes_def)
qed

lemma settle_reset_charge:
  assumes "settle_reset sha n c i j now s = (s', Inr ta)" and "c \<in> set (allowed_clients n (ss_hub s))"
    and "node_usage_of n c (ss_hub s) = Some u" and "nu_initialized u"
  shows "ledger_bytes c (ss_hub s') = ledger_bytes c (ss_hub s) + growth (nu_raw_up u) i + growth (nu_raw_down u) j \<and>
    (\<exists>u'. node_usage_of n c (ss_hub s') = Some u' \<and> nu_initialized u' \<and> nu_raw_up u' = 0 \<and> nu_raw_down u' = 0)"
proof -
  obtain h1 where w: "write_snapshot sha n now False (allowed_clients n (ss_hub s))
      [PDict [(''sourceEmail'', PStr c), (''up'', PInt i), (''down'', PInt j)]] (ss_hub s) = Inr (h1, ta)"
    and r: "write_reset n c now h1 = Inr (ss_hub s', ())"
    using settle_resetD [OF assms(1)] by blast
  have "readings_of c [PDict [(''sourceEmail'', PStr c), (''up'', PInt i), (''down'', PInt j)]] = [(i, j)]"
    by (simp add: readings_of_def reading_def)
  with write_snapshot_tracks [OF w assms(2)] assms(3,4) obtain v where
    "node_usage_of n c h1 = Some v" "followed [(i, j)] u v"
    "ledger_bytes c h1 - ledger_bytes c (ss_hub s) = nu_up v + nu_down v - (nu_up u + nu_down u)"
    unfolding tracks_def by auto
  with write_reset_effect [OF r] show ?thesis
    by (auto simp: followed_def clear_usage_def)
qed

text \<open>
  C19. A reset charges what the Agent captured and the Hub had not counted yet. Repeating it with the
  same identity, as a retry does when another node of the client failed, gets the same capture from
  the Agent and charges all of it again.
\<close>

theorem repeated_reset_charges_again:
  assumes "settle_reset sha n c i j now s = (s1, Inr ta)" and "settle_reset sha n c i j later s1 = (s2, Inr tb)"
    and "c \<in> set (allowed_clients n (ss_hub s))" and "c \<in> set (allowed_clients n (ss_hub s1))"
    and "node_usage_of n c (ss_hub s) = Some u" and "nu_initialized u" and "0 \<le> i" and "0 \<le> j"
  shows "ledger_bytes c (ss_hub s1) = ledger_bytes c (ss_hub s) + growth (nu_raw_up u) i + growth (nu_raw_down u) j \<and>
    ledger_bytes c (ss_hub s2) = ledger_bytes c (ss_hub s1) + i + j"
proof -
  obtain u' where u': "node_usage_of n c (ss_hub s1) = Some u'" "nu_initialized u'" "nu_raw_up u' = 0" "nu_raw_down u' = 0"
    and l: "ledger_bytes c (ss_hub s1) = ledger_bytes c (ss_hub s) + growth (nu_raw_up u) i + growth (nu_raw_down u) j"
    using settle_reset_charge [OF assms(1,3,5,6)] by blast
  show ?thesis
    using settle_reset_charge [OF assms(2,4) u'(1,2)] l u'(3,4) assms(7,8) by (simp add: growth_def)
qed

definition metered_session :: session where
  "metered_session = \<lparr>ss_hub = metered_hub, ss_pin = \<lparr>pn_node = sample_node_row, pn_binding = sample_binding\<rparr>\<rparr>"

abbreviation reset_once :: "session \<Rightarrow> session" where
  "reset_once s \<equiv> fst (settle_reset (\<lambda>t. t) ''n1'' ''c'' 9 4 5 s)"

theorem repeated_reset_charges_again_witness:
  "ledger_bytes ''c'' (ss_hub (reset_once (reset_once metered_session))) = 22"
proof -
  have s: "settle_reset (\<lambda>t. t) ''n1'' ''c'' 9 4 5 s = (reset_once s, Inr x)"
    if "snd (settle_reset (\<lambda>t. t) ''n1'' ''c'' 9 4 5 s) = Inr x" for s x
    using that by (metis prod.collapse)
  have "snd (settle_reset (\<lambda>t. t) ''n1'' ''c'' 9 4 5 metered_session) =
      Inr (no_tally\<lparr>ta_seen := [''c''], ta_changed := [''c''], ta_up := 6, ta_down := 3\<rparr>)" by code_simp
  note one = s [OF this]
  have "snd (settle_reset (\<lambda>t. t) ''n1'' ''c'' 9 4 5 (reset_once metered_session)) =
      Inr (no_tally\<lparr>ta_seen := [''c''], ta_changed := [''c''], ta_up := 9, ta_down := 4\<rparr>)" by code_simp
  note two = s [OF this]
  have "''c'' \<in> set (allowed_clients ''n1'' (ss_hub metered_session))"
    "''c'' \<in> set (allowed_clients ''n1'' (ss_hub (reset_once metered_session)))" by code_simp+
  moreover have "node_usage_of ''n1'' ''c'' (ss_hub metered_session) = Some ((first_usage ''n1'' ''c'' 3 1 0)\<lparr>nu_up := 3, nu_down := 1\<rparr>)"
    by code_simp
  moreover have "ledger_bytes ''c'' (ss_hub metered_session) = 0" by code_simp
  ultimately show ?thesis
    using repeated_reset_charges_again [OF one two] by (simp add: first_usage_def growth_def)
qed

end
