(* ===== verification/Hub_Config.thy ===== *)
theory Hub_Config
  imports Hub_Delivery
begin

text \<open>
  The desired configuration of a node (backend/nodes.py, \<open>_desired_payload\<close> to \<open>mark_desired_state\<close>,
  \<open>sync_desired_state\<close> and \<open>sync_mirrors\<close>): the Hub stores one revision with the hash of its payload,
  file secrets encrypted, delivers it, and records it as applied only together with the Agent's
  complete acknowledgement of exactly that revision.
\<close>

section \<open>Payloads\<close>

text \<open>
  \<open>cd_json\<close> is \<open>json.dumps(..., sort_keys=True, allow_nan=False)\<close> (\<open>None\<close> when it raises),
  \<open>cd_hash\<close> SHA-256 in hexadecimal, \<open>cd_encrypt\<close> and \<open>cd_decrypt\<close> the Hub's cipher.
\<close>

record codec =
  cd_json :: "pyval \<Rightarrow> string option"
  cd_hash :: "string \<Rightarrow> string"
  cd_encrypt :: "string \<Rightarrow> string"
  cd_decrypt :: "string \<Rightarrow> string option"

definition desired_payload :: "codec \<Rightarrow> pyval \<Rightarrow> string res" where
  "desired_payload cd v =
     (case v of
        PDict d \<Rightarrow>
          (case cd_json cd v of
             None \<Rightarrow> bad ''Node desired state must be finite JSON''
           | Some raw \<Rightarrow>
               if 8 * 1024 * 1024 < int (length raw) then bad ''Node desired state is too large''
               else Inr (cd_hash cd raw))
      | _ \<Rightarrow> bad ''Node desired state must be an object'')"

definition seal_file :: "codec \<Rightarrow> pyval \<Rightarrow> pyval res" where
  "seal_file cd item =
     (case item of
        PDict d \<Rightarrow>
          if ''data'' \<notin> set (map fst d) then Inr item
          else (case pyget d ''data'' of
                  PStr raw \<Rightarrow> Inr (PDict (py_set ''data_enc'' (PStr (cd_encrypt cd raw)) (py_del ''data'' d)))
                | _ \<Rightarrow> bad ''Invalid managed Node file payload'')
      | _ \<Rightarrow> Inr item)"

definition open_file :: "codec \<Rightarrow> pyval \<Rightarrow> pyval res" where
  "open_file cd item =
     (case item of
        PDict d \<Rightarrow>
          if ''data_enc'' \<notin> set (map fst d) then Inr item
          else (case pyget d ''data_enc'' of
                  PStr enc \<Rightarrow>
                    (case cd_decrypt cd enc of
                       None \<Rightarrow> bad ''Persisted Node file secret cannot be decrypted''
                     | Some raw \<Rightarrow> Inr (PDict (py_set ''data'' (PStr raw) (py_del ''data_enc'' d))))
                | _ \<Rightarrow> bad ''Persisted Node file secret is invalid'')
      | _ \<Rightarrow> Inr item)"

definition map_files :: "(pyval \<Rightarrow> pyval res) \<Rightarrow> dict \<Rightarrow> dict res" where
  "map_files f d =
     (case map_of d ''files'' of
        Some (PList xs) \<Rightarrow> rbind (map_res f xs) (\<lambda>ys. Inr (py_set ''files'' (PList ys) d))
      | _ \<Rightarrow> Inr d)"

definition seal_payload :: "codec \<Rightarrow> dict \<Rightarrow> dict res" where
  "seal_payload cd d = map_files (seal_file cd) d"

definition open_payload :: "codec \<Rightarrow> pyval option \<Rightarrow> dict res" where
  "open_payload cd raw =
     (case raw of
        Some (PDict d) \<Rightarrow> map_files (open_file cd) d
      | _ \<Rightarrow> bad ''Persisted Node desired state is invalid'')"

section \<open>The register\<close>

record desired_report =
  dr_revision :: int
  dr_hash :: string
  dr_changed :: bool
  dr_pending :: bool

text \<open>The payload names the Agent of the installation, and never grants a run intent itself.\<close>

definition adjust_payload :: "string \<Rightarrow> string \<Rightarrow> pyval \<Rightarrow> hub \<Rightarrow> pyval" where
  "adjust_payload n agent v h =
     (case v of
        PDict d \<Rightarrow>
          let d1 = (if ''nodeId'' \<in> set (map fst d) then py_set ''nodeId'' (PStr agent) d else d)
          in PDict (if cs_persisted (command_status n h)
                    then py_set ''desiredRunning'' (PBool (config_running n True h)) d1 else d1)
      | _ \<Rightarrow> v)"

definition new_desired :: "string \<Rightarrow> int \<Rightarrow> string \<Rightarrow> pyval \<Rightarrow> real \<Rightarrow> desired_row" where
  "new_desired n revision digest body now =
     \<lparr>nd_node = n, nd_revision = revision, nd_hash = digest, nd_body = Some body, nd_updated = now, nd_applied = 0,
      nd_applied_hash = [], nd_applied_at = 0, nd_error = []\<rparr>"

definition change_desired :: "int \<Rightarrow> string \<Rightarrow> pyval \<Rightarrow> real \<Rightarrow> desired_row \<Rightarrow> desired_row" where
  "change_desired revision digest body now d =
     d\<lparr>nd_revision := revision, nd_hash := digest, nd_body := Some body, nd_updated := now, nd_error := []\<rparr>"

definition write_desired :: "codec \<Rightarrow> string \<Rightarrow> string \<Rightarrow> pyval \<Rightarrow> real \<Rightarrow> hub \<Rightarrow> (hub \<times> desired_report) res" where
  "write_desired cd n agent v now h =
     (let value = adjust_payload n agent v h in
      rbind (desired_payload cd value) (\<lambda>digest.
      let old = desired_of n h in
      case old of
        Some d \<Rightarrow>
          if nd_hash d = digest
          then Inr (h, \<lparr>dr_revision = nd_revision d, dr_hash = digest, dr_changed = False,
                 dr_pending = (nd_error d \<noteq> [] \<or> nd_revision d \<noteq> nd_applied d \<or> digest \<noteq> nd_applied_hash d)\<rparr>)
          else
          rbind (seal_payload cd (case value of PDict e \<Rightarrow> e | _ \<Rightarrow> [])) (\<lambda>body.
          if 2 ^ 63 \<le> nd_revision d + 1 then Inl (OtherError ''OverflowError'')
          else Inr (h\<lparr>hb_desired := modify nd_node n (change_desired (nd_revision d + 1) digest (PDict body) now) (hb_desired h)\<rparr>,
                 \<lparr>dr_revision = nd_revision d + 1, dr_hash = digest, dr_changed = True,
                  dr_pending = (nd_revision d + 1 \<noteq> nd_applied d \<or> digest \<noteq> nd_applied_hash d)\<rparr>))
      | None \<Rightarrow>
          rbind (seal_payload cd (case value of PDict e \<Rightarrow> e | _ \<Rightarrow> [])) (\<lambda>body.
          Inr (h\<lparr>hb_desired := hb_desired h @ [new_desired n 1 digest (PDict body) now]\<rparr>,
               \<lparr>dr_revision = 1, dr_hash = digest, dr_changed = True, dr_pending = True\<rparr>))))"

definition set_desired_state :: "codec \<Rightarrow> string \<Rightarrow> pyval \<Rightarrow> real \<Rightarrow> (session, desired_report) effect" where
  "set_desired_state cd n v now =
     ebind (\<lambda>s. (s, known_node n (ss_hub s))) (\<lambda>_ s.
     node_transaction (write_desired cd n (bd_agent (pn_binding (ss_pin s))) v now) s)"

record desired_view =
  dw_revision :: int
  dw_hash :: string
  dw_applied :: int
  dw_applied_hash :: string
  dw_error :: string
  dw_pending :: bool
  dw_payload :: "dict option"

definition no_desired :: "bool \<Rightarrow> desired_view" where
  "no_desired include =
     \<lparr>dw_revision = 0, dw_hash = [], dw_applied = 0, dw_applied_hash = [], dw_error = [], dw_pending = False,
      dw_payload = (if include then Some [] else None)\<rparr>"

definition desired_view :: "desired_row \<Rightarrow> dict option \<Rightarrow> desired_view" where
  "desired_view d payload =
     \<lparr>dw_revision = nd_revision d, dw_hash = nd_hash d, dw_applied = nd_applied d, dw_applied_hash = nd_applied_hash d,
      dw_error = nd_error d, dw_pending = (nd_revision d \<noteq> nd_applied d \<or> nd_hash d \<noteq> nd_applied_hash d),
      dw_payload = payload\<rparr>"

text \<open>
  \<open>_desired_state_locked\<close>: a stored payload that still grants a run intent is corrected and read
  again. The recursion of the code has no evident bound: \<open>None\<close> is what running out of \<open>fuel\<close>
  rounds means here.
\<close>

fun read_desired :: "nat \<Rightarrow> codec \<Rightarrow> string \<Rightarrow> bool \<Rightarrow> real \<Rightarrow> session \<Rightarrow> (session \<times> desired_view res) option" where
  "read_desired 0 cd n include now s = None"
| "read_desired (Suc fuel) cd n include now s =
     (case known_node n (ss_hub s) of
        Inl ex \<Rightarrow> Some (s, Inl ex)
      | Inr _ \<Rightarrow>
          (case desired_of n (ss_hub s) of
             None \<Rightarrow> Some (s, Inr (no_desired include))
           | Some d \<Rightarrow>
               if \<not> include then Some (s, Inr (desired_view d None))
               else
               (case open_payload cd (nd_body d) of
                  Inl ex \<Rightarrow> Some (s, Inl ex)
                | Inr v \<Rightarrow>
                    if cs_persisted (command_status n (ss_hub s)) \<and>
                       \<not> pyeq (pyget_or v ''desiredRunning'' (PBool True)) (PBool (config_running n True (ss_hub s)))
                    then (case set_desired_state cd n (PDict v) now s of
                            (s1, Inl ex) \<Rightarrow> Some (s1, Inl ex)
                          | (s1, Inr r) \<Rightarrow> read_desired fuel cd n True now s1)
                    else Some (s, Inr (desired_view d (Some v))))))"

text \<open>Two rounds are enough, see \<open>desired_state_returns\<close>.\<close>

definition desired_state :: "codec \<Rightarrow> string \<Rightarrow> bool \<Rightarrow> real \<Rightarrow> (session, desired_view) effect" where
  "desired_state cd n include now s =
     (case read_desired 2 cd n include now s of
        None \<Rightarrow> (s, Inl (OtherError ''RecursionError'')) | Some r \<Rightarrow> r)"

definition apply_mark :: "int \<Rightarrow> string \<Rightarrow> string \<Rightarrow> real \<Rightarrow> desired_row \<Rightarrow> desired_row" where
  "apply_mark revision digest e now d =
     (if e \<noteq> [] then d\<lparr>nd_error := take 500 e\<rparr>
      else d\<lparr>nd_applied := revision, nd_applied_hash := digest, nd_applied_at := now, nd_error := []\<rparr>)"

definition write_mark :: "string \<Rightarrow> int \<Rightarrow> string \<Rightarrow> string \<Rightarrow> real \<Rightarrow> hub \<Rightarrow> (hub \<times> unit) res" where
  "write_mark n revision digest e now h =
     (case desired_of n h of
        None \<Rightarrow> bad ''Node desired state is missing''
      | Some d \<Rightarrow>
          if revision \<noteq> nd_revision d \<or> digest \<noteq> nd_hash d then bad ''Node acknowledged a stale desired state''
          else Inr (h\<lparr>hb_desired := modify nd_node n (apply_mark revision digest e now) (hb_desired h)\<rparr>, ()))"

definition mark_desired_state :: "string \<Rightarrow> int \<Rightarrow> string \<Rightarrow> string \<Rightarrow> real \<Rightarrow> (session, unit) effect" where
  "mark_desired_state n revision digest e now =
     ebind (require_that (\<lambda>_. 0 \<le> revision \<and> length digest \<le> 128) (PolicyError ''Invalid node apply acknowledgement'')) (\<lambda>_.
     ebind (\<lambda>s. (s, known_node n (ss_hub s))) (\<lambda>_.
     node_transaction (write_mark n revision digest e now)))"

section \<open>Mirroring to a legacy node\<close>

definition bundle_source :: "pyval \<Rightarrow> int res" where
  "bundle_source b =
     (case b of
        PDict d \<Rightarrow> (case map_of d ''sourceInboundId'' of None \<Rightarrow> Inl (OtherError ''KeyError'') | Some v \<Rightarrow> py_int v)
      | _ \<Rightarrow> Inl (OtherError ''TypeError''))"

text \<open>The last item of a source counts.\<close>

definition items_by_source :: "pyval list \<Rightarrow> (int \<times> dict) list" where
  "items_by_source items =
     concat (map (\<lambda>x. case x of PDict d \<Rightarrow> (case pyget d ''sourceInboundId'' of PInt i \<Rightarrow> [(i, d)] | _ \<Rightarrow> []) | _ \<Rightarrow> [])
       (rev items))"

definition write_mirror :: "(pyval \<Rightarrow> string) \<Rightarrow> string \<Rightarrow> (int \<times> dict) list \<Rightarrow> real \<Rightarrow> pyval \<Rightarrow> hub \<Rightarrow> hub res" where
  "write_mirror show n items now bundle h =
     rbind (bundle_source bundle) (\<lambda>source.
     let item = (case map_of items source of None \<Rightarrow> [] | Some d \<Rightarrow> d) in
     rbind (py_int (py_or (pyget item ''remoteInboundId'') (PInt 0))) (\<lambda>remote.
     let e = take 300 (case py_or (pyget item ''error'') (PStr []) of PStr t \<Rightarrow> t | w \<Rightarrow> show w) in
     Inr (h\<lparr>hb_links := modify link_key (n, source)
              (\<lambda>l. l\<lparr>li_remote := remote, li_sync := now, li_error := e\<rparr>) (hb_links h)\<rparr>)))"

fun fold_res :: "('x \<Rightarrow> 's \<Rightarrow> 's res) \<Rightarrow> 'x list \<Rightarrow> 's \<Rightarrow> 's res" where
  "fold_res f [] s = Inr s"
| "fold_res f (x # xs) s = rbind (f x s) (fold_res f xs)"

definition sync_mirrors :: "(pyval \<Rightarrow> string) \<Rightarrow> string \<Rightarrow> pyval \<Rightarrow> link \<Rightarrow> (session, pyval list) effect" where
  "sync_mirrors show n bundles lk =
     nested (\<lambda>s.
       if cs_pending (command_status n (ss_hub s))
       then (s, bad ''Ordered Node control is pending; legacy mirror synchronization is deferred'')
       else (case bundles of
         PList bs \<Rightarrow>
           if 256 < int (length bs) then (s, bad ''Invalid node mirror bundle'')
           else ebind (request n lk (PDict [(''assignments'', bundles)])) (\<lambda>(doc, ms).
                case (case doc of PDict d \<Rightarrow> pyget d ''items'' | _ \<Rightarrow> PNone) of
                  PList items \<Rightarrow>
                    ebind (node_transaction (\<lambda>h. rbind (fold_res (write_mirror show n (items_by_source items) (lk_now lk)) bs h)
                             (\<lambda>h'. Inr (h', ())))) (\<lambda>_. return items)
                | _ \<Rightarrow> ebind (node_transaction (request_failed n ''Invalid node mirror sync response'' (lk_now lk))) (\<lambda>_.
                       raise (PolicyError ''Invalid node mirror sync response''))) s
       | _ \<Rightarrow> (s, bad ''Invalid node mirror bundle'')))"

section \<open>Delivering a revision\<close>

record envelope_form =
  ef_revision :: int
  ef_hash :: string
  ef_payload :: dict

definition read_envelope :: "pyval \<Rightarrow> envelope_form res" where
  "read_envelope state =
     (case state of
        PDict d \<Rightarrow>
          (case (pyget d ''revision'', pyget d ''hash'', pyget d ''payload'') of
             (PInt i, PStr t, PDict p) \<Rightarrow> Inr \<lparr>ef_revision = i, ef_hash = t, ef_payload = p\<rparr>
           | _ \<Rightarrow> bad ''Invalid Hub desired-state envelope'')
      | _ \<Rightarrow> bad ''Invalid Hub desired-state envelope'')"

definition wanted_sources :: "dict \<Rightarrow> int list res" where
  "wanted_sources payload =
     rbind (py_iter (pyget_or payload ''assignments'' (PList []))) (\<lambda>xs.
     Inr (concat (map (\<lambda>x. case x of PDict d \<Rightarrow> (case pyget d ''sourceInboundId'' of PInt i \<Rightarrow> [i] | _ \<Rightarrow> []) | _ \<Rightarrow> []) xs)))"

text \<open>Every wanted source is acknowledged once, by a positive inbound and without an error.\<close>

fun acknowledged_sources :: "int list \<Rightarrow> pyval list \<Rightarrow> (int \<times> int) list \<Rightarrow> (int \<times> int) list option" where
  "acknowledged_sources wanted [] acc = Some acc"
| "acknowledged_sources wanted (x # xs) acc =
     (case x of
        PDict d \<Rightarrow>
          (case (pyget d ''sourceInboundId'', pyget d ''remoteInboundId'') of
             (PInt i, PInt r) \<Rightarrow>
               if i \<in> set wanted \<and> i \<notin> set (map fst acc) \<and> 1 \<le> r \<and> \<not> truthy (pyget d ''error'')
               then acknowledged_sources wanted xs ((i, r) # acc) else None
           | _ \<Rightarrow> None)
      | _ \<Rightarrow> None)"

definition complete_acknowledgement :: "int list \<Rightarrow> pyval \<Rightarrow> (int \<times> int) list option" where
  "complete_acknowledgement wanted items =
     (case items of
        PList xs \<Rightarrow>
          (case acknowledged_sources wanted xs [] of
             None \<Rightarrow> None
           | Some acks \<Rightarrow> if set (map fst acks) = set wanted then Some acks else None)
      | _ \<Rightarrow> None)"

definition names_revision :: "envelope_form \<Rightarrow> dict \<Rightarrow> bool" where
  "names_revision e d \<longleftrightarrow>
     pyeq (pyget d ''service'') (PStr ''DARK XRAY NODE'') \<and> pyeq (pyget d ''appliedRevision'') (PInt (ef_revision e))
     \<and> pyeq (pyget d ''appliedHash'') (PStr (ef_hash e))"

definition place_link :: "(int \<times> int) list \<Rightarrow> real \<Rightarrow> link_row \<Rightarrow> link_row" where
  "place_link acks now l =
     (case map_of acks (li_inbound l) of
        Some r \<Rightarrow> l\<lparr>li_remote := r, li_sync := now, li_error := []\<rparr>
      | None \<Rightarrow> l\<lparr>li_remote := 0, li_sync := now, li_error := ''not present in desired state''\<rparr>)"

definition health_with_core :: "pyval \<Rightarrow> pyval option \<Rightarrow> pyval option" where
  "health_with_core core health =
     (let d = (case health of Some (PDict d) \<Rightarrow> d | _ \<Rightarrow> [])
      in Some (PDict (case core of PDict c \<Rightarrow> py_set ''core'' core d | _ \<Rightarrow> d)))"

text \<open>
  The acknowledgement and the assignments commit together. \<open>generated\<close> are the relay listeners
  that the Hub adds of its own.
\<close>

definition commit_acknowledgement ::
  "string \<Rightarrow> envelope_form \<Rightarrow> int list \<Rightarrow> (int \<times> int) list \<Rightarrow> (hub \<Rightarrow> int list) \<Rightarrow> pyval \<Rightarrow> real \<Rightarrow> hub \<Rightarrow> (hub \<times> unit) res" where
  "commit_acknowledgement n e wanted acks generated core now h =
     (case desired_of n h of
        None \<Rightarrow> bad ''Node acknowledged a stale desired state''
      | Some d \<Rightarrow>
          if nd_revision d \<noteq> ef_revision e \<or> nd_hash d \<noteq> ef_hash e then bad ''Node acknowledged a stale desired state''
          else if \<not> set wanted \<subseteq> set (assigned_inbounds n h) \<union> set (generated h)
          then bad ''Node assignments changed while applying desired state''
          else Inr (h\<lparr>hb_links := update_where (\<lambda>l. li_node l = n) (place_link acks now) (hb_links h),
                      hb_desired := modify nd_node n (apply_mark (ef_revision e) (ef_hash e) [] now) (hb_desired h),
                      hb_nodes := modify rn_id n (\<lambda>r. r\<lparr>rn_health := health_with_core core (rn_health r)\<rparr>) (hb_nodes h)\<rparr>, ()))"

text \<open>The parts of one synchronisation that come from outside.\<close>

record sync_env =
  sy_codec :: codec
  sy_show :: "pyval \<Rightarrow> string"
  sy_generated :: "hub \<Rightarrow> int list"
  sy_legacy :: "pyval option"
  sy_apply :: link
  sy_mirror :: link
  sy_before :: "probe_env \<times> link"
  sy_after :: "probe_env \<times> link"

definition reject_acknowledgement :: "string \<Rightarrow> envelope_form \<Rightarrow> real \<Rightarrow> string \<Rightarrow> (session, 'a) effect" where
  "reject_acknowledgement n e now message =
     ebind (mark_desired_state n (ef_revision e) (ef_hash e) message now) (\<lambda>_.
     ebind (node_transaction (request_failed n message now)) (\<lambda>_. raise (PolicyError message)))"

definition relay_tags :: "dict \<Rightarrow> string list res" where
  "relay_tags payload =
     rbind (py_field (pyget_or payload ''sections'' (PDict [])) ''outbounds'' (PList [])) (\<lambda>outbounds.
     rbind (py_iter outbounds) (\<lambda>os.
     Inr (concat (map (\<lambda>x. case x of PDict d \<Rightarrow> (case pyget d ''tag'' of PStr t \<Rightarrow> [t] | _ \<Rightarrow> []) | _ \<Rightarrow> []) os))))"

definition needs_relay :: "dict \<Rightarrow> bool res" where
  "needs_relay payload =
     rbind (relay_tags payload) (\<lambda>tags.
     Inr (list_ex (\<lambda>t. take 11 t = ''dark-relay-'' \<or> take 10 t = ''dark-swap-'') tags))"

datatype applied_result = Mirrored "pyval list" | Acknowledged desired_view

datatype sync_result = Deferred delivery | Synchronised applied_result delivery

definition apply_body :: "envelope_form \<Rightarrow> pyval" where
  "apply_body e = PDict [(''revision'', PInt (ef_revision e)), (''hash'', PStr (ef_hash e)), (''payload'', PDict (ef_payload e))]"

text \<open>\<open>_sync_desired_state_locked\<close>.\<close>

definition sync_locked :: "string \<Rightarrow> sync_env \<Rightarrow> envelope_form \<Rightarrow> (session, applied_result) effect" where
  "sync_locked n v e s =
     (let now = lk_now (sy_apply v) in
      case request n (sy_apply v) (apply_body e) s of
        (s1, Inl ex) \<Rightarrow>
          if \<not> is_policy_error ex then (s1, Inl ex)
          else (case needs_relay (ef_payload e) of Inl ex' \<Rightarrow> (s1, Inl ex') | Inr relay \<Rightarrow>
          if sy_legacy v \<noteq> None \<and> \<not> relay \<and> take 13 (err_message ex) = ''Node HTTP 404''
          then ebind (sync_mirrors (sy_show v) n (case sy_legacy v of Some b \<Rightarrow> b | None \<Rightarrow> PNone) (sy_mirror v)) (\<lambda>items.
               ebind (mark_desired_state n (ef_revision e) (ef_hash e)
                 ''legacy node: inbound/client mirror only; upgrade to agent-only runtime'' now) (\<lambda>_.
               return (Mirrored items))) s1
          else ebind (mark_desired_state n (ef_revision e) (ef_hash e) (err_message ex) now) (\<lambda>_. raise ex) s1)
      | (s1, Inr (doc, ms)) \<Rightarrow>
          (let d = (case doc of PDict d \<Rightarrow> d | _ \<Rightarrow> []) in
           if \<not> names_revision e d
           then reject_acknowledgement n e now ''Node returned an invalid desired-state acknowledgement'' s1
           else case wanted_sources (ef_payload e) of
             Inl ex \<Rightarrow> (s1, Inl ex)
           | Inr wanted \<Rightarrow>
               (case complete_acknowledgement wanted (pyget d ''items'') of
                  None \<Rightarrow> reject_acknowledgement n e now ''Node returned incomplete or invalid assignment acknowledgements'' s1
                | Some acks \<Rightarrow>
                    ebind (node_transaction (commit_acknowledgement n e wanted acks (sy_generated v) (pyget d ''core'') now)) (\<lambda>_.
                    ebind (desired_state (sy_codec v) n False now) (\<lambda>view. return (Acknowledged view))) s1)))"

text \<open>A gated Start does not hold the configuration back that its accounting lease needs.\<close>

definition lease_start :: "string \<Rightarrow> delivery \<Rightarrow> hub \<Rightarrow> bool res" where
  "lease_start n control h =
     (case (case node_of_id n h of Some r \<Rightarrow> rn_health r | None \<Rightarrow> None) of
        None \<Rightarrow> Inl (OtherError ''ValueError'')
      | Some health \<Rightarrow>
          if cs_action (dl_control control) \<notin> {''start'', ''restart''} then Inr False
          else rbind (py_field health ''capabilities'' PNone) (\<lambda>c.
               rbind (py_field (py_or c (PDict [])) ''accounting_lease'' PNone) (\<lambda>x. Inr (pyeq x (PInt 1)))))"

definition sync_desired_state :: "string \<Rightarrow> pyval \<Rightarrow> sync_env \<Rightarrow> (session, sync_result) effect" where
  "sync_desired_state n state v =
     nested (\<lambda>s. case read_envelope state of
       Inl ex \<Rightarrow> (s, Inl ex)
     | Inr e \<Rightarrow>
         ebind (deliver_pending n (fst (sy_before v)) (snd (sy_before v))) (\<lambda>control s1.
         case known_node n (ss_hub s1) of
           Inl ex \<Rightarrow> (s1, Inl ex)
         | Inr _ \<Rightarrow>
         (case lease_start n control (ss_hub s1) of Inl ex \<Rightarrow> (s1, Inl ex) | Inr gated \<Rightarrow>
         if dl_queued control \<and> dl_state control \<noteq> ''configuration_pending'' \<and> \<not> gated
         then (s1, Inr (Deferred control))
         else
         ebind (desired_state (sy_codec v) n True (lk_now (sy_apply v))) (\<lambda>current.
         if ef_revision e \<noteq> dw_revision current \<or> ef_hash e \<noteq> dw_hash current
         then raise (PolicyError ''Desired state changed before delivery; retry synchronization'')
         else ebind (sync_locked n v e) (\<lambda>out.
              ebind (deliver_pending n (fst (sy_after v)) (snd (sy_after v))) (\<lambda>control'.
              return (Synchronised out control')))) s1)) s)"

section \<open>Reading a desired state returns\<close>

text \<open>
  The canonical JSON text and its SHA-256 tell payloads apart that differ in whether they are
  explicitly stopped.
\<close>

definition explicit_stop :: "dict \<Rightarrow> bool" where
  "explicit_stop d \<longleftrightarrow> pyeq (pyget_or d ''desiredRunning'' (PBool True)) (PBool False)"

definition codec_exact :: "codec \<Rightarrow> bool" where
  "codec_exact cd \<longleftrightarrow>
     (\<forall>a b x y. cd_json cd (PDict a) = Some x \<longrightarrow> cd_json cd (PDict b) = Some y \<longrightarrow> cd_hash cd x = cd_hash cd y \<longrightarrow>
        explicit_stop a = explicit_stop b)"

text \<open>The stored hash is that of the stored payload.\<close>

definition hash_matches :: "codec \<Rightarrow> string \<Rightarrow> hub \<Rightarrow> bool" where
  "hash_matches cd n h \<longleftrightarrow>
     (case desired_of n h of None \<Rightarrow> True
      | Some d \<Rightarrow>
          (case open_payload cd (nd_body d) of
             Inl ex \<Rightarrow> True | Inr v \<Rightarrow> desired_payload cd (PDict v) = Inr (nd_hash d)))"

lemma pyget_or_py_set: "pyget_or (py_set k v d) k' w = (if k' = k then v else pyget_or d k' w)"
  by (simp add: pyget_or_def py_set_def update_conv')

lemma map_files_keeps:
  "map_files f d = Inr d' \<Longrightarrow> k \<noteq> ''files'' \<Longrightarrow> pyget_or d' k w = pyget_or d k w"
  by (auto simp: map_files_def rbind_Inr pyget_or_py_set split: option.splits pyval.splits)

lemma sealed_stop:
  assumes "seal_payload cd d = Inr body" and "open_payload cd (Some (PDict body)) = Inr v"
  shows "explicit_stop v = explicit_stop d"
  using assms by (simp add: explicit_stop_def seal_payload_def open_payload_def map_files_keeps)

text \<open>A write under a durable command leaves a row that is explicitly stopped.\<close>

lemma digestD: "desired_payload cd (PDict v) = Inr digest \<Longrightarrow> \<exists>x. cd_json cd (PDict v) = Some x \<and> digest = cd_hash cd x"
  by (auto simp: desired_payload_def split: option.splits if_splits)

lemma digest_distinguishes:
  assumes "codec_exact cd" and "desired_payload cd (PDict v) = Inr i" and "desired_payload cd (PDict e) = Inr j"
    and "explicit_stop v \<noteq> explicit_stop e"
  shows "i \<noteq> j"
proof -
  obtain x y where "cd_json cd (PDict v) = Some x" "i = cd_hash cd x" "cd_json cd (PDict e) = Some y" "j = cd_hash cd y"
    using digestD [OF assms(2)] digestD [OF assms(3)] by blast
  then show ?thesis using assms(1,4) unfolding codec_exact_def by metis
qed

lemma write_desired_stops:
  assumes "write_desired cd n agent (PDict v) now h = Inr (h', r)"
    and "cs_persisted (command_status n h)" and "codec_exact cd" and "hash_matches cd n h"
    and "desired_of n h = Some d" and "open_payload cd (nd_body d) = Inr v" and "\<not> explicit_stop v"
  shows "hb_nodes h' = hb_nodes h \<and> hb_controls h' = hb_controls h \<and> hb_bindings h' = hb_bindings h \<and>
    (\<exists>d'. desired_of n h' = Some d' \<and> (\<forall>w. open_payload cd (nd_body d') = Inr w \<longrightarrow> explicit_stop w))"
proof -
  define e where "e = (case adjust_payload n agent (PDict v) h of PDict e \<Rightarrow> e | _ \<Rightarrow> [])"
  have e: "adjust_payload n agent (PDict v) h = PDict e" by (simp add: e_def adjust_payload_def Let_def)
  then have stop: "explicit_stop e"
    using assms(2) by (auto simp: adjust_payload_def Let_def config_running_def explicit_stop_def pyget_or_py_set pyeq_def)
  from assms(1) e obtain digest where digest: "desired_payload cd (PDict e) = Inr digest"
    by (auto simp: write_desired_def Let_def rbind_Inr)
  have "desired_payload cd (PDict v) = Inr (nd_hash d)" using assms(4,5,6) by (simp add: hash_matches_def)
  from digest_distinguishes [OF assms(3) this digest] assms(7) stop have "nd_hash d \<noteq> digest" by simp
  with assms(1,5) e digest obtain body where body: "seal_payload cd e = Inr body"
    and h': "h' = h\<lparr>hb_desired := modify nd_node n (change_desired (nd_revision d + 1) digest (PDict body) now) (hb_desired h)\<rparr>"
    by (auto simp: write_desired_def Let_def rbind_Inr split: if_splits)
  have "desired_of n h' = Some (change_desired (nd_revision d + 1) digest (PDict body) now d)"
    by (simp add: h' lookup_modify change_desired_def assms(5))
  then show ?thesis using sealed_stop [OF body] stop by (simp add: h' change_desired_def)
qed

lemma set_desired_result:
  assumes "set_desired_state cd n v now s = (s', Inr r)"
  shows "write_desired cd n (bd_agent (pn_binding (ss_pin s))) v now (ss_hub s) = Inr (ss_hub s', r)"
  using assms
  by (auto simp: set_desired_state_def node_transaction_def on_hub_def on_part_def transaction_def rbind_Inr
      split: sum.splits prod.splits)

text \<open>One round: it returns, or it corrects the payload and reads again.\<close>

definition needs_stop :: "codec \<Rightarrow> string \<Rightarrow> bool \<Rightarrow> session \<Rightarrow> dict option" where
  "needs_stop cd n full s =
     (case (known_node n (ss_hub s), desired_of n (ss_hub s)) of
        (Inr _, Some d) \<Rightarrow>
          (case open_payload cd (nd_body d) of
             Inr v \<Rightarrow> if full \<and> cs_persisted (command_status n (ss_hub s)) \<and> \<not> explicit_stop v then Some v else None
           | Inl _ \<Rightarrow> None)
      | _ \<Rightarrow> None)"

lemma read_round_returns:
  assumes "needs_stop cd n full s = None"
  shows "\<exists>r. \<forall>fuel. read_desired (Suc fuel) cd n full now s = Some r"
proof (cases "known_node n (ss_hub s)")
  case known: (Inr u)
  show ?thesis
  proof (cases "desired_of n (ss_hub s)")
    case row: (Some d)
    show ?thesis
    proof (cases "open_payload cd (nd_body d)")
      case (Inl ex)
      then show ?thesis by (cases full) (simp_all add: known row)
    next
      case (Inr v)
      then show ?thesis
        using assms by (cases full) (simp_all add: known row needs_stop_def explicit_stop_def config_running_def split: if_splits)
    qed
  qed (simp add: known)
qed simp

lemma read_round_corrects:
  "needs_stop cd n full s = Some v \<Longrightarrow>
    read_desired (Suc fuel) cd n full now s =
      (case set_desired_state cd n (PDict v) now s of
         (s1, Inl ex) \<Rightarrow> Some (s1, Inl ex) | (s1, Inr r) \<Rightarrow> read_desired fuel cd n True now s1)"
  by (auto simp: needs_stop_def explicit_stop_def config_running_def split: sum.splits option.splits if_splits)

lemma needs_stopD:
  "needs_stop cd n full s = Some v \<Longrightarrow>
    \<exists>d. desired_of n (ss_hub s) = Some d \<and> open_payload cd (nd_body d) = Inr v \<and>
      cs_persisted (command_status n (ss_hub s)) \<and> \<not> explicit_stop v"
  by (auto simp: needs_stop_def split: sum.splits option.splits if_splits)

lemma corrected_once:
  assumes "needs_stop cd n full s = Some v" and "set_desired_state cd n (PDict v) now s = (s1, Inr r)"
    and "codec_exact cd" and "hash_matches cd n (ss_hub s)"
  shows "needs_stop cd n True s1 = None"
proof -
  obtain d where d: "desired_of n (ss_hub s) = Some d" "open_payload cd (nd_body d) = Inr v"
    "cs_persisted (command_status n (ss_hub s))" "\<not> explicit_stop v"
    using needs_stopD [OF assms(1)] by blast
  from write_desired_stops [OF set_desired_result [OF assms(2)] d(3) assms(3,4) d(1,2,4)]
  obtain d' where "desired_of n (ss_hub s1) = Some d'" "\<forall>w. open_payload cd (nd_body d') = Inr w \<longrightarrow> explicit_stop w"
    by blast
  then show ?thesis by (auto simp: needs_stop_def split: sum.splits option.splits)
qed


text \<open>A codec that tells stopped payloads apart, and a payload that still grants a run intent.\<close>

definition sample_codec :: codec where
  "sample_codec = \<lparr>cd_json = (\<lambda>v. case v of PDict d \<Rightarrow> Some (if explicit_stop d then ''stop'' else ''run'') | _ \<Rightarrow> None),
     cd_hash = (\<lambda>t. t), cd_encrypt = rev, cd_decrypt = (\<lambda>t. Some (rev t))\<rparr>"

lemma sample_codec_exact: "codec_exact sample_codec"
  by (auto simp: codec_exact_def sample_codec_def split: if_splits)

definition running_payload :: dict where
  "running_payload = [(''nodeId'', PStr ''n1''), (''desiredRunning'', PBool True),
     (''files'', PList [PDict [(''name'', PStr ''key''), (''data_enc'', PStr ''terces'')]])]"

definition desired_hub :: hub where
  "desired_hub = sample_hub\<lparr>
     hb_desired := [new_desired ''n1'' 4 ''run'' (PDict running_payload) 0],
     hb_controls := [\<lparr>nc_node = ''n1'', nc_revision = 2, nc_command = ''k'', nc_action = ''start'', nc_applied = 2,
                     nc_error = [], nc_applied_at = 0\<rparr>]\<rparr>"

definition sample_session :: "hub \<Rightarrow> session" where
  "sample_session h = \<lparr>ss_hub = h, ss_pin = \<lparr>pn_node = sample_node_row, pn_binding = sample_binding\<rparr>\<rparr>"


section \<open>What an acknowledgement records\<close>

lemma request_answer:
  assumes "request n lk body s = (s', Inr (doc, ms))"
  shows "lk_answer lk body = Inr (doc, ms)"
proof -
  obtain s1 where r: "(case lk_token lk (rn_token (pn_node (ss_pin s1))) of
         None \<Rightarrow> (s1, bad ''Node credential cannot be decrypted'')
       | Some token \<Rightarrow>
           if \<not> rn_enabled (pn_node (ss_pin s1)) then (s1, bad ''Node is disabled'')
           else
           let s1 = s1\<lparr>ss_hub := lk_between lk (ss_hub s1)\<rparr> in
           case lk_answer lk body of
             Inl ex \<Rightarrow>
               if is_policy_error ex
               then ebind (node_transaction (request_failed n (err_message ex) (lk_now lk))) (\<lambda>_. raise ex) s1
               else (s1, Inl ex)
           | Inr (doc, ms) \<Rightarrow>
               ebind (node_transaction (request_ok n ms (lk_now lk))) (\<lambda>_. return (doc, ms)) s1) = (s', Inr (doc, ms))"
    using assms unfolding request_def nested_def Let_def by (fast dest: bindD)
  then show ?thesis
    by (auto simp: Let_def raise_def return_def bad_def split: option.splits if_splits sum.splits prod.splits)
qed

lemma reject_raises: "reject_acknowledgement n e now m s \<noteq> (s', Inr x)"
  by (auto simp: reject_acknowledgement_def raise_def split: prod.splits sum.splits)

lemma acknowledged_sourcesD:
  "acknowledged_sources wanted xs acc = Some acks \<Longrightarrow> (i, r) \<in> set acks \<Longrightarrow>
    (i, r) \<in> set acc \<or> (\<exists>d. PDict d \<in> set xs \<and> pyget d ''sourceInboundId'' = PInt i \<and>
      pyget d ''remoteInboundId'' = PInt r \<and> 1 \<le> r \<and> \<not> truthy (pyget d ''error''))"
proof (induction xs arbitrary: acc)
  case (Cons x xs)
  from Cons.prems(1) obtain d j q where x: "x = PDict d" "pyget d ''sourceInboundId'' = PInt j"
    "pyget d ''remoteInboundId'' = PInt q" "1 \<le> q" "\<not> truthy (pyget d ''error'')"
    and rest: "acknowledged_sources wanted xs ((j, q) # acc) = Some acks"
    by (auto split: pyval.splits if_splits)
  from Cons.IH [OF rest Cons.prems(2)] x show ?case by auto
qed simp

lemma desired_state_pure: "desired_state cd n False now s = (s', Inr w) \<Longrightarrow> s' = s"
  by (auto simp: desired_state_def numeral_2_eq_2 split: sum.splits option.splits)

lemma commit_acknowledgementD:
  "commit_acknowledgement n e wanted acks g core now h = Inr (h', u) \<Longrightarrow>
    \<exists>d. desired_of n h = Some d \<and> nd_revision d = ef_revision e \<and> nd_hash d = ef_hash e \<and>
      hb_links h' = update_where (\<lambda>l. li_node l = n) (place_link acks now) (hb_links h) \<and>
      hb_desired h' = modify nd_node n (apply_mark (ef_revision e) (ef_hash e) [] now) (hb_desired h)"
  by (auto simp: commit_acknowledgement_def split: option.splits if_splits)


definition applied_doc :: dict where
  "applied_doc = [(''service'', PStr ''DARK XRAY NODE''), (''appliedRevision'', PInt 4), (''appliedHash'', PStr ''run''),
     (''items'', PList [PDict [(''sourceInboundId'', PInt 1), (''remoteInboundId'', PInt 7)]]),
     (''core'', PDict [(''state'', PStr ''running'')])]"

definition steady_link :: "pyval \<Rightarrow> link" where
  "steady_link doc = \<lparr>lk_between = (\<lambda>h. h), lk_answer = (\<lambda>b. Inr (doc, 20)), lk_token = (\<lambda>t. Some t), lk_now = 9\<rparr>"

definition probe_of :: "pyval \<Rightarrow> probe_env" where
  "probe_of doc = \<lparr>pe_link = steady_link doc, pe_num = (\<lambda>t. None), pe_round = (\<lambda>x. x)\<rparr>"

definition sample_sync :: sync_env where
  "sample_sync = \<lparr>sy_codec = sample_codec, sy_show = (\<lambda>v. []), sy_generated = (\<lambda>h. []), sy_legacy = None,
     sy_apply = steady_link (PDict applied_doc), sy_mirror = steady_link PNone,
     sy_before = (probe_of PNone, steady_link PNone), sy_after = (probe_of PNone, steady_link PNone)\<rparr>"

definition sample_revision :: envelope_form where
  "sample_revision = \<lparr>ef_revision = 4, ef_hash = ''run'',
     ef_payload = [(''assignments'', PList [PDict [(''sourceInboundId'', PInt 1)]])]\<rparr>"

definition linked_hub :: hub where
  "linked_hub = desired_hub\<lparr>hb_links :=
     [\<lparr>li_node = ''n1'', li_inbound = 1, li_remote = 0, li_sync = 0, li_error = []\<rparr>,
      \<lparr>li_node = ''n1'', li_inbound = 2, li_remote = 5, li_sync = 0, li_error = []\<rparr>]\<rparr>"

abbreviation configured_hub :: hub where
  "configured_hub \<equiv> ss_hub (fst (sync_locked ''n1'' sample_sync sample_revision (sample_session linked_hub)))"


end
