(* ===== verification/Panel.thy ===== *)
theory Panel
  imports Engine Hub_Usage
begin

text \<open>
  The panel's state and the customers in the core (backend/core.py, \<open>inbounds\<close> and \<open>clients\<close> to
  \<open>counters\<close>). The panel is the Hub's database, the Xray engine, the tables of backend/manager.py
  and what the Manager keeps in memory. A JSON column that holds an object is its \<open>dict\<close>, one
  that holds inbound numbers is an \<open>int list\<close>.

  The outside world answers the calls of an operation one after the other: \<open>wo_env w i\<close> is what the
  operating system, Xray and the clock show during the \<open>i\<close>-th call of the engine, and \<open>pa_step\<close>
  counts the calls. Random tokens, SHA-256, the text of a float, the calendar of the panel's time
  zone and the links to the remote nodes are further answers.
\<close>

section \<open>State\<close>

record profile_row =
  pf_id :: string
  pf_name :: string
  pf_allowed :: "int list"
  pf_prefix :: string
  pf_ips :: int
  pf_hwid :: int

record cycle_row =
  cy_email :: string
  cy_days :: int
  cy_next :: real
  cy_completed :: int
  cy_max :: int
  cy_mode :: string
  cy_day :: int

record group_row =
  gr_owner :: string
  gr_name :: string
  gr_color :: string

record audit_row =
  au_actor :: string
  au_owner :: string
  au_action :: string
  au_target :: string
  au_detail :: string
  au_at :: real

record panel =
  pa_hub :: hub
  pa_engine :: engine
  pa_inbounds :: "(int \<times> dict) list"
  pa_tombs :: "(core_client \<times> real) list"
  pa_profiles :: "profile_row list"
  pa_cycles :: "cycle_row list"
  pa_groups :: "group_row list"
  pa_audit :: "audit_row list"
  pa_snapshot :: "(string \<times> dict) list"
  pa_last_poll :: real
  pa_last_error :: string
  pa_step :: nat

text \<open>
  \<open>wo_links\<close> is \<open>None\<close> for a panel without a node Hub (\<open>Manager.remote_reset\<close> is \<open>None\<close>);
  \<open>wo_month t\<close> is the local year and month of a time and \<open>wo_midnight\<close> the time of a local day.
\<close>

record world =
  wo_env :: "nat \<Rightarrow> env"
  wo_sha :: "string \<Rightarrow> string"
  wo_token :: "nat \<Rightarrow> string"
  wo_text :: "real \<Rightarrow> string"
  wo_links :: "(nat \<Rightarrow> string \<Rightarrow> link) option"
  wo_month :: "real \<Rightarrow> int \<times> int"
  wo_midnight :: "int \<Rightarrow> int \<Rightarrow> int \<Rightarrow> real"

definition clock :: "world \<Rightarrow> panel \<Rightarrow> real" where
  "clock w p = env_now (wo_env w (pa_step p))"

definition token :: "world \<Rightarrow> panel \<Rightarrow> string" where
  "token w p = wo_token w (pa_step p)"

abbreviation managed_of :: "string \<Rightarrow> panel \<Rightarrow> managed_row option" where
  "managed_of c p \<equiv> lookup mc_email c (hb_managed (pa_hub p))"

abbreviation core_of :: "string \<Rightarrow> panel \<Rightarrow> core_client option" where
  "core_of c p \<equiv> lookup cc_email c (eg_clients (pa_engine p))"

abbreviation store_of :: "panel \<Rightarrow> store" where
  "store_of p \<equiv> hb_store (pa_hub p)"

definition core_op :: "world \<Rightarrow> (env \<Rightarrow> (engine, 'a) effect) \<Rightarrow> (panel, 'a) effect" where
  "core_op w m p =
     (case m (wo_env w (pa_step p)) (pa_engine p) of
        (e, r) \<Rightarrow> (p\<lparr>pa_engine := e, pa_step := Suc (pa_step p)\<rparr>, r))"

definition set_managed :: "(managed_row list \<Rightarrow> managed_row list) \<Rightarrow> panel \<Rightarrow> panel" where
  "set_managed f p = p\<lparr>pa_hub := (pa_hub p)\<lparr>hb_managed := f (hb_managed (pa_hub p))\<rparr>\<rparr>"

definition set_store :: "store \<Rightarrow> panel \<Rightarrow> panel" where
  "set_store s p = p\<lparr>pa_hub := (pa_hub p)\<lparr>hb_store := s\<rparr>\<rparr>"

definition set_core :: "(core_client list \<Rightarrow> core_client list) \<Rightarrow> panel \<Rightarrow> panel" where
  "set_core f p = p\<lparr>pa_engine := (pa_engine p)\<lparr>eg_clients := f (eg_clients (pa_engine p))\<rparr>\<rparr>"

text \<open>\<open>UPDATE managed_clients ... WHERE email=?\<close>.\<close>

definition mark_row :: "string \<Rightarrow> (managed_row \<Rightarrow> managed_row) \<Rightarrow> (panel, unit) effect" where
  "mark_row c f = alter (set_managed (modify mc_email c f))"

text \<open>An operation of the accounting store, in its own transaction.\<close>

definition on_store :: "(store \<Rightarrow> store res) \<Rightarrow> (panel, unit) effect" where
  "on_store m p = (case m (store_of p) of Inl ex \<Rightarrow> (p, Inl ex) | Inr s \<Rightarrow> (set_store s p, Inr ()))"

section \<open>Client records\<close>

definition py_merge :: "dict \<Rightarrow> dict \<Rightarrow> dict" where
  "py_merge d e = fold (\<lambda>(k, v). py_set k v) e d"

definition py_ints :: "int list \<Rightarrow> pyval" where
  "py_ints xs = PList (map PInt xs)"

definition body_of :: "core_client \<Rightarrow> dict" where
  "body_of c = (case cc_body c of PDict d \<Rightarrow> d | _ \<Rightarrow> [])"

definition record_of :: "core_client \<Rightarrow> dict" where
  "record_of c =
     py_merge (body_of c) [(''inboundIds'', py_ints (cc_inbounds c)),
       (''traffic'', PDict [(''up'', PInt (cc_up c)), (''down'', PInt (cc_down c))])]"

definition email_of :: "dict \<Rightarrow> pyval" where
  "email_of r = pyget r ''email''"

definition writable :: "dict \<Rightarrow> dict" where
  "writable r = filter (\<lambda>(k, v). k \<notin> {''inboundIds'', ''traffic'', ''usedTraffic'', ''owner'', ''engineStatus''}) r"

definition counters :: "dict \<Rightarrow> (int \<times> int) res" where
  "counters r =
     rbind (py_field (py_or (pyget r ''traffic'') (PDict [])) ''up'' (PInt 0)) (\<lambda>a.
     rbind (py_field (py_or (pyget r ''traffic'') (PDict [])) ''down'' (PInt 0)) (\<lambda>b.
     case (a, b) of
       (PInt i, PInt j) \<Rightarrow>
         if i < 0 \<or> max_int < i \<or> j < 0 \<or> max_int < j then Inl (CoreError ''Invalid core counters'' 422) else Inr (i, j)
     | _ \<Rightarrow> Inl (CoreError ''Invalid core counters'' 422)))"

section \<open>Operations of the core on customers\<close>

definition inbounds :: "panel \<Rightarrow> (int \<times> dict) list" where
  "inbounds p = map (\<lambda>(i, b). (i, py_set ''id'' (PInt i) b)) (sort_key fst (pa_inbounds p))"

definition clients :: "world \<Rightarrow> (panel, (string \<times> dict) list) effect" where
  "clients w =
     ebind (core_op w (collect_stats False False)) (\<lambda>_.
     peek (\<lambda>p. map (\<lambda>c. (cc_email c, record_of c)) (sort_key cc_email (eg_clients (pa_engine p)))))"

definition client_detail :: "string \<Rightarrow> (panel, core_client) effect" where
  "client_detail c p =
     (p, case core_of c p of None \<Rightarrow> Inl (CoreError ''Core client not found'' 404) | Some r \<Rightarrow> Inr r)"

definition client_snapshot :: "world \<Rightarrow> string \<Rightarrow> bool \<Rightarrow> (panel, dict option) effect" where
  "client_snapshot w c collect =
     ebind (when_so collect (core_op w (collect_stats False False))) (\<lambda>_.
     peek (\<lambda>p. map_option record_of (core_of c p)))"

definition core_writes :: "(panel, unit) effect" where
  "core_writes = require_that (\<lambda>p. eg_writes (pa_engine p)) (CoreError ''Local writes disabled'' 409)"

definition core_create :: "dict \<Rightarrow> int list \<Rightarrow> (panel, unit) effect" where
  "core_create client ids =
     ebind core_writes (\<lambda>_ p.
     (case pyget_or client ''email'' (PStr []) of
        PStr c \<Rightarrow>
          if \<not> valid_name c then (p, Inl (CoreError ''Invalid identity'' 422))
          else if \<not> set ids \<subseteq> set (map fst (pa_inbounds p)) then (p, Inl (CoreError ''Unknown inbound'' 422))
          else (case insert_pk cc_email \<lparr>cc_email = c, cc_body = PDict client, cc_inbounds = ids, cc_up = 0, cc_down = 0\<rparr>
                       (eg_clients (pa_engine p)) of
                  Inl ex \<Rightarrow> (p, Inl ex)
                | Inr rows \<Rightarrow> (set_core (\<lambda>_. rows) p, Inr ()))
      | _ \<Rightarrow> (p, Inl (OtherError ''TypeError''))))"

definition core_update :: "string \<Rightarrow> dict \<Rightarrow> (panel, unit) effect" where
  "core_update c client =
     ebind core_writes (\<lambda>_.
     ebind (client_detail c) (\<lambda>old.
     if pyget_or client ''email'' (PStr c) \<noteq> PStr c then raise (CoreError ''Identity cannot change'' 422)
     else alter (set_core (modify cc_email c
            (\<lambda>r. r\<lparr>cc_body := PDict (py_set ''email'' (PStr c) (py_merge (body_of old) (writable client)))\<rparr>)))))"

type_synonym upsert_item = "string \<times> dict \<times> int list"

definition check_item :: "int list \<Rightarrow> upsert_item \<Rightarrow> unit res" where
  "check_item known item =
     (case item of (c, client, ids) \<Rightarrow>
        if ids = [] then Inl (CoreError ''Invalid core batch payload'' 422)
        else if list_ex (\<lambda>i. i < 1) ids \<or> \<not> distinct ids \<or> \<not> set ids \<subseteq> set known
        then Inl (CoreError ''Unknown inbound'' 422)
        else if pyget_or client ''email'' (PStr c) \<noteq> PStr c then Inl (CoreError ''Identity cannot change'' 422)
        else Inr ())"

definition upsert_row :: "upsert_item \<Rightarrow> core_client list \<Rightarrow> core_client list" where
  "upsert_row item rows =
     (case item of (c, client, ids) \<Rightarrow>
        let base = (case lookup cc_email c rows of None \<Rightarrow> [] | Some r \<Rightarrow> body_of r);
            body = PDict (py_set ''email'' (PStr c) (py_merge base (writable client)))
        in upsert cc_email \<lparr>cc_email = c, cc_body = body, cc_inbounds = ids, cc_up = 0, cc_down = 0\<rparr>
             (\<lambda>r. r\<lparr>cc_body := body, cc_inbounds := ids\<rparr>) rows)"

definition upsert_many :: "upsert_item list \<Rightarrow> (panel, unit) effect" where
  "upsert_many items =
     ebind core_writes (\<lambda>_.
     ebind (require_that (\<lambda>_. items \<noteq> [] \<and> length items \<le> 500)
              (CoreError ''Core batch upsert requires 1..500 clients'' 422)) (\<lambda>_.
     ebind (require_that (\<lambda>_. list_all (\<lambda>i. valid_name (fst i)) items \<and> distinct (map fst items))
              (CoreError ''Invalid or duplicate core batch identity'' 422)) (\<lambda>_.
     ebind (\<lambda>p. (p, map_res (check_item (map fst (pa_inbounds p))) items)) (\<lambda>_.
     alter (set_core (fold upsert_row items))))))"

definition drop_core :: "world \<Rightarrow> string \<Rightarrow> panel \<Rightarrow> panel" where
  "drop_core w c p =
     (let p1 = (case core_of c p of None \<Rightarrow> p
                | Some r \<Rightarrow> p\<lparr>pa_tombs := upsert (\<lambda>x. cc_email (fst x)) (r, clock w p) (\<lambda>_. (r, clock w p)) (pa_tombs p)\<rparr>);
          p2 = set_core (remove_key cc_email c) p1
      in p2\<lparr>pa_hub := (pa_hub p2)\<lparr>hb_core_devices := delete_where (\<lambda>d. fst d = c) (hb_core_devices (pa_hub p2))\<rparr>\<rparr>)"

definition core_delete :: "world \<Rightarrow> string \<Rightarrow> (panel, dict option) effect" where
  "core_delete w c =
     ebind core_writes (\<lambda>_.
     ebind (core_op w (collect_stats True False)) (\<lambda>_ p.
     (drop_core w c p, Inr (map_option record_of (core_of c p)))))"

definition deleted_snapshot :: "string \<Rightarrow> panel \<Rightarrow> dict option" where
  "deleted_snapshot c p =
     map_option (\<lambda>(r, t). py_set ''deletedAt'' (PFloat t) (record_of r)) (lookup (\<lambda>x. cc_email (fst x)) c (pa_tombs p))"

definition core_attach :: "string \<Rightarrow> int list \<Rightarrow> (panel, unit) effect" where
  "core_attach c ids =
     ebind core_writes (\<lambda>_.
     ebind (client_detail c) (\<lambda>d.
     let vals = sort (remdups (cc_inbounds d @ ids)) in
     ebind (require_that (\<lambda>p. set vals \<subseteq> set (map fst (pa_inbounds p))) (CoreError ''Unknown inbound'' 422)) (\<lambda>_.
     alter (set_core (modify cc_email c (\<lambda>r. r\<lparr>cc_inbounds := vals\<rparr>))))))"

definition core_detach :: "string \<Rightarrow> int list \<Rightarrow> (panel, unit) effect" where
  "core_detach c ids =
     ebind core_writes (\<lambda>_.
     ebind (client_detail c) (\<lambda>d.
     let vals = sort (remdups (filter (\<lambda>i. i \<notin> set ids) (cc_inbounds d))) in
     ebind (require_that (\<lambda>_. vals \<noteq> []) (CoreError ''A customer must retain an inbound'' 422)) (\<lambda>_.
     alter (set_core (modify cc_email c (\<lambda>r. r\<lparr>cc_inbounds := vals\<rparr>))))))"

text \<open>The record returned is the one before the counters are zeroed.\<close>

definition core_reset :: "world \<Rightarrow> string \<Rightarrow> (panel, dict option) effect" where
  "core_reset w c =
     ebind (core_op w (reset_counters c)) (\<lambda>final.
     peek (\<lambda>p. case (core_of c p, final) of
         (Some r, Some (up, down)) \<Rightarrow> Some (record_of (r\<lparr>cc_up := up, cc_down := down\<rparr>))
       | _ \<Rightarrow> None))"

section \<open>Records and their rows\<close>

lemma pyget_py_merge:
  "pyget (py_merge d e) k = (case map_of (rev e) k of None \<Rightarrow> pyget d k | Some v \<Rightarrow> v)"
  by (induction e arbitrary: d)
    (auto simp: py_merge_def pyget_py_set map_add_def simp del: pyget.simps split: option.splits)

lemma map_of_py_set: "map_of (py_set k v d) k' = (if k' = k then Some v else map_of d k')"
  by (simp add: py_set_def update_conv')

lemma counters_record: "counters (record_of c) =
  (if cc_up c < 0 \<or> max_int < cc_up c \<or> cc_down c < 0 \<or> max_int < cc_down c
   then Inl (CoreError ''Invalid core counters'' 422) else Inr (cc_up c, cc_down c))"
proof -
  have "pyget (record_of c) ''traffic'' = PDict [(''up'', PInt (cc_up c)), (''down'', PInt (cc_down c))]"
    by (simp add: record_of_def pyget_py_merge del: pyget.simps)
  then show ?thesis by (simp add: counters_def py_or_def py_field_def pyget_or_def)
qed

lemma record_field:
  "k \<notin> {''inboundIds'', ''traffic''} \<Longrightarrow> pyget (record_of c) k = pyget (body_of c) k"
  by (auto simp: record_of_def pyget_py_merge simp del: pyget.simps)

end
