(* ===== verification/Manager_Rules.thy ===== *)
theory Manager_Rules
  imports Panel
begin

text \<open>
  The rules of the Manager (backend/manager.py): the client fields it accepts, the inbounds and
  transports a client may use, group names, and the calendar of the periodic traffic resets.
\<close>

section \<open>Texts\<close>

definition lower_char :: "char \<Rightarrow> char" where
  "lower_char c =
     (case map_of (zip ''ABCDEFGHIJKLMNOPQRSTUVWXYZ'' ''abcdefghijklmnopqrstuvwxyz'') c of None \<Rightarrow> c | Some d \<Rightarrow> d)"

definition lower :: "string \<Rightarrow> string" where
  "lower s = map lower_char s"

text \<open>
  \<open>EMAIL_RE.fullmatch(str(v))\<close>: the text of a number, a truth value or \<open>None\<close> consists of name
  characters, the text of a container contains a bracket.
\<close>

fun email_like :: "pyval \<Rightarrow> bool" where
  "email_like (PStr s) = valid_name s"
| "email_like (PInt i) = valid_name (show_int i)"
| "email_like (PList _) = False"
| "email_like (PDict _) = False"
| "email_like _ = True"

text \<open>\<open>int(text, 16)\<close> and \<open>uuid.UUID(text)\<close>.\<close>

definition hex_groups :: "string \<Rightarrow> bool" where
  "hex_groups t =
     (let gs = split_on CHR ''_'' t
      in list_all (\<lambda>g. g \<noteq> []) gs \<and> number_from 16 hex_digit_of 0 (concat gs) \<noteq> None)"

definition hex_prefixed :: "string \<Rightarrow> bool" where
  "hex_prefixed t =
     (case t of
        a # x # u \<Rightarrow>
          if a = CHR ''0'' \<and> x \<in> {CHR ''x'', CHR ''X''}
          then hex_groups (case u of c # v \<Rightarrow> if c = CHR ''_'' then v else u | [] \<Rightarrow> u) else hex_groups t
      | _ \<Rightarrow> hex_groups t)"

definition base16_text :: "string \<Rightarrow> bool" where
  "base16_text s =
     (case strip s of
        [] \<Rightarrow> False
      | c # t \<Rightarrow> if c \<in> {CHR ''-'', CHR ''+''} then hex_prefixed t else hex_prefixed (c # t))"

fun remove_text :: "string \<Rightarrow> string \<Rightarrow> string" where
  "remove_text p [] = []"
| "remove_text p (c # s) =
     (if p \<noteq> [] \<and> prefix p (c # s) then remove_text p (drop (length p - 1) s) else c # remove_text p s)"

definition brace :: "char \<Rightarrow> bool" where
  "brace c \<longleftrightarrow> c = CHR ''{'' \<or> c = CHR ''}''"

definition uuid_text :: "string \<Rightarrow> bool" where
  "uuid_text s =
     (let t = remove_text ''uuid:'' (remove_text ''urn:'' s);
          u = rev (dropWhile brace (rev (dropWhile brace t)));
          v = filter (\<lambda>c. c \<noteq> CHR ''-'') u
      in length v = 32 \<and> base16_text v)"

section \<open>Fields of a client\<close>

definition client_keys :: "string list" where
  "client_keys = [''id'', ''password'', ''auth'', ''flow'', ''security'', ''reverse'', ''limitIp'', ''limitHwid'',
     ''totalGB'', ''expiryTime'', ''enable'', ''tgId'', ''subId'', ''group'', ''comment'', ''reset'', ''resetDay'',
     ''resetCount'', ''resetTraffic'', ''resetTrafficDay'', ''encryption'']"

definition check_field :: "dict \<Rightarrow> (pyval \<Rightarrow> unit res) \<Rightarrow> string \<Rightarrow> unit res" where
  "check_field d f k = (case map_of d k of None \<Rightarrow> Inr () | Some v \<Rightarrow> f v)"

definition in_range :: "int \<Rightarrow> int \<Rightarrow> pyval \<Rightarrow> unit res" where
  "in_range lo hi v = rbind (integer v lo hi) (\<lambda>_. Inr ())"

definition text_field :: "pyval \<Rightarrow> unit res" where
  "text_field v = (case v of PStr s \<Rightarrow> ensure (length s \<le> 4096) (PolicyError ''Invalid field'') | _ \<Rightarrow> bad ''Invalid field'')"

fun check_fields :: "dict \<Rightarrow> (pyval \<Rightarrow> unit res) \<Rightarrow> string list \<Rightarrow> unit res" where
  "check_fields d f [] = Inr ()"
| "check_fields d f (k # ks) = rbind (check_field d f k) (\<lambda>_. check_fields d f ks)"

definition reset_mode :: "pyval \<Rightarrow> unit res" where
  "reset_mode v =
     (case v of
        PStr s \<Rightarrow> ensure (s \<in> {[], ''never'', ''hourly'', ''daily'', ''weekly'', ''monthly''})
          (PolicyError ''resetTraffic must be never, hourly, daily, weekly or monthly'')
      | _ \<Rightarrow> bad ''resetTraffic must be never, hourly, daily, weekly or monthly'')"

definition named_mode :: "dict \<Rightarrow> dict" where
  "named_mode d =
     (case map_of d ''resetTraffic'' of None \<Rightarrow> d
      | Some v \<Rightarrow> py_set ''resetTraffic'' (py_or v (PStr ''never'')) d)"

definition number_at :: "dict \<Rightarrow> string \<Rightarrow> int res" where
  "number_at d k = py_int (py_or (pyget d k) (PInt 0))"

definition check_reset_rule :: "dict \<Rightarrow> unit res" where
  "check_reset_rule d =
     (let mode = pyget_or d ''resetTraffic'' (PStr ''never'') in
      rbind (number_at d ''reset'') (\<lambda>days.
      rbind (number_at d ''resetTrafficDay'') (\<lambda>day'.
      rbind (ensure (\<not> (mode \<noteq> PStr ''never'' \<and> days \<noteq> 0))
               (PolicyError ''Choose either a calendar traffic reset or a custom day interval, not both'')) (\<lambda>_.
      rbind (ensure (\<not> (mode = PStr ''monthly'' \<and> \<not> (1 \<le> day' \<and> day' \<le> 31)))
               (PolicyError ''Monthly traffic reset requires resetTrafficDay from 1 to 31'')) (\<lambda>_.
      ensure (\<not> (mode \<noteq> PStr ''monthly'' \<and> day' \<noteq> 0))
        (PolicyError ''resetTrafficDay is only valid for monthly traffic reset''))))))"

definition check_numbers :: "dict \<Rightarrow> unit res" where
  "check_numbers d =
     rbind (check_fields d (in_range 0 1000) [''limitIp'', ''limitHwid'']) (\<lambda>_.
     rbind (check_fields d (in_range 0 max_int) [''totalGB'', ''tgId'', ''reset'']) (\<lambda>_.
     rbind (check_field d (in_range 0 3650) ''reset'') (\<lambda>_.
     rbind (check_field d (in_range 0 100000) ''resetCount'') (\<lambda>_.
     rbind (ensure (\<not> truthy (pyget d ''resetDay''))
              (PolicyError ''Legacy resetDay is not used by DARK; use resetTrafficDay for monthly traffic reset'')) (\<lambda>_.
     rbind (check_field d reset_mode ''resetTraffic'') (\<lambda>_.
     check_field d (in_range 0 31) ''resetTrafficDay''))))))"

definition check_texts :: "dict \<Rightarrow> unit res" where
  "check_texts d =
     rbind (check_field d (\<lambda>v. case v of PInt i \<Rightarrow> ensure (0 \<le> i \<and> i \<le> max_int) (PolicyError ''Invalid expiryTime'')
              | _ \<Rightarrow> bad ''Invalid expiryTime'') ''expiryTime'') (\<lambda>_.
     rbind (check_field d (\<lambda>v. case v of PBool b \<Rightarrow> Inr () | _ \<Rightarrow> bad ''enable must be boolean'') ''enable'') (\<lambda>_.
     rbind (check_fields d text_field
              [''id'', ''password'', ''auth'', ''subId'', ''flow'', ''security'', ''group'', ''comment'', ''encryption'']) (\<lambda>_.
     rbind (check_field d (\<lambda>v. ensure (v \<in> PStr ` {[], ''xtls-rprx-vision'', ''xtls-rprx-vision-udp443''})
              (PolicyError ''Unknown flow'')) ''flow'') (\<lambda>_.
     check_field d (\<lambda>v. case v of PStr s \<Rightarrow> ensure (s = [] \<or> uuid_text s) (PolicyError ''Invalid UUID'') | _ \<Rightarrow> Inr ()) ''id''))))"

definition validate_client :: "bool \<Rightarrow> pyval \<Rightarrow> dict res" where
  "validate_client partial v =
     (case v of
        PDict d \<Rightarrow>
          if \<not> set (map fst d) \<subseteq> insert ''email'' (set client_keys) then bad ''Unknown client field''
          else
          rbind (check_numbers d) (\<lambda>_.
          let out = named_mode d in
          rbind (check_reset_rule out) (\<lambda>_.
          rbind (check_texts out) (\<lambda>_.
          rbind (ensure (partial \<or> email_like (pyget_or out ''email'' (PStr [])))
                   (PolicyError ''Invalid email/identity'')) (\<lambda>_.
          Inr out))))
      | _ \<Rightarrow> bad ''Unknown client field'')"

section \<open>Inbounds and transports\<close>

definition profile_of :: "string \<Rightarrow> panel \<Rightarrow> profile_row res" where
  "profile_of ow p =
     (case lookup pf_id ow (pa_profiles p) of None \<Rightarrow> bad ''Owner profile not configured'' | Some r \<Rightarrow> Inr r)"

definition managed_protocols :: "string list" where
  "managed_protocols = [''vless'', ''vmess'', ''trojan'', ''shadowsocks'', ''socks'', ''http'']"

definition positive_ids :: "pyval list \<Rightarrow> int list option" where
  "positive_ids xs =
     (if list_all (\<lambda>x. case x of PInt i \<Rightarrow> 1 \<le> i | _ \<Rightarrow> False) xs
      then Some (map (\<lambda>x. case x of PInt i \<Rightarrow> i | _ \<Rightarrow> 0) xs) else None)"

definition check_inbounds :: "string \<Rightarrow> pyval list \<Rightarrow> panel \<Rightarrow> int list res" where
  "check_inbounds ow ids p =
     (case positive_ids ids of
        None \<Rightarrow> bad ''Select 1..256 valid inbound IDs''
      | Some xs \<Rightarrow>
     rbind (ensure (xs \<noteq> [] \<and> length xs \<le> 256) (PolicyError ''Select 1..256 valid inbound IDs'')) (\<lambda>_.
     rbind (ensure (distinct xs) (PolicyError ''Duplicate inbound IDs'')) (\<lambda>_.
     rbind (profile_of ow p) (\<lambda>pf.
     rbind (ensure (set xs \<subseteq> set (pf_allowed pf)) (PermissionDenied ''Inbound is outside the client owner assignment'')) (\<lambda>_.
     rbind (ensure (set xs \<subseteq> set (map fst (pa_inbounds p))) (PolicyError ''Inbound no longer exists'')) (\<lambda>_.
     rbind (ensure (\<forall>i \<in> set xs. case map_of (inbounds p) i of None \<Rightarrow> False
                      | Some b \<Rightarrow> pyget b ''protocol'' \<in> set (map PStr managed_protocols))
              (PolicyError ''Managed clients require credential-bearing inbounds'')) (\<lambda>_.
     Inr xs)))))))"

text \<open>Vision needs a VLESS inbound on plain TCP with TLS or REALITY.\<close>

definition vision_unfit :: "dict \<Rightarrow> bool res" where
  "vision_unfit b =
     (if pyget b ''protocol'' \<noteq> PStr ''vless'' then Inr False
      else
      let st = pyget_or b ''streamSettings'' (PDict []) in
      rbind (py_field st ''network'' (PStr ''tcp'')) (\<lambda>n.
      rbind (py_field st ''security'' (PStr ''none'')) (\<lambda>s.
      Inr (n \<notin> {PStr ''tcp'', PStr ''raw''} \<or> s \<notin> {PStr ''tls'', PStr ''reality''}))))"

definition validate_transport :: "dict \<Rightarrow> int list \<Rightarrow> panel \<Rightarrow> unit res" where
  "validate_transport client ids p =
     (if \<not> truthy (pyget client ''flow'') then Inr ()
      else
      let known = filter (\<lambda>b. b \<noteq> None) (map (\<lambda>i. map_of (inbounds p) i) ids) in
      rbind (map_res (\<lambda>b. vision_unfit (the b)) known) (\<lambda>unfit.
      ensure (\<not> list_ex (\<lambda>b. b) unfit)
        (PolicyError ''XTLS Vision flow is only valid on VLESS TCP/RAW with TLS/REALITY; incompatible inbound(s)'')))"

text \<open>\<open>_group_name\<close>.\<close>

definition group_name :: "pyval \<Rightarrow> string res" where
  "group_name v =
     (case v of
        PStr s \<Rightarrow>
          let t = strip s in
          if 1 \<le> length t \<and> length t \<le> 64
             \<and> \<not> list_ex (\<lambda>c. (of_char c :: nat) < 32 \<or> c = CHR ''/'' \<or> (of_char c :: nat) = 92) t
          then Inr t else bad ''Invalid group name''
      | _ \<Rightarrow> bad ''Invalid group name'')"

text \<open>The limits of the owner's profile.\<close>

definition check_ceilings :: "string \<Rightarrow> string \<Rightarrow> profile_row \<Rightarrow> dict \<Rightarrow> unit res" where
  "check_ceilings ip_message hwid_message pf d =
     rbind (if pf_ips pf = 0 then Inr ()
            else rbind (number_at d ''limitIp'') (\<lambda>ips.
                 rbind (ensure (ips \<le> pf_ips pf) (PolicyError ip_message)) (\<lambda>_.
                 if ips \<noteq> 0 then Inr ()
                 else rbind (number_at d ''totalGB'') (\<lambda>quota.
                      ensure (quota \<noteq> 0)
                        (PolicyError ''Unlimited IP is only available to volumetric services under this reseller policy''))))) (\<lambda>_.
     if pf_hwid pf = 0 then Inr ()
     else rbind (number_at d ''limitHwid'') (\<lambda>hwid.
          ensure (hwid \<noteq> 0 \<and> hwid \<le> pf_hwid pf) (PolicyError hwid_message)))"

section \<open>The calendar of resets\<close>

text \<open>\<open>_schedule_spec\<close>: mode, days and day of the month. A mode that is no text is no known mode.\<close>

definition schedule_spec :: "dict \<Rightarrow> (string \<times> int \<times> int) option res" where
  "schedule_spec d =
     (let mode = (case py_or (pyget_or d ''resetTraffic'' (PStr ''never'')) (PStr ''never'') of PStr s \<Rightarrow> s | _ \<Rightarrow> ''?'') in
      rbind (number_at d ''reset'') (\<lambda>days.
      rbind (number_at d ''resetTrafficDay'') (\<lambda>day'.
      Inr (if mode = ''never'' then (if days \<noteq> 0 then Some (''interval'', days, 0) else None) else Some (mode, 0, day')))))"

definition leap :: "int \<Rightarrow> bool" where
  "leap y \<longleftrightarrow> 4 dvd y \<and> (\<not> 100 dvd y \<or> 400 dvd y)"

definition month_length :: "int \<Rightarrow> int \<Rightarrow> int" where
  "month_length y m = (if m = 2 then (if leap y then 29 else 28) else if m \<in> {4, 6, 9, 11} then 30 else 31)"

definition next_month :: "int \<times> int \<Rightarrow> int \<times> int" where
  "next_month ym = (case ym of (y, m) \<Rightarrow> if m + 1 > 12 then (y + 1, 1) else (y, m + 1))"

fun monthly_loop :: "world \<Rightarrow> int \<Rightarrow> real \<Rightarrow> nat \<Rightarrow> int \<times> int \<Rightarrow> real res" where
  "monthly_loop w d now 0 ym = bad ''Could not calculate next monthly traffic reset''"
| "monthly_loop w d now (Suc n) ym =
     (let target = min (max 1 d) (month_length (fst ym) (snd ym));
          candidate = wo_midnight w (fst ym) (snd ym) target
      in if now < candidate then Inr candidate else monthly_loop w d now n (next_month ym))"

definition monthly_next_at :: "world \<Rightarrow> int \<Rightarrow> real \<Rightarrow> real res" where
  "monthly_next_at w d now = monthly_loop w d now 14 (wo_month w now)"

definition period_seconds :: "string \<Rightarrow> int \<Rightarrow> int" where
  "period_seconds mode days =
     (if mode = ''hourly'' then 3600 else if mode = ''daily'' then 86400 else if mode = ''weekly'' then 604800
      else if mode = ''interval'' then days * 86400 else 0)"

definition initial_cycle_at :: "world \<Rightarrow> string \<Rightarrow> int \<Rightarrow> int \<Rightarrow> real \<Rightarrow> real res" where
  "initial_cycle_at w mode days d now =
     (if mode = ''monthly'' then monthly_next_at w d now
      else let period = period_seconds mode days in
           if period \<le> 0 then bad ''Invalid traffic reset schedule'' else Inr (now + of_int period))"

text \<open>The next deadline after a reset at \<open>now\<close>: the missed periods collapse into it.\<close>

definition following_cycle :: "world \<Rightarrow> cycle_row \<Rightarrow> real \<Rightarrow> real res" where
  "following_cycle w r now =
     (if cy_mode r = ''monthly'' then monthly_next_at w (cy_day r) now
      else let period = period_seconds (cy_mode r) (cy_days r) in
           if period \<le> 0 then bad ''Invalid persisted traffic reset schedule''
           else Inr (cy_next r + of_int ((\<lfloor>(now - cy_next r) / of_int period\<rfloor> + 1) * period)))"

end
