(* ===== verification/Manager_Sync.thy ===== *)
theory Manager_Sync
  imports Manager_Rules
begin

text \<open>
  The reconciliation of the managed clients with the core (backend/manager.py,
  \<open>_charge_snapshot\<close>, \<open>_apply\<close>, the reset schedule, \<open>manager_tick\<close> and the reconciliation of one client or
  of a created batch). The Manager's lock is held during each operation, so an operation is one
  step; other threads act on the database only while a request to a node is in flight.
\<close>

section \<open>Rows\<close>

definition system_actor :: actor where
  "system_actor = \<lparr>a_id = ''_dark_system'', a_role = ''owner'', a_permissions = []\<rparr>"

definition audit :: "world \<Rightarrow> actor \<Rightarrow> string \<Rightarrow> string \<Rightarrow> string \<Rightarrow> string \<Rightarrow> (panel, unit) effect" where
  "audit w act ow action target detail =
     alter (\<lambda>p. p\<lparr>pa_audit := pa_audit p @ [\<lparr>au_actor = a_id act, au_owner = ow, au_action = action,
       au_target = target, au_detail = take 500 detail, au_at = clock w p\<rparr>]\<rparr>)"

definition get_meta :: "string \<Rightarrow> panel \<Rightarrow> managed_row res" where
  "get_meta c p = (case managed_of c p of None \<Rightarrow> bad ''Managed metadata missing'' | Some m \<Rightarrow> Inr m)"

definition live_metas :: "panel \<Rightarrow> managed_row list" where
  "live_metas p = filter (\<lambda>m. mc_state m \<noteq> ''deleted'') (hb_managed (pa_hub p))"

text \<open>The parsed columns \<open>desired\<close> (an object) and \<open>inbounds\<close> (a list of numbers).\<close>

definition wish :: "managed_row \<Rightarrow> dict res" where
  "wish m = (case mc_desired m of Some (PDict d) \<Rightarrow> Inr d | _ \<Rightarrow> Inl (OtherError ''ValueError''))"

definition stored_ids :: "managed_row \<Rightarrow> int list res" where
  "stored_ids m =
     (case mc_inbounds m of
        Some (PList xs) \<Rightarrow>
          map_res (\<lambda>x. case x of PInt i \<Rightarrow> Inr i | _ \<Rightarrow> Inl (OtherError ''ValueError'')) xs
      | _ \<Rightarrow> Inl (OtherError ''ValueError''))"

definition fresh_token :: "world \<Rightarrow> (panel, string) effect" where
  "fresh_token w p = (p\<lparr>pa_step := Suc (pa_step p)\<rparr>, Inr (token w p))"

definition core_or_policy :: "err \<Rightarrow> bool" where
  "core_or_policy ex \<longleftrightarrow> is_policy_error ex \<or> (case ex of CoreError _ _ \<Rightarrow> True | _ \<Rightarrow> False)"

definition allowed_now :: "world \<Rightarrow> managed_row \<Rightarrow> panel \<Rightarrow> bool" where
  "allowed_now w m p \<longleftrightarrow> client_reasons (mc_email m) (clock w p) (store_of p) = [] \<and> \<not> mc_external m"

section \<open>Metering the local core\<close>

definition counter_growth :: "int \<Rightarrow> int \<Rightarrow> int" where
  "counter_growth old new = (if old \<le> new then new - old else new)"

definition ledger_id :: "world \<Rightarrow> string \<Rightarrow> int \<Rightarrow> string" where
  "ledger_id w c seq = ''engine:'' @ take 20 (wo_sha w c) @ '':'' @ show_int seq"

definition charge_ledger ::
  "world \<Rightarrow> string \<Rightarrow> client_row \<Rightarrow> int \<Rightarrow> int \<Rightarrow> int \<Rightarrow> panel \<Rightarrow> panel res" where
  "charge_ledger w c u seq du dd p =
     (if du = 0 \<and> dd = 0 then Inr p
      else if max_int < du + dd then bad ''Counter overflow''
      else case owner_of (cl_owner u) (store_of p) of
        None \<Rightarrow> Inl (OtherError ''TypeError'')
      | Some r \<Rightarrow>
          rbind (insert_pk tr_event_id
            \<lparr>tr_event_id = ledger_id w c seq, tr_owner = cl_owner u, tr_client_id = c, tr_period = ow_period r,
             tr_up = du, tr_down = dd, tr_observed_at = clock w p\<rparr> (st_traffic (store_of p))) (\<lambda>t.
          Inr (set_store ((store_of p)\<lparr>st_traffic := t\<rparr>) p)))"

definition write_used :: "string \<Rightarrow> int \<Rightarrow> panel \<Rightarrow> panel" where
  "write_used c n p =
     set_store ((store_of p)\<lparr>st_clients := modify cl_id c (\<lambda>x. x\<lparr>cl_used_bytes := n\<rparr>) (st_clients (store_of p))\<rparr>) p"

text \<open>The ledger row, the policy meter and the local baseline advance in one transaction.\<close>

definition charge_write :: "world \<Rightarrow> managed_row \<Rightarrow> int \<Rightarrow> int \<Rightarrow> panel \<Rightarrow> (panel \<times> unit) res" where
  "charge_write w m up down p =
     (let c = mc_email m; du = counter_growth (mc_last_up m) up; dd = counter_growth (mc_last_down m) down;
          seq = mc_seq m + 1; total = up + down + remote_usage c (pa_hub p)
      in case client_of c (store_of p) of
           None \<Rightarrow> Inr (p, ())
         | Some u \<Rightarrow>
             rbind (charge_ledger w c u seq du dd p) (\<lambda>p1.
             let p2 = (if total \<noteq> cl_used_bytes u then write_used c total p1 else p1);
                 p3 = (if up \<noteq> mc_last_up m \<or> down \<noteq> mc_last_down m \<or> \<not> mc_initialized m
                       then set_managed (modify mc_email c (\<lambda>r. r\<lparr>mc_last_up := up, mc_last_down := down,
                              mc_initialized := True, mc_seq := seq\<rparr>)) p2
                       else p2)
             in Inr (p3, ())))"

definition charge_snapshot :: "world \<Rightarrow> managed_row \<Rightarrow> dict \<Rightarrow> (panel, unit) effect" where
  "charge_snapshot w m r p =
     (let c = mc_email m in
      case counters r of
        Inl ex \<Rightarrow> (p, Inl ex)
      | Inr (up, down) \<Rightarrow>
      if max_int < up + down then (p, bad ''Counter overflow'')
      else if pyget r ''traffic'' = PNone \<and> (mc_last_up m \<noteq> 0 \<or> mc_last_down m \<noteq> 0)
      then (p, Inl (CoreError ''Missing engine traffic for a previously metered client; refusing to erase its baseline'' 422))
      else
      (case client_of c (store_of p) of
        None \<Rightarrow> (p, Inr ())
      | Some u \<Rightarrow>
          let remote = remote_usage c (pa_hub p); total = up + down + remote;
              moved = (up \<noteq> mc_last_up m \<or> down \<noteq> mc_last_down m \<or> \<not> mc_initialized m);
              decreased = (up < mc_last_up m \<or> down < mc_last_down m)
          in
          if max_int < remote then (p, Inl (OtherError ''OperationalError''))
          else if max_int < total then (p, bad ''Global client traffic counter overflow'')
          else if \<not> (moved \<or> counter_growth (mc_last_up m) up \<noteq> 0 \<or> counter_growth (mc_last_down m) down \<noteq> 0
                      \<or> total \<noteq> cl_used_bytes u) then (p, Inr ())
          else ebind (transaction (charge_write w m up down)) (\<lambda>_.
               when_so decreased (audit w system_actor (cl_owner u) ''counter.reset_observed'' c
                 ''Ledger preserved; traffic lost between polling observations cannot be reconstructed'')) p))"

section \<open>Periodic resets\<close>

definition schedule_change :: "world \<Rightarrow> real \<Rightarrow> managed_row \<Rightarrow> panel \<Rightarrow> panel res" where
  "schedule_change w now m p =
     (let c = mc_email m in
      rbind (wish m) (\<lambda>d.
      rbind (schedule_spec d) (\<lambda>spec.
      case spec of
        None \<Rightarrow> Inr (p\<lparr>pa_cycles := remove_key cy_email c (pa_cycles p)\<rparr>)
      | Some (mode, days, day') \<Rightarrow>
          rbind (number_at d ''resetCount'') (\<lambda>cap.
          let row = lookup cy_email c (pa_cycles p);
              same = (case row of None \<Rightarrow> False | Some r \<Rightarrow> cy_mode r = mode \<and> cy_days r = days \<and> cy_day r = day')
          in
          if \<not> same then
            rbind (initial_cycle_at w mode days day' now) (\<lambda>due.
            Inr (p\<lparr>pa_cycles := upsert cy_email
                  \<lparr>cy_email = c, cy_days = days, cy_next = due, cy_completed = 0, cy_max = cap, cy_mode = mode, cy_day = day'\<rparr>
                  (\<lambda>r. r\<lparr>cy_days := days, cy_next := due, cy_completed := 0, cy_max := cap, cy_mode := mode, cy_day := day'\<rparr>)
                  (pa_cycles p)\<rparr>))
          else
          let r = the row;
              p1 = p\<lparr>pa_cycles := modify cy_email c (\<lambda>r. r\<lparr>cy_max := cap\<rparr>) (pa_cycles p)\<rparr>
          in
          if cap \<noteq> 0 \<and> cap \<le> cy_completed r then Inr p1
          else if cy_next r \<le> now \<and> mc_op m = ''none'' \<and> mc_state m = ''applied'' then
            (case fresh_token w p1 of (p2, _) \<Rightarrow>
               Inr (set_managed (modify mc_email c (\<lambda>x. x\<lparr>mc_op := ''reset'', mc_op_id := token w p1, mc_state := ''pending'',
                 mc_retry := 0, mc_attempts := 0, mc_error := []\<rparr>)) p2))
          else Inr p1))))"

fun schedule_all :: "world \<Rightarrow> real \<Rightarrow> managed_row list \<Rightarrow> panel \<Rightarrow> (panel \<times> unit) res" where
  "schedule_all w now [] p = Inr (p, ())"
| "schedule_all w now (m # ms) p = rbind (schedule_change w now m p) (schedule_all w now ms)"

definition schedule_cycles :: "world \<Rightarrow> string list option \<Rightarrow> (panel, unit) effect" where
  "schedule_cycles w emails p =
     (if emails = Some [] then (p, Inr ())
      else let metas = filter (\<lambda>m. case emails of None \<Rightarrow> True | Some es \<Rightarrow> mc_email m \<in> set es) (live_metas p)
           in transaction (schedule_all w (clock w p) metas) p)"

definition complete_cycle :: "world \<Rightarrow> string \<Rightarrow> (panel, unit) effect" where
  "complete_cycle w c =
     transaction (\<lambda>p.
       case lookup cy_email c (pa_cycles p) of
         None \<Rightarrow> Inr (p, ())
       | Some r \<Rightarrow>
           if clock w p < cy_next r then Inr (p, ())
           else rbind (following_cycle w r (clock w p)) (\<lambda>due.
                Inr (p\<lparr>pa_cycles := modify cy_email c
                       (\<lambda>r. r\<lparr>cy_next := due, cy_completed := cy_completed r + 1\<rparr>) (pa_cycles p)\<rparr>, ())))"

section \<open>One operation\<close>

text \<open>The hook to the Hub: the client's counters on every node are captured and zeroed.\<close>

definition remote_reset :: "world \<Rightarrow> string \<Rightarrow> string \<Rightarrow> (panel, unit) effect" where
  "remote_reset w c rid p =
     (case wo_links w of
        None \<Rightarrow> (p, Inr ())
      | Some lk \<Rightarrow>
          (case reset_client_traffic (wo_sha w) c (PStr rid) (lk (pa_step p)) (pa_hub p) of
             (h, r) \<Rightarrow> (p\<lparr>pa_hub := h, pa_step := Suc (pa_step p)\<rparr>,
                         case r of Inl ex \<Rightarrow> Inl ex | Inr _ \<Rightarrow> Inr ())))"

definition reset_identity :: "world \<Rightarrow> string \<Rightarrow> managed_row \<Rightarrow> string" where
  "reset_identity w kind m =
     (if mc_op_id m \<noteq> [] then mc_op_id m
      else kind @ take 24 (wo_sha w (mc_email m @ wo_text w (mc_updated m))))"

definition settled :: "world \<Rightarrow> panel \<Rightarrow> managed_row \<Rightarrow> managed_row" where
  "settled w p m = m\<lparr>mc_op := ''none'', mc_op_id := [], mc_state := ''applied'', mc_error := [], mc_retry := 0,
     mc_attempts := 0, mc_updated := clock w p\<rparr>"

definition finish_operation :: "world \<Rightarrow> string \<Rightarrow> (panel, unit) effect" where
  "finish_operation w c = alter (\<lambda>p. set_managed (modify mc_email c (settled w p)) p)"

definition charge_final :: "world \<Rightarrow> string \<Rightarrow> dict option \<Rightarrow> (panel, unit) effect" where
  "charge_final w c final p =
     (case final of
        None \<Rightarrow> (p, Inr ())
      | Some r \<Rightarrow> (case get_meta c p of Inl ex \<Rightarrow> (p, Inl ex) | Inr m \<Rightarrow> charge_snapshot w m r p))"

definition bury :: "world \<Rightarrow> string \<Rightarrow> panel \<Rightarrow> panel" where
  "bury w c p =
     set_managed (modify mc_email c (\<lambda>m. (settled w p m)\<lparr>mc_state := ''deleted'', mc_desired := Some (PDict [])\<rparr>))
       (p\<lparr>pa_cycles := remove_key cy_email c (pa_cycles p)\<rparr>)"

definition refuse_other :: "pyval \<Rightarrow> dict \<Rightarrow> string \<Rightarrow> unit res" where
  "refuse_other sub r message = ensure (pyget r ''subId'' = sub) (CoreError message 409)"

definition apply_delete :: "world \<Rightarrow> managed_row \<Rightarrow> pyval \<Rightarrow> dict option \<Rightarrow> (panel, unit) effect" where
  "apply_delete w m sub existing =
     (let c = mc_email m in
      ebind (remote_reset w c (reset_identity w ''legacy-delete-'' m)) (\<lambda>_.
      ebind (case existing of
               Some r \<Rightarrow> ebind (of_res (refuse_other sub r ''Identity conflict: refusing to delete a different engine client'')) (\<lambda>_.
                         core_delete w c)
             | None \<Rightarrow> (\<lambda>p. case deleted_snapshot c p of
                          None \<Rightarrow> (p, Inr None)
                        | Some r \<Rightarrow> (p, rbind (refuse_other sub r ''Deleted core snapshot identity conflict; refusing recovery'')
                                          (\<lambda>_. Inr (Some r))))) (\<lambda>final.
      ebind (charge_final w c final) (\<lambda>_.
      ebind (\<lambda>p. if client_of c (store_of p) = None then (p, Inr ())
                 else on_store (delete_client system_actor c) p) (\<lambda>_.
      alter (bury w c))))))"

definition zero_usage :: "string \<Rightarrow> panel \<Rightarrow> panel" where
  "zero_usage c p =
     (let p1 = set_managed (modify mc_email c (\<lambda>m. m\<lparr>mc_last_up := 0, mc_last_down := 0\<rparr>)) (write_used c 0 p)
      in p1\<lparr>pa_hub := (pa_hub p1)\<lparr>hb_usage :=
           update_where (\<lambda>u. nu_client u = c) (\<lambda>u. u\<lparr>nu_up := 0, nu_down := 0\<rparr>) (hb_usage (pa_hub p1))\<rparr>\<rparr>)"

definition apply_reset :: "world \<Rightarrow> managed_row \<Rightarrow> dict option \<Rightarrow> (panel, unit) effect" where
  "apply_reset w m existing =
     (let c = mc_email m in
      ebind (require_that (\<lambda>_. existing \<noteq> None) (CoreError ''CoreEngine client missing; reset refused'' 409)) (\<lambda>_.
      ebind (mark_row c (\<lambda>m. m\<lparr>mc_state := ''reset_inflight''\<rparr>)) (\<lambda>_.
      ebind (remote_reset w c (reset_identity w ''legacy-'' m)) (\<lambda>_.
      ebind (core_reset w c) (\<lambda>final.
      ebind (charge_final w c final) (\<lambda>_.
      ebind (alter (zero_usage c)) (\<lambda>_.
      complete_cycle w c)))))))"

definition record_ids :: "dict \<Rightarrow> int list" where
  "record_ids r = (case pyget r ''inboundIds'' of PList xs \<Rightarrow> map (\<lambda>x. case x of PInt i \<Rightarrow> i | _ \<Rightarrow> 0) xs | _ \<Rightarrow> [])"

definition missing_from :: "int list \<Rightarrow> int list \<Rightarrow> int list" where
  "missing_from xs ys = sort (remdups (filter (\<lambda>i. i \<notin> set ys) xs))"

definition apply_upsert :: "world \<Rightarrow> managed_row \<Rightarrow> dict \<Rightarrow> int list \<Rightarrow> dict option \<Rightarrow> (panel, unit) effect" where
  "apply_upsert w m desired ids existing =
     (let c = mc_email m in
      ebind (peek (allowed_now w m)) (\<lambda>enabled.
      let d = py_set ''enable'' (PBool enabled) desired in
      ebind (case existing of
               None \<Rightarrow> core_create d ids
             | Some r \<Rightarrow>
                 ebind (of_res (refuse_other (pyget desired ''subId'') r
                   ''Identity conflict: engine subId changed; explicit re-adoption is required'')) (\<lambda>_.
                 ebind (core_update c d) (\<lambda>_.
                 let more = missing_from ids (record_ids r); less = missing_from (record_ids r) ids in
                 ebind (when_so (more \<noteq> []) (core_attach c more)) (\<lambda>_.
                 when_so (less \<noteq> []) (core_detach c less))))) (\<lambda>_.
      mark_row c (\<lambda>m. m\<lparr>mc_expected := Some enabled\<rparr>))))"

definition apply_operation :: "world \<Rightarrow> (string \<times> dict) list \<Rightarrow> managed_row \<Rightarrow> (panel, unit) effect" where
  "apply_operation w records m =
     (let c = mc_email m; existing = map_of records c in
      ebind (of_res (wish m)) (\<lambda>desired.
      ebind (of_res (stored_ids m)) (\<lambda>ids.
      if mc_op m = ''delete'' then apply_delete w m (pyget desired ''subId'') existing
      else ebind (if mc_op m = ''reset'' then apply_reset w m existing
                  else if mc_op m = ''upsert'' then apply_upsert w m desired ids existing
                  else return ()) (\<lambda>_.
           finish_operation w c))))"

section \<open>The tick\<close>

text \<open>First pass: meter what is ours, refuse what is not, and note what is gone.\<close>

definition identity_changed :: string where
  "identity_changed = ''CoreEngine identity changed; refusing to meter or modify another client''"

definition tick_meter :: "world \<Rightarrow> (string \<times> dict) list \<Rightarrow> managed_row \<Rightarrow> (panel, managed_row) effect" where
  "tick_meter w records m =
     (let c = mc_email m in
      case map_of records c of
        Some r \<Rightarrow>
          ebind (of_res (wish m)) (\<lambda>d.
          if pyget r ''subId'' \<noteq> pyget d ''subId''
          then ebind (mark_row c (\<lambda>x. x\<lparr>mc_state := ''conflict'', mc_error := identity_changed\<rparr>)) (\<lambda>_.
               return (m\<lparr>mc_state := ''conflict''\<rparr>))
          else ebind (charge_snapshot w m r) (\<lambda>_. return m))
      | None \<Rightarrow>
          if mc_op m = ''none''
          then ebind (mark_row c (\<lambda>x. x\<lparr>mc_state := ''missing'',
                       mc_error := ''CoreEngine client missing; automatic recreation refused''\<rparr>)) (\<lambda>_.
               return (m\<lparr>mc_state := ''missing''\<rparr>))
          else return m)"

text \<open>No exception of the program carries the \<open>uncertain\<close> flag, so a failure is never \<open>uncertain\<close> here.\<close>

definition mark_failure :: "world \<Rightarrow> managed_row \<Rightarrow> err \<Rightarrow> (panel, unit) effect" where
  "mark_failure w m ex =
     alter (\<lambda>p. set_managed (modify mc_email (mc_email m) (\<lambda>x. x\<lparr>
       mc_state := (case ex of CoreError _ status \<Rightarrow> if status = 409 then ''conflict'' else ''error'' | _ \<Rightarrow> ''error''),
       mc_error := take 400 (err_message ex), mc_attempts := mc_attempts m + 1,
       mc_retry := clock w p + min 300 (5 * 2 ^ nat (min (mc_attempts m + 1) 6))\<rparr>)) p)"

type_synonym pending = "managed_row \<times> bool \<times> upsert_item"

definition pending_item :: "world \<Rightarrow> (string \<times> dict) list \<Rightarrow> managed_row \<Rightarrow> panel \<Rightarrow> pending res" where
  "pending_item w records m p =
     rbind (wish m) (\<lambda>d.
     rbind (stored_ids m) (\<lambda>ids.
     rbind (case map_of records (mc_email m) of
              None \<Rightarrow> Inr ()
            | Some r \<Rightarrow> refuse_other (pyget d ''subId'') r
                ''Identity conflict: engine subId changed; explicit re-adoption is required'') (\<lambda>_.
     let enabled = allowed_now w m p in
     Inr (m, enabled, mc_email m, py_set ''enable'' (PBool enabled) d, ids))))"

definition attempted :: "world \<Rightarrow> managed_row \<Rightarrow> 'a \<Rightarrow> (panel, 'a) effect \<Rightarrow> (panel, 'a) effect" where
  "attempted w m failed body = catch_if core_or_policy body (\<lambda>ex. ebind (mark_failure w m ex) (\<lambda>_. return failed))"

definition skipped :: "world \<Rightarrow> managed_row \<Rightarrow> panel \<Rightarrow> bool" where
  "skipped w m p \<longleftrightarrow> mc_op m = ''none'' \<or> clock w p < mc_retry m \<or> mc_state m \<in> {''uncertain'', ''conflict''}
     \<or> \<not> eg_writes (pa_engine p)"

text \<open>Second pass: resets and deletions run one by one, upserts are gathered into a batch.\<close>

definition tick_pending ::
  "world \<Rightarrow> (string \<times> dict) list \<Rightarrow> managed_row \<Rightarrow> bool \<times> pending list \<Rightarrow> (panel, bool \<times> pending list) effect" where
  "tick_pending w records m acc p =
     (if skipped w m p then (p, Inr acc)
      else if mc_op m = ''upsert'' then
        (case pending_item w records m p of
           Inr item \<Rightarrow> (p, Inr (fst acc, snd acc @ [item]))
         | Inl ex \<Rightarrow>
             if core_or_policy ex \<or> ex \<in> {OtherError ''ValueError'', OtherError ''TypeError''}
             then ebind (mark_failure w m (if core_or_policy ex then ex else PolicyError ''Invalid pending client state''))
                    (\<lambda>_. return acc) p
             else (p, Inl ex))
      else attempted w m acc (ebind (apply_operation w records m) (\<lambda>_. return (True, snd acc))) p)"

definition finish_batch :: "world \<Rightarrow> pending list \<Rightarrow> panel \<Rightarrow> panel" where
  "finish_batch w batch p =
     set_managed (fold (\<lambda>(m, enabled, item). modify mc_email (mc_email m)
       (\<lambda>x. (settled w p x)\<lparr>mc_expected := Some enabled\<rparr>)) batch) p"

definition tick_batch :: "world \<Rightarrow> (string \<times> dict) list \<Rightarrow> bool \<Rightarrow> pending list \<Rightarrow> (panel, bool) effect" where
  "tick_batch w records changed batch =
     (if batch = [] then return changed
      else catch_if core_or_policy
        (ebind (upsert_many (map (\<lambda>(m, enabled, item). item) batch)) (\<lambda>_.
         ebind (alter (finish_batch w batch)) (\<lambda>_. return True)))
        (\<lambda>_. efold (\<lambda>(m, enabled, item) ch.
           attempted w m ch (ebind (apply_operation w records m) (\<lambda>_. return True))) batch changed))"

text \<open>Third pass: what the core shows of a settled client, against the policy.\<close>

definition remember :: "string \<Rightarrow> dict \<Rightarrow> (panel, unit) effect" where
  "remember c r = alter (\<lambda>p. p\<lparr>pa_snapshot := upsert fst (c, r) (\<lambda>_. (c, r)) (pa_snapshot p)\<rparr>)"

definition settle_quota :: "world \<Rightarrow> string \<Rightarrow> client_row option \<Rightarrow> int \<Rightarrow> dict \<Rightarrow> (panel, dict) effect" where
  "settle_quota w c row observed r =
     (case row of
        None \<Rightarrow> return r
      | Some u \<Rightarrow>
          if observed = cl_quota_bytes u then return r
          else catch_if is_policy_error
            (ebind (\<lambda>p. on_store (edit_client system_actor c PNone (PInt observed) PNone PNone (clock w p)) p) (\<lambda>_. return r))
            (\<lambda>ex. ebind (audit w system_actor (cl_owner u) ''resource_credit.external_quota_rejected'' c
                           (take 300 (err_message ex))) (\<lambda>_ p.
                  (if eg_writes (pa_engine p)
                   then ebind (core_update c (py_set ''totalGB'' (PInt (cl_quota_bytes u)) (writable r))) (\<lambda>_.
                        return (py_set ''totalGB'' (PInt (cl_quota_bytes u)) r)) p
                   else (p, Inr r)))))"

definition settle_expiry :: "string \<Rightarrow> client_row option \<Rightarrow> int \<Rightarrow> (panel, unit) effect" where
  "settle_expiry c row observed =
     when_so (case row of None \<Rightarrow> False | Some u \<Rightarrow> observed \<noteq> cl_expires_at u)
       (alter (\<lambda>p. set_store ((store_of p)\<lparr>st_clients :=
          modify cl_id c (\<lambda>x. x\<lparr>cl_expires_at := observed\<rparr>) (st_clients (store_of p))\<rparr>) p))"

definition seen_enabled :: "dict \<Rightarrow> bool" where
  "seen_enabled r = truthy (pyget r ''enable'')"

text \<open>A client that was disabled outside the panel stays disabled.\<close>

definition settle_enable :: "world \<Rightarrow> managed_row \<Rightarrow> dict \<Rightarrow> (panel, unit) effect" where
  "settle_enable w m r =
     (let c = mc_email m in
      ebind (peek (\<lambda>p. client_reasons c (clock w p) (store_of p))) (\<lambda>reasons.
      let found = (pyget r ''enable'' = PBool False \<and> mc_expected m = Some True \<and> reasons = []);
          external = (mc_external m \<or> found);
          enabled = (reasons = [] \<and> \<not> external)
      in
      ebind (when_so found (mark_row c (\<lambda>x. x\<lparr>mc_external := True\<rparr>))) (\<lambda>_.
      ebind (\<lambda>p. if seen_enabled r \<noteq> enabled \<and> eg_writes (pa_engine p)
                 then ebind (core_update c (py_set ''enable'' (PBool enabled) (writable r))) (\<lambda>_.
                      return (py_set ''enable'' (PBool enabled) r)) p
                 else (p, Inr r)) (\<lambda>r'.
      ebind (remember c r') (\<lambda>_.
      when_so (mc_expected m \<noteq> Some (seen_enabled r')) (mark_row c (\<lambda>x. x\<lparr>mc_expected := Some (seen_enabled r')\<rparr>)))))))"

definition observed_limits :: "dict \<Rightarrow> (int \<times> int) res" where
  "observed_limits r =
     rbind (py_int (pyget_or r ''totalGB'' (PInt 0))) (\<lambda>quota.
     rbind (py_int (pyget_or r ''expiryTime'' (PInt 0))) (\<lambda>expiry.
     Inr (quota, max 0 (expiry div 1000))))"

definition settle_client :: "world \<Rightarrow> managed_row \<Rightarrow> dict \<Rightarrow> (panel, unit) effect" where
  "settle_client w m r =
     (let c = mc_email m in
      ebind (when_so (mc_state m = ''missing'') (mark_row c (\<lambda>x. x\<lparr>mc_state := ''applied'', mc_error := []\<rparr>))) (\<lambda>_.
      ebind (\<lambda>p. (case get_meta c p of Inl ex \<Rightarrow> (p, Inl ex) | Inr x \<Rightarrow> charge_snapshot w x r p)) (\<lambda>_.
      ebind (of_res (observed_limits r)) (\<lambda>(quota, expiry).
      ebind (peek (\<lambda>p. client_of c (store_of p))) (\<lambda>row.
      ebind (settle_quota w c row quota r) (\<lambda>r'.
      ebind (settle_expiry c row expiry) (\<lambda>_.
      settle_enable w m r')))))))"

definition tick_settle :: "world \<Rightarrow> (string \<times> dict) list \<Rightarrow> managed_row \<Rightarrow> (panel, unit) effect" where
  "tick_settle w records m =
     (case map_of records (mc_email m) of
        None \<Rightarrow> return ()
      | Some r \<Rightarrow> if mc_op m \<noteq> ''none'' \<or> mc_state m \<in> {''conflict'', ''uncertain''} then return ()
                  else settle_client w m r)"

definition flush_core :: "world \<Rightarrow> (panel, unit) effect" where
  "flush_core w = core_op w (\<lambda>v e. (flush (wo_sha w) v e, Inr ()))"

definition polled :: "world \<Rightarrow> (panel, unit) effect" where
  "polled w = alter (\<lambda>p. p\<lparr>pa_last_poll := clock w p, pa_last_error := []\<rparr>)"

definition tick_rest :: "world \<Rightarrow> (string \<times> dict) list \<Rightarrow> managed_row list \<Rightarrow> (panel, unit) effect" where
  "tick_rest w rows metas =
     ebind (efold (tick_pending w rows) metas (False, [])) (\<lambda>(changed, batch).
     ebind (tick_batch w rows changed batch) (\<lambda>changed.
     ebind (if changed then clients w else return rows) (\<lambda>rows.
     ebind (if changed then peek live_metas else return metas) (\<lambda>metas.
     ebind (alter (\<lambda>p. p\<lparr>pa_snapshot := rows\<rparr>)) (\<lambda>_.
     ebind (efold (\<lambda>m _. tick_settle w rows m) metas ()) (\<lambda>_.
     ebind (flush_core w) (\<lambda>_. polled w)))))))"

definition tick_body :: "world \<Rightarrow> (panel, unit) effect" where
  "tick_body w =
     ebind (schedule_cycles w None) (\<lambda>_.
     ebind (clients w) (\<lambda>rows.
     ebind (peek live_metas) (\<lambda>metas.
     ebind (emap (tick_meter w rows) metas) (tick_rest w rows))))"

fun error_text :: "err \<Rightarrow> string" where
  "error_text (OtherError n) = n"
| "error_text (IntegrityError m) = ''IntegrityError''"
| "error_text (HttpError m s) = ''HTTPException''"
| "error_text ex = err_message ex"

definition manager_tick :: "world \<Rightarrow> bool \<Rightarrow> (panel, unit) effect" where
  "manager_tick w suppress p =
     (case tick_body w p of
        (q, Inr _) \<Rightarrow> (q, Inr ())
      | (q, Inl ex) \<Rightarrow> (q\<lparr>pa_last_error := take 400 (error_text ex)\<rparr>, if suppress then Inr () else Inl ex))"

section \<open>One client, or a created batch\<close>

definition traffic_of :: "dict option \<Rightarrow> pyval" where
  "traffic_of existing =
     (case existing of None \<Rightarrow> PDict [(''up'', PInt 0), (''down'', PInt 0)]
      | Some r \<Rightarrow> py_or (pyget r ''traffic'') (PDict [(''up'', PInt 0), (''down'', PInt 0)]))"

definition shown :: "dict \<Rightarrow> int list \<Rightarrow> pyval \<Rightarrow> dict" where
  "shown d ids traffic = py_merge (writable d) [(''inboundIds'', py_ints ids), (''traffic'', traffic)]"

definition meter_existing :: "world \<Rightarrow> managed_row \<Rightarrow> pyval \<Rightarrow> dict option \<Rightarrow> (panel, managed_row) effect" where
  "meter_existing w m sub existing =
     (case existing of
        None \<Rightarrow> return m
      | Some r \<Rightarrow>
          ebind (of_res (refuse_other sub r ''Identity conflict: engine subId changed; explicit re-adoption is required'')) (\<lambda>_.
          ebind (charge_snapshot w m r) (\<lambda>_ p. (p, get_meta (mc_email m) p))))"

definition reconcile_body :: "world \<Rightarrow> string \<Rightarrow> (panel, unit) effect" where
  "reconcile_body w c =
     ebind (\<lambda>p. (p, get_meta c p)) (\<lambda>m.
     ebind (of_res (wish m)) (\<lambda>desired.
     ebind (of_res (stored_ids m)) (\<lambda>ids.
     ebind (client_snapshot w c True) (\<lambda>existing.
     ebind (meter_existing w m (pyget desired ''subId'') existing) (\<lambda>m'.
     ebind (peek (allowed_now w m')) (\<lambda>enabled.
     let d = py_set ''enable'' (PBool enabled) desired in
     ebind (schedule_cycles w (Some [c])) (\<lambda>_.
     ebind (upsert_many [(c, d, ids)]) (\<lambda>_.
     ebind (alter (finish_batch w [(m', enabled, c, d, ids)])) (\<lambda>_.
     ebind (remember c (shown d ids (traffic_of existing))) (\<lambda>_.
     ebind (flush_core w) (\<lambda>_. polled w)))))))))))"

definition reconcile_client :: "world \<Rightarrow> string \<Rightarrow> (panel, unit) effect" where
  "reconcile_client w c = catch_if (\<lambda>_. True) (reconcile_body w c) (\<lambda>_. manager_tick w True)"

definition created_item :: "world \<Rightarrow> panel \<Rightarrow> string \<Rightarrow> pending res" where
  "created_item w p c =
     rbind (get_meta c p) (\<lambda>m.
     rbind (wish m) (\<lambda>d.
     rbind (stored_ids m) (\<lambda>ids.
     let enabled = allowed_now w m p in
     Inr (m, enabled, c, py_set ''enable'' (PBool enabled) d, ids))))"

text \<open>A created client starts with a zero baseline.\<close>

definition finish_created :: "world \<Rightarrow> pending list \<Rightarrow> panel \<Rightarrow> panel" where
  "finish_created w batch p =
     set_managed (fold (\<lambda>(m, enabled, item). modify mc_email (mc_email m)
       (\<lambda>x. (settled w p x)\<lparr>mc_expected := Some enabled, mc_last_up := 0, mc_last_down := 0,
              mc_initialized := True, mc_seq := 1\<rparr>)) batch) p"

definition reconcile_batch :: "world \<Rightarrow> string list \<Rightarrow> (panel, unit) effect" where
  "reconcile_batch w emails =
     (if emails = [] then return ()
      else catch_if (\<lambda>_. True)
        (ebind (\<lambda>p. (p, map_res (created_item w p) emails)) (\<lambda>batch.
         ebind (schedule_cycles w (Some emails)) (\<lambda>_.
         ebind (upsert_many (map (\<lambda>(m, enabled, item). item) batch)) (\<lambda>_.
         ebind (alter (finish_created w batch)) (\<lambda>_.
         ebind (efold (\<lambda>(m, enabled, c, d, ids) _. remember c (shown d ids (traffic_of None))) batch ()) (\<lambda>_.
         ebind (flush_core w) (\<lambda>_. polled w)))))))
        (\<lambda>_. manager_tick w True))"

end
