(* ===== verification/Manager_Api.thy ===== *)
theory Manager_Api
  imports Manager_Sync
begin

text \<open>
  The operations of the Manager that the panel, the bots and the recovery procedures call
  (backend/manager.py): creating, adopting, editing, resetting and deleting clients, explicit
  recovery, and the profiles and groups of owners. An operation returns the identity it acted on;
  the rendered view of a client (\<open>detail\<close> and its presence fields) is not part of the model.
\<close>

section \<open>Access\<close>

definition own_row :: "actor \<Rightarrow> string \<Rightarrow> string \<Rightarrow> panel \<Rightarrow> client_row res" where
  "own_row act c action p =
     (if \<not> valid_name c then bad ''Invalid client identity''
      else case client_of c (store_of p) of
        None \<Rightarrow> bad ''Managed client not found''
      | Some u \<Rightarrow> rbind (require act ''clients'' action (Some (cl_owner u))) (\<lambda>_. Inr u))"

definition inspects :: "(panel \<Rightarrow> 'a res) \<Rightarrow> (panel, 'a) effect" where
  "inspects f p = (p, f p)"

text \<open>\<open>str(v)\<close>; the text of a container is no name, whatever it holds.\<close>

definition py_str :: "world \<Rightarrow> pyval \<Rightarrow> string" where
  "py_str w v =
     (case v of PStr s \<Rightarrow> s | PInt i \<Rightarrow> show_int i | PBool b \<Rightarrow> (if b then ''True'' else ''False'')
      | PNone \<Rightarrow> ''None'' | PFloat r \<Rightarrow> wo_text w r | PList _ \<Rightarrow> ''[]'' | PDict _ \<Rightarrow> ''{}'')"

definition add_group :: "string \<Rightarrow> string \<Rightarrow> panel \<Rightarrow> panel" where
  "add_group ow g p = p\<lparr>pa_groups :=
     insert_or_ignore (\<lambda>r. (gr_owner r, gr_name r)) \<lparr>gr_owner = ow, gr_name = g, gr_color = []\<rparr> (pa_groups p)\<rparr>"

text \<open>The group of a client, with its name normalised; \<open>None\<close> when it has none.\<close>

definition grouped :: "dict \<Rightarrow> (dict \<times> string option) res" where
  "grouped d =
     (if truthy (pyget d ''group'')
      then rbind (group_name (pyget d ''group'')) (\<lambda>g. Inr (py_set ''group'' (PStr g) d, Some g))
      else Inr (d, None))"

definition join_group :: "string \<Rightarrow> string option \<Rightarrow> (panel, unit) effect" where
  "join_group ow g = (case g of None \<Rightarrow> return () | Some x \<Rightarrow> alter (add_group ow x))"

section \<open>Creating\<close>

definition reserved_names :: "panel \<Rightarrow> string list" where
  "reserved_names p = map (\<lambda>m. lower (mc_email m)) (hb_managed (pa_hub p)) @ map (\<lambda>c. lower (cl_id c)) (st_clients (store_of p))"

definition set_default :: "string \<times> pyval \<Rightarrow> dict \<Rightarrow> dict" where
  "set_default kv d = (if map_of d (fst kv) = None then py_set (fst kv) (snd kv) d else d)"

definition client_defaults :: dict where
  "client_defaults = [(''flow'', PStr []), (''security'', PStr ''auto''), (''limitIp'', PInt 1), (''limitHwid'', PInt 0),
     (''totalGB'', PInt 0), (''expiryTime'', PInt 0), (''enable'', PBool True), (''tgId'', PInt 0), (''group'', PStr []),
     (''comment'', PStr []), (''reset'', PInt 0), (''resetTraffic'', PStr ''never''), (''resetTrafficDay'', PInt 0),
     (''resetCount'', PInt 0)]"

definition secret_field :: "world \<Rightarrow> string \<Rightarrow> dict \<Rightarrow> (panel, dict) effect" where
  "secret_field w k d =
     (if truthy (pyget d k) then return d else ebind (fresh_token w) (\<lambda>t. return (py_set k (PStr t) d)))"

definition fill_secrets :: "world \<Rightarrow> dict \<Rightarrow> (panel, dict) effect" where
  "fill_secrets w d =
     ebind (secret_field w ''id'' d) (\<lambda>d.
     ebind (secret_field w ''password'' d) (\<lambda>d.
     ebind (secret_field w ''auth'' d) (\<lambda>d.
     ebind (fresh_token w) (\<lambda>t. return (py_set ''subId'' (PStr t) d)))))"

definition new_managed :: "string \<Rightarrow> dict \<Rightarrow> int list \<Rightarrow> string \<Rightarrow> real \<Rightarrow> managed_row" where
  "new_managed c d ids tok now =
     \<lparr>mc_email = c, mc_state = ''pending'', mc_op = ''upsert'', mc_error = [], mc_inbounds = Some (py_ints ids),
      mc_desired = Some (PDict d), mc_last_up = 0, mc_last_down = 0, mc_op_id = [], mc_token = tok,
      mc_initialized = False, mc_seq = 0, mc_expected = None, mc_external = False, mc_retry = 0, mc_attempts = 0,
      mc_updated = now\<rparr>"

definition seconds_of :: "pyval \<Rightarrow> pyval" where
  "seconds_of v = (case v of PInt i \<Rightarrow> PInt (max 0 (i div 1000)) | _ \<Rightarrow> v)"

definition disabled_of :: "pyval \<Rightarrow> pyval" where
  "disabled_of v = PBool (\<not> truthy v)"

definition register_managed ::
  "world \<Rightarrow> actor \<Rightarrow> string \<Rightarrow> string \<Rightarrow> dict \<Rightarrow> int list \<Rightarrow> pyval \<Rightarrow> string \<Rightarrow> panel \<Rightarrow> (panel \<times> unit) res" where
  "register_managed w act ow c d ids billing tok p =
     rbind (register_client act c ow (pyget d ''limitIp'') (pyget d ''totalGB'') (PInt 0) PNone
              (seconds_of (pyget d ''expiryTime'')) billing (clock w p) (store_of p)) (\<lambda>s1.
     rbind (edit_client system_actor c PNone PNone (disabled_of (pyget d ''enable'')) PNone (clock w p) s1) (\<lambda>s2.
     rbind (insert_pk mc_email (new_managed c d ids tok (clock w p)) (hb_managed (pa_hub p))) (\<lambda>rows.
     Inr (set_managed (\<lambda>_. rows) (set_store s2 p), ()))))"

definition taken_as_policy :: "err \<Rightarrow> err" where
  "taken_as_policy ex = (case ex of IntegrityError _ \<Rightarrow> PolicyError ''Identity is already reserved'' | _ \<Rightarrow> ex)"

definition lower_email :: "dict \<Rightarrow> string res" where
  "lower_email d = (case pyget d ''email'' of PStr s \<Rightarrow> Inr (lower s) | _ \<Rightarrow> Inl (OtherError ''AttributeError''))"

text \<open>
  \<open>_stage_create_locked\<close>. \<open>ids_of\<close> checks the inbounds, or returns those that the batch has checked;
  \<open>existing\<close> and \<open>reserved\<close> are the identities taken when the operation began.
\<close>

definition stage_create ::
  "world \<Rightarrow> actor \<Rightarrow> string \<Rightarrow> dict res \<Rightarrow> (panel \<Rightarrow> int list res) \<Rightarrow> (panel \<Rightarrow> profile_row res)
   \<Rightarrow> string list \<Rightarrow> string list \<Rightarrow> pyval \<Rightarrow> (panel, string) effect" where
  "stage_create w act ow client ids_of pf_of existing reserved billing =
     ebind (of_res (require act ''clients'' ''create'' (Some ow))) (\<lambda>_.
     ebind (require_that (\<lambda>p. eg_writes (pa_engine p)) (PolicyError ''CoreEngine writes are disabled'')) (\<lambda>_.
     ebind (of_res client) (\<lambda>d.
     ebind (of_res (lower_email d)) (\<lambda>c.
     ebind (inspects ids_of) (\<lambda>ids.
     ebind (inspects (validate_transport d ids)) (\<lambda>_.
     ebind (require_that (\<lambda>_. c \<notin> set existing)
              (PolicyError ''Client already exists in engine; adopt explicitly instead of overwriting'')) (\<lambda>_.
     ebind (require_that (\<lambda>_. c \<notin> set reserved)
              (PolicyError ''Identity is already reserved (including historical tombstones)'')) (\<lambda>_.
     ebind (inspects pf_of) (\<lambda>pf.
     ebind (require_that (\<lambda>_. prefix (lower (pf_prefix pf)) c)
              (PolicyError ''Client identity must start with reseller prefix'')) (\<lambda>_.
     ebind (fill_secrets w (py_set ''email'' (PStr c) d)) (\<lambda>d.
     ebind (of_res (grouped d)) (\<lambda>(d, g).
     ebind (join_group ow g) (\<lambda>_.
     let d = fold set_default client_defaults d in
     ebind (of_res (check_ceilings ''Requested IP limit exceeds the reseller policy''
                      ''Requested HWID limit exceeds the reseller policy'' pf d)) (\<lambda>_.
     ebind (fresh_token w) (\<lambda>tok.
     ebind (\<lambda>p. case transaction (register_managed w act ow c d ids billing tok) p of
                   (q, Inr u) \<Rightarrow> (q, Inr u) | (q, Inl ex) \<Rightarrow> (q, Inl (taken_as_policy ex))) (\<lambda>_.
     ebind (audit w act ow ''client.create'' c ''CoreEngine synchronization requested'') (\<lambda>_.
     return c)))))))))))))))))"

definition create_client ::
  "world \<Rightarrow> actor \<Rightarrow> string \<Rightarrow> pyval \<Rightarrow> pyval list \<Rightarrow> pyval \<Rightarrow> (panel, string) effect" where
  "create_client w act ow client ids billing =
     ebind (of_res (validate_client False client)) (\<lambda>d.
     ebind (clients w) (\<lambda>rows.
     ebind (peek reserved_names) (\<lambda>reserved.
     ebind (stage_create w act ow (Inr d) (check_inbounds ow ids) (profile_of ow)
              (map (\<lambda>r. lower (fst r)) rows) reserved billing) (\<lambda>c.
     ebind (manager_tick w True) (\<lambda>_. return c)))))"

text \<open>\<open>create_batch\<close>: the item_outcome of each item is its identity, with the error of a refused one.\<close>

type_synonym item_outcome = "string \<times> string option"

definition item_label :: "world \<Rightarrow> pyval \<Rightarrow> string" where
  "item_label w raw = (case raw of PDict d \<Rightarrow> take 128 (py_str w (pyget_or d ''email'' (PStr []))) | _ \<Rightarrow> [])"

definition create_preflight :: "world \<Rightarrow> actor \<Rightarrow> string \<Rightarrow> pyval list \<Rightarrow> (panel, int list \<times> profile_row \<times> string list \<times> string list) effect" where
  "create_preflight w act ow ids =
     ebind (of_res (require act ''clients'' ''create'' (Some ow))) (\<lambda>_.
     ebind (inspects (check_inbounds ow ids)) (\<lambda>xs.
     ebind (inspects (profile_of ow)) (\<lambda>pf.
     ebind (clients w) (\<lambda>rows.
     ebind (peek reserved_names) (\<lambda>reserved. return (xs, pf, map (\<lambda>r. lower (fst r)) rows, reserved))))))"

definition create_item ::
  "world \<Rightarrow> actor \<Rightarrow> string \<Rightarrow> int list \<Rightarrow> profile_row \<Rightarrow> string list \<Rightarrow> string list \<Rightarrow> pyval
   \<Rightarrow> string list \<times> item_outcome list \<Rightarrow> (panel, string list \<times> item_outcome list) effect" where
  "create_item w act ow xs pf existing reserved raw acc =
     catch_if (\<lambda>ex. core_or_policy ex \<or> (case ex of IntegrityError _ \<Rightarrow> True | _ \<Rightarrow> False))
       (ebind (stage_create w act ow (validate_client False raw) (\<lambda>_. Inr xs) (\<lambda>_. Inr pf)
                 (fst acc @ existing) (fst acc @ reserved) PNone) (\<lambda>c.
        return (fst acc @ [c], snd acc @ [(c, None)])))
       (\<lambda>ex. return (fst acc, snd acc @ [(item_label w raw, Some (take 300 (err_message ex)))]))"

definition create_batch :: "world \<Rightarrow> actor \<Rightarrow> string \<Rightarrow> pyval \<Rightarrow> pyval list \<Rightarrow> (panel, string list \<times> item_outcome list) effect" where
  "create_batch w act ow items ids p =
     (case items of
        PList xs \<Rightarrow>
          if \<not> (1 \<le> length xs \<and> length xs \<le> 500) then (p, bad ''Bulk create requires 1..500 clients'')
          else
          (case create_preflight w act ow ids p of
             (q, Inl ex) \<Rightarrow>
               if core_or_policy ex
               then (q, Inr ([], map (\<lambda>raw. (item_label w raw, Some (take 300 (err_message ex)))) xs)) else (q, Inl ex)
           | (q, Inr (ids', pf, existing, reserved)) \<Rightarrow>
               ebind (efold (create_item w act ow ids' pf existing reserved) xs ([], [])) (\<lambda>(staged, out).
               ebind (when_so (staged \<noteq> []) (reconcile_batch w staged)) (\<lambda>_. return (staged, out))) q)
      | _ \<Rightarrow> (p, bad ''Bulk create requires 1..500 clients''))"

section \<open>Adopting\<close>

definition adopted_row :: "string \<Rightarrow> dict \<Rightarrow> int list \<Rightarrow> string \<Rightarrow> int \<Rightarrow> int \<Rightarrow> real \<Rightarrow> managed_row" where
  "adopted_row c d ids tok up down now =
     (new_managed c d ids tok now)\<lparr>mc_op := ''none'', mc_state := ''applied'', mc_last_up := up, mc_last_down := down,
        mc_initialized := True, mc_expected := Some (truthy (pyget_or d ''enable'' (PBool True)))\<rparr>"

definition register_adopted ::
  "world \<Rightarrow> actor \<Rightarrow> string \<Rightarrow> string \<Rightarrow> dict \<Rightarrow> int list \<Rightarrow> string \<Rightarrow> int \<Rightarrow> int \<Rightarrow> panel \<Rightarrow> (panel \<times> unit) res" where
  "register_adopted w act ow c d ids tok up down p =
     rbind (py_int (pyget_or d ''limitIp'' (PInt 0))) (\<lambda>ips.
     rbind (py_int (pyget_or d ''totalGB'' (PInt 0))) (\<lambda>quota.
     rbind (py_int (pyget_or d ''expiryTime'' (PInt 0))) (\<lambda>expiry.
     let expires = max 0 (expiry div 1000) in
     rbind (register_client act c ow (PInt ips) (PInt quota) (PInt 0) PNone (PInt expires) PNone (clock w p) (store_of p)) (\<lambda>s.
     let s1 = s\<lparr>st_clients := modify cl_id c (\<lambda>u. u\<lparr>cl_used_bytes := up + down,
                  cl_manual := \<not> truthy (pyget_or d ''enable'' (PBool True)), cl_expires_at := expires\<rparr>) (st_clients s)\<rparr> in
     rbind (insert_pk mc_email (adopted_row c d ids tok up down (clock w p)) (hb_managed (pa_hub p))) (\<lambda>rows.
     Inr (set_managed (\<lambda>_. rows) (set_store s1 p), ()))))))"

definition adopt :: "world \<Rightarrow> actor \<Rightarrow> string \<Rightarrow> string \<Rightarrow> (panel, string) effect" where
  "adopt w act ow c =
     ebind (require_that (\<lambda>_. a_role act = ''owner'') (PermissionDenied ''Only the primary owner can adopt a engine client'')) (\<lambda>_.
     ebind (client_detail c) (\<lambda>r.
     ebind (inspects (check_inbounds ow (map PInt (cc_inbounds r)))) (\<lambda>ids.
     let d = py_set ''email'' (PStr c) (writable (body_of r)) in
     ebind (clients w) (\<lambda>rows.
     ebind (of_res (case map_of rows c of None \<Rightarrow> bad ''CoreEngine client disappeared'' | Some x \<Rightarrow> counters x)) (\<lambda>(up, down).
     ebind (fresh_token w) (\<lambda>tok.
     ebind (transaction (register_adopted w act ow c d ids tok up down)) (\<lambda>_.
     ebind (audit w act ow ''client.adopt'' c
       ''Historical engine bytes are a baseline; resource credit is reserved from the configured client plan'') (\<lambda>_.
     ebind (manager_tick w True) (\<lambda>_. return c)))))))))"

section \<open>Editing\<close>

record plan =
  pl_email :: string
  pl_owner :: string
  pl_desired :: dict
  pl_ids :: "int list"
  pl_group :: "string option"
  pl_patch :: dict

text \<open>The columns of the policy row that a patch changes.\<close>

definition policy_changes :: "dict \<Rightarrow> dict" where
  "policy_changes d =
     concat (map (\<lambda>(k, c, f). case map_of d k of None \<Rightarrow> [] | Some v \<Rightarrow> [(c, f v)])
       [(''limitIp'', ''limit_ip'', \<lambda>v. v), (''totalGB'', ''quota_bytes'', \<lambda>v. v),
        (''expiryTime'', ''expires_at'', seconds_of), (''enable'', ''manual'', disabled_of)])"

definition edit_policy :: "string \<Rightarrow> dict \<Rightarrow> real \<Rightarrow> store \<Rightarrow> store res" where
  "edit_policy c d now s =
     (if policy_changes d = [] then Inr s
      else edit_client system_actor c (pyget (policy_changes d) ''limit_ip'') (pyget (policy_changes d) ''quota_bytes'')
             (pyget (policy_changes d) ''manual'') (pyget (policy_changes d) ''expires_at'') now s)"

definition identity_rotation :: "dict \<Rightarrow> unit res" where
  "identity_rotation d =
     ensure (map_of d ''email'' = None \<and> map_of d ''subId'' = None)
       (PolicyError ''Identity/subId changes use a separate rotation workflow'')"

definition edited_meta :: "managed_row option \<Rightarrow> managed_row res" where
  "edited_meta m =
     (case m of None \<Rightarrow> Inl (OtherError ''TypeError'')
      | Some r \<Rightarrow> if mc_state r = ''uncertain'' then bad ''Resolve the uncertain engine operation before editing'' else Inr r)"

definition current_desired :: "managed_row \<Rightarrow> panel \<Rightarrow> dict res" where
  "current_desired m p =
     rbind (wish m) (\<lambda>d.
     if mc_op m = ''none'' then rbind (snd (client_detail (mc_email m) p)) (\<lambda>r. Inr (writable (body_of r))) else Inr d)"

definition chosen_ids :: "string \<Rightarrow> managed_row \<Rightarrow> pyval list option \<Rightarrow> panel \<Rightarrow> int list res" where
  "chosen_ids ow m ids p =
     rbind (case ids of None \<Rightarrow> rbind (stored_ids m) (\<lambda>xs. Inr (map PInt xs)) | Some xs \<Rightarrow> Inr xs) (\<lambda>xs.
     check_inbounds ow xs p)"

definition plan_edit :: "string \<Rightarrow> string \<Rightarrow> managed_row \<Rightarrow> dict \<Rightarrow> pyval list option \<Rightarrow> panel \<Rightarrow> plan res" where
  "plan_edit c ow m d ids p =
     rbind (current_desired m p) (\<lambda>old.
     rbind (chosen_ids ow m ids p) (\<lambda>xs.
     let new = py_set ''email'' (PStr c) (py_merge old d) in
     rbind (validate_transport new xs p) (\<lambda>_.
     rbind (grouped new) (\<lambda>(new, g).
     Inr \<lparr>pl_email = c, pl_owner = ow, pl_desired = new, pl_ids = xs, pl_group = g, pl_patch = d\<rparr>))))"

definition plan_ceilings :: "plan \<Rightarrow> panel \<Rightarrow> unit res" where
  "plan_ceilings pl p =
     rbind (profile_of (pl_owner pl) p)
       (\<lambda>pf. check_ceilings ''IP cap exceeds reseller policy'' ''HWID cap exceeds reseller policy'' pf (pl_desired pl))"

definition stage_row :: "plan \<Rightarrow> real \<Rightarrow> managed_row \<Rightarrow> managed_row" where
  "stage_row pl now m =
     m\<lparr>mc_desired := Some (PDict (pl_desired pl)), mc_inbounds := Some (py_ints (pl_ids pl)), mc_op := ''upsert'',
       mc_state := ''pending'', mc_error := [], mc_retry := 0, mc_attempts := 0, mc_updated := now,
       mc_external := (if map_of (pl_patch pl) ''enable'' \<noteq> None then False else mc_external m)\<rparr>"

definition commit_plan :: "world \<Rightarrow> plan \<Rightarrow> panel \<Rightarrow> (panel \<times> unit) res" where
  "commit_plan w pl p =
     rbind (edit_policy (pl_email pl) (pl_patch pl) (clock w p) (store_of p)) (\<lambda>s.
     Inr (set_managed (modify mc_email (pl_email pl) (stage_row pl (clock w p))) (set_store s p), ()))"

definition patched_keys :: "dict \<Rightarrow> string" where
  "patched_keys d = join '','' (sort (map fst d))"

definition update_client ::
  "world \<Rightarrow> actor \<Rightarrow> string \<Rightarrow> pyval \<Rightarrow> pyval list option \<Rightarrow> bool \<Rightarrow> (panel, unit) effect" where
  "update_client w act c patch ids reconcile =
     ebind (of_res (validate_client True patch)) (\<lambda>d.
     ebind (of_res (identity_rotation d)) (\<lambda>_.
     ebind (inspects (own_row act c ''edit'')) (\<lambda>row.
     ebind (inspects (\<lambda>p. edited_meta (managed_of c p))) (\<lambda>m.
     ebind (inspects (plan_edit c (cl_owner row) m d ids)) (\<lambda>pl.
     ebind (join_group (cl_owner row) (pl_group pl)) (\<lambda>_.
     ebind (inspects (plan_ceilings pl)) (\<lambda>_.
     ebind (transaction (commit_plan w pl)) (\<lambda>_.
     ebind (audit w act (cl_owner row) ''client.update'' c (patched_keys d)) (\<lambda>_.
     when_so reconcile (reconcile_client w c))))))))))"

text \<open>
  \<open>update_batch\<close>: every item is planned by itself, the policy rows are edited with one savepoint per
  row, and the plans without an error are staged together.
\<close>

definition id_values :: "pyval \<Rightarrow> pyval list option res" where
  "id_values v =
     (case v of PNone \<Rightarrow> Inr None | PList xs \<Rightarrow> Inr (Some xs) | PStr s \<Rightarrow> Inr (Some (map (\<lambda>c. PStr [c]) s))
      | PDict d \<Rightarrow> Inr (Some (map (\<lambda>kv. PStr (fst kv)) d))
      | _ \<Rightarrow> if truthy v then Inl (OtherError ''TypeError'') else Inr (Some []))"

definition plan_item :: "world \<Rightarrow> actor \<Rightarrow> string \<Rightarrow> pyval \<Rightarrow> panel \<Rightarrow> plan res" where
  "plan_item w act action raw p =
     (case raw of
        PDict x \<Rightarrow>
          let c = lower (py_str w (pyget_or x ''email'' (PStr []))) in
          rbind (validate_client True (py_or (pyget x ''patch'') (PDict []))) (\<lambda>d.
          rbind (identity_rotation d) (\<lambda>_.
          rbind (own_row act c ''edit'' p) (\<lambda>row.
          rbind (if action = ''attach'' then require act ''clients'' ''attach'' (Some (cl_owner row)) else Inr ()) (\<lambda>_.
          rbind (get_meta c p) (\<lambda>m.
          rbind (edited_meta (Some m)) (\<lambda>_.
          rbind (id_values (pyget x ''inboundIds'')) (\<lambda>ids.
          rbind (plan_edit c (cl_owner row) m d ids p) (\<lambda>pl.
          rbind (plan_ceilings pl p) (\<lambda>_. Inr pl)))))))))
      | _ \<Rightarrow> bad ''Invalid bulk update item'')"

definition planning_error :: "err \<Rightarrow> bool" where
  "planning_error ex \<longleftrightarrow> core_or_policy ex \<or> ex \<in> {OtherError ''ValueError'', OtherError ''TypeError''}"

text \<open>The outcome of planning: the label and either the error or the plan.\<close>

type_synonym planned = "string \<times> (string + plan)"

fun plan_items :: "world \<Rightarrow> actor \<Rightarrow> string \<Rightarrow> pyval list \<Rightarrow> panel \<Rightarrow> planned list res" where
  "plan_items w act action [] p = Inr []"
| "plan_items w act action (x # xs) p =
     (case plan_item w act action x p of
        Inr pl \<Rightarrow> rbind (plan_items w act action xs p) (\<lambda>ps. Inr ((pl_email pl, Inr pl) # ps))
      | Inl ex \<Rightarrow>
          if planning_error ex
          then rbind (plan_items w act action xs p) (\<lambda>ps. Inr ((item_label w x, Inl (take 300 (err_message ex))) # ps))
          else Inl ex)"

definition plans_of :: "planned list \<Rightarrow> plan list" where
  "plans_of ps = concat (map (\<lambda>x. case snd x of Inr pl \<Rightarrow> [pl] | Inl _ \<Rightarrow> []) ps)"

definition policy_edits :: "plan list \<Rightarrow> (string \<times> pyval) list" where
  "policy_edits pls =
     map (\<lambda>pl. (pl_email pl, PDict (policy_changes (pl_patch pl)))) (filter (\<lambda>pl. policy_changes (pl_patch pl) \<noteq> []) pls)"

definition stage_plan :: "world \<Rightarrow> actor \<Rightarrow> real \<Rightarrow> plan \<Rightarrow> panel \<Rightarrow> panel" where
  "stage_plan w act now pl p =
     (let p1 = (case pl_group pl of None \<Rightarrow> p | Some g \<Rightarrow> add_group (pl_owner pl) g p);
          p2 = set_managed (modify mc_email (pl_email pl) (stage_row pl now)) p1
      in p2\<lparr>pa_audit := pa_audit p2 @ [\<lparr>au_actor = a_id act, au_owner = pl_owner pl, au_action = ''client.update'',
             au_target = pl_email pl, au_detail = take 500 (patched_keys (pl_patch pl)), au_at = now\<rparr>]\<rparr>)"

definition stage_batch ::
  "world \<Rightarrow> actor \<Rightarrow> plan list \<Rightarrow> panel \<Rightarrow> (panel \<times> (string \<times> string) list) res" where
  "stage_batch w act pls p =
     rbind (edit_clients_many system_actor (policy_edits pls) (clock w p) (store_of p)) (\<lambda>(s, errors).
     let staged = filter (\<lambda>pl. map_of errors (pl_email pl) = None) pls
     in Inr (fold (stage_plan w act (clock w p)) staged (set_store s p), errors))"

definition batch_outcome :: "(string \<times> string) list \<Rightarrow> planned \<Rightarrow> item_outcome" where
  "batch_outcome errors x = (fst x, case snd x of Inl e \<Rightarrow> Some e | Inr pl \<Rightarrow> map_of errors (pl_email pl))"

definition update_batch :: "world \<Rightarrow> actor \<Rightarrow> pyval \<Rightarrow> string \<Rightarrow> (panel, item_outcome list) effect" where
  "update_batch w act items action p =
     (case items of
        PList xs \<Rightarrow>
          if \<not> (1 \<le> length xs \<and> length xs \<le> 500) then (p, bad ''Bulk update requires 1..500 clients'')
          else if action \<notin> {''edit'', ''attach''} then (p, bad ''Invalid bulk update action'')
          else ebind (inspects (plan_items w act action xs)) (\<lambda>ps.
               ebind (transaction (stage_batch w act (plans_of ps))) (\<lambda>errors.
               ebind (when_so (\<exists>x \<in> set ps. snd (batch_outcome errors x) = None) (manager_tick w True)) (\<lambda>_.
               return (map (batch_outcome errors) ps)))) p
      | _ \<Rightarrow> (p, bad ''Bulk update requires 1..500 clients''))"

section \<open>Resetting and deleting\<close>

text \<open>The final counters are metered before the operation is recorded.\<close>

definition record_operation :: "world \<Rightarrow> string \<Rightarrow> string \<Rightarrow> (panel, unit) effect" where
  "record_operation w c op =
     ebind (fresh_token w) (\<lambda>tok.
     transaction (\<lambda>p.
       case managed_of c p of
         None \<Rightarrow> Inl (OtherError ''TypeError'')
       | Some m \<Rightarrow>
           if mc_state m = ''uncertain'' then bad ''Resolve the uncertain operation first''
           else Inr (set_managed (modify mc_email c (\<lambda>x. x\<lparr>mc_op := op, mc_op_id := tok, mc_state := ''pending'',
                  mc_error := [], mc_retry := 0, mc_attempts := 0, mc_updated := clock w p\<rparr>)) p, ())))"

definition client_action :: "world \<Rightarrow> actor \<Rightarrow> string \<Rightarrow> string \<Rightarrow> (panel, unit) effect" where
  "client_action w act c action =
     (if action \<in> {''enable'', ''disable''}
      then update_client w act c (PDict [(''enable'', PBool (action = ''enable''))]) None True
      else if action \<notin> {''reset'', ''delete''} then raise (PolicyError ''Unsupported action'')
      else
        ebind (inspects (own_row act c action)) (\<lambda>row.
        ebind (manager_tick w False) (\<lambda>_.
        ebind (record_operation w c action) (\<lambda>_.
        ebind (audit w act (cl_owner row) (''client.'' @ action) c []) (\<lambda>_.
        manager_tick w True)))))"

section \<open>Explicit recovery\<close>

definition retry_owner :: "actor \<Rightarrow> string \<Rightarrow> string \<Rightarrow> panel \<Rightarrow> string res" where
  "retry_owner act c op p =
     (case client_of c (store_of p) of
        Some u \<Rightarrow> rbind (require act ''clients'' (if op \<in> {''delete'', ''reset''} then op else ''edit'') (Some (cl_owner u)))
                    (\<lambda>_. Inr (cl_owner u))
      | None \<Rightarrow> if a_role act = ''owner'' then Inr (a_id act)
                else Inl (PermissionDenied ''Only the primary owner may retry an operation after its policy row is gone''))"

definition retry_operation :: "world \<Rightarrow> actor \<Rightarrow> string \<Rightarrow> (panel, unit) effect" where
  "retry_operation w act c =
     ebind (inspects (get_meta c)) (\<lambda>m.
     ebind (inspects (retry_owner act c (mc_op m))) (\<lambda>ow.
     ebind (require_that (\<lambda>_. mc_op m \<noteq> ''none'' \<and> mc_state m \<in> {''pending'', ''error''})
              (PolicyError ''Only pending/error durable operations can be retried'')) (\<lambda>_.
     ebind (alter (\<lambda>p. set_managed (modify mc_email c
       (\<lambda>x. x\<lparr>mc_state := ''pending'', mc_error := [], mc_retry := 0, mc_updated := clock w p\<rparr>)) p)) (\<lambda>_.
     ebind (audit w act ow ''sync.retry_now'' c (''operation='' @ mc_op m @ ''; previous_state='' @ mc_state m)) (\<lambda>_.
     manager_tick w True)))))"

definition restore_missing :: "world \<Rightarrow> actor \<Rightarrow> string \<Rightarrow> string \<Rightarrow> (panel, unit) effect" where
  "restore_missing w act c confirmation =
     ebind (require_that (\<lambda>_. a_role act = ''owner'' \<and> confirmation = c)
              (PermissionDenied ''Primary owner and exact client identity confirmation required'')) (\<lambda>_.
     ebind (inspects (own_row act c ''edit'')) (\<lambda>row.
     ebind (inspects (get_meta c)) (\<lambda>m.
     ebind (require_that (\<lambda>_. mc_state m = ''missing'' \<and> mc_op m = ''none'')
              (PolicyError ''Only a missing idle managed client can be explicitly restored'')) (\<lambda>_.
     ebind (clients w) (\<lambda>rows.
     ebind (require_that (\<lambda>_. map_of rows c = None)
              (PolicyError ''CoreEngine already contains this identity; reconcile before restore'')) (\<lambda>_.
     ebind (of_res (wish m)) (\<lambda>d.
     ebind (require_that (\<lambda>_. truthy (pyget d ''subId''))
              (PolicyError ''Managed identity metadata is incomplete; automatic restore refused'')) (\<lambda>_.
     ebind (fresh_token w) (\<lambda>tok.
     ebind (alter (\<lambda>p. set_managed (modify mc_email c (\<lambda>x. x\<lparr>mc_op := ''upsert'', mc_op_id := tok, mc_state := ''pending'',
       mc_error := [], mc_retry := 0, mc_attempts := 0, mc_updated := clock w p\<rparr>)) p)) (\<lambda>_.
     ebind (audit w act (cl_owner row) ''sync.restore_missing'' c
              ''Explicit owner recovery requested; existing DARK identity retained'') (\<lambda>_.
     manager_tick w True)))))))))))"

definition resolve_reset :: "world \<Rightarrow> actor \<Rightarrow> string \<Rightarrow> string \<Rightarrow> (panel, unit) effect" where
  "resolve_reset w act c confirmation =
     ebind (require_that (\<lambda>_. a_role act = ''owner'' \<and> confirmation = c)
              (PermissionDenied ''Owner and exact client identity confirmation required'')) (\<lambda>_.
     ebind (inspects (get_meta c)) (\<lambda>m.
     ebind (require_that (\<lambda>_. mc_state m = ''uncertain'' \<and> mc_op m = ''reset'')
              (PolicyError ''There is no uncertain reset to resolve'')) (\<lambda>_.
     ebind (clients w) (\<lambda>rows.
     ebind (of_res (case map_of rows c of
              None \<Rightarrow> bad ''CoreEngine client identity must match before recovery''
            | Some r \<Rightarrow> rbind (wish m) (\<lambda>d.
                rbind (ensure (pyget r ''subId'' = pyget d ''subId'')
                         (PolicyError ''CoreEngine client identity must match before recovery'')) (\<lambda>_. Inr r)))) (\<lambda>r.
     ebind (when_so (mc_op_id m \<noteq> []) (remote_reset w c (mc_op_id m))) (\<lambda>_.
     ebind (charge_snapshot w m r) (\<lambda>_.
     ebind (mark_row c (\<lambda>x. x\<lparr>mc_op := ''none'', mc_op_id := [], mc_state := ''applied'', mc_error := [], mc_retry := 0,
              mc_attempts := 0\<rparr>)) (\<lambda>_.
     ebind (complete_cycle w c) (\<lambda>_.
     ebind (inspects (own_row act c ''read'')) (\<lambda>row.
     ebind (audit w act (cl_owner row) ''reset.resolve_current'' c
       ''Current engine counters accepted; destructive reset NOT replayed; due reset cycle advanced'') (\<lambda>_.
     manager_tick w False)))))))))))"

text \<open>Started after a crash: a reset that was in flight has an unknown outcome.\<close>

definition recover_resets :: "(panel, unit) effect" where
  "recover_resets =
     alter (set_managed (update_where (\<lambda>m. mc_state m = ''reset_inflight'')
       (\<lambda>m. m\<lparr>mc_state := ''uncertain'',
              mc_error := ''Service restarted during a engine reset; automatic retry refused''\<rparr>)))"

section \<open>Owners and groups\<close>

definition owned_rows :: "string \<Rightarrow> panel \<Rightarrow> (managed_row \<times> client_row) list" where
  "owned_rows ow p =
     concat (map (\<lambda>m. case client_of (mc_email m) (store_of p) of
         Some u \<Rightarrow> if cl_owner u = ow then [(m, u)] else [] | None \<Rightarrow> []) (live_metas p))"

definition hwid_limit :: "managed_row \<Rightarrow> int" where
  "hwid_limit m = (case rbind (wish m) (\<lambda>d. number_at d ''limitHwid'') of Inl _ \<Rightarrow> 0 | Inr n \<Rightarrow> n)"

definition check_owned :: "int list \<Rightarrow> string \<Rightarrow> int \<Rightarrow> int \<Rightarrow> (managed_row \<times> client_row) list \<Rightarrow> unit res" where
  "check_owned allowed pre ips hwid rows =
     rbind (map_res (\<lambda>r. stored_ids (fst r)) rows) (\<lambda>used.
     rbind (ensure (\<forall>xs \<in> set used. set xs \<subseteq> set allowed)
              (PolicyError ''Detach or transfer affected clients before removing their inbound access'')) (\<lambda>_.
     rbind (ensure (ips = 0 \<or> (\<forall>(m, u) \<in> set rows. \<not> (cl_limit_ip u = 0 \<and> cl_quota_bytes u = 0 \<or> ips < cl_limit_ip u)))
              (PolicyError ''Reduce existing client IP limits for unlimited-service clients before lowering the reseller max-client-IP policy'')) (\<lambda>_.
     rbind (ensure (hwid = 0 \<or> (\<forall>(m, u) \<in> set rows. hwid_limit m \<noteq> 0 \<and> hwid_limit m \<le> hwid))
              (PolicyError ''Reduce existing client HWID limits before lowering the reseller max-client-HWID policy'')) (\<lambda>_.
     ensure (\<forall>(m, u) \<in> set rows. prefix pre (lower (cl_id u)))
       (PolicyError ''Existing client identities must match the reseller prefix before enabling it'')))))"

definition owner_prefix :: "pyval \<Rightarrow> string res" where
  "owner_prefix v =
     (case v of
        PStr s \<Rightarrow> let t = lower (strip s) in
                  rbind (ensure (length t \<le> 64 \<and> list_all name_char t) (PolicyError ''Invalid reseller client prefix'')) (\<lambda>_. Inr t)
      | _ \<Rightarrow> bad ''Invalid reseller client prefix'')"

definition put_profile :: "profile_row \<Rightarrow> panel \<Rightarrow> panel" where
  "put_profile r p = p\<lparr>pa_profiles := upsert pf_id r (\<lambda>_. r) (pa_profiles p)\<rparr>"

definition owner_put ::
  "world \<Rightarrow> actor \<Rightarrow> string \<Rightarrow> string \<Rightarrow> pyval list \<Rightarrow> pyval \<Rightarrow> pyval \<Rightarrow> pyval \<Rightarrow> pyval \<Rightarrow> pyval \<Rightarrow> pyval \<Rightarrow> pyval \<Rightarrow> pyval
   \<Rightarrow> (panel, unit) effect" where
  "owner_put w act ow name allowed volume unlimited max_clients manual quota pre ips hwid =
     ebind (require_that (\<lambda>_. a_role act = ''owner'') (PermissionDenied ''Only the primary owner may configure resellers'')) (\<lambda>_.
     ebind (require_that (\<lambda>_. valid_name ow \<and> 1 \<le> length name \<and> length name \<le> 128) (PolicyError ''Invalid owner identity'')) (\<lambda>_.
     ebind (of_res (case positive_ids allowed of
              Some xs \<Rightarrow> if length xs \<le> 4096 then Inr xs else bad ''Invalid inbound assignments''
            | None \<Rightarrow> bad ''Invalid inbound assignments'')) (\<lambda>ids.
     ebind (of_res (owner_prefix pre)) (\<lambda>pre.
     ebind (of_res (integer ips 0 1000)) (\<lambda>ips.
     ebind (of_res (integer hwid 0 1000)) (\<lambda>hwid.
     ebind (require_that (\<lambda>p. set ids \<subseteq> set (map fst (pa_inbounds p))) (PolicyError ''Assigned inbound does not exist'')) (\<lambda>_.
     ebind (inspects (\<lambda>p. check_owned ids pre ips hwid (owned_rows ow p))) (\<lambda>_.
     ebind (fresh_token w) (\<lambda>uid.
     ebind (\<lambda>p. on_store (register_owner act ow volume unlimited max_clients manual quota uid (clock w p)) p) (\<lambda>_.
     ebind (alter (put_profile \<lparr>pf_id = ow, pf_name = name, pf_allowed = sort (remdups ids), pf_prefix = pre,
                                pf_ips = ips, pf_hwid = hwid\<rparr>)) (\<lambda>_.
     ebind (audit w act ow ''owner.update'' ow ''resource credits and representative policy updated'') (\<lambda>_.
     manager_tick w True))))))))))))"

definition hex_colour :: "string \<Rightarrow> bool" where
  "hex_colour s \<longleftrightarrow> (case s of c # t \<Rightarrow> c = CHR ''#'' \<and> length t = 6 \<and> list_all (\<lambda>x. hex_digit_of x \<noteq> None) t | [] \<Rightarrow> False)"

definition group_put :: "world \<Rightarrow> actor \<Rightarrow> string \<Rightarrow> pyval \<Rightarrow> pyval \<Rightarrow> (panel, string) effect" where
  "group_put w act ow name color =
     ebind (of_res (require act ''clients'' ''edit'' (Some ow))) (\<lambda>_.
     ebind (of_res (group_name name)) (\<lambda>g.
     ebind (of_res (case color of PStr s \<Rightarrow> if s = [] \<or> hex_colour s then Inr s else bad ''Invalid group color''
                    | _ \<Rightarrow> bad ''Invalid group color'')) (\<lambda>col.
     ebind (require_that (\<lambda>p. lookup pf_id ow (pa_profiles p) \<noteq> None) (PolicyError ''Unknown owner'')) (\<lambda>_.
     ebind (alter (\<lambda>p. p\<lparr>pa_groups := upsert (\<lambda>r. (gr_owner r, gr_name r))
       \<lparr>gr_owner = ow, gr_name = g, gr_color = col\<rparr> (\<lambda>r. r\<lparr>gr_color := col\<rparr>) (pa_groups p)\<rparr>)) (\<lambda>_.
     ebind (audit w act ow ''group.save'' g []) (\<lambda>_. return g))))))"

definition group_of :: "managed_row \<Rightarrow> string" where
  "group_of m = (case wish m of Inr d \<Rightarrow> (case pyget_or d ''group'' (PStr []) of PStr s \<Rightarrow> strip s | _ \<Rightarrow> []) | Inl _ \<Rightarrow> [])"

definition group_delete :: "world \<Rightarrow> actor \<Rightarrow> string \<Rightarrow> pyval \<Rightarrow> (panel, unit) effect" where
  "group_delete w act ow name =
     ebind (of_res (require act ''clients'' ''edit'' (Some ow))) (\<lambda>_.
     ebind (of_res (group_name name)) (\<lambda>g.
     ebind (require_that (\<lambda>p. \<forall>(m, u) \<in> set (owned_rows ow p). group_of m \<noteq> g)
              (PolicyError ''Move clients out of the group before deleting it'')) (\<lambda>_.
     ebind (alter (\<lambda>p. p\<lparr>pa_groups := delete_where (\<lambda>r. gr_owner r = ow \<and> gr_name r = g) (pa_groups p)\<rparr>)) (\<lambda>_.
     audit w act ow ''group.delete'' g []))))"

end
