(* ===== verification/Manager_Frames.thy ===== *)
theory Manager_Frames
  imports Manager_Api
begin

text \<open>
  What the operations on one client leave alone of another: its row in the core (body, inbounds,
  and counters that only grow) and its management row. Each fact is stated with \<open>effect_frame\<close>
  for the state it concerns: the engine, the Hub during a remote reset, and the panel.
\<close>

section \<open>The engine\<close>

fun kept :: "core_client option \<Rightarrow> core_client option \<Rightarrow> bool" where
  "kept None s \<longleftrightarrow> True"
| "kept (Some r) s \<longleftrightarrow> (\<exists>r'. s = Some r' \<and> cc_email r' = cc_email r \<and> cc_body r' = cc_body r \<and> cc_inbounds r' = cc_inbounds r \<and>
     cc_up r \<le> cc_up r' \<and> cc_down r \<le> cc_down r')"

lemma kept_refl [simp]: "kept s s"
  by (cases s) auto

lemma kept_trans: "kept s t \<Longrightarrow> kept t u \<Longrightarrow> kept s u"
  by (cases s; cases t) fastforce+

definition core_kept :: "string \<Rightarrow> engine \<Rightarrow> engine \<Rightarrow> bool" where
  "core_kept c e e' \<longleftrightarrow> kept (lookup cc_email c (eg_clients e)) (lookup cc_email c (eg_clients e'))"

interpretation engine_frame: effect_frame "core_kept c" for c
  by unfold_locales (auto simp: core_kept_def intro: kept_trans)

lemma catch_is_catch_if: "catch m h = catch_if (\<lambda>_. True) m h"
  by (rule ext) (simp split: prod.splits sum.splits)

lemma counted_kept:
  assumes "read_samples entries [] = Inr samples"
  shows "kept (lookup cc_email c rows) (lookup cc_email c (fold (count_sample old) samples rows))"
proof -
  have "pk fst samples" using assms by (auto simp: pk_def intro: read_samples_pk [unfolded pk_def])
  then have "fold (count_sample old) samples rows = map (counted old samples) rows" by (rule fold_count)
  moreover have nonneg: "sample_nonneg samples"
    using read_samples_nonneg [OF assms] by (simp add: sample_nonneg_def)
  have "kept (Some r) (Some (counted old samples r))" for r
    using nonneg lookup_Some_mem [of fst "cc_email r" samples]
    by (fastforce simp: counted_def delta_def sample_nonneg_def split: option.splits prod.splits)
  moreover have "cc_email (counted old samples r) = cc_email r" for r
    by (auto simp: counted_def split: option.splits prod.splits)
  ultimately show ?thesis
    by (cases "lookup cc_email c rows") (simp_all add: lookup_map_keyed del: kept.simps(2))
qed

lemma collect_kept: "core_kept c e (fst (collect_stats force strict v e))"
  by (auto simp: collect_stats_def core_kept_def rbind_Inr intro: counted_kept split: sum.splits)

lemma same_clients_kept: "eg_clients e' = eg_clients e \<Longrightarrow> core_kept c e e'"
  by (simp add: core_kept_def)

lemma stop_child_kept: "core_kept c e (fst (stop_child v e))"
  by (rule same_clients_kept) (simp add: stop_child_def)

lemma spawn_kept: "core_kept c e (fst (spawn ready v e))"
  by (rule same_clients_kept) (simp add: spawn_cases)

lemma validate_kept: "core_kept c e (fst (validate v e))"
  by (rule same_clients_kept) (simp add: validate_def split: sum.splits)

lemma roll_back_kept: "core_kept c e (fst (roll_back v old old_hash was ex e))"
  unfolding roll_back_def
  by (rule engine_frame.bind_frame, rule stop_child_kept, rule same_clients_kept)
    (simp add: Let_def spawn_cases split: option.splits)

lemma start_generation_kept: "core_kept c e (fst (start_generation sha start v cfg old old_hash was e))"
  unfolding start_generation_def catch_is_catch_if
  by (intro engine_frame.bind_frame engine_frame.catch_frame engine_frame.alter_frame)
    (auto intro!: same_clients_kept roll_back_kept spawn_kept engine_frame.R_refl)

lemma prepare_kept: "core_kept c e (fst (prepare v e))"
  unfolding prepare_def
  by (intro engine_frame.bind_frame validate_kept collect_kept)
    (simp add: stop_child_kept engine_frame.read_frame)

lemma apply_config_kept: "core_kept c e (fst (apply_config sha start force v e))"
  unfolding apply_config_unfold check_writes_def
  by (rule engine_frame.bind_frame, rule engine_frame.read_frame)
    (auto simp: engine_frame.R_refl split: sum.splits
      intro!: engine_frame.bind_frame prepare_kept start_generation_kept simp del: ebind.simps)

lemma flush_kept: "core_kept c e (flush sha v e)"
  using apply_config_kept [of c e sha True False v]
  by (auto simp: flush_def core_kept_def Let_def split: prod.splits sum.splits)

lemma reset_counters_kept:
  assumes "x \<noteq> c"
  shows "core_kept c e (fst (reset_counters x v e))"
  unfolding reset_counters_def check_writes_def
proof (rule engine_frame.bind_frame, rule engine_frame.read_frame, rule engine_frame.bind_frame, rule collect_kept)
  show "core_kept c t (fst (t\<lparr>eg_clients := modify cc_email x (\<lambda>c. c\<lparr>cc_up := 0, cc_down := 0\<rparr>) (eg_clients t)\<rparr>,
      Inr (map_option (\<lambda>c. (cc_up c, cc_down c)) (lookup cc_email x (eg_clients t)))))" for t
    using assms by (simp add: core_kept_def lookup_modify)
qed

section \<open>The Hub during a remote reset\<close>

text \<open>
  The other threads do not write the management rows while the Manager holds its lock.
\<close>

definition quiet :: "world \<Rightarrow> bool" where
  "quiet w \<longleftrightarrow> (\<forall>lk. wo_links w = Some lk \<longrightarrow> (\<forall>i n h. hb_managed (lk_between (lk i n) h) = hb_managed h))"

text \<open>
  A part of the Hub's database that neither a request nor metering writes stays across a remote reset.
  The management rows are such a part, and so are the accounts.
\<close>

definition hub_same :: "(hub \<Rightarrow> 'a) \<Rightarrow> hub \<Rightarrow> hub \<Rightarrow> bool" where
  "hub_same get h h' \<longleftrightarrow> get h' = get h"

definition session_same :: "(hub \<Rightarrow> 'a) \<Rightarrow> session \<Rightarrow> session \<Rightarrow> bool" where
  "session_same get s s' \<longleftrightarrow> hub_same get (ss_hub s) (ss_hub s')"

interpretation hub_frame: effect_frame "hub_same get" for get
  by unfold_locales (auto simp: hub_same_def)

interpretation session_frame: effect_frame "session_same get" for get
  by unfold_locales (auto simp: session_same_def hub_same_def)

lemma still_current_same: "session_same get s (fst (still_current s))"
  by (simp add: still_current_def session_frame.R_refl split: sum.splits)

lemma nested_same: "(\<And>s. session_same get s (fst (body s))) \<Longrightarrow> session_same get s (fst (nested body s))"
  unfolding nested_def by (rule session_frame.bind_frame, rule still_current_same)

lemma node_transaction_same:
  assumes "\<And>h h' x. body h = Inr (h', x) \<Longrightarrow> hub_same get h h'"
  shows "session_same get s (fst (node_transaction body s))"
  using assms
  by (auto simp: node_transaction_def on_hub_def on_part_def transaction_def session_same_def hub_same_def rbind_Inr
      split: sum.splits)

lemma operation_same:
  assumes "\<And>s. session_same get s (fst (body s))"
  shows "hub_same get h (fst (operation n body h))"
proof (cases "capture_pin n h")
  case (Inl e)
  then show ?thesis by (simp add: operation_def hub_frame.R_refl)
next
  case (Inr p)
  have "session_same get \<lparr>ss_hub = h, ss_pin = p\<rparr>
      (fst (ebind body (\<lambda>x. ebind still_current (\<lambda>_. return x)) \<lparr>ss_hub = h, ss_pin = p\<rparr>))"
    by (intro session_frame.bind_frame still_current_same session_frame.return_frame assms)
  then show ?thesis using Inr by (auto simp: operation_def session_same_def simp del: ebind.simps split: prod.splits)
qed

locale unmetered =
  fixes get :: "hub \<Rightarrow> 'a"
  assumes get_rows [simp]: "get (h\<lparr>hb_nodes := ns\<rparr>) = get h" "get (h\<lparr>hb_alerts := as\<rparr>) = get h" "get (h\<lparr>hb_usage := us\<rparr>) = get h"
    and get_store [simp]: "get (h\<lparr>hb_store := (hb_store h)\<lparr>st_clients := cs\<rparr>\<rparr>) = get h"
      "get (h\<lparr>hb_store := (hb_store h)\<lparr>st_traffic := ts\<rparr>\<rparr>) = get h"
begin

lemma request_failed_same: "request_failed n e now h = Inr (h', x) \<Longrightarrow> hub_same get h h'"
  by (auto simp: request_failed_def sync_active_alerts_def hub_same_def Let_def split: option.splits)

lemma request_ok_same: "request_ok n ms now h = Inr (h', x) \<Longrightarrow> hub_same get h h'"
  by (auto simp: request_ok_def sync_active_alerts_def hub_same_def Let_def split: option.splits)

lemma request_same:
  assumes "\<And>h. get (lk_between lk h) = get h"
  shows "session_same get s (fst (request n lk body s))"
proof -
  have "session_same get s (fst (case lk_answer lk body of
        Inl ex \<Rightarrow> if is_policy_error ex
          then ebind (node_transaction (request_failed n (err_message ex) (lk_now lk))) (\<lambda>_. raise ex)
                 (s\<lparr>ss_hub := lk_between lk (ss_hub s)\<rparr>)
          else (s\<lparr>ss_hub := lk_between lk (ss_hub s)\<rparr>, Inl ex)
      | Inr (doc, ms) \<Rightarrow> ebind (node_transaction (request_ok n ms (lk_now lk))) (\<lambda>_. return (doc, ms))
          (s\<lparr>ss_hub := lk_between lk (ss_hub s)\<rparr>)))" for s
  proof -
    let ?s = "s\<lparr>ss_hub := lk_between lk (ss_hub s)\<rparr>"
    have between: "session_same get s ?s" by (simp add: session_same_def hub_same_def assms)
    have failed: "session_same get ?s (fst (ebind (node_transaction (request_failed n m (lk_now lk))) (\<lambda>_. raise ex) ?s))"
      for m and ex :: err
      by (intro session_frame.bind_frame node_transaction_same session_frame.raise_frame) (rule request_failed_same)
    have okay: "session_same get ?s (fst (ebind (node_transaction (request_ok n ms (lk_now lk))) (\<lambda>_. return y) ?s))"
      for ms and y :: "pyval \<times> int"
      by (intro session_frame.bind_frame node_transaction_same session_frame.return_frame) (rule request_ok_same)
    show ?thesis
      using session_frame.R_trans [OF between failed] session_frame.R_trans [OF between okay] between
      by (cases "lk_answer lk body") (auto simp del: ebind.simps)
  qed
  then show ?thesis
    unfolding request_def
    by (intro nested_same) (auto simp: Let_def session_frame.R_refl simp del: ebind.simps split: option.splits)
qed

lemma recompute_same: "recompute_usage c h = Inr h' \<Longrightarrow> hub_same get h h'"
  by (auto simp: recompute_usage_def hub_same_def Let_def split: option.splits if_splits)

lemma charge_growth_same: "charge_growth sha n c i j seq now h = Inr h' \<Longrightarrow> hub_same get h h'"
  by (auto simp: charge_growth_def hub_same_def rbind_Inr split: option.splits if_splits)

lemma recompute_after: "recompute_usage c (h\<lparr>hb_usage := u\<rparr>) = Inr h' \<Longrightarrow> hub_same get h h'"
  by (drule recompute_same) (simp add: hub_same_def)

lemma meter_item_same: "meter_item sha n now x h ta = Inr (h', ta') \<Longrightarrow> hub_same get h h'"
  by (cases x) (auto simp: meter_item_def Let_def rbind_Inr hub_frame.R_refl dest!: recompute_after charge_growth_same
      intro: hub_frame.R_trans split: option.splits if_splits)

lemma meter_items_same: "meter_items sha n now allowed xs h ta = Inr (h', ta') \<Longrightarrow> hub_same get h h'"
proof (induction xs arbitrary: h ta)
  case Nil
  then show ?case by (simp add: hub_frame.R_refl)
next
  case (Cons x xs)
  then show ?case
    by (auto simp: rbind_Inr split: option.splits prod.splits dest!: meter_item_same)
      (blast intro: hub_frame.R_trans)
qed

lemma write_snapshot_same: "write_snapshot sha n now whole allowed xs h = Inr (h', ta) \<Longrightarrow> hub_same get h h'"
  by (auto simp: write_snapshot_def rbind_Inr seed_absent_def Let_def hub_same_def split: if_splits prod.splits
      dest!: meter_items_same)

lemma apply_snapshot_same: "session_same get s (fst (apply_snapshot sha n items now whole s))"
  by (auto simp: apply_snapshot_def session_frame.R_refl intro!: node_transaction_same
      dest: write_snapshot_same split: pyval.splits)

lemma write_reset_same: "write_reset n c now h = Inr (h', x) \<Longrightarrow> hub_same get h h'"
  by (auto simp: write_reset_def rbind_Inr dest: recompute_after)

lemma settle_reset_same: "session_same get s (fst (settle_reset sha n c i j now s))"
  unfolding settle_reset_def
  by (intro session_frame.bind_frame apply_snapshot_same node_transaction_same session_frame.return_frame)
    (rule write_reset_same)

lemma reset_node_same:
  assumes "\<And>h. get (lk_between lk h) = get h"
  shows "session_same get s (fst (reset_node sha c r lk n s))"
  unfolding reset_node_def
  by (rule session_frame.bind_frame, rule request_same [OF assms])
    (auto simp: session_frame.raise_frame settle_reset_same split: pyval.splits)

lemma reset_each_same:
  assumes "\<And>n h. get (lk_between (lk n) h) = get h"
  shows "hub_same get h (fst (reset_each sha c r lk ns h))"
proof (induction ns arbitrary: h)
  case Nil
  show ?case by (simp add: hub_frame.return_frame)
next
  case (Cons n ns)
  show ?case
    unfolding reset_each.simps
    by (intro hub_frame.bind_frame operation_same reset_node_same hub_frame.return_frame Cons.IH assms)
qed

lemma reset_client_traffic_same:
  assumes "\<And>n h. get (lk_between (lk n) h) = get h"
  shows "hub_same get h (fst (reset_client_traffic sha c r lk h))"
  using reset_each_same [OF assms, of h sha c _ "\<lambda>n. n"] reset_each_same [OF assms]
  by (auto simp: reset_client_traffic_def hub_frame.R_refl split: pyval.splits sum.splits)

end

interpretation managed_part: unmetered hb_managed
  by unfold_locales simp_all

interpretation account_part: unmetered "\<lambda>h. st_admins (hb_store h)"
  by unfold_locales simp_all

section \<open>The panel\<close>

text \<open>
  The columns \<open>f\<close> of the management row of \<open>c\<close> and its row in the core stay, and no management
  row appears or disappears.
\<close>

definition names :: "panel \<Rightarrow> string list" where
  "names p = map mc_email (hb_managed (pa_hub p))"

definition watched :: "(managed_row \<Rightarrow> 'a) \<Rightarrow> string \<Rightarrow> panel \<Rightarrow> panel \<Rightarrow> bool" where
  "watched f c p q \<longleftrightarrow> names q = names p \<and> map_option f (managed_of c q) = map_option f (managed_of c p) \<and>
     core_kept c (pa_engine p) (pa_engine q)"

interpretation panel_frame: effect_frame "watched f c" for f c
  by unfold_locales (auto simp: watched_def engine_frame.R_refl intro: engine_frame.R_trans)

lemma watched_weaken: "watched (\<lambda>m. m) c p q \<Longrightarrow> watched f c p q"
  by (auto simp: watched_def option.map_ident)

lemma same_parts_watched:
  assumes "hb_managed (pa_hub q) = hb_managed (pa_hub p)" and "core_kept c (pa_engine p) (pa_engine q)"
  shows "watched f c p q"
  using assms by (simp add: watched_def names_def)

lemma same_panel_watched:
  assumes "hb_managed (pa_hub q) = hb_managed (pa_hub p)" and "eg_clients (pa_engine q) = eg_clients (pa_engine p)"
  shows "watched f c p q"
  using assms by (simp add: same_parts_watched same_clients_kept)

lemma map_modify_key: "(\<And>r. key (g r) = key r) \<Longrightarrow> map key (modify key k g t) = map key t"
  by (induction t) (auto simp: modify_def update_where_def)

text \<open>An update of a row that keeps its key, of another client or outside the columns.\<close>

definition spares :: "(managed_row \<Rightarrow> 'a) \<Rightarrow> string \<Rightarrow> string \<Rightarrow> (managed_row \<Rightarrow> managed_row) \<Rightarrow> bool" where
  "spares f c x g \<longleftrightarrow> (\<forall>m. mc_email (g m) = mc_email m) \<and> (x = c \<longrightarrow> (\<forall>m. f (g m) = f m))"

lemma set_managed_watched: "spares f c x g \<Longrightarrow> watched f c p (set_managed (modify mc_email x g) p)"
  by (auto simp: spares_def watched_def names_def set_managed_def map_modify_key lookup_modify engine_frame.R_refl
      option.map_comp comp_def)

lemma mark_watched: "spares f c x g \<Longrightarrow> watched f c p (fst (mark_row x g p))"
  by (simp add: mark_row_def alter_def set_managed_watched)

lemma set_store_watched: "watched f c p (set_store s p)"
  by (rule same_panel_watched) (simp_all add: set_store_def)

lemma on_store_watched: "watched f c p (fst (on_store m p))"
  by (simp add: on_store_def set_store_watched panel_frame.R_refl split: sum.splits)

lemma audit_watched: "watched f c p (fst (audit w act ow action target detail p))"
  by (rule same_panel_watched) (simp_all add: audit_def alter_def)

lemma fresh_token_watched: "watched f c p (fst (fresh_token w p))"
  by (rule same_panel_watched) (simp_all add: fresh_token_def)

lemma remember_watched: "watched f c p (fst (remember x r p))"
  by (rule same_panel_watched) (simp_all add: remember_def alter_def)

lemma polled_watched: "watched f c p (fst (polled w p))"
  by (rule same_panel_watched) (simp_all add: polled_def alter_def)

lemma on_core_watched:
  assumes "\<And>v e. core_kept c e (fst (m v e))"
  shows "watched f c p (fst (core_op w m p))"
  using assms [of "pa_engine p" "wo_env w (pa_step p)"]
  by (cases "m (wo_env w (pa_step p)) (pa_engine p)") (simp add: core_op_def same_parts_watched)

lemma collect_watched: "watched f c p (fst (core_op w (collect_stats force strict) p))"
  by (rule on_core_watched) (rule collect_kept)

lemma clients_watched: "watched f c p (fst (clients w p))"
  unfolding clients_def by (intro panel_frame.bind_frame collect_watched panel_frame.read_frame)

lemma flush_core_watched: "watched f c p (fst (flush_core w p))"
  unfolding flush_core_def by (rule on_core_watched) (simp add: flush_kept)

lemma set_core_watched:
  "(\<And>rows. kept (lookup cc_email c rows) (lookup cc_email c (g rows))) \<Longrightarrow> watched f c p (set_core g p)"
  by (rule same_parts_watched) (simp_all add: set_core_def core_kept_def)

lemma modify_core_watched:
  assumes "x \<noteq> c" and "\<And>r. cc_email (g r) = cc_email r"
  shows "watched f c p (set_core (modify cc_email x g) p)"
  by (rule set_core_watched) (use assms in \<open>simp add: lookup_modify\<close>)

lemma remote_reset_watched:
  assumes "quiet w"
  shows "watched f c p (fst (remote_reset w x rid p))"
proof (cases "wo_links w")
  case None
  then show ?thesis by (simp add: remote_reset_def panel_frame.R_refl)
next
  case (Some lk)
  then have "hub_same hb_managed (pa_hub p) (fst (reset_client_traffic (wo_sha w) x (PStr rid) (lk (pa_step p)) (pa_hub p)))"
    using assms by (intro managed_part.reset_client_traffic_same) (simp add: quiet_def)
  then show ?thesis
    using Some by (auto simp: remote_reset_def hub_same_def intro!: same_panel_watched split: prod.splits)
qed

subsection \<open>Metering and schedules\<close>

definition charged_columns :: "(managed_row \<Rightarrow> 'a) \<Rightarrow> bool" where
  "charged_columns f \<longleftrightarrow> (\<forall>m i j n. f (m\<lparr>mc_last_up := i, mc_last_down := j, mc_initialized := True, mc_seq := n\<rparr>) = f m)"

lemma charge_write_watched:
  assumes "charge_write w m i j p = Inr (q, u)" and "mc_email m \<noteq> c \<or> charged_columns f"
  shows "watched f c p q"
proof -
  have ledger: "watched f c p p1" if "charge_ledger w x u n a b p = Inr p1" for x u n a b p1
    using that by (auto simp: charge_ledger_def rbind_Inr set_store_watched panel_frame.R_refl split: if_splits option.splits)
  have used: "watched f c q' (write_used x n q')" for q' x n
    by (simp add: write_used_def set_store_watched)
  have row: "watched f c q' (set_managed (modify mc_email (mc_email m) (\<lambda>r. r\<lparr>mc_last_up := i, mc_last_down := j,
      mc_initialized := True, mc_seq := n\<rparr>)) q')" for q' n
    by (rule set_managed_watched) (use assms(2) in \<open>auto simp: spares_def charged_columns_def\<close>)
  show ?thesis
  proof (cases "client_of (mc_email m) (store_of p)")
    case None
    then show ?thesis using assms(1) by (simp add: charge_write_def panel_frame.R_refl)
  next
    case (Some x)
    let ?n = "i + j + remote_usage (mc_email m) (pa_hub p)"
    obtain p1 where p1: "charge_ledger w (mc_email m) x (mc_seq m + 1)
        (counter_growth (mc_last_up m) i) (counter_growth (mc_last_down m) j) p = Inr p1"
      using assms(1) Some by (auto simp: charge_write_def Let_def rbind_Inr)
    define p2 where "p2 = (if ?n \<noteq> cl_used_bytes x then write_used (mc_email m) ?n p1 else p1)"
    have p2: "watched f c p p2"
      using ledger [OF p1] panel_frame.R_trans [OF ledger [OF p1] used] by (simp add: p2_def)
    have "q = p2 \<or> q = set_managed (modify mc_email (mc_email m) (\<lambda>r. r\<lparr>mc_last_up := i, mc_last_down := j,
        mc_initialized := True, mc_seq := mc_seq m + 1\<rparr>)) p2"
      using assms(1) Some p1 by (auto simp: charge_write_def Let_def p2_def split: if_splits)
    then show ?thesis using p2 panel_frame.R_trans [OF p2 row] by blast
  qed
qed

lemma charge_snapshot_watched:
  assumes "mc_email m \<noteq> c \<or> charged_columns f"
  shows "watched f c p (fst (charge_snapshot w m r p))"
proof -
  have "watched f c p (fst (ebind (transaction (charge_write w m i j)) (\<lambda>_.
      when_so b (audit w system_actor ow action target detail)) p))" for i j b ow action target detail
    by (rule panel_frame.bind_frame, rule panel_frame.transaction_frame, erule charge_write_watched, rule assms)
      (rule panel_frame.when_frame, rule audit_watched)
  then show ?thesis
    by (auto simp: charge_snapshot_def Let_def panel_frame.R_refl simp del: ebind.simps split: sum.splits option.splits)
qed

lemma charge_final_watched:
  assumes "x \<noteq> c"
  shows "watched f c p (fst (charge_final w x final p))"
proof (cases "managed_of x p")
  case None
  then show ?thesis by (auto simp: charge_final_def get_meta_def bad_def panel_frame.R_refl split: option.splits)
next
  case (Some m)
  then have "mc_email m \<noteq> c" using assms lookup_Some_mem [of mc_email x _ m] by blast
  then show ?thesis
    using Some by (auto simp: charge_final_def get_meta_def panel_frame.R_refl charge_snapshot_watched split: option.splits)
qed

text \<open>A scheduled reset touches the operation columns of an idle row.\<close>

definition operation_columns :: "(managed_row \<Rightarrow> 'a) \<Rightarrow> bool" where
  "operation_columns f \<longleftrightarrow> (\<forall>m op i s e r a. f (m\<lparr>mc_op := op, mc_op_id := i, mc_state := s, mc_retry := r,
     mc_attempts := a, mc_error := e\<rparr>) = f m)"

definition due_reset :: "string \<Rightarrow> managed_row \<Rightarrow> managed_row" where
  "due_reset tok x = x\<lparr>mc_op := ''reset'', mc_op_id := tok, mc_state := ''pending'', mc_retry := 0, mc_attempts := 0, mc_error := []\<rparr>"

lemma schedule_changeD:
  assumes "schedule_change w now m p = Inr q"
  shows "(\<exists>cs. q = p\<lparr>pa_cycles := cs\<rparr>) \<or>
    (mc_op m = ''none'' \<and> mc_state m = ''applied'' \<and>
     (\<exists>cs tok. q = set_managed (modify mc_email (mc_email m) (due_reset tok)) (p\<lparr>pa_cycles := cs, pa_step := Suc (pa_step p)\<rparr>)))"
proof -
  obtain d spec where spec: "wish m = Inr d" "schedule_spec d = Inr spec"
    using assms by (auto simp: schedule_change_def Let_def rbind_Inr)
  show ?thesis
  proof (cases spec)
    case None
    then show ?thesis using assms spec by (auto simp: schedule_change_def Let_def)
  next
    case (Some s)
    then show ?thesis
      using assms spec unfolding schedule_change_def Let_def fresh_token_def due_reset_def [abs_def]
      by (cases s) (auto simp: rbind_Inr split: if_splits)
  qed
qed

lemma schedule_change_watched:
  assumes "schedule_change w now m p = Inr q" and "mc_email m \<noteq> c \<or> operation_columns f \<or> mc_op m \<noteq> ''none''"
  shows "watched f c p q"
  using schedule_changeD [OF assms(1)]
proof (elim disjE exE conjE)
  show "watched f c p q" if "q = p\<lparr>pa_cycles := cs\<rparr>" for cs
    unfolding that by (rule same_panel_watched) simp_all
next
  fix cs tok
  assume q: "q = set_managed (modify mc_email (mc_email m) (due_reset tok)) (p\<lparr>pa_cycles := cs, pa_step := Suc (pa_step p)\<rparr>)"
    and "mc_op m = ''none''"
  then have "spares f c (mc_email m) (due_reset tok)"
    using assms(2) by (auto simp: spares_def operation_columns_def due_reset_def)
  moreover have "watched f c p (p\<lparr>pa_cycles := cs, pa_step := Suc (pa_step p)\<rparr>)" by (rule same_panel_watched) simp_all
  ultimately show "watched f c p q" unfolding q by (blast intro: panel_frame.R_trans set_managed_watched)
qed

lemma schedule_all_watched:
  assumes "schedule_all w now ms p = Inr (q, u)"
    and "\<And>m. m \<in> set ms \<Longrightarrow> mc_email m \<noteq> c \<or> operation_columns f \<or> mc_op m \<noteq> ''none''"
  shows "watched f c p q"
  using assms
proof (induction ms arbitrary: p)
  case Nil
  then show ?case by (simp add: panel_frame.R_refl)
next
  case (Cons m ms)
  then obtain p1 where "schedule_change w now m p = Inr p1" "schedule_all w now ms p1 = Inr (q, u)"
    by (auto simp: rbind_Inr)
  moreover have "watched f c p p1"
    by (rule schedule_change_watched [OF calculation(1)]) (rule Cons.prems(2), simp)
  moreover have "watched f c p1 q"
    by (rule Cons.IH [OF calculation(2)]) (rule Cons.prems(2), simp)
  ultimately show ?case by (blast intro: panel_frame.R_trans)
qed

lemma schedule_cycles_watched:
  assumes "\<And>m. m \<in> set (live_metas p) \<Longrightarrow> mc_email m \<noteq> c \<or> operation_columns f \<or> mc_op m \<noteq> ''none''"
  shows "watched f c p (fst (schedule_cycles w emails p))"
proof -
  have "watched f c p (fst (transaction (schedule_all w now (filter P (live_metas p))) p))" for now P
    by (rule panel_frame.transaction_frame, erule schedule_all_watched, rule assms) simp
  then show ?thesis by (simp add: schedule_cycles_def Let_def panel_frame.R_refl)
qed

lemma complete_cycle_watched: "watched f c p (fst (complete_cycle w x p))"
  unfolding complete_cycle_def
proof (rule panel_frame.transaction_frame)
  fix t u
  assume "(case lookup cy_email x (pa_cycles p) of
         None \<Rightarrow> Inr (p, ())
       | Some r \<Rightarrow>
           if clock w p < cy_next r then Inr (p, ())
           else rbind (following_cycle w r (clock w p)) (\<lambda>due.
                Inr (p\<lparr>pa_cycles := modify cy_email x
                       (\<lambda>r. r\<lparr>cy_next := due, cy_completed := cy_completed r + 1\<rparr>) (pa_cycles p)\<rparr>, ()))) = Inr (t, u)"
  then have "pa_hub t = pa_hub p \<and> pa_engine t = pa_engine p"
    by (auto simp: rbind_Inr split: option.splits if_splits)
  then show "watched f c p t" by (intro same_panel_watched) simp_all
qed

subsection \<open>Operations on another client\<close>

lemma core_create_watched: "watched f c p (fst (core_create d ids p))"
  unfolding core_create_def core_writes_def
  by (rule panel_frame.bind_frame, rule panel_frame.read_frame)
    (auto simp: panel_frame.R_refl rbind_Inr insert_pk_def has_key_def lookup_append
      intro!: same_parts_watched split: pyval.splits option.splits sum.splits
      simp: set_core_def core_kept_def)

lemma client_detail_watched: "watched f c p (fst (client_detail x p))"
  by (simp add: client_detail_def panel_frame.R_refl)

lemma core_update_watched:
  assumes "x \<noteq> c"
  shows "watched f c p (fst (core_update x d p))"
proof -
  have "watched f c q (fst ((if b then raise e else alter (set_core (modify cc_email x (\<lambda>r. r\<lparr>cc_body := y\<rparr>)))) q))"
    for b and e :: err and y q
    by (auto simp: panel_frame.raise_frame alter_def intro!: modify_core_watched assms)
  then show ?thesis
    unfolding core_update_def core_writes_def
    by (intro panel_frame.bind_frame panel_frame.read_frame client_detail_watched)
qed

lemma upsert_row_kept:
  "fst item \<noteq> c \<Longrightarrow> lookup cc_email c (upsert_row item rows) = lookup cc_email c rows"
  by (cases item) (simp add: upsert_row_def Let_def lookup_upsert)

lemma fold_upsert_kept:
  "\<forall>i \<in> set items. fst i \<noteq> c \<Longrightarrow> lookup cc_email c (fold upsert_row items rows) = lookup cc_email c rows"
  by (induction items arbitrary: rows) (simp_all add: upsert_row_kept)

lemma upsert_many_watched:
  assumes "\<forall>i \<in> set items. fst i \<noteq> c"
  shows "watched f c p (fst (upsert_many items p))"
  unfolding upsert_many_def core_writes_def
  by (intro panel_frame.bind_frame panel_frame.read_frame panel_frame.alter_frame set_core_watched)
    (simp_all add: panel_frame.R_refl fold_upsert_kept [OF assms])

lemma core_delete_watched:
  assumes "x \<noteq> c"
  shows "watched f c p (fst (core_delete w x p))"
  unfolding core_delete_def core_writes_def
proof (intro panel_frame.bind_frame panel_frame.read_frame collect_watched)
  fix t
  have "hb_managed (pa_hub (drop_core w x t)) = hb_managed (pa_hub t)"
    and "core_of c (drop_core w x t) = core_of c t"
    using assms by (auto simp: drop_core_def Let_def set_core_def lookup_remove_key split: option.splits)
  then show "watched f c t (fst (drop_core w x t, Inr (map_option record_of (core_of x t))))"
    by (intro same_parts_watched) (simp_all add: core_kept_def)
qed

lemma core_ids_watched:
  assumes "x \<noteq> c"
  shows "watched f c p (fst (core_attach x ids p))" and "watched f c p (fst (core_detach x ids p))"
  unfolding core_attach_def core_detach_def core_writes_def Let_def
  by (intro panel_frame.bind_frame panel_frame.read_frame client_detail_watched panel_frame.alter_frame
      modify_core_watched assms, simp)+

lemma core_reset_watched:
  assumes "x \<noteq> c"
  shows "watched f c p (fst (core_reset w x p))"
  unfolding core_reset_def
  by (intro panel_frame.bind_frame panel_frame.read_frame on_core_watched reset_counters_kept assms)

lemma simple_spares [simp]:
  "x \<noteq> c \<Longrightarrow> spares f c x (settled w p)"
  "x \<noteq> c \<Longrightarrow> spares f c x (\<lambda>m. m\<lparr>mc_state := s\<rparr>)"
  "x \<noteq> c \<Longrightarrow> spares f c x (\<lambda>m. m\<lparr>mc_expected := b\<rparr>)"
  "x \<noteq> c \<Longrightarrow> spares f c x (\<lambda>m. m\<lparr>mc_external := True\<rparr>)"
  "x \<noteq> c \<Longrightarrow> spares f c x (\<lambda>m. m\<lparr>mc_state := s, mc_error := e\<rparr>)"
  "x \<noteq> c \<Longrightarrow> spares f c x (\<lambda>m. m\<lparr>mc_last_up := i, mc_last_down := j\<rparr>)"
  by (simp_all add: spares_def settled_def)

lemma apply_delete_watched:
  assumes "quiet w" and "mc_email m \<noteq> c"
  shows "watched f c p (fst (apply_delete w m sub existing p))"
proof -
  have final: "watched f c q (fst ((case existing of
        Some r \<Rightarrow> ebind (of_res (refuse_other sub r e1)) (\<lambda>_. core_delete w (mc_email m))
      | None \<Rightarrow> (\<lambda>p. case deleted_snapshot (mc_email m) p of
            None \<Rightarrow> (p, Inr None)
          | Some r \<Rightarrow> (p, rbind (refuse_other sub r e2) (\<lambda>_. Inr (Some r))))) q))" for e1 e2 q
    by (cases existing) (auto simp: panel_frame.R_refl panel_frame.read_frame core_delete_watched assms simp del: ebind.simps
        intro!: panel_frame.bind_frame split: option.splits)
  have policy: "watched f c q (fst (if client_of (mc_email m) (store_of q) = None then (q, Inr ())
      else on_store (delete_client system_actor (mc_email m)) q))" for q
    by (simp add: panel_frame.R_refl on_store_watched)
  have bury: "watched f c q (bury w (mc_email m) q)" for q
  proof -
    have "watched f c q (q\<lparr>pa_cycles := cs\<rparr>)" for cs by (rule same_panel_watched) simp_all
    then show ?thesis
      unfolding bury_def
      by (rule panel_frame.R_trans) (rule set_managed_watched, use assms in \<open>simp add: spares_def settled_def\<close>)
  qed
  show ?thesis
    unfolding apply_delete_def Let_def
    by (intro panel_frame.bind_frame remote_reset_watched assms final charge_final_watched policy panel_frame.alter_frame bury)
qed

lemma zero_usage_watched:
  assumes "x \<noteq> c"
  shows "watched f c p (zero_usage x p)"
proof -
  let ?q = "set_managed (modify mc_email x (\<lambda>m. m\<lparr>mc_last_up := 0, mc_last_down := 0\<rparr>)) (write_used x 0 p)"
  have "watched f c p ?q"
    unfolding write_used_def using assms
    by (blast intro: panel_frame.R_trans [OF set_store_watched set_managed_watched] simple_spares)
  moreover have "watched f c ?q (zero_usage x p)"
    by (rule same_panel_watched) (simp_all add: zero_usage_def Let_def)
  ultimately show ?thesis by (rule panel_frame.R_trans)
qed

lemma apply_reset_watched:
  assumes "quiet w" and "mc_email m \<noteq> c"
  shows "watched f c p (fst (apply_reset w m existing p))"
  unfolding apply_reset_def Let_def
  by (intro panel_frame.bind_frame panel_frame.read_frame mark_watched simple_spares remote_reset_watched core_reset_watched
      charge_final_watched panel_frame.alter_frame zero_usage_watched complete_cycle_watched assms)

lemma apply_upsert_watched:
  assumes "mc_email m \<noteq> c"
  shows "watched f c p (fst (apply_upsert w m d ids existing p))"
proof -
  have "watched f c q (fst ((case existing of
        None \<Rightarrow> core_create x ids
      | Some r \<Rightarrow>
          ebind (of_res (refuse_other sub r e)) (\<lambda>_.
          ebind (core_update (mc_email m) x) (\<lambda>_.
          let more = missing_from ids (record_ids r); less = missing_from (record_ids r) ids in
          ebind (when_so (more \<noteq> []) (core_attach (mc_email m) more)) (\<lambda>_.
          when_so (less \<noteq> []) (core_detach (mc_email m) less))))) q))" for x sub e q
    by (cases existing)
      (auto simp: Let_def core_create_watched simp del: ebind.simps
        intro!: panel_frame.bind_frame panel_frame.read_frame core_update_watched core_ids_watched panel_frame.when_frame assms)
  then show ?thesis
    unfolding apply_upsert_def Let_def
    by (intro panel_frame.bind_frame panel_frame.read_frame mark_watched simple_spares assms)
qed

lemma finish_operation_watched: "x \<noteq> c \<Longrightarrow> watched f c p (fst (finish_operation w x p))"
  by (simp add: finish_operation_def alter_def set_managed_watched)

lemma apply_operation_watched:
  assumes "quiet w" and "mc_email m \<noteq> c"
  shows "watched f c p (fst (apply_operation w records m p))"
proof -
  have "watched f c q (fst ((if mc_op m = ''delete'' then apply_delete w m sub existing
      else ebind (if mc_op m = ''reset'' then apply_reset w m existing
                  else if mc_op m = ''upsert'' then apply_upsert w m d ids existing else return ()) (\<lambda>_.
           finish_operation w (mc_email m))) q))" for q sub existing d ids
    by (auto simp: apply_delete_watched apply_reset_watched apply_upsert_watched finish_operation_watched assms
        panel_frame.return_frame intro!: panel_frame.bind_frame simp del: ebind.simps)
  then show ?thesis
    unfolding apply_operation_def Let_def by (intro panel_frame.bind_frame panel_frame.read_frame)
qed

end
