(* ===== verification/Manager_Safety.thy ===== *)
theory Manager_Safety
  imports Manager_Frames
begin

text \<open>
  What a tick of the Manager leaves alone: a client whose identity in the core is not the one the
  panel created, and a client whose reset has an unknown outcome.
\<close>

section \<open>The passes of a tick\<close>

lemma mark_failure_watched: "mc_email m \<noteq> c \<Longrightarrow> watched f c p (fst (mark_failure w m ex p))"
  by (simp add: mark_failure_def alter_def set_managed_watched spares_def)

lemma guarded_watched:
  assumes "mc_email m \<noteq> c" and "watched f c p (fst (body p))"
  shows "watched f c p (fst (attempted w m failed body p))"
  unfolding attempted_def
  by (intro panel_frame.catch_frame panel_frame.bind_frame panel_frame.return_frame mark_failure_watched assms)

definition safe_item :: "string \<Rightarrow> pending \<Rightarrow> bool" where
  "safe_item c x \<longleftrightarrow> mc_email (fst x) \<noteq> c \<and> fst (snd (snd x)) \<noteq> c"

definition parked :: "managed_row \<Rightarrow> bool" where
  "parked m \<longleftrightarrow> mc_state m \<in> {''uncertain'', ''conflict''}"

lemma pending_item_safe: "pending_item w records m p = Inr x \<Longrightarrow> mc_email m \<noteq> c \<Longrightarrow> safe_item c x"
  by (auto simp: pending_item_def rbind_Inr Let_def safe_item_def)

lemma tick_pending_watched:
  assumes "quiet w" and "mc_email m \<noteq> c \<or> parked m"
  shows "watched f c p (fst (tick_pending w records m acc p))"
proof (cases "skipped w m p")
  case True
  then show ?thesis by (simp add: tick_pending_def panel_frame.R_refl)
next
  case False
  with assms(2) have other: "mc_email m \<noteq> c" by (auto simp: skipped_def parked_def)
  have failure: "watched f c p (fst (ebind (mark_failure w m e) (\<lambda>_. return a) p))" for e and a :: "bool \<times> pending list"
    by (intro panel_frame.bind_frame panel_frame.return_frame mark_failure_watched other)
  have run: "watched f c p (fst (attempted w m acc (ebind (apply_operation w records m) (\<lambda>_. return (True, snd acc))) p))"
    by (intro guarded_watched panel_frame.bind_frame panel_frame.return_frame apply_operation_watched other assms(1))
  show ?thesis
    using False run failure
    by (auto simp: tick_pending_def panel_frame.R_refl simp del: ebind.simps split: sum.splits)
qed

lemma tick_pending_safe:
  assumes "tick_pending w records m acc p = (q, Inr acc')" and "mc_email m \<noteq> c \<or> parked m"
    and "\<forall>x \<in> set (snd acc). safe_item c x"
  shows "\<forall>x \<in> set (snd acc'). safe_item c x"
proof (cases "skipped w m p")
  case True
  then show ?thesis using assms by (simp add: tick_pending_def)
next
  case False
  with assms(2) have other: "mc_email m \<noteq> c" by (auto simp: skipped_def parked_def)
  have "snd acc' = snd acc \<or> (\<exists>x. pending_item w records m p = Inr x \<and> snd acc' = snd acc @ [x])"
    using assms(1) False
    by (auto simp: tick_pending_def attempted_def return_def split: if_splits sum.splits prod.splits)
  then show ?thesis using assms(3) pending_item_safe [OF _ other] by auto
qed

lemma pass_two:
  assumes "quiet w" and "\<forall>m \<in> set ms. mc_email m \<noteq> c \<or> parked m" and "\<forall>x \<in> set (snd acc). safe_item c x"
  shows "watched f c p (fst (efold (tick_pending w records) ms acc p))"
    and "efold (tick_pending w records) ms acc p = (q, Inr acc') \<Longrightarrow> \<forall>x \<in> set (snd acc'). safe_item c x"
proof -
  show "watched f c p (fst (efold (tick_pending w records) ms acc p))"
    by (rule panel_frame.fold_frame) (use assms in \<open>simp add: tick_pending_watched\<close>)
  show "efold (tick_pending w records) ms acc p = (q, Inr acc') \<Longrightarrow> \<forall>x \<in> set (snd acc'). safe_item c x"
    using assms(2,3)
  proof (induction ms arbitrary: acc p)
    case Nil
    then show ?case by (simp add: return_def)
  next
    case (Cons m ms)
    from bindD [OF Cons.prems(1) [unfolded efold.simps]] obtain p1 acc1 where
      one: "tick_pending w records m acc p = (p1, Inr acc1)" and rest: "efold (tick_pending w records) ms acc1 p1 = (q, Inr acc')"
      by blast
    have "\<forall>x \<in> set (snd acc1). safe_item c x"
      by (rule tick_pending_safe [OF one]) (use Cons.prems in auto)
    then show ?case using Cons.IH [OF rest] Cons.prems(2) by simp
  qed
qed

lemma set_managed_fold: "set_managed (fold g (x # xs)) p = set_managed (fold g xs) (set_managed (g x) p)"
  by (simp add: set_managed_def)

lemma finish_batch_watched:
  assumes "\<forall>x \<in> set batch. safe_item c x"
  shows "watched f c p (finish_batch w batch p)"
proof -
  define g where "g = (\<lambda>r (m :: managed_row, enabled, item :: upsert_item). modify mc_email (mc_email m)
       (\<lambda>x. (settled w r x)\<lparr>mc_expected := Some enabled\<rparr>))"
  have one: "watched f c q (set_managed (g r x) q)" if "safe_item c x" for r x q
    using that by (cases x) (auto simp: g_def safe_item_def spares_def settled_def intro!: set_managed_watched)
  have "watched f c p (set_managed (fold (g r) batch) p)" for r
    using assms
  proof (induction batch arbitrary: p)
    case Nil
    then show ?case by (simp add: same_panel_watched set_managed_def)
  next
    case (Cons x batch)
    then show ?case unfolding set_managed_fold by (auto intro: panel_frame.R_trans [OF one])
  qed
  then show ?thesis by (simp add: finish_batch_def g_def)
qed

lemma tick_batch_watched:
  assumes "quiet w" and "\<forall>x \<in> set batch. safe_item c x"
  shows "watched f c p (fst (tick_batch w records changed batch p))"
proof -
  have batch: "watched f c p (fst (ebind (upsert_many (map (\<lambda>(m, enabled, item). item) batch)) (\<lambda>_.
      ebind (alter (finish_batch w batch)) (\<lambda>_. return True)) p))"
    by (intro panel_frame.bind_frame panel_frame.alter_frame panel_frame.return_frame upsert_many_watched
        finish_batch_watched assms(2)) (use assms(2) in \<open>auto simp: safe_item_def\<close>)
  have single: "watched f c q (fst (efold (\<lambda>(m, enabled, item) ch.
      attempted w m ch (ebind (apply_operation w records m) (\<lambda>_. return True))) batch changed q))" for q
    by (rule panel_frame.fold_frame)
      (use assms in \<open>auto simp: safe_item_def intro!: guarded_watched panel_frame.bind_frame panel_frame.return_frame
        apply_operation_watched simp del: ebind.simps\<close>)
  show ?thesis
    unfolding tick_batch_def
    by (rule panel_frame.if_frame, rule panel_frame.return_frame, rule panel_frame.catch_frame, rule batch) (rule single)
qed

lemma settle_client_watched:
  assumes "mc_email m \<noteq> c"
  shows "watched f c p (fst (settle_client w m r p))"
proof -
  let ?c = "mc_email m"
  have charge: "watched f c q (fst (case get_meta ?c q of Inl ex \<Rightarrow> (q, Inl ex) | Inr x \<Rightarrow> charge_snapshot w x r q))" for q
    using charge_final_watched [OF assms, of f q w "Some r"] by (simp add: charge_final_def)
  have send: "watched f c q (fst ((if b then ebind (core_update ?c d) (\<lambda>_. return y) q else (q, Inr z))))"
    for b d q and y z :: dict
    by (auto simp: panel_frame.R_refl intro!: panel_frame.bind_frame panel_frame.return_frame core_update_watched assms
        simp del: ebind.simps)
  have quota: "watched f c q (fst (settle_quota w ?c row n r q))" for row n q
    unfolding settle_quota_def
    by (cases row) (auto simp: panel_frame.return_frame on_store_watched audit_watched send simp del: ebind.simps catch_if.simps
        intro!: panel_frame.catch_frame panel_frame.bind_frame panel_frame.return_frame on_store_watched audit_watched send)
  have expiry: "watched f c q (fst (settle_expiry ?c row n q))" for row n q
    unfolding settle_expiry_def by (intro panel_frame.when_frame panel_frame.alter_frame set_store_watched)
  have enable: "watched f c q (fst (settle_enable w m y q))" for y q
    unfolding settle_enable_def Let_def
    by (intro panel_frame.bind_frame panel_frame.read_frame panel_frame.when_frame mark_watched simple_spares assms send
        remember_watched)
  show ?thesis
    unfolding settle_client_def Let_def case_prod_beta
    by (intro panel_frame.bind_frame panel_frame.read_frame panel_frame.when_frame mark_watched simple_spares assms charge
        quota expiry enable)
qed

lemma tick_settle_watched:
  "mc_email m \<noteq> c \<or> parked m \<or> mc_op m \<noteq> ''none'' \<Longrightarrow> watched f c p (fst (tick_settle w records m p))"
  by (auto simp: tick_settle_def parked_def panel_frame.return_frame settle_client_watched split: option.splits)

text \<open>The rows of the table have distinct keys, and \<open>c\<close>'s row takes no part in a manager_tick.\<close>

definition dormant :: "managed_row \<Rightarrow> bool" where
  "dormant m \<longleftrightarrow> parked m \<or> mc_state m = ''deleted''"

definition dormant_at :: "string \<Rightarrow> panel \<Rightarrow> bool" where
  "dormant_at c p \<longleftrightarrow> (\<forall>m. managed_of c p = Some m \<longrightarrow> dormant m)"

definition parked_row :: "string \<Rightarrow> panel \<Rightarrow> bool" where
  "parked_row c p \<longleftrightarrow> distinct (names p) \<and> dormant_at c p"

lemma watched_parked: "watched (\<lambda>m. m) c p q \<Longrightarrow> parked_row c p \<Longrightarrow> parked_row c q"
  by (auto simp: watched_def parked_row_def dormant_at_def option.map_ident)

lemma live_metas_row:
  assumes "m \<in> set (live_metas p)" and "distinct (names p)"
  shows "managed_of (mc_email m) p = Some m \<and> mc_state m \<noteq> ''deleted''"
  using assms by (simp add: live_metas_def names_def lookup_eq_Some_iff pk_def)

lemma tick_rest_watched:
  assumes "quiet w" and "\<forall>m \<in> set metas. mc_email m \<noteq> c \<or> parked m" and "parked_row c p"
  shows "watched (\<lambda>m. m) c p (fst (tick_rest w rows metas p))"
  unfolding tick_rest_def case_prod_beta
proof (rule panel_frame.bind_frame, goal_cases)
  case 1
  show ?case by (rule pass_two(1)) (use assms in simp_all)
next
  case (2 p1 acc)
  have safe: "\<forall>x \<in> set (snd acc). safe_item c x"
    by (rule pass_two(2) [OF assms(1,2) _ 2(1)]) simp
  have row1: "parked_row c p1" using watched_parked [OF 2(2) assms(3)] .
  show ?case
  proof (rule panel_frame.bind_frame, goal_cases)
    case 1
    show ?case by (rule tick_batch_watched [OF assms(1) safe])
  next
    case (2 p2 changed)
    have row2: "parked_row c p2" using watched_parked [OF 2(2) row1] .
    show ?case
    proof (rule panel_frame.bind_frame, goal_cases)
      case 1
      show ?case by (auto simp: clients_watched panel_frame.return_frame)
    next
      case (2 p3 rows')
      have row3: "parked_row c p3" using watched_parked [OF 2(2) row2] .
      show ?case
      proof (rule panel_frame.bind_frame, goal_cases)
        case 1
        show ?case by (auto simp: panel_frame.read_frame panel_frame.return_frame)
      next
        case (2 p4 metas')
        have "p4 = p3 \<and> (metas' = metas \<or> metas' = live_metas p3)"
          using 2(1) by (auto simp: peek_def return_def split: if_splits)
        then have ms: "\<forall>m \<in> set metas'. mc_email m \<noteq> c \<or> parked m"
          using assms(2) row3 live_metas_row [of _ p3] by (auto simp: parked_row_def dormant_at_def dormant_def)
        show ?case
        proof (intro panel_frame.bind_frame flush_core_watched polled_watched panel_frame.fold_frame tick_settle_watched, goal_cases)
          case 1
          show ?case by (rule panel_frame.alter_frame, rule same_panel_watched) simp_all
        next
          case (2 t u m a s)
          then show ?case using ms by blast
        qed
      qed
    qed
  qed
qed

section \<open>The first pass\<close>

lemma tick_meterD:
  assumes "tick_meter w rows m p = (q, Inr m')"
  shows "m' = m \<or> m' = m\<lparr>mc_state := ''conflict''\<rparr> \<or> mc_op m = ''none'' \<and> m' = m\<lparr>mc_state := ''missing''\<rparr>"
  using assms by (auto simp: tick_meter_def Let_def return_def split: option.splits prod.splits sum.splits if_splits)

lemma emap_all2:
  assumes "emap f xs s = (t, Inr ys)" and "\<And>x y s t. x \<in> set xs \<Longrightarrow> f x s = (t, Inr y) \<Longrightarrow> Q x y"
  shows "list_all2 Q xs ys"
  using assms
proof (induction xs arbitrary: s ys)
  case Nil
  then show ?case by (simp add: return_def)
next
  case (Cons x xs)
  from bindD [OF Cons.prems(1) [unfolded emap.simps]] obtain s1 y where
    one: "f x s = (s1, Inr y)" and rest: "ebind (emap f xs) (\<lambda>ys. return (y # ys)) s1 = (t, Inr ys)"
    by blast
  from bindD [OF rest] obtain zs where "emap f xs s1 = (t, Inr zs)" "ys = y # zs"
    by (auto simp: return_def)
  with Cons.IH [of s1 zs] Cons.prems(2) one show ?case by auto
qed

lemma tick_meter_watched:
  assumes "mc_email m \<noteq> c \<or> mc_op m \<noteq> ''none'' \<and> charged_columns f \<or>
      (\<exists>r d. map_of rows c = Some r \<and> wish m = Inr d \<and> pyget r ''subId'' \<noteq> pyget d ''subId'')"
    and "mc_email m \<noteq> c \<or> (\<forall>x s e. f (x\<lparr>mc_state := s, mc_error := e\<rparr>) = f x)"
  shows "watched f c p (fst (tick_meter w rows m p))"
proof -
  have marks: "watched f c p (fst (ebind (mark_row (mc_email m) (\<lambda>x. x\<lparr>mc_state := s, mc_error := e\<rparr>)) (\<lambda>_. return y) p))"
    for s e and y :: managed_row
    by (intro panel_frame.bind_frame panel_frame.return_frame mark_watched) (use assms(2) in \<open>auto simp: spares_def\<close>)
  have charge: "watched f c p (fst (ebind (charge_snapshot w m r) (\<lambda>_. return y) p))"
    if "mc_email m \<noteq> c \<or> charged_columns f" for r and y :: managed_row
    by (intro panel_frame.bind_frame panel_frame.return_frame charge_snapshot_watched that)
  show ?thesis
  proof (cases "map_of rows (mc_email m)")
    case None
    then show ?thesis using marks by (auto simp: tick_meter_def Let_def panel_frame.return_frame simp del: ebind.simps)
  next
    case (Some r)
    show ?thesis
    proof (cases "wish m")
      case (Inl e)
      then show ?thesis using Some by (simp add: tick_meter_def Let_def of_res_def panel_frame.R_refl)
    next
      case (Inr d)
      have "tick_meter w rows m p =
        (if pyget r ''subId'' \<noteq> pyget d ''subId''
         then ebind (mark_row (mc_email m) (\<lambda>x. x\<lparr>mc_state := ''conflict'', mc_error := identity_changed\<rparr>)) (\<lambda>_.
              return (m\<lparr>mc_state := ''conflict''\<rparr>)) p
         else ebind (charge_snapshot w m r) (\<lambda>_. return m) p)"
        using Some Inr by (simp add: tick_meter_def Let_def of_res_def)
      then show ?thesis
        using marks charge assms(1) Some Inr
        by (cases "mc_email m = c"; cases "pyget r ''subId'' = pyget d ''subId''") (simp_all del: ebind.simps pyget.simps)
    qed
  qed
qed

text \<open>What \<open>clients\<close> reports of a client.\<close>

lemma lookup_filter: "lookup key k xs = (case filter (\<lambda>x. key x = k) xs of [] \<Rightarrow> None | x # _ \<Rightarrow> Some x)"
  by (induction xs) auto

lemma lookup_sort: "lookup key k (sort_key key xs) = lookup key k xs"
  by (simp add: lookup_filter sort_key_stable)

lemma map_of_pairs: "map_of (map (\<lambda>x. (key x, f x)) xs) k = map_option f (lookup key k xs)"
  by (induction xs) auto

lemma clients_rows:
  assumes "clients w p = (q, Inr rows)"
  shows "map_of rows c = map_option record_of (core_of c q)"
proof -
  from bindD [OF assms [unfolded clients_def]] obtain q' where
    "(\<lambda>p. map (\<lambda>c. (cc_email c, record_of c)) (sort_key cc_email (eg_clients (pa_engine p)))) q' = rows" "q = q'"
    by (auto simp: peek_def)
  then have "rows = map (\<lambda>c. (cc_email c, record_of c)) (sort_key cc_email (eg_clients (pa_engine q)))" by simp
  then show ?thesis by (simp only: map_of_pairs lookup_sort)
qed

section \<open>A client that is not ours\<close>

definition foreign :: "string \<Rightarrow> panel \<Rightarrow> bool" where
  "foreign c p \<longleftrightarrow>
     (case (managed_of c p, core_of c p) of
        (Some m, Some r) \<Rightarrow> (case wish m of Inr d \<Rightarrow> pyget (body_of r) ''subId'' \<noteq> pyget d ''subId'' | Inl _ \<Rightarrow> False)
      | _ \<Rightarrow> False)"

definition identity_of :: "managed_row \<Rightarrow> pyval option \<times> pyval option \<times> int \<times> int \<times> int \<times> string" where
  "identity_of m = (mc_desired m, mc_inbounds m, mc_last_up m, mc_last_down m, mc_seq m, mc_token m)"

lemma identity_columns: "operation_columns identity_of" "identity_of (x\<lparr>mc_state := s, mc_error := e\<rparr>) = identity_of x"
  by (simp_all add: operation_columns_def identity_of_def)

lemma foreignD:
  assumes "foreign c p"
  obtains m r d where "managed_of c p = Some m" and "core_of c p = Some r" and "wish m = Inr d"
    and "pyget (record_of r) ''subId'' \<noteq> pyget d ''subId''"
  using assms that by (auto simp: foreign_def record_field simp del: pyget.simps split: option.splits sum.splits)

lemma watched_foreign: "watched identity_of c p q \<Longrightarrow> foreign c p \<Longrightarrow> foreign c q"
  by (auto simp: watched_def foreign_def core_kept_def identity_of_def wish_def body_of_def simp del: pyget.simps
      split: option.splits sum.splits)

lemma pass_one_parks:
  assumes "emap (tick_meter w rows) ms p = (q, Inr ms')" and "c \<in> mc_email ` set ms \<or> dormant_at c p"
    and "\<And>m. m \<in> set ms \<Longrightarrow> mc_email m = c \<Longrightarrow>
      (\<exists>r d. map_of rows c = Some r \<and> wish m = Inr d \<and> pyget r ''subId'' \<noteq> pyget d ''subId'')"
  shows "dormant_at c q"
  using assms
proof (induction ms arbitrary: p ms')
  case Nil
  then show ?case by (simp add: return_def)
next
  case (Cons m ms)
  from bindD [OF Cons.prems(1) [unfolded emap.simps]] obtain p1 m1 where
    one: "tick_meter w rows m p = (p1, Inr m1)" and rest: "ebind (emap (tick_meter w rows) ms) (\<lambda>ys. return (m1 # ys)) p1 = (q, Inr ms')"
    by blast
  from bindD [OF rest] obtain zs where tail: "emap (tick_meter w rows) ms p1 = (q, Inr zs)"
    by (auto simp: return_def)
  have "c \<in> mc_email ` set ms \<or> dormant_at c p1"
  proof (cases "mc_email m = c")
    case True
    then obtain r d where "map_of rows c = Some r" "wish m = Inr d" "pyget r ''subId'' \<noteq> pyget d ''subId''"
      using Cons.prems(3) by fastforce
    with one True have "p1 = set_managed (modify mc_email c (\<lambda>x. x\<lparr>mc_state := ''conflict'', mc_error := identity_changed\<rparr>)) p"
      by (simp add: tick_meter_def Let_def of_res_def mark_row_def alter_def return_def del: pyget.simps)
    then show ?thesis
      by (auto simp: dormant_at_def dormant_def parked_def set_managed_def lookup_modify)
  next
    case False
    then have "watched (\<lambda>m. m) c p p1" using tick_meter_watched [of m c "\<lambda>m. m" rows p w] one by simp
    then show ?thesis using Cons.prems(2) False by (auto simp: watched_def dormant_at_def option.map_ident)
  qed
  then show ?case using Cons.IH [OF tail] Cons.prems(3) by simp
qed

text \<open>A tick in its two halves.\<close>

lemma tick_stateE:
  assumes "manager_tick w b p = (q, r)"
  obtains s where "fst (tick_body w p) = s" and "q = s \<or> (\<exists>t. q = s\<lparr>pa_last_error := t\<rparr>)"
  using assms that by (auto simp: manager_tick_def split: prod.splits sum.splits)

lemma tick_watched:
  assumes "watched f c p (fst (tick_body w p))"
  shows "watched f c p (fst (manager_tick w b p))"
proof -
  obtain s where "fst (tick_body w p) = s" "fst (manager_tick w b p) = s \<or> (\<exists>t. fst (manager_tick w b p) = s\<lparr>pa_last_error := t\<rparr>)"
    by (metis prod.collapse tick_stateE)
  moreover have "watched f c s (s\<lparr>pa_last_error := t\<rparr>)" for t by (rule same_panel_watched) simp_all
  ultimately show ?thesis using assms panel_frame.R_trans by metis
qed

lemma foreign_tick:
  assumes "quiet w" and "distinct (names p)" and "foreign c p"
  shows "watched identity_of c p (fst (tick_body w p))"
  unfolding tick_body_def
proof (rule panel_frame.bind_frame, goal_cases)
  case 1
  show ?case by (rule schedule_cycles_watched) (simp add: identity_columns)
next
  case (2 p1 u)
  show ?case
  proof (rule panel_frame.bind_frame, goal_cases)
    case 1
    show ?case by (rule clients_watched)
  next
    case (2 p2 rows)
    have steps: "watched identity_of c p p2" using \<open>watched identity_of c p p1\<close> 2(2) by (rule panel_frame.R_trans)
    have names: "distinct (names p2)" using steps assms(2) by (simp add: watched_def)
    obtain m r d where row: "managed_of c p2 = Some m" "core_of c p2 = Some r" "wish m = Inr d"
        "pyget (record_of r) ''subId'' \<noteq> pyget d ''subId''"
      using foreignD [OF watched_foreign [OF steps assms(3)]] by blast
    have rows: "map_of rows c = Some (record_of r)" using clients_rows [OF 2(1), of c] row(2) by simp
    have live: "\<exists>r d. map_of rows c = Some r \<and> wish x = Inr d \<and> pyget r ''subId'' \<noteq> pyget d ''subId''"
      if "x \<in> set (live_metas p2)" "mc_email x = c" for x
      using live_metas_row [OF that(1) names] that(2) row rows by auto
    show ?case
    proof (rule panel_frame.bind_frame, goal_cases)
      case 1
      show ?case by (rule panel_frame.read_frame)
    next
      case (2 p3 metas)
      then have p3: "p3 = p2" "metas = live_metas p2" by (auto simp: peek_def)
      show ?case
      proof (rule panel_frame.bind_frame, goal_cases)
        case 1
        show ?case
          by (rule panel_frame.map_frame, rule tick_meter_watched) (use live p3 in \<open>auto simp: identity_columns\<close>)
      next
        case (2 p4 metas')
        have all: "list_all2 (\<lambda>m m'. mc_email m' = mc_email m \<and> (mc_email m = c \<longrightarrow> parked m')) metas metas'"
        proof (rule emap_all2 [OF 2(1)])
          fix x y s t
          assume x: "x \<in> set metas" and meter: "tick_meter w rows x s = (t, Inr y)"
          from tick_meterD [OF meter] have "mc_email y = mc_email x" by auto
          moreover have "parked y" if c: "mc_email x = c"
          proof -
            obtain r d where "map_of rows c = Some r" "wish x = Inr d" "pyget r ''subId'' \<noteq> pyget d ''subId''"
              using live x c p3 by blast
            then show ?thesis using meter c
              by (auto simp: tick_meter_def Let_def of_res_def mark_row_def alter_def return_def parked_def simp del: pyget.simps)
          qed
          ultimately show "mc_email y = mc_email x \<and> (mc_email x = c \<longrightarrow> parked y)" by blast
        qed
        have "\<forall>m \<in> set metas'. mc_email m \<noteq> c \<or> parked m"
          using all by (induction rule: list_all2_induct) auto
        moreover have "dormant_at c p4"
        proof (rule pass_one_parks [OF 2(1)])
          show "c \<in> mc_email ` set metas \<or> dormant_at c p3"
          proof (cases "mc_state m = ''deleted''")
            case True
            then show ?thesis using row(1) p3 by (simp add: dormant_at_def dormant_def)
          next
            case False
            then have "m \<in> set metas" using row(1) p3 lookup_Some_mem [of mc_email c _ m] by (auto simp: live_metas_def)
            then show ?thesis using lookup_Some_mem [OF row(1)] by (auto simp: image_iff)
          qed
        qed (use live p3 in blast)
        moreover have "distinct (names p4)" using 2(2) names p3 by (simp add: watched_def)
        ultimately show ?case
          using tick_rest_watched [OF assms(1), of metas' c p4 rows] watched_weaken parked_row_def by metis
      qed
    qed
  qed
qed

primrec run_ticks :: "world \<Rightarrow> nat \<Rightarrow> panel \<Rightarrow> panel" where
  "run_ticks w 0 p = p"
| "run_ticks w (Suc n) p = run_ticks w n (fst (manager_tick w True p))"

text \<open>
  C22. A client in the core that carries another subscription identity than the one the panel created
  is never modified, reset, deleted or metered, however often the Manager reconciles: its body and
  inbounds stay, its counters only grow, and the panel's own record of the identity and its
  baselines stay as they were.
\<close>

theorem foreign_identity_untouched:
  assumes "quiet w" and "distinct (names p)" and "foreign c p"
  shows "foreign c (run_ticks w n p) \<and> kept (core_of c p) (core_of c (run_ticks w n p)) \<and>
    map_option identity_of (managed_of c (run_ticks w n p)) = map_option identity_of (managed_of c p)"
proof -
  have "watched identity_of c p (run_ticks w n p)"
    using assms(2,3)
  proof (induction n arbitrary: p)
    case 0
    show ?case by (simp add: panel_frame.R_refl)
  next
    case (Suc n)
    have step: "watched identity_of c p (fst (manager_tick w True p))"
      by (rule tick_watched) (rule foreign_tick [OF assms(1) Suc.prems])
    have "watched identity_of c (fst (manager_tick w True p)) (run_ticks w n (fst (manager_tick w True p)))"
      by (rule Suc.IH) (use step Suc.prems watched_foreign in \<open>auto simp: watched_def\<close>)
    with step show ?case by (simp add: panel_frame.R_trans)
  qed
  then show ?thesis using watched_foreign [OF _ assms(3)] by (simp add: watched_def core_kept_def)
qed

section \<open>A reset with an unknown outcome\<close>

definition parked_at :: "string \<Rightarrow> panel \<Rightarrow> bool" where
  "parked_at c p \<longleftrightarrow> (\<forall>m. managed_of c p = Some m \<longrightarrow> parked m)"

definition doubt_kept :: "string \<Rightarrow> panel \<Rightarrow> panel \<Rightarrow> bool" where
  "doubt_kept c p q \<longleftrightarrow>
     watched (\<lambda>m. (mc_op m, mc_op_id m, mc_desired m)) c p q \<and> (parked_at c p \<longrightarrow> parked_at c q)"

interpretation doubt_frame: effect_frame "doubt_kept c" for c
  by unfold_locales (auto simp: doubt_kept_def intro: panel_frame.R_refl panel_frame.R_trans)

lemma watched_doubt: "watched (\<lambda>m. m) c p q \<Longrightarrow> doubt_kept c p q"
  using watched_weaken by (fastforce simp: doubt_kept_def watched_def parked_at_def option.map_ident)

lemma doubt_meter:
  assumes "mc_email m \<noteq> c \<or> mc_op m \<noteq> ''none''"
  shows "doubt_kept c p (fst (tick_meter w rows m p))"
proof (cases "mc_email m = c")
  case False
  then show ?thesis by (intro watched_doubt tick_meter_watched) simp_all
next
  case True
  have op: "mc_op m \<noteq> ''none''" using assms True by simp
  have charge: "doubt_kept c p (fst (ebind (charge_snapshot w m r) (\<lambda>_. return m) p))" for r
  proof -
    let ?f = "\<lambda>m. (mc_op m, mc_op_id m, mc_desired m, mc_state m)"
    have "watched ?f c p (fst (ebind (charge_snapshot w m r) (\<lambda>_. return m) p))"
      by (intro panel_frame.bind_frame panel_frame.return_frame charge_snapshot_watched) (simp add: charged_columns_def)
    then show ?thesis
      by (cases "managed_of c p"; cases "managed_of c (fst (ebind (charge_snapshot w m r) (\<lambda>_. return m) p))")
        (simp_all add: doubt_kept_def watched_def parked_at_def parked_def del: ebind.simps)
  qed
  have conflict: "doubt_kept c p (set_managed (modify mc_email c (\<lambda>x. x\<lparr>mc_state := ''conflict'', mc_error := e\<rparr>)) p)" for e
    unfolding doubt_kept_def
    by (intro conjI set_managed_watched)
      (auto simp: spares_def parked_at_def parked_def set_managed_def lookup_modify)
  show ?thesis
  proof (cases "map_of rows c")
    case None
    then show ?thesis using True op by (simp add: tick_meter_def Let_def doubt_frame.return_frame)
  next
    case (Some r)
    then show ?thesis
      using True charge conflict
      by (cases "wish m") (auto simp: tick_meter_def Let_def of_res_def mark_row_def alter_def return_def doubt_frame.R_refl
          simp del: pyget.simps)
  qed
qed

definition in_doubt :: "string \<Rightarrow> panel \<Rightarrow> bool" where
  "in_doubt c p \<longleftrightarrow>
     (case managed_of c p of Some m \<Rightarrow> mc_op m = ''reset'' \<and> mc_state m \<in> {''uncertain'', ''conflict''} | None \<Rightarrow> False)"

lemma doubt_tick:
  assumes "quiet w" and "distinct (names p)" and "in_doubt c p"
  shows "doubt_kept c p (fst (tick_body w p))"
proof -
  obtain m where m: "managed_of c p = Some m" "mc_op m = ''reset''" "parked m"
    using assms(3) by (auto simp: in_doubt_def parked_def split: option.splits)
  have row: "managed_of c q = Some m" "distinct (names q)" if "watched (\<lambda>m. m) c p q" for q
    using that m(1) assms(2) by (auto simp: watched_def option.map_ident)
  have live: "x = m" if "watched (\<lambda>m. m) c p q" "x \<in> set (live_metas q)" "mc_email x = c" for q x
    using live_metas_row [OF that(2) row(2) [OF that(1)]] row(1) [OF that(1)] that(3) by simp
  have schedule: "watched (\<lambda>m. m) c p (fst (schedule_cycles w None p))"
    by (rule schedule_cycles_watched) (use live [OF panel_frame.R_refl] m(2) in auto)
  show ?thesis
    unfolding tick_body_def
  proof (rule doubt_frame.bind_frame, goal_cases)
    case 1
    show ?case by (rule watched_doubt) (rule schedule)
  next
    case (2 p1 u)
    have p1: "watched (\<lambda>m. m) c p p1" using schedule 2(1) by simp
    show ?case
    proof (rule doubt_frame.bind_frame, goal_cases)
      case 1
      show ?case by (rule watched_doubt, rule clients_watched)
    next
      case (2 p2 rows)
      have p2: "watched (\<lambda>m. m) c p p2"
        using panel_frame.R_trans [OF p1 clients_watched [of "\<lambda>m. m" c p1 w]] 2(1) by simp
      show ?case
      proof (rule doubt_frame.bind_frame, goal_cases)
        case 1
        show ?case by (rule doubt_frame.read_frame)
      next
        case (2 p3 metas)
        then have p3: "p3 = p2" "metas = live_metas p2" by (auto simp: peek_def)
        have op: "mc_email x \<noteq> c \<or> mc_op x \<noteq> ''none''" if "x \<in> set metas" for x
          using live [OF p2] that m(2) p3 by auto
        show ?case
        proof (rule doubt_frame.bind_frame, goal_cases)
          case 1
          show ?case by (rule doubt_frame.map_frame, rule doubt_meter) (rule op)
        next
          case (2 p4 metas')
          have all: "list_all2 (\<lambda>m m'. mc_email m' = mc_email m \<and> (mc_email m = c \<longrightarrow> parked m')) metas metas'"
          proof (rule emap_all2 [OF 2(1)])
            fix x y s t
            assume x: "x \<in> set metas" and meter: "tick_meter w rows x s = (t, Inr y)"
            from tick_meterD [OF meter] show "mc_email y = mc_email x \<and> (mc_email x = c \<longrightarrow> parked y)"
              using live [OF p2] m(2,3) x p3 by (auto simp: parked_def)
          qed
          have metas': "\<forall>m \<in> set metas'. mc_email m \<noteq> c \<or> parked m"
            using all by (induction rule: list_all2_induct) auto
          have "parked_at c p3" using row(1) [OF p2] m(3) p3 by (simp add: parked_at_def)
          then have "parked_row c p4"
            using 2(2) row(2) [OF p2] p3 by (auto simp: parked_row_def doubt_kept_def watched_def dormant_at_def dormant_def parked_at_def)
          then show ?case by (rule watched_doubt [OF tick_rest_watched [OF assms(1) metas']])
        qed
      qed
    qed
  qed
qed

lemma doubt_stays: "doubt_kept c p q \<Longrightarrow> in_doubt c p \<Longrightarrow> in_doubt c q"
  by (cases "managed_of c p"; cases "managed_of c q")
    (auto simp: doubt_kept_def watched_def in_doubt_def parked_at_def parked_def)

lemma doubt_ticked:
  assumes "quiet w" and "distinct (names p)" and "in_doubt c p"
  shows "doubt_kept c p (fst (manager_tick w b p))"
proof -
  obtain s where s: "fst (tick_body w p) = s" "fst (manager_tick w b p) = s \<or> (\<exists>t. fst (manager_tick w b p) = s\<lparr>pa_last_error := t\<rparr>)"
    by (metis prod.collapse tick_stateE)
  have "doubt_kept c s (s\<lparr>pa_last_error := t\<rparr>)" for t
    by (rule watched_doubt, rule same_panel_watched) simp_all
  then show ?thesis using doubt_tick [OF assms] s doubt_frame.R_trans by metis
qed


section \<open>Examples\<close>

definition sample_world :: world where
  "sample_world = \<lparr>wo_env = (\<lambda>i. sample_env\<lparr>env_now := 100 + real i, env_mono := 100 + real i\<rparr>), wo_sha = (\<lambda>t. t),
     wo_token = (\<lambda>i. ''t'' @ show_nat i), wo_text = (\<lambda>r. ''0''), wo_links = None, wo_month = (\<lambda>t. (2026, 1)),
     wo_midnight = (\<lambda>y m d. of_int (m * 1000 + d))\<rparr>"

definition sample_core :: "string \<Rightarrow> core_client" where
  "sample_core sub = \<lparr>cc_email = ''c'', cc_body = PDict [(''email'', PStr ''c''), (''subId'', PStr sub), (''enable'', PBool True)],
     cc_inbounds = [1], cc_up = 5, cc_down = 7\<rparr>"

definition sample_panel :: panel where
  "sample_panel = \<lparr>pa_hub = metered_hub\<lparr>hb_usage := [], hb_managed := [sample_managed\<lparr>mc_desired := Some (PDict
         [(''email'', PStr ''c''), (''subId'', PStr ''mine''), (''enable'', PBool True)])\<rparr>]\<rparr>,
     pa_engine = sample_engine\<lparr>eg_clients := [sample_core ''mine'']\<rparr>, pa_inbounds = [(1, [(''protocol'', PStr ''vless'')])],
     pa_tombs = [], pa_profiles = [\<lparr>pf_id = ''o'', pf_name = ''Owner'', pf_allowed = [1], pf_prefix = [], pf_ips = 0, pf_hwid = 0\<rparr>],
     pa_cycles = [], pa_groups = [], pa_audit = [], pa_snapshot = [], pa_last_poll = 0, pa_last_error = [], pa_step = 0\<rparr>"

lemma sample_quiet: "quiet sample_world"
  by (simp add: quiet_def sample_world_def)

text \<open>A deletion is pending, but the core now holds somebody else under the name.\<close>

definition foreign_panel :: panel where
  "foreign_panel = set_core (\<lambda>_. [sample_core ''theirs''])
     (set_managed (map (\<lambda>m. m\<lparr>mc_op := ''delete'', mc_state := ''pending''\<rparr>)) sample_panel)"

theorem foreign_identity_untouched_witness:
  "foreign ''c'' (run_ticks sample_world 3 foreign_panel) \<and>
   kept (core_of ''c'' foreign_panel) (core_of ''c'' (run_ticks sample_world 3 foreign_panel)) \<and>
   map_option identity_of (managed_of ''c'' (run_ticks sample_world 3 foreign_panel)) =
     map_option identity_of (managed_of ''c'' foreign_panel)"
proof (rule foreign_identity_untouched [OF sample_quiet])
  show "distinct (names foreign_panel)" by code_simp
  show "foreign ''c'' foreign_panel" by code_simp
qed

definition doubtful_panel :: panel where
  "doubtful_panel = fst (recover_resets (set_managed (map (\<lambda>m. m\<lparr>mc_op := ''reset'', mc_op_id := ''r1'',
     mc_state := ''reset_inflight''\<rparr>)) sample_panel))"


end
