(* ===== verification/Manager_Meters.thy ===== *)
theory Manager_Meters
  imports Manager_Safety
begin

text \<open>
  What the Manager's operations achieve: exact metering of the local core, the calendar of resets,
  the form of accepted clients, the identities that stay reserved, the policy of a created client
  and the progress of a pending one.
\<close>

section \<open>Metering\<close>

definition client_ledger :: "string \<Rightarrow> panel \<Rightarrow> int" where
  "client_ledger c p = ledger_bytes c (pa_hub p)"

lemma charge_ledger_effect:
  assumes "charge_ledger w c u seq du dd p = Inr q"
  shows "client_ledger x q = client_ledger x p + (if x = c then du + dd else 0) \<and>
    hb_managed (pa_hub q) = hb_managed (pa_hub p) \<and> st_clients (store_of q) = st_clients (store_of p) \<and>
    hb_usage (pa_hub q) = hb_usage (pa_hub p)"
  using assms
  by (auto simp: charge_ledger_def client_ledger_def ledger_bytes_def set_store_def rbind_Inr insert_pk_Inr
      split: if_splits option.splits)

lemma charge_write_effect:
  assumes "charge_write w m up down p = Inr (q, u)" and "managed_of (mc_email m) p = Some m"
    and "client_of (mc_email m) (store_of p) = Some x"
  shows "map_option cl_used_bytes (client_of (mc_email m) (store_of q)) = Some (up + down + remote_usage (mc_email m) (pa_hub p))"
    and "map_option (\<lambda>m. (mc_last_up m, mc_last_down m)) (managed_of (mc_email m) q) = Some (up, down)"
    and "client_ledger c q = client_ledger c p +
      (if c = mc_email m then counter_growth (mc_last_up m) up + counter_growth (mc_last_down m) down else 0)"
proof -
  let ?n = "up + down + remote_usage (mc_email m) (pa_hub p)"
  obtain p1 where p1: "charge_ledger w (mc_email m) x (mc_seq m + 1)
      (counter_growth (mc_last_up m) up) (counter_growth (mc_last_down m) down) p = Inr p1"
    using assms(1,3) by (auto simp: charge_write_def Let_def rbind_Inr)
  note ledger = charge_ledger_effect [OF p1]
  define p2 where "p2 = (if ?n \<noteq> cl_used_bytes x then write_used (mc_email m) ?n p1 else p1)"
  have p2: "map_option cl_used_bytes (client_of (mc_email m) (store_of p2)) = Some ?n"
    "managed_of (mc_email m) p2 = Some m" "client_ledger c p2 = client_ledger c p1"
    using ledger assms(2,3)
    by (simp_all add: p2_def write_used_def set_store_def client_of_def lookup_modify client_ledger_def ledger_bytes_def)
  define q' where "q' = set_managed (modify mc_email (mc_email m) (\<lambda>r. r\<lparr>mc_last_up := up, mc_last_down := down,
      mc_initialized := True, mc_seq := mc_seq m + 1\<rparr>)) p2"
  have q': "map_option cl_used_bytes (client_of (mc_email m) (store_of q')) = Some ?n"
    "map_option (\<lambda>m. (mc_last_up m, mc_last_down m)) (managed_of (mc_email m) q') = Some (up, down)"
    "client_ledger c q' = client_ledger c p2"
    using p2 by (simp_all add: q'_def set_managed_def lookup_modify client_ledger_def ledger_bytes_def)
  have "charge_write w m up down p =
      Inr (if up \<noteq> mc_last_up m \<or> down \<noteq> mc_last_down m \<or> \<not> mc_initialized m then q' else p2, ())"
    by (simp add: charge_write_def Let_def assms(3) p1 p2_def q'_def)
  then have q: "q = (if up \<noteq> mc_last_up m \<or> down \<noteq> mc_last_down m \<or> \<not> mc_initialized m then q' else p2)"
    using assms(1) by simp
  show "map_option cl_used_bytes (client_of (mc_email m) (store_of q)) = Some ?n"
    and "map_option (\<lambda>m. (mc_last_up m, mc_last_down m)) (managed_of (mc_email m) q) = Some (up, down)"
    and "client_ledger c q = client_ledger c p +
      (if c = mc_email m then counter_growth (mc_last_up m) up + counter_growth (mc_last_down m) down else 0)"
    using q q' p2 ledger [of c] by auto
qed

text \<open>
  C24. A metering of the local core that succeeds leaves the policy meter at the sum of the local
  and all remote counters, the baseline at the counters read, and the traffic ledger of the client
  larger by exactly the growth of its counters, a counter that fell having restarted from zero; no
  other client is charged.
\<close>

theorem local_metering_exact:
  assumes "charge_snapshot w m r p = (q, Inr ())" and "counters r = Inr (up, down)"
    and "managed_of (mc_email m) p = Some m" and "client_of (mc_email m) (store_of p) = Some x"
  shows "map_option cl_used_bytes (client_of (mc_email m) (store_of q)) = Some (up + down + remote_usage (mc_email m) (pa_hub p)) \<and>
    map_option (\<lambda>m. (mc_last_up m, mc_last_down m)) (managed_of (mc_email m) q) = Some (up, down) \<and>
    client_ledger c q = client_ledger c p +
      (if c = mc_email m then counter_growth (mc_last_up m) up + counter_growth (mc_last_down m) down else 0)"
proof -
  have audited: "pa_hub (fst (when_so b (audit w act ow action target detail) s)) = pa_hub s"
    for b act ow action target detail s by (simp add: when_so_def audit_def alter_def)
  consider (still) "q = p" "up = mc_last_up m" "down = mc_last_down m"
      "up + down + remote_usage (mc_email m) (pa_hub p) = cl_used_bytes x"
    | (charged) s where "charge_write w m up down p = Inr (s, ())" "pa_hub q = pa_hub s"
    using assms audited
    by (auto simp: charge_snapshot_def Let_def transaction_def split: if_splits sum.splits prod.splits) (metis fst_conv)+
  then show ?thesis
  proof cases
    case still
    then show ?thesis using assms(3,4) by (simp add: counter_growth_def)
  next
    case charged
    then show ?thesis
      using charge_write_effect [OF charged(1) assms(3,4)] by (simp add: client_ledger_def)
  qed
qed

theorem local_metering_exact_witness:
  "map_option cl_used_bytes (client_of ''c'' (store_of (fst (charge_snapshot sample_world
      (the (managed_of ''c'' sample_panel)) (record_of (sample_core ''mine'')) sample_panel)))) = Some 12"
proof -
  let ?m = "the (managed_of ''c'' sample_panel)"
  let ?q = "fst (charge_snapshot sample_world ?m (record_of (sample_core ''mine'')) sample_panel)"
  have "charge_snapshot sample_world ?m (record_of (sample_core ''mine'')) sample_panel = (?q, Inr ())"
    "counters (record_of (sample_core ''mine'')) = Inr (5, 7)" "mc_email ?m = ''c''" "managed_of ''c'' sample_panel = Some ?m"
    "client_of ''c'' (store_of sample_panel) = Some (new_client_row ''c'' ''o'' 0 0 0)"
    "remote_usage ''c'' (pa_hub sample_panel) = 0"
    by code_simp+
  with local_metering_exact [of sample_world ?m "record_of (sample_core ''mine'')" sample_panel ?q 5 7
      "new_client_row ''c'' ''o'' 0 0 0" "''c''"]
  show ?thesis by simp
qed

section \<open>The calendar of resets\<close>

lemma monthly_loop_future: "monthly_loop w d now n ym = Inr due \<Longrightarrow> now < due"
  by (induction n arbitrary: ym) (auto simp: Let_def split: if_splits)

lemma period_grid:
  fixes now start :: real and P :: int
  assumes "0 < P"
  defines "k \<equiv> \<lfloor>(now - start) / of_int P\<rfloor> + 1"
  shows "now < start + of_int (k * P)" and "start + of_int (k * P) - of_int P \<le> now"
proof -
  have grid: "start + of_int (k * P) - of_int P = start + of_int \<lfloor>(now - start) / of_int P\<rfloor> * of_int P"
    by (simp add: k_def algebra_simps)
  have "of_int \<lfloor>(now - start) / of_int P\<rfloor> * of_int P \<le> now - start"
    using assms(1) of_int_floor_le [of "(now - start) / of_int P"] by (metis of_int_0_less_iff pos_le_divide_eq)
  then show "start + of_int (k * P) - of_int P \<le> now"
    using grid by simp
  have "(now - start) / of_int P < of_int k"
    unfolding k_def by simp
  then have "now - start < of_int k * of_int P"
    using assms(1) by (simp add: pos_divide_less_eq)
  then show "now < start + of_int (k * P)"
    by simp
qed

lemma following_cycle_future:
  assumes "following_cycle w r now = Inr due"
  shows "now < due"
    and "cy_mode r \<noteq> ''monthly'' \<Longrightarrow> cy_next r \<le> now \<Longrightarrow>
      \<exists>k \<ge> 1. due = cy_next r + of_int (k * period_seconds (cy_mode r) (cy_days r)) \<and>
        due - of_int (period_seconds (cy_mode r) (cy_days r)) \<le> now"
proof -
  let ?P = "period_seconds (cy_mode r) (cy_days r)"
  let ?k = "\<lfloor>(now - cy_next r) / of_int ?P\<rfloor> + 1"
  have periodic: "0 < ?P" "due = cy_next r + of_int (?k * ?P)" if "cy_mode r \<noteq> ''monthly''"
    using assms that by (auto simp: following_cycle_def Let_def split: if_splits)
  show "now < due"
  proof (cases "cy_mode r = ''monthly''")
    case True
    then show ?thesis using assms monthly_loop_future by (auto simp: following_cycle_def monthly_next_at_def)
  next
    case False
    show ?thesis unfolding periodic(2) [OF False] by (rule period_grid(1) [OF periodic(1) [OF False]])
  qed
  show "\<exists>k \<ge> 1. due = cy_next r + of_int (k * ?P) \<and> due - of_int ?P \<le> now"
    if mode: "cy_mode r \<noteq> ''monthly''" and late: "cy_next r \<le> now"
  proof (intro exI conjI)
    show "1 \<le> ?k" using periodic(1) [OF mode] late by simp
    show "due = cy_next r + of_int (?k * ?P)" by (rule periodic(2) [OF mode])
    show "due - of_int ?P \<le> now"
      unfolding periodic(2) [OF mode] by (rule period_grid(2) [OF periodic(1) [OF mode]])
  qed
qed

text \<open>
  A completed reset moves a due deadline into the future exactly once: however many periods
  were missed, one reset counts for all of them, and a periodic deadline stays on its grid at the
  first point after now.
\<close>

theorem missed_cycles_collapse:
  assumes "complete_cycle w c p = (q, Inr ())" and "lookup cy_email c (pa_cycles p) = Some r" and "cy_next r \<le> clock w p"
  shows "\<exists>r'. lookup cy_email c (pa_cycles q) = Some r' \<and> cy_completed r' = cy_completed r + 1 \<and> clock w p < cy_next r' \<and>
    (cy_mode r \<noteq> ''monthly'' \<longrightarrow>
      (\<exists>k \<ge> 1. cy_next r' = cy_next r + of_int (k * period_seconds (cy_mode r) (cy_days r)) \<and>
        cy_next r' - of_int (period_seconds (cy_mode r) (cy_days r)) \<le> clock w p))"
proof -
  obtain due where due: "following_cycle w r (clock w p) = Inr due"
    and q: "q = p\<lparr>pa_cycles := modify cy_email c (\<lambda>r. r\<lparr>cy_next := due, cy_completed := cy_completed r + 1\<rparr>) (pa_cycles p)\<rparr>"
    using assms by (auto simp: complete_cycle_def transaction_def rbind_Inr split: sum.splits)
  have "lookup cy_email c (pa_cycles q) = Some (r\<lparr>cy_next := due, cy_completed := cy_completed r + 1\<rparr>)"
    using assms(2) by (simp add: q lookup_modify)
  then show ?thesis using following_cycle_future [OF due] assms(3) by simp
qed

definition overdue_panel :: panel where
  "overdue_panel = sample_panel\<lparr>pa_cycles := [\<lparr>cy_email = ''c'', cy_days = 0, cy_next = -7000, cy_completed = 2, cy_max = 0,
     cy_mode = ''hourly'', cy_day = 0\<rparr>]\<rparr>"

theorem missed_cycles_collapse_witness:
  "\<exists>r'. lookup cy_email ''c'' (pa_cycles (fst (complete_cycle sample_world ''c'' overdue_panel))) = Some r' \<and>
     cy_completed r' = 3 \<and> 100 < cy_next r'"
proof -
  let ?q = "fst (complete_cycle sample_world ''c'' overdue_panel)"
  let ?r = "\<lparr>cy_email = ''c'', cy_days = 0, cy_next = -7000, cy_completed = 2, cy_max = 0, cy_mode = ''hourly'', cy_day = 0\<rparr>"
  have "complete_cycle sample_world ''c'' overdue_panel = (?q, Inr ())"
    by (simp add: complete_cycle_def transaction_def overdue_panel_def following_cycle_def period_seconds_def clock_def sample_world_def)
  moreover have "lookup cy_email ''c'' (pa_cycles overdue_panel) = Some ?r" "cy_next ?r \<le> clock sample_world overdue_panel"
    "clock sample_world overdue_panel = 100"
    by (simp_all add: overdue_panel_def clock_def sample_world_def sample_panel_def)
  ultimately show ?thesis using missed_cycles_collapse [of sample_world "''c''" overdue_panel ?q ?r] by auto
qed

end
