(* ===== verification/Manager_Types.thy ===== *)
theory Manager_Types
  imports Manager_Meters
begin

text \<open>
  The types of a client's fields: what \<open>validate_client\<close> accepts is well typed, an edit of a well typed
  client is well typed, and the calendar never fails on a well typed client. The rule that relates
  the fields of the reset calendar is not kept by an edit.
\<close>

section \<open>Well typed clients\<close>

definition field_ranges :: "(string \<times> int \<times> int) list" where
  "field_ranges = [(''limitIp'', 0, 1000), (''limitHwid'', 0, 1000), (''totalGB'', 0, max_int), (''tgId'', 0, max_int),
     (''reset'', 0, 3650), (''resetCount'', 0, 100000), (''resetTrafficDay'', 0, 31), (''expiryTime'', 0, max_int)]"

definition text_fields :: "string list" where
  "text_fields = [''id'', ''password'', ''auth'', ''subId'', ''flow'', ''security'', ''group'', ''comment'', ''encryption'']"

definition reset_modes :: "string list" where
  "reset_modes = [''never'', ''hourly'', ''daily'', ''weekly'', ''monthly'']"

definition field_ok :: "string \<Rightarrow> pyval \<Rightarrow> bool" where
  "field_ok k v =
     (case map_of field_ranges k of
        Some (lo, hi) \<Rightarrow> (case v of PInt i \<Rightarrow> lo \<le> i \<and> i \<le> hi | _ \<Rightarrow> False)
      | None \<Rightarrow>
          if k = ''enable'' then (case v of PBool _ \<Rightarrow> True | _ \<Rightarrow> False)
          else if k = ''resetTraffic'' then v \<in> PStr ` set reset_modes
          else if k \<in> set text_fields then (case v of PStr s \<Rightarrow> length s \<le> 4096 | _ \<Rightarrow> False)
          else True)"

definition typed :: "dict \<Rightarrow> bool" where
  "typed d \<longleftrightarrow> (\<forall>k v. map_of d k = Some v \<longrightarrow> field_ok k v)"

lemma typed_list: "list_all (\<lambda>(k, v). field_ok k v) d \<Longrightarrow> typed d"
  by (auto simp: typed_def list_all_iff dest!: map_of_SomeD)

lemma typed_set: "typed d \<Longrightarrow> field_ok k v \<Longrightarrow> typed (py_set k v d)"
  by (auto simp: typed_def map_of_py_set)

lemma map_of_py_merge: "map_of (py_merge d e) k = (case map_of (rev e) k of None \<Rightarrow> map_of d k | Some v \<Rightarrow> Some v)"
  by (induction e arbitrary: d) (auto simp: py_merge_def map_of_py_set map_add_def split: option.splits)

lemma map_of_distinct_rev:
  assumes "distinct (map fst e)"
  shows "map_of (rev e) k = map_of e k"
proof (cases "map_of e k")
  case None
  then have "map_of (rev e) k = None" by (simp add: map_of_eq_None_iff)
  with None show ?thesis by simp
next
  case (Some v)
  have "distinct (map fst (rev e))" using assms by (metis distinct_rev rev_map)
  moreover have "(k, v) \<in> set (rev e)" using Some by (simp add: map_of_SomeD)
  ultimately have "map_of (rev e) k = Some v" by (rule map_of_is_SomeI)
  with Some show ?thesis by simp
qed

lemma typed_merge:
  assumes "typed d" and "typed e" and "distinct (map fst e)"
  shows "typed (py_merge d e)"
  using assms by (auto simp: typed_def map_of_py_merge map_of_distinct_rev split: option.splits)

section \<open>What the validation accepts\<close>

lemma check_fields_Inr: "check_fields d f ks = Inr u \<longleftrightarrow> (\<forall>k \<in> set ks. check_field d f k = Inr ())"
  by (induction ks) (auto simp: rbind_Inr)

lemma in_range_Inr: "in_range lo hi v = Inr u \<longleftrightarrow> (\<exists>i. v = PInt i \<and> lo \<le> i \<and> i \<le> hi)"
  by (auto simp: in_range_def rbind_Inr integer_Inr)

lemma check_field_Inr: "check_field d f k = Inr u \<longleftrightarrow> (\<forall>v. map_of d k = Some v \<longrightarrow> f v = Inr ())"
  by (auto simp: check_field_def split: option.splits)

lemma validate_clientD:
  assumes "validate_client partial v = Inr out"
  obtains d where "v = PDict d" and "check_numbers d = Inr ()" and "out = named_mode d"
    and "check_reset_rule out = Inr ()" and "check_texts out = Inr ()"
  using assms that by (auto simp: validate_client_def Let_def rbind_Inr split: pyval.splits if_splits)

lemma map_of_named_mode:
  "map_of (named_mode d) k = (if k = ''resetTraffic'' then map_option (\<lambda>v. py_or v (PStr ''never'')) (map_of d k) else map_of d k)"
  by (auto simp: named_mode_def map_of_py_set split: option.splits)

lemma accepted_typed:
  assumes "validate_client partial v = Inr out"
  shows "typed out"
proof -
  obtain d where d: "check_numbers d = Inr ()" "out = named_mode d" "check_texts out = Inr ()"
    using validate_clientD [OF assms] by metis
  have same: "map_of out k = map_of d k" if "k \<noteq> ''resetTraffic''" for k
    using that by (simp add: d(2) map_of_named_mode)
  have numbers: "\<exists>i. x = PInt i \<and> lo \<le> i \<and> i \<le> hi"
    if "map_of d k = Some x" "(k, lo, hi) \<in> set field_ranges" "k \<noteq> ''expiryTime''" for k x lo hi
    using d(1) that
    by (auto simp: field_ranges_def check_numbers_def rbind_Inr check_fields_Inr check_field_Inr in_range_Inr split: if_splits)
  have mode: "x \<in> PStr ` set reset_modes" if m: "map_of out ''resetTraffic'' = Some x" for x
  proof -
    obtain y where y: "map_of d ''resetTraffic'' = Some y" "x = py_or y (PStr ''never'')"
      using m by (auto simp: d(2) map_of_named_mode)
    then have "reset_mode y = Inr ()"
      using d(1) by (auto simp: check_numbers_def rbind_Inr check_field_Inr split: if_splits)
    then show ?thesis using y(2) by (auto simp: reset_mode_def reset_modes_def py_or_def split: pyval.splits)
  qed
  have texts: "(\<exists>s. x = PStr s \<and> length s \<le> 4096)" if "map_of out k = Some x" "k \<in> set text_fields" for k x
  proof -
    have "check_fields out text_field text_fields = Inr ()"
      using d(3) by (auto simp: check_texts_def rbind_Inr text_fields_def)
    then have "text_field x = Inr ()"
      using that by (auto simp: check_fields_Inr check_field_Inr)
    then show ?thesis by (simp add: text_field_def split: pyval.splits)
  qed
  have enable: "\<exists>b. x = PBool b" if "map_of out ''enable'' = Some x" for x
    using d(3) that by (auto simp: check_texts_def rbind_Inr check_field_Inr split: pyval.splits)
  have expiry: "\<exists>i. x = PInt i \<and> 0 \<le> i \<and> i \<le> max_int" if "map_of out ''expiryTime'' = Some x" for x
    using d(3) that by (auto simp: check_texts_def rbind_Inr check_field_Inr split: pyval.splits)
  show ?thesis
    unfolding typed_def
  proof (intro allI impI)
    fix k x
    assume x: "map_of out k = Some x"
    show "field_ok k x"
    proof (cases "map_of field_ranges k")
      case None
      consider "k = ''enable''" | "k = ''resetTraffic''" | "k \<in> set text_fields" "k \<noteq> ''enable''" "k \<noteq> ''resetTraffic''"
        | "k \<notin> set text_fields" "k \<noteq> ''enable''" "k \<noteq> ''resetTraffic''"
        by blast
      then show ?thesis
      proof cases
        case 1
        then show ?thesis using None enable [of x] x by (auto simp: field_ok_def)
      next
        case 2
        then show ?thesis using None mode [of x] x by (simp add: field_ok_def)
      next
        case 3
        then show ?thesis using None texts [OF x] by (auto simp: field_ok_def)
      next
        case 4
        then show ?thesis using None by (simp add: field_ok_def)
      qed
    next
      case (Some r)
      obtain lo hi where r: "r = (lo, hi)" by (cases r)
      have "\<exists>i. x = PInt i \<and> lo \<le> i \<and> i \<le> hi"
      proof (cases "k = ''expiryTime''")
        case True
        then have "lo = 0" "hi = max_int" using Some r by (simp_all add: field_ranges_def)
        then show ?thesis using expiry x True by blast
      next
        case False
        have "(k, lo, hi) \<in> set field_ranges" using Some r by (simp add: map_of_SomeD)
        moreover have "map_of d k = Some x" using x same [of k] False Some by (auto simp: field_ranges_def split: if_splits)
        ultimately show ?thesis using numbers False by blast
      qed
      then show ?thesis using Some r by (auto simp: field_ok_def)
    qed
  qed
qed

section \<open>The calendar of a well typed client\<close>

lemma typed_number:
  assumes "typed d" and "(k, lo, hi) \<in> set field_ranges" and "0 \<in> {lo..hi}"
  obtains i where "number_at d k = Inr i" and "lo \<le> i" and "i \<le> hi"
proof -
  have range: "map_of field_ranges k = Some (lo, hi)"
    by (rule map_of_is_SomeI [OF _ assms(2)]) code_simp
  show ?thesis
  proof (cases "map_of d k")
    case None
    then show ?thesis using that [of 0] assms(3) by (simp add: number_at_def py_or_def)
  next
    case (Some v)
    then have "field_ok k v" using assms(1) by (simp add: typed_def)
    then obtain i where "v = PInt i" "lo \<le> i" "i \<le> hi" using range by (auto simp: field_ok_def split: pyval.splits)
    then show ?thesis using that [of i] Some by (simp add: number_at_def py_or_def)
  qed
qed

lemma typed_mode:
  assumes "typed d"
  obtains s where "py_or (pyget_or d ''resetTraffic'' (PStr ''never'')) (PStr ''never'') = PStr s" and "s \<in> set reset_modes"
proof (cases "map_of d ''resetTraffic''")
  case None
  then show ?thesis using that [of "''never''"] by (simp add: pyget_or_def py_or_def reset_modes_def)
next
  case (Some v)
  then have "field_ok ''resetTraffic'' v" using assms by (simp add: typed_def)
  then obtain s where "v = PStr s" "s \<in> set reset_modes" by (auto simp: field_ok_def field_ranges_def)
  then show ?thesis using that [of s] Some by (auto simp: pyget_or_def py_or_def reset_modes_def)
qed

lemma typed_schedule:
  assumes "typed d"
  obtains spec where "schedule_spec d = Inr spec"
    and "\<And>mode days day'. spec = Some (mode, days, day') \<Longrightarrow> mode \<noteq> ''monthly'' \<Longrightarrow> 0 < period_seconds mode days"
proof -
  obtain days where days: "number_at d ''reset'' = Inr days" "0 \<le> days"
    by (rule typed_number [OF assms, of "''reset''" 0 3650]) (simp_all add: field_ranges_def)
  obtain dm where dm: "number_at d ''resetTrafficDay'' = Inr dm"
    by (rule typed_number [OF assms, of "''resetTrafficDay''" 0 31]) (simp_all add: field_ranges_def)
  obtain s where s: "py_or (pyget_or d ''resetTraffic'' (PStr ''never'')) (PStr ''never'') = PStr s" "s \<in> set reset_modes"
    using typed_mode [OF assms] .
  show ?thesis
    by (rule that, simp add: schedule_spec_def Let_def s(1) days(1) dm)
      (use s(2) days(2) in \<open>auto simp: period_seconds_def reset_modes_def split: if_splits\<close>)
qed



section \<open>A rule the edit does not keep\<close>

text \<open>
  C26. An edit is validated by itself: the choice of a calendar period for a client with a custom
  interval passes although the edited client breaks the rule that its creation enforces.
\<close>

theorem edit_escapes_reset_rule:
  assumes "plan_edit c ow m [(''resetTraffic'', PStr mode)] ids p = Inr pl" and "current_desired m p = Inr old"
    and "number_at old ''reset'' = Inr n" and "n \<noteq> 0" and "number_at old ''resetTrafficDay'' = Inr 0" and "mode \<in> {''hourly'', ''daily'', ''weekly''}"
  shows "validate_client True (PDict [(''resetTraffic'', PStr mode)]) = Inr [(''resetTraffic'', PStr mode)] \<and>
    check_reset_rule (pl_desired pl) =
      bad ''Choose either a calendar traffic reset or a custom day interval, not both'' \<and>
    (\<forall>partial. \<exists>e. validate_client partial (PDict (pl_desired pl)) = Inl e)"
proof -
  have same: "map_of (pl_desired pl) k = map_of (py_merge old [(''resetTraffic'', PStr mode)]) k"
    if "k \<notin> {''email'', ''group''}" for k
    using assms(1,2) that
    by (auto simp: plan_edit_def rbind_Inr Let_def grouped_def map_of_py_set split: if_splits)
  have reset: "map_of (pl_desired pl) ''reset'' = map_of old ''reset''"
    "map_of (pl_desired pl) ''resetTrafficDay'' = map_of old ''resetTrafficDay''"
    "map_of (pl_desired pl) ''resetTraffic'' = Some (PStr mode)"
    using same [of "''reset''"] same [of "''resetTraffic''"] same [of "''resetTrafficDay''"] by (simp_all add: map_of_py_merge)
  then have n: "number_at (pl_desired pl) ''reset'' = Inr n" "number_at (pl_desired pl) ''resetTrafficDay'' = Inr 0"
    using assms(3,5) by (simp_all add: number_at_def)
  have rule: "check_reset_rule (pl_desired pl) = bad ''Choose either a calendar traffic reset or a custom day interval, not both''"
    using assms(4,6) n reset(3) by (auto simp: check_reset_rule_def Let_def pyget_or_def bad_def)
  have "\<exists>e. validate_client partial (PDict (pl_desired pl)) = Inl e" for partial
  proof (cases "validate_client partial (PDict (pl_desired pl))")
    case (Inr out)
    obtain d where d: "PDict (pl_desired pl) = PDict d" "out = named_mode d" "check_reset_rule out = Inr ()"
      using validate_clientD [OF Inr] by metis
    have "number_at out k = number_at (pl_desired pl) k" if "k \<noteq> ''resetTraffic''" for k
      using that d by (simp add: number_at_def map_of_named_mode)
    moreover have "pyget_or out ''resetTraffic'' (PStr ''never'') = PStr mode"
      using d(1,2) reset(3) assms(6) by (auto simp: pyget_or_def map_of_named_mode py_or_def)
    ultimately show ?thesis using d(3) n assms(4,6) by (auto simp: check_reset_rule_def Let_def)
  qed simp
  moreover have "validate_client True (PDict [(''resetTraffic'', PStr mode)]) = Inr [(''resetTraffic'', PStr mode)]"
  proof -
    have "validate_client True (PDict [(''resetTraffic'', PStr ''hourly'')]) = Inr [(''resetTraffic'', PStr ''hourly'')]"
      "validate_client True (PDict [(''resetTraffic'', PStr ''daily'')]) = Inr [(''resetTraffic'', PStr ''daily'')]"
      "validate_client True (PDict [(''resetTraffic'', PStr ''weekly'')]) = Inr [(''resetTraffic'', PStr ''weekly'')]"
      by code_simp+
    then show ?thesis using assms(6) by blast
  qed
  ultimately show ?thesis using rule by blast
qed

text \<open>The client of the example with a reset every week of days.\<close>

definition interval_panel :: panel where
  "interval_panel = set_core (map (\<lambda>r. r\<lparr>cc_body := PDict (py_set ''reset'' (PInt 7) (body_of r))\<rparr>)) sample_panel"

theorem edit_escapes_reset_rule_witness:
  "check_reset_rule (case plan_edit ''c'' ''o'' (the (managed_of ''c'' interval_panel)) [(''resetTraffic'', PStr ''daily'')]
       (Some [PInt 1]) interval_panel of Inr pl \<Rightarrow> pl_desired pl | Inl _ \<Rightarrow> []) =
   bad ''Choose either a calendar traffic reset or a custom day interval, not both''"
proof -
  let ?m = "the (managed_of ''c'' interval_panel)"
  let ?old = "[(''email'', PStr ''c''), (''subId'', PStr ''mine''), (''enable'', PBool True), (''reset'', PInt 7)]"
  let ?new = "py_merge ?old [(''resetTraffic'', PStr ''daily'')]"
  have "plan_edit ''c'' ''o'' ?m [(''resetTraffic'', PStr ''daily'')] (Some [PInt 1]) interval_panel =
      Inr \<lparr>pl_email = ''c'', pl_owner = ''o'', pl_desired = ?new, pl_ids = [1], pl_group = None,
           pl_patch = [(''resetTraffic'', PStr ''daily'')]\<rparr>"
    by code_simp
  moreover have "current_desired ?m interval_panel = Inr ?old" "number_at ?old ''reset'' = Inr 7"
    "number_at ?old ''resetTrafficDay'' = Inr 0"
    by code_simp+
  ultimately show ?thesis
    using edit_escapes_reset_rule [of "''c''" "''o''" ?m "''daily''" "Some [PInt 1]" interval_panel _ ?old 7] by simp
qed

end
