(* ===== verification/Manager_Progress.thy ===== *)
theory Manager_Progress
  imports Manager_Types
begin

text \<open>
  The durable operations make progress: a pending creation or edit whose data are valid is carried
  out by its next attempt, and the core then holds what the panel wishes.
\<close>

section \<open>Steps on one customer of the core\<close>

lemma set_core_parts [simp]:
  "managed_of x (set_core f p) = managed_of x p" "eg_writes (pa_engine (set_core f p)) = eg_writes (pa_engine p)"
  "pa_inbounds (set_core f p) = pa_inbounds p" "store_of (set_core f p) = store_of p" "clock w (set_core f p) = clock w p"
  by (simp_all add: set_core_def clock_def)

lemma core_of_body: "core_of c (set_core (modify cc_email c (\<lambda>r. r\<lparr>cc_body := b\<rparr>)) p) = map_option (\<lambda>r. r\<lparr>cc_body := b\<rparr>) (core_of c p)"
  by (simp add: set_core_def lookup_modify)

lemma core_of_ids: "core_of c (set_core (modify cc_email c (\<lambda>r. r\<lparr>cc_inbounds := b\<rparr>)) p) = map_option (\<lambda>r. r\<lparr>cc_inbounds := b\<rparr>) (core_of c p)"
  by (simp add: set_core_def lookup_modify)

lemma record_ids_record: "record_ids (record_of r) = cc_inbounds r"
  by (simp add: record_ids_def record_of_def pyget_py_merge py_ints_def comp_def del: pyget.simps)

lemma core_update_effect:
  assumes "eg_writes (pa_engine p)" and "core_of c p = Some r" and "pyget_or client ''email'' (PStr c) = PStr c"
  shows "core_update c client p = (set_core (modify cc_email c
     (\<lambda>x. x\<lparr>cc_body := PDict (py_set ''email'' (PStr c) (py_merge (body_of r) (writable client)))\<rparr>)) p, Inr ())"
  using assms by (simp add: core_update_def core_writes_def require_that_def client_detail_def alter_def)

lemma core_attach_effect:
  assumes "eg_writes (pa_engine p)" and "core_of c p = Some r"
    and "set (cc_inbounds r) \<union> set ids \<subseteq> set (map fst (pa_inbounds p))"
  shows "core_attach c ids p =
    (set_core (modify cc_email c (\<lambda>x. x\<lparr>cc_inbounds := sort (remdups (cc_inbounds r @ ids))\<rparr>)) p, Inr ())"
  using assms by (simp add: core_attach_def core_writes_def require_that_def client_detail_def alter_def Let_def)

lemma core_detach_effect:
  assumes "eg_writes (pa_engine p)" and "core_of c p = Some r" and "\<not> set (cc_inbounds r) \<subseteq> set ids"
  shows "core_detach c ids p =
    (set_core (modify cc_email c (\<lambda>x. x\<lparr>cc_inbounds := sort (remdups (filter (\<lambda>i. i \<notin> set ids) (cc_inbounds r)))\<rparr>)) p, Inr ())"
proof -
  have "filter (\<lambda>i. i \<notin> set ids) (cc_inbounds r) \<noteq> []" using assms(3) by (auto simp: filter_empty_conv)
  then have "sort (remdups (filter (\<lambda>i. i \<notin> set ids) (cc_inbounds r))) \<noteq> []"
    by (metis length_0_conv length_sort remdups_eq_nil_iff)
  then show ?thesis
    using assms(1,2) by (simp add: core_detach_def core_writes_def require_that_def client_detail_def alter_def Let_def)
qed

text \<open>The inbounds after the attachments and detachments of an edit.\<close>

lemma core_ids_effect:
  assumes "eg_writes (pa_engine p)" and "core_of c p = Some r" and "ids \<noteq> []"
    and "set (cc_inbounds r) \<union> set ids \<subseteq> set (map fst (pa_inbounds p))"
  shows "\<exists>q. ebind (when_so (missing_from ids (cc_inbounds r) \<noteq> []) (core_attach c (missing_from ids (cc_inbounds r)))) (\<lambda>_.
      when_so (missing_from (cc_inbounds r) ids \<noteq> []) (core_detach c (missing_from (cc_inbounds r) ids))) p = (q, Inr ()) \<and>
    (\<exists>ys. core_of c q = Some (r\<lparr>cc_inbounds := ys\<rparr>) \<and> set ys = set ids) \<and> managed_of c q = managed_of c p"
proof -
  let ?more = "missing_from ids (cc_inbounds r)"
  let ?less = "missing_from (cc_inbounds r) ids"
  have sets: "set ?more = set ids - set (cc_inbounds r)" "set ?less = set (cc_inbounds r) - set ids"
    by (auto simp: missing_from_def)
  define xs where "xs = (if ?more = [] then cc_inbounds r else sort (remdups (cc_inbounds r @ ?more)))"
  have xs: "set xs = set (cc_inbounds r) \<union> set ids"
    using sets(1) by (cases "?more = []") (auto simp: xs_def)
  obtain p1 where p1: "when_so (?more \<noteq> []) (core_attach c ?more) p = (p1, Inr ())" "core_of c p1 = Some (r\<lparr>cc_inbounds := xs\<rparr>)"
    "managed_of c p1 = managed_of c p" "eg_writes (pa_engine p1)"
  proof (cases "?more = []")
    case True
    then show ?thesis using assms(1,2) by (intro that [of p]) (simp_all add: when_so_def xs_def)
  next
    case False
    have "core_attach c ?more p = (set_core (modify cc_email c (\<lambda>x. x\<lparr>cc_inbounds := xs\<rparr>)) p, Inr ())"
      using core_attach_effect [OF assms(1,2), of ?more] assms(4) sets(1) False by (auto simp: xs_def)
    with False assms(1,2) show ?thesis
      by (intro that [of "set_core (modify cc_email c (\<lambda>x. x\<lparr>cc_inbounds := xs\<rparr>)) p"]) (simp_all add: when_so_def core_of_ids)
  qed
  define ys where "ys = (if ?less = [] then xs else sort (remdups (filter (\<lambda>i. i \<notin> set ?less) xs)))"
  have ys: "set ys = set ids" using xs sets(2) by (cases "?less = []") (auto simp: ys_def)
  obtain q where q: "when_so (?less \<noteq> []) (core_detach c ?less) p1 = (q, Inr ())" "core_of c q = Some (r\<lparr>cc_inbounds := ys\<rparr>)"
    "managed_of c q = managed_of c p"
  proof (cases "?less = []")
    case True
    then show ?thesis using p1 by (intro that [of p1]) (simp_all add: when_so_def ys_def)
  next
    case False
    obtain i where "i \<in> set ids" using assms(3) by (cases ids) auto
    then have "\<not> set (cc_inbounds (r\<lparr>cc_inbounds := xs\<rparr>)) \<subseteq> set ?less"
      using xs sets(2) by auto
    from core_detach_effect [OF p1(4,2) this] False p1 show ?thesis
      by (intro that [of "set_core (modify cc_email c (\<lambda>x. x\<lparr>cc_inbounds := ys\<rparr>)) p1"])
        (simp_all add: when_so_def ys_def core_of_ids)
  qed
  show ?thesis
    by (intro exI [of _ q] conjI exI [of _ ys] q(2,3) ys) (simp add: p1(1) q(1))
qed

text \<open>Fields of the wish that the core stores.\<close>

definition stored_field :: "string \<Rightarrow> bool" where
  "stored_field k \<longleftrightarrow> k \<notin> {''inboundIds'', ''traffic'', ''usedTraffic'', ''owner'', ''engineStatus''}"

lemma stored_email: "stored_field ''email''"
  by (simp add: stored_field_def)

lemma writable_stored: "writable d = filter (\<lambda>(k, v). stored_field k) d"
  by (simp only: writable_def stored_field_def)

lemma map_of_writable: "map_of (writable d) k = (if stored_field k then map_of d k else None)"
  by (induction d) (auto simp: writable_stored)

lemma distinct_writable: "distinct (map fst d) \<Longrightarrow> distinct (map fst (writable d))"
  by (induction d) (auto simp: writable_stored)

lemma written_body:
  assumes "distinct (map fst d)" and "pyget d ''email'' = PStr c"
  shows "map_of (py_set ''email'' (PStr c) (py_merge b (writable d))) k =
    (case map_of d k of Some v \<Rightarrow> if stored_field k then Some v else map_of b k | None \<Rightarrow> map_of b k)"
proof -
  have "map_of d ''email'' = Some (PStr c)" using assms(2) by (simp split: option.splits)
  then show ?thesis
    using assms(1) by (auto simp: map_of_py_set map_of_py_merge map_of_distinct_rev distinct_writable map_of_writable
        stored_email split: option.splits)
qed

section \<open>A pending creation or edit\<close>

text \<open>The core holds the wish \<open>d\<close> of \<open>c\<close> on the inbounds \<open>ids\<close>, and the panel knows it.\<close>

definition carried_out :: "string \<Rightarrow> dict \<Rightarrow> int list \<Rightarrow> bool \<Rightarrow> panel \<Rightarrow> bool" where
  "carried_out c d ids enabled q \<longleftrightarrow>
     (case (managed_of c q, core_of c q) of
        (Some m, Some r) \<Rightarrow>
          mc_op m = ''none'' \<and> mc_state m = ''applied'' \<and> mc_expected m = Some enabled \<and> set (cc_inbounds r) = set ids \<and>
          pyget (body_of r) ''enable'' = PBool enabled \<and>
          (\<forall>(k, v) \<in> set d. stored_field k \<and> k \<noteq> ''enable'' \<longrightarrow> pyget (body_of r) k = v)
      | _ \<Rightarrow> False)"

lemma distinct_py_set: "distinct (map fst d) \<Longrightarrow> distinct (map fst (py_set k v d))"
  by (simp add: py_set_def distinct_update)

lemma upsert_fresh:
  assumes "eg_writes (pa_engine p)" and "core_of c p = None" and "valid_name c" and "set ids \<subseteq> set (map fst (pa_inbounds p))"
    and "pyget d ''email'' = PStr c"
  shows "\<exists>q. core_create d ids p = (q, Inr ()) \<and> managed_of c q = managed_of c p \<and>
    (\<exists>r. core_of c q = Some r \<and> cc_body r = PDict d \<and> cc_inbounds r = ids)"
proof -
  let ?row = "\<lparr>cc_email = c, cc_body = PDict d, cc_inbounds = ids, cc_up = 0, cc_down = 0\<rparr>"
  have "map_of d ''email'' = Some (PStr c)" using assms(5) by (simp split: option.splits)
  moreover have "insert_pk cc_email ?row (eg_clients (pa_engine p)) = Inr (eg_clients (pa_engine p) @ [?row])"
    using assms(2) by (simp add: insert_pk_Inr has_key_def)
  ultimately have "core_create d ids p = (set_core (\<lambda>_. eg_clients (pa_engine p) @ [?row]) p, Inr ())"
    using assms(1,3,4) by (simp add: core_create_def core_writes_def require_that_def pyget_or_def)
  moreover have "core_of c (set_core (\<lambda>_. eg_clients (pa_engine p) @ [?row]) p) = Some ?row"
    using assms(2) by (simp add: set_core_def lookup_append)
  ultimately show ?thesis by simp
qed

lemma upsert_present:
  assumes "eg_writes (pa_engine p)" and "core_of c p = Some r" and "ids \<noteq> []"
    and "set (cc_inbounds r) \<union> set ids \<subseteq> set (map fst (pa_inbounds p))" and "pyget d ''email'' = PStr c"
    and "pyget (body_of r) ''subId'' = sub"
  shows "\<exists>q. ebind (of_res (refuse_other sub (record_of r) e)) (\<lambda>_.
       ebind (core_update c d) (\<lambda>_.
       let more = missing_from ids (record_ids (record_of r)); less = missing_from (record_ids (record_of r)) ids in
       ebind (when_so (more \<noteq> []) (core_attach c more)) (\<lambda>_.
       when_so (less \<noteq> []) (core_detach c less)))) p = (q, Inr ()) \<and> managed_of c q = managed_of c p \<and>
    (\<exists>x. core_of c q = Some x \<and> cc_body x = PDict (py_set ''email'' (PStr c) (py_merge (body_of r) (writable d))) \<and>
       set (cc_inbounds x) = set ids)"
proof -
  let ?b = "PDict (py_set ''email'' (PStr c) (py_merge (body_of r) (writable d)))"
  let ?p = "set_core (modify cc_email c (\<lambda>x. x\<lparr>cc_body := ?b\<rparr>)) p"
  have ours: "refuse_other sub (record_of r) e = Inr ()"
    using assms(6) record_field [of "''subId''" r] by (simp add: refuse_other_def del: pyget.simps)
  have "pyget_or d ''email'' (PStr c) = PStr c" using assms(5) by (simp add: pyget_or_def split: option.splits)
  from core_update_effect [OF assms(1,2) this] have upd: "core_update c d p = (?p, Inr ())" .
  have "core_of c ?p = Some (r\<lparr>cc_body := ?b\<rparr>)" using assms(2) by (simp add: core_of_body)
  from core_ids_effect [OF _ this assms(3)] obtain q ys where
    "ebind (when_so (missing_from ids (cc_inbounds r) \<noteq> []) (core_attach c (missing_from ids (cc_inbounds r)))) (\<lambda>_.
      when_so (missing_from (cc_inbounds r) ids \<noteq> []) (core_detach c (missing_from (cc_inbounds r) ids))) ?p = (q, Inr ())"
    "core_of c q = Some (r\<lparr>cc_body := ?b, cc_inbounds := ys\<rparr>)" "set ys = set ids" "managed_of c q = managed_of c p"
    using assms(1,4) by auto
  then show ?thesis
    by (intro exI [of _ q]) (simp add: of_res_def ours upd record_ids_record Let_def del: pyget.simps)
qed

lemma upsert_finish:
  assumes "managed_of c p = Some m" and "core_of c p = Some r"
  shows "\<exists>q. ebind (mark_row c (\<lambda>m. m\<lparr>mc_expected := Some b\<rparr>)) (\<lambda>_. finish_operation w c) p = (q, Inr ()) \<and>
    core_of c q = Some r \<and> (\<exists>m'. managed_of c q = Some m' \<and> mc_op m' = ''none'' \<and>
      mc_state m' = ''applied'' \<and> mc_expected m' = Some b)"
  using assms
  by (simp add: mark_row_def finish_operation_def alter_def set_managed_def lookup_modify settled_def)

text \<open>
  C27. A pending creation or edit is carried out by its next attempt: with writes enabled, known
  inbounds and a matching identity in the core (or none), the attempt cannot fail; the operation is
  settled, and the core holds every field of the wish on exactly the wished inbounds, enabled if
  and only if the policy allows it.
\<close>

theorem pending_upsert_applied:
  assumes "eg_writes (pa_engine p)" and "managed_of c p = Some m0"
    and "mc_email m = c" and "mc_op m = ''upsert''" and "wish m = Inr d" and "stored_ids m = Inr ids"
    and "valid_name c" and "pyget d ''email'' = PStr c" and "distinct (map fst d)" and "ids \<noteq> []"
    and "set ids \<subseteq> set (map fst (pa_inbounds p))" and "map_of records c = map_option record_of (core_of c p)"
    and "\<forall>r. core_of c p = Some r \<longrightarrow> pyget (body_of r) ''subId'' = pyget d ''subId'' \<and> set (cc_inbounds r) \<subseteq> set (map fst (pa_inbounds p))"
  shows "\<exists>q. apply_operation w records m p = (q, Inr ()) \<and> carried_out c d ids (allowed_now w m p) q"
proof -
  let ?b = "allowed_now w m p"
  let ?d = "py_set ''enable'' (PBool ?b) d"
  define send where "send = (case map_of records c of
      None \<Rightarrow> core_create ?d ids
    | Some r \<Rightarrow>
        ebind (of_res (refuse_other (pyget d ''subId'') r ''Identity conflict: engine subId changed; explicit re-adoption is required'')) (\<lambda>_.
        ebind (core_update c ?d) (\<lambda>_.
        let more = missing_from ids (record_ids r); less = missing_from (record_ids r) ids in
        ebind (when_so (more \<noteq> []) (core_attach c more)) (\<lambda>_.
        when_so (less \<noteq> []) (core_detach c less)))))"
  have run: "apply_operation w records m p =
      ebind send (\<lambda>_. ebind (mark_row c (\<lambda>m. m\<lparr>mc_expected := Some ?b\<rparr>)) (\<lambda>_. finish_operation w c)) p"
    using assms(3-6)
    by (simp add: apply_operation_def apply_upsert_def Let_def of_res_def peek_def send_def ebind_assoc del: pyget.simps)
  have email: "pyget ?d ''email'' = PStr c" using assms(8) by (simp add: pyget_py_set del: pyget.simps)
  obtain q r where q: "send p = (q, Inr ())" "managed_of c q = Some m0" "core_of c q = Some r" "set (cc_inbounds r) = set ids"
    and body: "\<And>k. stored_field k \<Longrightarrow> map_of ?d k \<noteq> None \<Longrightarrow> map_of (body_of r) k = map_of ?d k"
  proof (cases "core_of c p")
    case None
    then show ?thesis
      using upsert_fresh [OF assms(1) None assms(7,11) email] assms(2,12) that by (auto simp: send_def body_of_def)
  next
    case (Some x)
    then have "set (cc_inbounds x) \<union> set ids \<subseteq> set (map fst (pa_inbounds p))" "pyget (body_of x) ''subId'' = pyget d ''subId''"
      using assms(11,13) by simp_all
    from upsert_present [OF assms(1) Some assms(10) this(1) email this(2),
        of "''Identity conflict: engine subId changed; explicit re-adoption is required''"] obtain q y where y:
      "send p = (q, Inr ())" "managed_of c q = managed_of c p" "core_of c q = Some y"
      "cc_body y = PDict (py_set ''email'' (PStr c) (py_merge (body_of x) (writable ?d)))" "set (cc_inbounds y) = set ids"
      using assms(12) Some by (auto simp: send_def simp del: ebind.simps pyget.simps)
    have "map_of (body_of y) k = map_of ?d k" if "stored_field k" "map_of ?d k \<noteq> None" for k
      using that written_body [OF distinct_py_set [OF assms(9)] email, of "body_of x" k] y(4) by (auto simp: body_of_def)
    with y assms(2) that show ?thesis by simp
  qed
  obtain q' m' where q': "ebind (mark_row c (\<lambda>m. m\<lparr>mc_expected := Some ?b\<rparr>)) (\<lambda>_. finish_operation w c) q = (q', Inr ())"
    "core_of c q' = Some r" "managed_of c q' = Some m'" "mc_op m' = ''none''" "mc_state m' = ''applied''" "mc_expected m' = Some ?b"
    using upsert_finish [OF q(2,3), of ?b w] by blast
  have "pyget (body_of r) ''enable'' = PBool ?b"
    using body [of "''enable''"] by (simp add: map_of_py_set stored_field_def)
  moreover have "pyget (body_of r) k = v" if "(k, v) \<in> set d" "stored_field k" "k \<noteq> ''enable''" for k v
    using that body [of k] map_of_is_SomeI [OF assms(9) that(1)] by (simp add: map_of_py_set)
  ultimately have "carried_out c d ids ?b q'"
    using q' q(4) by (auto simp: carried_out_def simp del: pyget.simps)
  moreover have "apply_operation w records m p = (q', Inr ())" using run q(1) q'(1) by simp
  ultimately show ?thesis by blast
qed

text \<open>An edit of the example's client, and its creation after the core lost everything.\<close>

definition edited_panel :: panel where
  "edited_panel = set_managed (map (\<lambda>m. m\<lparr>mc_op := ''upsert'', mc_state := ''pending'', mc_inbounds := Some (py_ints [1]),
     mc_desired := Some (PDict [(''email'', PStr ''c''), (''subId'', PStr ''mine''), (''totalGB'', PInt 9)])\<rparr>)) sample_panel"

theorem pending_upsert_applied_witness:
  "\<exists>q. apply_operation sample_world [(''c'', record_of (sample_core ''mine''))] (the (managed_of ''c'' edited_panel)) edited_panel = (q, Inr ()) \<and>
     carried_out ''c'' [(''email'', PStr ''c''), (''subId'', PStr ''mine''), (''totalGB'', PInt 9)] [1] True q"
proof -
  let ?m = "the (managed_of ''c'' edited_panel)"
  have "allowed_now sample_world ?m edited_panel" "core_of ''c'' edited_panel = Some (sample_core ''mine'')"
    "eg_writes (pa_engine edited_panel)" "managed_of ''c'' edited_panel = Some ?m" "mc_email ?m = ''c''" "mc_op ?m = ''upsert''"
    "wish ?m = Inr [(''email'', PStr ''c''), (''subId'', PStr ''mine''), (''totalGB'', PInt 9)]" "stored_ids ?m = Inr [1]"
    "valid_name ''c''" "map fst (pa_inbounds edited_panel) = [1]" "cc_inbounds (sample_core ''mine'') = [1]"
    "pyget (body_of (sample_core ''mine'')) ''subId'' = PStr ''mine''"
    by code_simp+
  then show ?thesis
    using pending_upsert_applied [of edited_panel "''c''" ?m ?m "[(''email'', PStr ''c''), (''subId'', PStr ''mine''), (''totalGB'', PInt 9)]"
        "[1]" "[(''c'', record_of (sample_core ''mine''))]" sample_world]
    by simp
qed

end
