(* ===== verification/Manager_Identity.thy ===== *)
theory Manager_Identity
  imports Manager_Progress
begin

text \<open>
  Identities are never reused: no operation of the Manager removes a row of the table of managed
  clients, deleted ones included, so a name is created or adopted once in the life of a panel.
\<close>

section \<open>The table only grows\<close>

definition grows :: "panel \<Rightarrow> panel \<Rightarrow> bool" where
  "grows p q \<longleftrightarrow> (distinct (names p) \<longrightarrow> distinct (names q) \<and> prefix (names p) (names q))"

interpretation grow_frame: effect_frame grows
  by unfold_locales (auto simp: grows_def intro: prefix_order.trans)

lemma watched_grows: "watched f c p q \<Longrightarrow> grows p q"
  by (simp add: watched_def grows_def)

lemma same_names_grow: "names q = names p \<Longrightarrow> grows p q"
  by (simp add: grows_def)

text \<open>A name outside a finite set, to read a frame of another client off.\<close>

lemma fresh_text: "finite (A :: string set) \<Longrightarrow> \<exists>c. c \<notin> A"
  by (rule ex_new_if_finite) (rule infinite_UNIV_listI)

lemma row_names: "managed_of c p \<noteq> None \<longleftrightarrow> c \<in> set (names p)"
  by (induction "hb_managed (pa_hub p)") (auto simp: names_def lookup_None_iff image_iff)

lemma tick_grows:
  assumes "quiet w"
  shows "grows p (fst (manager_tick w b p))"
proof (cases "distinct (names p)")
  case False
  then show ?thesis by (simp add: grows_def)
next
  case True
  obtain c where c: "c \<notin> set (names p)" using fresh_text [of "set (names p)"] by auto
  have other: "mc_email m \<noteq> c" if "m \<in> set (live_metas q)" "names q = names p" for m q
  proof -
    have "mc_email m \<in> set (names q)" using that(1) by (simp add: live_metas_def names_def)
    then show ?thesis using that(2) c by auto
  qed
  have "watched (\<lambda>m. m) c p (fst (tick_body w p))"
    unfolding tick_body_def
  proof (rule panel_frame.bind_frame, goal_cases)
    case 1
    show ?case by (rule schedule_cycles_watched) (use other in blast)
  next
    case (2 p1 u)
    show ?case
    proof (rule panel_frame.bind_frame, goal_cases)
      case 1
      show ?case by (rule clients_watched)
    next
      case (2 p2 rows)
      have p2: "watched (\<lambda>m. m) c p p2" using \<open>watched (\<lambda>m. m) c p p1\<close> 2(2) by (rule panel_frame.R_trans)
      show ?case
      proof (rule panel_frame.bind_frame, goal_cases)
        case 1
        show ?case by (rule panel_frame.read_frame)
      next
        case (2 p3 metas)
        then have p3: "p3 = p2" "metas = live_metas p2" by (auto simp: peek_def)
        then have ms: "\<forall>m \<in> set metas. mc_email m \<noteq> c" using other [of _ p2] p2 by (simp add: watched_def)
        show ?case
        proof (rule panel_frame.bind_frame, goal_cases)
          case 1
          show ?case by (rule panel_frame.map_frame, rule tick_meter_watched) (use ms in simp_all)
        next
          case (2 p4 metas')
          have "list_all2 (\<lambda>m m'. mc_email m' = mc_email m) metas metas'"
            by (rule emap_all2 [OF 2(1)]) (auto dest: tick_meterD)
          then have "\<forall>m \<in> set metas'. mc_email m \<noteq> c" using ms by (induction rule: list_all2_induct) auto
          moreover have "names p4 = names p" using p2 p3 2(2) by (simp add: watched_def)
          then have "parked_row c p4"
            using c True row_names [of c p4] by (simp add: parked_row_def dormant_at_def)
          ultimately show ?case by (intro tick_rest_watched assms) simp_all
        qed
      qed
    qed
  qed
  then show ?thesis by (intro watched_grows tick_watched)
qed

lemma watched_units:
  "grows p (fst (charge_snapshot w m r p))" "grows p (fst (clients w p))" "grows p (fst (flush_core w p))"
  "grows p (fst (audit w act ow action target detail p))" "grows p (fst (fresh_token w p))" "grows p (fst (remember x d p))"
  "grows p (fst (polled w p))" "grows p (fst (on_store f p))" "grows p (fst (client_detail x p))"
  "grows p (fst (complete_cycle w x p))" "grows p (fst (core_op w (collect_stats force strict) p))"
  "grows p (fst (schedule_cycles w emails p))" "quiet w \<Longrightarrow> grows p (fst (remote_reset w x rid p))"
proof -
  show "grows p (fst (charge_snapshot w m r p))"
    by (rule watched_grows [of "\<lambda>_. ()" "[]"], rule charge_snapshot_watched) (simp add: charged_columns_def)
  show "grows p (fst (schedule_cycles w emails p))"
    by (rule watched_grows [of "\<lambda>_. ()" "[]"], rule schedule_cycles_watched) (simp add: operation_columns_def)
qed (rule clients_watched [where f = "\<lambda>_. ()" and c = "[]", THEN watched_grows] |
    rule flush_core_watched [where f = "\<lambda>_. ()" and c = "[]", THEN watched_grows] |
    rule audit_watched [where f = "\<lambda>_. ()" and c = "[]", THEN watched_grows] |
    rule fresh_token_watched [where f = "\<lambda>_. ()" and c = "[]", THEN watched_grows] |
    rule remember_watched [where f = "\<lambda>_. ()" and c = "[]", THEN watched_grows] |
    rule polled_watched [where f = "\<lambda>_. ()" and c = "[]", THEN watched_grows] |
    rule on_store_watched [where f = "\<lambda>_. ()" and c = "[]", THEN watched_grows] |
    rule client_detail_watched [where f = "\<lambda>_. ()" and c = "[]", THEN watched_grows] |
    rule complete_cycle_watched [where f = "\<lambda>_. ()" and c = "[]", THEN watched_grows] |
    rule collect_watched [where f = "\<lambda>_. ()" and c = "[]", THEN watched_grows] |
    rule remote_reset_watched [where f = "\<lambda>_. ()" and c = "[]", THEN watched_grows] | assumption)+

lemma rows_grow:
  "(\<And>m. mc_email (g m) = mc_email m) \<Longrightarrow> grows p (set_managed (modify mc_email x g) p)"
  "(\<And>m. mc_email (g m) = mc_email m) \<Longrightarrow> grows p (fst (mark_row x g p))"
  by (simp_all add: same_names_grow names_def set_managed_def map_modify_key mark_row_def alter_def)

lemma upsert_many_grows: "grows p (fst (upsert_many items p))"
proof -
  obtain c where "c \<notin> fst ` set items" using fresh_text [of "fst ` set items"] by auto
  then show ?thesis
    by (intro watched_grows [of "\<lambda>_. ()" c] upsert_many_watched) auto
qed

lemma finish_grows: "grows p (finish_batch w batch p)" "grows p (finish_created w batch p)"
proof -
  have fold: "map mc_email (fold (\<lambda>(m, enabled, item). modify mc_email (mc_email m) (g enabled)) batch t) = map mc_email t"
    if "\<And>e m. mc_email (g e m) = mc_email m" for g and t :: "managed_row list"
  proof (induction batch arbitrary: t)
    case (Cons x batch)
    then show ?case by (cases x) (simp add: map_modify_key that)
  qed simp
  show "grows p (finish_batch w batch p)" "grows p (finish_created w batch p)"
    by (simp_all add: same_names_grow names_def finish_batch_def finish_created_def set_managed_def fold settled_def)
qed

section \<open>The operations of the Manager\<close>

lemma plain_grows: "hb_managed (pa_hub q) = hb_managed (pa_hub p) \<Longrightarrow> grows p q"
  by (simp add: same_names_grow names_def)

lemma inspects_grows: "grows p (fst (inspects f p))"
  by (simp add: inspects_def grow_frame.R_refl)

lemma client_snapshot_grows: "grows p (fst (client_snapshot w c b p))"
  unfolding client_snapshot_def
  by (intro grow_frame.bind_frame grow_frame.when_frame watched_units grow_frame.read_frame)

lemma meter_existing_grows: "grows p (fst (meter_existing w m sub existing p))"
  by (cases existing)
    (auto simp: meter_existing_def grow_frame.return_frame grow_frame.R_refl watched_units simp del: ebind.simps
      intro!: grow_frame.bind_frame grow_frame.read_frame)

lemma effect_pair_grows: "grows p (fst ((\<lambda>p. (p, g p)) p))"
  by (simp add: grow_frame.R_refl)

lemma reconcile_client_grows:
  assumes "quiet w"
  shows "grows p (fst (reconcile_client w c p))"
  unfolding reconcile_client_def reconcile_body_def Let_def
  by (intro grow_frame.catch_frame grow_frame.bind_frame tick_grows assms grow_frame.read_frame client_snapshot_grows
      meter_existing_grows watched_units upsert_many_grows grow_frame.alter_frame finish_grows effect_pair_grows)

lemma reconcile_batch_grows:
  assumes "quiet w"
  shows "grows p (fst (reconcile_batch w emails p))"
  unfolding reconcile_batch_def
  by (intro grow_frame.if_frame grow_frame.return_frame grow_frame.catch_frame grow_frame.bind_frame grow_frame.fold_frame
      tick_grows assms watched_units upsert_many_grows grow_frame.alter_frame finish_grows effect_pair_grows)
    (auto simp: watched_units)

lemma append_grows: "\<not> has_key mc_email (mc_email m) (hb_managed (pa_hub p)) \<Longrightarrow>
  hb_managed (pa_hub q) = hb_managed (pa_hub p) @ [m] \<Longrightarrow> grows p q"
  by (auto simp: grows_def names_def has_key_def lookup_None_iff)

lemma register_managed_grows: "register_managed w act ow c d ids billing tok p = Inr (q, u) \<Longrightarrow> grows p q"
  by (auto simp: register_managed_def rbind_Inr insert_pk_Inr set_managed_def set_store_def intro: append_grows)

lemma register_adopted_grows: "register_adopted w act ow c d ids tok up down p = Inr (q, u) \<Longrightarrow> grows p q"
  by (auto simp: register_adopted_def Let_def rbind_Inr insert_pk_Inr set_managed_def set_store_def intro: append_grows)

lemma join_group_grows: "grows p (fst (join_group ow g p))"
  by (cases g) (auto simp: join_group_def grow_frame.return_frame alter_def add_group_def intro: plain_grows)

lemma fill_secrets_grows: "grows p (fst (fill_secrets w d p))"
proof -
  have "grows p (fst (secret_field w k d p))" for k d p
    unfolding secret_field_def
    by (intro grow_frame.if_frame grow_frame.return_frame grow_frame.bind_frame watched_units)
  then show ?thesis
    unfolding fill_secrets_def by (intro grow_frame.bind_frame grow_frame.return_frame watched_units)
qed

lemma stage_create_grows: "grows p (fst (stage_create w act ow client ids_of pf_of existing reserved billing p))"
proof -
  have register: "grows p (fst (case transaction (register_managed w act ow c d ids b tok) p of
      (q, Inr u) \<Rightarrow> (q, Inr u) | (q, Inl ex) \<Rightarrow> (q, Inl (taken_as_policy ex))))" for c d ids b tok p
    by (auto simp: transaction_def grow_frame.R_refl register_managed_grows split: sum.splits prod.splits)
  show ?thesis
    unfolding stage_create_def Let_def case_prod_beta
    by (intro grow_frame.bind_frame grow_frame.read_frame inspects_grows fill_secrets_grows join_group_grows watched_units
        grow_frame.return_frame register [unfolded case_prod_beta])
qed

lemma create_client_grows: "quiet w \<Longrightarrow> grows p (fst (create_client w act ow client ids billing p))"
  unfolding create_client_def
  by (intro grow_frame.bind_frame grow_frame.read_frame watched_units stage_create_grows tick_grows grow_frame.return_frame)

lemma create_item_grows: "grows p (fst (create_item w act ow xs pf existing reserved raw acc p))"
  unfolding create_item_def
  by (intro grow_frame.catch_frame grow_frame.bind_frame stage_create_grows grow_frame.return_frame)

lemma create_preflight_grows: "grows p (fst (create_preflight w act ow ids p))"
  unfolding create_preflight_def
  by (intro grow_frame.bind_frame grow_frame.read_frame inspects_grows watched_units grow_frame.return_frame)

lemma create_batch_grows:
  assumes "quiet w"
  shows "grows p (fst (create_batch w act ow items ids p))"
proof -
  have stage: "grows p (fst (ebind (efold (create_item w act ow xs pf ex re) raws acc) (\<lambda>(staged, out).
      ebind (when_so (staged \<noteq> []) (reconcile_batch w staged)) (\<lambda>_. return (staged, out))) p))" for xs pf ex re raws acc p
    unfolding case_prod_beta
    by (intro grow_frame.bind_frame grow_frame.fold_frame create_item_grows grow_frame.when_frame reconcile_batch_grows assms
        grow_frame.return_frame)
  have "grows p (fst (case create_preflight w act ow ids p of
      (q, Inl ex) \<Rightarrow> if core_or_policy ex
        then (q, Inr ([], map (\<lambda>raw. (item_label w raw, Some (take 300 (err_message ex)))) xs)) else (q, Inl ex)
    | (q, Inr (ids', pf, existing, reserved)) \<Rightarrow>
        ebind (efold (create_item w act ow ids' pf existing reserved) xs ([], [])) (\<lambda>(staged, out).
        ebind (when_so (staged \<noteq> []) (reconcile_batch w staged)) (\<lambda>_. return (staged, out))) q))" for xs
    using create_preflight_grows [of p w act ow ids] stage
    by (auto simp del: ebind.simps simp add: case_prod_beta split: prod.splits sum.splits intro: grow_frame.R_trans)
  then show ?thesis
    by (auto simp: create_batch_def grow_frame.R_refl simp del: ebind.simps split: pyval.splits)
qed

lemma adopt_grows: "quiet w \<Longrightarrow> grows p (fst (adopt w act ow c p))"
  unfolding adopt_def Let_def case_prod_beta
  by (intro grow_frame.bind_frame grow_frame.read_frame inspects_grows watched_units grow_frame.transaction_frame tick_grows
      grow_frame.return_frame) (simp_all add: register_adopted_grows)

lemma stage_row_email: "mc_email (stage_row pl now m) = mc_email m"
  by (simp add: stage_row_def)

lemma commit_plan_grows: "commit_plan w pl p = Inr (q, u) \<Longrightarrow> grows p q"
  by (auto simp: commit_plan_def rbind_Inr set_managed_def set_store_def names_def map_modify_key stage_row_email
      intro: same_names_grow)

lemma update_client_grows: "quiet w \<Longrightarrow> grows p (fst (update_client w act c patch ids b p))"
  unfolding update_client_def
  by (intro grow_frame.bind_frame grow_frame.read_frame inspects_grows join_group_grows grow_frame.transaction_frame
      watched_units grow_frame.when_frame reconcile_client_grows) (simp_all add: commit_plan_grows)

lemma stage_plans_names: "names (fold (stage_plan w act now) pls p) = names p"
  by (induction pls arbitrary: p)
    (simp_all add: stage_plan_def Let_def names_def set_managed_def add_group_def map_modify_key stage_row_email split: option.splits)

lemma stage_batch_grows: "stage_batch w act pls p = Inr (q, errors) \<Longrightarrow> grows p q"
  by (auto simp: stage_batch_def rbind_Inr Let_def set_store_def)
    (rule same_names_grow, simp add: stage_plans_names, simp add: names_def)

lemma update_batch_grows:
  assumes "quiet w"
  shows "grows p (fst (update_batch w act items action p))"
proof -
  have "grows p (fst (ebind (inspects (plan_items w act action xs)) (\<lambda>ps.
      ebind (transaction (stage_batch w act (plans_of ps))) (\<lambda>errors.
      ebind (when_so (b ps errors) (manager_tick w True)) (\<lambda>_. return (map (batch_outcome errors) ps)))) p))" for xs b
    by (intro grow_frame.bind_frame inspects_grows grow_frame.transaction_frame grow_frame.when_frame tick_grows assms
        grow_frame.return_frame) (simp_all add: stage_batch_grows)
  then show ?thesis
    by (auto simp: update_batch_def grow_frame.R_refl simp del: ebind.simps split: pyval.splits)
qed

lemma record_operation_grows: "grows p (fst (record_operation w c op p))"
  unfolding record_operation_def
  by (intro grow_frame.bind_frame watched_units grow_frame.transaction_frame)
    (auto simp: bad_def intro!: rows_grow split: option.splits if_splits)

lemma client_action_grows: "quiet w \<Longrightarrow> grows p (fst (client_action w act c action p))"
  unfolding client_action_def
  by (intro grow_frame.if_frame update_client_grows grow_frame.raise_frame grow_frame.bind_frame inspects_grows tick_grows
      record_operation_grows watched_units)

lemma recovery_grows:
  assumes "quiet w"
  shows "grows p (fst (retry_operation w act c p))" and "grows p (fst (restore_missing w act c confirmation p))"
    and "grows p (fst (resolve_reset w act c confirmation p))"
proof -
  show "grows p (fst (retry_operation w act c p))"
    unfolding retry_operation_def
    by (intro grow_frame.bind_frame inspects_grows grow_frame.read_frame grow_frame.alter_frame rows_grow watched_units tick_grows assms)
      simp
  show "grows p (fst (restore_missing w act c confirmation p))"
    unfolding restore_missing_def
    by (intro grow_frame.bind_frame inspects_grows grow_frame.read_frame grow_frame.alter_frame rows_grow watched_units tick_grows assms)
      simp
  show "grows p (fst (resolve_reset w act c confirmation p))"
    unfolding resolve_reset_def
    by (intro grow_frame.bind_frame inspects_grows grow_frame.read_frame grow_frame.when_frame rows_grow watched_units tick_grows assms)
      simp
qed

lemma recover_grows: "grows p (fst (recover_resets p))"
  unfolding recover_resets_def
  by (intro grow_frame.alter_frame same_names_grow) (simp add: names_def set_managed_def update_where_def comp_def)

lemma owner_put_grows:
  "quiet w \<Longrightarrow> grows p (fst (owner_put w act ow name allowed volume unlimited max_clients manual quota pre ips hwid p))"
  unfolding owner_put_def
  by (intro grow_frame.bind_frame inspects_grows grow_frame.read_frame grow_frame.alter_frame watched_units tick_grows)
    (auto simp: put_profile_def watched_units intro: plain_grows)

lemma group_grows: "grows p (fst (group_put w act ow name color p))" "grows p (fst (group_delete w act ow name p))"
  unfolding group_put_def group_delete_def
  by (intro grow_frame.bind_frame grow_frame.read_frame grow_frame.alter_frame watched_units grow_frame.return_frame plain_grows,
      simp)+

section \<open>Any sequence of operations\<close>

text \<open>\<open>good\<close> is what the other threads are supposed to leave alone.\<close>

inductive manager_step :: "(world \<Rightarrow> bool) \<Rightarrow> panel \<Rightarrow> panel \<Rightarrow> bool" for good where
  tick: "good w \<Longrightarrow> manager_step good p (fst (manager_tick w b p))"
| create: "good w \<Longrightarrow> manager_step good p (fst (create_client w act ow client ids billing p))"
| create_batch: "good w \<Longrightarrow> manager_step good p (fst (create_batch w act ow items ids p))"
| adopt: "good w \<Longrightarrow> manager_step good p (fst (adopt w act ow c p))"
| update: "good w \<Longrightarrow> manager_step good p (fst (update_client w act c patch new_ids b p))"
| update_batch: "good w \<Longrightarrow> manager_step good p (fst (update_batch w act items action p))"
| action: "good w \<Longrightarrow> manager_step good p (fst (client_action w act c action p))"
| retry: "good w \<Longrightarrow> manager_step good p (fst (retry_operation w act c p))"
| restore: "good w \<Longrightarrow> manager_step good p (fst (restore_missing w act c confirmation p))"
| resolve: "good w \<Longrightarrow> manager_step good p (fst (resolve_reset w act c confirmation p))"
| restart: "manager_step good p (fst (recover_resets p))"
| owner: "good w \<Longrightarrow> manager_step good p (fst (owner_put w act ow name allowed volume unlimited max_clients manual quota pre ips hwid p))"
| group: "manager_step good p (fst (group_put w act ow g_name color p))"
| no_group: "manager_step good p (fst (group_delete w act ow g_name p))"

lemma step_grows: "manager_step quiet p q \<Longrightarrow> grows p q"
  by (cases rule: manager_step.cases, assumption)
    (simp_all add: tick_grows create_client_grows create_batch_grows adopt_grows update_client_grows update_batch_grows
      client_action_grows recovery_grows recover_grows owner_put_grows group_grows)

lemma steps_grow: "(manager_step quiet)\<^sup>*\<^sup>* p q \<Longrightarrow> grows p q"
  by (induction rule: rtranclp_induct) (auto intro: grow_frame.R_refl grow_frame.R_trans step_grows)

lemma steps_keep_row:
  assumes "(manager_step quiet)\<^sup>*\<^sup>* p q" and "distinct (names p)" and "c \<in> set (names p)"
  shows "c \<in> set (names q)" and "distinct (names q)"
  using steps_grow [OF assms(1)] assms(2,3) by (auto simp: grows_def prefix_def)

section \<open>A taken name is refused\<close>

lemma stage_refused:
  assumes "c \<in> set reserved" and "lower_email d = Inr c"
  shows "\<exists>e. snd (stage_create w act ow (Inr d) ids_of pf_of existing reserved billing p) = Inl e"
proof (rule ccontr)
  assume "\<not> ?thesis"
  then obtain q x where "stage_create w act ow (Inr d) ids_of pf_of existing reserved billing p = (q, Inr x)"
    by (metis prod.collapse sum.exhaust)
  then show False
    using assms unfolding stage_create_def
    by (auto simp: ebind_Inr of_res_def require_that_def inspects_def simp del: ebind.simps split: if_splits)
qed

lemma create_refused:
  assumes "c \<in> set (names p)" and "validate_client False client = Inr d" and "lower_email d = Inr (lower c)"
  shows "\<exists>e. snd (create_client w act ow client ids billing p) = Inl e"
proof (rule ccontr)
  assume "\<not> ?thesis"
  then obtain q x where run: "create_client w act ow client ids billing p = (q, Inr x)"
    by (metis prod.collapse sum.exhaust)
  from bindD [OF run [unfolded create_client_def]] obtain p1 d1 where
    "of_res (validate_client False client) p = (p1, Inr d1)"
    and rest: "ebind (clients w) (\<lambda>rows. ebind (peek reserved_names) (\<lambda>reserved.
       ebind (stage_create w act ow (Inr d1) (check_inbounds ow ids) (profile_of ow) (map (\<lambda>r. lower (fst r)) rows) reserved billing)
       (\<lambda>c. ebind (manager_tick w True) (\<lambda>_. return c)))) p1 = (q, Inr x)"
    by blast
  then have d: "p1 = p" "d1 = d" using assms(2) by (auto simp: of_res_def)
  from bindD [OF rest] obtain p2 rows where p2: "clients w p1 = (p2, Inr rows)"
    and rest2: "ebind (peek reserved_names) (\<lambda>reserved.
       ebind (stage_create w act ow (Inr d1) (check_inbounds ow ids) (profile_of ow) (map (\<lambda>r. lower (fst r)) rows) reserved billing)
       (\<lambda>c. ebind (manager_tick w True) (\<lambda>_. return c))) p2 = (q, Inr x)"
    by blast
  have "names p2 = names p" using clients_watched [of "\<lambda>m. m" c p w] p2 d by (simp add: watched_def)
  moreover have "lower ` set (names p2) \<subseteq> set (reserved_names p2)" by (auto simp: reserved_names_def names_def)
  ultimately have "lower c \<in> set (reserved_names p2)" using assms(1) by auto
  moreover from rest2 obtain p3 y where
    "stage_create w act ow (Inr d) (check_inbounds ow ids) (profile_of ow) (map (\<lambda>r. lower (fst r)) rows) (reserved_names p2) billing p2
       = (p3, Inr y)"
    using d by (auto simp: ebind_Inr peek_def simp del: ebind.simps)
  ultimately show False using stage_refused [OF _ assms(3)] by (metis Inl_Inr_False snd_conv)
qed

lemma adopt_refused:
  assumes "c \<in> set (names p)"
  shows "\<exists>e. snd (adopt w act ow c p) = Inl e"
proof (rule ccontr)
  assume "\<not> ?thesis"
  then obtain q x where run: "adopt w act ow c p = (q, Inr x)"
    by (metis prod.collapse sum.exhaust)
  then obtain p1 p2 rows d ids tok up down s where steps: "clients w p = (p1, Inr rows)" "p2 = p1\<lparr>pa_step := Suc (pa_step p1)\<rparr>"
    and reg: "register_adopted w act ow c d ids tok up down p2 = Inr (s, ())"
    unfolding adopt_def Let_def
    by (auto simp: ebind_Inr of_res_def require_that_def inspects_def client_detail_def fresh_token_def transaction_Inr
        simp del: ebind.simps split: option.splits if_splits prod.splits)
  have "names p2 = names p" using clients_watched [of "\<lambda>m. m" c p w] steps by (simp add: watched_def names_def)
  then have "has_key mc_email c (hb_managed (pa_hub p2))"
    using assms row_names [of c p2] by (simp add: has_key_def)
  then show False using reg
    by (auto simp: register_adopted_def Let_def rbind_Inr insert_pk_Inr adopted_row_def new_managed_def)
qed

text \<open>
  C28. Identities are never reused: once a client has a row in the panel, deleted or not, no sequence
  of operations removes the row, and every later creation under the name, in any case, and every
  adoption of it is refused.
\<close>

theorem identity_never_reused:
  assumes "(manager_step quiet)\<^sup>*\<^sup>* p q" and "distinct (names p)" and "c \<in> set (names p)"
    and "validate_client False client = Inr d" and "lower_email d = Inr (lower c)"
  shows "c \<in> set (names q) \<and> distinct (names q) \<and> (\<exists>e. snd (create_client w act ow client ids billing q) = Inl e) \<and>
    (\<exists>e. snd (adopt w act ow c q) = Inl e)"
  using steps_keep_row [OF assms(1-3)] create_refused [OF _ assms(4,5)] adopt_refused by blast

theorem identity_never_reused_witness:
  "\<exists>e. snd (create_client sample_world system_actor ''o'' (PDict [(''email'', PStr ''C'')]) [PInt 1] PNone
      (fst (manager_tick sample_world True (fst (client_action sample_world system_actor ''c'' ''delete'' sample_panel))))) = Inl e"
proof -
  let ?p1 = "fst (client_action sample_world system_actor ''c'' ''delete'' sample_panel)"
  have "(manager_step quiet)\<^sup>*\<^sup>* sample_panel (fst (manager_tick sample_world True ?p1))"
    by (rule rtranclp.rtrancl_into_rtrancl [OF r_into_rtranclp])
      (rule manager_step.action [where good = quiet, OF sample_quiet], rule manager_step.tick [where good = quiet, OF sample_quiet])
  moreover have "distinct (names sample_panel)" "''c'' \<in> set (names sample_panel)"
    "validate_client False (PDict [(''email'', PStr ''C'')]) = Inr [(''email'', PStr ''C'')]"
    "lower_email [(''email'', PStr ''C'')] = Inr (lower ''c'')"
    by code_simp+
  ultimately show ?thesis using identity_never_reused by blast
qed

end
