(* ===== verification/Manager_Accounts.thy ===== *)
theory Manager_Accounts
  imports Manager_Identity
begin

text \<open>
  What the Manager leaves alone of everything else: the table of accounts. Every operation of the
  Manager keeps \<open>api_admins\<close> and only moves forward in the answers of the outside world, so a random
  token drawn later is another answer than one drawn before.
\<close>

context effect_frame
begin

lemma option_frame:
  "R s (fst (m s)) \<Longrightarrow> (\<And>x. y = Some x \<Longrightarrow> R s (fst (f x s))) \<Longrightarrow> R s (fst ((case y of None \<Rightarrow> m | Some x \<Rightarrow> f x) s))"
  by (cases y) simp_all

lemma catch_all_frame:
  "R s (fst (m s)) \<Longrightarrow> (\<And>t e. R s t \<Longrightarrow> R t (fst (h e t))) \<Longrightarrow> R s (fst (catch m h s))"
  by (auto split: prod.splits sum.splits intro: R_trans)

lemma fixed_frame: "R s (fst (s, r))"
  by (simp add: R_refl)

end

section \<open>The accounting store\<close>

lemma edit_client_admins: "edit_client act c ips quota man expires now s = Inr s' \<Longrightarrow> st_admins s' = st_admins s"
  by (auto simp: edit_client_def edit_write_def rbind_Inr dest!: change_credit_frame split: if_splits prod.splits)

lemma edit_one_admins: "edit_one act seen e now s = Inr s' \<Longrightarrow> st_admins s' = st_admins s"
  by (cases e) (auto dest: edit_client_admins split: pyval.splits if_splits)

lemma edit_rows_admins: "edit_rows act es seen errors now s = Inr (s', x) \<Longrightarrow> st_admins s' = st_admins s"
  by (induction es arbitrary: seen errors s) (auto dest: edit_one_admins split: sum.splits if_splits)

lemma store_admins:
  "edit_clients_many act es now s = Inr (s', x) \<Longrightarrow> st_admins s' = st_admins s"
  "delete_client act c s = Inr s' \<Longrightarrow> st_admins s' = st_admins s"
  "register_owner act ow volume unlimited max_clients manual quota uid now s = Inr s' \<Longrightarrow> st_admins s' = st_admins s"
  "register_client act c ow ips quota_bytes price order_id expires days now s = Inr s' \<Longrightarrow> st_admins s' = st_admins s"
  "edit_policy c d now s = Inr s' \<Longrightarrow> st_admins s' = st_admins s"
proof -
  show "edit_clients_many act es now s = Inr (s', x) \<Longrightarrow> st_admins s' = st_admins s"
    by (auto simp: edit_clients_many_def dest: edit_rows_admins split: if_splits)
  show "delete_client act c s = Inr s' \<Longrightarrow> st_admins s' = st_admins s"
    by (auto simp: delete_client_def rbind_Inr split: option.splits if_splits)
  show "register_owner act ow volume unlimited max_clients manual quota uid now s = Inr s' \<Longrightarrow> st_admins s' = st_admins s"
    by (auto simp: register_owner_def write_owner_def Let_def rbind_Inr split: if_splits)
  show "register_client act c ow ips quota_bytes price order_id expires days now s = Inr s' \<Longrightarrow> st_admins s' = st_admins s"
    by (auto simp: register_client_def rbind_Inr dest!: change_credit_frame split: option.splits if_splits)
  show "edit_policy c d now s = Inr s' \<Longrightarrow> st_admins s' = st_admins s"
    by (auto simp: edit_policy_def dest: edit_client_admins split: if_splits)
qed

section \<open>The frame\<close>

text \<open>The other threads do not write the accounts while the Manager holds its lock.\<close>

definition calm :: "world \<Rightarrow> bool" where
  "calm w \<longleftrightarrow> (\<forall>lk. wo_links w = Some lk \<longrightarrow>
     (\<forall>i n h. st_admins (hb_store (lk_between (lk i n) h)) = st_admins (hb_store h)))"

definition steady :: "panel \<Rightarrow> panel \<Rightarrow> bool" where
  "steady p q \<longleftrightarrow> st_admins (store_of q) = st_admins (store_of p) \<and> pa_step p \<le> pa_step q"

interpretation steady_frame: effect_frame steady
  by unfold_locales (auto simp: steady_def)

lemma same_steady: "store_of q = store_of p \<Longrightarrow> pa_step q = pa_step p \<Longrightarrow> steady p q"
  by (simp add: steady_def)

lemma set_managed_steady [simp]: "steady p (set_managed f p)"
  by (simp add: steady_def set_managed_def)

lemma set_core_steady [simp]: "steady p (set_core f p)"
  by (rule same_steady) (simp_all add: set_core_def)

lemma set_store_steady: "st_admins s = st_admins (store_of p) \<Longrightarrow> steady p (set_store s p)"
  by (simp add: steady_def set_store_def)

lemma on_store_steady: "(\<And>s. m (store_of p) = Inr s \<Longrightarrow> st_admins s = st_admins (store_of p)) \<Longrightarrow> steady p (fst (on_store m p))"
  by (auto simp: on_store_def steady_frame.R_refl intro: set_store_steady split: sum.splits)

lemma core_op_steady: "steady p (fst (core_op w m p))"
  by (simp add: core_op_def steady_def split: prod.splits)

lemma mark_steady: "steady p (fst (mark_row c f p))"
  by (simp add: mark_row_def alter_def)

lemma fresh_token_steady: "steady p (fst (fresh_token w p))"
  by (simp add: fresh_token_def steady_def)

lemma simple_steady:
  "steady p (fst (audit w act ow action target detail p))" "steady p (fst (remember x d p))" "steady p (fst (polled w p))"
  "steady p (fst (flush_core w p))" "steady p (fst (client_detail x p))" "steady p (fst (core_writes p))"
  "steady p (fst (inspects f p))"
  by (simp_all add: audit_def remember_def polled_def alter_def steady_def flush_core_def core_op_def client_detail_def
      core_writes_def require_that_def inspects_def)

lemmas steady_rules = steady_frame.bind_frame steady_frame.return_frame steady_frame.raise_frame steady_frame.read_frame
  steady_frame.alter_frame steady_frame.when_frame steady_frame.fixed_frame set_managed_steady set_core_steady
  core_op_steady mark_steady fresh_token_steady simple_steady

lemma clients_steady: "steady p (fst (clients w p))"
  unfolding clients_def by (intro steady_rules)

lemma remote_reset_steady:
  assumes "calm w"
  shows "steady p (fst (remote_reset w x rid p))"
proof (cases "wo_links w")
  case None
  then show ?thesis by (simp add: remote_reset_def steady_frame.R_refl)
next
  case (Some lk)
  then have "hub_same (\<lambda>h. st_admins (hb_store h)) (pa_hub p)
      (fst (reset_client_traffic (wo_sha w) x (PStr rid) (lk (pa_step p)) (pa_hub p)))"
    using assms by (intro account_part.reset_client_traffic_same) (simp add: calm_def)
  then show ?thesis
    using Some by (auto simp: remote_reset_def hub_same_def steady_def split: prod.splits)
qed

section \<open>Metering and schedules\<close>

lemma write_used_steady: "steady p (write_used c n p)"
  by (simp add: write_used_def set_store_steady)

lemma charge_write_steady: "charge_write w m i j p = Inr (q, u) \<Longrightarrow> steady p q"
  by (auto simp: charge_write_def charge_ledger_def Let_def rbind_Inr steady_def write_used_def set_store_def set_managed_def
      split: option.splits if_splits)

lemma charge_snapshot_steady: "steady p (fst (charge_snapshot w m r p))"
proof -
  have "steady p (fst (ebind (transaction (charge_write w m i j)) (\<lambda>_.
      when_so b (audit w system_actor ow action target detail)) p))" for i j b ow action target detail
    by (intro steady_rules steady_frame.transaction_frame) (rule charge_write_steady)
  then show ?thesis
    by (auto simp: charge_snapshot_def Let_def steady_frame.R_refl simp del: ebind.simps split: sum.splits option.splits)
qed

lemma charge_final_steady: "steady p (fst (charge_final w x final p))"
  by (auto simp: charge_final_def steady_frame.R_refl charge_snapshot_steady split: option.splits sum.splits)

lemma schedule_change_steady: "schedule_change w now m p = Inr q \<Longrightarrow> steady p q"
  by (drule schedule_changeD) (auto simp: steady_def set_managed_def)

lemma schedule_all_steady: "schedule_all w now ms p = Inr (q, u) \<Longrightarrow> steady p q"
  by (induction ms arbitrary: p)
    (auto simp: rbind_Inr steady_frame.R_refl dest!: schedule_change_steady intro: steady_frame.R_trans)

lemma schedule_cycles_steady: "steady p (fst (schedule_cycles w emails p))"
  by (auto simp: schedule_cycles_def Let_def steady_frame.R_refl intro!: steady_frame.transaction_frame dest: schedule_all_steady)

lemma complete_cycle_steady: "steady p (fst (complete_cycle w x p))"
  unfolding complete_cycle_def
  by (rule steady_frame.transaction_frame) (auto simp: rbind_Inr steady_def split: option.splits if_splits)

section \<open>One operation\<close>

lemmas steady_units = clients_steady charge_snapshot_steady charge_final_steady schedule_cycles_steady complete_cycle_steady

lemma core_create_steady: "steady p (fst (core_create d ids p))"
  unfolding core_create_def
  by (intro steady_rules) (auto simp: steady_frame.R_refl split: pyval.splits sum.splits)

lemma core_ids_steady: "steady p (fst (core_attach c ids p))" "steady p (fst (core_detach c ids p))"
  "steady p (fst (core_update c d p))"
  unfolding core_attach_def core_detach_def core_update_def Let_def
  by (intro steady_rules steady_frame.if_frame)+

lemma upsert_many_steady: "steady p (fst (upsert_many items p))"
  unfolding upsert_many_def by (intro steady_rules)

lemma core_delete_steady: "steady p (fst (core_delete w x p))"
  unfolding core_delete_def
  by (intro steady_rules) (simp add: drop_core_def Let_def steady_def set_core_def split: option.splits)

lemma core_reset_steady: "steady p (fst (core_reset w x p))"
  unfolding core_reset_def by (intro steady_rules)

lemma bury_steady: "steady p (bury w c p)"
  by (simp add: steady_def bury_def set_managed_def)

lemma apply_delete_steady:
  assumes "calm w"
  shows "steady p (fst (apply_delete w m sub existing p))"
proof -
  have final: "steady q (fst ((case existing of
        Some r \<Rightarrow> ebind (of_res (refuse_other sub r e1)) (\<lambda>_. core_delete w c)
      | None \<Rightarrow> (\<lambda>p. case deleted_snapshot c p of
            None \<Rightarrow> (p, Inr None)
          | Some r \<Rightarrow> (p, rbind (refuse_other sub r e2) (\<lambda>_. Inr (Some r))))) q))" for e1 e2 q c
    by (cases existing) (auto simp: steady_frame.R_refl steady_frame.read_frame core_delete_steady simp del: ebind.simps
        intro!: steady_frame.bind_frame split: option.splits)
  have policy: "steady q (fst (if client_of c (store_of q) = None then (q, Inr ())
      else on_store (delete_client system_actor c) q))" for q c
    by (auto simp: steady_frame.R_refl intro!: on_store_steady dest: store_admins)
  show ?thesis
    unfolding apply_delete_def Let_def
    by (intro steady_rules remote_reset_steady assms final charge_final_steady policy bury_steady)
qed

lemma zero_usage_steady: "steady p (zero_usage c p)"
  by (simp add: zero_usage_def Let_def steady_def write_used_def set_store_def set_managed_def)

lemma apply_reset_steady: "calm w \<Longrightarrow> steady p (fst (apply_reset w m existing p))"
  unfolding apply_reset_def Let_def
  by (intro steady_rules remote_reset_steady core_reset_steady steady_units zero_usage_steady)

lemma apply_upsert_steady: "steady p (fst (apply_upsert w m d ids existing p))"
  unfolding apply_upsert_def Let_def
  by (intro steady_rules steady_frame.option_frame core_create_steady core_ids_steady)

lemma apply_operation_steady:
  assumes "calm w"
  shows "steady p (fst (apply_operation w records m p))"
  unfolding apply_operation_def Let_def finish_operation_def
  by (intro steady_rules steady_frame.if_frame apply_delete_steady apply_reset_steady apply_upsert_steady assms)

section \<open>The tick\<close>

lemma tick_meter_steady: "steady p (fst (tick_meter w records m p))"
  unfolding tick_meter_def Let_def
  by (intro steady_rules steady_frame.option_frame steady_frame.if_frame steady_units)

lemma mark_failure_steady: "steady p (fst (mark_failure w m ex p))"
  by (simp add: mark_failure_def alter_def)

lemma attempted_steady: "(\<And>q. steady q (fst (body q))) \<Longrightarrow> steady p (fst (attempted w m failed body p))"
  unfolding attempted_def by (intro steady_rules steady_frame.catch_frame mark_failure_steady)

lemma tick_pending_steady:
  assumes "calm w"
  shows "steady p (fst (tick_pending w records m acc p))"
proof -
  have "steady p (fst (ebind (mark_failure w m ex) (\<lambda>_. return acc) p))" for ex
    by (intro steady_rules mark_failure_steady)
  moreover have "steady p (fst (attempted w m acc (ebind (apply_operation w records m) (\<lambda>_. return (True, snd acc))) p))"
    by (intro attempted_steady steady_rules apply_operation_steady assms)
  ultimately show ?thesis
    by (auto simp: tick_pending_def steady_frame.R_refl simp del: ebind.simps split: sum.splits)
qed

lemma tick_batch_steady: "calm w \<Longrightarrow> steady p (fst (tick_batch w records changed batch p))"
  unfolding tick_batch_def finish_batch_def case_prod_beta
  by (intro steady_rules steady_frame.if_frame steady_frame.catch_frame steady_frame.fold_frame upsert_many_steady
      attempted_steady apply_operation_steady)

lemma settle_quota_steady: "steady p (fst (settle_quota w c row observed r p))"
proof -
  have edit: "steady q (fst (on_store (edit_client system_actor c PNone (PInt observed) PNone PNone t) q))" for q t
    by (intro on_store_steady) (auto dest: edit_client_admins)
  have undo: "steady q (fst ((if b then ebind (core_update c x) (\<lambda>_. return y) q else (q, Inr r))))" for q b x y
    by (auto simp: steady_frame.R_refl simp del: ebind.simps intro!: steady_rules core_ids_steady)
  show ?thesis
    unfolding settle_quota_def
    by (intro steady_frame.option_frame steady_frame.if_frame steady_rules steady_frame.catch_frame edit undo)
qed

lemma settle_expiry_steady: "steady p (fst (settle_expiry c row observed p))"
  unfolding settle_expiry_def by (intro steady_rules) (simp add: set_store_steady)

lemma settle_enable_steady: "steady p (fst (settle_enable w m r p))"
proof -
  have "steady q (fst ((if b then ebind (core_update c x) (\<lambda>_. return y) q else (q, Inr z))))"
    for q b c x and y z :: dict
    by (auto simp: steady_frame.R_refl simp del: ebind.simps intro!: steady_rules core_ids_steady)
  then show ?thesis
    unfolding settle_enable_def Let_def by (intro steady_rules)
qed

lemma settle_client_steady: "steady p (fst (settle_client w m r p))"
proof -
  have "steady q (fst (case get_meta c q of Inl ex \<Rightarrow> (q, Inl ex) | Inr x \<Rightarrow> charge_snapshot w x r q))" for c q
    by (simp add: steady_frame.R_refl charge_snapshot_steady split: sum.splits)
  then show ?thesis
    unfolding settle_client_def Let_def case_prod_beta
    by (intro steady_rules settle_quota_steady settle_expiry_steady settle_enable_steady)
qed

lemma tick_settle_steady: "steady p (fst (tick_settle w records m p))"
  unfolding tick_settle_def
  by (intro steady_frame.option_frame steady_frame.if_frame steady_frame.return_frame settle_client_steady)

lemma tick_rest_steady: "calm w \<Longrightarrow> steady p (fst (tick_rest w rows metas p))"
  unfolding tick_rest_def case_prod_beta
  by (intro steady_rules steady_frame.fold_frame steady_frame.if_frame tick_pending_steady tick_batch_steady steady_units
      tick_settle_steady) (simp_all add: steady_def)

lemma tick_steady:
  assumes "calm w"
  shows "steady p (fst (manager_tick w b p))"
proof -
  have "steady p (fst (tick_body w p))"
    unfolding tick_body_def
    by (intro steady_rules steady_units steady_frame.map_frame tick_meter_steady tick_rest_steady assms)
  then show ?thesis
    by (auto simp: manager_tick_def steady_def split: prod.splits sum.splits)
qed

section \<open>The operations of the Manager\<close>

lemma client_snapshot_steady: "steady p (fst (client_snapshot w c b p))"
  unfolding client_snapshot_def by (intro steady_rules)

lemma meter_existing_steady: "steady p (fst (meter_existing w m sub existing p))"
  unfolding meter_existing_def
  by (intro steady_frame.option_frame steady_rules steady_units)

lemma reconcile_client_steady: "calm w \<Longrightarrow> steady p (fst (reconcile_client w c p))"
  unfolding reconcile_client_def reconcile_body_def Let_def finish_batch_def
  by (intro steady_rules steady_frame.catch_frame tick_steady client_snapshot_steady meter_existing_steady steady_units
      upsert_many_steady)

lemma reconcile_batch_steady: "calm w \<Longrightarrow> steady p (fst (reconcile_batch w emails p))"
  unfolding reconcile_batch_def finish_created_def case_prod_beta
  by (intro steady_frame.if_frame steady_rules steady_frame.catch_frame steady_frame.fold_frame tick_steady steady_units
      upsert_many_steady)

lemma register_managed_steady: "register_managed w act ow c d ids billing tok p = Inr (q, u) \<Longrightarrow> steady p q"
  by (auto simp: register_managed_def rbind_Inr steady_def set_managed_def set_store_def
      dest!: store_admins edit_client_admins)

lemma register_adopted_steady: "register_adopted w act ow c d ids tok up down p = Inr (q, u) \<Longrightarrow> steady p q"
  by (auto simp: register_adopted_def Let_def rbind_Inr steady_def set_managed_def set_store_def dest!: store_admins)

lemma join_group_steady: "steady p (fst (join_group ow g p))"
  by (cases g) (simp_all add: join_group_def return_def alter_def add_group_def steady_def)

lemma fill_secrets_steady: "steady p (fst (fill_secrets w d p))"
  unfolding fill_secrets_def secret_field_def by (intro steady_rules steady_frame.if_frame)

lemma stage_create_steady: "steady p (fst (stage_create w act ow client ids_of pf_of existing reserved billing p))"
proof -
  have register: "steady p (fst (case transaction (register_managed w act ow c d ids b tok) p of
      (q, Inr u) \<Rightarrow> (q, Inr u) | (q, Inl ex) \<Rightarrow> (q, Inl (taken_as_policy ex))))" for c d ids b tok p
    by (auto simp: transaction_def steady_frame.R_refl register_managed_steady split: sum.splits prod.splits)
  show ?thesis
    unfolding stage_create_def Let_def case_prod_beta
    by (intro steady_rules fill_secrets_steady join_group_steady register [unfolded case_prod_beta])
qed

lemma create_client_steady: "calm w \<Longrightarrow> steady p (fst (create_client w act ow client ids billing p))"
  unfolding create_client_def by (intro steady_rules steady_units stage_create_steady tick_steady)

lemma create_batch_steady:
  assumes "calm w"
  shows "steady p (fst (create_batch w act ow items ids p))"
proof -
  have preflight: "steady p (fst (create_preflight w act ow ids p))" for p
    unfolding create_preflight_def by (intro steady_rules steady_units)
  have stage: "steady p (fst (ebind (efold (create_item w act ow xs pf ex re) raws acc) (\<lambda>(staged, out).
      ebind (when_so (staged \<noteq> []) (reconcile_batch w staged)) (\<lambda>_. return (staged, out))) p))" for xs pf ex re raws acc p
    unfolding case_prod_beta create_item_def
    by (intro steady_rules steady_frame.fold_frame steady_frame.catch_frame stage_create_steady reconcile_batch_steady assms)
  have "steady p (fst (case create_preflight w act ow ids p of
      (q, Inl ex) \<Rightarrow> if core_or_policy ex
        then (q, Inr ([], map (\<lambda>raw. (item_label w raw, Some (take 300 (err_message ex)))) xs)) else (q, Inl ex)
    | (q, Inr (ids', pf, existing, reserved)) \<Rightarrow>
        ebind (efold (create_item w act ow ids' pf existing reserved) xs ([], [])) (\<lambda>(staged, out).
        ebind (when_so (staged \<noteq> []) (reconcile_batch w staged)) (\<lambda>_. return (staged, out))) q))" for xs
    using preflight [of p] stage
    by (auto simp del: ebind.simps simp add: case_prod_beta split: prod.splits sum.splits intro: steady_frame.R_trans)
  then show ?thesis
    by (auto simp: create_batch_def steady_frame.R_refl simp del: ebind.simps split: pyval.splits)
qed

lemma adopt_steady: "calm w \<Longrightarrow> steady p (fst (adopt w act ow c p))"
  unfolding adopt_def Let_def case_prod_beta
  by (intro steady_rules steady_units steady_frame.transaction_frame tick_steady) (simp_all add: register_adopted_steady)

lemma commit_plan_steady: "commit_plan w pl p = Inr (q, u) \<Longrightarrow> steady p q"
  by (auto simp: commit_plan_def rbind_Inr set_managed_def set_store_def steady_def dest!: store_admins)

lemma update_client_steady: "calm w \<Longrightarrow> steady p (fst (update_client w act c patch ids b p))"
  unfolding update_client_def
  by (intro steady_rules join_group_steady steady_frame.transaction_frame reconcile_client_steady)
    (simp_all add: commit_plan_steady)

lemma stage_plans_steady: "steady p (fold (stage_plan w act now) pls p)"
proof (induction pls arbitrary: p)
  case (Cons pl pls)
  have "steady p (stage_plan w act now pl p)"
    by (auto simp: stage_plan_def Let_def steady_def set_managed_def add_group_def split: option.splits)
  then show ?case using Cons [of "stage_plan w act now pl p"] by (auto intro: steady_frame.R_trans)
qed (simp add: steady_frame.R_refl)

lemma stage_batch_steady:
  assumes "stage_batch w act pls p = Inr (q, errors)"
  shows "steady p q"
proof -
  obtain s where s: "edit_clients_many system_actor (policy_edits pls) (clock w p) (store_of p) = Inr (s, errors)"
    and q: "q = fold (stage_plan w act (clock w p)) (filter (\<lambda>pl. map_of errors (pl_email pl) = None) pls) (set_store s p)"
    using assms by (auto simp: stage_batch_def rbind_Inr Let_def)
  show ?thesis
    unfolding q using set_store_steady [OF store_admins(1) [OF s]] stage_plans_steady by (rule steady_frame.R_trans)
qed

lemma update_batch_steady:
  assumes "calm w"
  shows "steady p (fst (update_batch w act items action p))"
proof -
  have "steady p (fst (ebind (inspects (plan_items w act action xs)) (\<lambda>ps.
      ebind (transaction (stage_batch w act (plans_of ps))) (\<lambda>errors.
      ebind (when_so (b ps errors) (manager_tick w True)) (\<lambda>_. return (map (batch_outcome errors) ps)))) p))" for xs b
    by (intro steady_rules steady_frame.transaction_frame tick_steady assms) (simp_all add: stage_batch_steady)
  then show ?thesis
    by (auto simp: update_batch_def steady_frame.R_refl simp del: ebind.simps split: pyval.splits)
qed

lemma record_operation_steady: "steady p (fst (record_operation w c op p))"
  unfolding record_operation_def
  by (intro steady_rules steady_frame.transaction_frame) (auto simp: bad_def split: option.splits if_splits)

lemma client_action_steady: "calm w \<Longrightarrow> steady p (fst (client_action w act c action p))"
  unfolding client_action_def
  by (intro steady_frame.if_frame steady_rules update_client_steady tick_steady record_operation_steady)

lemma recovery_steady:
  assumes "calm w"
  shows "steady p (fst (retry_operation w act c p))" and "steady p (fst (restore_missing w act c confirmation p))"
    and "steady p (fst (resolve_reset w act c confirmation p))"
  unfolding retry_operation_def restore_missing_def resolve_reset_def
  by (intro steady_rules steady_units remote_reset_steady tick_steady assms)+

lemma recover_resets_steady: "steady p (fst (recover_resets p))"
  unfolding recover_resets_def by (intro steady_rules)

lemma owner_put_steady:
  "calm w \<Longrightarrow> steady p (fst (owner_put w act ow name allowed volume unlimited max_clients manual quota pre ips hwid p))"
  unfolding owner_put_def
  by (intro steady_rules on_store_steady tick_steady) (auto simp: put_profile_def steady_def dest: store_admins)

lemma group_steady: "steady p (fst (group_put w act ow name color p))" "steady p (fst (group_delete w act ow name p))"
  unfolding group_put_def group_delete_def
  by (intro steady_rules, simp add: steady_def)+

lemma manager_step_steady: "manager_step calm p q \<Longrightarrow> steady p q"
  by (cases rule: manager_step.cases, assumption)
    (simp_all add: tick_steady create_client_steady create_batch_steady adopt_steady update_client_steady update_batch_steady
      client_action_steady recovery_steady recover_resets_steady owner_put_steady group_steady)

end
