(* ===== verification/Sessions.thy ===== *)
theory Sessions
  imports Manager_Accounts
begin

text \<open>
  Sign-in to the panel (backend/auth.py, class \<open>Auth\<close>, and the representative accounts of
  backend/server.py): sessions, one-time passwords, API keys and the table of accounts. The
  state is the panel, whose store holds the accounts (\<open>api_admins\<close>), together with the tables of
  \<open>Auth\<close>. The cipher, scrypt and HMAC-SHA1 are parameters (\<open>vault\<close>); SHA-256 and the random tokens
  are the ones of \<open>world\<close>. A permission table is an association list with distinct keys.
\<close>

section \<open>State\<close>

record session_row =
  se_digest :: string
  se_admin :: string
  se_csrf :: string
  se_expires :: real
  se_public :: string
  se_created :: real
  se_source :: string
  se_agent :: string

record key_row =
  ky_id :: string
  ky_digest :: string
  ky_admin :: string
  ky_name :: string
  ky_permissions :: "(string \<times> string) list"
  ky_expires :: real
  ky_revoked :: bool
  ky_created :: real

record mfa_row =
  mf_admin :: string
  mf_secret :: string
  mf_pending :: string
  mf_enabled :: bool
  mf_last :: int
  mf_recovery :: "string list"

record attempt_row =
  at_bucket :: string
  at_start :: real
  at_count :: int

record auth_tables =
  au_sessions :: "session_row list"
  au_keys :: "key_row list"
  au_mfa :: "mfa_row list"
  au_attempts :: "attempt_row list"

record desk =
  dk_panel :: panel
  dk_auth :: auth_tables

record principal =
  pp_actor :: actor
  pp_session :: "string option"
  pp_csrf :: string
  pp_key :: "string option"

record vault =
  va_seal :: "string \<Rightarrow> string"
  va_open :: "string \<Rightarrow> string option"
  va_scrypt :: "string \<Rightarrow> byte list \<Rightarrow> byte list"
  va_salt :: "nat \<Rightarrow> byte list"
  va_mac :: "string \<Rightarrow> int \<Rightarrow> byte list"

definition at_desk :: "(panel, 'a) effect \<Rightarrow> (desk, 'a) effect" where
  "at_desk m = on_part dk_panel (\<lambda>p d. d\<lparr>dk_panel := p\<rparr>) m"

definition desk_clock :: "world \<Rightarrow> desk \<Rightarrow> real" where
  "desk_clock w d = clock w (dk_panel d)"

definition desk_token :: "world \<Rightarrow> (desk, string) effect" where
  "desk_token w = at_desk (fresh_token w)"

abbreviation accounts :: "desk \<Rightarrow> admin_row list" where
  "accounts d \<equiv> st_admins (store_of (dk_panel d))"

definition account_of :: "string \<Rightarrow> desk \<Rightarrow> admin_row option" where
  "account_of a d = admin_of a (store_of (dk_panel d))"

definition set_accounts :: "(admin_row list \<Rightarrow> admin_row list) \<Rightarrow> desk \<Rightarrow> desk" where
  "set_accounts f d =
     d\<lparr>dk_panel := set_store ((store_of (dk_panel d))\<lparr>st_admins := f (accounts d)\<rparr>) (dk_panel d)\<rparr>"

definition set_auth :: "(auth_tables \<Rightarrow> auth_tables) \<Rightarrow> desk \<Rightarrow> desk" where
  "set_auth f d = d\<lparr>dk_auth := f (dk_auth d)\<rparr>"

definition drop_sessions :: "(session_row \<Rightarrow> bool) \<Rightarrow> desk \<Rightarrow> desk" where
  "drop_sessions P = set_auth (\<lambda>t. t\<lparr>au_sessions := delete_where P (au_sessions t)\<rparr>)"

definition looks :: "('s \<Rightarrow> 'a res) \<Rightarrow> ('s, 'a) effect" where
  "looks f s = (s, f s)"

definition text_within :: "nat \<Rightarrow> nat \<Rightarrow> string \<Rightarrow> bool" where
  "text_within lo hi t \<longleftrightarrow> lo \<le> length t \<and> length t \<le> hi"

definition int_within :: "int \<Rightarrow> int \<Rightarrow> int \<Rightarrow> bool" where
  "int_within lo hi i \<longleftrightarrow> lo \<le> i \<and> i \<le> hi"

section \<open>Permissions\<close>

definition panel_permissions :: "string list" where
  "panel_permissions = [''clients.read'', ''clients.create'', ''clients.edit'', ''clients.delete'', ''clients.reset'',
     ''clients.credentials'', ''clients.ip'', ''clients.attach'', ''owners.read'', ''owners.edit'', ''owners.reset'', ''finance.read'',
     ''system.read'', ''audit.read'', ''api.manage'', ''inbounds.read'']"

definition role_ceiling :: "string \<Rightarrow> string list" where
  "role_ceiling role =
     (if role = ''reseller''
      then [''clients.read'', ''clients.create'', ''clients.edit'', ''clients.delete'', ''clients.reset'', ''clients.credentials'',
        ''clients.ip'', ''clients.attach'', ''owners.read'', ''finance.read'', ''system.read'', ''audit.read'', ''api.manage'',
        ''inbounds.read'']
      else if role = ''readonly''
      then [''clients.read'', ''owners.read'', ''finance.read'', ''system.read'', ''audit.read'', ''inbounds.read'']
      else [])"

definition seller_permissions :: "(string \<times> string) list" where
  "seller_permissions = map (\<lambda>k. (k, ''own'')) [''clients.read'', ''clients.create'', ''clients.edit'', ''clients.delete'',
     ''clients.reset'', ''clients.credentials'', ''clients.ip'', ''clients.attach'', ''owners.read'', ''finance.read'',
     ''audit.read'', ''api.manage'', ''inbounds.read'']"

definition role_defaults :: "string \<Rightarrow> (string \<times> string) list" where
  "role_defaults role =
     (if role = ''reseller'' then seller_permissions
      else if role = ''readonly''
      then map (\<lambda>k. (k, ''all'')) [''clients.read'', ''owners.read'', ''inbounds.read'', ''system.read'', ''audit.read'']
      else [])"

definition key_forbidden :: "string list" where
  "key_forbidden = [''api.manage'']"

definition global_scope_only :: "string list" where
  "global_scope_only = [''system.read'']"

definition valid_permissions :: "string \<Rightarrow> (string \<times> string) list option \<Rightarrow> (string \<times> string) list res" where
  "valid_permissions role values =
     (if role \<notin> {''owner'', ''reseller'', ''readonly''} then bad ''Unknown role''
      else if role = ''owner'' then Inr []
      else let p = (case values of None \<Rightarrow> role_defaults role | Some x \<Rightarrow> x) in
        rbind (ensure (\<forall>(k, v) \<in> set p. k \<in> set panel_permissions \<and> v \<in> {''none'', ''own'', ''all''})
                 (PolicyError ''Invalid permission/scope'')) (\<lambda>_.
        rbind (ensure (\<forall>(k, v) \<in> set p. v = ''none'' \<or> k \<in> set (role_ceiling role))
                 (PolicyError ''Permission exceeds the selected role ceiling'')) (\<lambda>_.
        rbind (ensure (\<forall>k \<in> set global_scope_only. map_of p k \<noteq> Some ''own'')
                 (PolicyError ''Global permissions use scope all, not own'')) (\<lambda>_. Inr p))))"

text \<open>\<open>NON_DELEGABLE\<close> is empty.\<close>

definition session_permissions :: "string \<Rightarrow> (string \<times> string) list \<Rightarrow> (string \<times> string) list" where
  "session_permissions role raw =
     (if role = ''owner'' then raw
      else filter (\<lambda>(k, v). k \<in> set (role_ceiling role) \<and> v \<in> {''own'', ''all''} \<and>
             \<not> (k \<in> set global_scope_only \<and> v = ''own'')) raw)"

definition account_actor :: "admin_row \<Rightarrow> actor" where
  "account_actor r = \<lparr>a_id = ad_id r, a_role = ad_role r, a_permissions = session_permissions (ad_role r) (ad_permissions r)\<rparr>"

text \<open>What an API key may do now: never more than its administrator.\<close>

definition admin_grant :: "actor \<Rightarrow> string \<Rightarrow> string" where
  "admin_grant a k = (if a_role a = ''owner'' then ''all'' else scope_of (a_permissions a) k)"

definition key_permissions :: "actor \<Rightarrow> (string \<times> string) list \<Rightarrow> (string \<times> string) list" where
  "key_permissions a requested =
     filter (\<lambda>(k, v). k \<notin> set key_forbidden \<and> \<not> (k \<in> set global_scope_only \<and> v = ''own''))
       (map (\<lambda>(k, v). (k, if admin_grant a k = ''own'' \<or> v = ''own'' then ''own'' else ''all''))
         (filter (\<lambda>(k, v). v \<noteq> ''none'' \<and> admin_grant a k \<noteq> ''none'') requested))"

section \<open>One-time passwords\<close>

text \<open>
  The dynamic truncation of RFC 4226: four bytes at the offset in the low bits of the last byte,
  without their top bit, modulo a million, in six digits.
\<close>

definition truncated :: "byte list \<Rightarrow> 32 word" where
  "truncated mac =
     (let i = unat (and (mac ! 19) 15) in
      and (word_rcat (map (\<lambda>k. mac ! (i + k)) [0, 1, 2, 3])) 0x7fffffff)"

definition six_digits :: "nat \<Rightarrow> string" where
  "six_digits n = (let t = show_nat n in replicate (6 - length t) CHR ''0'' @ t)"

definition totp :: "vault \<Rightarrow> string \<Rightarrow> int \<Rightarrow> string" where
  "totp v secret step = six_digits (unat (truncated (va_mac v secret step)) mod 1000000)"

definition totp_step :: "real \<Rightarrow> int" where
  "totp_step now = \<lfloor>now / 30\<rfloor>"

definition near_steps :: "real \<Rightarrow> int list" where
  "near_steps now = [totp_step now - 1, totp_step now, totp_step now + 1]"

definition opened :: "vault \<Rightarrow> string \<Rightarrow> string res" where
  "opened v t = (case va_open v t of None \<Rightarrow> Inl (OtherError ''InvalidToken'') | Some x \<Rightarrow> Inr x)"

text \<open>\<open>_verify_mfa(consume=True)\<close>: the row with the step or the recovery code used up.\<close>

definition verify_mfa :: "world \<Rightarrow> vault \<Rightarrow> real \<Rightarrow> string \<Rightarrow> mfa_row \<Rightarrow> mfa_row res" where
  "verify_mfa w v now code r =
     rbind (opened v (mf_secret r)) (\<lambda>secret.
     case filter (\<lambda>k. mf_last r < k \<and> totp v secret k = code) (near_steps now) of
       k # _ \<Rightarrow> Inr (r\<lparr>mf_last := k\<rparr>)
     | [] \<Rightarrow>
         if wo_sha w code \<in> set (mf_recovery r) then Inr (r\<lparr>mf_recovery := remove1 (wo_sha w code) (mf_recovery r)\<rparr>)
         else Inl (PermissionDenied ''Invalid or already-used two-factor code''))"

definition mfa_of :: "string \<Rightarrow> desk \<Rightarrow> mfa_row option" where
  "mfa_of a d = lookup mf_admin a (au_mfa (dk_auth d))"

definition set_mfa :: "(mfa_row list \<Rightarrow> mfa_row list) \<Rightarrow> desk \<Rightarrow> desk" where
  "set_mfa f = set_auth (\<lambda>t. t\<lparr>au_mfa := f (au_mfa t)\<rparr>)"

section \<open>Sign-in\<close>

definition source_text :: "string \<Rightarrow> string" where
  "source_text s =
     (let t = take 128 (strip (if s = [] then ''unknown'' else s)) in if t = [] then ''unknown'' else t)"

text \<open>\<open>' '.join(text.split())\<close>.\<close>

fun py_words :: "string \<Rightarrow> string \<Rightarrow> string list" where
  "py_words acc [] = (if acc = [] then [] else [rev acc])"
| "py_words acc (c # cs) =
     (if py_space c then (if acc = [] then py_words [] cs else rev acc # py_words [] cs) else py_words (c # acc) cs)"

definition agent_text :: "string \<Rightarrow> string" where
  "agent_text s = take 300 (join '' '' (py_words [] s))"

definition denied :: "string \<Rightarrow> 'a res" where
  "denied message = Inl (PermissionDenied message)"

text \<open>Eight attempts per source in a window of five minutes; the attempt counts before its password is looked at.\<close>

definition count_attempt :: "string \<Rightarrow> real \<Rightarrow> string \<Rightarrow> desk \<Rightarrow> (desk \<times> admin_row option) res" where
  "count_attempt bucket now username d =
     (let r = lookup at_bucket bucket (au_attempts (dk_auth d));
          open = (case r of None \<Rightarrow> False | Some x \<Rightarrow> now - 300 < at_start x) in
      if open \<and> 8 \<le> at_count (the r) then denied ''Too many login attempts; retry after five minutes''
      else let row = (if open then \<lparr>at_bucket = bucket, at_start = at_start (the r), at_count = at_count (the r) + 1\<rparr>
                      else \<lparr>at_bucket = bucket, at_start = now, at_count = 1\<rparr>)
           in Inr (set_auth (\<lambda>t. t\<lparr>au_attempts := upsert at_bucket row (\<lambda>_. row) (au_attempts t)\<rparr>) d, account_of username d))"

definition password_matches :: "vault \<Rightarrow> string \<Rightarrow> admin_row option \<Rightarrow> bool" where
  "password_matches v password r =
     (case r of None \<Rightarrow> False | Some x \<Rightarrow> verify_password (va_scrypt v) password (ad_password_hash x) \<and> \<not> ad_disabled x)"

definition check_second_factor :: "world \<Rightarrow> vault \<Rightarrow> real \<Rightarrow> string \<Rightarrow> string \<Rightarrow> desk \<Rightarrow> desk res" where
  "check_second_factor w v now username otp d =
     (case mfa_of username d of
        None \<Rightarrow> Inr d
      | Some r \<Rightarrow>
          if mf_enabled r
          then rbind (verify_mfa w v now otp r) (\<lambda>r'. Inr (set_mfa (modify mf_admin username (\<lambda>_. r')) d))
          else Inr d)"

definition open_session ::
  "world \<Rightarrow> vault \<Rightarrow> string \<Rightarrow> real \<Rightarrow> admin_row \<Rightarrow> string \<Rightarrow> int \<Rightarrow> string \<Rightarrow> string \<Rightarrow> string \<Rightarrow> string \<Rightarrow> desk \<Rightarrow> (desk \<times> principal) res" where
  "open_session w v bucket now row otp seconds source agent tok csrf d =
     rbind (ensure (case account_of (ad_id row) d of None \<Rightarrow> False
                    | Some x \<Rightarrow> \<not> ad_disabled x \<and> ad_password_hash x = ad_password_hash row)
              (PermissionDenied ''Credentials changed'')) (\<lambda>_.
     rbind (check_second_factor w v now (ad_id row) otp d) (\<lambda>d.
     let digest = wo_sha w tok;
         kept = delete_where (\<lambda>x. se_expires x \<le> now) (au_sessions (dk_auth d));
         new = \<lparr>se_digest = digest, se_admin = ad_id row, se_csrf = csrf, se_expires = now + of_int seconds,
                se_public = take 24 digest, se_created = now, se_source = source, se_agent = agent\<rparr> in
     rbind (ensure (\<not> has_key se_public (take 24 digest) kept) (IntegrityError ''UNIQUE constraint failed'')) (\<lambda>_.
     rbind (insert_pk se_digest new kept) (\<lambda>rows.
     Inr (set_auth (\<lambda>t. t\<lparr>au_sessions := rows, au_attempts := delete_where (\<lambda>x. at_bucket x = bucket) (au_attempts t)\<rparr>) d,
          \<lparr>pp_actor = account_actor row, pp_session = Some digest, pp_csrf = csrf, pp_key = None\<rparr>)))))"

definition login ::
  "world \<Rightarrow> vault \<Rightarrow> string \<Rightarrow> string \<Rightarrow> string \<Rightarrow> string \<Rightarrow> int \<Rightarrow> string \<Rightarrow> (desk, string \<times> principal) effect" where
  "login w v username password otp source seconds agent =
     ebind (require_that (\<lambda>_. int_within 3600 (525600 * 60) seconds) (PolicyError ''Invalid session lifetime'')) (\<lambda>_.
     ebind (peek (desk_clock w)) (\<lambda>now.
     let bucket = wo_sha w (source_text source) in
     ebind (transaction (count_attempt bucket now username)) (\<lambda>row.
     ebind (require_that (\<lambda>_. password_matches v password row) (PermissionDenied ''Invalid credentials'')) (\<lambda>_.
     ebind (desk_token w) (\<lambda>tok.
     ebind (desk_token w) (\<lambda>csrf.
     ebind (transaction (open_session w v bucket now (the row) otp seconds (source_text source) (agent_text agent) tok csrf)) (\<lambda>who.
     return (tok, who))))))))"

definition key_prefix :: string where
  "key_prefix = ''Bearer dkr_''"

definition key_holder :: "world \<Rightarrow> string \<Rightarrow> desk \<Rightarrow> (key_row \<times> admin_row) option" where
  "key_holder w header d =
     (case filter (\<lambda>k. ky_digest k = wo_sha w (drop 7 header) \<and> \<not> ky_revoked k \<and> desk_clock w d < ky_expires k) (au_keys (dk_auth d)) of
        [] \<Rightarrow> None
      | k # _ \<Rightarrow> map_option (Pair k) (account_of (ky_admin k) d))"

definition key_principal :: "key_row \<Rightarrow> admin_row \<Rightarrow> principal" where
  "key_principal k r =
     \<lparr>pp_actor = \<lparr>a_id = ad_id r, a_role = ''token'', a_permissions = key_permissions (account_actor r) (ky_permissions k)\<rparr>,
      pp_session = None, pp_csrf = [], pp_key = Some (ky_id k)\<rparr>"

definition session_principal :: "world \<Rightarrow> string option \<Rightarrow> desk \<Rightarrow> principal res" where
  "session_principal w cookie d =
     (case cookie of
        None \<Rightarrow> denied ''Authentication required''
      | Some c \<Rightarrow>
          rbind (ensure (c \<noteq> [] \<and> length c \<le> 256) (PermissionDenied ''Authentication required'')) (\<lambda>_.
          case filter (\<lambda>x. se_digest x = wo_sha w c \<and> desk_clock w d < se_expires x) (au_sessions (dk_auth d)) of
            [] \<Rightarrow> denied ''Session expired or revoked''
          | x # _ \<Rightarrow>
              (case account_of (se_admin x) d of
                 None \<Rightarrow> denied ''Session expired or revoked''
               | Some r \<Rightarrow>
                   if ad_disabled r then denied ''Session expired or revoked''
                   else Inr \<lparr>pp_actor = account_actor r, pp_session = Some (wo_sha w c), pp_csrf = se_csrf x, pp_key = None\<rparr>)))"

text \<open>\<open>current\<close>: the principal of a request, from its API key or from its session cookie.\<close>

definition current_principal :: "world \<Rightarrow> string option \<Rightarrow> string option \<Rightarrow> desk \<Rightarrow> principal res" where
  "current_principal w cookie header d =
     (case header of
        Some h \<Rightarrow>
          if h \<noteq> [] then
            rbind (ensure (take 11 h = key_prefix \<and> length h \<le> 512) (PermissionDenied ''Invalid API key'')) (\<lambda>_.
            case key_holder w h d of
              None \<Rightarrow> denied ''API key expired or revoked''
            | Some (k, r) \<Rightarrow> if ad_disabled r then denied ''API key expired or revoked'' else Inr (key_principal k r))
          else session_principal w cookie d
      | None \<Rightarrow> session_principal w cookie d)"

section \<open>Sessions and keys\<close>

definition interactive :: "principal \<Rightarrow> (desk, unit) effect" where
  "interactive who = require_that (\<lambda>_. pp_key who = None \<and> pp_session who \<noteq> None) (PermissionDenied ''Interactive session required'')"

definition own_id :: "principal \<Rightarrow> string" where
  "own_id who = a_id (pp_actor who)"

text \<open>\<open>sessions\<close>: the live sessions of the account, the newest first.\<close>

definition own_sessions :: "world \<Rightarrow> principal \<Rightarrow> desk \<Rightarrow> session_row list res" where
  "own_sessions w who d =
     rbind (ensure (pp_key who = None \<and> pp_session who \<noteq> None) (PermissionDenied ''Interactive session required'')) (\<lambda>_.
     Inr (sort_key (\<lambda>x. - se_created x) (sort_key (\<lambda>x. - se_expires x)
       (filter (\<lambda>x. se_admin x = own_id who \<and> desk_clock w d < se_expires x) (au_sessions (dk_auth d))))))"

definition revoke_session :: "principal \<Rightarrow> string \<Rightarrow> (desk, bool) effect" where
  "revoke_session who public =
     ebind (interactive who) (\<lambda>_.
     ebind (require_that (\<lambda>_. length public = 24 \<and> set public \<subseteq> set ''0123456789abcdef'') (PolicyError ''Invalid session ID'')) (\<lambda>_.
     transaction (\<lambda>d.
       case filter (\<lambda>x. se_public x = public \<and> se_admin x = own_id who) (au_sessions (dk_auth d)) of
         [] \<Rightarrow> bad ''Session not found''
       | x # _ \<Rightarrow> Inr (drop_sessions (\<lambda>y. se_digest y = se_digest x) d, Some (se_digest x) = pp_session who))))"

definition revoke_other_sessions :: "principal \<Rightarrow> (desk, unit) effect" where
  "revoke_other_sessions who =
     ebind (interactive who) (\<lambda>_.
     alter (drop_sessions (\<lambda>x. se_admin x = own_id who \<and> Some (se_digest x) \<noteq> pp_session who)))"

definition check_key :: "principal \<Rightarrow> string \<Rightarrow> (string \<times> string) list \<Rightarrow> int \<Rightarrow> unit res" where
  "check_key who name permissions days =
     rbind (require (pp_actor who) ''api'' ''manage'' (Some (own_id who))) (\<lambda>_.
     rbind (ensure (pp_key who = None) (PermissionDenied ''Robot keys cannot mint other keys'')) (\<lambda>_.
     rbind (ensure (int_within 1 365 days \<and> text_within 1 128 name) (PolicyError ''Invalid key metadata'')) (\<lambda>_.
     rbind (ensure (\<forall>(k, v) \<in> set permissions. k \<in> set panel_permissions \<and> v \<in> {''none'', ''own'', ''all''})
              (PolicyError ''Invalid key permissions'')) (\<lambda>_.
     rbind (ensure (\<forall>k \<in> set key_forbidden. scope_of permissions k = ''none'')
              (PolicyError ''Robot keys cannot manage key lifecycle or owner-only representative credit controls'')) (\<lambda>_.
     rbind (ensure (\<forall>k \<in> set global_scope_only. scope_of permissions k \<noteq> ''own'')
              (PolicyError ''Global permissions use scope all, not own'')) (\<lambda>_.
     ensure (\<forall>(k, v) \<in> set permissions. v = ''none'' \<or>
               admin_grant (pp_actor who) k \<noteq> ''none'' \<and> \<not> (admin_grant (pp_actor who) k = ''own'' \<and> v = ''all''))
       (PermissionDenied ''A key cannot exceed its administrator permissions'')))))))"

definition new_key :: "world \<Rightarrow> principal \<Rightarrow> string \<Rightarrow> (string \<times> string) list \<Rightarrow> int \<Rightarrow> (desk, string \<times> string) effect" where
  "new_key w who name permissions days =
     ebind (of_res (check_key who name permissions days)) (\<lambda>_.
     ebind (desk_token w) (\<lambda>t.
     ebind (desk_token w) (\<lambda>kid.
     let key = ''dkr_'' @ t in
     ebind (transaction (\<lambda>d.
       let row = \<lparr>ky_id = kid, ky_digest = wo_sha w key, ky_admin = own_id who, ky_name = name, ky_permissions = permissions,
                  ky_expires = desk_clock w d + of_int (days * 86400), ky_revoked = False, ky_created = desk_clock w d\<rparr> in
       rbind (ensure (\<not> has_key ky_digest (wo_sha w key) (au_keys (dk_auth d))) (IntegrityError ''UNIQUE constraint failed'')) (\<lambda>_.
       rbind (insert_pk ky_id row (au_keys (dk_auth d))) (\<lambda>rows. Inr (set_auth (\<lambda>t. t\<lparr>au_keys := rows\<rparr>) d, ()))))) (\<lambda>_.
     return (kid, key)))))"

definition revoke_key :: "principal \<Rightarrow> string \<Rightarrow> (desk, unit) effect" where
  "revoke_key who kid =
     ebind (of_res (require (pp_actor who) ''api'' ''manage'' (Some (own_id who)))) (\<lambda>_.
     alter (set_auth (\<lambda>t. t\<lparr>au_keys := update_where (\<lambda>k. ky_id k = kid \<and> ky_admin k = own_id who)
       (\<lambda>k. k\<lparr>ky_revoked := True\<rparr>) (au_keys t)\<rparr>)))"

section \<open>Accounts\<close>

text \<open>The profile an owner account gets when it has none: every inbound.\<close>

definition owner_profile :: "string \<Rightarrow> panel \<Rightarrow> panel" where
  "owner_profile a p =
     (let p1 = set_store ((store_of p)\<lparr>st_owners := insert_or_ignore ow_id (new_owner_row a) (st_owners (store_of p))\<rparr>) p in
      if has_key pf_id a (pa_profiles p1) then p1
      else p1\<lparr>pa_profiles := pa_profiles p1 @ [\<lparr>pf_id = a, pf_name = a, pf_allowed = sort (map fst (pa_inbounds p1)),
             pf_prefix = [], pf_ips = 0, pf_hwid = 0\<rparr>]\<rparr>)"

definition insert_account :: "vault \<Rightarrow> string \<Rightarrow> string \<Rightarrow> string \<Rightarrow> (string \<times> string) list \<Rightarrow> string \<Rightarrow> desk \<Rightarrow> (desk \<times> unit) res" where
  "insert_account v a password role perms hashed d =
     rbind (ensure (role \<noteq> ''reseller'' \<or> has_key pf_id a (pa_profiles (dk_panel d)))
              (PolicyError ''Create a matching reseller profile first'')) (\<lambda>_.
     rbind (insert_pk ad_id \<lparr>ad_id = a, ad_role = role, ad_password_hash = hashed, ad_permissions = perms, ad_disabled = False\<rparr>
              (accounts d)) (\<lambda>rows.
     let d1 = set_accounts (\<lambda>_. rows) d;
         d2 = (if role = ''owner'' then d1\<lparr>dk_panel := owner_profile a (dk_panel d1)\<rparr> else d1) in
     rbind (ensure (verify_password (va_scrypt v) password hashed)
              (PolicyError ''Admin password verification failed; transaction rolled back'')) (\<lambda>_. Inr (d2, ()))))"

definition auth_admin_create ::
  "vault \<Rightarrow> actor \<Rightarrow> string \<Rightarrow> string \<Rightarrow> string \<Rightarrow> (string \<times> string) list option \<Rightarrow> (desk, unit) effect" where
  "auth_admin_create v act a password role permissions =
     ebind (require_that (\<lambda>_. a_role act = ''owner'') (PermissionDenied ''Owner required'')) (\<lambda>_.
     ebind (require_that (\<lambda>_. valid_name a) (PolicyError ''Invalid username'')) (\<lambda>_.
     ebind (of_res (valid_permissions role permissions)) (\<lambda>perms.
     ebind (looks (\<lambda>d. password_hash (va_scrypt v) (va_salt v (pa_step (dk_panel d))) password)) (\<lambda>hashed.
     transaction (insert_account v a password role perms hashed)))))"

text \<open>
  \<open>bootstrap\<close>: the first account of an empty panel. The profile row takes the column defaults.
\<close>

definition insert_first :: "string \<Rightarrow> string \<Rightarrow> desk \<Rightarrow> (desk \<times> unit) res" where
  "insert_first a hashed d =
     rbind (ensure (accounts d = []) (PolicyError ''An admin already exists; bootstrap refused'')) (\<lambda>_.
     let d1 = set_accounts (\<lambda>_. [\<lparr>ad_id = a, ad_role = ''owner'', ad_password_hash = hashed, ad_permissions = [],
                ad_disabled = False\<rparr>]) d;
         p = set_store ((store_of (dk_panel d1))\<lparr>st_owners := insert_or_ignore ow_id (new_owner_row a)
               (st_owners (store_of (dk_panel d1)))\<rparr>) (dk_panel d1) in
     rbind (insert_pk pf_id \<lparr>pf_id = a, pf_name = ''DARK OWNER'', pf_allowed = [], pf_prefix = [], pf_ips = 0, pf_hwid = 0\<rparr>
              (pa_profiles p)) (\<lambda>rows. Inr (d1\<lparr>dk_panel := p\<lparr>pa_profiles := rows\<rparr>\<rparr>, ())))"

definition auth_bootstrap :: "vault \<Rightarrow> string \<Rightarrow> string \<Rightarrow> (desk, unit) effect" where
  "auth_bootstrap v a password =
     ebind (require_that (\<lambda>_. valid_name a) (PolicyError ''Invalid username'')) (\<lambda>_.
     ebind (looks (\<lambda>d. password_hash (va_scrypt v) (va_salt v (pa_step (dk_panel d))) password)) (\<lambda>hashed.
     transaction (insert_first a hashed)))"

definition live_owners :: "desk \<Rightarrow> admin_row list" where
  "live_owners d = filter (\<lambda>r. ad_role r = ''owner'' \<and> \<not> ad_disabled r) (accounts d)"

definition switch_account :: "string \<Rightarrow> bool \<Rightarrow> desk \<Rightarrow> desk" where
  "switch_account a off d =
     (let d1 = set_accounts (modify ad_id a (\<lambda>r. r\<lparr>ad_disabled := off\<rparr>)) d in
      d1\<lparr>dk_panel := set_store ((store_of (dk_panel d1))\<lparr>st_owners := modify ow_id a (\<lambda>r. r\<lparr>ow_account_disabled := off\<rparr>)
        (st_owners (store_of (dk_panel d1)))\<rparr>) (dk_panel d1)\<rparr>)"

definition edit_account ::
  "vault \<Rightarrow> string \<Rightarrow> bool option \<Rightarrow> (string \<times> string) option \<Rightarrow> (string \<times> string) list option \<Rightarrow> desk \<Rightarrow> (desk \<times> unit) res" where
  "edit_account v a disabled password permissions d =
     (case account_of a d of
        None \<Rightarrow> bad ''Admin not found''
      | Some r \<Rightarrow>
     rbind (ensure (\<not> (disabled = Some True \<and> ad_role r = ''owner'' \<and> length (live_owners d) \<le> 1))
              (PolicyError ''Cannot disable the last owner'')) (\<lambda>_.
     rbind (case permissions of
              None \<Rightarrow> Inr d
            | Some p \<Rightarrow> rbind (valid_permissions (ad_role r) (Some p)) (\<lambda>p.
                Inr (set_accounts (modify ad_id a (\<lambda>x. x\<lparr>ad_permissions := p\<rparr>)) d))) (\<lambda>d1.
     let d2 = (case disabled of None \<Rightarrow> d1 | Some off \<Rightarrow> switch_account a off d1) in
     rbind (case password of
              None \<Rightarrow> Inr d2
            | Some (plain, hashed) \<Rightarrow>
                rbind (ensure (verify_password (va_scrypt v) plain hashed)
                         (PolicyError ''Admin password verification failed; transaction rolled back'')) (\<lambda>_.
                Inr (set_accounts (modify ad_id a (\<lambda>x. x\<lparr>ad_password_hash := hashed\<rparr>)) d2))) (\<lambda>d3.
     Inr (drop_sessions (\<lambda>x. se_admin x = a) d3, ())))))"

text \<open>An empty password is none.\<close>

definition new_hash :: "vault \<Rightarrow> string option \<Rightarrow> desk \<Rightarrow> (string \<times> string) option res" where
  "new_hash v password d =
     (case password of
        None \<Rightarrow> Inr None
      | Some t \<Rightarrow>
          if t = [] then Inr None
          else rbind (password_hash (va_scrypt v) (va_salt v (pa_step (dk_panel d))) t) (\<lambda>h. Inr (Some (t, h))))"

definition admin_edit ::
  "vault \<Rightarrow> actor \<Rightarrow> string \<Rightarrow> bool option \<Rightarrow> string option \<Rightarrow> (string \<times> string) list option \<Rightarrow> (desk, unit) effect" where
  "admin_edit v act a disabled password permissions =
     ebind (require_that (\<lambda>_. a_role act = ''owner'') (PermissionDenied ''Owner required'')) (\<lambda>_.
     ebind (looks (new_hash v password)) (\<lambda>hashed.
     transaction (edit_account v a disabled hashed permissions)))"

definition change_password :: "vault \<Rightarrow> principal \<Rightarrow> string \<Rightarrow> string \<Rightarrow> (desk, unit) effect" where
  "change_password v who old new =
     ebind (require_that (\<lambda>_. pp_key who = None) (PermissionDenied ''Interactive session required'')) (\<lambda>_.
     ebind (require_that (\<lambda>d. case account_of (own_id who) d of None \<Rightarrow> False
              | Some r \<Rightarrow> verify_password (va_scrypt v) old (ad_password_hash r)) (PermissionDenied ''Current password incorrect'')) (\<lambda>_.
     ebind (looks (\<lambda>d. password_hash (va_scrypt v) (va_salt v (pa_step (dk_panel d))) new)) (\<lambda>hashed.
     transaction (\<lambda>d.
       rbind (ensure (verify_password (va_scrypt v) new hashed)
                (PolicyError ''Password verification failed; transaction rolled back'')) (\<lambda>_.
       Inr (drop_sessions (\<lambda>x. se_admin x = own_id who)
              (set_accounts (modify ad_id (own_id who) (\<lambda>x. x\<lparr>ad_password_hash := hashed\<rparr>)) d), ()))))))"

section \<open>Enrolment of a second factor\<close>

definition password_of_own :: "vault \<Rightarrow> principal \<Rightarrow> string \<Rightarrow> desk \<Rightarrow> unit res" where
  "password_of_own v who password d =
     (case account_of (own_id who) d of
        None \<Rightarrow> Inl (OtherError ''TypeError'')
      | Some r \<Rightarrow> ensure (verify_password (va_scrypt v) password (ad_password_hash r)) (PermissionDenied ''Password incorrect''))"

definition mfa_setup :: "world \<Rightarrow> vault \<Rightarrow> principal \<Rightarrow> string \<Rightarrow> (desk, string) effect" where
  "mfa_setup w v who password =
     ebind (require_that (\<lambda>_. pp_key who = None) (PermissionDenied ''Interactive session required'')) (\<lambda>_.
     ebind (looks (password_of_own v who password)) (\<lambda>_.
     ebind (require_that (\<lambda>d. case mfa_of (own_id who) d of None \<Rightarrow> True | Some r \<Rightarrow> \<not> mf_enabled r)
              (PolicyError ''Disable existing TOTP before replacing its secret'')) (\<lambda>_.
     ebind (desk_token w) (\<lambda>secret.
     ebind (alter (set_mfa (upsert mf_admin
       \<lparr>mf_admin = own_id who, mf_secret = va_seal v secret, mf_pending = va_seal v secret, mf_enabled = False, mf_last = -1,
        mf_recovery = []\<rparr> (\<lambda>r. r\<lparr>mf_pending := va_seal v secret\<rparr>)))) (\<lambda>_. return secret)))))"

definition enroll :: "world \<Rightarrow> vault \<Rightarrow> string \<Rightarrow> string \<Rightarrow> string list \<Rightarrow> desk \<Rightarrow> (desk \<times> unit) res" where
  "enroll w v a code codes d =
     (case mfa_of a d of
        None \<Rightarrow> bad ''No pending TOTP enrollment''
      | Some r \<Rightarrow>
     rbind (ensure (mf_pending r \<noteq> [] \<and> \<not> mf_enabled r) (PolicyError ''No pending TOTP enrollment'')) (\<lambda>_.
     rbind (opened v (mf_pending r)) (\<lambda>secret.
     case filter (\<lambda>k. totp v secret k = code) (near_steps (desk_clock w d)) of
       [] \<Rightarrow> denied ''Invalid enrollment code''
     | k # _ \<Rightarrow>
         Inr (drop_sessions (\<lambda>x. se_admin x = a)
           (set_mfa (modify mf_admin a (\<lambda>x. x\<lparr>mf_secret := mf_pending x, mf_pending := [], mf_enabled := True, mf_last := k,
              mf_recovery := map (wo_sha w) codes\<rparr>)) d), ()))))"

definition mfa_enable :: "world \<Rightarrow> vault \<Rightarrow> principal \<Rightarrow> string \<Rightarrow> (desk, string list) effect" where
  "mfa_enable w v who code =
     ebind (require_that (\<lambda>_. pp_key who = None) (PermissionDenied ''Interactive session required'')) (\<lambda>_.
     ebind (emap (\<lambda>_. desk_token w) [0 ..< 8]) (\<lambda>codes.
     ebind (transaction (enroll w v (own_id who) code codes)) (\<lambda>_. return codes)))"

definition mfa_disable :: "world \<Rightarrow> vault \<Rightarrow> principal \<Rightarrow> string \<Rightarrow> string \<Rightarrow> (desk, unit) effect" where
  "mfa_disable w v who password code =
     ebind (require_that (\<lambda>_. pp_key who = None) (PermissionDenied ''Interactive session required'')) (\<lambda>_.
     ebind (looks (password_of_own v who password)) (\<lambda>_.
     transaction (\<lambda>d.
       case mfa_of (own_id who) d of
         None \<Rightarrow> bad ''TOTP is not enabled''
       | Some r \<Rightarrow>
           rbind (ensure (mf_enabled r) (PolicyError ''TOTP is not enabled'')) (\<lambda>_.
           rbind (verify_mfa w v (desk_clock w d) code r) (\<lambda>_.
           Inr (drop_sessions (\<lambda>x. se_admin x = own_id who) (set_mfa (remove_key mf_admin (own_id who)) d), ()))))))"

section \<open>Representatives\<close>

text \<open>
  \<open>representative_put\<close> and \<open>representative_delete\<close> of backend/server.py: the policy of a representative with
  its account. \<open>act\<close> is the signed-in owner.
\<close>

record seller_form =
  sf_name :: string
  sf_allowed :: "pyval list"
  sf_volume :: pyval
  sf_units :: pyval
  sf_quota :: pyval
  sf_max_clients :: pyval
  sf_enabled :: bool
  sf_prefix :: pyval
  sf_ips :: pyval
  sf_hwid :: pyval
  sf_password :: "string option"

definition account_free :: "string \<Rightarrow> string option \<Rightarrow> desk \<Rightarrow> bool res" where
  "account_free a password d =
     (case account_of a d of
        None \<Rightarrow> rbind (ensure (password \<notin> {None, Some []})
                   (HttpError ''Password is required when creating a representative'' 400)) (\<lambda>_. Inr True)
      | Some r \<Rightarrow>
          rbind (ensure (ad_role r \<noteq> ''owner'') (HttpError ''Primary owner cannot be converted to a representative'' 409)) (\<lambda>_.
          rbind (ensure (ad_role r = ''reseller'') (HttpError ''Account ID belongs to a legacy non-representative role'' 409)) (\<lambda>_.
          Inr False)))"

definition representative_put :: "world \<Rightarrow> vault \<Rightarrow> actor \<Rightarrow> string \<Rightarrow> seller_form \<Rightarrow> (desk, unit) effect" where
  "representative_put w v act a f =
     ebind (require_that (\<lambda>_. valid_name a) (HttpError ''Invalid representative ID'' 400)) (\<lambda>_.
     ebind (looks (account_free a (sf_password f))) (\<lambda>fresh.
     ebind (at_desk (owner_put w act a (sf_name f) (sf_allowed f) (sf_volume f) (sf_units f) (sf_max_clients f)
       (PBool (\<not> sf_enabled f)) (sf_quota f) (sf_prefix f) (sf_ips f) (sf_hwid f))) (\<lambda>_.
     ebind (when_so fresh (auth_admin_create v act a (case sf_password f of None \<Rightarrow> [] | Some t \<Rightarrow> t) ''reseller''
       (Some seller_permissions))) (\<lambda>_.
     ebind (admin_edit v act a (Some (\<not> sf_enabled f)) (sf_password f) (Some seller_permissions)) (\<lambda>_.
     ebind (at_desk (manager_tick w True)) (\<lambda>_.
     at_desk (audit w act a ''representative.save'' a [])))))))"

text \<open>The credit of a representative: the audit line only when the event is new.\<close>

definition credit_adjust :: "world \<Rightarrow> actor \<Rightarrow> string \<Rightarrow> int \<Rightarrow> int \<Rightarrow> string \<Rightarrow> (desk, bool) effect" where
  "credit_adjust w act a volume units event =
     ebind (at_desk (\<lambda>p. on_part store_of set_store
       (transaction (adjust_resource_credit act a (PInt volume) (PInt units) event (clock w p))) p)) (\<lambda>recorded.
     ebind (when_so recorded (at_desk (audit w act a ''representative.credit_adjust'' a
       (''volume_bytes='' @ show_int volume @ ''; unlimited_units='' @ show_int units @ ''; event='' @ event)))) (\<lambda>_. return recorded))"

text \<open>\<open>add_admin\<close> and \<open>edit_admin\<close>: accounts outside the representative form.\<close>

definition add_admin :: "world \<Rightarrow> vault \<Rightarrow> actor \<Rightarrow> string \<Rightarrow> string \<Rightarrow> string \<Rightarrow> (desk, unit) effect" where
  "add_admin w v act a password role =
     ebind (require_that (\<lambda>_. role = ''reseller'')
       (HttpError ''DARK has one primary owner; only representative accounts can be created'' 409)) (\<lambda>_.
     ebind (auth_admin_create v act a password ''reseller'' (Some seller_permissions)) (\<lambda>_.
     at_desk (audit w act a ''representative.login_create'' a [])))"

definition edit_admin :: "world \<Rightarrow> vault \<Rightarrow> actor \<Rightarrow> string \<Rightarrow> bool option \<Rightarrow> string option \<Rightarrow> (desk, unit) effect" where
  "edit_admin w v act a disabled password =
     ebind (looks (\<lambda>d. case account_of a d of
        None \<Rightarrow> Inl (HttpError ''Account not found'' 404)
      | Some r \<Rightarrow> ensure (ad_role r = ''reseller'')
          (HttpError ''Primary owner account is managed only from Account & Security'' 409))) (\<lambda>_.
     ebind (admin_edit v act a disabled password (Some seller_permissions)) (\<lambda>_.
     ebind (at_desk (audit w act a ''representative.login_update'' a [])) (\<lambda>_.
     at_desk (manager_tick w True))))"

definition forget_account :: "string \<Rightarrow> desk \<Rightarrow> desk" where
  "forget_account a d =
     set_accounts (delete_where (\<lambda>r. ad_id r = a \<and> ad_role r = ''reseller''))
       (set_auth (\<lambda>t. t\<lparr>au_sessions := delete_where (\<lambda>x. se_admin x = a) (au_sessions t),
          au_keys := delete_where (\<lambda>x. ky_admin x = a) (au_keys t), au_mfa := delete_where (\<lambda>x. mf_admin x = a) (au_mfa t)\<rparr>) d)"

definition forget_owner :: "string \<Rightarrow> panel \<Rightarrow> panel" where
  "forget_owner a p =
     set_store ((store_of p)\<lparr>st_owners := delete_where (\<lambda>r. ow_id r = a) (st_owners (store_of p))\<rparr>)
       (p\<lparr>pa_profiles := delete_where (\<lambda>r. pf_id r = a) (pa_profiles p)\<rparr>)"

definition representative_delete :: "world \<Rightarrow> actor \<Rightarrow> string \<Rightarrow> (desk, unit) effect" where
  "representative_delete w act a =
     ebind (require_that (\<lambda>d. case account_of a d of None \<Rightarrow> True | Some r \<Rightarrow> ad_role r \<noteq> ''owner'')
       (HttpError ''Primary owner cannot be deleted'' 409)) (\<lambda>_.
     ebind (require_that (\<lambda>d. \<forall>c \<in> set (st_clients (store_of (dk_panel d))). cl_owner c \<noteq> a)
       (HttpError ''Move or delete representative clients before deleting the representative'' 409)) (\<lambda>_.
     ebind (require_that (\<lambda>d. case account_of a d of None \<Rightarrow> True | Some r \<Rightarrow> ad_role r = ''reseller'')
       (HttpError ''Account is not a representative'' 409)) (\<lambda>_.
     ebind (alter (\<lambda>d. let d1 = forget_account a d in
       d1\<lparr>dk_panel := forget_owner a ((dk_panel d1)\<lparr>pa_groups := delete_where (\<lambda>g. gr_owner g = a) (pa_groups (dk_panel d1))\<rparr>)\<rparr>)) (\<lambda>_.
     at_desk (audit w act a ''representative.delete'' a ''Historical ledgers are preserved'')))))"

end
