(* ===== verification/Recovery.thy ===== *)
theory Recovery
  imports Sessions
begin

text \<open>
  The owner recovery commands (backend/owner_recovery.py), run on the host beside the panel: each is one
  transaction on the account tables of the running panel. The table \<open>sessions\<close> of old releases is not part of
  the schema modelled, and the renaming of an owner, which rewrites the \<open>owner\<close> column of every table, is left
  out, as are the prompts of the command line.
\<close>

definition existing_owner :: "string \<Rightarrow> desk \<Rightarrow> admin_row res" where
  "existing_owner a d =
     rbind (ensure (valid_name a) (PolicyError ''Invalid owner username'')) (\<lambda>_.
     case account_of a d of
       None \<Rightarrow> bad ''Action only supports an existing owner account''
     | Some r \<Rightarrow> if ad_role r = ''owner'' then Inr r else bad ''Action only supports an existing owner account'')"

definition insert_owner :: "vault \<Rightarrow> string \<Rightarrow> string \<Rightarrow> string \<Rightarrow> desk \<Rightarrow> (desk \<times> unit) res" where
  "insert_owner v a password hashed d =
     rbind (ensure (\<forall>r \<in> set (accounts d). ad_role r \<noteq> ''owner'')
              (PolicyError ''DARK supports one primary owner; recover or rename the existing owner instead'')) (\<lambda>_.
     rbind (ensure (account_of a d = None) (PolicyError ''A login account with this username already exists'')) (\<lambda>_.
     let d1 = set_accounts (\<lambda>rows. rows @ [\<lparr>ad_id = a, ad_role = ''owner'', ad_password_hash = hashed, ad_permissions = [],
                ad_disabled = False\<rparr>]) d in
     rbind (ensure (verify_password (va_scrypt v) password hashed)
              (PolicyError ''Owner password verification failed; transaction rolled back'')) (\<lambda>_.
     Inr (d1\<lparr>dk_panel := owner_profile a (dk_panel d1)\<rparr>, ()))))"

definition create_owner_account :: "vault \<Rightarrow> string \<Rightarrow> string \<Rightarrow> (desk, unit) effect" where
  "create_owner_account v a password =
     ebind (require_that (\<lambda>_. valid_name a) (PolicyError ''Invalid owner username'')) (\<lambda>_.
     ebind (looks (\<lambda>d. password_hash (va_scrypt v) (va_salt v (pa_step (dk_panel d))) password)) (\<lambda>hashed.
     transaction (insert_owner v a password hashed)))"

definition write_owner_password :: "vault \<Rightarrow> string \<Rightarrow> string \<Rightarrow> string \<Rightarrow> desk \<Rightarrow> (desk \<times> unit) res" where
  "write_owner_password v a password hashed d =
     rbind (existing_owner a d) (\<lambda>_.
     rbind (ensure (verify_password (va_scrypt v) password hashed)
              (PolicyError ''Owner password verification failed; transaction rolled back'')) (\<lambda>_.
     Inr (drop_sessions (\<lambda>x. se_admin x = a) (set_accounts (modify ad_id a (\<lambda>x. x\<lparr>ad_password_hash := hashed\<rparr>)) d), ())))"

definition reset_owner_password :: "vault \<Rightarrow> string \<Rightarrow> string \<Rightarrow> (desk, unit) effect" where
  "reset_owner_password v a password =
     ebind (looks (\<lambda>d. password_hash (va_scrypt v) (va_salt v (pa_step (dk_panel d))) password)) (\<lambda>hashed.
     transaction (write_owner_password v a password hashed))"

definition revoke_owner_sessions :: "string \<Rightarrow> (desk, nat) effect" where
  "revoke_owner_sessions a =
     transaction (\<lambda>d. rbind (existing_owner a d) (\<lambda>_.
       Inr (drop_sessions (\<lambda>x. se_admin x = a) d, length (filter (\<lambda>x. se_admin x = a) (au_sessions (dk_auth d))))))"

definition revoke_owner_api_keys :: "string \<Rightarrow> (desk, nat) effect" where
  "revoke_owner_api_keys a =
     transaction (\<lambda>d. rbind (existing_owner a d) (\<lambda>_.
       let live = (\<lambda>k. ky_admin k = a \<and> \<not> ky_revoked k) in
       Inr (set_auth (\<lambda>t. t\<lparr>au_keys := update_where live (\<lambda>k. k\<lparr>ky_revoked := True\<rparr>) (au_keys t)\<rparr>) d,
            length (filter live (au_keys (dk_auth d))))))"

definition disable_owner_totp :: "string \<Rightarrow> (desk, bool) effect" where
  "disable_owner_totp a =
     transaction (\<lambda>d. rbind (existing_owner a d) (\<lambda>_.
       Inr (drop_sessions (\<lambda>x. se_admin x = a) (set_mfa (delete_where (\<lambda>r. mf_admin r = a)) d),
            \<exists>r \<in> set (au_mfa (dk_auth d)). mf_admin r = a)))"

text \<open>\<open>owner_status\<close>: whether the account is disabled, its sessions and keys in force, its second factor.\<close>

definition owner_status :: "world \<Rightarrow> string \<Rightarrow> desk \<Rightarrow> (bool \<times> nat \<times> nat \<times> bool) res" where
  "owner_status w a d =
     rbind (existing_owner a d) (\<lambda>r.
     let now = desk_clock w d in
     Inr (ad_disabled r,
          length (filter (\<lambda>x. se_admin x = a \<and> now < se_expires x) (au_sessions (dk_auth d))),
          length (filter (\<lambda>k. ky_admin k = a \<and> \<not> ky_revoked k \<and> now < ky_expires k) (au_keys (dk_auth d))),
          case mfa_of a d of None \<Rightarrow> False | Some m \<Rightarrow> mf_enabled m))"

end
