(* ===== verification/Sessions_Safety.thy ===== *)
theory Sessions_Safety
  imports Recovery
begin

text \<open>
  What a signed-in request may do: an API key is bounded by its administrator, a second factor is used
  once, and a change of credentials ends every session of the account. The steps are the operations of
  \<open>Sessions\<close> and of the Manager; a step is labelled with the account it signs in, if any.
\<close>

section \<open>API keys\<close>

lemma map_of_filterD: "map_of (filter P xs) k = Some v \<Longrightarrow> (k, v) \<in> set xs \<and> P (k, v)"
  by (drule map_of_SomeD) simp

lemma session_scope:
  "ad_role r \<noteq> ''owner'' \<Longrightarrow> scope_of (session_permissions (ad_role r) (ad_permissions r)) k \<in> {''none'', ''own'', ''all''}"
  by (auto simp: scope_of_def session_permissions_def dest!: map_of_filterD split: option.splits)

lemma key_scope:
  assumes "map_of (key_permissions a req) k = Some v"
  shows "admin_grant a k \<noteq> ''none'' \<and> (v = ''own'' \<or> v = ''all'' \<and> admin_grant a k \<noteq> ''own'') \<and> k \<noteq> ''api.manage''"
  using assms by (auto simp: key_permissions_def key_forbidden_def dest!: map_of_filterD split: if_splits)

lemma account_of_id: "account_of a d = Some r \<Longrightarrow> ad_id r = a"
  by (simp add: account_of_def admin_of_def) (drule lookup_Some_mem, simp)

lemma key_holderD:
  assumes "key_holder w h d = Some (k, r)"
  shows "k \<in> set (au_keys (dk_auth d)) \<and> \<not> ky_revoked k \<and> desk_clock w d < ky_expires k \<and> account_of (ky_admin k) d = Some r"
proof -
  from assms obtain ks where
    "filter (\<lambda>k. ky_digest k = wo_sha w (drop 7 h) \<and> \<not> ky_revoked k \<and> desk_clock w d < ky_expires k) (au_keys (dk_auth d)) = k # ks"
    and "account_of (ky_admin k) d = Some r"
    by (auto simp: key_holder_def split: list.splits)
  then show ?thesis by (metis (mono_tags, lifting) filter_eq_ConsD in_set_conv_decomp)
qed

lemma key_can:
  assumes "can (pp_actor (key_principal k r)) resource action ow"
  shows "can (account_actor r) resource action ow \<and> resource @ ''.'' @ action \<noteq> ''api.manage''"
proof -
  let ?k = "resource @ ''.'' @ action"
  obtain v where v: "map_of (key_permissions (account_actor r) (ky_permissions k)) ?k = Some v"
    and scope: "v = ''all'' \<or> v = ''own'' \<and> ow = Some (ad_id r)"
    using assms by (auto simp: can_def key_principal_def scope_of_def Let_def split: option.splits)
  have grant: "admin_grant (account_actor r) ?k \<noteq> ''none''" "v = ''all'' \<Longrightarrow> admin_grant (account_actor r) ?k \<noteq> ''own''"
    and manage: "?k \<noteq> ''api.manage''"
    using key_scope [OF v] by auto
  have "can (account_actor r) resource action ow"
  proof (cases "ad_role r = ''owner''")
    case False
    then have "admin_grant (account_actor r) ?k \<in> {''none'', ''own'', ''all''}"
      using session_scope [of r ?k] by (simp add: admin_grant_def account_actor_def)
    then show ?thesis using False grant scope by (auto simp: can_def Let_def admin_grant_def account_actor_def)
  qed (simp add: account_actor_def)
  then show ?thesis using manage by simp
qed


section \<open>A code of the second factor\<close>

text \<open>
  The rows of the second factor across sign-ins: a row keeps its secret, its last step only grows and its
  recovery codes only go.
\<close>

definition spent :: "mfa_row \<Rightarrow> mfa_row \<Rightarrow> bool" where
  "spent r r' \<longleftrightarrow> mf_admin r' = mf_admin r \<and> mf_secret r' = mf_secret r \<and> mf_enabled r' = mf_enabled r \<and> mf_last r \<le> mf_last r' \<and>
     set (mf_recovery r') \<subseteq> set (mf_recovery r)"

lemma spent_refl: "spent r r"
  by (simp add: spent_def)

lemma spent_trans: "spent r s \<Longrightarrow> spent s t \<Longrightarrow> spent r t"
  by (auto simp: spent_def)

lemma near_step_le: "k \<in> set (near_steps now) \<Longrightarrow> k \<le> totp_step now + 1"
  by (auto simp: near_steps_def)

lemma verify_mfaD:
  assumes "verify_mfa w v now code r = Inr r'"
  obtains secret where "va_open v (mf_secret r) = Some secret" and "spent r r'"
    and "mf_last r < mf_last r' \<and> mf_last r' \<le> totp_step now + 1 \<and> totp v secret (mf_last r') = code \<and>
        mf_recovery r' = mf_recovery r \<or>
      mf_last r' = mf_last r \<and> wo_sha w code \<in> set (mf_recovery r) \<and> mf_recovery r' = remove1 (wo_sha w code) (mf_recovery r)"
proof -
  obtain secret where secret: "va_open v (mf_secret r) = Some secret"
    using assms by (auto simp: verify_mfa_def opened_def rbind_Inr split: option.splits)
  show ?thesis
  proof (cases "filter (\<lambda>k. mf_last r < k \<and> totp v secret k = code) (near_steps now)")
    case Nil
    then show ?thesis
      using assms secret set_remove1_subset [of "wo_sha w code" "mf_recovery r"]
      by (intro that) (auto simp: verify_mfa_def opened_def spent_def split: if_splits)
  next
    case (Cons k ks)
    then have "k \<in> set (filter (\<lambda>k. mf_last r < k \<and> totp v secret k = code) (near_steps now))" by simp
    then have "mf_last r < k \<and> k \<le> totp_step now + 1 \<and> totp v secret k = code" by (auto dest: near_step_le)
    then show ?thesis
      using assms secret Cons by (intro that) (auto simp: verify_mfa_def opened_def spent_def)
  qed
qed

text \<open>
  A code that is used up until step \<open>n\<close>: no step after the last one has it, and it is no recovery code.
  A code is unambiguous when it is the code of one step at most, and not of a step and a recovery code.
\<close>

definition used_up :: "world \<Rightarrow> vault \<Rightarrow> string \<Rightarrow> int \<Rightarrow> mfa_row \<Rightarrow> bool" where
  "used_up w v code n r \<longleftrightarrow> mf_enabled r \<and> wo_sha w code \<notin> set (mf_recovery r) \<and>
     (\<exists>secret. va_open v (mf_secret r) = Some secret \<and> (\<forall>k \<in> {mf_last r <.. n}. totp v secret k \<noteq> code))"

definition unambiguous :: "world \<Rightarrow> vault \<Rightarrow> string \<Rightarrow> string \<Rightarrow> int \<Rightarrow> mfa_row \<Rightarrow> bool" where
  "unambiguous w v secret code n r \<longleftrightarrow> distinct (mf_recovery r) \<and>
     (let steps = filter (\<lambda>k. totp v secret k = code) [mf_last r + 1 .. n] in
      length steps \<le> 1 \<and> (steps = [] \<or> wo_sha w code \<notin> set (mf_recovery r)))"

lemma used_up_spent: "used_up w v code n r \<Longrightarrow> spent r r' \<Longrightarrow> used_up w v code n r'"
  by (auto simp: used_up_def spent_def)

lemma used_up_refused:
  assumes "used_up w v code n r" and "totp_step now + 1 \<le> n"
  shows "verify_mfa w v now code r = denied ''Invalid or already-used two-factor code''"
proof -
  obtain secret where secret: "va_open v (mf_secret r) = Some secret"
    and steps: "\<forall>k \<in> {mf_last r <.. n}. totp v secret k \<noteq> code"
    using assms(1) by (auto simp: used_up_def)
  have none: "filter (\<lambda>k. mf_last r < k \<and> totp v secret k = code) (near_steps now) = []"
    using steps assms(2) by (auto simp: filter_empty_conv near_steps_def)
  have "wo_sha w code \<notin> set (mf_recovery r)" using assms(1) by (simp add: used_up_def)
  then show ?thesis
    unfolding verify_mfa_def opened_def secret option.case rbind.simps none list.case by (simp add: denied_def)
qed

lemma at_most_one: "length (filter P xs) \<le> 1 \<Longrightarrow> x \<in> set xs \<Longrightarrow> y \<in> set xs \<Longrightarrow> P x \<Longrightarrow> P y \<Longrightarrow> x = y"
proof -
  assume one: "length (filter P xs) \<le> 1" and "x \<in> set xs" "y \<in> set xs" "P x" "P y"
  then have "x \<in> set (filter P xs)" "y \<in> set (filter P xs)" by simp_all
  then show "x = y" using one by (cases "filter P xs") auto
qed

lemma verified_used_up:
  assumes run: "verify_mfa w v now code r = Inr r'" and "mf_enabled r" and secret: "va_open v (mf_secret r) = Some secret"
    and clear: "unambiguous w v secret code n r" and "totp_step now + 1 \<le> n"
  shows "used_up w v code n r'"
proof -
  have new: "spent r r'"
    and case_: "mf_last r < mf_last r' \<and> mf_last r' \<le> totp_step now + 1 \<and> totp v secret (mf_last r') = code \<and>
        mf_recovery r' = mf_recovery r \<or>
      mf_last r' = mf_last r \<and> wo_sha w code \<in> set (mf_recovery r) \<and> mf_recovery r' = remove1 (wo_sha w code) (mf_recovery r)"
    using verify_mfaD [OF run] secret by auto
  let ?steps = "filter (\<lambda>k. totp v secret k = code) [mf_last r + 1 .. n]"
  have one: "length ?steps \<le> 1" and either: "?steps = [] \<or> wo_sha w code \<notin> set (mf_recovery r)" and "distinct (mf_recovery r)"
    using clear by (auto simp: unambiguous_def Let_def)
  from case_ show ?thesis
  proof
    assume top: "mf_last r < mf_last r' \<and> mf_last r' \<le> totp_step now + 1 \<and> totp v secret (mf_last r') = code \<and>
      mf_recovery r' = mf_recovery r"
    then have mem: "mf_last r' \<in> set [mf_last r + 1 .. n]" using assms(5) by simp
    then have "wo_sha w code \<notin> set (mf_recovery r)" using either top by (auto simp: filter_empty_conv)
    moreover have "totp v secret k \<noteq> code" if "k \<in> {mf_last r' <.. n}" for k
    proof
      assume "totp v secret k = code"
      moreover have "k \<in> set [mf_last r + 1 .. n]" using that top by auto
      ultimately have "k = mf_last r'" using at_most_one [OF one _ mem] top by auto
      then show False using that by simp
    qed
    ultimately show ?thesis using new assms(2) secret top by (auto simp: used_up_def spent_def)
  next
    assume rec: "mf_last r' = mf_last r \<and> wo_sha w code \<in> set (mf_recovery r) \<and> mf_recovery r' = remove1 (wo_sha w code) (mf_recovery r)"
    then have "?steps = []" using either by simp
    then have "totp v secret k \<noteq> code" if "k \<in> {mf_last r <.. n}" for k
      using that by (auto simp: filter_empty_conv)
    then show ?thesis
      using new assms(2) secret rec \<open>distinct (mf_recovery r)\<close> by (auto simp: used_up_def spent_def)
  qed
qed

definition factor_spent :: "string \<Rightarrow> desk \<Rightarrow> desk \<Rightarrow> bool" where
  "factor_spent a d d' \<longleftrightarrow> (\<forall>r. mfa_of a d = Some r \<longrightarrow> (\<exists>r'. mfa_of a d' = Some r' \<and> spent r r'))"

interpretation factor_frame: effect_frame "factor_spent a" for a
  by unfold_locales (auto simp: factor_spent_def intro: spent_refl dest: spent_trans, meson spent_trans)

lemma same_factor: "au_mfa (dk_auth d') = au_mfa (dk_auth d) \<Longrightarrow> factor_spent a d d'"
  by (simp add: factor_spent_def mfa_of_def spent_refl)

lemma checked_row:
  assumes "check_second_factor w v now u code d = Inr d'" and "mfa_of u d = Some r" and "mf_enabled r"
  shows "\<exists>r'. verify_mfa w v now code r = Inr r' \<and> spent r r' \<and> (\<forall>a. mfa_of a d' = (if a = u then Some r' else mfa_of a d))"
proof -
  obtain r' where run: "verify_mfa w v now code r = Inr r'" and d': "d' = set_mfa (modify mf_admin u (\<lambda>_. r')) d"
    using assms by (auto simp: check_second_factor_def rbind_Inr)
  have "mf_admin r = u" using assms(2) by (auto simp: mfa_of_def dest: lookup_Some_mem)
  then have "spent r r'" "mf_admin r' = u" using verify_mfaD [OF run] by (auto simp: spent_def)
  then show ?thesis
    using run assms(2) by (auto simp: d' mfa_of_def set_mfa_def set_auth_def lookup_modify)
qed

lemma checked_factor:
  assumes "check_second_factor w v now u code d = Inr d'"
  shows "factor_spent a d d'"
proof (cases "\<exists>r. mfa_of u d = Some r \<and> mf_enabled r")
  case True
  then show ?thesis using checked_row [OF assms] by (fastforce simp: factor_spent_def spent_refl)
next
  case False
  then show ?thesis
    using assms by (auto simp: check_second_factor_def factor_frame.R_refl split: option.splits if_splits)
qed

lemma open_sessionD:
  assumes "open_session w v bucket now row otp seconds source agent tok csrf d = Inr (d', who)"
  shows "\<exists>d1 new. check_second_factor w v now (ad_id row) otp d = Inr d1 \<and> se_admin new = ad_id row \<and>
    au_sessions (dk_auth d') = delete_where (\<lambda>x. se_expires x \<le> now) (au_sessions (dk_auth d1)) @ [new] \<and>
    au_mfa (dk_auth d') = au_mfa (dk_auth d1) \<and> dk_panel d' = dk_panel d1 \<and>
    au_attempts (dk_auth d') = delete_where (\<lambda>x. at_bucket x = bucket) (au_attempts (dk_auth d1)) \<and>
    (\<exists>r. account_of (ad_id row) d = Some r \<and> \<not> ad_disabled r) \<and> own_id who = ad_id row"
proof -
  obtain d1 where check: "check_second_factor w v now (ad_id row) otp d = Inr d1"
    using assms by (auto simp: open_session_def Let_def rbind_Inr split: if_splits)
  then show ?thesis
    using assms
    by (auto simp: open_session_def Let_def insert_pk_Inr rbind_Inr set_auth_def own_id_def account_actor_def
        split: option.splits if_splits)
qed

lemma opened_factor:
  assumes "open_session w v bucket now row otp seconds source agent tok csrf d = Inr (d', who)"
  shows "factor_spent a d d'"
  using open_sessionD [OF assms] by (blast intro: factor_frame.R_trans checked_factor same_factor)

lemma count_attemptD:
  assumes "count_attempt bucket now u d = Inr (d', row)"
  shows "\<exists>rows. d' = set_auth (\<lambda>t. t\<lparr>au_attempts := rows\<rparr>) d" and "row = account_of u d"
  using assms by (auto simp: count_attempt_def Let_def denied_def set_auth_def split: if_splits)

lemma desk_token_auth [simp]: "dk_auth (fst (desk_token w d)) = dk_auth d"
  by (simp add: desk_token_def at_desk_def on_part_def fresh_token_def)

lemma desk_token_spent: "factor_spent a t (fst (desk_token w t))"
  by (rule same_factor) simp

lemma login_spent: "factor_spent a d (fst (login w v u password code source seconds agent d))"
  unfolding login_def Let_def
proof (intro factor_frame.bind_frame factor_frame.read_frame factor_frame.return_frame desk_token_spent)
  show "factor_spent a t (fst (transaction (count_attempt b now u) t))" for t b now
    by (rule factor_frame.transaction_frame, drule count_attemptD(1)) (auto simp: set_auth_def intro: same_factor)
  show "factor_spent a t (fst (transaction (open_session w v b now row code n src ag t1 t2) t))" for t b now row n src ag t1 t2
    by (rule factor_frame.transaction_frame) (rule opened_factor)
qed

inductive sign_in :: "desk \<Rightarrow> desk \<Rightarrow> bool" where
  sign_in: "sign_in d (fst (login w v u password code source seconds agent d))"

lemma sign_ins_spent: "sign_in\<^sup>*\<^sup>* d d' \<Longrightarrow> factor_spent a d d'"
  by (induction rule: rtranclp_induct)
    (auto simp: sign_in.simps factor_frame.R_refl intro: factor_frame.R_trans [OF _ login_spent])

definition drawn :: "nat \<Rightarrow> desk \<Rightarrow> desk" where
  "drawn n d = d\<lparr>dk_panel := (dk_panel d)\<lparr>pa_step := n + pa_step (dk_panel d)\<rparr>\<rparr>"

lemma login_InrD:
  assumes "login w v u password code source seconds agent d = (d', Inr x)"
  shows "\<exists>row d1 t1 t2. count_attempt (wo_sha w (source_text source)) (desk_clock w d) u d = Inr (d1, Some row) \<and>
    password_matches v password (Some row) \<and>
    open_session w v (wo_sha w (source_text source)) (desk_clock w d) row code seconds (source_text source)
      (agent_text agent) t1 t2 (drawn 2 d1) = Inr (d', snd x)"
proof -
  from bindD [OF assms [unfolded login_def]] obtain e0 where
    "ebind (peek (desk_clock w)) (\<lambda>now. let bucket = wo_sha w (source_text source) in
     ebind (transaction (count_attempt bucket now u)) (\<lambda>row.
     ebind (require_that (\<lambda>_. password_matches v password row) (PermissionDenied ''Invalid credentials'')) (\<lambda>_.
     ebind (desk_token w) (\<lambda>tok. ebind (desk_token w) (\<lambda>csrf.
     ebind (transaction (open_session w v bucket now (the row) code seconds (source_text source) (agent_text agent) tok csrf))
       (\<lambda>who. return (tok, who))))))) d = (d', Inr x)"
    by (auto simp: require_that_def)
  then obtain d1 row t1 t2 where count: "count_attempt (wo_sha w (source_text source)) (desk_clock w d) u d = Inr (d1, row)"
    and ok: "password_matches v password row"
    and opens: "open_session w v (wo_sha w (source_text source)) (desk_clock w d) (the row) code seconds (source_text source)
      (agent_text agent) t1 t2 (drawn 2 d1) = Inr (d', snd x)"
    unfolding Let_def
    by (fastforce simp: ebind_Inr require_that_def peek_def transaction_Inr desk_token_def at_desk_def on_part_def fresh_token_def
        token_def return_def drawn_def numeral_2_eq_2 simp del: ebind.simps)
  obtain r where "row = Some r" using ok by (auto simp: password_matches_def split: option.splits)
  then show ?thesis using count ok opens by auto
qed

lemma login_factor:
  assumes "login w v a password code source seconds agent d = (d', Inr x)" and "mfa_of a d = Some r" and "mf_enabled r"
  shows "\<exists>r'. verify_mfa w v (desk_clock w d) code r = Inr r' \<and> mfa_of a d' = Some r'"
proof -
  obtain row e1 e2 where count: "count_attempt (wo_sha w (source_text source)) (desk_clock w d) a d = Inr (e1, Some row)"
    and check: "check_second_factor w v (desk_clock w d) (ad_id row) code (drawn 2 e1) = Inr e2"
    and mfa: "au_mfa (dk_auth d') = au_mfa (dk_auth e2)"
    using login_InrD [OF assms(1)] open_sessionD by metis
  have row: "ad_id row = a" using count_attemptD(2) [OF count] account_of_id by metis
  have "mfa_of a (drawn 2 e1) = Some r"
    using count_attemptD(1) [OF count] assms(2) by (auto simp: mfa_of_def drawn_def set_auth_def)
  from checked_row [OF check [unfolded row] this assms(3)] show ?thesis using mfa by (auto simp: mfa_of_def)
qed

text \<open>
  C33. A code of the second factor lets its account in once: after a sign-in with it, every later sign-in of
  the account with the same code fails, whatever sign-ins of whomever came between, whichever password,
  source or time. The code may not stand for two of the steps up to the later time (\<open>unambiguous\<close>), and the
  clock does not run backwards.
\<close>

theorem second_factor_used_once:
  assumes "login w v a password code source seconds agent d = (d1, Inr x)"
    and "mfa_of a d = Some r" and "mf_enabled r" and "va_open v (mf_secret r) = Some secret"
    and "sign_in\<^sup>*\<^sup>* d1 d2" and "wo_sha w' = wo_sha w" and "desk_clock w d \<le> desk_clock w' d2"
    and "unambiguous w v secret code (totp_step (desk_clock w' d2) + 1) r"
  shows "\<exists>e. snd (login w' v a password' code source' seconds' agent' d2) = Inl e"
proof (rule ccontr)
  let ?n = "totp_step (desk_clock w' d2) + 1"
  assume "\<not> ?thesis"
  then obtain d3 y where again: "login w' v a password' code source' seconds' agent' d2 = (d3, Inr y)"
    by (metis prod.collapse sum.exhaust)
  have step: "totp_step (desk_clock w d) + 1 \<le> ?n"
    using assms(7) by (auto simp: totp_step_def intro: floor_mono divide_right_mono)
  obtain r1 where "verify_mfa w v (desk_clock w d) code r = Inr r1" and row: "mfa_of a d1 = Some r1"
    using login_factor [OF assms(1-3)] by blast
  then have "used_up w v code ?n r1" using verified_used_up [OF _ assms(3,4,8) step] by blast
  then obtain r2 where r2: "mfa_of a d2 = Some r2" and used: "used_up w v code ?n r2"
    using sign_ins_spent [OF assms(5), of a] used_up_spent row by (auto simp: factor_spent_def)
  then obtain r3 where "verify_mfa w' v (desk_clock w' d2) code r2 = Inr r3"
    using login_factor [OF again r2] by (auto simp: used_up_def)
  moreover have "used_up w' v code ?n r2" using used assms(6) by (simp add: used_up_def)
  ultimately show False using used_up_refused [of w' v code ?n r2 "desk_clock w' d2"] by (simp add: denied_def)
qed

section \<open>Steps\<close>

inductive desk_step :: "string option \<Rightarrow> desk \<Rightarrow> desk \<Rightarrow> bool" where
  login: "desk_step (Some u) d (fst (login w v u password otp source seconds agent d))"
| revoke: "desk_step None d (fst (revoke_session who public d))"
| revoke_others: "desk_step None d (fst (revoke_other_sessions who d))"
| new_key: "desk_step None d (fst (new_key w who kname permissions days d))"
| revoke_key: "desk_step None d (fst (revoke_key who kid d))"
| bootstrap: "desk_step None d (fst (auth_bootstrap v a password d))"
| create: "desk_step None d (fst (auth_admin_create v act a password role perms d))"
| edit: "desk_step None d (fst (admin_edit v act a disabled new_password perms d))"
| change_password: "desk_step None d (fst (change_password v who old new d))"
| mfa_setup: "desk_step None d (fst (mfa_setup w v who password d))"
| mfa_enable: "desk_step None d (fst (mfa_enable w v who code d))"
| mfa_disable: "desk_step None d (fst (mfa_disable w v who password code d))"
| add: "desk_step None d (fst (add_admin w v act a password role d))"
| edit_one: "calm w \<Longrightarrow> desk_step None d (fst (edit_admin w v act a disabled new_password d))"
| put_seller: "calm w \<Longrightarrow> desk_step None d (fst (representative_put w v act a f d))"
| adjust: "desk_step None d (fst (credit_adjust w act a volume units event d))"
| delete_seller: "desk_step None d (fst (representative_delete w act a d))"
| recover: "desk_step None d (fst (create_owner_account v a password d))"
| recover_password: "desk_step None d (fst (reset_owner_password v a password d))"
| recover_sessions: "desk_step None d (fst (revoke_owner_sessions a d))"
| recover_keys: "desk_step None d (fst (revoke_owner_api_keys a d))"
| recover_factor: "desk_step None d (fst (disable_owner_totp a d))"
| manager: "manager_step calm (dk_panel d) p \<Longrightarrow> desk_step None d (d\<lparr>dk_panel := p\<rparr>)"

lemma at_desk_parts [simp]:
  "dk_auth (fst (at_desk m d)) = dk_auth d" "dk_panel (fst (at_desk m d)) = fst (m (dk_panel d))"
  by (simp_all add: at_desk_def on_part_def split: prod.splits)

lemma set_accounts_parts [simp]:
  "dk_auth (set_accounts f d) = dk_auth d" "accounts (set_accounts f d) = f (accounts d)"
  by (simp_all add: set_accounts_def set_store_def)

lemma set_auth_parts [simp]: "dk_auth (set_auth f d) = f (dk_auth d)" "dk_panel (set_auth f d) = dk_panel d"
  by (simp_all add: set_auth_def)

lemma drop_sessions_parts [simp]:
  "au_sessions (dk_auth (drop_sessions P d)) = delete_where P (au_sessions (dk_auth d))" "dk_panel (drop_sessions P d) = dk_panel d"
  by (simp_all add: drop_sessions_def)

lemma switch_account_parts [simp]:
  "dk_auth (switch_account a off d) = dk_auth d"
  "accounts (switch_account a off d) = modify ad_id a (\<lambda>r. r\<lparr>ad_disabled := off\<rparr>) (accounts d)"
  by (simp_all add: switch_account_def Let_def set_accounts_def set_store_def)

subsection \<open>Sessions appear by sign-in only\<close>

definition signed_in :: "desk \<Rightarrow> string set" where
  "signed_in d = se_admin ` set (au_sessions (dk_auth d))"

definition no_entry :: "desk \<Rightarrow> desk \<Rightarrow> bool" where
  "no_entry d d' \<longleftrightarrow> signed_in d' \<subseteq> signed_in d"

interpretation entry_frame: effect_frame no_entry
  by unfold_locales (auto simp: no_entry_def)

lemma same_entry: "au_sessions (dk_auth d') = au_sessions (dk_auth d) \<Longrightarrow> no_entry d d'"
  by (simp add: no_entry_def signed_in_def)

lemma fewer_entry: "set (au_sessions (dk_auth d')) \<subseteq> set (au_sessions (dk_auth d)) \<Longrightarrow> no_entry d d'"
  by (auto simp: no_entry_def signed_in_def)

lemma looks_entry: "no_entry d (fst (looks f d))"
  by (simp add: looks_def entry_frame.R_refl)

lemma at_desk_entry: "no_entry d (fst (at_desk m d))"
  by (rule same_entry) simp

lemma token_entry: "no_entry d (fst (desk_token w d))"
  by (rule same_entry) simp

lemmas entry_rules = entry_frame.bind_frame entry_frame.return_frame entry_frame.read_frame entry_frame.alter_frame
  entry_frame.when_frame entry_frame.if_frame entry_frame.transaction_frame entry_frame.map_frame looks_entry at_desk_entry token_entry

lemma new_key_entry: "no_entry d (fst (new_key w who kname perms days d))"
  unfolding new_key_def Let_def
  by (intro entry_rules) (auto simp: rbind_Inr insert_pk_Inr intro: same_entry split: if_splits)

lemma revoke_key_entry: "no_entry d (fst (revoke_key who kid d))"
  unfolding revoke_key_def by (intro entry_rules) (simp add: same_entry)

lemma revoke_entry: "no_entry d (fst (revoke_session who public d))"
  unfolding revoke_session_def interactive_def
  by (intro entry_rules) (auto simp: bad_def intro: fewer_entry split: list.splits)

lemma revoke_others_entry: "no_entry d (fst (revoke_other_sessions who d))"
  unfolding revoke_other_sessions_def interactive_def
  by (intro entry_rules) (auto intro: fewer_entry)

lemma insert_account_entry: "insert_account v a password role perms hashed d = Inr (d', u) \<Longrightarrow> no_entry d d'"
  by (auto simp: insert_account_def Let_def rbind_Inr intro!: same_entry split: if_splits)

lemma create_entry: "no_entry d (fst (auth_admin_create v act a password role perms d))"
  "no_entry d (fst (auth_bootstrap v a password d))"
proof -
  show "no_entry d (fst (auth_admin_create v act a password role perms d))"
    unfolding auth_admin_create_def by (intro entry_rules) (rule insert_account_entry)
  show "no_entry d (fst (auth_bootstrap v a password d))"
    unfolding auth_bootstrap_def
    by (intro entry_rules) (auto simp: insert_first_def Let_def rbind_Inr insert_pk_Inr intro: same_entry split: if_splits)
qed

lemma edit_accountD:
  assumes "edit_account v a disabled password perms d = Inr (d', u)"
  shows "\<exists>r d1 d2 d3. account_of a d = Some r \<and> \<not> (disabled = Some True \<and> ad_role r = ''owner'' \<and> length (live_owners d) \<le> 1) \<and>
    (d1 = d \<or> (\<exists>p. d1 = set_accounts (modify ad_id a (\<lambda>x. x\<lparr>ad_permissions := p\<rparr>)) d)) \<and>
    d2 = (case disabled of None \<Rightarrow> d1 | Some off \<Rightarrow> switch_account a off d1) \<and>
    (d3 = d2 \<or> (\<exists>h. d3 = set_accounts (modify ad_id a (\<lambda>x. x\<lparr>ad_password_hash := h\<rparr>)) d2)) \<and>
    d' = drop_sessions (\<lambda>x. se_admin x = a) d3"
proof -
  obtain r where r: "account_of a d = Some r"
    using assms by (auto simp: edit_account_def bad_def split: option.splits)
  obtain d1 where d1: "(case perms of None \<Rightarrow> Inr d | Some p \<Rightarrow> rbind (valid_permissions (ad_role r) (Some p)) (\<lambda>p.
      Inr (set_accounts (modify ad_id a (\<lambda>x. x\<lparr>ad_permissions := p\<rparr>)) d))) = Inr d1"
    using assms r by (auto simp: edit_account_def rbind_Inr split: if_splits)
  define d2 where "d2 = (case disabled of None \<Rightarrow> d1 | Some off \<Rightarrow> switch_account a off d1)"
  obtain d3 where d3: "(case password of None \<Rightarrow> Inr d2 | Some (plain, hashed) \<Rightarrow>
        rbind (ensure (verify_password (va_scrypt v) plain hashed)
                 (PolicyError ''Admin password verification failed; transaction rolled back'')) (\<lambda>_.
        Inr (set_accounts (modify ad_id a (\<lambda>x. x\<lparr>ad_password_hash := hashed\<rparr>)) d2))) = Inr d3"
    and d': "d' = drop_sessions (\<lambda>x. se_admin x = a) d3"
    and last: "\<not> (disabled = Some True \<and> ad_role r = ''owner'' \<and> length (live_owners d) \<le> 1)"
    using assms r d1 unfolding edit_account_def Let_def d2_def
    by (simp add: rbind_Inr split: if_splits; fastforce)
  have "d1 = d \<or> (\<exists>p. d1 = set_accounts (modify ad_id a (\<lambda>x. x\<lparr>ad_permissions := p\<rparr>)) d)"
    using d1 by (auto simp: rbind_Inr split: option.splits)
  moreover have "d3 = d2 \<or> (\<exists>h. d3 = set_accounts (modify ad_id a (\<lambda>x. x\<lparr>ad_password_hash := h\<rparr>)) d2)"
    using d3 by (cases password) (auto split: if_splits)
  ultimately show ?thesis using r last d' d2_def by blast
qed

lemma edit_account_sessions:
  assumes "edit_account v a disabled password perms d = Inr (d', u)"
  shows "au_sessions (dk_auth d') = delete_where (\<lambda>x. se_admin x = a) (au_sessions (dk_auth d))"
proof -
  obtain d1 d2 d3 where "d1 = d \<or> (\<exists>p. d1 = set_accounts (modify ad_id a (\<lambda>x. x\<lparr>ad_permissions := p\<rparr>)) d)"
    and "d2 = (case disabled of None \<Rightarrow> d1 | Some off \<Rightarrow> switch_account a off d1)"
    and "d3 = d2 \<or> (\<exists>h. d3 = set_accounts (modify ad_id a (\<lambda>x. x\<lparr>ad_password_hash := h\<rparr>)) d2)"
    and d': "d' = drop_sessions (\<lambda>x. se_admin x = a) d3"
    using edit_accountD [OF assms] by blast
  then have "dk_auth d1 = dk_auth d" "dk_auth d2 = dk_auth d1" "dk_auth d3 = dk_auth d2" by (auto split: option.splits)
  then show ?thesis by (simp add: d')
qed

lemma edit_entry: "no_entry d (fst (admin_edit v act a disabled password perms d))"
  unfolding admin_edit_def
  by (intro entry_rules) (auto dest!: edit_account_sessions intro: fewer_entry)

lemma password_entry: "no_entry d (fst (change_password v who old new d))"
  unfolding change_password_def
  by (intro entry_rules) (auto simp: rbind_Inr intro: fewer_entry split: if_splits)

lemma enrollD:
  assumes "enroll w v a code codes d = Inr (d', u)"
  shows "au_sessions (dk_auth d') = delete_where (\<lambda>x. se_admin x = a) (au_sessions (dk_auth d))"
proof -
  obtain r secret where r: "mfa_of a d = Some r" "mf_pending r \<noteq> [] \<and> \<not> mf_enabled r" "opened v (mf_pending r) = Inr secret"
    using assms by (auto simp: enroll_def rbind_Inr bad_def split: option.splits if_splits)
  show ?thesis
  proof (cases "filter (\<lambda>k. totp v secret k = code) (near_steps (desk_clock w d))")
    case Nil
    then show ?thesis using assms r by (simp add: enroll_def denied_def)
  next
    case (Cons k ks)
    then show ?thesis using assms r by (auto simp: enroll_def set_mfa_def)
  qed
qed

lemma mfa_setup_entry: "no_entry d (fst (mfa_setup w v who password d))"
  unfolding mfa_setup_def by (intro entry_rules) (simp add: set_mfa_def same_entry)

lemma mfa_enable_entry: "no_entry d (fst (mfa_enable w v who code d))"
  unfolding mfa_enable_def by (intro entry_rules) (auto dest!: enrollD intro: fewer_entry)

lemma mfa_disable_entry: "no_entry d (fst (mfa_disable w v who password code d))"
  unfolding mfa_disable_def
  by (intro entry_rules) (auto simp: set_mfa_def rbind_Inr bad_def intro: fewer_entry split: option.splits if_splits)

lemma admin_entry: "no_entry d (fst (add_admin w v act a password role d))"
  "no_entry d (fst (edit_admin w v act a disabled new_password d))"
  "no_entry d (fst (representative_put w v act a f d))" "no_entry d (fst (credit_adjust w act a volume units event d))"
  unfolding add_admin_def edit_admin_def representative_put_def credit_adjust_def
  by (intro entry_rules create_entry edit_entry)+

lemma forget_account_parts [simp]:
  "au_sessions (dk_auth (forget_account a d)) = delete_where (\<lambda>x. se_admin x = a) (au_sessions (dk_auth d))"
  "accounts (forget_account a d) = delete_where (\<lambda>r. ad_id r = a \<and> ad_role r = ''reseller'') (accounts d)"
  by (simp_all add: forget_account_def)

lemma delete_entry: "no_entry d (fst (representative_delete w act a d))"
  unfolding representative_delete_def Let_def
  by (intro entry_rules) (auto intro: fewer_entry)

lemma write_owner_passwordD: "write_owner_password v a password hashed d = Inr (d', u) \<Longrightarrow>
    au_sessions (dk_auth d') = delete_where (\<lambda>x. se_admin x = a) (au_sessions (dk_auth d))"
  by (auto simp: write_owner_password_def rbind_Inr split: if_splits)

lemma recovery_entry:
  "no_entry d (fst (create_owner_account v a password d))" "no_entry d (fst (reset_owner_password v a password d))"
  "no_entry d (fst (revoke_owner_sessions a d))" "no_entry d (fst (revoke_owner_api_keys a d))"
  "no_entry d (fst (disable_owner_totp a d))"
proof -
  show "no_entry d (fst (create_owner_account v a password d))"
    unfolding create_owner_account_def
    by (intro entry_rules) (auto simp: insert_owner_def Let_def rbind_Inr intro: same_entry split: if_splits)
  show "no_entry d (fst (reset_owner_password v a password d))"
    unfolding reset_owner_password_def by (intro entry_rules) (auto dest!: write_owner_passwordD intro: fewer_entry)
  show "no_entry d (fst (revoke_owner_sessions a d))"
    unfolding revoke_owner_sessions_def by (intro entry_rules) (auto simp: rbind_Inr intro: fewer_entry)
  show "no_entry d (fst (revoke_owner_api_keys a d))"
    unfolding revoke_owner_api_keys_def Let_def by (intro entry_rules) (auto simp: rbind_Inr intro: same_entry)
  show "no_entry d (fst (disable_owner_totp a d))"
    unfolding disable_owner_totp_def by (intro entry_rules) (auto simp: rbind_Inr set_mfa_def intro: fewer_entry)
qed

definition enters :: "string \<Rightarrow> desk \<Rightarrow> desk \<Rightarrow> bool" where
  "enters u d d' \<longleftrightarrow> signed_in d' \<subseteq> insert u (signed_in d)"

interpretation enters_frame: effect_frame "enters u" for u
  by unfold_locales (auto simp: enters_def)

lemma entry_enters: "no_entry d d' \<Longrightarrow> enters u d d'"
  by (auto simp: no_entry_def enters_def)

lemma opened_enters:
  assumes "open_session w v b now row otp n src ag t1 t2 d = Inr (d', who)"
  shows "enters (ad_id row) d d'"
proof -
  obtain d1 new where check: "check_second_factor w v now (ad_id row) otp d = Inr d1" and "se_admin new = ad_id row"
    and rows: "au_sessions (dk_auth d') = delete_where (\<lambda>x. se_expires x \<le> now) (au_sessions (dk_auth d1)) @ [new]"
    using open_sessionD [OF assms] by blast
  moreover have "au_sessions (dk_auth d1) = au_sessions (dk_auth d)"
    using check by (auto simp: check_second_factor_def rbind_Inr set_mfa_def split: option.splits if_splits)
  ultimately show ?thesis by (auto simp: enters_def signed_in_def)
qed

lemma login_enters: "enters u d (fst (login w v u password otp source seconds agent d))"
  unfolding login_def Let_def
proof (rule enters_frame.bind_frame, rule enters_frame.read_frame, rule enters_frame.bind_frame, rule enters_frame.read_frame,
    rule enters_frame.bind_frame, goal_cases)
  case 1
  show ?case
    by (rule enters_frame.transaction_frame, drule count_attemptD(1)) (auto simp: enters_def signed_in_def)
next
  case (2 t x t' now t0 row)
  have row: "row = account_of u t'" using 2(5) count_attemptD(2) by (auto simp: transaction_Inr)
  show ?case
  proof (rule enters_frame.bind_frame, rule enters_frame.read_frame, goal_cases)
    case (1 t1 y)
    then obtain r where "row = Some r" by (auto simp: require_that_def password_matches_def split: if_splits option.splits)
    then have id: "ad_id (the row) = u" using account_of_id row by auto
    have opens: "enters u t (fst (transaction (open_session w v b now (the row) otp seconds src ag k1 k2) t))" for t b src ag k1 k2
      by (rule enters_frame.transaction_frame, drule opened_enters) (simp add: id)
    show ?case
      by (intro enters_frame.bind_frame enters_frame.return_frame token_entry [THEN entry_enters] opens)
  qed
qed

lemma step_enters: "desk_step l d d' \<Longrightarrow> case l of None \<Rightarrow> no_entry d d' | Some u \<Rightarrow> enters u d d'"
  by (induction rule: desk_step.induct)
    (simp_all add: login_enters revoke_entry revoke_others_entry new_key_entry revoke_key_entry create_entry edit_entry password_entry
      mfa_setup_entry mfa_enable_entry mfa_disable_entry admin_entry delete_entry
      recovery_entry same_entry)

text \<open>A change of the credentials of \<open>a\<close> that succeeded.\<close>

inductive credentials_changed :: "string \<Rightarrow> desk \<Rightarrow> desk \<Rightarrow> bool" where
  edited: "admin_edit v act a disabled password perms d = (d', Inr u) \<Longrightarrow> credentials_changed a d d'"
| password: "change_password v who old new d = (d', Inr u) \<Longrightarrow> credentials_changed (own_id who) d d'"
| enabled: "mfa_enable w v who code d = (d', Inr codes) \<Longrightarrow> credentials_changed (own_id who) d d'"
| disabled: "mfa_disable w v who password code d = (d', Inr u) \<Longrightarrow> credentials_changed (own_id who) d d'"
| deleted: "representative_delete w act a d = (d', Inr u) \<Longrightarrow> credentials_changed a d d'"
| recovered: "reset_owner_password v a password d = (d', Inr u) \<Longrightarrow> credentials_changed a d d'"
| factor_removed: "disable_owner_totp a d = (d', Inr b) \<Longrightarrow> credentials_changed a d d'"

lemma credentials_end_sessions: "credentials_changed a d d' \<Longrightarrow> a \<notin> signed_in d'"
proof (induction rule: credentials_changed.induct)
  case (edited v act a disabled password perms d d' u)
  then obtain h where "edit_account v a disabled h perms d = Inr (d', u)"
    by (auto simp: admin_edit_def ebind_Inr require_that_def looks_def transaction_Inr simp del: ebind.simps split: if_splits)
  then show ?case using edit_account_sessions by (auto simp: signed_in_def)
next
  case (password v who old new d d' u)
  then show ?case
    by (auto simp: change_password_def ebind_Inr require_that_def looks_def transaction_Inr rbind_Inr signed_in_def
        simp del: ebind.simps split: if_splits)
next
  case (enabled w v who code d d' codes)
  then obtain e where "enroll w v (own_id who) code codes e = Inr (d', ())"
    by (auto simp: mfa_enable_def ebind_Inr transaction_Inr return_def simp del: ebind.simps)
  then show ?case using enrollD by (auto simp: signed_in_def)
next
  case (disabled w v who password code d d' u)
  then show ?case
    by (auto simp: mfa_disable_def ebind_Inr require_that_def looks_def transaction_Inr rbind_Inr bad_def signed_in_def
        simp del: ebind.simps split: if_splits option.splits)
next
  case (deleted w act a d d' u)
  then show ?case
    by (auto simp: representative_delete_def Let_def ebind_Inr require_that_def alter_def audit_def at_desk_def on_part_def
        signed_in_def simp del: ebind.simps split: if_splits)
next
  case (recovered v a password d d' u)
  then show ?case
    by (auto simp: reset_owner_password_def ebind_Inr looks_def transaction_Inr signed_in_def dest!: write_owner_passwordD
        simp del: ebind.simps)
next
  case (factor_removed a d d' b)
  then show ?case by (auto simp: disable_owner_totp_def transaction_Inr rbind_Inr signed_in_def)
qed

definition others_step :: "string \<Rightarrow> desk \<Rightarrow> desk \<Rightarrow> bool" where
  "others_step a d d' \<longleftrightarrow> (\<exists>l. l \<noteq> Some a \<and> desk_step l d d')"

lemma others_keep_out: "(others_step a)\<^sup>*\<^sup>* d d' \<Longrightarrow> a \<notin> signed_in d \<Longrightarrow> a \<notin> signed_in d'"
proof (induction rule: rtranclp_induct)
  case (step d1 d2)
  then obtain l where "l \<noteq> Some a" "desk_step l d1 d2" by (auto simp: others_step_def)
  then show ?case using step_enters [of l d1 d2] step.IH step.prems by (auto simp: no_entry_def enters_def split: option.splits)
qed

lemma session_principalD:
  assumes "session_principal w cookie d = Inr who"
  shows "own_id who \<in> signed_in d"
proof -
  obtain c where c: "cookie = Some c" using assms by (auto simp: session_principal_def denied_def split: option.splits)
  show ?thesis
  proof (cases "filter (\<lambda>x. se_digest x = wo_sha w c \<and> desk_clock w d < se_expires x) (au_sessions (dk_auth d))")
    case Nil
    then show ?thesis using assms c by (simp add: session_principal_def denied_def split: if_splits)
  next
    case (Cons x xs)
    then have x: "x \<in> set (au_sessions (dk_auth d))" by (metis filter_eq_ConsD in_set_conv_decomp)
    obtain r where "account_of (se_admin x) d = Some r" and "own_id who = ad_id r"
      using assms c Cons
      by (cases "account_of (se_admin x) d")
        (auto simp: session_principal_def denied_def own_id_def account_actor_def split: if_splits)
    then show ?thesis using x account_of_id by (auto simp: signed_in_def)
  qed
qed


section \<open>Throttling\<close>

text \<open>
  C35. A successful sign-in of any account clears the attempts counted against its source, whichever accounts
  they were for, so the next attempt from there is looked at.
\<close>

theorem sign_in_clears_attempts:
  assumes "login w v u password otp source seconds agent d = (d', Inr x)"
  shows "lookup at_bucket (wo_sha w (source_text source)) (au_attempts (dk_auth d')) = None \<and>
    ok (count_attempt (wo_sha w (source_text source)) now other d')"
proof -
  obtain row e t1 t2 where opens: "open_session w v (wo_sha w (source_text source)) (desk_clock w d) row otp seconds
      (source_text source) (agent_text agent) t1 t2 e = Inr (d', snd x)"
    using login_InrD [OF assms] by blast
  have "lookup at_bucket (wo_sha w (source_text source)) (au_attempts (dk_auth d')) = None"
    using open_sessionD [OF opens] by (auto simp: lookup_None_iff)
  then show ?thesis by (simp add: count_attempt_def Let_def)
qed

section \<open>Concrete inputs\<close>

definition sample_vault :: vault where
  "sample_vault = \<lparr>va_seal = (\<lambda>t. t), va_open = Some, va_scrypt = (\<lambda>p s. if p = ''password'' then [] else [1]), va_salt = (\<lambda>i. []),
     va_mac = (\<lambda>s k. [0, 0, 0, of_int k] @ replicate 16 0)\<rparr>"

definition sample_account :: "string \<Rightarrow> string \<Rightarrow> admin_row" where
  "sample_account a role = \<lparr>ad_id = a, ad_role = role, ad_password_hash = ''scrypt$16384$8$1$$'',
     ad_permissions = (if role = ''owner'' then [] else seller_permissions), ad_disabled = False\<rparr>"

definition sample_factor :: mfa_row where
  "sample_factor = \<lparr>mf_admin = ''o'', mf_secret = ''s'', mf_pending = [], mf_enabled = True, mf_last = 0, mf_recovery = [''r'']\<rparr>"

definition sample_key :: key_row where
  "sample_key = \<lparr>ky_id = ''k'', ky_digest = ''dkr_x'', ky_admin = ''r'', ky_name = ''robot'',
     ky_permissions = [(''clients.read'', ''all''), (''api.manage'', ''own'')], ky_expires = 1000, ky_revoked = False, ky_created = 1\<rparr>"

definition desk_panel :: panel where
  "desk_panel = set_store ((store_of sample_panel)\<lparr>st_admins := [sample_account ''o'' ''owner'', sample_account ''r'' ''reseller'']\<rparr>)
     sample_panel"

definition desk_session :: "string \<Rightarrow> string \<Rightarrow> session_row" where
  "desk_session t a = \<lparr>se_digest = t, se_admin = a, se_csrf = [], se_expires = 500, se_public = t, se_created = 1, se_source = [],
     se_agent = []\<rparr>"

definition sample_desk :: desk where
  "sample_desk =
     \<lparr>dk_panel = desk_panel,
      dk_auth = \<lparr>au_sessions = [desk_session ''desk'' ''o'', desk_session ''shop'' ''r''], au_keys = [sample_key], au_mfa = [sample_factor],
        au_attempts = [\<lparr>at_bucket = ''10.0.0.1'', at_start = 90, at_count = 7\<rparr>]\<rparr>\<rparr>"

lemma sample_truncated: "truncated (va_mac sample_vault s k) = and (word_rcat [0, 0, 0, of_int k :: byte]) 0x7fffffff"
  by (simp add: truncated_def sample_vault_def nth_append Let_def)

lemma sample_digits: "show_nat 0 = ''0''" "show_nat (Suc 0) = ''1''" "six_digits (Suc 0) = ''000001''" "six_digits 2 = ''000002''"
    "six_digits 3 = ''000003''" "six_digits 4 = ''000004''"
  by code_simp+

lemma sample_codes: "totp sample_vault ''s'' 2 = ''000002''" "totp sample_vault ''s'' 3 = ''000003''" "totp sample_vault ''s'' 4 = ''000004''"
  "totp sample_vault ''s'' 1 = ''000001''"
  by (simp_all add: totp_def sample_truncated word_rcat_def sample_digits)

lemma sample_source: "source_text ''10.0.0.1'' = ''10.0.0.1''"
  by code_simp

lemma desk_panel_parts [simp]: "pa_step desk_panel = 0"
  "st_admins (store_of desk_panel) = [sample_account ''o'' ''owner'', sample_account ''r'' ''reseller'']"
  by (simp_all add: desk_panel_def set_store_def sample_panel_def)

lemma sample_open [simp]: "va_open sample_vault = Some"
  by (simp add: sample_vault_def)

lemma sample_password [simp]: "verify_password (va_scrypt sample_vault) ''password'' ''scrypt$16384$8$1$$''"
  by code_simp

lemma sample_desk_parts [simp]: "dk_panel sample_desk = desk_panel" "au_mfa (dk_auth sample_desk) = [sample_factor]"
  "au_attempts (dk_auth sample_desk) = [\<lparr>at_bucket = ''10.0.0.1'', at_start = 90, at_count = 7\<rparr>]"
  "au_keys (dk_auth sample_desk) = [sample_key]"
  "au_sessions (dk_auth sample_desk) = [desk_session ''desk'' ''o'', desk_session ''shop'' ''r'']"
  by (simp_all add: sample_desk_def)

lemma sample_world_parts [simp]: "wo_sha sample_world t = t" "wo_token sample_world 0 = ''t0''" "wo_token sample_world (Suc 0) = ''t1''" "clock sample_world p = 100 + real (pa_step p)"
    "desk_clock sample_world d = 100 + real (pa_step (dk_panel d))"
  by (simp_all add: sample_digits sample_world_def clock_def desk_clock_def)

lemma login_InrI:
  assumes "int_within 3600 (525600 * 60) seconds"
    and "count_attempt (wo_sha w (source_text source)) (desk_clock w d) u d = Inr (d1, Some row)"
    and "password_matches v password (Some row)" and "pa_step (dk_panel d1) = n"
    and "open_session w v (wo_sha w (source_text source)) (desk_clock w d) row code seconds (source_text source)
      (agent_text agent) (wo_token w n) (wo_token w (Suc n)) (drawn 2 d1) = Inr (d', who)"
  shows "login w v u password code source seconds agent d = (d', Inr (wo_token w n, who))"
  using assms
  by (simp add: login_def Let_def require_that_def peek_def transaction_def desk_token_def at_desk_def on_part_def fresh_token_def
      token_def return_def drawn_def)

lemma account_parts [simp]: "account_of a (set_auth f d) = account_of a d" "account_of a (drawn n d) = account_of a d"
  "dk_auth (drawn n d) = dk_auth d" "pa_step (dk_panel (drawn n d)) = n + pa_step (dk_panel d)"
  by (simp_all add: account_of_def drawn_def)

lemma sample_accounts [simp]: "account_of ''o'' sample_desk = Some (sample_account ''o'' ''owner'')"
  "account_of ''r'' sample_desk = Some (sample_account ''r'' ''reseller'')"
  by (simp_all add: account_of_def admin_of_def sample_account_def)

lemma session_parts [simp]: "se_digest (desk_session t a) = t" "se_public (desk_session t a) = t"
    "se_admin (desk_session t a) = a" "se_expires (desk_session t a) = 500" "se_csrf (desk_session t a) = []"
  by (simp_all add: desk_session_def)

lemma row_parts [simp]: "ad_id (sample_account a r) = a" "ad_role (sample_account a r) = r" "\<not> ad_disabled (sample_account a r)"
  by (simp_all add: sample_account_def)

lemma sample_rows [simp]: "mfa_of ''o'' sample_desk = Some sample_factor" "mf_enabled sample_factor" "mf_secret sample_factor = ''s''"
    "mf_last sample_factor = 0" "mf_recovery sample_factor = [''r'']" "mf_admin sample_factor = ''o''"
  by (simp_all add: mfa_of_def sample_factor_def)

lemma sample_login:
  "\<exists>d' x. login sample_world sample_vault ''o'' ''password'' ''000003'' ''10.0.0.1'' 3600 [] sample_desk = (d', Inr x) \<and>
     pa_step (dk_panel d') = 2"
proof -
  let ?d1 = "set_auth (\<lambda>t. t\<lparr>au_attempts := [\<lparr>at_bucket = ''10.0.0.1'', at_start = 90, at_count = 8\<rparr>]\<rparr>) sample_desk"
  have count: "count_attempt ''10.0.0.1'' 100 ''o'' sample_desk = Inr (?d1, Some (sample_account ''o'' ''owner''))"
    by (simp add: count_attempt_def Let_def upsert_def has_key_def modify_def update_where_def set_auth_def)
  have "totp_step 100 = 3" by (simp add: totp_step_def floor_eq_iff)
  then have verify: "verify_mfa sample_world sample_vault 100 ''000003'' sample_factor = Inr (sample_factor\<lparr>mf_last := 3\<rparr>)"
    using sample_codes by (simp add: verify_mfa_def opened_def near_steps_def sample_factor_def)
  have "\<exists>d' who. open_session sample_world sample_vault ''10.0.0.1'' 100 (sample_account ''o'' ''owner'') ''000003'' 3600 ''10.0.0.1''
      (agent_text []) (wo_token sample_world 0) (wo_token sample_world (Suc 0)) (drawn 2 ?d1) = Inr (d', who) \<and> pa_step (dk_panel d') = 2"
    using verify
    by (simp add: open_session_def Let_def sample_account_def [of "''o''"] check_second_factor_def mfa_of_def set_mfa_def
        sample_factor_def has_key_def insert_pk_def delete_where_def)
  then show ?thesis
    using login_InrI [of 3600 sample_world "''10.0.0.1''" sample_desk "''o''" ?d1 "sample_account ''o'' ''owner''" sample_vault "''password''" 0]
    by (simp add: sample_source int_within_def count password_matches_def sample_account_def) auto
qed

theorem sign_in_clears_attempts_witness:
  "\<exists>d' x. login sample_world sample_vault ''o'' ''password'' ''000003'' ''10.0.0.1'' 3600 [] sample_desk = (d', Inr x) \<and>
     lookup at_bucket ''10.0.0.1'' (au_attempts (dk_auth d')) = None"
proof -
  obtain d' x where login: "login sample_world sample_vault ''o'' ''password'' ''000003'' ''10.0.0.1'' 3600 [] sample_desk = (d', Inr x)"
    using sample_login by blast
  from sign_in_clears_attempts [OF this] show ?thesis by (auto simp: sample_source login)
qed

theorem second_factor_used_once_witness:
  "\<exists>d1 x e. login sample_world sample_vault ''o'' ''password'' ''000003'' ''10.0.0.1'' 3600 [] sample_desk = (d1, Inr x) \<and>
     snd (login sample_world sample_vault ''o'' ''password'' ''000003'' ''10.0.0.2'' 7200 [] d1) = Inl e"
proof -
  obtain d' x where login: "login sample_world sample_vault ''o'' ''password'' ''000003'' ''10.0.0.1'' 3600 [] sample_desk = (d', Inr x)"
    and clock: "pa_step (dk_panel d') = 2"
    using sample_login by blast
  have steps: "totp_step 102 = 3" by (simp add: totp_step_def floor_eq_iff)
  have "[1..4] = [1, 2, 3, 4::int]" by (simp add: upto.simps)
  then have "unambiguous sample_world sample_vault ''s'' ''000003'' 4 sample_factor"
    by (simp add: unambiguous_def sample_codes)
  then show ?thesis
    using second_factor_used_once [OF login, of sample_factor "''s''" d' sample_world "''password''" "''10.0.0.2''" 7200 "[]"]
    by (auto simp: steps clock login)
qed



end
