(* ===== verification/Commerce.thy ===== *)
theory Commerce
  imports Sessions
begin

text \<open>
  The shop of a representative's bot (backend/telegram_commerce.py, class \<open>TelegramCommerce\<close>):
  products, prices, gateways, orders, payments, and the delivery of an order as a client of the
  Manager. The state is the panel together with the shop's tables; \<open>rowid\<close> of a payment is its
  place in the table, which never loses a row. The accounts are the table \<open>st_admins\<close> of the store.

  Requests arrive as records; the bounds that their pydantic classes declare are the \<open>_ok\<close>
  predicates. Persian messages appear in English. The rendered views (\<open>manager.detail\<close>, the delivery
  links, the hosted checkout page) read the state and are not part of the model; of \<open>detail\<close> the
  check of access and existence is kept, because its exception reaches the order.
\<close>

section \<open>State\<close>

record product_body =
  pb_id :: string
  pb_name :: string
  pb_description :: string
  pb_category :: string
  pb_kind :: string
  pb_limit :: int
  pb_renewal :: bool
  pb_add_volume :: bool
  pb_active :: bool
  pb_visible :: bool

record product_row = product_body +
  pr_owner :: string
  pr_created :: real
  pr_updated :: real

record price_body =
  bd_id :: string
  bd_label :: string
  bd_minor :: int
  bd_currency :: string
  bd_days :: int
  bd_volume :: int
  bd_units :: int
  bd_ips :: "int option"
  bd_hwid :: int
  bd_devices :: "int option"
  bd_inbounds :: "int list"
  bd_activation :: string
  bd_delivery :: string
  bd_primary :: "int option"
  bd_qr :: bool
  bd_portal :: bool
  bd_active :: bool

record price_row =
  pc_id :: string
  pc_owner :: string
  pc_product :: string
  pc_label :: string
  pc_minor :: int
  pc_currency :: string
  pc_days :: int
  pc_volume :: int
  pc_units :: int
  pc_ips :: int
  pc_hwid :: int
  pc_inbounds :: "int list"
  pc_activation :: string
  pc_delivery :: string
  pc_primary :: int
  pc_qr :: bool
  pc_portal :: bool
  pc_active :: bool
  pc_created :: real
  pc_updated :: real

record gateway_body =
  gb_id :: string
  gb_label :: string
  gb_kind :: string
  gb_enabled :: bool
  gb_card :: string
  gb_holder :: string
  gb_bank :: string
  gb_instructions :: string
  gb_plugin :: string
  gb_secret :: "string option"

record gateway_row =
  gw_id :: string
  gw_owner :: string
  gw_label :: string
  gw_kind :: string
  gw_enabled :: bool
  gw_card :: string
  gw_holder :: string
  gw_bank :: string
  gw_instructions :: string
  gw_plugin :: string
  gw_secret :: string
  gw_updated :: real

record order_row =
  od_id :: string
  od_owner :: string
  od_buyer :: int
  od_username :: string
  od_product :: string
  od_price :: string
  od_amount :: int
  od_currency :: string
  od_status :: string
  od_gateway :: string
  od_ref :: string
  od_client :: string
  od_error :: string
  od_volume :: int
  od_days :: int
  od_ips :: int
  od_hwid :: int
  od_inbounds :: "int list"
  od_activation :: string
  od_delivery :: string
  od_primary :: int
  od_qr :: bool
  od_portal :: bool
  od_started :: real
  od_expires :: real
  od_type :: string
  od_target :: string
  od_target_expiry :: int
  od_created :: real
  od_updated :: real

record payment_row =
  pm_id :: string
  pm_order :: string
  pm_owner :: string
  pm_gateway :: string
  pm_amount :: int
  pm_currency :: string
  pm_status :: string
  pm_ref :: string
  pm_created :: real
  pm_updated :: real

record shop =
  sh_panel :: panel
  sh_products :: "product_row list"
  sh_prices :: "price_row list"
  sh_gateways :: "gateway_row list"
  sh_orders :: "order_row list"
  sh_payments :: "payment_row list"

definition on_panel :: "(panel, 'a) effect \<Rightarrow> (shop, 'a) effect" where
  "on_panel m = on_part sh_panel (\<lambda>p s. s\<lparr>sh_panel := p\<rparr>) m"

definition shop_clock :: "world \<Rightarrow> shop \<Rightarrow> real" where
  "shop_clock w s = clock w (sh_panel s)"

text \<open>\<open>_id(prefix)\<close>.\<close>

definition new_id :: "world \<Rightarrow> string \<Rightarrow> (shop, string) effect" where
  "new_id w pre = ebind (on_panel (fresh_token w)) (\<lambda>t. return (pre @ ''_'' @ t))"

section \<open>Accounts and credit\<close>

definition owner_for :: "actor \<Rightarrow> string option \<Rightarrow> string res" where
  "owner_for act requested =
     (let asked = (case requested of Some r \<Rightarrow> r \<noteq> [] | None \<Rightarrow> False) in
      if a_role act = ''owner'' then Inr (if asked then the requested else a_id act)
      else if asked \<and> requested \<noteq> Some (a_id act)
      then Inl (HttpError ''Representative may access only its own commerce scope'' 403)
      else Inr (a_id act))"

definition actor_for :: "string \<Rightarrow> shop \<Rightarrow> actor res" where
  "actor_for ow s =
     (case filter (\<lambda>a. ad_id a = ow \<and> \<not> ad_disabled a) (st_admins (store_of (sh_panel s))) of
        [] \<Rightarrow> bad ''Commerce owner account is unavailable or disabled''
      | a # _ \<Rightarrow>
          if ad_role a = ''owner'' then Inr \<lparr>a_id = ow, a_role = ''owner'', a_permissions = []\<rparr>
          else if ad_role a = ''reseller'' then Inr \<lparr>a_id = ow, a_role = ''reseller'', a_permissions = seller_permissions\<rparr>
          else bad ''Commerce owner role is unsupported'')"

definition unlimited_cost :: "string \<Rightarrow> int \<Rightarrow> int \<Rightarrow> shop \<Rightarrow> int res" where
  "unlimited_cost ow ips days s =
     rbind (actor_for ow s) (\<lambda>a.
     if a_role a \<noteq> ''reseller'' \<and> ips = 0 then Inr 0 else units_for_days (PInt ips) (PInt days))"

definition unlimited_plan_allowed :: "string \<Rightarrow> shop \<Rightarrow> bool res" where
  "unlimited_plan_allowed ow s =
     rbind (actor_for ow s) (\<lambda>a.
     Inr (a_role a \<noteq> ''reseller'' \<or>
          (case owner_of ow (store_of (sh_panel s)) of None \<Rightarrow> False | Some r \<Rightarrow> 0 < ow_unlimited_credit r)))"

definition no_plan_credit :: string where
  "no_plan_credit = ''You have no credit for unlimited services''"

definition require_plan_credit :: "string \<Rightarrow> int \<Rightarrow> shop \<Rightarrow> unit res" where
  "require_plan_credit ow volume s =
     (if volume \<noteq> 0 then Inr ()
      else rbind (unlimited_plan_allowed ow s) (\<lambda>yes. ensure yes (PolicyError no_plan_credit)))"

section \<open>The catalogue\<close>

definition product_of :: "string \<Rightarrow> string \<Rightarrow> shop \<Rightarrow> product_row option" where
  "product_of ow k s = lookup (\<lambda>r. (pr_owner r, pb_id r)) (ow, k) (sh_products s)"

definition price_of :: "string \<Rightarrow> string \<Rightarrow> string \<Rightarrow> shop \<Rightarrow> (price_row \<times> product_row) option" where
  "price_of ow product price s =
     (case lookup (\<lambda>r. (pc_owner r, pc_id r)) (ow, price) (sh_prices s) of
        None \<Rightarrow> None
      | Some r \<Rightarrow> if pc_product r \<noteq> product then None else map_option (\<lambda>x. (r, x)) (product_of ow product s))"

text \<open>\<open>product_rows\<close>: each product with its prices and what a sale costs in user-months.\<close>

type_synonym catalogue = "(product_row \<times> (price_row \<times> int option) list) list"

definition credit_units :: "string \<Rightarrow> price_row \<Rightarrow> shop \<Rightarrow> int option res" where
  "credit_units ow r s =
     (if pc_volume r \<noteq> 0 then Inr (Some 0)
      else case unlimited_cost ow (pc_ips r) (pc_days r) s of
          Inr n \<Rightarrow> Inr (Some n)
        | Inl ex \<Rightarrow> if is_policy_error ex then Inr None else Inl ex)"

definition product_rows :: "string \<Rightarrow> bool \<Rightarrow> shop \<Rightarrow> catalogue res" where
  "product_rows ow public s =
     (let products = sort_key pr_created (sort_key pb_id
            (filter (\<lambda>r. pr_owner r = ow \<and> (\<not> public \<or> pb_active r \<and> pb_visible r)) (sh_products s)));
          prices = sort_key pc_product (sort_key pc_minor (sort_key pc_id (filter (\<lambda>r. pc_owner r = ow) (sh_prices s)))) in
      rbind (map_res (\<lambda>r. rbind (credit_units ow r s) (\<lambda>u. Inr (r, u))) prices) (\<lambda>priced.
      let rows = map (\<lambda>x. (x, filter (\<lambda>r. pc_product (fst r) = pb_id x) priced)) products in
      rbind (if public then unlimited_plan_allowed ow s else Inr True) (\<lambda>unlimited.
      Inr (if unlimited then rows
           else filter (\<lambda>(x, ps). pb_kind x \<noteq> ''unlimited'' \<and> (\<exists>r \<in> set ps. pc_active (fst r)))
                  (map (\<lambda>(x, ps). (x, filter (\<lambda>r. 0 < pc_volume (fst r)) ps)) rows)))))"

definition product_ok :: "product_body \<Rightarrow> bool" where
  "product_ok b \<longleftrightarrow> text_within 1 64 (pb_id b) \<and> text_within 1 128 (pb_name b) \<and> text_within 0 2000 (pb_description b) \<and>
     text_within 1 64 (pb_category b) \<and> pb_kind b \<in> {''volume'', ''unlimited'', ''multi_location'', ''gaming''} \<and>
     int_within 0 100000 (pb_limit b)"

definition activation_modes :: "string list" where
  "activation_modes = [''immediate'', ''first_connection'']"

definition delivery_modes :: "string list" where
  "delivery_modes = [''subscription'', ''config'', ''both'', ''portal'']"

definition price_ok :: "price_body \<Rightarrow> bool" where
  "price_ok b \<longleftrightarrow> text_within 1 64 (bd_id b) \<and> text_within 1 128 (bd_label b) \<and> int_within 0 max_int (bd_minor b) \<and>
     text_within 3 8 (bd_currency b) \<and> int_within 1 3650 (bd_days b) \<and> int_within 0 max_int (bd_volume b) \<and>
     int_within 0 1000000 (bd_units b) \<and> (case bd_ips b of None \<Rightarrow> True | Some i \<Rightarrow> int_within 0 1000 i) \<and>
     int_within 0 1000 (bd_hwid b) \<and> (case bd_devices b of None \<Rightarrow> True | Some i \<Rightarrow> int_within 0 1000 i) \<and>
     1 \<le> length (bd_inbounds b) \<and> length (bd_inbounds b) \<le> 256 \<and> bd_activation b \<in> set activation_modes \<and>
     bd_delivery b \<in> set delivery_modes \<and> (case bd_primary b of None \<Rightarrow> True | Some i \<Rightarrow> 1 \<le> i)"

definition resolved_ip_limit :: "price_body \<Rightarrow> int" where
  "resolved_ip_limit b = (case bd_ips b of Some i \<Rightarrow> i | None \<Rightarrow> (case bd_devices b of Some i \<Rightarrow> i | None \<Rightarrow> 1))"

definition gateway_ok :: "gateway_body \<Rightarrow> bool" where
  "gateway_ok b \<longleftrightarrow> text_within 1 64 (gb_id b) \<and> text_within 1 128 (gb_label b) \<and> gb_kind b \<in> {''manual'', ''plugin''} \<and>
     text_within 0 32 (gb_card b) \<and> text_within 0 128 (gb_holder b) \<and> text_within 0 128 (gb_bank b) \<and>
     text_within 0 4000 (gb_instructions b) \<and> text_within 0 128 (gb_plugin b) \<and>
     (case gb_secret b of None \<Rightarrow> True | Some t \<Rightarrow> text_within 0 4096 t)"

definition unprocessable :: err where
  "unprocessable = HttpError ''Unprocessable request'' 422"

definition shop_audit :: "world \<Rightarrow> actor \<Rightarrow> string \<Rightarrow> string \<Rightarrow> string \<Rightarrow> string \<Rightarrow> (shop, unit) effect" where
  "shop_audit w act ow action target detail = on_panel (audit w act ow action target detail)"

text \<open>\<open>product_put\<close>: \<open>ON CONFLICT(owner,id)\<close> keeps the creation time.\<close>

definition write_product :: "string \<Rightarrow> product_body \<Rightarrow> real \<Rightarrow> shop \<Rightarrow> shop" where
  "write_product ow b now s =
     (let row = product_body.extend b (product_row.fields ow now now)
      in s\<lparr>sh_products := upsert (\<lambda>r. (pr_owner r, pb_id r)) row (\<lambda>r. row\<lparr>pr_created := pr_created r\<rparr>) (sh_products s)\<rparr>)"

definition product_put :: "world \<Rightarrow> actor \<Rightarrow> product_body \<Rightarrow> (shop, string) effect" where
  "product_put w act b =
     ebind (require_that (\<lambda>_. product_ok b) unprocessable) (\<lambda>_.
     ebind (of_res (owner_for act None)) (\<lambda>ow.
     ebind (require_that (\<lambda>_. valid_name (pb_id b)) (HttpError ''Invalid product ID'' 400)) (\<lambda>_.
     ebind (transaction (\<lambda>s.
       rbind (if pb_kind b = ''unlimited'' then require_plan_credit ow 0 s else Inr ()) (\<lambda>_.
       Inr (write_product ow b (shop_clock w s) s, ())))) (\<lambda>_.
     ebind (shop_audit w act ow ''commerce.product_save'' (pb_id b) (pb_category b)) (\<lambda>_.
     return (pb_id b))))))"

definition upper_char :: "char \<Rightarrow> char" where
  "upper_char c =
     (case map_of (zip ''abcdefghijklmnopqrstuvwxyz'' ''ABCDEFGHIJKLMNOPQRSTUVWXYZ'') c of None \<Rightarrow> c | Some d \<Rightarrow> d)"

definition price_row_of :: "string \<Rightarrow> string \<Rightarrow> price_body \<Rightarrow> int \<Rightarrow> real \<Rightarrow> price_row" where
  "price_row_of ow product b units now =
     \<lparr>pc_id = bd_id b, pc_owner = ow, pc_product = product, pc_label = bd_label b, pc_minor = bd_minor b,
      pc_currency = map upper_char (bd_currency b), pc_days = bd_days b, pc_volume = bd_volume b, pc_units = units,
      pc_ips = resolved_ip_limit b, pc_hwid = bd_hwid b, pc_inbounds = bd_inbounds b, pc_activation = bd_activation b,
      pc_delivery = bd_delivery b, pc_primary = (case bd_primary b of None \<Rightarrow> 0 | Some i \<Rightarrow> i), pc_qr = bd_qr b,
      pc_portal = bd_portal b, pc_active = bd_active b, pc_created = now, pc_updated = now\<rparr>"

definition write_price :: "price_row \<Rightarrow> shop \<Rightarrow> shop" where
  "write_price row s = s\<lparr>sh_prices := upsert (\<lambda>r. (pc_owner r, pc_id r)) row (\<lambda>r. row\<lparr>pc_created := pc_created r\<rparr>) (sh_prices s)\<rparr>"

definition price_put :: "world \<Rightarrow> actor \<Rightarrow> string \<Rightarrow> price_body \<Rightarrow> (shop, string) effect" where
  "price_put w act product b =
     ebind (require_that (\<lambda>_. price_ok b) unprocessable) (\<lambda>_.
     ebind (of_res (owner_for act None)) (\<lambda>ow.
     ebind (require_that (\<lambda>_. valid_name product \<and> valid_name (bd_id b)) (HttpError ''Invalid product/price ID'' 400)) (\<lambda>_.
     ebind (require_that (\<lambda>s. product_of ow product s \<noteq> None) (HttpError ''Product not found'' 404)) (\<lambda>_.
     ebind (require_that (\<lambda>_. \<not> (0 < bd_volume b \<and> bd_units b \<noteq> 0))
              (HttpError ''Volume price cannot also consume unlimited credit'' 400)) (\<lambda>_.
     ebind (require_that (\<lambda>_. case bd_primary b of None \<Rightarrow> True | Some i \<Rightarrow> i \<in> set (bd_inbounds b))
              (HttpError ''Primary inbound must be selected in this price'' 400)) (\<lambda>_.
     ebind (looks (\<lambda>s. if bd_volume b = 0 then unlimited_cost ow (resolved_ip_limit b) (bd_days b) s else Inr 0)) (\<lambda>units.
     ebind (transaction (\<lambda>s.
       rbind (require_plan_credit ow (bd_volume b) s) (\<lambda>_.
       Inr (write_price (price_row_of ow product b units (shop_clock w s)) s, ())))) (\<lambda>_.
     ebind (shop_audit w act ow ''commerce.price_save'' (bd_id b)
       (''product='' @ product @ ''; amount='' @ show_int (bd_minor b) @ '' '' @ bd_currency b
        @ ''; activation='' @ bd_activation b @ ''; delivery='' @ bd_delivery b)) (\<lambda>_.
     return product)))))))))"

text \<open>\<open>gateway_put\<close>; \<open>seal\<close> is the panel's cipher, of which an empty secret stays empty.\<close>

definition write_gateway :: "(string \<Rightarrow> string) \<Rightarrow> string \<Rightarrow> gateway_body \<Rightarrow> real \<Rightarrow> shop \<Rightarrow> shop" where
  "write_gateway seal ow b now s =
     (let old = lookup (\<lambda>r. (gw_owner r, gw_id r)) (ow, gb_id b) (sh_gateways s);
          secret = (case gb_secret b of Some t \<Rightarrow> if t = [] then [] else seal t
                    | None \<Rightarrow> (case old of None \<Rightarrow> [] | Some r \<Rightarrow> gw_secret r));
          row = \<lparr>gw_id = gb_id b, gw_owner = ow, gw_label = gb_label b, gw_kind = gb_kind b, gw_enabled = gb_enabled b,
                 gw_card = gb_card b, gw_holder = gb_holder b, gw_bank = gb_bank b, gw_instructions = gb_instructions b,
                 gw_plugin = gb_plugin b, gw_secret = secret, gw_updated = now\<rparr>
      in s\<lparr>sh_gateways := upsert (\<lambda>r. (gw_owner r, gw_id r)) row (\<lambda>_. row) (sh_gateways s)\<rparr>)"

definition gateway_put :: "world \<Rightarrow> (string \<Rightarrow> string) \<Rightarrow> actor \<Rightarrow> gateway_body \<Rightarrow> (shop, string) effect" where
  "gateway_put w seal act b =
     ebind (require_that (\<lambda>_. gateway_ok b) unprocessable) (\<lambda>_.
     ebind (of_res (owner_for act None)) (\<lambda>ow.
     ebind (require_that (\<lambda>_. valid_name (gb_id b)) (HttpError ''Invalid gateway ID'' 400)) (\<lambda>_.
     ebind (require_that (\<lambda>_. \<not> (gb_kind b = ''manual'' \<and> gb_card b = []))
              (HttpError ''Manual payment requires a card number'' 400)) (\<lambda>_.
     ebind (alter (\<lambda>s. write_gateway seal ow b (shop_clock w s) s)) (\<lambda>_.
     ebind (shop_audit w act ow ''commerce.gateway_save'' (gb_id b) (gb_kind b)) (\<lambda>_.
     return (gb_id b)))))))"

section \<open>The one-step plan\<close>

text \<open>\<open>int(spec.get(k) or d)\<close> with its bounds, and \<open>str(spec.get(k) or d)\<close>.\<close>

definition spec_int :: "dict \<Rightarrow> string \<Rightarrow> int \<Rightarrow> int \<Rightarrow> int \<Rightarrow> string \<Rightarrow> int res" where
  "spec_int d k v lo hi message =
     rbind (py_int (py_or (pyget d k) (PInt v))) (\<lambda>i.
     rbind (ensure (int_within lo hi i) (PolicyError message)) (\<lambda>_. Inr i))"

definition spec_text :: "world \<Rightarrow> dict \<Rightarrow> string \<Rightarrow> string \<Rightarrow> string" where
  "spec_text w d k v = py_str w (py_or (pyget d k) (PStr v))"

definition spec_flag :: "dict \<Rightarrow> string \<Rightarrow> bool \<Rightarrow> bool" where
  "spec_flag d k v = truthy (pyget_or d k (PBool v))"

definition spec_inbounds :: "dict \<Rightarrow> int list res" where
  "spec_inbounds d =
     (case py_or (pyget d ''inbound_ids'') (PList []) of
        PList xs \<Rightarrow> Inr (sort (remdups (concat (map (\<lambda>x. case x of PInt i \<Rightarrow> if 0 < i then [i] else [] | _ \<Rightarrow> []) xs))))
      | PStr _ \<Rightarrow> Inr [] | PDict _ \<Rightarrow> Inr []
      | _ \<Rightarrow> Inl (OtherError ''TypeError''))"

definition seller_inbounds :: "string \<Rightarrow> shop \<Rightarrow> int list \<Rightarrow> unit res" where
  "seller_inbounds ow s ids =
     (let known = set (map fst (pa_inbounds (sh_panel s))) in
      rbind (actor_for ow s) (\<lambda>a.
      let allowed = (case lookup pf_id ow (pa_profiles (sh_panel s)) of None \<Rightarrow> {} | Some r \<Rightarrow> set (pf_allowed r)) in
      rbind (ensure (set ids \<subseteq> known) (PolicyError ''Simple plan contains an unknown Inbound'')) (\<lambda>_.
      ensure (a_role a \<noteq> ''reseller'' \<or> set ids \<subseteq> allowed)
        (PolicyError ''Simple plan contains an Inbound outside representative scope''))))"

definition simple_volume :: "string \<Rightarrow> dict \<Rightarrow> string \<Rightarrow> int \<Rightarrow> int \<Rightarrow> shop \<Rightarrow> (int \<times> int \<times> int) res" where
  "simple_volume ow d kind ips days s =
     rbind (py_int (py_or (pyget d ''volume_gb'') (PInt 0))) (\<lambda>gb.
     if kind = ''volume''
     then rbind (ensure (int_within 1 1000000 gb) (PolicyError ''Volume plan requires a positive GB amount'')) (\<lambda>_.
          Inr (gb, gb * 1024 ^ 3, 0))
     else rbind (unlimited_cost ow ips days s) (\<lambda>units. Inr (0, 0, units)))"

text \<open>What \<open>create_simple_plan\<close> reads from its specification: the product and its price, without their ids.\<close>

definition simple_spec :: "world \<Rightarrow> string \<Rightarrow> dict \<Rightarrow> shop \<Rightarrow> (product_row \<times> price_row) res" where
  "simple_spec w ow d s =
     (let name = strip (spec_text w d ''name'' []); kind = spec_text w d ''plan_type'' ''volume''; now = shop_clock w s;
          category = take 64 (strip (spec_text w d ''category'' ''General''));
          activation = spec_text w d ''activation_mode'' ''first_connection'';
          delivery = spec_text w d ''delivery_mode'' ''subscription''; published = spec_flag d ''published'' False in
      rbind (ensure (text_within 1 128 name) (PolicyError ''Simple plan name is invalid'')) (\<lambda>_.
      rbind (ensure (kind \<in> {''volume'', ''unlimited''}) (PolicyError ''Simple plan type is invalid'')) (\<lambda>_.
      rbind (spec_int d ''price_minor'' 0 0 max_int ''Simple plan price is outside the allowed range'') (\<lambda>minor.
      rbind (spec_int d ''duration_days'' 30 1 3650 ''Simple plan duration must be between 1 and 3650 days'') (\<lambda>days.
      rbind (py_int (case pyget_or d ''ip_limit'' (PInt 1) of PNone \<Rightarrow> PInt 1 | v \<Rightarrow> v)) (\<lambda>ips.
      rbind (ensure (int_within 0 1000 ips) (PolicyError ''Simple plan IP limit must be between 0 and 1000 (0 = unlimited)'')) (\<lambda>_.
      rbind (spec_inbounds d) (\<lambda>ids.
      rbind (ensure (ids \<noteq> []) (PolicyError ''Select at least one Inbound'')) (\<lambda>_.
      rbind (seller_inbounds ow s ids) (\<lambda>_.
      rbind (simple_volume ow d kind ips days s) (\<lambda>(gb, volume, units).
      rbind (spec_int d ''sale_limit_per_user'' 0 0 100000 ''Purchase limit is outside the allowed range'') (\<lambda>limit.
      rbind (ensure (activation \<in> set activation_modes) (PolicyError ''Invalid activation mode'')) (\<lambda>_.
      rbind (ensure (delivery \<in> set delivery_modes) (PolicyError ''Invalid delivery mode'')) (\<lambda>_.
      rbind (spec_int d ''hwid_limit'' 0 0 1000 ''HWID limit is outside the allowed range'') (\<lambda>hwid.
      Inr (\<lparr>pb_id = [], pb_name = name, pb_description = take 2000 (spec_text w d ''description'' []),
             pb_category = (if category = [] then ''General'' else category), pb_kind = kind, pb_limit = limit,
             pb_renewal = spec_flag d ''renewal_enabled'' True,
             pb_add_volume = (spec_flag d ''add_volume_enabled'' True \<and> kind = ''volume''),
             pb_active = published, pb_visible = published, pr_owner = ow, pr_created = now, pr_updated = now\<rparr>,
           \<lparr>pc_id = [], pc_owner = ow, pc_product = [],
             pc_label = (if kind = ''unlimited'' then ''Unlimited'' else show_int gb @ '' GB'') @ '' / '' @ show_int days @ ''D'',
             pc_minor = minor, pc_currency = ''IRT'', pc_days = days, pc_volume = volume, pc_units = units, pc_ips = ips,
             pc_hwid = hwid, pc_inbounds = ids, pc_activation = activation, pc_delivery = delivery, pc_primary = hd ids,
             pc_qr = spec_flag d ''show_qr'' True, pc_portal = spec_flag d ''show_portal'' True, pc_active = published,
             pc_created = now, pc_updated = now\<rparr>))))))))))))))))"

definition insert_plan :: "string \<Rightarrow> string \<Rightarrow> string \<Rightarrow> product_row \<Rightarrow> price_row \<Rightarrow> shop \<Rightarrow> (shop \<times> unit) res" where
  "insert_plan ow product price x r s =
     rbind (require_plan_credit ow (pc_volume r) s) (\<lambda>_.
     rbind (insert_pk (\<lambda>r. (pr_owner r, pb_id r)) (x\<lparr>pb_id := product\<rparr>) (sh_products s)) (\<lambda>products.
     rbind (insert_pk (\<lambda>r. (pc_owner r, pc_id r)) (r\<lparr>pc_id := price, pc_product := product\<rparr>) (sh_prices s)) (\<lambda>prices.
     Inr (s\<lparr>sh_products := products, sh_prices := prices\<rparr>, ()))))"

definition create_simple_plan :: "world \<Rightarrow> string \<Rightarrow> dict \<Rightarrow> (shop, string \<times> string) effect" where
  "create_simple_plan w ow d =
     ebind (looks (simple_spec w ow d)) (\<lambda>(x, r).
     ebind (new_id w ''p'') (\<lambda>product.
     ebind (new_id w ''v'') (\<lambda>price.
     ebind (transaction (insert_plan ow product price x r)) (\<lambda>_.
     return (product, price)))))"

section \<open>Orders\<close>

definition dead_order :: "order_row \<Rightarrow> bool" where
  "dead_order r \<longleftrightarrow> od_status r \<in> {''payment_rejected'', ''cancelled''}"

text \<open>The orders that count against the limit of a buyer.\<close>

definition sold :: "string \<Rightarrow> int \<Rightarrow> string \<Rightarrow> shop \<Rightarrow> nat" where
  "sold ow buyer product s =
     length (filter (\<lambda>r. od_owner r = ow \<and> od_buyer r = buyer \<and> od_product r = product \<and> \<not> dead_order r) (sh_orders s))"

definition order_inbounds :: "price_row \<Rightarrow> int option \<Rightarrow> (int list \<times> int) res" where
  "order_inbounds r selected =
     rbind (ensure (pc_primary r = 0 \<or> pc_primary r \<in> set (pc_inbounds r))
              (PolicyError ''Primary inbound must be included in the plan'')) (\<lambda>_.
     case selected of
       None \<Rightarrow> Inr (pc_inbounds r, pc_primary r)
     | Some i \<Rightarrow> rbind (ensure (i \<in> set (pc_inbounds r)) (PolicyError ''Selected server is outside this plan'')) (\<lambda>_. Inr ([i], i)))"

definition new_order :: "string \<Rightarrow> string \<Rightarrow> int \<Rightarrow> string \<Rightarrow> price_row \<Rightarrow> int list \<Rightarrow> int \<Rightarrow> real \<Rightarrow> order_row" where
  "new_order oid ow buyer username r ids primary now =
     \<lparr>od_id = oid, od_owner = ow, od_buyer = buyer, od_username = take 128 username, od_product = pc_product r, od_price = pc_id r,
      od_amount = pc_minor r, od_currency = pc_currency r, od_status = ''pending'', od_gateway = [], od_ref = [], od_client = [],
      od_error = [], od_volume = pc_volume r, od_days = pc_days r, od_ips = pc_ips r, od_hwid = pc_hwid r, od_inbounds = ids,
      od_activation = pc_activation r, od_delivery = pc_delivery r, od_primary = primary, od_qr = pc_qr r, od_portal = pc_portal r,
      od_started = 0, od_expires = 0, od_type = ''purchase'', od_target = [], od_target_expiry = 0, od_created = now, od_updated = now\<rparr>"

definition insert_order ::
  "world \<Rightarrow> string \<Rightarrow> string \<Rightarrow> int \<Rightarrow> string \<Rightarrow> string \<Rightarrow> string \<Rightarrow> int option \<Rightarrow> shop \<Rightarrow> (shop \<times> order_row) res" where
  "insert_order w oid ow buyer username product price selected s =
     (case price_of ow product price s of
        None \<Rightarrow> bad ''Product price not found''
      | Some (r, x) \<Rightarrow>
     rbind (require_plan_credit ow (pc_volume r) s) (\<lambda>_.
     rbind (ensure (pc_active r \<and> pb_active x \<and> pb_visible x) (PolicyError ''Product is not available'')) (\<lambda>_.
     rbind (ensure (pb_limit x = 0 \<or> int (sold ow buyer product s) < pb_limit x)
              (PolicyError ''Purchase limit reached for this product'')) (\<lambda>_.
     rbind (order_inbounds r selected) (\<lambda>(ids, primary).
     let row = new_order oid ow buyer username r ids primary (shop_clock w s) in
     rbind (insert_pk od_id row (sh_orders s)) (\<lambda>rows. Inr (s\<lparr>sh_orders := rows\<rparr>, row)))))))"

definition create_order ::
  "world \<Rightarrow> string \<Rightarrow> int \<Rightarrow> string \<Rightarrow> string \<Rightarrow> string \<Rightarrow> int option \<Rightarrow> (shop, order_row) effect" where
  "create_order w ow buyer username product price selected =
     ebind (new_id w ''ord'') (\<lambda>oid. transaction (insert_order w oid ow buyer username product price selected))"

text \<open>\<open>order\<close>; an empty owner is none.\<close>

definition find_order :: "string \<Rightarrow> string option \<Rightarrow> shop \<Rightarrow> order_row res" where
  "find_order oid ow s =
     (case lookup od_id oid (sh_orders s) of
        None \<Rightarrow> bad ''Order not found''
      | Some r \<Rightarrow> if (case ow of Some x \<Rightarrow> x \<noteq> [] \<and> x \<noteq> od_owner r | None \<Rightarrow> False) then bad ''Order not found'' else Inr r)"

text \<open>\<open>SELECT * FROM commerce_orders WHERE id=? AND owner=?\<close>.\<close>

definition owned_order :: "string \<Rightarrow> string \<Rightarrow> shop \<Rightarrow> order_row res" where
  "owned_order ow oid s =
     (case lookup od_id oid (sh_orders s) of
        None \<Rightarrow> bad ''Order not found'' | Some r \<Rightarrow> if od_owner r = ow then Inr r else bad ''Order not found'')"

definition set_order :: "string \<Rightarrow> (order_row \<Rightarrow> order_row) \<Rightarrow> shop \<Rightarrow> shop" where
  "set_order oid f s = s\<lparr>sh_orders := modify od_id oid f (sh_orders s)\<rparr>"

definition set_payment :: "string \<Rightarrow> (payment_row \<Rightarrow> payment_row) \<Rightarrow> shop \<Rightarrow> shop" where
  "set_payment pid f s = s\<lparr>sh_payments := modify pm_id pid f (sh_payments s)\<rparr>"

section \<open>Payments\<close>

text \<open>
  \<open>start_payment\<close>. The link to a hosted checkout is made after the commit, from the stored order, and
  is not part of the model.
\<close>

definition begin_payment :: "world \<Rightarrow> string \<Rightarrow> string \<Rightarrow> string \<Rightarrow> string \<Rightarrow> shop \<Rightarrow> (shop \<times> string) res" where
  "begin_payment w pid ow oid gateway s =
     rbind (owned_order ow oid s) (\<lambda>r.
     rbind (require_plan_credit ow (od_volume r) s) (\<lambda>_.
     rbind (ensure (od_status r \<in> {''pending'', ''awaiting_payment'', ''payment_rejected''})
              (PolicyError ''Order cannot enter payment from current state'')) (\<lambda>_.
     rbind (ensure (case lookup (\<lambda>g. (gw_owner g, gw_id g)) (ow, gateway) (sh_gateways s) of None \<Rightarrow> False | Some g \<Rightarrow> gw_enabled g)
              (PolicyError ''Payment gateway not found or disabled'')) (\<lambda>_.
     let now = shop_clock w s;
         s1 = set_order oid (\<lambda>x. x\<lparr>od_status := ''awaiting_payment'', od_gateway := gateway, od_ref := [], od_updated := now\<rparr>) s;
         row = \<lparr>pm_id = pid, pm_order = oid, pm_owner = ow, pm_gateway = gateway, pm_amount = od_amount r,
                pm_currency = od_currency r, pm_status = ''pending'', pm_ref = [], pm_created = now, pm_updated = now\<rparr>
     in rbind (insert_pk pm_id row (sh_payments s1)) (\<lambda>rows. Inr (s1\<lparr>sh_payments := rows\<rparr>, pid))))))"

definition start_payment :: "world \<Rightarrow> string \<Rightarrow> string \<Rightarrow> string \<Rightarrow> (shop, string) effect" where
  "start_payment w ow oid gateway =
     ebind (new_id w ''pay'') (\<lambda>pid. transaction (begin_payment w pid ow oid gateway))"

text \<open>\<open>ORDER BY created_at DESC LIMIT 1\<close>: the newest row; of rows of the same time the last one.\<close>

fun newest :: "('r \<Rightarrow> real) \<Rightarrow> 'r list \<Rightarrow> 'r option" where
  "newest t [] = None"
| "newest t (r # rs) = (case newest t rs of None \<Rightarrow> Some r | Some x \<Rightarrow> if t x < t r then Some r else Some x)"

definition latest_waiting_order :: "string \<Rightarrow> int \<Rightarrow> shop \<Rightarrow> order_row option" where
  "latest_waiting_order ow buyer s =
     newest od_created (filter (\<lambda>r. od_owner r = ow \<and> od_buyer r = buyer \<and> od_status r = ''awaiting_payment'') (sh_orders s))"

definition record_receipt :: "world \<Rightarrow> string \<Rightarrow> int \<Rightarrow> string \<Rightarrow> (shop, string) effect" where
  "record_receipt w ow buyer reference =
     ebind (looks (\<lambda>s. case latest_waiting_order ow buyer s of
        None \<Rightarrow> bad ''No order is waiting for a payment receipt'' | Some r \<Rightarrow> Inr r)) (\<lambda>r.
     ebind (transaction (\<lambda>s.
       case newest pm_created (filter (\<lambda>x. pm_order x = od_id r \<and> pm_owner x = ow) (sh_payments s)) of
         None \<Rightarrow> bad ''Payment record not found''
       | Some x \<Rightarrow>
           let now = shop_clock w s
           in Inr (set_order (od_id r) (\<lambda>y. y\<lparr>od_status := ''payment_review'', od_ref := take 1024 reference, od_updated := now\<rparr>)
                (set_payment (pm_id x) (\<lambda>y. y\<lparr>pm_status := ''review'', pm_ref := take 1024 reference, pm_updated := now\<rparr>) s), ()))) (\<lambda>_.
     return (od_id r)))"

definition payment_by_rowid :: "string \<Rightarrow> int \<Rightarrow> shop \<Rightarrow> payment_row res" where
  "payment_by_rowid ow row s =
     (if 1 \<le> row \<and> row \<le> int (length (sh_payments s)) \<and> pm_owner (sh_payments s ! nat (row - 1)) = ow
      then Inr (sh_payments s ! nat (row - 1)) else bad ''Payment not found'')"

definition reject_payment :: "world \<Rightarrow> string \<Rightarrow> int \<Rightarrow> (shop, string) effect" where
  "reject_payment w ow row =
     ebind (looks (payment_by_rowid ow row)) (\<lambda>x.
     ebind (alter (\<lambda>s.
       let now = shop_clock w s
       in set_order (pm_order x) (\<lambda>y. y\<lparr>od_status := ''payment_rejected'', od_updated := now\<rparr>)
            (set_payment (pm_id x) (\<lambda>y. y\<lparr>pm_status := ''rejected'', pm_updated := now\<rparr>) s))) (\<lambda>_.
     ebind (looks (find_order (pm_order x) (Some ow))) (\<lambda>_. return (pm_order x))))"

section \<open>Delivery\<close>

definition order_identity :: "profile_row \<Rightarrow> order_row \<Rightarrow> string" where
  "order_identity pf r = lower (pf_prefix pf @ ''tg'' @ show_int (od_buyer r) @ ''_'' @ drop (length (od_id r) - 8) (od_id r))"

definition order_comment :: "order_row \<Rightarrow> string" where
  "order_comment r = ''DARK BOT order '' @ od_id r"

definition order_days :: "order_row \<Rightarrow> int" where
  "order_days r = max 1 (if od_days r = 0 then 1 else od_days r)"

definition waits :: "order_row \<Rightarrow> bool" where
  "waits r \<longleftrightarrow> od_activation r = ''first_connection''"

definition order_expiry :: "order_row \<Rightarrow> real \<Rightarrow> int" where
  "order_expiry r now = (if waits r then 0 else \<lfloor>(now + of_int (order_days r * 86400)) * 1000\<rfloor>)"

definition order_client :: "string \<Rightarrow> order_row \<Rightarrow> real \<Rightarrow> dict" where
  "order_client c r now =
     [(''email'', PStr c), (''totalGB'', PInt (od_volume r)), (''expiryTime'', PInt (order_expiry r now)),
      (''limitIp'', PInt (od_ips r)), (''limitHwid'', PInt (od_hwid r)), (''tgId'', PInt (od_buyer r)), (''enable'', PBool True),
      (''comment'', PStr (order_comment r))]"

text \<open>\<open>manager.detail\<close>: its access check and the client it shows.\<close>

definition client_view :: "actor \<Rightarrow> string \<Rightarrow> panel \<Rightarrow> dict res" where
  "client_view act c p =
     rbind (own_row act c ''read'' p) (\<lambda>_.
     rbind (get_meta c p) (\<lambda>m.
     rbind (wish m) (\<lambda>d.
     Inr (case map_of (pa_snapshot p) c of
            Some e \<Rightarrow> if e \<noteq> [] \<and> mc_op m = ''none'' then writable e else d
          | None \<Rightarrow> d))))"

definition seen_by :: "actor \<Rightarrow> string \<Rightarrow> panel \<Rightarrow> unit res" where
  "seen_by act c p = rbind (client_view act c p) (\<lambda>_. Inr ())"

definition existing_service :: "string \<Rightarrow> panel \<Rightarrow> (string \<times> dict) option res" where
  "existing_service c p =
     (case (managed_of c p, client_of c (store_of p)) of
        (Some m, Some u) \<Rightarrow> rbind (wish m) (\<lambda>d. Inr (Some (cl_owner u, d)))
      | _ \<Rightarrow> Inr None)"

text \<open>A service that already carries the order's mark is the one a crashed delivery left behind.\<close>

definition deliver_order :: "world \<Rightarrow> actor \<Rightarrow> string \<Rightarrow> order_row \<Rightarrow> real \<Rightarrow> (panel, unit) effect" where
  "deliver_order w act c r now =
     ebind (inspects (existing_service c)) (\<lambda>found.
     ebind (case found of
              Some (ow, d) \<Rightarrow>
                if ow \<noteq> od_owner r \<or> pyget d ''comment'' \<noteq> PStr (order_comment r)
                then raise (PolicyError ''Order identity conflicts with an existing service'')
                else reconcile_client w c
            | None \<Rightarrow>
                ebind (create_client w act (od_owner r) (PDict (order_client c r now)) (map PInt (od_inbounds r)) (PInt (order_days r)))
                  (\<lambda>_. return ())) (\<lambda>_.
     inspects (seen_by act c)))"

definition note_fulfillment_error :: "world \<Rightarrow> string \<Rightarrow> err \<Rightarrow> shop \<Rightarrow> shop" where
  "note_fulfillment_error w oid ex s =
     set_order oid (\<lambda>x. x\<lparr>od_error := take 1000 (err_message ex), od_updated := shop_clock w s\<rparr>) s"

definition finish_order :: "world \<Rightarrow> string \<Rightarrow> string \<Rightarrow> order_row \<Rightarrow> real \<Rightarrow> shop \<Rightarrow> shop" where
  "finish_order w oid c r now s =
     set_order oid (\<lambda>x. x\<lparr>od_status := (if waits r then ''provisioned_waiting_activation'' else ''provisioned''),
       od_client := c, od_error := [], od_started := (if waits r then 0 else now),
       od_expires := (if waits r then 0 else now + of_int (order_days r * 86400)), od_updated := shop_clock w s\<rparr>) s"

text \<open>\<open>provision_order\<close>: the client of the order.\<close>

definition provision_order :: "world \<Rightarrow> string \<Rightarrow> (shop, string) effect" where
  "provision_order w oid =
     ebind (looks (find_order oid None)) (\<lambda>r.
     ebind (looks (actor_for (od_owner r))) (\<lambda>act.
     if od_client r \<noteq> []
     then ebind (on_panel (inspects (seen_by act (od_client r)))) (\<lambda>_. return (od_client r))
     else
       ebind (looks (\<lambda>s. profile_of (od_owner r) (sh_panel s))) (\<lambda>pf.
       ebind (peek (shop_clock w)) (\<lambda>now.
       let c = order_identity pf r in
       ebind (catch (on_panel (deliver_order w act c r now)) (\<lambda>ex. ebind (alter (note_fulfillment_error w oid ex)) (\<lambda>_. raise ex))) (\<lambda>_.
       ebind (alter (finish_order w oid c r now)) (\<lambda>_. return c))))))"

text \<open>\<open>confirm_payment\<close>: the payment stays confirmed when the delivery fails.\<close>

definition pay_order :: "string \<Rightarrow> string \<Rightarrow> real \<Rightarrow> shop \<Rightarrow> shop" where
  "pay_order oid reference now s =
     (let s1 = set_order oid (\<lambda>x. x\<lparr>od_status := ''paid'', od_ref := take 256 reference, od_updated := now\<rparr>) s in
      case newest pm_created (filter (\<lambda>x. pm_order x = oid) (sh_payments s1)) of
        None \<Rightarrow> s1
      | Some x \<Rightarrow> set_payment (pm_id x) (\<lambda>y. if pm_status y = ''paid'' then y
                    else y\<lparr>pm_status := ''paid'', pm_ref := take 1024 reference, pm_updated := now\<rparr>) s1)"

definition confirm_payment :: "world \<Rightarrow> string \<Rightarrow> string \<Rightarrow> string \<Rightarrow> (shop, string option) effect" where
  "confirm_payment w ow oid reference =
     ebind (looks (find_order oid (Some ow))) (\<lambda>r.
     ebind (require_that (\<lambda>_. od_status r \<in> {''awaiting_payment'', ''payment_review'', ''paid''})
              (PolicyError ''Order is not awaiting payment confirmation'')) (\<lambda>_.
     ebind (alter (\<lambda>s. pay_order oid reference (shop_clock w s) s)) (\<lambda>_.
     catch (ebind (provision_order w oid) (\<lambda>c. return (Some c))) (\<lambda>_. return None))))"

definition approve_payment :: "world \<Rightarrow> string \<Rightarrow> int \<Rightarrow> (shop, string option) effect" where
  "approve_payment w ow row =
     ebind (looks (payment_by_rowid ow row)) (\<lambda>x.
     confirm_payment w ow (pm_order x) (if pm_ref x \<noteq> [] then pm_ref x else pm_id x))"

end
