(* ===== verification/Wallet.thy ===== *)
theory Wallet
  imports Commerce
begin

text \<open>
  The customer centre of a bot (backend/telegram_customer.py, class \<open>CustomerCenter\<close>): wallets with
  their ledger, top-ups, purchases and renewals paid from the wallet, referrals and support tickets.
  The state is the shop together with the centre's tables; \<open>rowid\<close> of a row is its place in the table,
  which never loses a row. A random identity is drawn before the transaction that stores it. The
  checkout of a contact link (\<open>set_support_contact\<close>) and the lists shown to the customer are not part of
  the model.
\<close>

section \<open>Wallets\<close>

record wallet_row =
  wl_owner :: string
  wl_user :: int
  wl_currency :: string
  wl_balance :: int
  wl_updated :: real

record entry_row =
  wt_id :: string
  wt_owner :: string
  wt_user :: int
  wt_delta :: int
  wt_currency :: string
  wt_kind :: string
  wt_ref :: string
  wt_detail :: string
  wt_created :: real

record till =
  tl_wallets :: "wallet_row list"
  tl_ledger :: "entry_row list"

definition wallet_currency :: string where
  "wallet_currency = ''IRT''"

definition wallet_key :: "wallet_row \<Rightarrow> string \<times> int" where
  "wallet_key r = (wl_owner r, wl_user r)"

definition entry_key :: "entry_row \<Rightarrow> string \<times> string \<times> string" where
  "entry_key e = (wt_owner e, wt_kind e, wt_ref e)"

definition entered :: "string \<Rightarrow> string \<Rightarrow> string \<Rightarrow> till \<Rightarrow> bool" where
  "entered ow kind ref t = has_key entry_key (ow, kind, ref) (tl_ledger t)"

definition balance :: "string \<Rightarrow> int \<Rightarrow> till \<Rightarrow> int" where
  "balance ow user t = (case lookup wallet_key (ow, user) (tl_wallets t) of None \<Rightarrow> 0 | Some r \<Rightarrow> wl_balance r)"

definition wallet_entry :: "string \<Rightarrow> real \<Rightarrow> string \<Rightarrow> int \<Rightarrow> int \<Rightarrow> string \<Rightarrow> string \<Rightarrow> string \<Rightarrow> entry_row" where
  "wallet_entry wid now ow user moved kind ref detail =
     \<lparr>wt_id = wid, wt_owner = ow, wt_user = user, wt_delta = moved, wt_currency = wallet_currency, wt_kind = kind,
      wt_ref = ref, wt_detail = take 1000 detail, wt_created = now\<rparr>"

text \<open>The balance and the ledger move together.\<close>

definition book :: "string \<Rightarrow> real \<Rightarrow> string \<Rightarrow> int \<Rightarrow> int \<Rightarrow> string \<Rightarrow> string \<Rightarrow> string \<Rightarrow> till \<Rightarrow> till res" where
  "book wid now ow user moved kind ref detail t =
     rbind (insert_pk wt_id (wallet_entry wid now ow user moved kind ref detail) (tl_ledger t)) (\<lambda>rows.
     Inr (t\<lparr>tl_wallets := upsert wallet_key
               \<lparr>wl_owner = ow, wl_user = user, wl_currency = wallet_currency, wl_balance = moved, wl_updated = now\<rparr>
               (\<lambda>r. r\<lparr>wl_balance := wl_balance r + moved, wl_updated := now\<rparr>) (tl_wallets t),
            tl_ledger := rows\<rparr>))"

text \<open>\<open>_credit_tx\<close> and \<open>_debit_tx\<close>: an entry of the same kind and reference is booked once.\<close>

definition credit_tx ::
  "string \<Rightarrow> real \<Rightarrow> string \<Rightarrow> int \<Rightarrow> int \<Rightarrow> string \<Rightarrow> string \<Rightarrow> string \<Rightarrow> till \<Rightarrow> (till \<times> bool) res" where
  "credit_tx wid now ow user amount kind ref detail t =
     rbind (ensure (0 < amount) (PolicyError ''Wallet credit must be positive'')) (\<lambda>_.
     if entered ow kind ref t then Inr (t, False)
     else rbind (book wid now ow user amount kind ref detail t) (\<lambda>t. Inr (t, True)))"

definition debit_tx ::
  "string \<Rightarrow> real \<Rightarrow> string \<Rightarrow> int \<Rightarrow> int \<Rightarrow> string \<Rightarrow> string \<Rightarrow> string \<Rightarrow> till \<Rightarrow> (till \<times> bool) res" where
  "debit_tx wid now ow user amount kind ref detail t =
     rbind (ensure (0 \<le> amount) (PolicyError ''Wallet debit is invalid'')) (\<lambda>_.
     if entered ow kind ref t then Inr (t, False)
     else rbind (ensure (amount \<le> balance ow user t) (PolicyError ''Insufficient wallet balance'')) (\<lambda>_.
          rbind (book wid now ow user (- amount) kind ref detail t) (\<lambda>t. Inr (t, True))))"

section \<open>State\<close>

record topup_row =
  tu_id :: string
  tu_owner :: string
  tu_user :: int
  tu_username :: string
  tu_amount :: int
  tu_currency :: string
  tu_status :: string
  tu_receipt :: string
  tu_created :: real
  tu_updated :: real

record referral_row =
  rf_owner :: string
  rf_user :: int
  rf_code :: string
  rf_referrer :: int
  rf_at :: real
  rf_qualified :: real
  rf_reward :: int

record centre_settings =
  cs_owner :: string
  cs_currency :: string
  cs_reward :: int
  cs_support :: bool
  cs_url :: string
  cs_updated :: real

record ticket_row =
  tk_id :: string
  tk_owner :: string
  tk_user :: int
  tk_username :: string
  tk_subject :: string
  tk_status :: string
  tk_created :: real
  tk_updated :: real

record message_row =
  ms_id :: string
  ms_ticket :: string
  ms_owner :: string
  ms_sender :: string
  ms_user :: int
  ms_text :: string
  ms_file_kind :: string
  ms_file :: string
  ms_created :: real

record centre =
  cu_shop :: shop
  cu_till :: till
  cu_topups :: "topup_row list"
  cu_referrals :: "referral_row list"
  cu_settings :: "centre_settings list"
  cu_tickets :: "ticket_row list"
  cu_messages :: "message_row list"

definition on_shop :: "(shop, 'a) effect \<Rightarrow> (centre, 'a) effect" where
  "on_shop m = on_part cu_shop (\<lambda>x s. s\<lparr>cu_shop := x\<rparr>) m"

definition centre_clock :: "world \<Rightarrow> centre \<Rightarrow> real" where
  "centre_clock w s = shop_clock w (cu_shop s)"

definition centre_id :: "world \<Rightarrow> string \<Rightarrow> (centre, string) effect" where
  "centre_id w pre = on_shop (new_id w pre)"

definition set_till :: "till \<Rightarrow> centre \<Rightarrow> centre" where
  "set_till t s = s\<lparr>cu_till := t\<rparr>"

section \<open>Settings\<close>

definition settings_of :: "string \<Rightarrow> centre \<Rightarrow> centre_settings option" where
  "settings_of ow s = lookup cs_owner ow (cu_settings s)"

definition ensure_settings :: "world \<Rightarrow> string \<Rightarrow> centre \<Rightarrow> centre" where
  "ensure_settings w ow s =
     s\<lparr>cu_settings := insert_or_ignore cs_owner
         \<lparr>cs_owner = ow, cs_currency = wallet_currency, cs_reward = 0, cs_support = True, cs_url = [],
          cs_updated = centre_clock w s\<rparr> (cu_settings s)\<rparr>"

definition set_referral_reward :: "world \<Rightarrow> string \<Rightarrow> int \<Rightarrow> (centre, unit) effect" where
  "set_referral_reward w ow amount =
     ebind (require_that (\<lambda>_. int_within 0 (10 ^ 12) amount) (PolicyError ''Referral reward is outside the allowed range'')) (\<lambda>_.
     ebind (alter (ensure_settings w ow)) (\<lambda>_.
     ebind (alter (\<lambda>s. s\<lparr>cu_settings := modify cs_owner ow
       (\<lambda>r. r\<lparr>cs_reward := amount, cs_updated := centre_clock w s\<rparr>) (cu_settings s)\<rparr>)) (\<lambda>_.
     alter (ensure_settings w ow))))"

definition wallet :: "world \<Rightarrow> string \<Rightarrow> int \<Rightarrow> (centre, unit) effect" where
  "wallet w ow user = alter (\<lambda>s. set_till ((cu_till s)\<lparr>tl_wallets := insert_or_ignore wallet_key
     \<lparr>wl_owner = ow, wl_user = user, wl_currency = wallet_currency, wl_balance = 0, wl_updated = centre_clock w s\<rparr>
     (tl_wallets (cu_till s))\<rparr>) s)"

definition clamp_limit :: "int \<Rightarrow> nat" where
  "clamp_limit n = nat (max 1 (min n 100))"

definition wallet_ledger :: "string \<Rightarrow> int \<Rightarrow> int \<Rightarrow> centre \<Rightarrow> entry_row list" where
  "wallet_ledger ow user n s =
     take (clamp_limit n) (sort_key (\<lambda>e. - wt_created e)
       (filter (\<lambda>e. wt_owner e = ow \<and> wt_user e = user) (tl_ledger (cu_till s))))"

section \<open>Top-ups\<close>

definition set_topup :: "string \<Rightarrow> (topup_row \<Rightarrow> topup_row) \<Rightarrow> centre \<Rightarrow> centre" where
  "set_topup k f s = s\<lparr>cu_topups := modify tu_id k f (cu_topups s)\<rparr>"

definition insert_topup :: "world \<Rightarrow> string \<Rightarrow> string \<Rightarrow> int \<Rightarrow> string \<Rightarrow> int \<Rightarrow> centre \<Rightarrow> (centre \<times> unit) res" where
  "insert_topup w k ow user username amount s =
     rbind (insert_pk tu_id \<lparr>tu_id = k, tu_owner = ow, tu_user = user, tu_username = take 128 username, tu_amount = amount,
              tu_currency = wallet_currency, tu_status = ''awaiting_receipt'', tu_receipt = [], tu_created = centre_clock w s,
              tu_updated = centre_clock w s\<rparr> (cu_topups s)) (\<lambda>rows. Inr (s\<lparr>cu_topups := rows\<rparr>, ()))"

definition create_topup :: "world \<Rightarrow> string \<Rightarrow> int \<Rightarrow> string \<Rightarrow> int \<Rightarrow> (centre, string) effect" where
  "create_topup w ow user username amount =
     ebind (require_that (\<lambda>_. int_within 1000 (10 ^ 12) amount) (PolicyError ''Top-up amount is outside the allowed range'')) (\<lambda>_.
     ebind (centre_id w ''top'') (\<lambda>k.
     ebind (transaction (insert_topup w k ow user username amount)) (\<lambda>_. return k)))"

definition latest_waiting_topup :: "string \<Rightarrow> int \<Rightarrow> centre \<Rightarrow> topup_row option" where
  "latest_waiting_topup ow user s =
     newest tu_created (filter (\<lambda>r. tu_owner r = ow \<and> tu_user r = user \<and> tu_status r = ''awaiting_receipt'') (cu_topups s))"

definition record_topup_receipt :: "world \<Rightarrow> string \<Rightarrow> int \<Rightarrow> string \<Rightarrow> (centre, string) effect" where
  "record_topup_receipt w ow user ref =
     ebind (looks (\<lambda>s. case latest_waiting_topup ow user s of
        None \<Rightarrow> bad ''No wallet top-up is waiting for a receipt'' | Some r \<Rightarrow> Inr r)) (\<lambda>r.
     ebind (alter (\<lambda>s. set_topup (tu_id r)
       (\<lambda>x. x\<lparr>tu_status := ''review'', tu_receipt := take 1024 ref, tu_updated := centre_clock w s\<rparr>) s)) (\<lambda>_.
     return (tu_id r)))"

definition topup_by_rowid :: "string \<Rightarrow> int \<Rightarrow> centre \<Rightarrow> topup_row res" where
  "topup_by_rowid ow row s =
     (if 1 \<le> row \<and> row \<le> int (length (cu_topups s)) \<and> tu_owner (cu_topups s ! nat (row - 1)) = ow
      then Inr (cu_topups s ! nat (row - 1)) else bad ''Wallet top-up not found'')"

definition credit_topup :: "world \<Rightarrow> string \<Rightarrow> string \<Rightarrow> int \<Rightarrow> centre \<Rightarrow> (centre \<times> string) res" where
  "credit_topup w wid ow row s =
     rbind (topup_by_rowid ow row s) (\<lambda>r.
     if tu_status r = ''approved'' then Inr (s, tu_id r)
     else rbind (ensure (tu_status r = ''review'') (PolicyError ''Top-up is not awaiting approval'')) (\<lambda>_.
          rbind (credit_tx wid (centre_clock w s) ow (tu_user r) (tu_amount r) ''topup'' (tu_id r) ''manual receipt approved'' (cu_till s))
            (\<lambda>(t, _). Inr (set_topup (tu_id r) (\<lambda>x. x\<lparr>tu_status := ''approved'', tu_updated := centre_clock w s\<rparr>) (set_till t s),
               tu_id r))))"

definition approve_topup :: "world \<Rightarrow> string \<Rightarrow> int \<Rightarrow> (centre, string) effect" where
  "approve_topup w ow row = ebind (centre_id w ''wlt'') (\<lambda>wid. transaction (credit_topup w wid ow row))"

definition reject_topup :: "world \<Rightarrow> string \<Rightarrow> int \<Rightarrow> (centre, string) effect" where
  "reject_topup w ow row =
     ebind (looks (topup_by_rowid ow row)) (\<lambda>r.
     ebind (require_that (\<lambda>_. tu_status r \<in> {''review'', ''awaiting_receipt''}) (PolicyError ''Top-up cannot be rejected'')) (\<lambda>_.
     ebind (alter (\<lambda>s. set_topup (tu_id r) (\<lambda>x. x\<lparr>tu_status := ''rejected'', tu_updated := centre_clock w s\<rparr>) s)) (\<lambda>_.
     return (tu_id r))))"

section \<open>Referrals\<close>

definition referral_of :: "string \<Rightarrow> int \<Rightarrow> centre \<Rightarrow> referral_row option" where
  "referral_of ow user s = lookup (\<lambda>r. (rf_owner r, rf_user r)) (ow, user) (cu_referrals s)"

text \<open>
  \<open>token_urlsafe(6).replace('-','').replace('_','')[:10]\<close>, drawn again while another customer of the
  bot has the code. Each draw is one answer of the outside world; the fuel bounds the draws.
\<close>

definition referral_code :: "string \<Rightarrow> string" where
  "referral_code t = take 10 (filter (\<lambda>c. c \<noteq> CHR ''-'' \<and> c \<noteq> CHR ''_'') t)"

definition code_taken :: "string \<Rightarrow> string \<Rightarrow> centre \<Rightarrow> bool" where
  "code_taken ow code s = has_key (\<lambda>r. (rf_owner r, rf_code r)) (ow, code) (cu_referrals s)"

fun draw_code :: "nat \<Rightarrow> world \<Rightarrow> string \<Rightarrow> (centre, string) effect" where
  "draw_code 0 w ow = raise (OtherError ''every drawn code is taken'')"
| "draw_code (Suc n) w ow =
     ebind (on_shop (on_panel (fresh_token w))) (\<lambda>t.
     ebind (peek (code_taken ow (referral_code t))) (\<lambda>taken.
     if taken then draw_code n w ow else return (referral_code t)))"

definition ensure_referral_profile :: "nat \<Rightarrow> world \<Rightarrow> string \<Rightarrow> int \<Rightarrow> (centre, unit) effect" where
  "ensure_referral_profile fuel w ow user =
     ebind (peek (referral_of ow user)) (\<lambda>known.
     if known \<noteq> None then return ()
     else ebind (draw_code fuel w ow) (\<lambda>code.
          alter (\<lambda>s. s\<lparr>cu_referrals := cu_referrals s @ [\<lparr>rf_owner = ow, rf_user = user, rf_code = code, rf_referrer = 0,
            rf_at = 0, rf_qualified = 0, rf_reward = 0\<rparr>]\<rparr>)))"

definition set_referral :: "string \<Rightarrow> int \<Rightarrow> (referral_row \<Rightarrow> referral_row) \<Rightarrow> centre \<Rightarrow> centre" where
  "set_referral ow user f s = s\<lparr>cu_referrals := modify (\<lambda>r. (rf_owner r, rf_user r)) (ow, user) f (cu_referrals s)\<rparr>"

definition refer :: "world \<Rightarrow> string \<Rightarrow> int \<Rightarrow> string \<Rightarrow> centre \<Rightarrow> (centre \<times> bool) res" where
  "refer w ow user code s =
     (case referral_of ow user s of
        None \<Rightarrow> Inl (OtherError ''TypeError'')
      | Some me \<Rightarrow>
          if rf_referrer me \<noteq> 0 then Inr (s, False)
          else case lookup (\<lambda>r. (rf_owner r, rf_code r)) (ow, code) (cu_referrals s) of
              None \<Rightarrow> Inr (s, False)
            | Some r \<Rightarrow>
                if rf_user r = user then Inr (s, False)
                else Inr (set_referral ow user (\<lambda>x. x\<lparr>rf_referrer := rf_user r, rf_at := centre_clock w s\<rparr>) s, True))"

definition register_referral :: "nat \<Rightarrow> world \<Rightarrow> string \<Rightarrow> int \<Rightarrow> string \<Rightarrow> (centre, bool) effect" where
  "register_referral fuel w ow user code =
     ebind (ensure_referral_profile fuel w ow user) (\<lambda>_. transaction (refer w ow user code))"

definition reward_referral :: "world \<Rightarrow> string \<Rightarrow> int \<Rightarrow> string \<Rightarrow> int \<Rightarrow> centre \<Rightarrow> (centre \<times> bool) res" where
  "reward_referral w wid reward ow user s =
     (case referral_of ow user s of
        None \<Rightarrow> Inr (s, False)
      | Some r \<Rightarrow>
          if rf_referrer r = 0 \<or> 0 < rf_qualified r then Inr (s, False)
          else rbind (if 0 < reward
                      then credit_tx wid (centre_clock w s) ow (rf_referrer r) reward ''referral'' (''ref:'' @ show_int user)
                             ''first successful purchase'' (cu_till s)
                      else Inr (cu_till s, False)) (\<lambda>(t, _).
               Inr (set_referral ow user (\<lambda>x. x\<lparr>rf_qualified := centre_clock w s, rf_reward := reward\<rparr>) (set_till t s), True)))"

definition qualify_referral :: "world \<Rightarrow> string \<Rightarrow> int \<Rightarrow> (centre, bool) effect" where
  "qualify_referral w ow user =
     ebind (alter (ensure_settings w ow)) (\<lambda>_.
     ebind (peek (settings_of ow)) (\<lambda>c.
     ebind (centre_id w ''wlt'') (\<lambda>wid.
     transaction (\<lambda>s. reward_referral w wid (case c of None \<Rightarrow> 0 | Some x \<Rightarrow> cs_reward x) ow user s))))"

text \<open>\<open>referral_stats\<close>: the customers referred, those who bought, what was earned and the present reward.\<close>

definition referral_stats :: "nat \<Rightarrow> world \<Rightarrow> string \<Rightarrow> int \<Rightarrow> (centre, int \<times> int \<times> int \<times> int) effect" where
  "referral_stats fuel w ow user =
     ebind (ensure_referral_profile fuel w ow user) (\<lambda>_.
     ebind (alter (ensure_settings w ow)) (\<lambda>_.
     peek (\<lambda>s. let mine = filter (\<lambda>r. rf_owner r = ow \<and> rf_referrer r = user) (cu_referrals s) in
       (int (length mine), int (length (filter (\<lambda>r. 0 < rf_qualified r) mine)), sum_list (map rf_reward mine),
        (case settings_of ow s of None \<Rightarrow> 0 | Some c \<Rightarrow> cs_reward c)))))"

section \<open>Purchases and renewals from the wallet\<close>

definition wallet_payment :: "string \<Rightarrow> string \<Rightarrow> order_row \<Rightarrow> string \<Rightarrow> real \<Rightarrow> payment_row" where
  "wallet_payment pid ow r ref now =
     \<lparr>pm_id = pid, pm_order = od_id r, pm_owner = ow, pm_gateway = ''wallet'', pm_amount = od_amount r,
      pm_currency = wallet_currency, pm_status = ''paid'', pm_ref = ref, pm_created = now, pm_updated = now\<rparr>"

text \<open>The debit of an order, its payment row unless there is one, and the order marked as paid.\<close>

definition charge_order ::
  "world \<Rightarrow> string \<Rightarrow> string \<Rightarrow> string \<Rightarrow> string \<Rightarrow> order_row \<Rightarrow> centre \<Rightarrow> centre res" where
  "charge_order w wid pid kind ref r s =
     rbind (require_plan_credit (od_owner r) (od_volume r) (cu_shop s)) (\<lambda>_.
     rbind (debit_tx wid (centre_clock w s) (od_owner r) (od_buyer r) (od_amount r) kind ref (od_id r) (cu_till s)) (\<lambda>(t, _).
     rbind (if \<exists>x \<in> set (sh_payments (cu_shop s)). pm_order x = od_id r \<and> pm_owner x = od_owner r \<and> pm_gateway x = ''wallet''
            then Inr (sh_payments (cu_shop s))
            else insert_pk pm_id (wallet_payment pid (od_owner r) r ref (centre_clock w s)) (sh_payments (cu_shop s))) (\<lambda>payments.
     Inr (set_till t s\<lparr>cu_shop := set_order (od_id r)
            (\<lambda>x. x\<lparr>od_status := ''paid'', od_gateway := ''wallet'', od_ref := ref, od_updated := centre_clock w s\<rparr>)
            ((cu_shop s)\<lparr>sh_payments := payments\<rparr>)\<rparr>))))"

definition debit_purchase :: "world \<Rightarrow> string \<Rightarrow> string \<Rightarrow> string \<Rightarrow> string \<Rightarrow> centre \<Rightarrow> (centre \<times> unit) res" where
  "debit_purchase w wid pid ow oid s =
     rbind (owned_order ow oid (cu_shop s)) (\<lambda>r.
     rbind (ensure (od_status r \<in> {''pending'', ''awaiting_payment'', ''payment_rejected'', ''paid''})
              (PolicyError ''Order cannot be paid from current state'')) (\<lambda>_.
     rbind (charge_order w wid pid ''purchase'' (''order:'' @ oid) r s) (\<lambda>s. Inr (s, ()))))"

definition irt_order :: "order_row \<Rightarrow> bool" where
  "irt_order r \<longleftrightarrow> map upper_char (od_currency r) = wallet_currency"

definition delivered_states :: "string list" where
  "delivered_states = [''provisioned'', ''provisioned_waiting_activation'']"

definition pay_purchase :: "world \<Rightarrow> string \<Rightarrow> string \<Rightarrow> (centre, string) effect" where
  "pay_purchase w ow oid =
     ebind (on_shop (looks (find_order oid (Some ow)))) (\<lambda>r.
     ebind (require_that (\<lambda>_. od_type r = ''purchase'') (PolicyError ''Order is not a purchase'')) (\<lambda>_.
     ebind (require_that (\<lambda>_. irt_order r) (PolicyError ''Wallet currently supports IRT products only'')) (\<lambda>_.
     ebind (if od_status r \<in> set delivered_states then return ()
            else ebind (centre_id w ''wlt'') (\<lambda>wid. ebind (centre_id w ''pay'') (\<lambda>pid.
                 transaction (debit_purchase w wid pid ow oid)))) (\<lambda>_.
     ebind (on_shop (provision_order w oid)) (\<lambda>c.
     ebind (qualify_referral w ow (od_buyer r)) (\<lambda>_. return c))))))"

definition latest_service_order :: "string \<Rightarrow> int \<Rightarrow> string \<Rightarrow> centre \<Rightarrow> order_row option" where
  "latest_service_order ow user c s =
     newest od_updated (filter (\<lambda>r. od_owner r = ow \<and> od_buyer r = user \<and> od_client r = c \<and> od_status r \<in> set delivered_states)
       (sh_orders (cu_shop s)))"

definition renewal_prices :: "string \<Rightarrow> int \<Rightarrow> string \<Rightarrow> centre \<Rightarrow> price_row list res" where
  "renewal_prices ow user c s =
     (case latest_service_order ow user c s of
        None \<Rightarrow> bad ''Service has no DARK purchase history''
      | Some origin \<Rightarrow>
          rbind (ensure (case product_of ow (od_product origin) (cu_shop s) of None \<Rightarrow> False | Some x \<Rightarrow> pb_renewal x)
                   (PolicyError ''Renewal is disabled for this product'')) (\<lambda>_.
          rbind (unlimited_plan_allowed ow (cu_shop s)) (\<lambda>unlimited.
          Inr (filter (\<lambda>r. unlimited \<or> 0 < pc_volume r) (sort_key pc_minor (sort_key pc_id
            (filter (\<lambda>r. pc_owner r = ow \<and> pc_product r = od_product origin \<and> pc_active r) (sh_prices (cu_shop s)))))))))"

definition int_field :: "dict \<Rightarrow> string \<Rightarrow> int res" where
  "int_field d k = py_int (py_or (pyget d k) (PInt 0))"

definition waiting_service :: "string \<Rightarrow> string \<Rightarrow> centre \<Rightarrow> bool" where
  "waiting_service ow c s \<longleftrightarrow>
     (\<exists>r \<in> set (sh_orders (cu_shop s)). od_owner r = ow \<and> od_client r = c \<and> od_status r = ''provisioned_waiting_activation'')"

text \<open>The end of a renewal, in milliseconds: \<open>days\<close> after the later of now and the present end.\<close>

definition renewed_expiry :: "real \<Rightarrow> int \<Rightarrow> int \<Rightarrow> int" where
  "renewed_expiry now present days = max \<lfloor>now * 1000\<rfloor> present + max 1 days * 86400 * 1000"

definition renewal_target :: "world \<Rightarrow> string \<Rightarrow> int \<Rightarrow> string \<Rightarrow> int \<Rightarrow> centre \<Rightarrow> int res" where
  "renewal_target w ow user c days s =
     rbind (actor_for ow (cu_shop s)) (\<lambda>act.
     rbind (client_view act c (sh_panel (cu_shop s))) (\<lambda>d.
     rbind (int_field d ''tgId'') (\<lambda>tg.
     rbind (ensure (tg = user) (PolicyError ''Service does not belong to this Telegram user'')) (\<lambda>_.
     rbind (ensure (\<not> waiting_service ow c s) (PolicyError ''Service is waiting for first connection activation'')) (\<lambda>_.
     rbind (int_field d ''expiryTime'') (\<lambda>present.
     Inr (renewed_expiry (centre_clock w s) present days)))))))"

definition renewal_order :: "string \<Rightarrow> string \<Rightarrow> int \<Rightarrow> string \<Rightarrow> price_row \<Rightarrow> string \<Rightarrow> int \<Rightarrow> real \<Rightarrow> order_row" where
  "renewal_order oid ow user username r c target now =
     (new_order oid ow user username r (pc_inbounds r) (pc_primary r) now)
       \<lparr>od_activation := ''immediate'', od_type := ''renewal'', od_target := c, od_target_expiry := target\<rparr>"

definition create_renewal_order :: "world \<Rightarrow> string \<Rightarrow> int \<Rightarrow> string \<Rightarrow> string \<Rightarrow> string \<Rightarrow> (centre, string) effect" where
  "create_renewal_order w ow user username c price =
     ebind (looks (renewal_prices ow user c)) (\<lambda>prices.
     ebind (of_res (case filter (\<lambda>r. pc_id r = price) prices of [] \<Rightarrow> bad ''Renewal price is not available'' | r # _ \<Rightarrow> Inr r)) (\<lambda>r.
     ebind (looks (renewal_target w ow user c (pc_days r))) (\<lambda>target.
     ebind (centre_id w ''ord'') (\<lambda>oid.
     ebind (transaction (\<lambda>s.
       rbind (require_plan_credit ow (pc_volume r) (cu_shop s)) (\<lambda>_.
       rbind (insert_pk od_id (renewal_order oid ow user username r c target (centre_clock w s)) (sh_orders (cu_shop s))) (\<lambda>rows.
       Inr (s\<lparr>cu_shop := (cu_shop s)\<lparr>sh_orders := rows\<rparr>\<rparr>, ()))))) (\<lambda>_. return oid)))))"

text \<open>\<open>_pay_renewal_locked\<close>: the debit, which says whether the renewal is already done, and the service.\<close>

definition debit_renewal :: "world \<Rightarrow> string \<Rightarrow> string \<Rightarrow> string \<Rightarrow> string \<Rightarrow> centre \<Rightarrow> (centre \<times> bool) res" where
  "debit_renewal w wid pid ow oid s =
     rbind (case owned_order ow oid (cu_shop s) of Inl _ \<Rightarrow> bad ''Renewal order not found'' | Inr r \<Rightarrow> Inr r) (\<lambda>r.
     if od_status r = ''renewed'' then Inr (s, True)
     else rbind (ensure (od_status r \<in> {''pending'', ''paid''}) (PolicyError ''Renewal cannot be paid from current state'')) (\<lambda>_.
          rbind (charge_order w wid pid ''renewal'' (''renewal:'' @ oid) r s) (\<lambda>s. Inr (s, False))))"

definition renewal_patch :: "order_row \<Rightarrow> int \<Rightarrow> pyval" where
  "renewal_patch r target =
     PDict [(''expiryTime'', PInt target), (''totalGB'', PInt (od_volume r)), (''limitIp'', PInt (od_ips r)),
            (''limitHwid'', PInt (od_hwid r))]"

definition fix_target :: "world \<Rightarrow> order_row \<Rightarrow> dict \<Rightarrow> (centre, int) effect" where
  "fix_target w r d =
     (if 0 < od_target_expiry r then return (od_target_expiry r)
      else ebind (of_res (int_field d ''expiryTime'')) (\<lambda>present.
           ebind (alter (\<lambda>s. s\<lparr>cu_shop := set_order (od_id r)
             (\<lambda>x. if od_target_expiry x \<le> 0
                  then x\<lparr>od_target_expiry := renewed_expiry (centre_clock w s) present (od_days r)\<rparr> else x) (cu_shop s)\<rparr>)) (\<lambda>_.
           looks (\<lambda>s. case lookup od_id (od_id r) (sh_orders (cu_shop s)) of
             None \<Rightarrow> Inl (OtherError ''TypeError'') | Some x \<Rightarrow> Inr (od_target_expiry x)))))"

definition renew_service :: "world \<Rightarrow> order_row \<Rightarrow> (centre, unit) effect" where
  "renew_service w r =
     (let c = od_target r in
      ebind (looks (\<lambda>s. actor_for (od_owner r) (cu_shop s))) (\<lambda>act.
      ebind (looks (\<lambda>s. client_view act c (sh_panel (cu_shop s)))) (\<lambda>d.
      ebind (of_res (rbind (int_field d ''tgId'') (\<lambda>tg.
        ensure (tg = od_buyer r) (PolicyError ''Service does not belong to this Telegram user'')))) (\<lambda>_.
      ebind (require_that (\<lambda>s. \<not> waiting_service (od_owner r) c s)
        (PolicyError ''Service is waiting for first connection activation'')) (\<lambda>_.
      ebind (fix_target w r d) (\<lambda>target.
      ebind (on_shop (on_panel (update_client w act c (renewal_patch r target) (Some (map PInt (od_inbounds r))) True))) (\<lambda>_.
      ebind (on_shop (on_panel (client_action w act c ''reset''))) (\<lambda>_.
      ebind (alter (\<lambda>s. s\<lparr>cu_shop := set_order (od_id r)
        (\<lambda>x. x\<lparr>od_status := ''renewed'', od_client := c, od_error := [], od_updated := centre_clock w s\<rparr>) (cu_shop s)\<rparr>)) (\<lambda>_.
      looks (\<lambda>s. seen_by act c (sh_panel (cu_shop s))))))))))))"

definition pay_renewal :: "world \<Rightarrow> string \<Rightarrow> string \<Rightarrow> (centre, string) effect" where
  "pay_renewal w ow oid =
     ebind (on_shop (looks (find_order oid (Some ow)))) (\<lambda>r.
     ebind (require_that (\<lambda>_. od_type r = ''renewal'') (PolicyError ''Order is not a renewal'')) (\<lambda>_.
     ebind (require_that (\<lambda>_. irt_order r) (PolicyError ''Wallet currently supports IRT products only'')) (\<lambda>_.
     ebind (require_that (\<lambda>_. od_target r \<noteq> []) (PolicyError ''Renewal target is missing'')) (\<lambda>_.
     ebind (centre_id w ''wlt'') (\<lambda>wid.
     ebind (centre_id w ''pay'') (\<lambda>pid.
     ebind (transaction (debit_renewal w wid pid ow oid)) (\<lambda>finished.
     ebind (if finished then return ()
            else catch (renew_service w r) (\<lambda>ex.
                   ebind (on_shop (alter (note_fulfillment_error w oid ex))) (\<lambda>_. raise ex))) (\<lambda>_.
     return (od_target r)))))))))"

section \<open>Support\<close>

definition ticket_of :: "string \<Rightarrow> string \<Rightarrow> centre \<Rightarrow> ticket_row res" where
  "ticket_of k ow s =
     (case lookup tk_id k (cu_tickets s) of
        None \<Rightarrow> bad ''Support ticket not found''
      | Some r \<Rightarrow> if tk_owner r = ow then Inr r else bad ''Support ticket not found'')"

definition ticket_by_rowid :: "string \<Rightarrow> int \<Rightarrow> centre \<Rightarrow> ticket_row res" where
  "ticket_by_rowid ow row s =
     (if 1 \<le> row \<and> row \<le> int (length (cu_tickets s)) \<and> tk_owner (cu_tickets s ! nat (row - 1)) = ow
      then Inr (cu_tickets s ! nat (row - 1)) else bad ''Support ticket not found'')"

definition tickets_for_customer :: "string \<Rightarrow> int \<Rightarrow> int \<Rightarrow> centre \<Rightarrow> ticket_row list" where
  "tickets_for_customer ow user n s =
     take (clamp_limit n) (sort_key (\<lambda>r. - tk_updated r) (filter (\<lambda>r. tk_owner r = ow \<and> tk_user r = user) (cu_tickets s)))"

definition open_tickets :: "string \<Rightarrow> int \<Rightarrow> centre \<Rightarrow> ticket_row list" where
  "open_tickets ow n s =
     take (clamp_limit n) (sort_key (\<lambda>r. - tk_updated r) (filter (\<lambda>r. tk_owner r = ow \<and> tk_status r \<noteq> ''closed'') (cu_tickets s)))"

definition ticket_messages :: "string \<Rightarrow> string \<Rightarrow> int \<Rightarrow> centre \<Rightarrow> message_row list res" where
  "ticket_messages ow k n s =
     rbind (ticket_of k ow s) (\<lambda>_.
     Inr (rev (take (clamp_limit n) (sort_key (\<lambda>r. - ms_created r)
       (filter (\<lambda>r. ms_owner r = ow \<and> ms_ticket r = k) (cu_messages s))))))"

definition set_ticket :: "string \<Rightarrow> (ticket_row \<Rightarrow> ticket_row) \<Rightarrow> centre \<Rightarrow> centre" where
  "set_ticket k f s = s\<lparr>cu_tickets := modify tk_id k f (cu_tickets s)\<rparr>"

definition create_ticket :: "world \<Rightarrow> string \<Rightarrow> int \<Rightarrow> string \<Rightarrow> string \<Rightarrow> (centre, string) effect" where
  "create_ticket w ow user username subject =
     ebind (require_that (\<lambda>_. text_within 1 128 (strip subject)) (PolicyError ''Ticket subject is invalid'')) (\<lambda>_.
     ebind (centre_id w ''tkt'') (\<lambda>k.
     ebind (transaction (\<lambda>s.
       rbind (insert_pk tk_id \<lparr>tk_id = k, tk_owner = ow, tk_user = user, tk_username = take 128 username,
                tk_subject = strip subject, tk_status = ''open'', tk_created = centre_clock w s, tk_updated = centre_clock w s\<rparr>
                (cu_tickets s)) (\<lambda>rows. Inr (s\<lparr>cu_tickets := rows\<rparr>, ())))) (\<lambda>_. return k)))"

definition add_ticket_message ::
  "world \<Rightarrow> string \<Rightarrow> string \<Rightarrow> string \<Rightarrow> int \<Rightarrow> string \<Rightarrow> string \<Rightarrow> string \<Rightarrow> (centre, string) effect" where
  "add_ticket_message w ow k sender user words kind file =
     (let body = take 4000 (strip words); fid = take 512 file in
     ebind (require_that (\<lambda>_. sender \<in> {''customer'', ''admin''}) (PolicyError ''Invalid support sender'')) (\<lambda>_.
     ebind (looks (ticket_of k ow)) (\<lambda>_.
     ebind (require_that (\<lambda>_. body \<noteq> [] \<or> fid \<noteq> []) (PolicyError ''Support message is empty'')) (\<lambda>_.
     ebind (centre_id w ''msg'') (\<lambda>m.
     ebind (transaction (\<lambda>s.
       rbind (insert_pk ms_id \<lparr>ms_id = m, ms_ticket = k, ms_owner = ow, ms_sender = sender, ms_user = user, ms_text = body,
                ms_file_kind = take 32 kind, ms_file = fid, ms_created = centre_clock w s\<rparr> (cu_messages s)) (\<lambda>rows.
       Inr (set_ticket k (\<lambda>r. r\<lparr>tk_status := (if sender = ''admin'' then ''answered'' else ''open''), tk_updated := centre_clock w s\<rparr>)
              (s\<lparr>cu_messages := rows\<rparr>), ())))) (\<lambda>_. return m))))))"

definition close_ticket :: "world \<Rightarrow> string \<Rightarrow> string \<Rightarrow> (centre, unit) effect" where
  "close_ticket w ow k =
     ebind (looks (ticket_of k ow)) (\<lambda>_.
     alter (\<lambda>s. set_ticket k (\<lambda>r. r\<lparr>tk_status := ''closed'', tk_updated := centre_clock w s\<rparr>) s))"

end
