(* ===== verification/Market.thy ===== *)
theory Market
  imports Wallet
begin

text \<open>
  The marketplace of representative panels (backend/representative_marketplace.py, class
  \<open>RepresentativeMarketplace\<close>) and the settings of a bot (backend/telegram_commerce.py). A customer buys
  a representative account from the wallet: the policy of the plan is applied, the account created, and the
  subscription recorded; a failure refunds the wallet and takes a half-made account away. Expired
  subscriptions are suspended by a sweep. The order keeps the terms of its plan; the flags \<open>active\<close> and
  \<open>visible\<close>, which the code leaves out of the snapshot, are never read from it. Text is ASCII, so that a
  letter or digit of a prefix is one of \<open>name_char\<close>.
\<close>

section \<open>State\<close>

record rep_terms =
  rt_name :: string
  rt_description :: string
  rt_minor :: int
  rt_currency :: string
  rt_days :: int
  rt_volume :: int
  rt_units :: int
  rt_max_clients :: int
  rt_prefix :: string
  rt_ips :: int
  rt_hwid :: int
  rt_inbounds :: "int list"
  rt_bot :: bool
  rt_renewal :: bool
  rt_active :: bool
  rt_visible :: bool

record rep_plan = rep_terms +
  rp_row :: int
  rp_id :: string
  rp_owner :: string
  rp_created :: real
  rp_updated :: real

record rep_order =
  ro_id :: string
  ro_owner :: string
  ro_buyer :: int
  ro_username :: string
  ro_plan :: string
  ro_kind :: string
  ro_amount :: int
  ro_currency :: string
  ro_status :: string
  ro_terms :: rep_terms
  ro_rep :: string
  ro_password :: string
  ro_delivered :: real
  ro_error :: string
  ro_created :: real
  ro_updated :: real

record rep_sub =
  rs_owner :: string
  rs_buyer :: int
  rs_rep :: string
  rs_plan :: string
  rs_status :: string
  rs_started :: real
  rs_expires :: real
  rs_suspended :: real
  rs_bot :: bool
  rs_was_enabled :: bool
  rs_last :: string
  rs_updated :: real

record bot_row =
  tb_owner :: string
  tb_enabled :: bool
  tb_token :: string
  tb_admin :: int
  tb_updated :: real
  tb_offset :: int
  tb_error :: string

record market =
  mk_centre :: centre
  mk_auth :: auth_tables
  mk_plans :: "rep_plan list"
  mk_orders :: "rep_order list"
  mk_subs :: "rep_sub list"
  mk_bots :: "bot_row list"
  mk_sweep :: real

abbreviation market_shop :: "market \<Rightarrow> shop" where
  "market_shop s \<equiv> cu_shop (mk_centre s)"

abbreviation market_panel :: "market \<Rightarrow> panel" where
  "market_panel s \<equiv> sh_panel (market_shop s)"

definition on_centre :: "(centre, 'a) effect \<Rightarrow> (market, 'a) effect" where
  "on_centre m = on_part mk_centre (\<lambda>c s. s\<lparr>mk_centre := c\<rparr>) m"

definition desk_of :: "market \<Rightarrow> desk" where
  "desk_of s = \<lparr>dk_panel = market_panel s, dk_auth = mk_auth s\<rparr>"

definition put_desk :: "desk \<Rightarrow> market \<Rightarrow> market" where
  "put_desk d s =
     s\<lparr>mk_centre := (mk_centre s)\<lparr>cu_shop := (market_shop s)\<lparr>sh_panel := dk_panel d\<rparr>\<rparr>, mk_auth := dk_auth d\<rparr>"

definition on_desk :: "(desk, 'a) effect \<Rightarrow> (market, 'a) effect" where
  "on_desk m = on_part desk_of put_desk m"

definition market_clock :: "world \<Rightarrow> market \<Rightarrow> real" where
  "market_clock w s = clock w (market_panel s)"

definition market_token :: "world \<Rightarrow> (market, string) effect" where
  "market_token w = on_desk (desk_token w)"

definition market_id :: "world \<Rightarrow> string \<Rightarrow> (market, string) effect" where
  "market_id w pre = ebind (market_token w) (\<lambda>t. return (pre @ ''_'' @ t))"

definition market_account :: "string \<Rightarrow> market \<Rightarrow> admin_row option" where
  "market_account a s = account_of a (desk_of s)"

section \<open>Plans\<close>

definition is_primary_owner :: "string \<Rightarrow> market \<Rightarrow> bool" where
  "is_primary_owner ow s = (case market_account ow s of None \<Rightarrow> False | Some r \<Rightarrow> ad_role r = ''owner'' \<and> \<not> ad_disabled r)"

definition require_primary_owner :: "string \<Rightarrow> (market, unit) effect" where
  "require_primary_owner ow =
     require_that (is_primary_owner ow) (PolicyError ''Representative marketplace exists only on the primary Owner panel'')"

definition plan_inbounds :: "int list \<Rightarrow> market \<Rightarrow> unit res" where
  "plan_inbounds ids s =
     rbind (ensure (ids \<noteq> [] \<and> length ids \<le> 256 \<and> (\<forall>i \<in> set ids. 1 \<le> i))
              (PolicyError ''Representative plan requires 1..256 valid Inbound IDs'')) (\<lambda>_.
     rbind (ensure (distinct ids) (PolicyError ''Duplicate Inbound IDs'')) (\<lambda>_.
     ensure (set ids \<subseteq> set (map fst (pa_inbounds (market_panel s))))
       (PolicyError ''Representative plan contains an unknown Inbound'')))"

definition clean_prefix :: "string \<Rightarrow> string res" where
  "clean_prefix t =
     (let x = lower (strip t) in
      rbind (ensure (length x \<le> 32 \<and> list_all name_char x) (PolicyError ''Representative plan prefix is invalid'')) (\<lambda>_. Inr x))"

definition plan_key :: "rep_plan \<Rightarrow> string \<times> string" where
  "plan_key p = (rp_owner p, rp_id p)"

definition next_plan_row :: "rep_plan list \<Rightarrow> int" where
  "next_plan_row ps = fold (\<lambda>p m. max (rp_row p) m) ps 0 + 1"

definition plan_terms :: "rep_terms \<Rightarrow> string \<Rightarrow> rep_terms" where
  "plan_terms b pre =
     b\<lparr>rt_name := take 128 (rt_name b), rt_description := take 2000 (rt_description b), rt_currency := ''IRT'',
       rt_prefix := pre, rt_inbounds := sort (remdups (rt_inbounds b))\<rparr>"

definition write_plan :: "string \<Rightarrow> string \<Rightarrow> rep_terms \<Rightarrow> real \<Rightarrow> market \<Rightarrow> market" where
  "write_plan ow k b now s =
     (let row = rep_terms.extend b (rep_plan.fields (next_plan_row (mk_plans s)) k ow now now) in
      s\<lparr>mk_plans := upsert plan_key row (\<lambda>p. row\<lparr>rp_row := rp_row p, rp_created := rp_created p\<rparr>) (mk_plans s)\<rparr>)"

definition save_plan :: "world \<Rightarrow> string \<Rightarrow> string \<Rightarrow> rep_terms \<Rightarrow> (market, string) effect" where
  "save_plan w ow k b =
     ebind (require_primary_owner ow) (\<lambda>_.
     ebind (require_that (\<lambda>_. valid_name k) (PolicyError ''Invalid representative plan ID'')) (\<lambda>_.
     ebind (looks (plan_inbounds (rt_inbounds b))) (\<lambda>_.
     ebind (of_res (clean_prefix (rt_prefix b))) (\<lambda>pre.
     ebind (require_that (\<lambda>_. map upper_char (if rt_currency b = [] then ''IRT'' else rt_currency b) = ''IRT'')
              (PolicyError ''Representative marketplace currently supports IRT wallet pricing only'')) (\<lambda>_.
     ebind (alter (\<lambda>s. write_plan ow k (plan_terms b pre) (market_clock w s) s)) (\<lambda>_. return k))))))"

definition remove_plan :: "world \<Rightarrow> string \<Rightarrow> string \<Rightarrow> market \<Rightarrow> (market \<times> string) res" where
  "remove_plan w ow k s =
     (case lookup plan_key (ow, k) (mk_plans s) of
        None \<Rightarrow> bad ''Representative plan not found''
      | Some p \<Rightarrow>
          if \<exists>r \<in> set (mk_orders s). ro_owner r = ow \<and> ro_plan r = k
          then Inr (s\<lparr>mk_plans := modify plan_key (ow, k)
                  (\<lambda>p. p\<lparr>rt_active := False, rt_visible := False, rp_updated := market_clock w s\<rparr>) (mk_plans s)\<rparr>, ''archived'')
          else Inr (s\<lparr>mk_plans := remove_key plan_key (ow, k) (mk_plans s)\<rparr>, ''deleted''))"

definition delete_or_archive_plan :: "world \<Rightarrow> string \<Rightarrow> string \<Rightarrow> (market, string) effect" where
  "delete_or_archive_plan w ow k = ebind (require_primary_owner ow) (\<lambda>_. transaction (remove_plan w ow k))"

definition plan_by_rowid :: "string \<Rightarrow> int \<Rightarrow> bool \<Rightarrow> market \<Rightarrow> rep_plan res" where
  "plan_by_rowid ow row public s =
     (case filter (\<lambda>p. rp_owner p = ow \<and> rp_row p = row \<and> (\<not> public \<or> rt_active p \<and> rt_visible p)) (mk_plans s) of
        [] \<Rightarrow> bad ''Representative plan not found'' | p # _ \<Rightarrow> Inr p)"

definition plan_rows :: "string \<Rightarrow> bool \<Rightarrow> bool \<Rightarrow> market \<Rightarrow> rep_plan list" where
  "plan_rows ow public renewal s =
     sort_key rt_minor (sort_key rp_id (filter (\<lambda>p. rp_owner p = ow \<and> (\<not> public \<or> rt_active p \<and> rt_visible p) \<and>
       (\<not> renewal \<or> rt_renewal p)) (mk_plans s)))"

text \<open>The owner's endpoints.\<close>

definition owner_only :: "actor \<Rightarrow> string \<Rightarrow> (market, unit) effect" where
  "owner_only act message = require_that (\<lambda>_. a_role act = ''owner'') (HttpError message 403)"

definition plan_put :: "world \<Rightarrow> actor \<Rightarrow> string \<Rightarrow> rep_terms \<Rightarrow> (market, unit) effect" where
  "plan_put w act k b =
     ebind (owner_only act ''Only the primary Owner manages representative plans'') (\<lambda>_.
     ebind (save_plan w (a_id act) k b) (\<lambda>_.
     on_desk (at_desk (audit w act (a_id act) ''representative.plan_save'' k ''owner-defined marketplace plan''))))"

definition plan_delete :: "world \<Rightarrow> actor \<Rightarrow> string \<Rightarrow> (market, string) effect" where
  "plan_delete w act k =
     ebind (owner_only act ''Only the primary Owner manages representative plans'') (\<lambda>_.
     ebind (delete_or_archive_plan w (a_id act) k) (\<lambda>mode.
     ebind (on_desk (at_desk (audit w act (a_id act) ''representative.plan_delete'' k mode))) (\<lambda>_. return mode)))"

section \<open>Orders\<close>

definition subscription :: "string \<Rightarrow> int \<Rightarrow> market \<Rightarrow> rep_sub option" where
  "subscription ow user s = lookup (\<lambda>r. (rs_owner r, rs_buyer r)) (ow, user) (mk_subs s)"

definition rep_order_of :: "string \<Rightarrow> string \<Rightarrow> market \<Rightarrow> rep_order res" where
  "rep_order_of oid ow s =
     (case lookup ro_id oid (mk_orders s) of
        None \<Rightarrow> bad ''Representative order not found''
      | Some r \<Rightarrow> if ro_owner r = ow then Inr r else bad ''Representative order not found'')"

definition set_rep_order :: "string \<Rightarrow> (rep_order \<Rightarrow> rep_order) \<Rightarrow> market \<Rightarrow> market" where
  "set_rep_order k f s = s\<lparr>mk_orders := modify ro_id k f (mk_orders s)\<rparr>"

text \<open>\<open>while rep_id in existing\<close>: another suffix is drawn until the name is free; the fuel bounds the draws.\<close>

fun free_rep :: "nat \<Rightarrow> world \<Rightarrow> string list \<Rightarrow> string \<Rightarrow> string \<Rightarrow> (market, string) effect" where
  "free_rep 0 w existing base rid =
     (if rid \<notin> set existing then return rid else raise (OtherError ''every drawn name is taken''))"
| "free_rep (Suc n) w existing base rid =
     (if rid \<notin> set existing then return rid
      else ebind (market_token w) (\<lambda>t. free_rep n w existing base (base @ ''_'' @ t)))"

definition rep_name :: "int \<Rightarrow> string" where
  "rep_name user = ''rep'' @ show_int user"

definition rep_credentials :: "nat \<Rightarrow> world \<Rightarrow> vault \<Rightarrow> int \<Rightarrow> (market, string \<times> string) effect" where
  "rep_credentials fuel w v user =
     ebind (peek (\<lambda>s. map ad_id (accounts (desk_of s)))) (\<lambda>existing.
     ebind (free_rep fuel w existing (rep_name user) (rep_name user)) (\<lambda>rid.
     ebind (market_token w) (\<lambda>password. return (rid, va_seal v password))))"

definition insert_rep_order ::
  "world \<Rightarrow> string \<Rightarrow> string \<Rightarrow> int \<Rightarrow> string \<Rightarrow> rep_plan \<Rightarrow> string \<Rightarrow> string \<Rightarrow> string \<Rightarrow> market \<Rightarrow> (market \<times> unit) res" where
  "insert_rep_order w oid ow user username p kind rid password s =
     rbind (insert_pk ro_id \<lparr>ro_id = oid, ro_owner = ow, ro_buyer = user, ro_username = take 128 username, ro_plan = rp_id p,
              ro_kind = kind, ro_amount = rt_minor p, ro_currency = rt_currency p, ro_status = ''pending'',
              ro_terms = rep_terms.truncate p, ro_rep = rid, ro_password = password, ro_delivered = 0, ro_error = [],
              ro_created = market_clock w s, ro_updated = market_clock w s\<rparr> (mk_orders s)) (\<lambda>rows.
     Inr (s\<lparr>mk_orders := rows\<rparr>, ()))"

definition create_rep_order :: "nat \<Rightarrow> world \<Rightarrow> vault \<Rightarrow> string \<Rightarrow> int \<Rightarrow> string \<Rightarrow> int \<Rightarrow> string \<Rightarrow> (market, string) effect" where
  "create_rep_order fuel w v ow user username row kind =
     ebind (require_primary_owner ow) (\<lambda>_.
     ebind (looks (plan_by_rowid ow row True)) (\<lambda>p.
     ebind (require_that (\<lambda>_. kind \<in> {''purchase'', ''renewal''}) (PolicyError ''Invalid representative order kind'')) (\<lambda>_.
     ebind (peek (subscription ow user)) (\<lambda>sub.
     ebind (require_that (\<lambda>_. \<not> (kind = ''purchase'' \<and> sub \<noteq> None))
              (PolicyError ''This Telegram account already owns a representative panel'')) (\<lambda>_.
     ebind (require_that (\<lambda>_. \<not> (kind = ''renewal'' \<and> sub = None)) (PolicyError ''No representative panel exists to renew'')) (\<lambda>_.
     ebind (require_that (\<lambda>_. \<not> (kind = ''renewal'' \<and> \<not> rt_renewal p)) (PolicyError ''This plan is not available for renewal'')) (\<lambda>_.
     ebind (market_id w ''rpo'') (\<lambda>oid.
     ebind (if kind = ''purchase'' then rep_credentials fuel w v user else return (rs_rep (the sub), [])) (\<lambda>(rid, password).
     ebind (transaction (insert_rep_order w oid ow user username p kind rid password)) (\<lambda>_. return oid))))))))))"

section \<open>Fulfilment\<close>

definition rep_password :: "vault \<Rightarrow> rep_order \<Rightarrow> string res" where
  "rep_password v r = (if ro_password r = [] then Inr [] else opened v (ro_password r))"

definition representative_prefix :: "rep_terms \<Rightarrow> string \<Rightarrow> string res" where
  "representative_prefix t rid =
     rbind (clean_prefix (rt_prefix t)) (\<lambda>base.
     let suffix = rid @ ''_'' in
     Inr ((if 64 < length base + length suffix then take (64 - length suffix) base else base) @ suffix))"

definition apply_policy :: "world \<Rightarrow> string \<Rightarrow> string \<Rightarrow> rep_terms \<Rightarrow> (market, unit) effect" where
  "apply_policy w ow rid t =
     ebind (looks (\<lambda>s. actor_for ow (market_shop s))) (\<lambda>act.
     ebind (of_res (representative_prefix t rid)) (\<lambda>pre.
     on_desk (at_desk (owner_put w act rid (rt_name t) (map PInt (rt_inbounds t)) (PInt (rt_volume t)) (PInt (rt_units t))
       (PInt (rt_max_clients t)) (PBool False) PNone (PStr pre) (PInt (rt_ips t)) (PInt (rt_hwid t))))))"

definition cleanup_failed_new_rep :: "string \<Rightarrow> market \<Rightarrow> market" where
  "cleanup_failed_new_rep rid s =
     (let p = market_panel s in
      if \<exists>c \<in> set (st_clients (store_of p)). cl_owner c = rid
      then put_desk (set_accounts (update_where (\<lambda>r. ad_id r = rid \<and> ad_role r = ''reseller'') (\<lambda>r. r\<lparr>ad_disabled := True\<rparr>)) (desk_of s)) s
      else if \<exists>x \<in> set (mk_subs s). rs_rep x = rid then s
      else if (case market_account rid s of None \<Rightarrow> False | Some r \<Rightarrow> ad_role r \<noteq> ''reseller'') then s
      else let d = forget_account rid (desk_of s)
           in (put_desk (d\<lparr>dk_panel := forget_owner rid (dk_panel d)\<rparr>) s)\<lparr>mk_bots := delete_where (\<lambda>b. tb_owner b = rid) (mk_bots s)\<rparr>)"

definition enable_account :: "string \<Rightarrow> market \<Rightarrow> market" where
  "enable_account rid s = put_desk (set_accounts (modify ad_id rid (\<lambda>r. r\<lparr>ad_disabled := False\<rparr>)) (desk_of s)) s"

definition open_account :: "vault \<Rightarrow> string \<Rightarrow> rep_order \<Rightarrow> (market, unit) effect" where
  "open_account v ow r =
     ebind (peek (market_account (ro_rep r))) (\<lambda>account.
     ebind (require_that (\<lambda>_. case account of None \<Rightarrow> True | Some a \<Rightarrow> ad_role a = ''reseller'')
              (PolicyError ''Generated representative ID conflicts with another role'')) (\<lambda>_.
     if account \<noteq> None then return ()
     else ebind (of_res (rep_password v r)) (\<lambda>password.
          ebind (require_that (\<lambda>_. password \<noteq> []) (PolicyError ''Representative credential is unavailable'')) (\<lambda>_.
          ebind (looks (\<lambda>s. actor_for ow (market_shop s))) (\<lambda>act.
          on_desk (auth_admin_create v act (ro_rep r) password ''reseller'' (Some seller_permissions)))))))"

definition start_subscription :: "string \<Rightarrow> rep_order \<Rightarrow> real \<Rightarrow> market \<Rightarrow> (market \<times> unit) res" where
  "start_subscription ow r now s =
     (let t = ro_terms r; s1 = enable_account (ro_rep r) s;
          sub = \<lparr>rs_owner = ow, rs_buyer = ro_buyer r, rs_rep = ro_rep r, rs_plan = ro_plan r, rs_status = ''active'',
                 rs_started = now, rs_expires = now + of_int (rt_days t * 86400), rs_suspended = 0, rs_bot = rt_bot t,
                 rs_was_enabled = False, rs_last = ro_id r, rs_updated = now\<rparr> in
      rbind (ensure (\<not> has_key rs_rep (ro_rep r) (mk_subs s1)) (IntegrityError ''UNIQUE constraint failed'')) (\<lambda>_.
      rbind (insert_pk (\<lambda>x. (rs_owner x, rs_buyer x)) sub (mk_subs s1)) (\<lambda>rows.
      Inr (set_rep_order (ro_id r) (\<lambda>x. x\<lparr>ro_status := ''provisioned'', ro_updated := now\<rparr>) (s1\<lparr>mk_subs := rows\<rparr>), ()))))"

definition renew_bots :: "rep_terms \<Rightarrow> rep_sub \<Rightarrow> bot_row list \<Rightarrow> bot_row list" where
  "renew_bots t sub bots =
     (if rt_bot t \<and> rs_was_enabled sub
      then update_where (\<lambda>b. tb_owner b = rs_rep sub \<and> tb_token b \<noteq> []) (\<lambda>b. b\<lparr>tb_enabled := True\<rparr>) bots
      else if \<not> rt_bot t then update_where (\<lambda>b. tb_owner b = rs_rep sub) (\<lambda>b. b\<lparr>tb_enabled := False\<rparr>) bots
      else bots)"

definition extend_subscription :: "string \<Rightarrow> rep_order \<Rightarrow> rep_sub \<Rightarrow> real \<Rightarrow> market \<Rightarrow> market" where
  "extend_subscription ow r sub now s =
     (let t = ro_terms r; s1 = enable_account (ro_rep r) s in
      set_rep_order (ro_id r) (\<lambda>x. x\<lparr>ro_status := ''renewed'', ro_updated := now\<rparr>)
        (s1\<lparr>mk_bots := renew_bots t sub (mk_bots s1),
            mk_subs := modify (\<lambda>x. (rs_owner x, rs_buyer x)) (ow, ro_buyer r)
              (\<lambda>x. x\<lparr>rs_plan := ro_plan r, rs_status := ''active'',
                 rs_expires := max now (rs_expires sub) + of_int (rt_days t * 86400), rs_suspended := 0, rs_bot := rt_bot t,
                 rs_was_enabled := False, rs_last := ro_id r, rs_updated := now\<rparr>) (mk_subs s1)\<rparr>))"

text \<open>One expired subscription: the account and the bot are switched off, and every session ends.\<close>

definition suspend :: "real \<Rightarrow> rep_sub \<Rightarrow> market \<Rightarrow> market" where
  "suspend now sub s =
     (let rid = rs_rep sub;
          was = (case filter (\<lambda>b. tb_owner b = rid) (mk_bots s) of [] \<Rightarrow> False | b # _ \<Rightarrow> tb_enabled b);
          d = drop_sessions (\<lambda>x. se_admin x = rid)
                (set_accounts (update_where (\<lambda>r. ad_id r = rid \<and> ad_role r = ''reseller'') (\<lambda>r. r\<lparr>ad_disabled := True\<rparr>)) (desk_of s)) in
      (put_desk d s)\<lparr>mk_bots := update_where (\<lambda>b. tb_owner b = rid) (\<lambda>b. b\<lparr>tb_enabled := False\<rparr>) (mk_bots s),
        mk_subs := update_where (\<lambda>x. rs_owner x = rs_owner sub \<and> rs_buyer x = rs_buyer sub \<and> rs_status x = ''active'')
          (\<lambda>x. x\<lparr>rs_status := ''suspended'', rs_suspended := now, rs_was_enabled := was, rs_updated := now\<rparr>) (mk_subs s)\<rparr>)"

definition expired :: "real \<Rightarrow> rep_sub \<Rightarrow> bool" where
  "expired now x \<longleftrightarrow> rs_status x = ''active'' \<and> rs_expires x \<le> now"

definition sweep_at :: "real \<Rightarrow> market \<Rightarrow> market" where
  "sweep_at now s = fold (suspend now) (filter (expired now) (mk_subs s)) (s\<lparr>mk_sweep := now\<rparr>)"

definition sweep_expired :: "world \<Rightarrow> bool \<Rightarrow> (market, unit) effect" where
  "sweep_expired w force =
     alter (\<lambda>s. let now = market_clock w s in if \<not> force \<and> now - mk_sweep s < 30 then s else sweep_at now s)"

text \<open>\<open>result\<close>: what it reads may fail, because the sealed password is opened until it was delivered.\<close>

definition rep_result :: "vault \<Rightarrow> string \<Rightarrow> string \<Rightarrow> market \<Rightarrow> rep_order res" where
  "rep_result v oid ow s =
     rbind (rep_order_of oid ow s) (\<lambda>r.
     rbind (if ro_kind r = ''purchase'' \<and> ro_delivered r = 0 then rep_password v r else Inr []) (\<lambda>_. Inr r))"

definition fulfil :: "world \<Rightarrow> vault \<Rightarrow> string \<Rightarrow> string \<Rightarrow> (market, rep_order) effect" where
  "fulfil w v ow oid =
     ebind (looks (rep_order_of oid ow)) (\<lambda>r.
     ebind (peek (market_clock w)) (\<lambda>now.
     ebind (if ro_kind r = ''purchase''
            then ebind (apply_policy w ow (ro_rep r) (ro_terms r)) (\<lambda>_.
                 ebind (open_account v ow r) (\<lambda>_.
                 transaction (start_subscription ow r now)))
            else ebind (looks (\<lambda>s. case subscription ow (ro_buyer r) s of
                          None \<Rightarrow> bad ''Representative subscription is unavailable''
                        | Some x \<Rightarrow> if rs_rep x = ro_rep r then Inr x else bad ''Representative subscription is unavailable'')) (\<lambda>sub.
                 ebind (apply_policy w ow (ro_rep r) (ro_terms r)) (\<lambda>_.
                 alter (extend_subscription ow r sub now)))) (\<lambda>_.
     ebind (sweep_expired w True) (\<lambda>_.
     looks (rep_result v oid ow)))))"

definition debit_rep_order :: "world \<Rightarrow> string \<Rightarrow> string \<Rightarrow> rep_order \<Rightarrow> market \<Rightarrow> (market \<times> unit) res" where
  "debit_rep_order w wid ow r s =
     rbind (debit_tx wid (market_clock w s) ow (ro_buyer r) (ro_amount r)
              (if ro_kind r = ''purchase'' then ''rep_purchase'' else ''rep_renewal'') (''representative:'' @ ro_id r) (ro_id r)
              (cu_till (mk_centre s))) (\<lambda>(t, _).
     Inr (set_rep_order (ro_id r) (\<lambda>x. x\<lparr>ro_status := ''paid'', ro_updated := market_clock w s, ro_error := []\<rparr>)
            (s\<lparr>mk_centre := set_till t (mk_centre s)\<rparr>), ()))"

definition refund_rep_order :: "world \<Rightarrow> string \<Rightarrow> string \<Rightarrow> rep_order \<Rightarrow> err \<Rightarrow> market \<Rightarrow> (market \<times> unit) res" where
  "refund_rep_order w wid ow r ex s =
     rbind (credit_tx wid (market_clock w s) ow (ro_buyer r) (ro_amount r) ''rep_refund'' (''refund:'' @ ro_id r)
              ''automatic marketplace refund'' (cu_till (mk_centre s))) (\<lambda>(t, _).
     Inr (set_rep_order (ro_id r) (\<lambda>x. x\<lparr>ro_status := ''failed_refunded'', ro_error := take 1000 (err_message ex),
              ro_updated := market_clock w s\<rparr>) (s\<lparr>mk_centre := set_till t (mk_centre s)\<rparr>), ()))"

definition pay_rep_order :: "world \<Rightarrow> vault \<Rightarrow> string \<Rightarrow> string \<Rightarrow> int \<Rightarrow> (market, rep_order) effect" where
  "pay_rep_order w v ow oid user =
     ebind (looks (rep_order_of oid ow)) (\<lambda>r.
     ebind (require_that (\<lambda>_. ro_buyer r = user)
              (PolicyError ''Representative order does not belong to this Telegram account'')) (\<lambda>_.
     if ro_status r \<in> {''provisioned'', ''renewed''} then looks (rep_result v oid ow)
     else
     ebind (require_that (\<lambda>_. ro_status r \<in> {''pending'', ''paid'', ''failed_refunded''})
              (PolicyError ''Representative order cannot be paid'')) (\<lambda>_.
     ebind (require_that (\<lambda>_. ro_status r \<noteq> ''failed_refunded'')
              (PolicyError ''This failed order was refunded; create a new order'')) (\<lambda>_.
     ebind (market_id w ''wlt'') (\<lambda>wid.
     ebind (transaction (debit_rep_order w wid ow r)) (\<lambda>_.
     catch (fulfil w v ow oid) (\<lambda>ex.
       ebind (market_id w ''wlt'') (\<lambda>rid.
       ebind (transaction (refund_rep_order w rid ow r ex)) (\<lambda>_.
       ebind (when_so (ro_kind r = ''purchase'') (alter (cleanup_failed_new_rep (ro_rep r)))) (\<lambda>_.
       raise ex))))))))))"

definition mark_credentials_delivered :: "world \<Rightarrow> string \<Rightarrow> string \<Rightarrow> (market, unit) effect" where
  "mark_credentials_delivered w ow oid =
     alter (\<lambda>s. s\<lparr>mk_orders := update_where (\<lambda>r. ro_id r = oid \<and> ro_owner r = ow)
       (\<lambda>r. r\<lparr>ro_delivered := market_clock w s, ro_password := [], ro_updated := market_clock w s\<rparr>) (mk_orders s)\<rparr>)"

definition market_orders :: "actor \<Rightarrow> market \<Rightarrow> rep_order list res" where
  "market_orders act s =
     rbind (ensure (a_role act = ''owner'') (HttpError ''Only the primary Owner may view marketplace orders'' 403)) (\<lambda>_.
     Inr (take 200 (sort_key (\<lambda>r. - ro_created r) (filter (\<lambda>r. ro_owner r = a_id act) (mk_orders s)))))"

definition market_subscriptions :: "actor \<Rightarrow> market \<Rightarrow> rep_sub list res" where
  "market_subscriptions act s =
     rbind (ensure (a_role act = ''owner'') (HttpError ''Only the primary Owner may view marketplace subscriptions'' 403)) (\<lambda>_.
     Inr (sort_key (\<lambda>r. - rs_updated r) (filter (\<lambda>r. rs_owner r = a_id act) (mk_subs s))))"

text \<open>\<open>summary\<close>: active and suspended subscriptions, those ending within a week, waiting and refunded orders.\<close>

definition count_rows :: "('r \<Rightarrow> bool) \<Rightarrow> 'r list \<Rightarrow> int" where
  "count_rows P rows = int (length (filter P rows))"

definition market_summary :: "world \<Rightarrow> actor \<Rightarrow> (market, int list) effect" where
  "market_summary w act =
     ebind (owner_only act ''Only the primary Owner may view marketplace summary'') (\<lambda>_.
     ebind (sweep_expired w False) (\<lambda>_.
     peek (\<lambda>s. let now = market_clock w s;
                subs = filter (\<lambda>r. rs_owner r = a_id act) (mk_subs s); orders = filter (\<lambda>r. ro_owner r = a_id act) (mk_orders s) in
       [count_rows (\<lambda>r. rs_status r = ''active'') subs, count_rows (\<lambda>r. rs_status r = ''suspended'') subs,
        count_rows (\<lambda>r. rs_status r = ''active'' \<and> now < rs_expires r \<and> rs_expires r \<le> now + 7 * 86400) subs,
        count_rows (\<lambda>r. ro_status r \<in> {''pending'', ''paid''}) orders,
        count_rows (\<lambda>r. ro_status r = ''failed_refunded'') orders])))"

section \<open>Bots\<close>

definition bot_allowed :: "string \<Rightarrow> market \<Rightarrow> bool" where
  "bot_allowed rid s = (case lookup rs_rep rid (mk_subs s) of None \<Rightarrow> True | Some x \<Rightarrow> rs_status x = ''active'' \<and> rs_bot x)"

record bot_form =
  bf_enabled :: bool
  bf_token :: "string option"
  bf_admin :: int

definition bot_form_ok :: "bot_form \<Rightarrow> bool" where
  "bot_form_ok b \<longleftrightarrow> (case bf_token b of None \<Rightarrow> True | Some t \<Rightarrow> text_within 20 256 t) \<and> int_within 1 9223372036854775807 (bf_admin b)"

definition write_bot :: "world \<Rightarrow> vault \<Rightarrow> string \<Rightarrow> bot_form \<Rightarrow> market \<Rightarrow> (market \<times> unit) res" where
  "write_bot w v ow b s =
     (let old = lookup tb_owner ow (mk_bots s); now = market_clock w s; reset = bf_token b \<noteq> None;
          tok = (case bf_token b of Some t \<Rightarrow> va_seal v t | None \<Rightarrow> (case old of None \<Rightarrow> [] | Some r \<Rightarrow> tb_token r));
          row = \<lparr>tb_owner = ow, tb_enabled = bf_enabled b, tb_token = tok, tb_admin = bf_admin b, tb_updated = now, tb_offset = 0,
                 tb_error = []\<rparr> in
      rbind (ensure (\<not> (bf_enabled b \<and> tok = [])) (PolicyError ''Bot token is required before enabling Telegram bot'')) (\<lambda>_.
      Inr (s\<lparr>mk_bots := upsert tb_owner row
             (\<lambda>r. if reset then row else row\<lparr>tb_offset := tb_offset r, tb_error := tb_error r\<rparr>) (mk_bots s)\<rparr>, ())))"

definition telegram_settings_put :: "world \<Rightarrow> vault \<Rightarrow> actor \<Rightarrow> bot_form \<Rightarrow> (market, unit) effect" where
  "telegram_settings_put w v act b =
     ebind (require_that (\<lambda>_. bot_form_ok b) unprocessable) (\<lambda>_.
     ebind (of_res (owner_for act None)) (\<lambda>ow.
     ebind (require_that (\<lambda>s. \<not> (a_role act = ''reseller'' \<and> bf_enabled b \<and> \<not> bot_allowed ow s))
              (PolicyError ''This representative plan does not allow an independent Telegram bot'')) (\<lambda>_.
     ebind (transaction (write_bot w v ow b)) (\<lambda>_.
     on_desk (at_desk (audit w act ow ''telegram.settings'' ow
       (''enabled='' @ (if bf_enabled b then ''True'' else ''False''))))))))"

end
