(* ===== verification/Commerce_Safety.thy ===== *)
theory Commerce_Safety
  imports Commerce
begin

text \<open>
  What the shop guarantees of an order: its terms never change and it is delivered as one client at
  most, whatever follows. What it does not: the purchase limit is only looked at when an order is
  created, and a payment can be rejected after its delivery.
\<close>

section \<open>Orders stay\<close>

definition terms :: "order_row \<Rightarrow> string \<times> int \<times> string \<times> string \<times> int \<times> string \<times> int \<times> int \<times> int \<times> int list" where
  "terms r = (od_owner r, od_buyer r, od_product r, od_price r, od_amount r, od_currency r, od_volume r, od_days r, od_ips r,
     od_inbounds r)"

definition order_kept :: "order_row \<Rightarrow> order_row \<Rightarrow> bool" where
  "order_kept r r' \<longleftrightarrow> terms r' = terms r \<and> (od_client r \<noteq> [] \<longrightarrow> od_client r' = od_client r)"

definition order_of :: "string \<Rightarrow> shop \<Rightarrow> order_row option" where
  "order_of k s = lookup od_id k (sh_orders s)"

definition orders_kept :: "shop \<Rightarrow> shop \<Rightarrow> bool" where
  "orders_kept s t \<longleftrightarrow> (\<forall>k r. order_of k s = Some r \<longrightarrow> (\<exists>r'. order_of k t = Some r' \<and> order_kept r r'))"

interpretation order_frame: effect_frame orders_kept
proof
  show "orders_kept s s" for s by (simp add: orders_kept_def order_kept_def)
  show "orders_kept s u" if st: "orders_kept s t" and tu: "orders_kept t u" for s t u
    unfolding orders_kept_def
  proof (intro allI impI)
    fix k r
    assume "order_of k s = Some r"
    then obtain r1 where r1: "order_of k t = Some r1" "order_kept r r1" using st by (auto simp: orders_kept_def)
    then obtain r2 where "order_of k u = Some r2" "order_kept r1 r2" using tu by (auto simp: orders_kept_def)
    with r1 show "\<exists>r'. order_of k u = Some r' \<and> order_kept r r'" by (auto simp: order_kept_def)
  qed
qed

lemma same_orders_kept: "sh_orders t = sh_orders s \<Longrightarrow> orders_kept s t"
  by (simp add: orders_kept_def order_of_def order_kept_def)

lemma looks_frame: "orders_kept s (fst (looks f s))"
  by (simp add: looks_def order_frame.R_refl)

lemma on_panel_orders: "sh_orders (fst (on_panel m s)) = sh_orders s"
  by (simp add: on_panel_def on_part_def split: prod.splits)

lemma on_panel_kept: "orders_kept s (fst (on_panel m s))"
  by (rule same_orders_kept) (rule on_panel_orders)

lemma new_id_kept: "orders_kept s (fst (new_id w pre s))"
  unfolding new_id_def by (intro order_frame.bind_frame on_panel_kept order_frame.return_frame)

lemma set_order_kept:
  assumes "\<And>r. od_id (f r) = od_id r" and "\<And>r. order_of k s = Some r \<Longrightarrow> order_kept r (f r)"
  shows "orders_kept s (set_order k f s)"
  using assms by (auto simp: orders_kept_def order_of_def set_order_def lookup_modify order_kept_def)

lemma set_payment_orders [simp]: "sh_orders (set_payment x f s) = sh_orders s"
  by (simp add: set_payment_def)

lemma order_columns [simp]:
  "order_kept r (r\<lparr>od_status := a, od_updated := t\<rparr>)"
  "order_kept r (r\<lparr>od_status := a, od_ref := b, od_updated := t\<rparr>)"
  "order_kept r (r\<lparr>od_status := a, od_gateway := g, od_ref := b, od_updated := t\<rparr>)"
  "order_kept r (r\<lparr>od_error := a, od_updated := t\<rparr>)"
  by (simp_all add: order_kept_def terms_def)

lemma order_of_set:
  "(\<And>r. od_id (f r) = od_id r) \<Longrightarrow> order_of k' (set_order k f s) = (if k' = k then map_option f (order_of k s) else order_of k' s)"
  by (simp add: order_of_def set_order_def lookup_modify)

section \<open>The operations\<close>

lemma product_put_kept: "orders_kept s (fst (product_put w act b s))"
  unfolding product_put_def shop_audit_def
  by (intro order_frame.bind_frame order_frame.read_frame order_frame.transaction_frame on_panel_kept order_frame.return_frame)
    (auto simp: rbind_Inr write_product_def Let_def intro: same_orders_kept)

lemma price_put_kept: "orders_kept s (fst (price_put w act product b s))"
  unfolding price_put_def shop_audit_def
  by (intro order_frame.bind_frame order_frame.read_frame looks_frame order_frame.transaction_frame on_panel_kept
      order_frame.return_frame) (auto simp: rbind_Inr write_price_def intro: same_orders_kept)

lemma gateway_put_kept: "orders_kept s (fst (gateway_put w seal act b s))"
  unfolding gateway_put_def shop_audit_def
  by (intro order_frame.bind_frame order_frame.read_frame order_frame.alter_frame on_panel_kept order_frame.return_frame)
    (auto simp: write_gateway_def Let_def intro: same_orders_kept)

lemma simple_plan_kept: "orders_kept s (fst (create_simple_plan w ow d s))"
  unfolding create_simple_plan_def case_prod_beta
  by (intro order_frame.bind_frame looks_frame new_id_kept order_frame.transaction_frame order_frame.return_frame)
    (auto simp: insert_plan_def rbind_Inr intro: same_orders_kept)

lemma append_order_kept: "sh_orders t = sh_orders s @ [r] \<Longrightarrow> orders_kept s t"
  by (auto simp: orders_kept_def order_of_def lookup_append order_kept_def)

lemma insert_orderD:
  assumes "insert_order w oid ow buyer username product price selected s = Inr (t, row)"
  obtains r x ids primary where "price_of ow product price s = Some (r, x)" and "require_plan_credit ow (pc_volume r) s = Inr ()"
    and "pc_active r" and "pb_active x" and "pb_visible x" and "pb_limit x = 0 \<or> int (sold ow buyer product s) < pb_limit x"
    and "order_inbounds r selected = Inr (ids, primary)"
    and "row = new_order oid ow buyer username r ids primary (shop_clock w s)"
    and "order_of oid s = None" and "t = s\<lparr>sh_orders := sh_orders s @ [row]\<rparr>"
proof -
  obtain r x where rx: "price_of ow product price s = Some (r, x)"
    using assms by (auto simp: insert_order_def split: option.splits)
  obtain ids primary where ids: "order_inbounds r selected = Inr (ids, primary)"
    and rest: "require_plan_credit ow (pc_volume r) s = Inr ()" "pc_active r" "pb_active x" "pb_visible x"
      "pb_limit x = 0 \<or> int (sold ow buyer product s) < pb_limit x"
      "rbind (insert_pk od_id (new_order oid ow buyer username r ids primary (shop_clock w s)) (sh_orders s))
         (\<lambda>rows. Inr (s\<lparr>sh_orders := rows\<rparr>, new_order oid ow buyer username r ids primary (shop_clock w s))) = Inr (t, row)"
    using assms rx by (auto simp: insert_order_def rbind_Inr Let_def split: if_splits)
  have oid: "od_id (new_order oid ow buyer username r ids primary now) = oid" for now by (simp add: new_order_def)
  show ?thesis
    by (rule that [OF rx rest(1-5) ids]) (use rest(6) oid in \<open>auto simp: rbind_Inr insert_pk_Inr has_key_def order_of_def\<close>)
qed

lemma create_order_kept: "orders_kept s (fst (create_order w ow buyer username product price selected s))"
  unfolding create_order_def
proof (intro order_frame.bind_frame new_id_kept order_frame.transaction_frame)
  fix u oid t row
  assume "insert_order w oid ow buyer username product price selected u = Inr (t, row)"
  then show "orders_kept u t"
    by (rule insert_orderD) (rule append_order_kept, simp)
qed

lemma begin_paymentD:
  assumes "begin_payment w pid ow oid gateway s = Inr (t, x)"
  obtains r rows where "order_of oid s = Some r" and "od_owner r = ow"
    and "od_status r \<in> {''pending'', ''awaiting_payment'', ''payment_rejected''}"
    and "t = (set_order oid (\<lambda>x. x\<lparr>od_status := ''awaiting_payment'', od_gateway := gateway, od_ref := [],
           od_updated := shop_clock w s\<rparr>) s)\<lparr>sh_payments := rows\<rparr>"
  using assms that
  by (auto simp: begin_payment_def owned_order_def rbind_Inr Let_def order_of_def bad_def split: option.splits if_splits)

lemma start_payment_kept: "orders_kept s (fst (start_payment w ow oid gateway s))"
  unfolding start_payment_def
proof (intro order_frame.bind_frame new_id_kept order_frame.transaction_frame)
  fix u pid t x
  assume "begin_payment w pid ow oid gateway u = Inr (t, x)"
  then show "orders_kept u t"
  proof (rule begin_paymentD)
    fix rows
    let ?u = "set_order oid (\<lambda>x. x\<lparr>od_status := ''awaiting_payment'', od_gateway := gateway, od_ref := [],
      od_updated := shop_clock w u\<rparr>) u"
    assume t: "t = ?u\<lparr>sh_payments := rows\<rparr>"
    have "orders_kept u ?u" by (rule set_order_kept) simp_all
    moreover have "orders_kept ?u t" by (rule same_orders_kept) (simp add: t)
    ultimately show ?thesis by (rule order_frame.R_trans)
  qed
qed

lemma both_kept:
  assumes "\<And>r. od_id (f r) = od_id r" and "\<And>r. order_kept r (f r)"
  shows "orders_kept s (set_order k f (set_payment x g s))"
proof -
  have "orders_kept s (set_payment x g s)" by (rule same_orders_kept) simp
  moreover have "orders_kept (set_payment x g s) (set_order k f (set_payment x g s))"
    by (rule set_order_kept) (use assms in auto)
  ultimately show ?thesis by (rule order_frame.R_trans)
qed

lemma record_receipt_kept: "orders_kept s (fst (record_receipt w ow buyer reference s))"
  unfolding record_receipt_def
  by (intro order_frame.bind_frame looks_frame order_frame.transaction_frame order_frame.return_frame)
    (auto simp: bad_def Let_def intro!: both_kept split: option.splits)

lemma reject_payment_kept: "orders_kept s (fst (reject_payment w ow row s))"
  unfolding reject_payment_def
  by (intro order_frame.bind_frame looks_frame order_frame.alter_frame order_frame.return_frame)
    (simp add: Let_def both_kept)

section \<open>Delivery\<close>

lemma find_orderD: "find_order oid ow s = Inr r \<Longrightarrow> order_of oid s = Some r"
  by (auto simp: find_order_def order_of_def bad_def split: option.splits if_splits)

lemma note_error_kept: "orders_kept s (note_fulfillment_error w oid ex s)"
  unfolding note_fulfillment_error_def by (rule set_order_kept) simp_all

lemma finish_order_kept:
  assumes "order_of oid s = Some r" and "od_client r = []"
  shows "orders_kept s (finish_order w oid c r0 now s)"
  unfolding finish_order_def by (rule set_order_kept) (use assms in \<open>simp_all add: order_kept_def terms_def\<close>)

text \<open>A handler that raises again: on success nothing was caught.\<close>

lemma catch_raise_Inr:
  assumes "catch m (\<lambda>ex. ebind (h ex) (\<lambda>_. raise ex)) s = (t, Inr x)"
  shows "m s = (t, Inr x)"
  using assms by (auto simp: raise_def split: prod.splits sum.splits)

lemma provision_order_kept: "orders_kept s (fst (provision_order w oid s))"
  unfolding provision_order_def
proof (rule order_frame.bind_frame, rule looks_frame, rule order_frame.bind_frame, rule looks_frame, goal_cases)
  case (1 t r u act)
  have r: "order_of oid u = Some r" using 1(1,3) find_orderD by (auto simp: looks_def)
  show ?case
  proof (rule order_frame.if_frame, goal_cases)
    case 1
    show ?case by (intro order_frame.bind_frame on_panel_kept order_frame.return_frame)
  next
    case 2
    show ?case
    proof (rule order_frame.bind_frame, rule looks_frame, rule order_frame.bind_frame, rule order_frame.read_frame, goal_cases)
      case (1 v pf x now)
      have x: "order_of oid x = Some r" using 1(1,3) r by (auto simp: looks_def peek_def)
      show ?case
        unfolding Let_def
      proof (rule order_frame.bind_frame, goal_cases)
        case 1
        show ?case
          unfolding catch_is_catch_if
          by (intro order_frame.catch_frame on_panel_kept order_frame.bind_frame order_frame.alter_frame note_error_kept
              order_frame.raise_frame)
      next
        case (2 y z)
        then have "sh_orders y = sh_orders x"
          using on_panel_orders [of "deliver_order w act (order_identity pf r) r now" x] catch_raise_Inr [OF 2(1)] by simp
        then have "order_of oid y = Some r" using x by (simp add: order_of_def)
        then show ?case
          using \<open>\<not> od_client r \<noteq> []\<close>
          by (intro order_frame.bind_frame order_frame.alter_frame finish_order_kept order_frame.return_frame) simp_all
      qed
    qed
  qed
qed

lemma pay_order_kept: "orders_kept s (pay_order oid reference now s)"
proof -
  let ?s = "set_order oid (\<lambda>x. x\<lparr>od_status := ''paid'', od_ref := take 256 reference, od_updated := now\<rparr>) s"
  have "orders_kept s ?s" by (rule set_order_kept) simp_all
  moreover have "orders_kept ?s (pay_order oid reference now s)"
    by (rule same_orders_kept) (simp add: pay_order_def Let_def split: option.splits)
  ultimately show ?thesis by (rule order_frame.R_trans)
qed

lemma confirm_payment_kept: "orders_kept s (fst (confirm_payment w ow oid reference s))"
  unfolding confirm_payment_def catch_is_catch_if
  by (rule order_frame.bind_frame [OF looks_frame], rule order_frame.bind_frame [OF order_frame.read_frame(3)],
      rule order_frame.bind_frame [OF order_frame.alter_frame [OF pay_order_kept]], rule order_frame.catch_frame)
    (rule order_frame.bind_frame [OF provision_order_kept] order_frame.return_frame | rule order_frame.return_frame)+

lemma approve_payment_kept: "orders_kept s (fst (approve_payment w ow row s))"
  unfolding approve_payment_def
  by (intro order_frame.bind_frame looks_frame confirm_payment_kept)

section \<open>Any sequence of operations\<close>

text \<open>What happens to the shop: its own operations, in worlds that are \<open>good\<close>, and \<open>other\<close> things in the panel.\<close>

inductive shop_step :: "(world \<Rightarrow> bool) \<Rightarrow> (panel \<Rightarrow> panel \<Rightarrow> bool) \<Rightarrow> shop \<Rightarrow> shop \<Rightarrow> bool"
  for good other where
  product: "good w \<Longrightarrow> shop_step good other s (fst (product_put w act b s))"
| price: "good w \<Longrightarrow> shop_step good other s (fst (price_put w act product bd s))"
| gateway: "good w \<Longrightarrow> shop_step good other s (fst (gateway_put w seal act gb s))"
| plan: "good w \<Longrightarrow> shop_step good other s (fst (create_simple_plan w ow d s))"
| order: "good w \<Longrightarrow> shop_step good other s (fst (create_order w ow buyer username product price selected s))"
| start: "good w \<Longrightarrow> shop_step good other s (fst (start_payment w ow oid gateway s))"
| receipt: "good w \<Longrightarrow> shop_step good other s (fst (record_receipt w ow buyer reference s))"
| reject: "good w \<Longrightarrow> shop_step good other s (fst (reject_payment w ow row s))"
| provision: "good w \<Longrightarrow> shop_step good other s (fst (provision_order w oid s))"
| confirm: "good w \<Longrightarrow> shop_step good other s (fst (confirm_payment w ow oid reference s))"
| approve: "good w \<Longrightarrow> shop_step good other s (fst (approve_payment w ow row s))"
| panel: "other (sh_panel s) p \<Longrightarrow> shop_step good other s (s\<lparr>sh_panel := p\<rparr>)"

lemma shop_step_kept: "shop_step good other s t \<Longrightarrow> orders_kept s t"
proof (induction rule: shop_step.induct)
  case (panel s p)
  show ?case by (rule same_orders_kept) simp
qed (rule product_put_kept price_put_kept gateway_put_kept simple_plan_kept create_order_kept start_payment_kept
    record_receipt_kept reject_payment_kept provision_order_kept confirm_payment_kept approve_payment_kept)+

lemma shop_steps_kept: "(shop_step good other)\<^sup>*\<^sup>* s t \<Longrightarrow> orders_kept s t"
  by (induction rule: rtranclp_induct) (auto intro: order_frame.R_refl order_frame.R_trans shop_step_kept)

text \<open>Asked again, a delivered order only shows its client.\<close>

lemma delivered_again:
  assumes "order_of oid s = Some r" and "od_client r \<noteq> []"
  shows "sh_panel (fst (provision_order w oid s)) = sh_panel s \<and> sh_orders (fst (provision_order w oid s)) = sh_orders s"
proof -
  have "find_order oid None s = Inr r" using assms(1) by (simp add: find_order_def order_of_def)
  then show ?thesis
    using assms(2)
    by (auto simp: provision_order_def looks_def on_panel_def on_part_def inspects_def return_def split: sum.splits prod.splits)
qed


section \<open>The purchase limit\<close>

lemma filter_modify_count:
  assumes "distinct (map key rows)" and "lookup key k rows = Some r" and "\<And>x. key (f x) = key x"
  shows "length (filter P (modify key k f rows)) + (if P r then 1 else 0) = length (filter P rows) + (if P (f r) then 1 else 0)"
  using assms(1,2)
proof (induction rows)
  case (Cons x rows)
  have absent: "modify key k f rows = rows" if "key x = k"
    using that Cons.prems(1) by (induction rows) (auto simp: modify_def update_where_def)
  have step: "modify key k f (x # rows) = (if key x = k then f x else x) # modify key k f rows"
    by (simp add: modify_def update_where_def)
  show ?case
  proof (cases "key x = k")
    case True
    then have "modify key k f (x # rows) = f r # rows" "x = r" using absent Cons.prems(2) step by simp_all
    then show ?thesis by (simp only: filter.simps) simp
  next
    case False
    then show ?thesis using Cons by (simp add: step)
  qed
qed simp

lemma sold_set_order:
  assumes "distinct (map od_id (sh_orders s))" and "order_of k s = Some r"
    and "\<And>x. od_id (f x) = od_id x" and "terms (f r) = terms r"
  shows "sold (od_owner r) (od_buyer r) (od_product r) (set_order k f s) + (if dead_order r then 0 else 1) =
    sold (od_owner r) (od_buyer r) (od_product r) s + (if dead_order (f r) then 0 else 1)"
  using filter_modify_count [of od_id "sh_orders s" k r f
      "\<lambda>x. od_owner x = od_owner r \<and> od_buyer x = od_buyer r \<and> od_product x = od_product r \<and> \<not> dead_order x"] assms
  by (simp add: sold_def set_order_def order_of_def terms_def split: if_splits)

text \<open>
  A created order respects the purchase limit of its buyer, costs what the price says and
  gives no inbound outside the plan.
\<close>

theorem created_order_within_limit:
  assumes "create_order w ow buyer username product price selected s = (q, Inr row)"
  shows "\<exists>r x. price_of ow product price s = Some (r, x) \<and> pc_active r \<and> pb_active x \<and> pb_visible x \<and>
    (pb_limit x \<noteq> 0 \<longrightarrow> int (sold ow buyer product q) \<le> pb_limit x) \<and> order_of (od_id row) q = Some row \<and>
    od_status row = ''pending'' \<and> od_amount row = pc_minor r \<and> od_volume row = pc_volume r \<and> od_days row = pc_days r \<and>
    set (od_inbounds row) \<subseteq> set (pc_inbounds r) \<and> od_client row = []"
proof -
  from bindD [OF assms [unfolded create_order_def]] obtain u oid where
    new: "new_id w ''ord'' s = (u, Inr oid)"
    and ins: "insert_order w oid ow buyer username product price selected u = Inr (q, row)"
    by (auto simp: transaction_Inr)
  have u: "sh_orders u = sh_orders s" "sh_prices u = sh_prices s" "sh_products u = sh_products s"
    using new by (auto simp: new_id_def on_panel_def on_part_def fresh_token_def return_def)
  then have "product_of ow product u = product_of ow product s" by (simp add: product_of_def)
  with u have same: "price_of ow product price u = price_of ow product price s" "sold ow buyer product u = sold ow buyer product s"
    by (simp_all add: price_of_def sold_def split: option.splits)
  show ?thesis
  proof (rule insert_orderD [OF ins], goal_cases)
    case (1 r x ids primary)
    have ids: "set ids \<subseteq> set (pc_inbounds r)"
      using 1(7) by (auto simp: order_inbounds_def split: if_splits option.splits)
    have "sold ow buyer product q \<le> Suc (sold ow buyer product u)" by (simp add: 1(10) sold_def)
    then have limit: "pb_limit x \<noteq> 0 \<longrightarrow> int (sold ow buyer product q) \<le> pb_limit x" using 1(6) by linarith
    have "order_of (od_id row) q = Some row"
      using 1(8,9,10) by (simp add: order_of_def lookup_append new_order_def)
    then show ?case
      using 1 ids limit same(1) by (intro exI [of _ r] exI [of _ x]) (simp add: new_order_def)
  qed
qed

text \<open>
  C30. The limit is not looked at again: the payment of a rejected order can be started again after
  the buyer has used up the limit with other orders, and then more orders are alive than the limit
  allows.
\<close>

theorem restarted_order_escapes_limit:
  assumes "order_of oid s = Some r" and "od_status r = ''payment_rejected''" and "distinct (map od_id (sh_orders s))"
    and "require_plan_credit (od_owner r) (od_volume r) s = Inr ()"
    and "lookup (\<lambda>g. (gw_owner g, gw_id g)) (od_owner r, gateway) (sh_gateways s) = Some g" and "gw_enabled g"
    and "\<forall>x \<in> set (sh_payments s). pm_id x \<noteq> ''pay_'' @ token w (sh_panel s)"
    and "product_of (od_owner r) (od_product r) s = Some x" and "pb_limit x = int (sold (od_owner r) (od_buyer r) (od_product r) s)"
  shows "\<exists>q pid. start_payment w (od_owner r) oid gateway s = (q, Inr pid) \<and> product_of (od_owner r) (od_product r) q = Some x \<and>
    pb_limit x < int (sold (od_owner r) (od_buyer r) (od_product r) q)"
proof -
  let ?pid = "''pay_'' @ token w (sh_panel s)"
  let ?u = "s\<lparr>sh_panel := (sh_panel s)\<lparr>pa_step := Suc (pa_step (sh_panel s))\<rparr>\<rparr>"
  have new: "new_id w ''pay'' s = (?u, Inr ?pid)"
    by (simp add: new_id_def on_panel_def on_part_def fresh_token_def return_def)
  have u: "order_of oid ?u = Some r" "sold ow b p ?u = sold ow b p s" "require_plan_credit ow v ?u = require_plan_credit ow v s"
    "product_of ow p ?u = product_of ow p s" for ow b p v
    using assms(1) by (simp_all add: order_of_def sold_def require_plan_credit_def unlimited_plan_allowed_def actor_for_def product_of_def)
  define f :: "order_row \<Rightarrow> order_row" where "f = (\<lambda>x. x\<lparr>od_status := ''awaiting_payment'', od_gateway := gateway, od_ref := [], od_updated := shop_clock w ?u\<rparr>)"
  have fresh: "lookup pm_id ?pid (sh_payments s) = None" using assms(7) by (auto simp: lookup_None_iff)
  obtain rows where begun: "begin_payment w ?pid (od_owner r) oid gateway ?u = Inr ((set_order oid f ?u)\<lparr>sh_payments := rows\<rparr>, ?pid)"
    using assms(1,2,4,5,6) u fresh
    by (auto simp: begin_payment_def owned_order_def Let_def order_of_def insert_pk_def has_key_def set_order_def f_def)
  let ?q = "(set_order oid f ?u)\<lparr>sh_payments := rows\<rparr>"
  have run: "start_payment w (od_owner r) oid gateway s = (?q, Inr ?pid)"
    using new begun by (simp add: start_payment_def transaction_def)
  have "sold (od_owner r) (od_buyer r) (od_product r) (set_order oid f ?u) = Suc (sold (od_owner r) (od_buyer r) (od_product r) s)"
    using sold_set_order [of ?u oid r f] assms(2,3) u by (simp add: f_def terms_def dead_order_def)
  then have "sold (od_owner r) (od_buyer r) (od_product r) ?q = Suc (sold (od_owner r) (od_buyer r) (od_product r) s)"
    by (simp add: sold_def)
  moreover have "product_of (od_owner r) (od_product r) ?q = Some x" using assms(8) by (simp add: product_of_def set_order_def)
  ultimately show ?thesis using run assms(9) by auto
qed

text \<open>
  C31. A payment can be rejected after its order was delivered: the order then counts as rejected
  and frees the buyer's limit, while its client stays in the panel.
\<close>

theorem delivered_order_can_be_rejected:
  assumes "payment_by_rowid (od_owner r) row s = Inr x" and "order_of (pm_order x) s = Some r" and "od_client r \<noteq> []"
    and "\<not> dead_order r" and "distinct (map od_id (sh_orders s))"
  shows "\<exists>q r'. reject_payment w (od_owner r) row s = (q, Inr (pm_order x)) \<and> sh_panel q = sh_panel s \<and>
    order_of (pm_order x) q = Some r' \<and> od_status r' = ''payment_rejected'' \<and> od_client r' = od_client r \<and>
    Suc (sold (od_owner r) (od_buyer r) (od_product r) q) = sold (od_owner r) (od_buyer r) (od_product r) s"
proof -
  define f :: "order_row \<Rightarrow> order_row" where "f = (\<lambda>y. y\<lparr>od_status := ''payment_rejected'', od_updated := shop_clock w s\<rparr>)"
  let ?s = "set_payment (pm_id x) (\<lambda>y. y\<lparr>pm_status := ''rejected'', pm_updated := shop_clock w s\<rparr>) s"
  let ?q = "set_order (pm_order x) f ?s"
  have s: "order_of (pm_order x) ?s = Some r" "sold ow b p ?s = sold ow b p s" "distinct (map od_id (sh_orders ?s))" for ow b p
    using assms(2,5) by (simp_all add: order_of_def sold_def)
  have row: "order_of (pm_order x) ?q = Some (f r)" using s(1) by (simp add: order_of_set f_def)
  then have "find_order (pm_order x) (Some (od_owner r)) ?q = Inr (f r)"
    by (simp add: find_order_def order_of_def f_def)
  then have run: "reject_payment w (od_owner r) row s = (?q, Inr (pm_order x))"
    using assms(1) by (simp add: reject_payment_def looks_def alter_def return_def Let_def f_def)
  have "sold (od_owner r) (od_buyer r) (od_product r) ?q + 1 = sold (od_owner r) (od_buyer r) (od_product r) ?s"
    using sold_set_order [OF s(3,1), of f] assms(4) by (simp add: f_def terms_def dead_order_def)
  moreover have "sh_panel ?q = sh_panel s" by (simp add: set_order_def set_payment_def)
  ultimately show ?thesis using run row s(2) by (intro exI [of _ ?q] exI [of _ "f r"]) (simp add: f_def)
qed

section \<open>Examples\<close>

definition sample_product :: product_row where
  "sample_product = \<lparr>pb_id = ''gold'', pb_name = ''Gold'', pb_description = [], pb_category = ''General'', pb_kind = ''volume'',
     pb_limit = 1, pb_renewal = True, pb_add_volume = True, pb_active = True, pb_visible = True, pr_owner = ''o'', pr_created = 1,
     pr_updated = 1\<rparr>"

definition sample_price :: price_row where
  "sample_price = \<lparr>pc_id = ''gold30'', pc_owner = ''o'', pc_product = ''gold'', pc_label = ''Month'', pc_minor = 100,
     pc_currency = ''IRT'', pc_days = 30, pc_volume = 10, pc_units = 0, pc_ips = 1, pc_hwid = 0, pc_inbounds = [1],
     pc_activation = ''immediate'', pc_delivery = ''both'', pc_primary = 1, pc_qr = True, pc_portal = True, pc_active = True,
     pc_created = 1, pc_updated = 1\<rparr>"

definition sample_order :: "string \<Rightarrow> string \<Rightarrow> string \<Rightarrow> order_row" where
  "sample_order oid status c = (new_order oid ''o'' 7 ''buyer'' sample_price [1] 1 2)\<lparr>od_status := status, od_client := c\<rparr>"

definition sample_payment :: "string \<Rightarrow> payment_row" where
  "sample_payment oid = \<lparr>pm_id = ''pay_1'', pm_order = oid, pm_owner = ''o'', pm_gateway = ''card'', pm_amount = 100,
     pm_currency = ''IRT'', pm_status = ''paid'', pm_ref = ''r'', pm_created = 3, pm_updated = 3\<rparr>"

text \<open>The representative \<open>o\<close> may sign in.\<close>

definition shop_panel :: panel where
  "shop_panel = set_store ((store_of sample_panel)\<lparr>st_admins := [\<lparr>ad_id = ''o'', ad_role = ''reseller'', ad_password_hash = [],
     ad_permissions = [], ad_disabled = False\<rparr>]\<rparr>) sample_panel"

definition sample_shop :: "order_row list \<Rightarrow> shop" where
  "sample_shop orders = \<lparr>sh_panel = shop_panel,
     sh_products = [sample_product], sh_prices = [sample_price],
     sh_gateways = [\<lparr>gw_id = ''card'', gw_owner = ''o'', gw_label = ''Card'', gw_kind = ''manual'', gw_enabled = True, gw_card = ''1'',
        gw_holder = [], gw_bank = [], gw_instructions = [], gw_plugin = [], gw_secret = [], gw_updated = 1\<rparr>],
     sh_orders = orders, sh_payments = [sample_payment ''ord_1'']\<rparr>"

definition delivered_shop :: shop where
  "delivered_shop = sample_shop [sample_order ''ord_1'' ''provisioned'' ''c'']"


theorem created_order_within_limit_witness:
  "int (sold ''o'' 7 ''gold'' (fst (create_order sample_world ''o'' 7 ''buyer'' ''gold'' ''gold30'' None (sample_shop [])))) \<le> 1"
proof -
  let ?r = "create_order sample_world ''o'' 7 ''buyer'' ''gold'' ''gold30'' None (sample_shop [])"
  have "\<exists>row. ?r = (fst ?r, Inr row)" "price_of ''o'' ''gold'' ''gold30'' (sample_shop []) = Some (sample_price, sample_product)"
    "pb_limit sample_product = 1"
    by (simp_all add: create_order_def new_id_def on_panel_def on_part_def fresh_token_def return_def insert_order_def price_of_def
        product_of_def sample_shop_def sample_price_def sample_product_def require_plan_credit_def sold_def order_inbounds_def
        transaction_def insert_pk_def has_key_def Let_def)
  then show ?thesis
    using created_order_within_limit [of sample_world "''o''" 7 "''buyer''" "''gold''" "''gold30''" None "sample_shop []" "fst ?r"]
    by fastforce
qed

definition rejected_shop :: shop where
  "rejected_shop = sample_shop [sample_order ''ord_1'' ''payment_rejected'' [], sample_order ''ord_2'' ''provisioned'' ''c'']"

theorem restarted_order_escapes_limit_witness:
  "\<exists>q pid. start_payment sample_world ''o'' ''ord_1'' ''card'' rejected_shop = (q, Inr pid) \<and>
     product_of ''o'' ''gold'' q = Some sample_product \<and> 1 < int (sold ''o'' 7 ''gold'' q)"
proof -
  let ?r = "sample_order ''ord_1'' ''payment_rejected'' []"
  have "order_of ''ord_1'' rejected_shop = Some ?r" "distinct (map od_id (sh_orders rejected_shop))"
    "require_plan_credit ''o'' (od_volume ?r) rejected_shop = Inr ()" "product_of ''o'' ''gold'' rejected_shop = Some sample_product"
    "\<forall>x \<in> set (sh_payments rejected_shop). pm_id x \<noteq> ''pay_'' @ token sample_world (sh_panel rejected_shop)"
    "int (sold ''o'' 7 ''gold'' rejected_shop) = 1"
    "lookup (\<lambda>g. (gw_owner g, gw_id g)) (''o'', ''card'') (sh_gateways rejected_shop) = Some (hd (sh_gateways rejected_shop))"
    "gw_enabled (hd (sh_gateways rejected_shop))"
    "od_owner ?r = ''o''" "od_buyer ?r = 7" "od_product ?r = ''gold''" "od_status ?r = ''payment_rejected''" "pb_limit sample_product = 1"
    by code_simp+
  then show ?thesis
    using restarted_order_escapes_limit [of "''ord_1''" rejected_shop ?r "''card''" "hd (sh_gateways rejected_shop)" sample_world sample_product]
    by simp
qed

theorem delivered_order_can_be_rejected_witness:
  "\<exists>q r'. reject_payment sample_world ''o'' 1 delivered_shop = (q, Inr ''ord_1'') \<and> sh_panel q = shop_panel \<and>
     order_of ''ord_1'' q = Some r' \<and> od_status r' = ''payment_rejected'' \<and> od_client r' = ''c'' \<and> sold ''o'' 7 ''gold'' q = 0"
proof -
  let ?r = "sample_order ''ord_1'' ''provisioned'' ''c''"
  have "payment_by_rowid ''o'' 1 delivered_shop = Inr (sample_payment ''ord_1'')" "order_of ''ord_1'' delivered_shop = Some ?r"
    "distinct (map od_id (sh_orders delivered_shop))" "sold ''o'' 7 ''gold'' delivered_shop = 1" "\<not> dead_order ?r"
    "od_owner ?r = ''o''" "od_buyer ?r = 7" "od_product ?r = ''gold''" "od_client ?r = ''c''" "pm_order (sample_payment ''ord_1'') = ''ord_1''"
    by code_simp+
  moreover have "sh_panel delivered_shop = shop_panel" by (simp add: delivered_shop_def sample_shop_def)
  ultimately show ?thesis
    using delivered_order_can_be_rejected [of ?r 1 delivered_shop "sample_payment ''ord_1''" sample_world] by simp
qed

end
