(* ===== verification/Wallet_Safety.thy ===== *)
theory Wallet_Safety
  imports Market Commerce_Safety
begin

text \<open>
  The money of the customers: whatever the centre and the marketplace do, a wallet holds the sum of its
  ledger, never less than nothing, and the ledger only grows, with one entry of a kind and a reference.
\<close>

section \<open>A ledger that explains the balances\<close>

definition booked :: "string \<Rightarrow> int \<Rightarrow> entry_row list \<Rightarrow> int" where
  "booked ow user es = sum_list (map wt_delta (filter (\<lambda>e. wt_owner e = ow \<and> wt_user e = user) es))"

definition explained :: "till \<Rightarrow> bool" where
  "explained t \<longleftrightarrow> (\<forall>ow user. balance ow user t = booked ow user (tl_ledger t)) \<and>
     (\<forall>ow user. 0 \<le> booked ow user (tl_ledger t)) \<and> distinct (map entry_key (tl_ledger t))"

lemma booked_append: "booked ow user (es @ [e]) =
    booked ow user es + (if wt_owner e = ow \<and> wt_user e = user then wt_delta e else 0)"
  by (simp add: booked_def)

definition books :: "till \<Rightarrow> till \<Rightarrow> bool" where
  "books t t' \<longleftrightarrow> (explained t \<longrightarrow> explained t') \<and> (\<exists>new. tl_ledger t' = tl_ledger t @ new)"

lemma books_refl: "books t t"
  by (simp add: books_def)

lemma books_trans: "books t u \<Longrightarrow> books u v \<Longrightarrow> books t v"
  by (auto simp: books_def)

lemma bookD:
  assumes "book wid now ow user moved kind ref detail t = Inr t'"
  shows "tl_ledger t' = tl_ledger t @ [wallet_entry wid now ow user moved kind ref detail] \<and>
    balance a u t' = balance a u t + (if a = ow \<and> u = user then moved else 0)"
proof -
  let ?row = "\<lparr>wl_owner = ow, wl_user = user, wl_currency = wallet_currency, wl_balance = moved, wl_updated = now\<rparr>"
  let ?f = "\<lambda>r. r\<lparr>wl_balance := wl_balance r + moved, wl_updated := now\<rparr>"
  have t': "t' = t\<lparr>tl_wallets := upsert wallet_key ?row ?f (tl_wallets t),
      tl_ledger := tl_ledger t @ [wallet_entry wid now ow user moved kind ref detail]\<rparr>"
    using assms by (auto simp: book_def rbind_Inr insert_pk_Inr)
  have "wallet_key (?f r) = wallet_key r" for r by (simp add: wallet_key_def)
  then have "lookup wallet_key (a, u) (upsert wallet_key ?row ?f (tl_wallets t)) = (if (a, u) = wallet_key ?row
      then (case lookup wallet_key (a, u) (tl_wallets t) of None \<Rightarrow> Some ?row | Some r \<Rightarrow> Some (?f r))
      else lookup wallet_key (a, u) (tl_wallets t))"
    by (intro lookup_upsert)
  moreover have "wallet_key ?row = (ow, user)" by (simp add: wallet_key_def)
  ultimately show ?thesis by (simp add: t' balance_def split: option.splits)
qed

lemma book_books:
  assumes "book wid now ow user moved kind ref detail t = Inr t'" and "\<not> entered ow kind ref t"
    and "explained t \<Longrightarrow> 0 \<le> booked ow user (tl_ledger t) + moved"
  shows "books t t'"
proof -
  have "entry_key (wallet_entry wid now ow user moved kind ref detail) \<notin> entry_key ` set (tl_ledger t)"
    using assms(2) by (auto simp: entered_def has_key_def entry_key_def wallet_entry_def lookup_None_iff)
  moreover have "wt_delta (wallet_entry wid now ow user moved kind ref detail) = moved"
    "wt_owner (wallet_entry wid now ow user moved kind ref detail) = ow"
    "wt_user (wallet_entry wid now ow user moved kind ref detail) = user"
    by (simp_all add: wallet_entry_def)
  moreover note bookD [OF assms(1)]
  ultimately have "explained t'" if "explained t"
    using that assms(3) unfolding explained_def by (auto simp: booked_append)
  then show ?thesis using bookD [OF assms(1)] by (auto simp: books_def)
qed

lemma credit_tx_books: "credit_tx wid now ow user amount kind ref detail t = Inr (t', b) \<Longrightarrow> books t t'"
  by (auto simp: credit_tx_def rbind_Inr books_refl explained_def intro!: book_books split: if_splits)

lemma debit_tx_books: "debit_tx wid now ow user amount kind ref detail t = Inr (t', b) \<Longrightarrow> books t t'"
  by (auto simp: debit_tx_def rbind_Inr books_refl explained_def intro!: book_books split: if_splits)

section \<open>The customer centre\<close>

definition centre_books :: "centre \<Rightarrow> centre \<Rightarrow> bool" where
  "centre_books s s' \<longleftrightarrow> books (cu_till s) (cu_till s')"

interpretation till_frame: effect_frame centre_books
  by unfold_locales (auto simp: centre_books_def books_refl intro: books_trans)

lemma same_till: "cu_till s' = cu_till s \<Longrightarrow> centre_books s s'"
  by (simp add: centre_books_def books_refl)

lemma set_till_books: "books (cu_till s) t \<Longrightarrow> centre_books s (set_till t s)"
  by (simp add: centre_books_def set_till_def)

lemma on_shop_till: "centre_books s (fst (on_shop m s))"
  by (rule same_till) (simp add: on_shop_def on_part_def split: prod.splits)

lemma looks_till: "centre_books s (fst (looks f s))"
  by (simp add: looks_def till_frame.R_refl)

lemma centre_id_till: "centre_books s (fst (centre_id w pre s))"
  by (simp add: centre_id_def on_shop_till)

lemma catch_till:
  "centre_books s (fst (m s)) \<Longrightarrow> (\<And>t e. centre_books s t \<Longrightarrow> centre_books t (fst (h e t))) \<Longrightarrow> centre_books s (fst (catch m h s))"
  by (auto split: prod.splits sum.splits intro: till_frame.R_trans)

lemmas till_rules = till_frame.bind_frame till_frame.return_frame till_frame.raise_frame till_frame.read_frame till_frame.alter_frame
  till_frame.when_frame till_frame.if_frame till_frame.transaction_frame on_shop_till looks_till centre_id_till

lemma centre_parts [simp]: "cu_till (ensure_settings w ow s) = cu_till s" "cu_till (set_topup k f s) = cu_till s"
  "cu_till (set_referral ow user h s) = cu_till s" "cu_till (set_ticket k g s) = cu_till s" "cu_till (set_till t s) = t"
  by (simp_all add: ensure_settings_def set_topup_def set_referral_def set_ticket_def set_till_def)

lemma empty_wallet_books: "books t (t\<lparr>tl_wallets := insert_or_ignore wallet_key
     \<lparr>wl_owner = ow, wl_user = user, wl_currency = c, wl_balance = 0, wl_updated = now\<rparr> (tl_wallets t)\<rparr>)"
proof -
  have "balance a u (t\<lparr>tl_wallets := insert_or_ignore wallet_key
     \<lparr>wl_owner = ow, wl_user = user, wl_currency = c, wl_balance = 0, wl_updated = now\<rparr> (tl_wallets t)\<rparr>) = balance a u t" for a u
    by (auto simp: balance_def insert_or_ignore_def lookup_upsert wallet_key_def split: option.splits)
  then show ?thesis by (auto simp: books_def explained_def)
qed

lemma settings_till:
  "centre_books s (fst (set_referral_reward w ow amount s))" "centre_books s (fst (wallet w ow user s))"
proof -
  show "centre_books s (fst (set_referral_reward w ow amount s))"
    unfolding set_referral_reward_def by (intro till_rules) (auto intro: same_till)
  show "centre_books s (fst (wallet w ow user s))"
    unfolding wallet_def by (intro till_rules) (simp add: centre_books_def empty_wallet_books)
qed

lemma topups_till:
  "centre_books s (fst (create_topup w ow user username amount s))" "centre_books s (fst (record_topup_receipt w ow user ref s))"
  "centre_books s (fst (reject_topup w ow row s))"
proof -
  show "centre_books s (fst (create_topup w ow user username amount s))"
    unfolding create_topup_def by (intro till_rules) (auto simp: insert_topup_def rbind_Inr intro: same_till)
  show "centre_books s (fst (record_topup_receipt w ow user ref s))"
    unfolding record_topup_receipt_def by (intro till_rules) (auto intro: same_till)
  show "centre_books s (fst (reject_topup w ow row s))"
    unfolding reject_topup_def by (intro till_rules) (auto intro: same_till)
qed

lemma approve_topup_till: "centre_books s (fst (approve_topup w ow row s))"
  unfolding approve_topup_def
  by (intro till_rules) (auto simp: credit_topup_def rbind_Inr centre_books_def books_refl dest: credit_tx_books split: if_splits)

lemma draw_code_till: "centre_books s (fst (draw_code n w ow s))"
proof (induction n arbitrary: s)
  case 0
  show ?case unfolding draw_code.simps by (rule till_frame.raise_frame)
next
  case (Suc n)
  show ?case
    unfolding draw_code.simps
    by (intro till_frame.bind_frame on_shop_till till_frame.read_frame) (auto simp: Suc.IH till_frame.return_frame)
qed

lemma profile_till: "centre_books s (fst (ensure_referral_profile fuel w ow user s))"
  unfolding ensure_referral_profile_def
  by (intro till_frame.bind_frame till_frame.read_frame till_frame.if_frame till_frame.return_frame draw_code_till till_frame.alter_frame)
    (simp add: same_till)

lemma referrals_till:
  "centre_books s (fst (register_referral fuel w ow user code s))" "centre_books s (fst (qualify_referral w ow user s))"
  "centre_books s (fst (referral_stats fuel w ow user s))"
proof -
  show "centre_books s (fst (register_referral fuel w ow user code s))"
    unfolding register_referral_def
    by (intro till_rules profile_till) (auto simp: refer_def Let_def intro: same_till split: option.splits if_splits)
  show "centre_books s (fst (qualify_referral w ow user s))"
    unfolding qualify_referral_def
    by (intro till_rules)
      (auto simp: reward_referral_def rbind_Inr centre_books_def books_refl dest: credit_tx_books split: option.splits if_splits)
  show "centre_books s (fst (referral_stats fuel w ow user s))"
    unfolding referral_stats_def by (intro till_rules profile_till) (auto intro: same_till)
qed

lemma charge_order_till: "charge_order w wid pid kind ref r s = Inr s' \<Longrightarrow> centre_books s s'"
  by (auto simp: charge_order_def rbind_Inr centre_books_def dest: debit_tx_books split: if_splits)

lemma pay_purchase_till: "centre_books s (fst (pay_purchase w ow oid s))"
  unfolding pay_purchase_def
  by (intro till_rules referrals_till) (auto simp: debit_purchase_def rbind_Inr dest: charge_order_till split: if_splits)

lemma create_renewal_till: "centre_books s (fst (create_renewal_order w ow user username c price s))"
  unfolding create_renewal_order_def by (intro till_rules) (auto simp: rbind_Inr intro: same_till)

lemma renew_service_till: "centre_books s (fst (renew_service w r s))"
proof -
  have "centre_books s (fst (fix_target w r d s))" for d s
    unfolding fix_target_def by (intro till_rules) (auto intro: same_till)
  then show ?thesis
    unfolding renew_service_def Let_def by (intro till_rules) (auto intro: same_till)
qed

lemma pay_renewal_till: "centre_books s (fst (pay_renewal w ow oid s))"
  unfolding pay_renewal_def
  by (intro till_rules catch_till renew_service_till)
    (auto simp: debit_renewal_def rbind_Inr till_frame.R_refl dest: charge_order_till split: if_splits)

lemma support_till:
  "centre_books s (fst (create_ticket w ow user username subject s))"
  "centre_books s (fst (add_ticket_message w ow k sender user words kind file s))" "centre_books s (fst (close_ticket w ow k s))"
proof -
  show "centre_books s (fst (create_ticket w ow user username subject s))"
    unfolding create_ticket_def by (intro till_rules) (auto simp: rbind_Inr intro: same_till)
  show "centre_books s (fst (add_ticket_message w ow k sender user words kind file s))"
    unfolding add_ticket_message_def Let_def by (intro till_rules) (auto simp: rbind_Inr intro: same_till)
  show "centre_books s (fst (close_ticket w ow k s))"
    unfolding close_ticket_def by (intro till_rules) (auto intro: same_till)
qed

section \<open>The marketplace\<close>

definition market_books :: "market \<Rightarrow> market \<Rightarrow> bool" where
  "market_books s s' \<longleftrightarrow> centre_books (mk_centre s) (mk_centre s')"

interpretation market_frame: effect_frame market_books
  by unfold_locales (auto simp: market_books_def till_frame.R_refl intro: till_frame.R_trans)

lemma same_books: "cu_till (mk_centre s') = cu_till (mk_centre s) \<Longrightarrow> market_books s s'"
  by (simp add: market_books_def same_till)

lemma market_parts [simp]: "cu_till (mk_centre (put_desk d s)) = cu_till (mk_centre s)"
  "mk_centre (set_rep_order k f s) = mk_centre s" "cu_till (mk_centre (enable_account rid s)) = cu_till (mk_centre s)"
  "mk_centre (write_plan ow k b now s) = mk_centre s" "cu_till (mk_centre (extend_subscription ow r sub now s)) = cu_till (mk_centre s)"
  by (simp_all add: put_desk_def set_rep_order_def enable_account_def write_plan_def extend_subscription_def Let_def)

lemma cleanup_parts [simp]: "cu_till (mk_centre (cleanup_failed_new_rep rid s)) = cu_till (mk_centre s)"
  by (simp add: cleanup_failed_new_rep_def Let_def)

lemma sweep_parts [simp]: "cu_till (mk_centre (sweep_at now s)) = cu_till (mk_centre s)"
proof -
  have "cu_till (mk_centre (fold (suspend now) xs t)) = cu_till (mk_centre t)" for xs t
    by (induction xs arbitrary: t) (simp_all add: suspend_def Let_def)
  then show ?thesis by (simp add: sweep_at_def)
qed

lemma on_desk_books: "market_books s (fst (on_desk m s))"
  by (rule same_books) (simp add: on_desk_def on_part_def split: prod.splits)

lemma on_centre_books: "centre_books (mk_centre s) (fst (m (mk_centre s))) \<Longrightarrow> market_books s (fst (on_centre m s))"
  by (auto simp: on_centre_def on_part_def market_books_def split: prod.splits)

lemma market_looks: "market_books s (fst (looks f s))"
  by (simp add: looks_def market_frame.R_refl)

lemma market_catch:
  "market_books s (fst (m s)) \<Longrightarrow> (\<And>t e. market_books s t \<Longrightarrow> market_books t (fst (h e t))) \<Longrightarrow> market_books s (fst (catch m h s))"
  by (auto split: prod.splits sum.splits intro: market_frame.R_trans)

lemmas market_rules = market_frame.bind_frame market_frame.return_frame market_frame.raise_frame market_frame.read_frame
  market_frame.alter_frame market_frame.when_frame market_frame.if_frame market_frame.transaction_frame on_desk_books market_looks

lemma market_token_books: "market_books s (fst (market_token w s))"
  by (simp add: market_token_def on_desk_books)

lemma market_id_books: "market_books s (fst (market_id w pre s))"
  unfolding market_id_def by (intro market_rules market_token_books)

lemma plans_books:
  "market_books s (fst (save_plan w ow k b s))" "market_books s (fst (delete_or_archive_plan w ow k s))"
proof -
  show "market_books s (fst (save_plan w ow k b s))"
    unfolding save_plan_def require_primary_owner_def by (intro market_rules) (auto intro: same_books)
  show "market_books s (fst (delete_or_archive_plan w ow k s))"
    unfolding delete_or_archive_plan_def require_primary_owner_def
    by (intro market_rules) (auto simp: remove_plan_def bad_def intro!: same_books split: option.splits if_splits)
qed

lemma plan_requests_books: "market_books s (fst (plan_put w act k b s))" "market_books s (fst (plan_delete w act k s))"
  unfolding plan_put_def plan_delete_def owner_only_def by (intro market_rules plans_books)+

lemma free_rep_books: "market_books s (fst (free_rep n w existing base rid s))"
proof (induction n arbitrary: rid s)
  case 0
  show ?case unfolding free_rep.simps by (intro market_rules)
next
  case (Suc n)
  show ?case unfolding free_rep.simps by (intro market_rules market_token_books Suc.IH)
qed

lemma credentials_books: "market_books s (fst (rep_credentials fuel w v user s))"
  unfolding rep_credentials_def by (intro market_rules free_rep_books market_token_books)

lemma insert_rep_order_books: "insert_rep_order w oid ow user username p kind rid password s = Inr (s', u) \<Longrightarrow> market_books s s'"
  by (auto simp: insert_rep_order_def rbind_Inr intro: same_books)

lemma create_rep_order_books: "market_books s (fst (create_rep_order fuel w v ow user username row kind s))"
  unfolding create_rep_order_def require_primary_owner_def case_prod_beta
  by (intro market_rules market_id_books credentials_books) (rule insert_rep_order_books)

lemma sweep_books: "market_books s (fst (sweep_expired w force s))"
  unfolding sweep_expired_def by (intro market_rules) (auto simp: Let_def intro: same_books)

lemma policy_books: "market_books s (fst (apply_policy w ow rid t s))"
  unfolding apply_policy_def by (intro market_rules)

lemma open_account_books: "market_books s (fst (open_account v ow r s))"
  unfolding open_account_def by (intro market_rules)

lemma start_subscription_till: "start_subscription ow r now s = Inr (s', u) \<Longrightarrow> cu_till (mk_centre s') = cu_till (mk_centre s)"
  by (auto simp: start_subscription_def Let_def rbind_Inr split: if_splits)

lemma fulfil_books: "market_books s (fst (fulfil w v ow oid s))"
  unfolding fulfil_def
  by (intro market_rules policy_books open_account_books sweep_books) (auto intro: same_books start_subscription_till)

lemma debit_books: "debit_rep_order w wid ow r s = Inr (s', u) \<Longrightarrow> market_books s s'"
  by (auto simp: debit_rep_order_def rbind_Inr market_books_def centre_books_def dest: debit_tx_books)

lemma refund_books: "refund_rep_order w wid ow r ex s = Inr (s', u) \<Longrightarrow> market_books s s'"
  by (auto simp: refund_rep_order_def rbind_Inr market_books_def centre_books_def dest: credit_tx_books)

lemma pay_rep_order_books: "market_books s (fst (pay_rep_order w v ow oid user s))"
  unfolding pay_rep_order_def
  by (intro market_rules market_id_books market_catch fulfil_books) (auto intro: same_books debit_books refund_books)

lemma delivered_books: "market_books s (fst (mark_credentials_delivered w ow oid s))"
  unfolding mark_credentials_delivered_def by (intro market_rules) (simp add: same_books)

lemma summary_books: "market_books s (fst (market_summary w act s))"
  unfolding market_summary_def owner_only_def by (intro market_rules sweep_books)

lemma write_bot_books: "write_bot w v ow b s = Inr (s', u) \<Longrightarrow> market_books s s'"
  by (auto simp: write_bot_def Let_def intro: same_books split: if_split_asm)

lemma bot_books: "market_books s (fst (telegram_settings_put w v act b s))"
  unfolding telegram_settings_put_def by (intro market_rules) (rule write_bot_books)

section \<open>Steps\<close>

text \<open>
  Every operation of the centre, of the shop and of the marketplace, in worlds that are \<open>good\<close>, with
  \<open>other\<close> operations on accounts and on the panel (\<open>desk\<close>) between them.
\<close>

inductive centre_step :: "(world \<Rightarrow> bool) \<Rightarrow> centre \<Rightarrow> centre \<Rightarrow> bool" for good where
  reward: "good w \<Longrightarrow> centre_step good s (fst (set_referral_reward w ow amount s))"
| wallet: "good w \<Longrightarrow> centre_step good s (fst (wallet w ow user s))"
| topup: "good w \<Longrightarrow> centre_step good s (fst (create_topup w ow user username amount s))"
| receipt: "good w \<Longrightarrow> centre_step good s (fst (record_topup_receipt w ow user ref s))"
| approve: "good w \<Longrightarrow> centre_step good s (fst (approve_topup w ow row s))"
| reject: "good w \<Longrightarrow> centre_step good s (fst (reject_topup w ow row s))"
| profile: "good w \<Longrightarrow> centre_step good s (fst (ensure_referral_profile fuel w ow user s))"
| refer: "good w \<Longrightarrow> centre_step good s (fst (register_referral fuel w ow user code s))"
| qualify: "good w \<Longrightarrow> centre_step good s (fst (qualify_referral w ow user s))"
| stats: "good w \<Longrightarrow> centre_step good s (fst (referral_stats fuel w ow user s))"
| purchase: "good w \<Longrightarrow> centre_step good s (fst (pay_purchase w ow oid s))"
| renewal: "good w \<Longrightarrow> centre_step good s (fst (create_renewal_order w ow user username c price s))"
| pay_renewal: "good w \<Longrightarrow> centre_step good s (fst (pay_renewal w ow oid s))"
| ticket: "good w \<Longrightarrow> centre_step good s (fst (create_ticket w ow user username subject s))"
| ticket_message: "good w \<Longrightarrow> centre_step good s (fst (add_ticket_message w ow k sender user words kind file s))"
| close: "good w \<Longrightarrow> centre_step good s (fst (close_ticket w ow k s))"
| shop: "shop_step good (\<lambda>_ _. False) (cu_shop s) x \<Longrightarrow> centre_step good s (s\<lparr>cu_shop := x\<rparr>)"

lemma centre_step_books: "centre_step good s s' \<Longrightarrow> centre_books s s'"
  by (induction rule: centre_step.induct)
    (simp_all add: settings_till topups_till approve_topup_till profile_till referrals_till pay_purchase_till create_renewal_till
      pay_renewal_till support_till same_till)

inductive market_step :: "(world \<Rightarrow> bool) \<Rightarrow> (desk \<Rightarrow> desk \<Rightarrow> bool) \<Rightarrow> market \<Rightarrow> market \<Rightarrow> bool"
  for good other where
  centre: "centre_step good (mk_centre s) c \<Longrightarrow> market_step good other s (s\<lparr>mk_centre := c\<rparr>)"
| desk: "other (desk_of s) d \<Longrightarrow> market_step good other s (put_desk d s)"
| plan_put: "good w \<Longrightarrow> market_step good other s (fst (plan_put w act k b s))"
| plan_delete: "good w \<Longrightarrow> market_step good other s (fst (plan_delete w act k s))"
| order: "good w \<Longrightarrow> market_step good other s (fst (create_rep_order fuel w v ow user username row kind s))"
| pay: "good w \<Longrightarrow> market_step good other s (fst (pay_rep_order w v ow oid user s))"
| sweep: "good w \<Longrightarrow> market_step good other s (fst (sweep_expired w force s))"
| delivered: "good w \<Longrightarrow> market_step good other s (fst (mark_credentials_delivered w ow oid s))"
| summary: "good w \<Longrightarrow> market_step good other s (fst (market_summary w act s))"
| bot: "good w \<Longrightarrow> market_step good other s (fst (telegram_settings_put w v act b s))"

lemma market_step_books: "market_step good other s s' \<Longrightarrow> market_books s s'"
  by (induction rule: market_step.induct)
    (simp_all add: plan_requests_books create_rep_order_books pay_rep_order_books sweep_books delivered_books summary_books
      bot_books same_books market_books_def [of s "s\<lparr>mk_centre := c\<rparr>" for s c] centre_step_books)

lemma market_steps_books: "(market_step good other)\<^sup>*\<^sup>* s s' \<Longrightarrow> market_books s s'"
  by (induction rule: rtranclp_induct) (auto intro: market_frame.R_refl market_frame.R_trans market_step_books)

lemma at_most_once: "distinct (map f xs) \<Longrightarrow> length (filter (\<lambda>x. f x = k) xs) \<le> Suc 0"
  by (induction xs) (auto simp: filter_empty_conv, metis image_eqI)

text \<open>
  C37. Whatever the customers, the bots and the administrators do, in any order: the balance of a wallet
  is the sum of its ledger entries and never below zero, a kind and a reference are booked once at most,
  so no top-up, order, refund or referral counts twice, and no entry is ever changed or removed.
\<close>

theorem wallet_explained_by_ledger:
  assumes "(market_step good other)\<^sup>*\<^sup>* s s'" and "explained (cu_till (mk_centre s))"
  shows "balance ow user (cu_till (mk_centre s')) = booked ow user (tl_ledger (cu_till (mk_centre s'))) \<and>
    0 \<le> balance ow user (cu_till (mk_centre s')) \<and>
    length (filter (\<lambda>e. entry_key e = (ow, kind, ref)) (tl_ledger (cu_till (mk_centre s')))) \<le> 1 \<and>
    take (length (tl_ledger (cu_till (mk_centre s)))) (tl_ledger (cu_till (mk_centre s'))) = tl_ledger (cu_till (mk_centre s))"
proof -
  let ?es = "tl_ledger (cu_till (mk_centre s'))"
  have books: "books (cu_till (mk_centre s)) (cu_till (mk_centre s'))"
    using market_steps_books [OF assms(1)] by (simp add: market_books_def centre_books_def)
  have "distinct (map entry_key ?es)" using books assms(2) by (simp add: books_def explained_def)
  then show ?thesis using books assms(2) by (auto simp: books_def explained_def intro: at_most_once)
qed

section \<open>Concrete inputs\<close>

definition sample_till :: till where
  "sample_till = \<lparr>tl_wallets = [\<lparr>wl_owner = ''o'', wl_user = 7, wl_currency = wallet_currency, wl_balance = 700, wl_updated = 9\<rparr>],
     tl_ledger = [wallet_entry ''e1'' 1 ''o'' 7 1000 ''topup'' ''top_1'' [], wallet_entry ''e2'' 2 ''o'' 7 (- 300) ''purchase'' ''order:1'' []]\<rparr>"

definition sample_topup :: topup_row where
  "sample_topup = \<lparr>tu_id = ''top_2'', tu_owner = ''o'', tu_user = 7, tu_username = ''buyer'', tu_amount = 5000, tu_currency = wallet_currency,
     tu_status = ''review'', tu_receipt = ''photo'', tu_created = 3, tu_updated = 4\<rparr>"

definition sample_centre :: centre where
  "sample_centre = \<lparr>cu_shop = sample_shop [], cu_till = sample_till, cu_topups = [sample_topup], cu_referrals = [], cu_settings = [],
     cu_tickets = [], cu_messages = []\<rparr>"

definition sample_market :: market where
  "sample_market = \<lparr>mk_centre = sample_centre, mk_auth = \<lparr>au_sessions = [], au_keys = [], au_mfa = [], au_attempts = []\<rparr>,
     mk_plans = [], mk_orders = [], mk_subs = [], mk_bots = [], mk_sweep = 0\<rparr>"

lemma sample_explained: "explained sample_till"
proof -
  have "balance ow user sample_till = booked ow user (tl_ledger sample_till)" for ow user
    by (auto simp: balance_def booked_def sample_till_def wallet_key_def wallet_entry_def)
  moreover have "0 \<le> booked ow user (tl_ledger sample_till)" for ow user
    by (auto simp: booked_def sample_till_def wallet_entry_def)
  moreover have "distinct (map entry_key (tl_ledger sample_till))"
    by (simp add: sample_till_def entry_key_def wallet_entry_def)
  ultimately show ?thesis by (simp add: explained_def)
qed

lemma centre_id_run: "centre_id w pre s = (s\<lparr>cu_shop := (cu_shop s)\<lparr>sh_panel := (sh_panel (cu_shop s))\<lparr>pa_step :=
    Suc (pa_step (sh_panel (cu_shop s)))\<rparr>\<rparr>\<rparr>, Inr (pre @ ''_'' @ wo_token w (pa_step (sh_panel (cu_shop s)))))"
  by (simp add: centre_id_def on_shop_def new_id_def on_panel_def on_part_def fresh_token_def token_def return_def)

lemma approved_sample:
  assumes "cu_topups s = [sample_topup]" and "cu_till s = sample_till"
  shows "balance ''o'' 7 (cu_till (fst (approve_topup w ''o'' 1 s))) = 5700"
  using assms
  by (simp add: approve_topup_def centre_id_run transaction_def credit_topup_def topup_by_rowid_def sample_topup_def credit_tx_def
      entered_def has_key_def entry_key_def book_def wallet_entry_def insert_pk_def sample_till_def balance_def upsert_def modify_def
      update_where_def wallet_key_def)

theorem wallet_explained_by_ledger_witness:
  "balance ''o'' 7 (cu_till (fst (approve_topup sample_world ''o'' 1 sample_centre))) = 5700 \<and>
   booked ''o'' 7 (tl_ledger (cu_till (fst (approve_topup sample_world ''o'' 1 sample_centre)))) = 5700"
proof -
  have "market_step (\<lambda>_. True) (\<lambda>_ _. True) sample_market (sample_market\<lparr>mk_centre := fst (approve_topup sample_world ''o'' 1 (mk_centre sample_market))\<rparr>)"
    by (rule market_step.centre) (rule centre_step.approve, simp)
  moreover have "explained (cu_till (mk_centre sample_market))"
    by (simp add: sample_market_def sample_centre_def sample_explained)
  ultimately have "balance ''o'' 7 (cu_till (fst (approve_topup sample_world ''o'' 1 sample_centre)))
      = booked ''o'' 7 (tl_ledger (cu_till (fst (approve_topup sample_world ''o'' 1 sample_centre))))"
    using wallet_explained_by_ledger [OF r_into_rtranclp [of "market_step (\<lambda>_. True) (\<lambda>_ _. True)"], of sample_market
        "sample_market\<lparr>mk_centre := fst (approve_topup sample_world ''o'' 1 (mk_centre sample_market))\<rparr>" "''o''" 7]
    by (simp add: sample_market_def)
  then show ?thesis using approved_sample [of sample_centre sample_world] by (simp add: sample_centre_def)
qed

end
