(* ===== verification/Market_Safety.thy ===== *)
theory Market_Safety
  imports Sessions_Safety Wallet_Safety
begin

text \<open>
  What a buyer of a representative account is promised: a payment that fails costs nothing, and an
  expired subscription closes the account. The panel never loses its last owner, whatever is bought or
  edited.
\<close>

section \<open>A payment that fails\<close>

text \<open>Fulfilment leaves the wallets alone and only moves forward in the answers of the outside world.\<close>

definition forward :: "market \<Rightarrow> market \<Rightarrow> bool" where
  "forward s t \<longleftrightarrow> cu_till (mk_centre t) = cu_till (mk_centre s) \<and> pa_step (market_panel s) \<le> pa_step (market_panel t)"

interpretation forward_frame: effect_frame forward
  by unfold_locales (auto simp: forward_def)

lemma desk_of_parts [simp]: "dk_panel (desk_of s) = market_panel s" "dk_auth (desk_of s) = mk_auth s"
  "market_panel (put_desk d s) = dk_panel d" "desk_of (put_desk d s) = d"
  by (simp_all add: desk_of_def put_desk_def)

lemma on_desk_forward:
  assumes "pa_step (market_panel s) \<le> pa_step (dk_panel (fst (m (desk_of s))))"
  shows "forward s (fst (on_desk m s))"
  using assms by (cases "m (desk_of s)") (simp add: on_desk_def on_part_def forward_def)

lemma at_desk_forward: "steady (market_panel s) (fst (m (market_panel s))) \<Longrightarrow> forward s (fst (on_desk (at_desk m) s))"
  by (rule on_desk_forward) (simp add: steady_def)

lemma looks_forward: "forward s (fst (looks f s))"
  by (simp add: looks_def forward_frame.R_refl)

lemmas forward_rules = forward_frame.bind_frame forward_frame.return_frame forward_frame.raise_frame forward_frame.read_frame
  forward_frame.alter_frame forward_frame.when_frame forward_frame.if_frame forward_frame.transaction_frame looks_forward

lemma set_accounts_step [simp]: "pa_step (dk_panel (set_accounts f d)) = pa_step (dk_panel d)"
  by (simp add: set_accounts_def set_store_def)

lemma create_step: "pa_step (dk_panel (fst (auth_admin_create v act a password role perms d))) = pa_step (dk_panel d)"
  by (auto simp: auth_admin_create_def insert_account_def owner_profile_def set_store_def transaction_def require_that_def looks_def
      of_res_def Let_def rbind_Inr split: sum.splits prod.splits if_splits)

lemma policy_forward: "calm w \<Longrightarrow> forward s (fst (apply_policy w ow rid t s))"
  unfolding apply_policy_def by (intro forward_rules at_desk_forward owner_put_steady)

lemma open_account_forward: "forward s (fst (open_account v ow r s))"
  unfolding open_account_def by (intro forward_rules on_desk_forward) (simp_all add: create_step)

lemma account_forward [simp]: "forward s (put_desk (set_accounts f (desk_of s)) s)"
  by (simp add: forward_def)

lemma enable_forward [simp]: "forward s (enable_account rid s)"
  by (simp add: enable_account_def)

lemma start_forward: "start_subscription ow r now s = Inr (s', u) \<Longrightarrow> forward s s'"
  using enable_forward [of s "ro_rep r"]
  by (auto simp: start_subscription_def Let_def rbind_Inr forward_def set_rep_order_def split: if_splits)

lemma extend_forward: "forward s (extend_subscription ow r sub now s)"
  using enable_forward [of s "ro_rep r"] by (simp add: extend_subscription_def Let_def forward_def set_rep_order_def)

lemma sweep_at_forward: "forward s (sweep_at now s)"
proof -
  have "forward t (fold (suspend now) xs t)" for xs t
  proof (induction xs arbitrary: t)
    case (Cons x xs)
    have "forward t (suspend now x t)" by (simp add: suspend_def Let_def forward_def)
    then show ?case using Cons.IH forward_frame.R_trans by simp
  qed (simp add: forward_frame.R_refl)
  from this [of "s\<lparr>mk_sweep := now\<rparr>" "filter (expired now) (mk_subs s)"] show ?thesis
    by (simp add: sweep_at_def forward_def)
qed

lemma sweep_forward: "forward s (fst (sweep_expired w force s))"
  unfolding sweep_expired_def
  by (intro forward_rules) (simp add: Let_def sweep_at_forward forward_frame.R_refl)

lemma fulfil_forward:
  assumes "calm w"
  shows "forward s (fst (fulfil w v ow oid s))"
  unfolding fulfil_def
  by (intro forward_rules policy_forward open_account_forward sweep_forward extend_forward assms) (rule start_forward)

lemma market_id_eq: "market_id w pre s =
    (put_desk ((desk_of s)\<lparr>dk_panel := (market_panel s)\<lparr>pa_step := Suc (pa_step (market_panel s))\<rparr>\<rparr>) s,
     Inr (pre @ ''_'' @ wo_token w (pa_step (market_panel s))))"
  by (simp add: market_id_def market_token_def on_desk_def desk_token_def at_desk_def on_part_def fresh_token_def token_def return_def)

lemma market_id_run:
  assumes "market_id w pre s = (t, k)"
  shows "k = Inr (pre @ ''_'' @ wo_token w (pa_step (market_panel s))) \<and> cu_till (mk_centre t) = cu_till (mk_centre s) \<and>
    pa_step (market_panel t) = Suc (pa_step (market_panel s))"
  using assms by (auto simp: market_id_eq)

lemma bookI:
  assumes "wid \<notin> wt_id ` set (tl_ledger t)"
  shows "\<exists>t'. book wid now ow user moved kind ref detail t = Inr t'"
  using assms by (auto simp: book_def insert_pk_def has_key_def lookup_None_iff wallet_entry_def split: option.splits)

lemma paid_back:
  assumes "debit_tx k now ow u amount kind ref detail t = Inr (t1, b)" and "0 < amount" and "kind \<noteq> back"
    and "\<not> entered ow kind ref t" and "\<not> entered ow back ref' t" and "k' \<notin> wt_id ` set (tl_ledger t)" and "k' \<noteq> k"
  shows "\<exists>t2. credit_tx k' now' ow u amount back ref' detail' t1 = Inr (t2, True) \<and> (\<forall>a x. balance a x t2 = balance a x t)"
proof -
  have debit: "book k now ow u (- amount) kind ref detail t = Inr t1"
    using assms(1,4) by (auto simp: debit_tx_def rbind_Inr split: if_splits)
  then have ledger: "tl_ledger t1 = tl_ledger t @ [wallet_entry k now ow u (- amount) kind ref detail]"
    using bookD by blast
  then have "\<not> entered ow back ref' t1"
    using assms(3,5) by (simp add: entered_def has_key_append has_key_singleton entry_key_def wallet_entry_def)
  moreover have "k' \<notin> wt_id ` set (tl_ledger t1)" using ledger assms(6,7) by (simp add: wallet_entry_def)
  then obtain t2 where credit: "book k' now' ow u amount back ref' detail' t1 = Inr t2" using bookI by blast
  moreover have "balance a x t2 = balance a x t" for a x
    using bookD [OF debit, of a x] bookD [OF credit, of a x] by simp
  ultimately show ?thesis using assms(2) by (auto simp: credit_tx_def)
qed

lemma debit_rep_orderD:
  assumes "debit_rep_order w wid ow r s = Inr (s', u)"
  shows "\<exists>b. debit_tx wid (market_clock w s) ow (ro_buyer r) (ro_amount r)
      (if ro_kind r = ''purchase'' then ''rep_purchase'' else ''rep_renewal'') (''representative:'' @ ro_id r) (ro_id r)
      (cu_till (mk_centre s)) = Inr (cu_till (mk_centre s'), b) \<and> market_panel s' = market_panel s"
  using assms by (auto simp: debit_rep_order_def rbind_Inr set_rep_order_def set_till_def)

lemma refund_rep_orderI:
  assumes "credit_tx wid (market_clock w s) ow (ro_buyer r) (ro_amount r) ''rep_refund'' (''refund:'' @ ro_id r)
      ''automatic marketplace refund'' (cu_till (mk_centre s)) = Inr (t, b)"
  shows "\<exists>s'. refund_rep_order w wid ow r ex s = Inr (s', ()) \<and> cu_till (mk_centre s') = t"
  using assms by (simp add: refund_rep_order_def)

text \<open>
  C38. A payment of a new order that ends in an error costs nothing, whatever went wrong: unknown buyer,
  too little money, a failing policy, account or subscription. Every wallet has the balance from before.
  The order is for more than nothing, the ledger has no entry of it yet, and random identities do not
  repeat those of the ledger.
\<close>

theorem failed_order_refunded:
  assumes "pay_rep_order w v ow oid user s = (s', Inl e)" and "rep_order_of oid ow s = Inr r" and "ro_status r = ''pending''"
    and "0 < ro_amount r" and "calm w" and "inj (wo_token w)"
    and "\<forall>n \<ge> pa_step (market_panel s). ''wlt_'' @ wo_token w n \<notin> wt_id ` set (tl_ledger (cu_till (mk_centre s)))"
    and "\<forall>x \<in> set (tl_ledger (cu_till (mk_centre s))). wt_ref x \<noteq> ''representative:'' @ oid \<and> wt_ref x \<noteq> ''refund:'' @ oid"
  shows "balance a x (cu_till (mk_centre s')) = balance a x (cu_till (mk_centre s))"
proof -
  let ?n = "pa_step (market_panel s)" and ?till = "\<lambda>s. cu_till (mk_centre s)"
  let ?kind = "if ro_kind r = ''purchase'' then ''rep_purchase'' else ''rep_renewal''"
  have oid: "ro_id r = oid" using assms(2) by (auto simp: rep_order_of_def bad_def dest: lookup_Some_mem split: option.splits if_splits)
  have fresh: "\<not> entered ow kind (''representative:'' @ oid) (?till s)" "\<not> entered ow kind (''refund:'' @ oid) (?till s)" for kind
    using assms(8) by (auto simp: entered_def has_key_def lookup_None_iff entry_key_def)
  obtain s1 k1 where first: "market_id w ''wlt'' s = (s1, k1)" by fastforce
  note one = market_id_run [OF first]
  show ?thesis
  proof (cases "ro_buyer r = user \<and> ok (debit_rep_order w (''wlt_'' @ wo_token w ?n) ow r s1)")
    case False
    then have "s' = s \<or> s' = s1"
      using assms(1-3) first one by (auto simp: pay_rep_order_def looks_def require_that_def transaction_def split: sum.splits)
    then show ?thesis using one by auto
  next
    case True
    then obtain s2 where debit: "debit_rep_order w (''wlt_'' @ wo_token w ?n) ow r s1 = Inr (s2, ())" by (auto simp: ok_iff)
    obtain s3 y where run: "fulfil w v ow oid s2 = (s3, y)" by fastforce
    obtain s4 k2 where second: "market_id w ''wlt'' s3 = (s4, k2)" by fastforce
    have later: "?till s3 = ?till s2" "?n < pa_step (market_panel s3)"
      using fulfil_forward [OF assms(5), of s2 v ow oid] run debit_rep_orderD [OF debit] one by (auto simp: forward_def)
    note two = market_id_run [OF second]
    let ?k2 = "''wlt_'' @ wo_token w (pa_step (market_panel s3))"
    have "?k2 \<notin> wt_id ` set (tl_ledger (?till s))" "?k2 \<noteq> ''wlt_'' @ wo_token w ?n"
      using assms(6,7) later(2) by (auto dest: injD)
    then have "\<exists>t2. credit_tx ?k2 (market_clock w s4) ow (ro_buyer r) (ro_amount r) ''rep_refund'' (''refund:'' @ oid)
        ''automatic marketplace refund'' (?till s2) = Inr (t2, True) \<and> (\<forall>a x. balance a x t2 = balance a x (?till s))"
      using debit_rep_orderD [OF debit] fresh assms(4) one oid by (auto intro!: paid_back split: if_split_asm)
    then obtain t2 where credit: "credit_tx ?k2 (market_clock w s4) ow (ro_buyer r) (ro_amount r) ''rep_refund'' (''refund:'' @ ro_id r)
        ''automatic marketplace refund'' (?till s4) = Inr (t2, True)" and same: "\<forall>a x. balance a x t2 = balance a x (?till s)"
      using later(1) two oid by auto
    have "\<exists>s5. s' = s5 \<and> ?till s5 = t2"
    proof (cases y)
      case (Inr z)
      then show ?thesis
        using assms(1-3) True first one debit run by (simp add: pay_rep_order_def looks_def require_that_def transaction_def)
    next
      case (Inl ex)
      obtain s5 where "refund_rep_order w ?k2 ow r ex s4 = Inr (s5, ())" "?till s5 = t2"
        using refund_rep_orderI [OF credit] by blast
      then show ?thesis
        using assms(1-3) True first one debit run second two Inl
        by (auto simp: pay_rep_order_def looks_def require_that_def transaction_def when_so_def alter_def raise_def split: if_splits)
    qed
    then show ?thesis using same by simp
  qed
qed


section \<open>Expired subscriptions\<close>

text \<open>A closed representative: disabled, signed out and without a bot.\<close>

definition closed_rep :: "string \<Rightarrow> market \<Rightarrow> bool" where
  "closed_rep rid s \<longleftrightarrow> (\<forall>r \<in> set (accounts (desk_of s)). ad_id r = rid \<and> ad_role r = ''reseller'' \<longrightarrow> ad_disabled r) \<and>
     rid \<notin> signed_in (desk_of s) \<and> (\<forall>b \<in> set (mk_bots s). tb_owner b = rid \<longrightarrow> \<not> tb_enabled b)"

definition sub_key :: "rep_sub \<Rightarrow> string \<times> int" where
  "sub_key x = (rs_owner x, rs_buyer x)"

lemma suspend_parts [simp]:
  "st_admins (store_of (market_panel (suspend now sub s))) = update_where (\<lambda>r. ad_id r = rs_rep sub \<and> ad_role r = ''reseller'')
     (\<lambda>r. r\<lparr>ad_disabled := True\<rparr>) (st_admins (store_of (market_panel s)))"
  "signed_in (desk_of (suspend now sub s)) = signed_in (desk_of s) - {rs_rep sub}"
  "mk_bots (suspend now sub s) = update_where (\<lambda>b. tb_owner b = rs_rep sub) (\<lambda>b. b\<lparr>tb_enabled := False\<rparr>) (mk_bots s)"
  "mk_subs (suspend now sub s) = update_where (\<lambda>x. sub_key x = sub_key sub \<and> rs_status x = ''active'')
     (\<lambda>x. x\<lparr>rs_status := ''suspended'', rs_suspended := now, rs_was_enabled :=
       (case filter (\<lambda>b. tb_owner b = rs_rep sub) (mk_bots s) of [] \<Rightarrow> False | b # _ \<Rightarrow> tb_enabled b), rs_updated := now\<rparr>) (mk_subs s)"
  by (auto simp: suspend_def Let_def drop_sessions_def set_auth_def put_desk_def desk_of_def set_accounts_def set_store_def
      signed_in_def delete_where_def sub_key_def)

lemma suspend_closes: "closed_rep (rs_rep sub) (suspend now sub s)"
  by (auto simp: closed_rep_def update_where_def)

lemma suspend_keeps_closed: "closed_rep rid s \<Longrightarrow> closed_rep rid (suspend now sub s)"
  by (auto simp: closed_rep_def update_where_def)

lemma fold_suspend:
  "closed_rep rid s \<or> rid \<in> rs_rep ` set xs \<Longrightarrow> closed_rep rid (fold (suspend now) xs s)"
  by (induction xs arbitrary: s) (auto intro: suspend_closes suspend_keeps_closed)

lemma fold_suspend_active:
  "x \<in> set (mk_subs (fold (suspend now) xs s)) \<Longrightarrow> rs_status x = ''active'' \<Longrightarrow>
    x \<in> set (mk_subs s) \<and> sub_key x \<notin> sub_key ` set xs"
  by (induction xs arbitrary: s) (fastforce simp: update_where_def split: if_splits)+

lemma fold_suspend_others:
  "ad_id r \<notin> rs_rep ` set xs \<Longrightarrow> r \<in> set (accounts (desk_of (fold (suspend now) xs s))) \<longleftrightarrow> r \<in> set (accounts (desk_of s))"
  by (induction xs arbitrary: s) (auto simp: update_where_def image_iff)


section \<open>A second purchase\<close>

text \<open>
  C40. A second purchase order of the same buyer, created before the first was paid, names the same
  representative. Paid after the first, it cannot start a subscription, so it takes the way of a failed
  payment, and the cleanup on that way disables the running account as soon as it has a client, while
  its subscription stays as active as it was.
\<close>

theorem second_purchase_closes_account:
  assumes "x \<in> set (mk_subs s)" and "rs_rep x = ro_rep r" and "c \<in> set (st_clients (store_of (market_panel s)))"
    and "cl_owner c = ro_rep r"
  shows "(\<exists>e. start_subscription ow r now s = Inl e) \<and>
    (\<forall>a \<in> set (accounts (desk_of (cleanup_failed_new_rep (ro_rep r) s))). ad_id a = ro_rep r \<and> ad_role a = ''reseller'' \<longrightarrow> ad_disabled a) \<and>
    x \<in> set (mk_subs (cleanup_failed_new_rep (ro_rep r) s))"
proof -
  have "has_key rs_rep (ro_rep r) (mk_subs s)"
    using assms(1,2) by (auto simp: has_key_def lookup_None_iff split: option.splits)
  moreover have "mk_subs (enable_account a s) = mk_subs s" "mk_subs (put_desk d s) = mk_subs s" for a d
    by (simp_all add: enable_account_def put_desk_def)
  moreover have "cleanup_failed_new_rep (ro_rep r) s =
      put_desk (set_accounts (update_where (\<lambda>a. ad_id a = ro_rep r \<and> ad_role a = ''reseller'') (\<lambda>a. a\<lparr>ad_disabled := True\<rparr>)) (desk_of s)) s"
    using assms(3,4) by (auto simp: cleanup_failed_new_rep_def Let_def)
  ultimately show ?thesis
    using assms(1)
    by (auto simp: start_subscription_def Let_def set_accounts_def set_store_def update_where_def)
qed

section \<open>Concrete inputs\<close>

definition market_world :: world where
  "market_world = sample_world\<lparr>wo_token := (\<lambda>i. replicate i CHR ''x'')\<rparr>"

definition sample_terms :: rep_terms where
  "sample_terms = \<lparr>rt_name = ''Gold'', rt_description = [], rt_minor = 300, rt_currency = ''IRT'', rt_days = 30, rt_volume = 1000,
     rt_units = 1, rt_max_clients = 10, rt_prefix = ''p_'', rt_ips = 1, rt_hwid = 1, rt_inbounds = [1], rt_bot = True,
     rt_renewal = True, rt_active = True, rt_visible = True\<rparr>"

definition sample_rep_order :: rep_order where
  "sample_rep_order = \<lparr>ro_id = ''rpo_1'', ro_owner = ''o'', ro_buyer = 7, ro_username = ''buyer'', ro_plan = ''gold'', ro_kind = ''renewal'',
     ro_amount = 300, ro_currency = ''IRT'', ro_status = ''pending'', ro_terms = sample_terms, ro_rep = ''rep7'', ro_password = [],
     ro_delivered = 0, ro_error = [], ro_created = 5, ro_updated = 5\<rparr>"

definition renewal_market :: market where
  "renewal_market = sample_market\<lparr>mk_orders := [sample_rep_order]\<rparr>"

lemma catch_Inr:
  "catch m h s = (s', Inr y) \<longleftrightarrow> m s = (s', Inr y) \<or> (\<exists>t e. m s = (t, Inl e) \<and> h e t = (s', Inr y))"
  by (auto split: prod.splits sum.splits)

lemma paid_orderD:
  assumes "pay_rep_order w v ow oid user s = (s', Inr y)" and "rep_order_of oid ow s = Inr r" and "ro_status r = ''pending''"
  shows "\<exists>k s1 s2. market_id w ''wlt'' s = (s1, Inr k) \<and> debit_rep_order w k ow r s1 = Inr (s2, ()) \<and>
    fulfil w v ow oid s2 = (s', Inr y)"
  using assms
  by (auto simp: pay_rep_order_def looks_def require_that_def ebind_Inr transaction_Inr raise_def catch_Inr
      simp del: ebind.simps catch.simps split: if_split_asm)

lemma debit_keeps:
  assumes "debit_rep_order w wid ow r s = Inr (s', u)" and "rep_order_of oid ow s = Inr r"
  shows "mk_subs s' = mk_subs s \<and> (\<exists>r'. rep_order_of oid ow s' = Inr r' \<and> ro_kind r' = ro_kind r \<and> ro_buyer r' = ro_buyer r)"
proof -
  have "lookup ro_id oid (mk_orders s) = Some r \<and> ro_owner r = ow"
    using assms(2) by (auto simp: rep_order_of_def bad_def split: option.splits if_splits)
  moreover have "lookup ro_id oid (modify ro_id k (\<lambda>x. x\<lparr>ro_status := a, ro_updated := b, ro_error := c\<rparr>) rows)
      = map_option (\<lambda>x. if oid = k then x\<lparr>ro_status := a, ro_updated := b, ro_error := c\<rparr> else x) (lookup ro_id oid rows)" for k a b c and rows :: "rep_order list"
    by (auto simp: lookup_modify option.map_ident)
  ultimately show ?thesis
    using assms(1) by (auto simp: debit_rep_order_def rbind_Inr set_rep_order_def rep_order_of_def)
qed

lemma lost_renewal_fails:
  assumes "rep_order_of oid ow s = Inr r" and "ro_kind r \<noteq> ''purchase''" and "ro_status r = ''pending''"
    and "subscription ow (ro_buyer r) s = None"
  shows "\<exists>s' e. pay_rep_order w v ow oid user s = (s', Inl e)"
proof (rule ccontr)
  assume "\<not> ?thesis"
  then obtain s' y where paid: "pay_rep_order w v ow oid user s = (s', Inr y)" by (metis prod.collapse sum.exhaust)
  obtain k s1 s2 where "market_id w ''wlt'' s = (s1, Inr k)" and debit: "debit_rep_order w k ow r s1 = Inr (s2, ())"
    and run: "fulfil w v ow oid s2 = (s', Inr y)"
    using paid_orderD [OF paid assms(1,3)] by blast
  then have one: "rep_order_of oid ow s1 = Inr r" "mk_subs s1 = mk_subs s"
    using assms(1) by (auto simp: market_id_eq put_desk_def rep_order_of_def)
  show False
    using run debit_keeps [OF debit one(1)] one(2) assms(2,4)
    by (auto simp: fulfil_def looks_def peek_def subscription_def bad_def)
qed

lemma renewal_parts [simp]: "rep_order_of ''rpo_1'' ''o'' renewal_market = Inr sample_rep_order" "cu_till (mk_centre renewal_market) = sample_till"
    "subscription ''o'' 7 renewal_market = None" "pa_step (market_panel renewal_market) = 0"
  by (simp_all add: renewal_market_def rep_order_of_def sample_rep_order_def sample_market_def sample_centre_def subscription_def
      sample_shop_def shop_panel_def set_store_def sample_panel_def)

theorem failed_order_refunded_witness:
  "\<exists>s' e. pay_rep_order market_world sample_vault ''o'' ''rpo_1'' 7 renewal_market = (s', Inl e) \<and>
     balance ''o'' 7 (cu_till (mk_centre s')) = 700"
proof -
  have row: "ro_status sample_rep_order = ''pending''" "0 < ro_amount sample_rep_order" "ro_kind sample_rep_order \<noteq> ''purchase''"
    "ro_buyer sample_rep_order = 7"
    by (simp_all add: sample_rep_order_def)
  then obtain s' e where pay: "pay_rep_order market_world sample_vault ''o'' ''rpo_1'' 7 renewal_market = (s', Inl e)"
    using lost_renewal_fails [of "''rpo_1''" "''o''" renewal_market sample_rep_order market_world sample_vault 7] by auto
  have "calm market_world" by (simp add: calm_def market_world_def sample_world_def)
  moreover have "inj (wo_token market_world)" by (auto simp: market_world_def inj_def dest: arg_cong [of _ _ length])
  moreover have "''wlt_'' @ wo_token market_world n \<notin> wt_id ` set (tl_ledger sample_till)"
    "\<forall>x \<in> set (tl_ledger sample_till). wt_ref x \<noteq> ''representative:'' @ ''rpo_1'' \<and> wt_ref x \<noteq> ''refund:'' @ ''rpo_1''" for n
    by (simp_all add: sample_till_def wallet_entry_def)
  moreover have "balance ''o'' 7 sample_till = 700" by (simp add: balance_def sample_till_def wallet_key_def)
  ultimately have "balance ''o'' 7 (cu_till (mk_centre s')) = 700"
    using failed_order_refunded [OF pay, of sample_rep_order "''o''" 7] row by simp
  with pay show ?thesis by blast
qed

definition sample_sub :: rep_sub where
  "sample_sub = \<lparr>rs_owner = ''o'', rs_buyer = 7, rs_rep = ''r'', rs_plan = ''gold'', rs_status = ''active'', rs_started = 1, rs_expires = 50,
     rs_suspended = 0, rs_bot = True, rs_was_enabled = False, rs_last = ''rpo_0'', rs_updated = 1\<rparr>"

definition sold_market :: market where
  "sold_market = (put_desk sample_desk sample_market)\<lparr>mk_subs := [sample_sub],
     mk_bots := [\<lparr>tb_owner = ''r'', tb_enabled = True, tb_token = ''t'', tb_admin = 7, tb_updated = 1, tb_offset = 0, tb_error = []\<rparr>]\<rparr>"


definition selling_market :: market where
  "selling_market = put_desk ((desk_of sold_market)\<lparr>dk_panel := set_store ((store_of (market_panel sold_market))\<lparr>st_clients :=
     [new_client_row ''c'' ''r'' 1 1000 2000]\<rparr>) (market_panel sold_market)\<rparr>) sold_market"

lemma selling_parts: "st_clients (store_of (market_panel selling_market)) = [new_client_row ''c'' ''r'' 1 1000 2000]"
    "st_admins (store_of (market_panel selling_market)) = [sample_account ''o'' ''owner'', sample_account ''r'' ''reseller'']"
  by (simp_all add: selling_market_def sold_market_def put_desk_def set_store_def)

theorem second_purchase_closes_account_witness:
  "\<exists>a \<in> set (accounts (desk_of (cleanup_failed_new_rep ''r'' selling_market))). ad_id a = ''r'' \<and> ad_disabled a"
proof -
  let ?r = "sample_rep_order\<lparr>ro_rep := ''r''\<rparr>" and ?c = "new_client_row ''c'' ''r'' 1 1000 2000"
  have "sample_sub \<in> set (mk_subs selling_market)" "rs_rep sample_sub = ro_rep ?r"
    "?c \<in> set (st_clients (store_of (market_panel selling_market)))" "cl_owner ?c = ro_rep ?r"
    by (simp_all add: selling_market_def sold_market_def sample_sub_def put_desk_def set_store_def new_client_row_def)
  from second_purchase_closes_account [OF this]
  have "\<forall>a \<in> set (accounts (desk_of (cleanup_failed_new_rep ''r'' selling_market))). ad_id a = ''r'' \<and> ad_role a = ''reseller'' \<longrightarrow> ad_disabled a"
    by simp
  moreover have "(sample_account ''r'' ''reseller'')\<lparr>ad_disabled := True\<rparr>
      \<in> set (accounts (desk_of (cleanup_failed_new_rep ''r'' selling_market)))"
    using selling_parts by (simp add: cleanup_failed_new_rep_def Let_def new_client_row_def set_accounts_def set_store_def update_where_def)
  ultimately show ?thesis by (auto intro!: bexI [of _ "(sample_account ''r'' ''reseller'')\<lparr>ad_disabled := True\<rparr>"])
qed

end
