(* ===== verification/Owner_Safety.thy ===== *)
theory Owner_Safety
  imports Market_Safety
begin

text \<open>
  The panel always has an owner who can sign in: account names are unique and at least one owner account
  is not disabled, whatever is edited, sold, suspended, refunded or reconciled.
\<close>

section \<open>The frame\<close>

definition manned :: "desk \<Rightarrow> bool" where
  "manned d \<longleftrightarrow> pk ad_id (accounts d) \<and> live_owners d \<noteq> []"

definition keeps_owner :: "desk \<Rightarrow> desk \<Rightarrow> bool" where
  "keeps_owner d d' \<longleftrightarrow> (manned d \<longrightarrow> manned d')"

interpretation owner_frame: effect_frame keeps_owner
  by unfold_locales (auto simp: keeps_owner_def)

lemma same_owner: "accounts d' = accounts d \<Longrightarrow> keeps_owner d d'"
  by (simp add: keeps_owner_def manned_def live_owners_def)

lemma mapped_owner:
  assumes "accounts d' = map g (accounts d)" and "\<And>r. ad_id (g r) = ad_id r"
    and "\<And>r. r \<in> set (live_owners d) \<Longrightarrow> ad_role (g r) = ''owner'' \<and> \<not> ad_disabled (g r)"
  shows "keeps_owner d d'"
proof -
  have "pk ad_id (accounts d') = pk ad_id (accounts d)"
    using assms(1,2) by (simp add: pk_def o_def)
  moreover have "live_owners d' \<noteq> []" if "live_owners d \<noteq> []"
  proof -
    define r where "r = hd (live_owners d)"
    have "r \<in> set (live_owners d)" using hd_in_set [OF that] by (simp add: r_def)
    moreover have "r \<in> set (accounts d)" using calculation by (simp add: live_owners_def)
    ultimately have "g r \<in> set (live_owners d')" using assms(3) [of r] by (simp add: live_owners_def assms(1))
    then show ?thesis by force
  qed
  ultimately show ?thesis by (simp add: keeps_owner_def manned_def)
qed

lemma updated_owner:
  assumes "accounts d' = update_where P f (accounts d)" and "\<And>r. P r \<Longrightarrow> ad_id (f r) = ad_id r"
    and "\<And>r. P r \<Longrightarrow> ad_role (f r) = ad_role r \<and> (ad_disabled (f r) \<longrightarrow> ad_role r \<noteq> ''owner'' \<or> ad_disabled r)"
  shows "keeps_owner d d'"
  using assms(2,3) by (intro mapped_owner [OF assms(1) [unfolded update_where_def]]) (auto simp: live_owners_def)

lemma modified_owner:
  assumes "accounts d' = modify ad_id a f (accounts d)" and "\<And>r. ad_id (f r) = ad_id r \<and> ad_role (f r) = ad_role r"
    and "\<And>r. ad_disabled (f r) \<Longrightarrow> ad_disabled r"
  shows "keeps_owner d d'"
  using assms(2,3) by (intro updated_owner [OF assms(1) [unfolded modify_def]]) auto

lemma fewer_sellers:
  assumes "accounts d' = delete_where (\<lambda>r. ad_id r = a \<and> ad_role r = ''reseller'') (accounts d)"
  shows "keeps_owner d d'"
proof -
  have "live_owners d' = live_owners d"
    using assms by (auto simp: live_owners_def delete_where_def intro: filter_cong)
  then show ?thesis using assms by (simp add: keeps_owner_def manned_def pk_delete_where)
qed

lemma appended_owner: "accounts d' = accounts d @ [r] \<Longrightarrow> \<not> has_key ad_id (ad_id r) (accounts d) \<Longrightarrow> keeps_owner d d'"
  by (auto simp: keeps_owner_def manned_def pk_append live_owners_def)

lemma looks_owner: "keeps_owner d (fst (looks f d))"
  by (simp add: looks_def owner_frame.R_refl)

lemma at_desk_owner: "steady (dk_panel d) (fst (m (dk_panel d))) \<Longrightarrow> keeps_owner d (fst (at_desk m d))"
  by (rule same_owner) (simp add: steady_def)

lemma desk_token_owner: "keeps_owner d (fst (desk_token w d))"
  unfolding desk_token_def by (intro at_desk_owner fresh_token_steady)

lemmas owner_rules = owner_frame.bind_frame owner_frame.return_frame owner_frame.raise_frame owner_frame.read_frame
  owner_frame.alter_frame owner_frame.when_frame owner_frame.if_frame owner_frame.transaction_frame owner_frame.map_frame
  looks_owner desk_token_owner at_desk_owner simple_steady

section \<open>Accounts\<close>

lemma auth_parts [simp]: "accounts (set_auth f d) = accounts d" "accounts (set_mfa g d) = accounts d"
    "accounts (drop_sessions P d) = accounts d"
  by (simp_all add: set_auth_def set_mfa_def drop_sessions_def)

lemma insert_account_owner: "insert_account v a password role perms hashed d = Inr (d', u) \<Longrightarrow> keeps_owner d d'"
  by (rule appended_owner [of d' d "\<lparr>ad_id = a, ad_role = role, ad_password_hash = hashed, ad_permissions = perms, ad_disabled = False\<rparr>"])
    (auto simp: insert_account_def owner_profile_def set_store_def Let_def rbind_Inr insert_pk_Inr split: if_splits)

lemma create_owner: "keeps_owner d (fst (auth_admin_create v act a password role perms d))"
  unfolding auth_admin_create_def by (intro owner_rules) (rule insert_account_owner)

lemma bootstrap_owner: "keeps_owner d (fst (auth_bootstrap v a password d))"
proof -
  have "insert_first a h d = Inr (d', u) \<Longrightarrow> keeps_owner d d'" for h d d' u
    by (auto simp: insert_first_def keeps_owner_def manned_def live_owners_def split: if_splits)
  then show ?thesis unfolding auth_bootstrap_def by (intro owner_rules)
qed

text \<open>The guard of \<open>edit_account\<close>: the last owner is not disabled.\<close>

lemma switch_owner:
  assumes "account_of a d = Some r" and "\<not> (off \<and> ad_role r = ''owner'' \<and> length (live_owners d) \<le> 1)"
  shows "keeps_owner d (switch_account a off d)"
proof (cases off)
  case False
  show ?thesis
    by (rule modified_owner [where d' = "switch_account a off d" and a = a and f = "\<lambda>r. r\<lparr>ad_disabled := off\<rparr>"]) (simp_all add: False)
next
  case True
  have "manned (switch_account a off d)" if manned: "manned d"
  proof -
    have pk: "distinct (map ad_id (accounts d))" and some: "live_owners d \<noteq> []"
      using manned by (auto simp: manned_def pk_def)
    have live: "distinct (map ad_id (live_owners d))" using pk by (simp add: live_owners_def distinct_map_filter)
    have "\<exists>x \<in> set (live_owners d). ad_id x \<noteq> a"
    proof (cases "ad_role r = ''owner''")
      case True
      then obtain x y xs where "live_owners d = x # y # xs"
        using assms(2) \<open>off\<close> some by (cases "live_owners d"; cases "tl (live_owners d)") auto
      then show ?thesis using live by (cases "ad_id x = a") auto
    next
      case False
      obtain x where x: "x \<in> set (live_owners d)" using hd_in_set [OF some] by blast
      have "r \<in> set (accounts d)" "ad_id r = a"
        using assms(1) account_of_id lookup_Some_mem [of ad_id a "accounts d" r] by (auto simp: account_of_def admin_of_def)
      then have "ad_id x \<noteq> a" using x False pk by (auto simp: live_owners_def distinct_map inj_on_def)
      then show ?thesis using x by blast
    qed
    then obtain x where x: "x \<in> set (live_owners d)" "ad_id x \<noteq> a" by blast
    then have "x \<in> set (live_owners (switch_account a off d))"
      by (auto simp: live_owners_def modify_def update_where_def image_iff intro!: bexI [of _ x])
    moreover have "pk ad_id (accounts (switch_account a off d))" using manned by (simp add: pk_modify manned_def)
    ultimately show ?thesis by (auto simp: manned_def)
  qed
  then show ?thesis by (simp add: keeps_owner_def)
qed

lemma edit_account_owner:
  assumes "edit_account v a disabled password perms d = Inr (d', u)"
  shows "keeps_owner d d'"
proof -
  obtain r d1 d2 d3 where r: "account_of a d = Some r"
    and guard: "\<not> (disabled = Some True \<and> ad_role r = ''owner'' \<and> length (live_owners d) \<le> 1)"
    and d1: "d1 = d \<or> (\<exists>p. d1 = set_accounts (modify ad_id a (\<lambda>x. x\<lparr>ad_permissions := p\<rparr>)) d)"
    and d2: "d2 = (case disabled of None \<Rightarrow> d1 | Some off \<Rightarrow> switch_account a off d1)"
    and d3: "d3 = d2 \<or> (\<exists>h. d3 = set_accounts (modify ad_id a (\<lambda>x. x\<lparr>ad_password_hash := h\<rparr>)) d2)"
    and d': "d' = drop_sessions (\<lambda>x. se_admin x = a) d3"
    using edit_accountD [OF assms] by blast
  have one: "keeps_owner d d1" using d1 by (auto simp: owner_frame.R_refl intro: modified_owner)
  obtain r1 where r1: "account_of a d1 = Some r1" "ad_role r1 = ad_role r"
    using d1 r by (auto simp: account_of_def admin_of_def lookup_modify)
  have "length (live_owners d1) = length (live_owners d)"
    using d1 by (auto simp: live_owners_def modify_def update_where_def filter_map o_def if_distrib [of ad_role] if_distrib [of ad_disabled])
  then have "keeps_owner d1 d2"
    using d2 guard r1 by (cases disabled) (auto simp: owner_frame.R_refl intro: switch_owner)
  moreover have "keeps_owner d2 d3" using d3 by (auto simp: owner_frame.R_refl intro: modified_owner)
  moreover have "keeps_owner d3 d'" using d' by (simp add: same_owner)
  ultimately show ?thesis using one owner_frame.R_trans by meson
qed

lemma edit_owner: "keeps_owner d (fst (admin_edit v act a disabled password perms d))"
  unfolding admin_edit_def by (intro owner_rules) (rule edit_account_owner)

lemma password_owner: "keeps_owner d (fst (change_password v who old new d))"
  unfolding change_password_def
  by (intro owner_rules) (auto simp: rbind_Inr intro!: modified_owner split: if_splits)

section \<open>Requests\<close>

lemma keys_owner:
  "keeps_owner d (fst (new_key w who kname perms days d))" "keeps_owner d (fst (revoke_key who kid d))"
  "keeps_owner d (fst (revoke_session who public d))" "keeps_owner d (fst (revoke_other_sessions who d))"
proof -
  show "keeps_owner d (fst (new_key w who kname perms days d))"
    unfolding new_key_def Let_def by (intro owner_rules) (auto simp: rbind_Inr intro: same_owner split: if_splits)
  show "keeps_owner d (fst (revoke_key who kid d))"
    unfolding revoke_key_def by (intro owner_rules) (simp add: same_owner)
  show "keeps_owner d (fst (revoke_session who public d))"
    unfolding revoke_session_def interactive_def by (intro owner_rules) (auto simp: bad_def intro: same_owner split: list.splits)
  show "keeps_owner d (fst (revoke_other_sessions who d))"
    unfolding revoke_other_sessions_def interactive_def by (intro owner_rules) (auto intro: same_owner)
qed

lemma enroll_owner:
  assumes "enroll w v a code codes d = Inr (d', u)"
  shows "keeps_owner d d'"
proof -
  obtain r secret where r: "mfa_of a d = Some r" "mf_pending r \<noteq> [] \<and> \<not> mf_enabled r" "opened v (mf_pending r) = Inr secret"
    using assms by (auto simp: enroll_def rbind_Inr bad_def split: option.splits if_splits)
  then show ?thesis
    using assms
    by (cases "filter (\<lambda>k. totp v secret k = code) (near_steps (desk_clock w d))")
      (auto simp: enroll_def denied_def intro: same_owner)
qed

lemma factors_owner:
  "keeps_owner d (fst (mfa_setup w v who password d))" "keeps_owner d (fst (mfa_enable w v who code d))"
  "keeps_owner d (fst (mfa_disable w v who password code d))"
proof -
  show "keeps_owner d (fst (mfa_setup w v who password d))"
    unfolding mfa_setup_def by (intro owner_rules) (simp add: same_owner)
  show "keeps_owner d (fst (mfa_enable w v who code d))"
    unfolding mfa_enable_def by (intro owner_rules) (rule enroll_owner)
  show "keeps_owner d (fst (mfa_disable w v who password code d))"
    unfolding mfa_disable_def
    by (intro owner_rules) (auto simp: rbind_Inr bad_def intro: same_owner split: option.splits if_splits)
qed

lemma open_session_owner: "open_session w v bucket now row otp seconds source agent tok csrf d = Inr (d', u) \<Longrightarrow> keeps_owner d d'"
  by (rule same_owner)
    (auto simp: open_session_def check_second_factor_def Let_def rbind_Inr split: option.splits if_splits)

lemma login_owner: "keeps_owner d (fst (login w v u password otp source seconds agent d))"
  unfolding login_def Let_def
  by (intro owner_rules)
    (auto simp: count_attempt_def denied_def Let_def intro: same_owner open_session_owner split: if_splits option.splits)

lemma forgotten_owner: "keeps_owner d ((forget_account a d)\<lparr>dk_panel := forget_owner a (f (dk_panel (forget_account a d)))\<rparr>)"
  if "\<And>p. st_admins (store_of (f p)) = st_admins (store_of p)"
  by (rule fewer_sellers [where a = a]) (use that forget_account_parts(2) [of a d] in \<open>simp add: forget_owner_def set_store_def\<close>)

lemma adjust_admins: "adjust_resource_credit act a volume units event now s = Inr (s', b) \<Longrightarrow> st_admins s' = st_admins s"
  by (auto simp: adjust_resource_credit_def rbind_Inr Let_def split: option.splits if_splits)

lemma seller_owner:
  "keeps_owner d (fst (add_admin w v act a password role d))" "keeps_owner d (fst (representative_delete w act a d))"
  "keeps_owner d (fst (credit_adjust w act a volume units event d))"
proof -
  show "keeps_owner d (fst (add_admin w v act a password role d))"
    unfolding add_admin_def by (intro owner_rules create_owner)
  show "keeps_owner d (fst (representative_delete w act a d))"
    unfolding representative_delete_def Let_def by (intro owner_rules forgotten_owner) simp
  show "keeps_owner d (fst (credit_adjust w act a volume units event d))"
    unfolding credit_adjust_def
    by (intro owner_rules)
      (auto simp: on_part_def transaction_def steady_def set_store_def dest: adjust_admins split: sum.splits)
qed

lemma seller_edit_owner:
  assumes "calm w"
  shows "keeps_owner d (fst (representative_put w v act a f d))" and "keeps_owner d (fst (edit_admin w v act a disabled new_password d))"
proof -
  show "keeps_owner d (fst (representative_put w v act a f d))"
    unfolding representative_put_def by (intro owner_rules create_owner edit_owner owner_put_steady tick_steady assms)
  show "keeps_owner d (fst (edit_admin w v act a disabled new_password d))"
    unfolding edit_admin_def by (intro owner_rules edit_owner tick_steady assms)
qed

lemma recovery_owner:
  "keeps_owner d (fst (create_owner_account v a password d))" "keeps_owner d (fst (reset_owner_password v a password d))"
  "keeps_owner d (fst (revoke_owner_sessions a d))" "keeps_owner d (fst (revoke_owner_api_keys a d))"
  "keeps_owner d (fst (disable_owner_totp a d))"
proof -
  show "keeps_owner d (fst (create_owner_account v a password d))"
    unfolding create_owner_account_def
    by (intro owner_rules) (auto simp: insert_owner_def keeps_owner_def manned_def live_owners_def filter_empty_conv split: if_splits)
  show "keeps_owner d (fst (reset_owner_password v a password d))"
    unfolding reset_owner_password_def
    by (intro owner_rules) (auto simp: write_owner_password_def rbind_Inr intro!: modified_owner split: if_splits)
  show "keeps_owner d (fst (revoke_owner_sessions a d))"
    unfolding revoke_owner_sessions_def by (intro owner_rules) (auto simp: rbind_Inr intro: same_owner)
  show "keeps_owner d (fst (revoke_owner_api_keys a d))"
    unfolding revoke_owner_api_keys_def Let_def by (intro owner_rules) (auto simp: rbind_Inr intro: same_owner)
  show "keeps_owner d (fst (disable_owner_totp a d))"
    unfolding disable_owner_totp_def by (intro owner_rules) (auto simp: rbind_Inr intro: same_owner)
qed

lemma desk_step_owner: "desk_step l d d' \<Longrightarrow> keeps_owner d d'"
proof (induction rule: desk_step.induct)
  case (manager d p)
  then show ?case using manager_step_steady by (auto simp: steady_def intro: same_owner)
qed (rule login_owner keys_owner bootstrap_owner create_owner edit_owner password_owner factors_owner seller_owner
    recovery_owner seller_edit_owner, assumption?)+

section \<open>The shop and the centre\<close>

definition shop_steady :: "shop \<Rightarrow> shop \<Rightarrow> bool" where
  "shop_steady s t \<longleftrightarrow> steady (sh_panel s) (sh_panel t)"

interpretation shop_frame: effect_frame shop_steady
  by unfold_locales (auto simp: shop_steady_def steady_frame.R_refl intro: steady_frame.R_trans)

lemma same_shop: "sh_panel t = sh_panel s \<Longrightarrow> shop_steady s t"
  by (simp add: shop_steady_def steady_frame.R_refl)

lemma on_panel_steady: "steady (sh_panel s) (fst (m (sh_panel s))) \<Longrightarrow> shop_steady s (fst (on_panel m s))"
  by (auto simp: on_panel_def on_part_def shop_steady_def split: prod.splits)

lemma looks_shop: "shop_steady s (fst (looks f s))"
  by (simp add: looks_def shop_frame.R_refl)

lemma new_id_shop: "shop_steady s (fst (new_id w pre s))"
  unfolding new_id_def by (intro shop_frame.bind_frame on_panel_steady fresh_token_steady shop_frame.return_frame)

lemma catch_shop:
  "shop_steady s (fst (m s)) \<Longrightarrow> (\<And>t e. shop_steady s t \<Longrightarrow> shop_steady t (fst (h e t))) \<Longrightarrow> shop_steady s (fst (catch m h s))"
  by (auto split: prod.splits sum.splits intro: shop_frame.R_trans)

lemmas shop_rules = shop_frame.bind_frame shop_frame.return_frame shop_frame.raise_frame shop_frame.read_frame
  shop_frame.alter_frame shop_frame.when_frame shop_frame.if_frame shop_frame.transaction_frame looks_shop new_id_shop
  on_panel_steady simple_steady

lemma shop_parts [simp]: "sh_panel (set_order k f s) = sh_panel s" "sh_panel (set_payment k g s) = sh_panel s"
  by (simp_all add: set_order_def set_payment_def)

lemma catalogue_shop:
  "shop_steady s (fst (product_put w act b s))" "shop_steady s (fst (price_put w act product c s))"
  "shop_steady s (fst (gateway_put w seal act g s))" "shop_steady s (fst (create_simple_plan w ow d s))"
proof -
  show "shop_steady s (fst (product_put w act b s))"
    unfolding product_put_def shop_audit_def
    by (intro shop_rules) (auto simp: rbind_Inr write_product_def Let_def intro: same_shop)
  show "shop_steady s (fst (price_put w act product c s))"
    unfolding price_put_def shop_audit_def by (intro shop_rules) (auto simp: rbind_Inr write_price_def intro: same_shop)
  show "shop_steady s (fst (gateway_put w seal act g s))"
    unfolding gateway_put_def shop_audit_def by (intro shop_rules) (auto simp: write_gateway_def Let_def intro: same_shop)
  show "shop_steady s (fst (create_simple_plan w ow d s))"
    unfolding create_simple_plan_def case_prod_beta
    by (intro shop_rules) (auto simp: insert_plan_def rbind_Inr intro: same_shop)
qed

lemma create_order_shop: "shop_steady s (fst (create_order w ow buyer username product price selected s))"
  unfolding create_order_def by (intro shop_rules) (auto elim!: insert_orderD intro: same_shop)

lemma begin_payment_shop: "begin_payment w pid ow oid gateway s = Inr (t, x) \<Longrightarrow> shop_steady s t"
  by (rule same_shop) (erule begin_paymentD, simp)

lemma start_payment_shop: "shop_steady s (fst (start_payment w ow oid gateway s))"
  unfolding start_payment_def by (intro shop_rules) (rule begin_payment_shop)

lemma payments_shop:
  "shop_steady s (fst (record_receipt w ow buyer reference s))" "shop_steady s (fst (reject_payment w ow row s))"
proof -
  show "shop_steady s (fst (record_receipt w ow buyer reference s))"
    unfolding record_receipt_def
    by (intro shop_rules) (auto simp: bad_def Let_def intro: same_shop split: option.splits)
  show "shop_steady s (fst (reject_payment w ow row s))"
    unfolding reject_payment_def by (intro shop_rules) (simp add: Let_def same_shop)
qed

lemma provision_shop:
  assumes "calm w"
  shows "shop_steady s (fst (provision_order w oid s))"
proof -
  have "steady p (fst (deliver_order w act c r now p))" for act c r now p
    unfolding deliver_order_def
  proof (intro steady_frame.bind_frame simple_steady, goal_cases)
    case (1 q found)
    show ?case
    proof (cases found)
      case None
      then show ?thesis by (simp del: ebind.simps) (intro steady_rules create_client_steady assms)
    next
      case (Some x)
      then show ?thesis by (cases x) (auto intro: steady_rules reconcile_client_steady assms)
    qed
  qed
  then show ?thesis
    unfolding provision_order_def Let_def
    by (intro shop_rules catch_shop) (auto simp: note_fulfillment_error_def finish_order_def intro: same_shop)
qed

lemma confirm_shop:
  assumes "calm w"
  shows "shop_steady s (fst (confirm_payment w ow oid reference s))" and "shop_steady s (fst (approve_payment w ow row s))"
proof -
  have pay: "shop_steady s (pay_order k x now s)" for k x now s
    by (rule same_shop) (simp add: pay_order_def Let_def split: option.splits)
  have confirm: "shop_steady s (fst (confirm_payment w ow k x s))" for k x s
    unfolding confirm_payment_def by (intro shop_rules catch_shop pay provision_shop assms)
  then show "shop_steady s (fst (confirm_payment w ow oid reference s))" .
  show "shop_steady s (fst (approve_payment w ow row s))"
    unfolding approve_payment_def by (intro shop_rules confirm)
qed

lemma shop_step_steady: "shop_step calm (\<lambda>_ _. False) s t \<Longrightarrow> shop_steady s t"
  by (induction rule: shop_step.induct)
    (simp_all add: catalogue_shop create_order_shop start_payment_shop payments_shop provision_shop confirm_shop)

definition centre_steady :: "centre \<Rightarrow> centre \<Rightarrow> bool" where
  "centre_steady s t \<longleftrightarrow> shop_steady (cu_shop s) (cu_shop t)"

interpretation centre_frame: effect_frame centre_steady
  by unfold_locales (auto simp: centre_steady_def shop_frame.R_refl intro: shop_frame.R_trans)

lemma same_centre: "sh_panel (cu_shop t) = sh_panel (cu_shop s) \<Longrightarrow> centre_steady s t"
  by (simp add: centre_steady_def same_shop)

lemma on_shop_steady: "shop_steady (cu_shop s) (fst (m (cu_shop s))) \<Longrightarrow> centre_steady s (fst (on_shop m s))"
  by (auto simp: on_shop_def on_part_def centre_steady_def split: prod.splits)

lemma looks_centre: "centre_steady s (fst (looks f s))"
  by (simp add: looks_def centre_frame.R_refl)

lemma centre_id_steady: "centre_steady s (fst (centre_id w pre s))"
  unfolding centre_id_def by (intro on_shop_steady new_id_shop)

lemma catch_centre:
  "centre_steady s (fst (m s)) \<Longrightarrow> (\<And>t e. centre_steady s t \<Longrightarrow> centre_steady t (fst (h e t))) \<Longrightarrow>
    centre_steady s (fst (catch m h s))"
  by (auto split: prod.splits sum.splits intro: centre_frame.R_trans)

lemmas centre_rules = centre_frame.bind_frame centre_frame.return_frame centre_frame.raise_frame centre_frame.read_frame
  centre_frame.alter_frame centre_frame.when_frame centre_frame.if_frame centre_frame.transaction_frame looks_centre centre_id_steady
  on_shop_steady on_panel_steady looks_shop

lemma centre_shop_parts [simp]: "cu_shop (ensure_settings w ow s) = cu_shop s" "cu_shop (set_topup k f s) = cu_shop s"
  "cu_shop (set_referral ow user h s) = cu_shop s" "cu_shop (set_ticket k g s) = cu_shop s" "cu_shop (set_till t s) = cu_shop s"
  by (simp_all add: ensure_settings_def set_topup_def set_referral_def set_ticket_def set_till_def)

lemma till_steady:
  "centre_steady s (fst (set_referral_reward w ow amount s))" "centre_steady s (fst (wallet w ow user s))"
  "centre_steady s (fst (create_topup w ow user username amount s))" "centre_steady s (fst (record_topup_receipt w ow user ref s))"
  "centre_steady s (fst (approve_topup w ow row s))" "centre_steady s (fst (reject_topup w ow row s))"
proof -
  show "centre_steady s (fst (set_referral_reward w ow amount s))"
    unfolding set_referral_reward_def by (intro centre_rules) (auto intro: same_centre)
  show "centre_steady s (fst (wallet w ow user s))"
    unfolding wallet_def by (intro centre_rules) (simp add: same_centre)
  show "centre_steady s (fst (create_topup w ow user username amount s))"
    unfolding create_topup_def by (intro centre_rules) (auto simp: insert_topup_def rbind_Inr intro: same_centre)
  show "centre_steady s (fst (record_topup_receipt w ow user ref s))"
    unfolding record_topup_receipt_def by (intro centre_rules) (simp add: same_centre)
  show "centre_steady s (fst (approve_topup w ow row s))"
    unfolding approve_topup_def
    by (intro centre_rules) (auto simp: credit_topup_def rbind_Inr intro: same_centre split: if_splits)
  show "centre_steady s (fst (reject_topup w ow row s))"
    unfolding reject_topup_def by (intro centre_rules) (simp add: same_centre)
qed

lemma draw_code_steady: "centre_steady s (fst (draw_code n w ow s))"
proof (induction n arbitrary: s)
  case 0
  show ?case unfolding draw_code.simps by (rule centre_frame.raise_frame)
next
  case (Suc n)
  show ?case unfolding draw_code.simps by (intro centre_rules fresh_token_steady Suc.IH)
qed

lemma referrals_steady:
  "centre_steady s (fst (ensure_referral_profile fuel w ow user s))" "centre_steady s (fst (register_referral fuel w ow user code s))"
  "centre_steady s (fst (qualify_referral w ow user s))" "centre_steady s (fst (referral_stats fuel w ow user s))"
proof -
  have profile: "centre_steady s (fst (ensure_referral_profile fuel w ow user s))" for s
    unfolding ensure_referral_profile_def by (intro centre_rules draw_code_steady) (simp add: same_centre)
  then show "centre_steady s (fst (ensure_referral_profile fuel w ow user s))" .
  show "centre_steady s (fst (register_referral fuel w ow user code s))"
    unfolding register_referral_def
    by (intro centre_rules profile) (auto simp: refer_def Let_def intro: same_centre split: option.splits if_splits)
  show "centre_steady s (fst (qualify_referral w ow user s))"
    unfolding qualify_referral_def
    by (intro centre_rules) (auto simp: reward_referral_def rbind_Inr intro: same_centre split: option.splits if_splits)
  show "centre_steady s (fst (referral_stats fuel w ow user s))"
    unfolding referral_stats_def by (intro centre_rules profile) (simp add: same_centre)
qed

lemma charge_order_steady: "charge_order w wid pid kind ref r s = Inr s' \<Longrightarrow> centre_steady s s'"
  by (auto simp: charge_order_def rbind_Inr intro: same_centre split: if_splits)

lemma pay_purchase_steady: "calm w \<Longrightarrow> centre_steady s (fst (pay_purchase w ow oid s))"
  unfolding pay_purchase_def
  by (intro centre_rules referrals_steady provision_shop)
    (auto simp: debit_purchase_def rbind_Inr dest: charge_order_steady split: if_splits)

lemma renewal_order_steady: "centre_steady s (fst (create_renewal_order w ow user username c price s))"
  unfolding create_renewal_order_def by (intro centre_rules) (auto simp: rbind_Inr intro: same_centre)

lemma renew_service_steady: "calm w \<Longrightarrow> centre_steady s (fst (renew_service w r s))"
proof -
  have "centre_steady s (fst (fix_target w r d s))" for d s
    unfolding fix_target_def by (intro centre_rules) (auto intro: same_centre)
  then show "calm w \<Longrightarrow> centre_steady s (fst (renew_service w r s))"
    unfolding renew_service_def Let_def
    by (intro centre_rules update_client_steady client_action_steady) (auto intro: same_centre)
qed

lemma pay_renewal_steady: "calm w \<Longrightarrow> centre_steady s (fst (pay_renewal w ow oid s))"
  unfolding pay_renewal_def
  by (intro centre_rules catch_centre renew_service_steady)
    (auto simp: debit_renewal_def rbind_Inr note_fulfillment_error_def alter_def centre_frame.R_refl intro: same_shop
      dest: charge_order_steady split: if_splits)

lemma tickets_steady:
  "centre_steady s (fst (create_ticket w ow user username subject s))"
  "centre_steady s (fst (add_ticket_message w ow k sender user words kind file s))" "centre_steady s (fst (close_ticket w ow k s))"
proof -
  show "centre_steady s (fst (create_ticket w ow user username subject s))"
    unfolding create_ticket_def by (intro centre_rules) (auto simp: rbind_Inr intro: same_centre)
  show "centre_steady s (fst (add_ticket_message w ow k sender user words kind file s))"
    unfolding add_ticket_message_def Let_def by (intro centre_rules) (auto simp: rbind_Inr intro: same_centre)
  show "centre_steady s (fst (close_ticket w ow k s))"
    unfolding close_ticket_def by (intro centre_rules) (simp add: same_centre)
qed

lemma centre_step_steady: "centre_step calm s t \<Longrightarrow> centre_steady s t"
  by (induction rule: centre_step.induct)
    (auto simp: till_steady referrals_steady pay_purchase_steady renewal_order_steady pay_renewal_steady tickets_steady
      centre_steady_def [of s "s\<lparr>cu_shop := x\<rparr>" for s x] shop_step_steady)

section \<open>The marketplace\<close>

definition market_owner :: "market \<Rightarrow> market \<Rightarrow> bool" where
  "market_owner s t \<longleftrightarrow> keeps_owner (desk_of s) (desk_of t)"

interpretation market_owner_frame: effect_frame market_owner
  by unfold_locales (auto simp: market_owner_def owner_frame.R_refl intro: owner_frame.R_trans)

lemma same_market: "market_panel t = market_panel s \<Longrightarrow> market_owner s t"
  by (simp add: market_owner_def same_owner)

lemma on_desk_owner: "keeps_owner (desk_of s) (fst (m (desk_of s))) \<Longrightarrow> market_owner s (fst (on_desk m s))"
  by (auto simp: on_desk_def on_part_def market_owner_def split: prod.splits)

lemma on_desk_steady: "steady (market_panel s) (fst (m (market_panel s))) \<Longrightarrow> market_owner s (fst (on_desk (at_desk m) s))"
  by (intro on_desk_owner at_desk_owner) simp

lemma looks_market: "market_owner s (fst (looks f s))"
  by (simp add: looks_def market_owner_frame.R_refl)

lemma catch_market:
  "market_owner s (fst (m s)) \<Longrightarrow> (\<And>t e. market_owner s t \<Longrightarrow> market_owner t (fst (h e t))) \<Longrightarrow>
    market_owner s (fst (catch m h s))"
  by (auto split: prod.splits sum.splits intro: market_owner_frame.R_trans)

lemma market_token_owner: "market_owner s (fst (market_token w s))"
  unfolding market_token_def by (intro on_desk_owner desk_token_owner)

lemmas market_owner_rules = market_owner_frame.bind_frame market_owner_frame.return_frame market_owner_frame.raise_frame
  market_owner_frame.read_frame market_owner_frame.alter_frame market_owner_frame.when_frame market_owner_frame.if_frame
  market_owner_frame.transaction_frame looks_market on_desk_steady simple_steady market_token_owner

lemma market_id_owner: "market_owner s (fst (market_id w pre s))"
  unfolding market_id_def by (intro market_owner_rules)

lemma plans_owner: "market_owner s (fst (plan_put w act k b s))" "market_owner s (fst (plan_delete w act k s))"
proof -
  show "market_owner s (fst (plan_put w act k b s))"
    unfolding plan_put_def owner_only_def save_plan_def require_primary_owner_def
    by (intro market_owner_rules) (simp add: same_market)
  show "market_owner s (fst (plan_delete w act k s))"
    unfolding plan_delete_def owner_only_def delete_or_archive_plan_def require_primary_owner_def
    by (intro market_owner_rules) (auto simp: remove_plan_def bad_def intro!: same_market split: option.splits if_splits)
qed

lemma free_rep_owner: "market_owner s (fst (free_rep n w existing base rid s))"
proof (induction n arbitrary: rid s)
  case 0
  show ?case unfolding free_rep.simps by (intro market_owner_rules)
next
  case (Suc n)
  show ?case unfolding free_rep.simps by (intro market_owner_rules Suc.IH)
qed

lemma insert_rep_order_owner:
  "insert_rep_order w oid ow user username p kind rid password s = Inr (s', u) \<Longrightarrow> market_owner s s'"
  by (auto simp: insert_rep_order_def rbind_Inr intro: same_market)

lemma create_rep_order_owner: "market_owner s (fst (create_rep_order fuel w v ow user username row kind s))"
  unfolding create_rep_order_def rep_credentials_def require_primary_owner_def case_prod_beta
  by (intro market_owner_rules market_id_owner free_rep_owner) (rule insert_rep_order_owner)

lemma disabled_seller:
  "market_owner s (put_desk (set_accounts (update_where (\<lambda>r. ad_id r = rid \<and> ad_role r = ''reseller'') (\<lambda>r. r\<lparr>ad_disabled := True\<rparr>))
     (desk_of s)) s)"
proof -
  have "keeps_owner (desk_of s) (set_accounts (update_where (\<lambda>r. ad_id r = rid \<and> ad_role r = ''reseller'') (\<lambda>r. r\<lparr>ad_disabled := True\<rparr>))
      (desk_of s))"
    by (rule updated_owner, subst set_accounts_parts(2), rule refl) auto
  then show ?thesis by (simp add: market_owner_def)
qed

lemma suspend_owner: "market_owner s (suspend now sub s)"
  unfolding market_owner_def
  by (rule updated_owner [where f = "\<lambda>r. r\<lparr>ad_disabled := True\<rparr>" and P = "\<lambda>r. ad_id r = rs_rep sub \<and> ad_role r = ''reseller''"])
    simp_all

lemma sweep_owner: "market_owner s (fst (sweep_expired w force s))"
proof -
  have "market_owner t (fold (suspend now) xs t)" for now xs t
    by (induction xs arbitrary: t)
      (auto simp: market_owner_frame.R_refl intro: market_owner_frame.R_trans [OF suspend_owner])
  then have "market_owner (t\<lparr>mk_sweep := now\<rparr>) (sweep_at now t)" for now t by (simp add: sweep_at_def)
  moreover have "market_owner t (t\<lparr>mk_sweep := now\<rparr>)" for now t by (simp add: same_market)
  ultimately have "market_owner t (sweep_at now t)" for now t using market_owner_frame.R_trans by blast
  then show ?thesis
    unfolding sweep_expired_def by (intro market_owner_rules) (simp add: Let_def market_owner_frame.R_refl)
qed

lemma desk_of_bots: "desk_of (s\<lparr>mk_bots := b\<rparr>) = desk_of s"
  by (simp add: desk_of_def)

lemma cleanup_owner: "market_owner s (cleanup_failed_new_rep rid s)"
proof -
  have "keeps_owner (desk_of s) ((forget_account rid (desk_of s))\<lparr>dk_panel := forget_owner rid (dk_panel (forget_account rid (desk_of s)))\<rparr>)"
    using forgotten_owner [of "\<lambda>p. p" "desk_of s" rid] by simp
  then have "market_owner s ((put_desk ((forget_account rid (desk_of s))\<lparr>dk_panel :=
      forget_owner rid (dk_panel (forget_account rid (desk_of s)))\<rparr>) s)\<lparr>mk_bots := bots\<rparr>)" for bots
    by (simp add: market_owner_def desk_of_bots)
  then show ?thesis
    using disabled_seller by (simp add: cleanup_failed_new_rep_def Let_def market_owner_frame.R_refl)
qed

lemma enable_owner: "market_owner s (enable_account rid s)"
proof -
  have "keeps_owner (desk_of s) (set_accounts (modify ad_id rid (\<lambda>r. r\<lparr>ad_disabled := False\<rparr>)) (desk_of s))"
    by (rule modified_owner, subst set_accounts_parts(2), rule refl) auto
  then show ?thesis by (simp add: market_owner_def enable_account_def)
qed

lemma start_owner: "start_subscription ow r now s = Inr (s', u) \<Longrightarrow> market_owner s s'"
  using enable_owner [of s "ro_rep r"]
  by (auto simp: start_subscription_def Let_def rbind_Inr set_rep_order_def market_owner_def desk_of_def split: if_splits)

lemma extend_owner: "market_owner s (extend_subscription ow r sub now s)"
  using enable_owner [of s "ro_rep r"]
  by (simp add: extend_subscription_def Let_def set_rep_order_def market_owner_def desk_of_def)

lemma fulfil_owner:
  assumes "calm w"
  shows "market_owner s (fst (fulfil w v ow oid s))"
proof -
  have policy: "market_owner s (fst (apply_policy w ow rid t s))" for rid t s
    unfolding apply_policy_def by (intro market_owner_rules owner_put_steady assms)
  have account: "market_owner s (fst (open_account v ow r s))" for r s
    unfolding open_account_def by (intro market_owner_rules on_desk_owner create_owner)
  show ?thesis
    unfolding fulfil_def
    by (intro market_owner_rules policy account sweep_owner extend_owner) (rule start_owner)
qed

lemma pay_rep_order_owner:
  assumes "calm w"
  shows "market_owner s (fst (pay_rep_order w v ow oid user s))"
  unfolding pay_rep_order_def
  by (intro market_owner_rules market_id_owner catch_market fulfil_owner cleanup_owner assms)
    (auto simp: debit_rep_order_def refund_rep_order_def rbind_Inr set_rep_order_def set_till_def intro: same_market)

lemma rest_owner:
  "market_owner s (fst (mark_credentials_delivered w ow oid s))" "market_owner s (fst (market_summary w act s))"
  "market_owner s (fst (telegram_settings_put w v act b s))"
proof -
  show "market_owner s (fst (mark_credentials_delivered w ow oid s))"
    unfolding mark_credentials_delivered_def by (intro market_owner_rules) (simp add: same_market)
  show "market_owner s (fst (market_summary w act s))"
    unfolding market_summary_def owner_only_def by (intro market_owner_rules sweep_owner)
  have "write_bot w v ow b t = Inr (t', u) \<Longrightarrow> market_owner t t'" for ow t t' u
    by (auto simp: write_bot_def Let_def intro: same_market split: if_split_asm)
  then show "market_owner s (fst (telegram_settings_put w v act b s))"
    unfolding telegram_settings_put_def by (intro market_owner_rules)
qed

section \<open>Any sequence of operations\<close>

lemma market_step_owner: "market_step calm (\<lambda>d d'. \<exists>l. desk_step l d d') s t \<Longrightarrow> market_owner s t"
proof (induction rule: market_step.induct)
  case (centre s c)
  then have "steady (market_panel s) (sh_panel (cu_shop c))"
    using centre_step_steady by (auto simp: centre_steady_def shop_steady_def)
  then show ?case by (auto simp: market_owner_def steady_def intro: same_owner)
next
  case (desk s d)
  then show ?case using desk_step_owner by (auto simp: market_owner_def)
qed (simp_all add: plans_owner create_rep_order_owner pay_rep_order_owner sweep_owner rest_owner)

text \<open>
  C36. Account names are unique and somebody can always sign in as an owner: no sequence of sign-ins,
  account edits, deletions, Manager, shop and wallet operations, sales, refunds and suspensions of
  representatives disables or removes the last owner, and none creates an account of a taken name.
\<close>

theorem always_an_owner:
  assumes "(market_step calm (\<lambda>d d'. \<exists>l. desk_step l d d'))\<^sup>*\<^sup>* s t"
    and "distinct (map ad_id (accounts (desk_of s)))" and "live_owners (desk_of s) \<noteq> []"
  shows "distinct (map ad_id (accounts (desk_of t))) \<and> (\<exists>r \<in> set (accounts (desk_of t)). ad_role r = ''owner'' \<and> \<not> ad_disabled r)"
proof -
  have "market_owner s t"
    using assms(1)
    by (induction rule: rtranclp_induct) (auto intro: market_owner_frame.R_refl market_owner_frame.R_trans market_step_owner)
  then have "manned (desk_of t)"
    using assms(2,3) by (simp add: market_owner_def keeps_owner_def manned_def pk_def)
  then show ?thesis by (auto simp: manned_def pk_def live_owners_def filter_empty_conv)
qed

text \<open>The owner of \<open>sample_desk\<close> tries to disable the only owner account, which is its own.\<close>

theorem always_an_owner_witness:
  "\<exists>r \<in> set (accounts (fst (admin_edit sample_vault \<lparr>a_id = ''o'', a_role = ''owner'', a_permissions = []\<rparr> ''o'' (Some True) None None
      sample_desk))). ad_role r = ''owner'' \<and> \<not> ad_disabled r"
proof -
  let ?d = "fst (admin_edit sample_vault \<lparr>a_id = ''o'', a_role = ''owner'', a_permissions = []\<rparr> ''o'' (Some True) None None sample_desk)"
  let ?s = "put_desk sample_desk sample_market"
  have "desk_step None (desk_of ?s) ?d" by (simp add: desk_step.edit)
  then have "market_step calm (\<lambda>d d'. \<exists>l. desk_step l d d') ?s (put_desk ?d ?s)"
    by (intro market_step.desk) (rule exI)
  moreover have "distinct (map ad_id (accounts (desk_of ?s)))" "live_owners (desk_of ?s) \<noteq> []"
    by (simp_all add: live_owners_def)
  ultimately show ?thesis
    using always_an_owner [OF r_into_rtranclp [of "market_step calm (\<lambda>d d'. \<exists>l. desk_step l d d')"], of ?s "put_desk ?d ?s"]
    by simp
qed

end
